(* ===== verification/Sj_Prelude.thy ===== *)
theory Sj_Prelude
  imports Main "HOL-Library.Word" "HOL-Library.Sublist"
begin

text \<open>
  The prelude of the development: what the C++ of \<^verbatim>\<open>sjasm/\<close> takes from the language.

  \<^item> \<^bold>\<open>Integers.\<close> \<open>aint\<close> (\<^verbatim>\<open>using aint = int32_t\<close>, sjdefs.h) is modelled by \<open>int\<close>; every
    arithmetic operation of the source that may leave the 32-bit range is followed by
    \<open>wrap32\<close>, the two's complement wrap-around. \<open>in32\<close> is the type invariant.
  \<^item> \<^bold>\<open>Text.\<close> A \<^verbatim>\<open>char*\<close> that walks over a zero-terminated line is the \<^emph>\<open>remaining text\<close>, a
    \<open>string\<close>; the terminator is the end of the list, and \<open>cur\<close>/\<open>chr_at\<close> read it as the
    zero character. Moving the pointer forward is dropping a prefix, so two pointers into the same
    line are equal exactly when the remaining texts are, and "the pointer only moves forward" is
    \<open>suffix p' p\<close>.
  \<^item> \<^bold>\<open>ctype.\<close> \<open>isalpha\<close>, \<open>isdigit\<close>, \<open>toupper\<close>, ... in the C locale, on 8-bit characters.
\<close>

unbundle bit_operations_syntax

named_theorems sfx \<open>rules saying that a lexing function returns a suffix of its input\<close>
named_theorems ctype \<open>unfolding of the C character classes\<close>

section \<open>32-bit integers\<close>

type_synonym aint = int

definition wrap32 :: "int \<Rightarrow> aint" where
  "wrap32 x = signed_take_bit 31 x"

definition in32 :: "int \<Rightarrow> bool" where
  "in32 x \<longleftrightarrow> - 2147483648 \<le> x \<and> x \<le> 2147483647"

text \<open>The unsigned reading of a 32-bit value (\<^verbatim>\<open>static_cast<uint32_t>\<close>).\<close>

definition u32 :: "aint \<Rightarrow> int" where
  "u32 x = x mod 4294967296"

lemma wrap32_eq_mod: "wrap32 x = (x + 2147483648) mod 4294967296 - 2147483648"
  by (simp add: wrap32_def signed_take_bit_eq_take_bit_shift take_bit_eq_mod)

lemma in32_wrap32 [simp, intro]: "in32 (wrap32 x)"
proof -
  have "0 \<le> (x + 2147483648) mod 4294967296" "(x + 2147483648) mod 4294967296 < 4294967296"
    by simp_all
  then show ?thesis by (simp add: in32_def wrap32_eq_mod)
qed

lemma wrap32_id [simp]: "in32 x \<Longrightarrow> wrap32 x = x"
  by (simp add: in32_def wrap32_eq_mod)

lemma wrap32_0 [simp]: "wrap32 0 = 0"
  by (simp add: in32_def)

lemma wrap32_idem [simp]: "wrap32 (wrap32 x) = wrap32 x"
  by simp

lemma wrap32_cong_mod: "x mod 4294967296 = y mod 4294967296 \<Longrightarrow> wrap32 x = wrap32 y"
  by (simp add: wrap32_eq_mod) (metis mod_add_left_eq)

lemma wrap32_mod [simp]: "wrap32 x mod 4294967296 = x mod 4294967296"
  by (simp add: wrap32_eq_mod mod_simps)

lemma u32_wrap32 [simp]: "u32 (wrap32 x) = x mod 4294967296"
  by (simp add: u32_def)

lemma wrap32_u32 [simp]: "wrap32 (u32 x) = wrap32 x"
  by (rule wrap32_cong_mod) (simp add: u32_def)

lemma u32_nonneg [simp]: "0 \<le> u32 x" and u32_less [simp]: "u32 x < 4294967296"
  by (simp_all add: u32_def)

lemma wrap32_add_wrap32_left [simp]: "wrap32 (wrap32 x + y) = wrap32 (x + y)"
  by (rule wrap32_cong_mod) (metis mod_add_left_eq wrap32_mod)

lemma wrap32_mult_wrap32_left [simp]: "wrap32 (wrap32 x * y) = wrap32 (x * y)"
  by (rule wrap32_cong_mod) (metis mod_mult_left_eq wrap32_mod)

lemma wrap32_mult_add [simp]: "wrap32 (wrap32 x * b + d) = wrap32 (x * b + d)"
  by (rule wrap32_cong_mod) (metis mod_add_left_eq mod_mult_left_eq wrap32_mod)

lemma in32_small: "0 \<le> x \<Longrightarrow> x \<le> 65535 \<Longrightarrow> in32 x"
  by (simp add: in32_def)

text \<open>\<^verbatim>\<open>val & 255\<close> and \<^verbatim>\<open>val & 0xFFFF\<close> on a two's complement integer.\<close>

lemma and_255: "(x::int) AND 255 = x mod 256"
  using take_bit_eq_mask [of 8 x] by (simp add: take_bit_eq_mod mask_eq_exp_minus_1)

lemma and_65535: "(x::int) AND 65535 = x mod 65536"
  using take_bit_eq_mask [of 16 x] by (simp add: take_bit_eq_mod mask_eq_exp_minus_1)

lemma and_255_range [simp]: "0 \<le> (x::int) AND 255" "(x::int) AND 255 < 256" "(x::int) AND 255 \<le> 255"
  using pos_mod_bound [of 256 x] by (simp_all add: and_255)

section \<open>Characters\<close>

abbreviation NUL :: char where "NUL \<equiv> CHR 0x00"

definition ord :: "char \<Rightarrow> int" where
  "ord c = of_char c"

definition isdigit :: "char \<Rightarrow> bool" where
  [ctype]: "isdigit c \<longleftrightarrow> 48 \<le> ord c \<and> ord c \<le> 57"

definition isupper :: "char \<Rightarrow> bool" where
  [ctype]: "isupper c \<longleftrightarrow> 65 \<le> ord c \<and> ord c \<le> 90"

definition islower :: "char \<Rightarrow> bool" where
  [ctype]: "islower c \<longleftrightarrow> 97 \<le> ord c \<and> ord c \<le> 122"

definition isalpha :: "char \<Rightarrow> bool" where
  [ctype]: "isalpha c \<longleftrightarrow> isupper c \<or> islower c"

definition isalnum :: "char \<Rightarrow> bool" where
  [ctype]: "isalnum c \<longleftrightarrow> isalpha c \<or> isdigit c"

text \<open>\<^verbatim>\<open>c | 0x20\<close>: sets bit 5, the ASCII lower-casing trick the source uses everywhere.\<close>

fun or20 :: "char \<Rightarrow> char" where
  "or20 (Char b0 b1 b2 b3 b4 b5 b6 b7) = Char b0 b1 b2 b3 b4 True b6 b7"

fun clear20 :: "char \<Rightarrow> char" where
  "clear20 (Char b0 b1 b2 b3 b4 b5 b6 b7) = Char b0 b1 b2 b3 b4 False b6 b7"

definition toupper :: "char \<Rightarrow> char" where
  "toupper c = (if islower c then clear20 c else c)"

definition tolower :: "char \<Rightarrow> char" where
  "tolower c = (if isupper c then or20 c else c)"

lemma ord_mod_256: "ord c mod 256 = ord c"
  by (simp add: ord_def)

lemma ord_bounds [simp]: "0 \<le> ord c" "ord c < 256"
  using ord_mod_256 [of c] by (metis pos_mod_sign pos_mod_bound zero_less_numeral)+

lemma ord_eq_iff: "ord c = ord d \<longleftrightarrow> c = d"
  by (simp add: ord_def)

lemma ord_and_255 [simp]: "ord c AND 255 = ord c"
  by (simp add: and_255 ord_mod_256)

lemma ctype_NUL [simp]: "\<not> isalnum NUL" "\<not> isalpha NUL" "\<not> isdigit NUL" "\<not> isupper NUL" "\<not> islower NUL"
  by (simp_all add: ctype ord_def)

section \<open>Zero-terminated text\<close>

definition cur :: "string \<Rightarrow> char" where
  "cur p = (case p of [] \<Rightarrow> NUL | c # _ \<Rightarrow> c)"

definition chr_at :: "string \<Rightarrow> nat \<Rightarrow> char" where
  "chr_at p n = cur (drop n p)"

lemma cur_simps [simp]: "cur [] = NUL" "cur (c # p) = c"
  by (simp_all add: cur_def)

lemma chr_at_simps [simp]:
  "chr_at p 0 = cur p" "chr_at [] n = NUL" "chr_at (c # p) (Suc n) = chr_at p n"
  by (simp_all add: chr_at_def)

lemma chr_at_numeral [simp]: "chr_at (c # p) (numeral n) = chr_at p (pred_numeral n)"
  by (simp add: chr_at_def numeral_eq_Suc)

text \<open>A C string holds no zero character; \<open>cstr\<close> is that well-formedness of the modelled texts.\<close>

definition cstr :: "string \<Rightarrow> bool" where
  "cstr p \<longleftrightarrow> NUL \<notin> set p"

lemma cstr_simps [simp]: "cstr []" "cstr (c # p) \<longleftrightarrow> c \<noteq> NUL \<and> cstr p" "cstr (p @ q) \<longleftrightarrow> cstr p \<and> cstr q"
  by (auto simp: cstr_def)

lemma cstr_suffix: "suffix p q \<Longrightarrow> cstr q \<Longrightarrow> cstr p"
  using set_mono_suffix by (fastforce simp: cstr_def)

section \<open>printf conversions\<close>

definition hex_digit :: "nat \<Rightarrow> char" where
  "hex_digit d = ''0123456789ABCDEF'' ! (d mod 16)"

fun dec_digits :: "nat \<Rightarrow> string" where
  "dec_digits n = (if n < 10 then [hex_digit n] else dec_digits (n div 10) @ [hex_digit (n mod 10)])"

fun hex_digits :: "nat \<Rightarrow> string" where
  "hex_digits n = (if n < 16 then [hex_digit n] else hex_digits (n div 16) @ [hex_digit (n mod 16)])"

declare dec_digits.simps [simp del] hex_digits.simps [simp del]

text \<open>\<^verbatim>\<open>%d\<close>, \<^verbatim>\<open>%+i\<close>, \<^verbatim>\<open>%X\<close> and \<^verbatim>\<open>%0nX\<close> of a 32-bit value.\<close>

definition fmt_d :: "aint \<Rightarrow> string" where
  "fmt_d x = (if x < 0 then CHR ''-'' # dec_digits (nat (- x)) else dec_digits (nat x))"

definition fmt_plus_i :: "aint \<Rightarrow> string" where
  "fmt_plus_i x = (if x < 0 then CHR ''-'' # dec_digits (nat (- x)) else CHR ''+'' # dec_digits (nat x))"

definition fmt_X :: "aint \<Rightarrow> string" where
  "fmt_X x = hex_digits (nat (u32 x))"

definition fmt_0X :: "nat \<Rightarrow> aint \<Rightarrow> string" where
  "fmt_0X w x = (let d = fmt_X x in replicate (w - length d) (CHR ''0'') @ d)"

section \<open>Suffixes\<close>

lemma suffix_drop_le [sfx]: "suffix (drop n p) p"
  by (rule suffix_drop)

lemma suffix_dropWhile' [sfx]: "suffix (dropWhile P p) p"
  by (rule suffix_dropWhile)

lemma suffix_trans' : "suffix p q \<Longrightarrow> suffix q r \<Longrightarrow> suffix p r"
  by (rule suffix_order.trans)

lemma suffix_Cons_of [sfx]: "suffix p q \<Longrightarrow> suffix p (c # q)"
  by (rule suffix_ConsI)

lemma suffix_len: "suffix p q \<Longrightarrow> length p \<le> length q"
  by (rule suffix_length_le)

end
