(* ===== verification/Sj_State.thy ===== *)
theory Sj_State
  imports Sj_Prelude "HOL-Library.State_Monad"
begin

text \<open>
  The assembler keeps its whole state in global variables (sjasm.h, and \<^verbatim>\<open>static\<close> variables of the
  single files). This theory declares them, grouped into one record per source file and one record
  \<open>asm\<close> that holds the groups, and the state monad every stateful function of the model runs in.

  Pointers are modelled by what they point to: a \<^verbatim>\<open>char*\<close> by the remaining text, a label pointer by
  the label's name, a page pointer by the page's number, \<^verbatim>\<open>MemoryPointer\<close> by an offset into the
  device's memory block. Output files are the list of what was written to them (\<open>None\<close>: not open).
\<close>

section \<open>Enumerations of the headers\<close>

datatype EStatus = E_ALL | E_FATAL | E_EARLY | E_PASS3 | E_IF_FIRST | E_SUPPRESS | E_PASS03
datatype EWStatus = W_ALL | W_EARLY | W_PASS3 | W_PASS03
datatype EDispMode = DISP_NONE | DISP_ACTIVE | DISP_INSIDE_RELOCATE
datatype EBracketType = BT_NONE | BT_ROUND | BT_CURLY | BT_SQUARE
datatype EDelimiterType = DT_NONE | DT_QUOTES | DT_APOSTROPHE | DT_ANGLE
datatype ESlotOptions = O_NONE | O_ERROR | O_WARNING | O_NEXT
datatype multi_arg = MA_comma | MA_doubleComma

text \<open>\<^verbatim>\<open>Relocation::EType\<close>: the numeric values matter (they are compared, and subtracted as offset
  adjustment), hence the order and \<open>rel_num\<close>.\<close>

datatype reloc_type = REL_OFF | REL_REGULAR | REL_HIGH

fun rel_num :: "reloc_type \<Rightarrow> int" where
  "rel_num REL_OFF = 0"
| "rel_num REL_REGULAR = 1"
| "rel_num REL_HIGH = 2"

instantiation reloc_type :: linorder
begin

definition less_eq_reloc_type :: "reloc_type \<Rightarrow> reloc_type \<Rightarrow> bool" where
  "less_eq_reloc_type a b \<longleftrightarrow> rel_num a \<le> rel_num b"

definition less_reloc_type :: "reloc_type \<Rightarrow> reloc_type \<Rightarrow> bool" where
  "less_reloc_type a b \<longleftrightarrow> rel_num a < rel_num b"

instance
proof
  fix x y z :: reloc_type
  show "x \<le> y \<Longrightarrow> y \<le> x \<Longrightarrow> x = y"
    by (cases x; cases y) (simp_all add: less_eq_reloc_type_def)
qed (auto simp: less_eq_reloc_type_def less_reloc_type_def)

end

datatype warn_id =
    W_NO_RAMTOP | W_DEV_RAMTOP | W_FILE_ORG | W_DISPLACED_ORG | W_ORG_PAGE | W_FWD_REF
  | W_LUA_MC_PASS | W_NEX_STACK | W_SNA_48 | W_SNA_128 | W_TRD_EXT_INVALID | W_TRD_EXT_3
  | W_TRD_EXT_B | W_TRD_DUPLICATE | W_RELOCATABLE_ALIGN | W_READ_LOW_MEM | W_REL_DIVERTS
  | W_REL_UNSTABLE | W_DISP_MEM_PAGE | W_BP_FILE | W_SLD_SWAP | W_OUT0 | W_BACKSLASH | W_OPKEYWORD
  | W_BE_HOST | W_FAKE | W_ENABLE_ALL | W_ZERO_DECIMAL | W_NON_ZERO_DECIMAL | W_SHORT_BLOCK
  | W_EMPTY_STRING

section \<open>Constants\<close>

abbreviation (input) LASTPASS :: int where "LASTPASS \<equiv> 3"
abbreviation (input) LABMAX :: nat where "LABMAX \<equiv> 64"
abbreviation (input) LABEL_PAGE_UNDEFINED :: int where "LABEL_PAGE_UNDEFINED \<equiv> -1"
abbreviation (input) LABEL_PAGE_ROM :: int where "LABEL_PAGE_ROM \<equiv> 0x7F00"
abbreviation (input) LABEL_PAGE_OUT_OF_BOUNDS :: int where "LABEL_PAGE_OUT_OF_BOUNDS \<equiv> 0x7F80"
abbreviation (input) LABEL_IS_UNDEFINED :: int where "LABEL_IS_UNDEFINED \<equiv> 1"
abbreviation (input) LABEL_IS_DEFL :: int where "LABEL_IS_DEFL \<equiv> 2"
abbreviation (input) LABEL_IS_EQU :: int where "LABEL_IS_EQU \<equiv> 4"
abbreviation (input) LABEL_IS_STRUCT_D :: int where "LABEL_IS_STRUCT_D \<equiv> 8"
abbreviation (input) LABEL_IS_STRUCT_E :: int where "LABEL_IS_STRUCT_E \<equiv> 16"
abbreviation (input) LABEL_HAS_RELOC_TRAIT :: int where "LABEL_HAS_RELOC_TRAIT \<equiv> 32"
abbreviation (input) LABEL_IS_RELOC :: int where "LABEL_IS_RELOC \<equiv> 64"
abbreviation (input) LABEL_IS_SMC :: int where "LABEL_IS_SMC \<equiv> 128"
abbreviation (input) LABEL_IS_KEYWORD :: int where "LABEL_IS_KEYWORD \<equiv> 256"
abbreviation (input) LABEL_HAS_SIZE :: int where "LABEL_HAS_SIZE \<equiv> 512"
abbreviation (input) LABEL_IS_LOCAL :: int where "LABEL_IS_LOCAL \<equiv> 1024"
abbreviation (input) BYTES_END_MARKER :: int where "BYTES_END_MARKER \<equiv> -1"
abbreviation (input) INSTRUCTION_START_MARKER :: int where "INSTRUCTION_START_MARKER \<equiv> -2"
abbreviation (input) INT_MAX :: int where "INT_MAX \<equiv> 2147483647"

section \<open>The groups of global variables\<close>

text \<open>\<^verbatim>\<open>Options::SSyntax\<close> (sjasm.h), the options the parsing of a line depends on.\<close>

record SSyntax =
  IsPseudoOpBOF :: bool
  IsReversePOP :: bool
  FakeEnabled :: bool
  FakeWarning :: bool
  CaseInsensitiveInstructions :: bool
  WarningsAsErrors :: bool
  Is_M_Memory :: bool
  IsSubwordSubstitution :: bool
  MemoryBrackets :: int
  IsNextEnabled :: int
  MultiArg :: multi_arg

text \<open>
  Command-line options, with the current syntax, the syntax at the start of every pass and the stack of the stored
  ones, and the three operations of the C++ compiler and the host CPU that the
  language leaves undefined but the expression evaluator can reach: a shift by an amount outside
  \<open>0..31\<close> and the one overflowing signed division. They are parameters of the model.
\<close>

record options =
  IsI8080 :: bool
  IsLR35902 :: bool
  IsLongPtr :: bool
  syx :: SSyntax
  systemSyntax :: SSyntax
  syxStack :: "SSyntax list"
  host_shl :: "aint \<Rightarrow> aint \<Rightarrow> aint"
  host_sar :: "aint \<Rightarrow> aint \<Rightarrow> aint"
  host_shr :: "aint \<Rightarrow> aint \<Rightarrow> aint"
  host_div :: "aint \<Rightarrow> aint"
  host_mod :: "aint \<Rightarrow> aint"

datatype diag =
    ErrorMsg string "string option"
  | WarningMsg "warn_id option" string "string option"

type_synonym define_entry = "string \<times> string \<times> string list"

text \<open>io_err.cpp and the define table its counters are mirrored into (tables.cpp).\<close>

record diag_state =
  messages :: "diag list"
  ErrorCount :: int
  WarningCount :: int
  IsSkipErrors :: bool
  PreviousErrorLine :: int
  CompiledCurrentLine :: int
  eolComment :: "string option"
  warn_enabled :: "warn_id \<Rightarrow> bool"
  defs :: "nat \<Rightarrow> define_entry list"
  DefArrayList :: "string list"

record TextFilePos =
  tfp_filename :: string
  tfp_line :: nat
  colBegin :: nat
  colEnd :: nat

text \<open>relocate.cpp\<close>

record reloc_state =
  rel_type :: reloc_type
  alternative_offset :: aint
  areLabelsOffset :: bool
  isResultAffected :: bool
  deltaType :: reloc_type
  maxTableCount :: nat
  offsets :: "int list"
  offsetsPrevious :: "int list"
  warnAboutContentChange :: bool
  startPos :: TextFilePos

record SLabelTableEntry =
  lab_value :: aint
  lab_ph_value :: aint
  lab_size :: aint
  lab_page :: int
  lab_ph_page :: int
  lab_traits :: int
  lab_updatePass :: int
  lab_used :: bool
  lab_isRelocatable :: reloc_type

record TemporaryLabel =
  tl_nummer :: aint
  tl_value :: aint
  tl_isRelocatable :: bool

text \<open>tables.cpp: labels, SIZEOF tracking, temporary labels and the naming context.\<close>

record label_state =
  symbols :: "string \<rightharpoonup> SLabelTableEntry"
  sizeofStack :: "(string \<times> int) list"
  sourceBlockLevel :: int
  tl_labels :: "TemporaryLabel list"
  tl_nextPassLabels :: "TemporaryLabel list"
  vorlab :: string
  ModuleName :: string
  macrolabp :: "string option"
  getLabel_invalidName :: bool

text \<open>devices.h\<close>

record CDeviceSlot =
  slot_Address :: int
  slot_Size :: int
  slot_Page :: nat
  slot_InitialPage :: int
  slot_Option :: ESlotOptions

record CDevicePage =
  page_Size :: int
  page_Number :: nat
  page_RAM :: int

record CDevice =
  dev_ID :: string
  dev_Slots :: "CDeviceSlot list"
  dev_Pages :: "CDevicePage list"
  dev_Memory :: "int \<Rightarrow> int"
  dev_ZxRamTop :: aint
  dev_CurrentSlot :: nat
  previousSlotI :: nat
  previousSlotOpt :: ESlotOptions
  limitExceeded :: bool

record CDeviceDef =
  def_ID :: string
  def_SlotSize :: aint
  def_SlotsCount :: aint
  def_PagesCount :: nat
  def_initialPages :: "int list"

text \<open>\<^verbatim>\<open>Device\<close> is the index of the current device in the list \<^verbatim>\<open>Devices\<close>. \<^verbatim>\<open>DeviceID\<close> is a variable of its
  own, the two differ after a failed \<^verbatim>\<open>SetDevice\<close>.\<close>

record device_state =
  Devices :: "CDevice list"
  DefDevices :: "CDeviceDef list"
  Device :: "nat option"
  DeviceID :: "string option"
  PageCur :: nat
  MemoryPointer :: "int option"

text \<open>sjio.cpp: what has been emitted, and the files it goes to.\<close>

record output_state =
  WriteBuffer :: "int list"
  destlen :: int
  FP_Output :: "int list option"
  FP_RAW :: "int list option"
  FP_tapout :: "int list option"
  tape_length :: int
  tape_parity :: int
  FP_HEX :: "string list option"
  hexBytes :: "int list"
  hexAddress :: int
  ListEmittedBytes :: "int list"
  someByteEmitted :: bool
  notWarnedCurAdr :: bool
  notWarnedDisp :: bool
  PageDiffersWarningShown :: bool
  sldActive :: bool
  sldFile :: "(int \<times> int \<times> char \<times> string option) list"

text \<open>parser.cpp, sjio.cpp and tables.cpp: where the lines of the source come from, and the macro arguments. \<open>rlbuf\<close> is
  the unread rest of the current file, behind a byte order mark; \<open>lijstp\<close> holds the lines of the macro or DUP block that is being
  emitted, with their positions. The string of a line is \<^verbatim>\<open>NULL\<close> where the block ends.\<close>

record source_state =
  comlin :: int
  macro_defs :: "(string \<times> string) list"
  macro_used :: "nat \<Rightarrow> bool"
  rlbuf :: string
  colonSubline :: bool
  blockComment :: int
  IsRunning :: bool
  lijst :: int
  lijstp :: "(string option \<times> TextFilePos) list"

text \<open>tables.cpp: structures (the text of a member is its initial bytes) and macros; directives.cpp: the open repeat blocks.\<close>

datatype EStructureMembers =
    SMEMBUNKNOWN | SMEMBALIGN | SMEMBBYTE | SMEMBWORD | SMEMBBLOCK | SMEMBDWORD | SMEMBD24 | SMEMBTEXT
  | SMEMBPARENOPEN | SMEMBPARENCLOSE

record CStructureEntry1 =
  se1_naam :: string
  se1_offset :: aint

record CStructureEntry2 =
  se_text :: "int list"
  se_offset :: aint
  se_len :: aint
  se_def :: aint
  se_defDeltaType :: reloc_type
  se_type :: EStructureMembers

record CStructure =
  st_naam :: string
  maxAlignment :: aint
  noffset :: aint
  st_labels :: "CStructureEntry1 list"
  st_members :: "CStructureEntry2 list"

record CMacroTableEntry =
  mac_args :: "string list"
  mac_body :: "(string option \<times> TextFilePos) list"

record SRepeatStack =
  RepeatCount :: aint
  RepeatCondition :: "(string \<times> TextFilePos) option"
  rep_sourcePos :: TextFilePos
  rep_Lines :: "(string option \<times> TextFilePos) list"
  IsInWork :: bool
  rep_Level :: int

record prog_state =
  LastParsedLabel :: "string option"
  LastParsedLabelLine :: int
  strs :: "nat \<Rightarrow> CStructure list"
  PreviousIsLabel :: "string option"
  mac_used :: "nat \<Rightarrow> bool"
  macs :: "string \<rightharpoonup> CMacroTableEntry"
  macronummer :: aint
  listmacro :: int
  RepeatStack :: "SRepeatStack list"
  StartAddress :: int
  deviceDirectivesCount :: int
  ConvertEncoding :: int
  sldSwapSrcPos :: int
  IncludeLevel :: int
  fileNameFull :: "string option"

text \<open>\<open>disk\<close>: the contents of the output files, by name. \<open>halted\<close>: \<^verbatim>\<open>ExitASM\<close> was called (by a fatal error), or a loop of the model ran out of its fuel.
  What the model computes after that point is not part of a run of the program.\<close>

datatype run_status = Running | Exited | OutOfFuel

record asm =
  opts :: options
  dg :: diag_state
  rel :: reloc_state
  labs :: label_state
  dv :: device_state
  outp :: output_state
  lp :: string
  bp :: string
  line :: string
  pass :: int
  CurAddress :: aint
  adrdisp :: aint
  PseudoORG :: EDispMode
  dispPageNum :: int
  IsLabelNotFound :: bool
  IsSubstituting :: bool
  synerr :: bool
  expectedAddressClosingBracket :: "char option"
  GetRegister_lastIxyD :: int
  lastDisplacementParsedP :: "string option"
  sourcePosStack :: "TextFilePos list"
  smartSmcLines :: "TextFilePos list"
  smartSmcIndex :: nat
  PredefinedCounter :: aint
  substitutedLine :: string
  nextExtensions :: bool
  dg_one :: int
  zeroInDgWarning :: bool
  srcs :: source_state
  prog :: prog_state
  disk :: "string \<Rightarrow> int list option"
  halted :: run_status

section \<open>The monad\<close>

type_synonym 'a M = "(asm, 'a) state"

abbreviation ret :: "'a \<Rightarrow> 'a M" where
  "ret \<equiv> State_Monad.return"

definition gets :: "(asm \<Rightarrow> 'a) \<Rightarrow> 'a M" where
  "gets f = State (\<lambda>s. (f s, s))"

definition modify :: "(asm \<Rightarrow> asm) \<Rightarrow> unit M" where
  "modify f = State (\<lambda>s. ((), f s))"

definition whenM :: "bool \<Rightarrow> unit M \<Rightarrow> unit M" where
  "whenM b m = (if b then m else ret ())"

lemma run_gets [simp]: "run_state (gets f) s = (f s, s)"
  by (simp add: gets_def)

lemma run_modify [simp]: "run_state (modify f) s = ((), f s)"
  by (simp add: modify_def)

lemma run_whenM [simp]: "run_state (whenM b m) s = (if b then run_state m s else ((), s))"
  by (simp add: whenM_def)

text \<open>A parser moves a \<^verbatim>\<open>char*&\<close>: it takes the remaining text and returns the new one. \<open>on_lp f\<close> is
  the call \<^verbatim>\<open>f(lp)\<close> on the global line pointer, \<open>lexM f\<close> the same for a function without effects.\<close>

type_synonym 'a parser = "string \<Rightarrow> ('a \<times> string) M"
type_synonym 'a lexer = "string \<Rightarrow> 'a \<times> string"

definition set_lp :: "string \<Rightarrow> unit M" where
  "set_lp p = modify (\<lambda>s. s\<lparr>lp := p\<rparr>)"

definition on_lp :: "'a parser \<Rightarrow> 'a M" where
  "on_lp f = do { p \<leftarrow> gets lp; (r, p') \<leftarrow> f p; set_lp p'; ret r }"

definition lexM :: "'a lexer \<Rightarrow> 'a M" where
  "lexM f = do { p \<leftarrow> gets lp; (case f p of (r, p') \<Rightarrow> do { set_lp p'; ret r }) }"

text \<open>Updates of single variables inside their group.\<close>

abbreviation mod_dg :: "(diag_state \<Rightarrow> diag_state) \<Rightarrow> unit M" where
  "mod_dg f \<equiv> modify (\<lambda>s. s\<lparr>dg := f (dg s)\<rparr>)"
abbreviation mod_src :: "(source_state \<Rightarrow> source_state) \<Rightarrow> unit M" where
  "mod_src f \<equiv> modify (\<lambda>s. s\<lparr>srcs := f (srcs s)\<rparr>)"
abbreviation mod_prog :: "(prog_state \<Rightarrow> prog_state) \<Rightarrow> unit M" where
  "mod_prog f \<equiv> modify (\<lambda>s. s\<lparr>prog := f (prog s)\<rparr>)"
abbreviation mod_rel :: "(reloc_state \<Rightarrow> reloc_state) \<Rightarrow> unit M" where
  "mod_rel f \<equiv> modify (\<lambda>s. s\<lparr>rel := f (rel s)\<rparr>)"
abbreviation mod_labs :: "(label_state \<Rightarrow> label_state) \<Rightarrow> unit M" where
  "mod_labs f \<equiv> modify (\<lambda>s. s\<lparr>labs := f (labs s)\<rparr>)"
abbreviation mod_dv :: "(device_state \<Rightarrow> device_state) \<Rightarrow> unit M" where
  "mod_dv f \<equiv> modify (\<lambda>s. s\<lparr>dv := f (dv s)\<rparr>)"
abbreviation mod_outp :: "(output_state \<Rightarrow> output_state) \<Rightarrow> unit M" where
  "mod_outp f \<equiv> modify (\<lambda>s. s\<lparr>outp := f (outp s)\<rparr>)"

text \<open>Loops. \<open>do_while n body\<close> runs \<open>body\<close> again as long as it returns True (\<^verbatim>\<open>do { ... } while (c)\<close>, a
  \<^verbatim>\<open>break\<close> being the return of False), at most \<open>n\<close> times.\<close>

definition out_of_fuel :: "unit M" where
  "out_of_fuel = modify (\<lambda>s. s\<lparr>halted := OutOfFuel\<rparr>)"

fun do_while :: "nat \<Rightarrow> bool M \<Rightarrow> unit M" where
  "do_while 0 body = out_of_fuel"
| "do_while (Suc n) body = do { again \<leftarrow> body; if again then do_while n body else ret () }"

end
