(* ===== verification/Sj_Defines.thy ===== *)
theory Sj_Defines
  imports Sj_State
begin

text \<open>
  tables.cpp, \<^verbatim>\<open>CDefineTable\<close>: the table of DEFINE names. It is an array of 128 singly linked lists,
  selected by the low seven bits of the first character; an entry holds name, replacement text and
  (for DEFARRAY) the list of items. \<open>Replace\<close>, \<open>Remove\<close> and \<open>FindDuplicate\<close> are here; \<open>Add\<close> and
  \<open>Get\<close> report errors or read other variables and are in theory \<open>Sj_Diag\<close>.

  The abstract view of a table is the map \<open>def_abs\<close> from names to entries. Because \<open>Add\<close> pushes an
  entry in front of an older one of the same name, a table is a map of \<^emph>\<open>stacks\<close>, and the laws of
  the locale \<open>define_spec\<close> are those of a stack per name.
\<close>

type_synonym define_table = "nat \<Rightarrow> define_entry list"

definition bucket :: "string \<Rightarrow> nat" where
  "bucket name = nat (ord (cur name)) mod 128"

text \<open>\<^verbatim>\<open>CDefineTableEntry\<close>: the constructor cuts the value at the first line end, \<open>Replace\<close> does not.\<close>

definition CDefineTableEntry :: "string \<Rightarrow> string \<Rightarrow> string list \<Rightarrow> define_entry" where
  "CDefineTableEntry nname nvalue nnss =
     (nname, takeWhile (\<lambda>c. c \<noteq> CHR 0x0A \<and> c \<noteq> CHR 0x0D) nvalue, nnss)"

definition CDefineTableEntry_Replace :: "define_entry \<Rightarrow> string \<Rightarrow> define_entry" where
  "CDefineTableEntry_Replace e nvalue = (case e of (n, _, nss) \<Rightarrow> (n, nvalue, nss))"

text \<open>The walk along one list, \<^verbatim>\<open>while (p && strcmp(name, p->name)) p = p->next\<close>.\<close>

fun chain_find :: "string \<Rightarrow> define_entry list \<Rightarrow> define_entry option" where
  "chain_find name [] = None"
| "chain_find name (p # ps) = (if name = fst p then Some p else chain_find name ps)"

fun chain_replace :: "string \<Rightarrow> string \<Rightarrow> define_entry list \<Rightarrow> define_entry list" where
  "chain_replace name v [] = []"
| "chain_replace name v (p # ps) =
     (if name = fst p then CDefineTableEntry_Replace p v # ps else p # chain_replace name v ps)"

fun chain_remove :: "string \<Rightarrow> define_entry list \<Rightarrow> define_entry list" where
  "chain_remove name [] = []"
| "chain_remove name (p # ps) = (if name = fst p then ps else p # chain_remove name ps)"

definition FindDuplicate :: "define_table \<Rightarrow> string \<Rightarrow> bool" where
  "FindDuplicate t name = (chain_find name (t (bucket name)) \<noteq> None)"

definition def_push :: "define_table \<Rightarrow> define_entry \<Rightarrow> define_table" where
  "def_push t e = t(bucket (fst e) := e # t (bucket (fst e)))"

text \<open>\<^verbatim>\<open>Replace\<close> returns 0 when an entry was replaced and 1 when a new one was made.\<close>

definition Replace :: "define_table \<Rightarrow> string \<Rightarrow> string \<Rightarrow> int \<times> define_table" where
  "Replace t name v =
     (let b = bucket name in
      if chain_find name (t b) \<noteq> None then (0, t(b := chain_replace name v (t b)))
      else (1, def_push t (CDefineTableEntry name v [])))"

definition Replace_int :: "define_table \<Rightarrow> string \<Rightarrow> aint \<Rightarrow> int \<times> define_table" where
  "Replace_int t name v = Replace t name (fmt_d v)"

definition Remove :: "define_table \<Rightarrow> string \<Rightarrow> int \<times> define_table" where
  "Remove t name =
     (let b = bucket name in
      if chain_find name (t b) \<noteq> None then (1, t(b := chain_remove name (t b))) else (0, t))"

definition RemoveAll :: "define_table \<Rightarrow> define_table" where
  "RemoveAll t = (\<lambda>_. [])"

section \<open>Abstraction\<close>

definition def_abs :: "define_table \<Rightarrow> string \<Rightarrow> define_entry list" where
  "def_abs t name = filter (\<lambda>e. fst e = name) (t (bucket name))"

definition def_lookup :: "define_table \<Rightarrow> string \<Rightarrow> define_entry option" where
  "def_lookup t name = chain_find name (t (bucket name))"

lemma chain_find_filter:
  "chain_find name es = (case filter (\<lambda>e. fst e = name) es of [] \<Rightarrow> None | e # _ \<Rightarrow> Some e)"
  by (induction es) (auto split: list.splits)

lemma filter_chain_replace:
  "filter (\<lambda>e. fst e = n) (chain_replace name v es) =
     (if n = name then (case filter (\<lambda>e. fst e = n) es of [] \<Rightarrow> [] | e # r \<Rightarrow> CDefineTableEntry_Replace e v # r)
      else filter (\<lambda>e. fst e = n) es)"
  by (induction es) (auto simp: CDefineTableEntry_Replace_def split: prod.splits list.splits)

lemma filter_chain_remove:
  "filter (\<lambda>e. fst e = n) (chain_remove name es) =
     (if n = name then tl (filter (\<lambda>e. fst e = n) es) else filter (\<lambda>e. fst e = n) es)"
  by (induction es) auto

lemma def_lookup_abs: "def_lookup t name = (case def_abs t name of [] \<Rightarrow> None | e # _ \<Rightarrow> Some e)"
  by (simp add: def_lookup_def def_abs_def chain_find_filter)

lemma FindDuplicate_abs: "FindDuplicate t name \<longleftrightarrow> def_abs t name \<noteq> []"
  by (auto simp: FindDuplicate_def def_abs_def chain_find_filter split: list.splits)

lemma def_abs_push: "def_abs (def_push t e) n = (if n = fst e then e # def_abs t n else def_abs t n)"
  by (auto simp: def_abs_def def_push_def)

lemma def_abs_Remove:
  "def_abs (snd (Remove t name)) n = (if n = name then tl (def_abs t n) else def_abs t n)"
proof (cases "chain_find name (t (bucket name)) = None")
  case True
  then have "def_abs t name = []" by (auto simp: def_abs_def chain_find_filter split: list.splits)
  with True show ?thesis by (simp add: Remove_def)
next
  case False
  then show ?thesis by (auto simp: Remove_def Let_def def_abs_def filter_chain_remove)
qed

lemma def_abs_Replace:
  "def_abs (snd (Replace t name v)) n =
     (if n = name
      then (case def_abs t n of [] \<Rightarrow> [CDefineTableEntry name v []]
            | e # r \<Rightarrow> CDefineTableEntry_Replace e v # r)
      else def_abs t n)"
proof (cases "chain_find name (t (bucket name)) = None")
  case True
  then have "def_abs t name = []" by (auto simp: def_abs_def chain_find_filter split: list.splits)
  with True show ?thesis by (simp add: Replace_def def_abs_push) (simp add: CDefineTableEntry_def)
next
  case False
  then have "def_abs t name \<noteq> []" by (auto simp: def_abs_def chain_find_filter split: list.splits)
  with False show ?thesis
    by (auto simp: Replace_def Let_def def_abs_def filter_chain_replace split: list.splits)
qed

section \<open>The interface\<close>

text \<open>What the rest of the assembler relies on: a stack of entries per name, the visible entry being
  the top; \<open>push\<close> shadows, \<open>drop\<close> uncovers, \<open>put\<close> rewrites the top in place.\<close>

locale define_spec =
  fixes stack :: "'t \<Rightarrow> string \<Rightarrow> define_entry list"
    and top :: "'t \<Rightarrow> string \<Rightarrow> define_entry option"
    and push :: "'t \<Rightarrow> define_entry \<Rightarrow> 't"
    and pop :: "'t \<Rightarrow> string \<Rightarrow> 't"
    and put :: "'t \<Rightarrow> string \<Rightarrow> string \<Rightarrow> 't"
  assumes top_stack: "top t n = (case stack t n of [] \<Rightarrow> None | e # _ \<Rightarrow> Some e)"
    and stack_push: "stack (push t e) n = (if n = fst e then e # stack t n else stack t n)"
    and stack_pop: "stack (pop t m) n = (if n = m then tl (stack t n) else stack t n)"
    and stack_put_other: "n \<noteq> m \<Longrightarrow> stack (put t m v) n = stack t n"
    and stack_put_same: "stack t m \<noteq> [] \<Longrightarrow>
           stack (put t m v) m = CDefineTableEntry_Replace (hd (stack t m)) v # tl (stack t m)"
begin

lemma top_push: "top (push t e) n = (if n = fst e then Some e else top t n)"
  by (simp add: top_stack stack_push)

lemma pop_push: "top (pop (push t e) (fst e)) n = top t n"
  by (simp add: top_stack stack_push stack_pop)

lemma top_put_frame: "n \<noteq> m \<Longrightarrow> top (put t m v) n = top t n"
  by (simp add: top_stack stack_put_other)

lemma put_value: "top t m \<noteq> None \<Longrightarrow> map_option (fst \<circ> snd) (top (put t m v) m) = Some v"
  by (cases "stack t m")
    (auto simp: top_stack stack_put_same CDefineTableEntry_Replace_def split: prod.splits)

end

interpretation dt: define_spec def_abs def_lookup def_push "\<lambda>t n. snd (Remove t n)"
  "\<lambda>t n v. snd (Replace t n v)"
proof
  fix t :: define_table and m v :: string
  assume "def_abs t m \<noteq> []"
  then show "def_abs (snd (Replace t m v)) m =
      CDefineTableEntry_Replace (hd (def_abs t m)) v # tl (def_abs t m)"
    by (cases "def_abs t m") (simp_all add: def_abs_Replace)
qed (simp_all add: def_lookup_abs def_abs_push def_abs_Remove def_abs_Replace)

end
