(* ===== verification/Sj_Logic.thy ===== *)
theory Sj_Logic
  imports Sj_State
begin

text \<open>
  A small program logic for the state monad. \<open>inv I m V\<close>: started in a state satisfying \<open>I\<close>, the
  computation \<open>m\<close> ends in a state satisfying \<open>I\<close> and returns a value satisfying \<open>V\<close>. The rules are
  collected in \<open>inv\<close>, so that \<open>(rule inv)+\<close> walks through the body of a function in the order of the
  source. The instances used below are the invariants of the line pointer (\<open>lp_inv\<close>: it stays a
  suffix of the text it started from, and no loop runs out of fuel) and frame conditions
  (\<open>keeps f m\<close>: \<open>m\<close> does not change the variable \<open>f\<close>).
\<close>

named_theorems inv \<open>rules of the invariant logic\<close>
named_theorems keep \<open>frame rules\<close>

definition inv :: "(asm \<Rightarrow> bool) \<Rightarrow> 'a M \<Rightarrow> ('a \<Rightarrow> bool) \<Rightarrow> bool" where
  "inv I m V \<longleftrightarrow> (\<forall>s. I s \<longrightarrow> I (snd (run_state m s)) \<and> V (fst (run_state m s)))"

lemma invI: "(\<And>s. I s \<Longrightarrow> I (snd (run_state m s)) \<and> V (fst (run_state m s))) \<Longrightarrow> inv I m V"
  by (simp add: inv_def)

lemma invD: "inv I m V \<Longrightarrow> I s \<Longrightarrow> run_state m s = (r, s') \<Longrightarrow> I s' \<and> V r"
  by (auto simp: inv_def)

lemma inv_conseq: "inv I m V \<Longrightarrow> (\<And>r. V r \<Longrightarrow> W r) \<Longrightarrow> inv I m W"
  by (auto simp: inv_def)

lemma inv_True: "inv I m V \<Longrightarrow> inv I m (\<lambda>_. True)"
  by (auto simp: inv_def)

lemma inv_ret: "V x \<Longrightarrow> inv I (ret x) V"
  by (simp add: inv_def)

lemma inv_bind: "inv I m V \<Longrightarrow> (\<And>x. V x \<Longrightarrow> inv I (f x) W) \<Longrightarrow> inv I (m \<bind> f) W"
  by (auto simp: inv_def split: prod.splits)

lemma inv_if: "(b \<Longrightarrow> inv I m V) \<Longrightarrow> (\<not> b \<Longrightarrow> inv I n V) \<Longrightarrow> inv I (if b then m else n) V"
  by simp

lemma inv_whenM: "(b \<Longrightarrow> inv I m V) \<Longrightarrow> (\<not> b \<Longrightarrow> V ()) \<Longrightarrow> inv I (whenM b m) V"
  by (auto simp: inv_def)

lemma inv_modify: "(\<And>s. I s \<Longrightarrow> I (f s)) \<Longrightarrow> V () \<Longrightarrow> inv I (modify f) V"
  by (auto simp: inv_def)

lemma inv_gets: "(\<And>s. I s \<Longrightarrow> V (f s)) \<Longrightarrow> inv I (gets f) V"
  by (auto simp: inv_def)

lemma inv_get: "(\<And>s. I s \<Longrightarrow> V s) \<Longrightarrow> inv I State_Monad.get V"
  by (auto simp: inv_def State_Monad.get_def)

lemma inv_case_prod: "(\<And>a b. x = (a, b) \<Longrightarrow> inv I (f a b) V) \<Longrightarrow> inv I (case x of (a, b) \<Rightarrow> f a b) V"
  by (cases x) simp

lemma inv_case_prod_app:
  "(\<And>a b. x = (a, b) \<Longrightarrow> inv I (f a b c) V) \<Longrightarrow> inv I ((case x of (a, b) \<Rightarrow> f a b) c) V"
  by (cases x) simp

lemma inv_case_option:
  "(x = None \<Longrightarrow> inv I m V) \<Longrightarrow> (\<And>a. x = Some a \<Longrightarrow> inv I (f a) V) \<Longrightarrow>
   inv I (case x of None \<Rightarrow> m | Some a \<Rightarrow> f a) V"
  by (cases x) simp_all

lemma inv_let: "(\<And>a. a = x \<Longrightarrow> inv I (f a) V) \<Longrightarrow> inv I (let a = x in f a) V"
  by (simp add: Let_def)

lemmas inv_rules = inv_ret inv_if inv_whenM inv_case_prod inv_case_prod_app inv_case_option inv_let

section \<open>Relations between start and end state\<close>

text \<open>A property that relates the state before and after a computation and is reflexive and transitive
  (a frame condition, a counter that only grows, "only diagnostics changed") is kept by a composed
  computation when its parts keep it. The locale proves the rules once for every such relation.\<close>

locale io_preorder =
  fixes R :: "asm \<Rightarrow> asm \<Rightarrow> bool"
  assumes R_refl: "R s s"
    and R_trans: "R s t \<Longrightarrow> R t u \<Longrightarrow> R s u"
begin

lemma io_ret: "state_io_rel R (ret x)"
  by (simp add: state_io_rel_def R_refl)

lemma io_gets: "state_io_rel R (gets f)"
  by (simp add: state_io_rel_def R_refl)

lemma io_get: "state_io_rel R State_Monad.get"
  by (simp add: state_io_rel_def State_Monad.get_def R_refl)

lemma io_bind: "state_io_rel R m \<Longrightarrow> (\<And>x. state_io_rel R (g x)) \<Longrightarrow> state_io_rel R (m \<bind> g)"
  unfolding state_io_rel_def by (auto split: prod.splits intro: R_trans)

lemma io_modify: "(\<And>s. R s (f s)) \<Longrightarrow> state_io_rel R (modify f)"
  by (simp add: state_io_rel_def)

lemma io_if: "state_io_rel R m \<Longrightarrow> state_io_rel R n \<Longrightarrow> state_io_rel R (if b then m else n)"
  by simp

lemma io_whenM: "state_io_rel R m \<Longrightarrow> state_io_rel R (whenM b m)"
  by (simp add: whenM_def io_ret)

lemma io_case_prod: "(\<And>a b. state_io_rel R (g a b)) \<Longrightarrow> state_io_rel R (case x of (a, b) \<Rightarrow> g a b)"
  by (cases x) simp

lemma io_case_prod_app:
  "(\<And>a b. state_io_rel R (g a b c)) \<Longrightarrow> state_io_rel R ((case x of (a, b) \<Rightarrow> g a b) c)"
  by (cases x) simp

lemma io_case_option:
  "state_io_rel R m \<Longrightarrow> (\<And>a. state_io_rel R (g a)) \<Longrightarrow> state_io_rel R (case x of None \<Rightarrow> m | Some a \<Rightarrow> g a)"
  by (cases x) simp_all

lemma io_let: "(\<And>a. state_io_rel R (g a)) \<Longrightarrow> state_io_rel R (let a = x in g a)"
  by (simp add: Let_def)

lemma io_set_lp: "(\<And>s. R s (s\<lparr>lp := p\<rparr>)) \<Longrightarrow> state_io_rel R (set_lp p)"
  by (simp add: set_lp_def io_modify)

lemma io_do_while:
  assumes "state_io_rel R out_of_fuel" and "state_io_rel R body"
  shows "state_io_rel R (do_while n body)"
  by (induction n) (auto intro: assms io_bind io_if io_ret)

lemmas io_rules = io_ret io_gets io_get io_bind io_if io_whenM io_case_prod io_case_prod_app io_case_option io_let

end

section \<open>Frame conditions\<close>

definition keeps :: "(asm \<Rightarrow> 'b) \<Rightarrow> 'a M \<Rightarrow> bool" where
  "keeps f m \<longleftrightarrow> state_io_rel (\<lambda>s s'. f s' = f s) m"

interpretation frame: io_preorder "\<lambda>s s'. f s' = f s" for f :: "asm \<Rightarrow> 'b"
  by unfold_locales simp_all

lemma keepsD: "keeps f m \<Longrightarrow> run_state m s = (r, s') \<Longrightarrow> f s' = f s"
  unfolding keeps_def by (drule state_io_relD) assumption+

lemma keepsI: "(\<And>s. f (snd (run_state m s)) = f s) \<Longrightarrow> keeps f m"
  by (simp add: keeps_def state_io_rel_def)

lemmas keeps_rules [keep] =
  frame.io_rules [folded keeps_def] frame.io_modify [folded keeps_def]
  frame.io_set_lp [folded keeps_def] frame.io_do_while [folded keeps_def]

section \<open>The line pointer\<close>

text \<open>\<open>lp_inv p0\<close>: the line pointer points into \<open>p0\<close> and no fuel ran out. A parser is \<open>shrinking\<close> when
  it returns a pointer into the text it was given and touches neither the line pointer nor the fuel
  status; this is the contract every lexing and parsing function of the assembler keeps.\<close>

definition lp_inv :: "string \<Rightarrow> asm \<Rightarrow> bool" where
  "lp_inv p0 s \<longleftrightarrow> suffix (lp s) p0 \<and> halted s \<noteq> OutOfFuel"

definition fuel_ok :: "asm \<Rightarrow> bool" where
  "fuel_ok s \<longleftrightarrow> halted s \<noteq> OutOfFuel"

definition shrinking :: "'a parser \<Rightarrow> bool" where
  "shrinking f \<longleftrightarrow> (\<forall>p. keeps lp (f p) \<and> inv fuel_ok (f p) (\<lambda>(r, p'). suffix p' p))"

lemma shrinkingI:
  "(\<And>p. keeps lp (f p)) \<Longrightarrow> (\<And>p. inv fuel_ok (f p) (\<lambda>(r, p'). suffix p' p)) \<Longrightarrow> shrinking f"
  by (simp add: shrinking_def)

lemma shrinkingD:
  assumes "shrinking f"
  shows "keeps lp (f p)" and "inv fuel_ok (f p) (\<lambda>(r, p'). suffix p' p)"
  using assms by (simp_all add: shrinking_def)

lemma inv_lp_of_fuel: "keeps lp m \<Longrightarrow> inv fuel_ok m V \<Longrightarrow> inv (lp_inv p0) m V"
  by (auto simp: inv_def keeps_def state_io_rel_def lp_inv_def fuel_ok_def)

lemma inv_lp_parser: "shrinking f \<Longrightarrow> suffix p p0 \<Longrightarrow> inv (lp_inv p0) (f p) (\<lambda>(r, p'). suffix p' p0)"
  by (rule inv_conseq [OF inv_lp_of_fuel [OF shrinkingD]])
    (auto dest: suffix_trans')

lemma inv_set_lp: "suffix p p0 \<Longrightarrow> V () \<Longrightarrow> inv (lp_inv p0) (set_lp p) V"
  by (simp add: set_lp_def inv_def lp_inv_def)

lemma inv_get_lp: "(\<And>p. suffix p p0 \<Longrightarrow> V p) \<Longrightarrow> inv (lp_inv p0) (gets lp) V"
  by (simp add: inv_def lp_inv_def)

lemma inv_on_lp: 
  assumes "shrinking f" and "\<And>r. V r"
  shows "inv (lp_inv p0) (on_lp f) V"
  unfolding on_lp_def
  by (rule inv_bind [where V = "\<lambda>p. suffix p p0"], rule inv_get_lp, assumption,
      rule inv_bind [OF inv_lp_parser [OF assms(1)]], assumption,
      auto intro!: inv_bind [OF inv_set_lp] inv_ret assms(2))

lemma inv_lexM:
  assumes "\<And>p. suffix (snd (f p)) p" and "\<And>r. V r"
  shows "inv (lp_inv p0) (lexM f) V"
proof -
  have "inv (lp_inv p0) (case f p of (r, p') \<Rightarrow> do { set_lp p'; ret r }) V" if "suffix p p0" for p
    using assms(1) [of p] that
    by (auto intro!: inv_bind [OF inv_set_lp] inv_ret assms(2) dest: suffix_trans' split: prod.split)
  then show ?thesis
    unfolding lexM_def by (rule inv_bind [OF inv_get_lp])
qed

end
