(* ===== verification/Sj_Diag.thy ===== *)
theory Sj_Diag
  imports Sj_Defines Sj_Logic
begin

text \<open>
  io_err.cpp: which errors and warnings are reported, counted and suppressed, and
  \<^verbatim>\<open>Options::noFakes\<close> of sjasm.cpp; plus the two operations of \<^verbatim>\<open>CDefineTable\<close> that need them.

  A diagnostic is kept as its message text and the optional "bad value" text; the decoration with
  file name, line number and terminal colours (\<^verbatim>\<open>initErrorLine\<close>, \<^verbatim>\<open>outputErrorLine\<close>) is not modelled.
  An error changes only the diagnostic variables and, when fatal, ends the run (\<open>halted\<close>).
\<close>

section \<open>Warning identifiers\<close>

fun warn_text :: "warn_id \<Rightarrow> string" where
  "warn_text W_NO_RAMTOP = ''noramtop''"
| "warn_text W_DEV_RAMTOP = ''devramtop''"
| "warn_text W_FILE_ORG = ''fileorg''"
| "warn_text W_DISPLACED_ORG = ''displacedorg''"
| "warn_text W_ORG_PAGE = ''orgpage''"
| "warn_text W_FWD_REF = ''fwdref''"
| "warn_text W_LUA_MC_PASS = ''luamc''"
| "warn_text W_NEX_STACK = ''nexstack''"
| "warn_text W_SNA_48 = ''sna48''"
| "warn_text W_SNA_128 = ''sna128''"
| "warn_text W_TRD_EXT_INVALID = ''trdext''"
| "warn_text W_TRD_EXT_3 = ''trdext3''"
| "warn_text W_TRD_EXT_B = ''trdextb''"
| "warn_text W_TRD_DUPLICATE = ''trddup''"
| "warn_text W_RELOCATABLE_ALIGN = ''relalign''"
| "warn_text W_READ_LOW_MEM = ''rdlow''"
| "warn_text W_REL_DIVERTS = ''reldiverts''"
| "warn_text W_REL_UNSTABLE = ''relunstable''"
| "warn_text W_DISP_MEM_PAGE = ''dispmempage''"
| "warn_text W_BP_FILE = ''bpfile''"
| "warn_text W_SLD_SWAP = ''sldswap''"
| "warn_text W_OUT0 = ''out0''"
| "warn_text W_BACKSLASH = ''backslash''"
| "warn_text W_OPKEYWORD = ''opkeyword''"
| "warn_text W_BE_HOST = ''behost''"
| "warn_text W_FAKE = ''fake''"
| "warn_text W_ENABLE_ALL = ''all''"
| "warn_text W_ZERO_DECIMAL = ''decimalz''"
| "warn_text W_NON_ZERO_DECIMAL = ''decimaln''"
| "warn_text W_SHORT_BLOCK = ''shortblock''"
| "warn_text W_EMPTY_STRING = ''emptystr''"

text \<open>The \<^verbatim>\<open>enabled\<close> column of \<^verbatim>\<open>w_texts\<close> when the program starts, and the message texts.\<close>

fun w_texts_enabled :: "warn_id \<Rightarrow> bool" where
  "w_texts_enabled W_NO_RAMTOP = True"
| "w_texts_enabled W_DEV_RAMTOP = True"
| "w_texts_enabled W_FILE_ORG = True"
| "w_texts_enabled W_DISPLACED_ORG = True"
| "w_texts_enabled W_ORG_PAGE = True"
| "w_texts_enabled W_FWD_REF = True"
| "w_texts_enabled W_LUA_MC_PASS = True"
| "w_texts_enabled W_NEX_STACK = True"
| "w_texts_enabled W_SNA_48 = True"
| "w_texts_enabled W_SNA_128 = True"
| "w_texts_enabled W_TRD_EXT_INVALID = True"
| "w_texts_enabled W_TRD_EXT_3 = True"
| "w_texts_enabled W_TRD_EXT_B = True"
| "w_texts_enabled W_TRD_DUPLICATE = True"
| "w_texts_enabled W_RELOCATABLE_ALIGN = True"
| "w_texts_enabled W_READ_LOW_MEM = False"
| "w_texts_enabled W_REL_DIVERTS = True"
| "w_texts_enabled W_REL_UNSTABLE = True"
| "w_texts_enabled W_DISP_MEM_PAGE = True"
| "w_texts_enabled W_BP_FILE = True"
| "w_texts_enabled W_SLD_SWAP = True"
| "w_texts_enabled W_OUT0 = True"
| "w_texts_enabled W_BACKSLASH = True"
| "w_texts_enabled W_OPKEYWORD = True"
| "w_texts_enabled W_BE_HOST = True"
| "w_texts_enabled W_FAKE = True"
| "w_texts_enabled W_ENABLE_ALL = False"
| "w_texts_enabled W_ZERO_DECIMAL = False"
| "w_texts_enabled W_NON_ZERO_DECIMAL = True"
| "w_texts_enabled W_SHORT_BLOCK = True"
| "w_texts_enabled W_EMPTY_STRING = True"

fun w_texts_txt :: "warn_id \<Rightarrow> string" where
  "w_texts_txt W_NO_RAMTOP = ''current device doesn't init memory in any way (RAMTOP is ignored)''"
| "w_texts_txt W_DEV_RAMTOP = ''[DEVICE] this device was already opened with different RAMTOP value''"
| "w_texts_txt W_FILE_ORG = ''ORG does not pad output file to reach target address, bytes skipped''"
| "w_texts_txt W_DISPLACED_ORG = ''ORG-address set inside displaced block, the physical address is not modified, only displacement address''"
| "w_texts_txt W_ORG_PAGE = ''[ORG] page argument affects current slot while address is outside''"
| "w_texts_txt W_FWD_REF = ''forward reference of symbol''"
| \<open>w_texts_txt W_LUA_MC_PASS = ''When lua script emits machine code bytes, use "ALLPASS" modifier''\<close>
| "w_texts_txt W_NEX_STACK = ''[SAVENEX] non-zero data are in stackAddress area, may get overwritten by NEXLOAD''"
| "w_texts_txt W_SNA_48 = ''[SAVESNA] RAM <0x4000-0x4001> will be overwritten due to 48k snapshot imperfect format.''"
| "w_texts_txt W_SNA_128 = ''only 128kb will be written to snapshot''"
| "w_texts_txt W_TRD_EXT_INVALID = ''invalid file extension, TRDOS official extensions are B, C, D and #.''"
| "w_texts_txt W_TRD_EXT_3 = ''3-letter extension of TRDOS file (unofficial extension)''"
| \<open>w_texts_txt W_TRD_EXT_B = ''the "B" extension is always single letter''\<close>
| "w_texts_txt W_TRD_DUPLICATE = ''TRD file already exists, creating one more!''"
| "w_texts_txt W_RELOCATABLE_ALIGN = ''[ALIGN] inside relocation block: may become misaligned when relocated''"
| "w_texts_txt W_READ_LOW_MEM = ''Reading memory at low address''"
| \<open>w_texts_txt W_REL_DIVERTS = ''Expression can't be relocated by simple "+offset" mechanics, value diverts differently.''\<close>
| "w_texts_txt W_REL_UNSTABLE = ''Relocation makes one of the expressions unstable, resulting machine code is not relocatable''"
| "w_texts_txt W_DISP_MEM_PAGE = ''DISP memory page differs from current mapping''"
| "w_texts_txt W_BP_FILE = ''breakpoints file was not specified''"
| "w_texts_txt W_SLD_SWAP = ''SLDOPT swapon/swapoff unevenly paired within macro/include''"
| "w_texts_txt W_OUT0 = CHR 0x27 # ''out (c),0' is unstable, on CMOS based chips it does `out (c),255`''"
| "w_texts_txt W_BACKSLASH = ''File name contains '' @ [CHR 0x5C] @ '', use / instead ('' @ [CHR 0x5C] @ '' fails on most of the supported platforms)''"
| "w_texts_txt W_OPKEYWORD = ''Label collides with one of the operator keywords, try capitalizing it or other name''"
| "w_texts_txt W_BE_HOST = ''Big-endian host detected: support is experimental, please report any issues''"
| "w_texts_txt W_FAKE = ''Fake instruction''"
| "w_texts_txt W_ENABLE_ALL = []"
| "w_texts_txt W_ZERO_DECIMAL = ''decimal part is ignored''"
| "w_texts_txt W_NON_ZERO_DECIMAL = ''decimal part is ignored''"
| "w_texts_txt W_SHORT_BLOCK = ''init data for block truncated to length''"
| "w_texts_txt W_EMPTY_STRING = ''empty string''"

text \<open>\<^verbatim>\<open>strstr\<close>: the text from the first occurrence on.\<close>

fun strstr :: "string \<Rightarrow> string \<Rightarrow> string option" where
  "strstr [] n = (if n = [] then Some [] else None)"
| "strstr (c # h) n = (if prefix n (c # h) then Some (c # h) else strstr h n)"

lemma strstr_length: "strstr h n = Some r \<Longrightarrow> length r \<le> length h"
  by (induction h) (auto split: if_splits)

lemma strstr_prefix: "strstr h n = Some r \<Longrightarrow> prefix n r"
  by (induction h) (auto split: if_splits)

text \<open>\<^verbatim>\<open>suppressedById\<close>: the loop over the occurrences of the identifier in the end-of-line comment.\<close>

function id_ok_loop :: "string \<Rightarrow> string \<Rightarrow> bool" where
  "id_ok_loop i comment =
     (if i = [] then False
      else case strstr comment i of
        None \<Rightarrow> False
      | Some idPos \<Rightarrow>
          (if i = warn_text W_FAKE then True
           else (let rest = drop (length i) idPos in
                 if cur rest = CHR ''-'' \<and> chr_at rest 1 = CHR ''o'' \<and> chr_at rest 2 = CHR ''k''
                 then True else id_ok_loop i rest)))"
  by pat_completeness auto
termination
proof (relation "measure (\<lambda>(i, c). length c)")
  fix i comment idPos rest
  assume a: "\<not> i = []" "strstr comment i = Some idPos" "rest = drop (length i) idPos"
  from a(2) have "prefix i idPos" "length idPos \<le> length comment"
    by (simp_all add: strstr_prefix strstr_length)
  then have "0 < length idPos" using a(1) by (auto simp: prefix_def)
  with a show "((i, rest), i, comment) \<in> measure (\<lambda>(i, c). length c)"
    using \<open>length idPos \<le> length comment\<close> by (auto intro: less_le_trans [OF diff_less])
qed auto

definition suppressedById :: "warn_id \<Rightarrow> diag_state \<Rightarrow> bool" where
  "suppressedById w d =
     (case eolComment d of None \<Rightarrow> False | Some c \<Rightarrow> id_ok_loop (warn_text w) c)"

section \<open>Error\<close>

text \<open>The early returns of \<^verbatim>\<open>Error\<close>, in source order.\<close>

definition error_skipped :: "EStatus \<Rightarrow> asm \<Rightarrow> bool" where
  "error_skipped type s =
     (if type = E_EARLY \<and> LASTPASS \<le> pass s then True
      else if (type = E_SUPPRESS \<or> type = E_IF_FIRST \<or> type = E_PASS3) \<and> pass s < LASTPASS then True
      else if E_PASS03 = type \<and> 0 < pass s \<and> pass s < LASTPASS then True
      else if E_FATAL \<noteq> type \<and> PreviousErrorLine (dg s) = CompiledCurrentLine (dg s) then
        (IsSkipErrors (dg s) \<or> E_IF_FIRST = type)
      else False)"

definition count_error :: "string \<Rightarrow> string option \<Rightarrow> EStatus \<Rightarrow> diag_state \<Rightarrow> diag_state" where
  "count_error message badValueMessage type d =
     (let d1 = d\<lparr>IsSkipErrors := (IsSkipErrors d \<and> PreviousErrorLine d = CompiledCurrentLine d) \<or> E_SUPPRESS = type,
                 PreviousErrorLine := CompiledCurrentLine d,
                 ErrorCount := ErrorCount d + 1\<rparr>;
          d2 = d1\<lparr>defs := snd (Replace_int (defs d1) ''__ERRORS__'' (ErrorCount d1))\<rparr>
      in d2\<lparr>messages := messages d2 @ [ErrorMsg message badValueMessage]\<rparr>)"

definition error_upd :: "string \<Rightarrow> string option \<Rightarrow> EStatus \<Rightarrow> asm \<Rightarrow> asm" where
  "error_upd message badValueMessage type s =
     (if error_skipped type s then s
      else s\<lparr>dg := count_error message badValueMessage type (dg s),
             halted := (if type = E_FATAL \<and> halted s = Running then Exited else halted s)\<rparr>)"

definition Error :: "string \<Rightarrow> string option \<Rightarrow> EStatus \<Rightarrow> unit M" where
  "Error message badValueMessage type = modify (error_upd message badValueMessage type)"

definition ErrorInt :: "string \<Rightarrow> aint \<Rightarrow> EStatus \<Rightarrow> unit M" where
  "ErrorInt message badValue type = Error message (Some (fmt_d badValue)) type"

section \<open>Warning\<close>

fun isInactiveTypeInCurrentPass :: "EWStatus \<Rightarrow> int \<Rightarrow> bool" where
  "isInactiveTypeInCurrentPass W_EARLY p = (LASTPASS \<le> p)"
| "isInactiveTypeInCurrentPass W_PASS3 p = (p < LASTPASS)"
| "isInactiveTypeInCurrentPass W_PASS03 p = (0 < p \<and> p < LASTPASS)"
| "isInactiveTypeInCurrentPass W_ALL p = False"

fun w_as_error :: "EWStatus \<Rightarrow> EStatus" where
  "w_as_error W_EARLY = E_EARLY"
| "w_as_error W_PASS3 = E_PASS3"
| "w_as_error W_PASS03 = E_PASS03"
| "w_as_error W_ALL = E_ALL"

definition count_warning :: "warn_id option \<Rightarrow> string \<Rightarrow> string option \<Rightarrow> diag_state \<Rightarrow> diag_state" where
  "count_warning wid message badValueMessage d =
     (let d1 = d\<lparr>WarningCount := WarningCount d + 1\<rparr>;
          d2 = d1\<lparr>defs := snd (Replace_int (defs d1) ''__WARNINGS__'' (WarningCount d1))\<rparr>
      in d2\<lparr>messages := messages d2 @ [WarningMsg wid message badValueMessage]\<rparr>)"

definition warning_impl_upd :: "warn_id option \<Rightarrow> string \<Rightarrow> string option \<Rightarrow> EWStatus \<Rightarrow> asm \<Rightarrow> asm" where
  "warning_impl_upd wid message badValueMessage type s =
     (if WarningsAsErrors (syx (opts s)) then error_upd message badValueMessage (w_as_error type) s
      else s\<lparr>dg := count_warning wid message badValueMessage (dg s)\<rparr>)"

definition warning_upd :: "string \<Rightarrow> string option \<Rightarrow> EWStatus \<Rightarrow> asm \<Rightarrow> asm" where
  "warning_upd message badValueMessage type s =
     (if isInactiveTypeInCurrentPass type (pass s) then s
      else warning_impl_upd None message badValueMessage type s)"

definition warning_by_id_upd :: "warn_id \<Rightarrow> string option \<Rightarrow> EWStatus \<Rightarrow> asm \<Rightarrow> asm" where
  "warning_by_id_upd wid badValueMessage type s =
     (if isInactiveTypeInCurrentPass type (pass s) then s
      else if suppressedById wid (dg s) then s
      else if \<not> warn_enabled (dg s) wid then s
      else warning_impl_upd (Some wid) (w_texts_txt wid) badValueMessage type s)"

definition Warning :: "string \<Rightarrow> string option \<Rightarrow> EWStatus \<Rightarrow> unit M" where
  "Warning message badValueMessage type = modify (warning_upd message badValueMessage type)"

definition WarningById :: "warn_id \<Rightarrow> string option \<Rightarrow> EWStatus \<Rightarrow> unit M" where
  "WarningById wid badValueMessage type = modify (warning_by_id_upd wid badValueMessage type)"

definition WarningByIdInt :: "warn_id \<Rightarrow> aint \<Rightarrow> EWStatus \<Rightarrow> unit M" where
  "WarningByIdInt wid badValue type = WarningById wid (Some (fmt_d badValue)) type"

section \<open>Options::noFakes\<close>

definition noFakes :: "bool \<Rightarrow> bool M" where
  "noFakes showMessage = do {
     o1 \<leftarrow> gets opts;
     b \<leftarrow> gets bp;
     let fakesDisabled = IsI8080 o1 \<or> IsLR35902 o1 \<or> \<not> FakeEnabled (syx o1);
     if \<not> showMessage then ret fakesDisabled
     else if fakesDisabled then do {
       Error (if IsLR35902 o1 then ''Fake instructions are not implemented in Sharp LR35902 mode''
              else if IsI8080 o1 then ''Fake instructions are not implemented in i8080 mode''
              else ''Fake instructions are not enabled'') (Some b) E_SUPPRESS;
       ret True }
     else do {
       whenM (FakeWarning (syx o1)) (WarningById W_FAKE (Some b) W_PASS3);
       ret False } }"

section \<open>CDefineTable::Add, Get and assignment\<close>

definition Add :: "string \<Rightarrow> string \<Rightarrow> string list \<Rightarrow> unit M" where
  "Add name v nss = do {
     t \<leftarrow> gets (\<lambda>s. defs (dg s));
     whenM (FindDuplicate t name) (Error ''Duplicate define (replacing old value)'' (Some name) E_PASS03);
     mod_dg (\<lambda>d. d\<lparr>defs := def_push (defs d) (CDefineTableEntry name v nss)\<rparr>) }"

definition Get :: "string \<Rightarrow> string option M" where
  "Get name = do {
     mod_dg (\<lambda>d. d\<lparr>DefArrayList := []\<rparr>);
     if name = [] then ret None
     else if chr_at name 1 = CHR ''_'' \<and> name = ''__COUNTER__'' then do {
       c \<leftarrow> gets PredefinedCounter;
       modify (\<lambda>s. s\<lparr>PredefinedCounter := wrap32 (PredefinedCounter s + 1)\<rparr>);
       ret (Some (fmt_d c)) }
     else if chr_at name 1 = CHR ''_'' \<and> name = ''__LINE__'' then do {
       st \<leftarrow> gets sourcePosStack;
       ret (Some (fmt_d (if st = [] then 0 else int (tfp_line (last st))))) }
     else do {
       t \<leftarrow> gets (\<lambda>s. defs (dg s));
       (case def_lookup t name of
          None \<Rightarrow> ret None
        | Some (_, v, nss) \<Rightarrow> do {
            mod_dg (\<lambda>d. d\<lparr>DefArrayList := nss\<rparr>);
            ret (Some v) }) } }"

text \<open>The assignment \<^verbatim>\<open>DefineTable = Options::CmdDefineTable\<close> at the start of a pass adds the entries of
  the 128 lists one by one, each list from its head.\<close>

fun add_chain :: "define_entry list \<Rightarrow> unit M" where
  "add_chain [] = ret ()"
| "add_chain (e # es) = (case e of (n, v, nss) \<Rightarrow> do { Add n v nss; add_chain es })"

fun add_chains :: "(nat \<Rightarrow> define_entry list) \<Rightarrow> nat list \<Rightarrow> unit M" where
  "add_chains t [] = ret ()"
| "add_chains t (b # bs) = do { add_chain (t b); add_chains t bs }"

definition CDefineTable_assign :: "define_table \<Rightarrow> unit M" where
  "CDefineTable_assign src = do {
     mod_dg (\<lambda>d. d\<lparr>defs := RemoveAll (defs d), DefArrayList := []\<rparr>);
     add_chains src [0..<128] }"

section \<open>Frame rules\<close>

text \<open>\<open>reports s s'\<close>: nothing but the diagnostics changed, and the run may have ended but not run out
  of fuel. A computation is \<open>diag_only\<close> when it only reports.\<close>

definition reports :: "asm \<Rightarrow> asm \<Rightarrow> bool" where
  "reports s s' \<longleftrightarrow> (\<exists>d h. s' = s\<lparr>dg := d, halted := h\<rparr> \<and> (h = OutOfFuel \<longrightarrow> halted s = OutOfFuel))"

lemma reports_dg: "reports s (s\<lparr>dg := d\<rparr>)"
proof -
  have "s\<lparr>dg := d\<rparr> = s\<lparr>dg := d, halted := halted s\<rparr>" by simp
  then show ?thesis unfolding reports_def by blast
qed

lemma reports_refl: "reports s s"
  using reports_dg [of s "dg s"] by simp

lemma reports_trans: "reports s t \<Longrightarrow> reports t u \<Longrightarrow> reports s u"
  unfolding reports_def by fastforce

interpretation rep: io_preorder reports
  by unfold_locales (rule reports_refl, erule reports_trans)

abbreviation diag_only :: "'a M \<Rightarrow> bool" where
  "diag_only \<equiv> state_io_rel reports"

named_theorems reporting \<open>computations that only report\<close>

lemmas rep_rules [reporting] = rep.io_rules

lemma reports_error_upd: "reports s (error_upd m b t s)"
  using reports_refl reports_dg
  by (simp add: error_upd_def) (auto simp: reports_def)

lemma reports_warning_impl_upd: "reports s (warning_impl_upd w m b t s)"
  by (simp add: warning_impl_upd_def reports_error_upd reports_dg)

lemma diag_only_Error [reporting]: "diag_only (Error m b t)"
  by (simp add: Error_def rep.io_modify reports_error_upd)

lemma diag_only_ErrorInt [reporting]: "diag_only (ErrorInt m v t)"
  by (simp add: ErrorInt_def reporting)

lemma diag_only_Warning [reporting]: "diag_only (Warning m b wt)"
  by (simp add: Warning_def rep.io_modify warning_upd_def reports_refl reports_warning_impl_upd)

lemma diag_only_WarningById [reporting]: "diag_only (WarningById w b wt)"
  by (simp add: WarningById_def rep.io_modify warning_by_id_upd_def reports_refl reports_warning_impl_upd)

lemma diag_only_WarningByIdInt [reporting]: "diag_only (WarningByIdInt w v wt)"
  by (simp add: WarningByIdInt_def reporting)

lemma diag_only_noFakes [reporting]: "diag_only (noFakes b)"
  unfolding noFakes_def by (intro reporting)

lemma keeps_diag:
  assumes "diag_only m" and "\<And>s d h. f (s\<lparr>dg := d, halted := h\<rparr>) = f s"
  shows "keeps f m"
proof (rule keepsI)
  fix s
  have "reports s (snd (run_state m s))" using assms(1) by (simp add: state_io_rel_def)
  then show "f (snd (run_state m s)) = f s" by (auto simp: reports_def assms(2))
qed

lemma inv_diag:
  assumes "diag_only m"
    and "\<And>s d h. I s \<Longrightarrow> (h = OutOfFuel \<Longrightarrow> halted s = OutOfFuel) \<Longrightarrow> I (s\<lparr>dg := d, halted := h\<rparr>)"
    and "\<And>r. V r"
  shows "inv I m V"
proof (rule invI)
  fix s assume "I s"
  have "reports s (snd (run_state m s))" using assms(1) by (simp add: state_io_rel_def)
  then obtain d h where 1: "snd (run_state m s) = s\<lparr>dg := d, halted := h\<rparr>"
    "h = OutOfFuel \<longrightarrow> halted s = OutOfFuel"
    unfolding reports_def by blast
  have "I (s\<lparr>dg := d, halted := h\<rparr>)" by (rule assms(2)) (use 1 \<open>I s\<close> in auto)
  then show "I (snd (run_state m s)) \<and> V (fst (run_state m s))"
    using assms(3) 1 by simp
qed

lemma inv_diag_fuel: "diag_only m \<Longrightarrow> (\<And>r. V r) \<Longrightarrow> inv fuel_ok m V"
  by (rule inv_diag) (auto simp: fuel_ok_def)

lemma inv_diag_lp: "diag_only m \<Longrightarrow> (\<And>r. V r) \<Longrightarrow> inv (lp_inv p0) m V"
  by (rule inv_diag) (auto simp: lp_inv_def)

text \<open>\<open>logs\<close> is the weaker relation that also allows a loop to run out of fuel; together with a proof
  that the fuel is enough it gives \<open>diag_only\<close> back.\<close>

definition logs :: "asm \<Rightarrow> asm \<Rightarrow> bool" where
  "logs s s' \<longleftrightarrow> (\<exists>d h. s' = s\<lparr>dg := d, halted := h\<rparr>)"

lemma logs_refl: "logs s s"
  unfolding logs_def by (rule exI [of _ "dg s"], rule exI [of _ "halted s"]) simp

lemma logs_trans: "logs s t \<Longrightarrow> logs t u \<Longrightarrow> logs s u"
  unfolding logs_def by fastforce

interpretation lg: io_preorder logs
  by unfold_locales (rule logs_refl, erule logs_trans)

abbreviation logs_only :: "'a M \<Rightarrow> bool" where
  "logs_only \<equiv> state_io_rel logs"

named_theorems logging \<open>computations that only report, or run out of fuel\<close>

lemmas lg_rules [logging] = lg.io_rules

lemma logs_only_diag: "diag_only m \<Longrightarrow> logs_only m"
  unfolding state_io_rel_def reports_def logs_def by blast

lemma logs_only_out_of_fuel [logging]: "logs_only out_of_fuel"
proof -
  have "logs s (s\<lparr>halted := OutOfFuel\<rparr>)" for s
    unfolding logs_def by (rule exI [of _ "dg s"], rule exI [of _ OutOfFuel]) simp
  then show ?thesis by (simp add: out_of_fuel_def lg.io_modify)
qed

lemmas logging_diag [logging] =
  logs_only_diag [OF diag_only_Error] logs_only_diag [OF diag_only_ErrorInt]
  logs_only_diag [OF diag_only_Warning] logs_only_diag [OF diag_only_WarningById]
  logs_only_diag [OF diag_only_WarningByIdInt]

lemma keeps_logs:
  assumes "logs_only m" and "\<And>s d h. f (s\<lparr>dg := d, halted := h\<rparr>) = f s"
  shows "keeps f m"
proof (rule keepsI)
  fix s
  have "logs s (snd (run_state m s))" using assms(1) by (simp add: state_io_rel_def)
  then show "f (snd (run_state m s)) = f s" by (auto simp: logs_def assms(2))
qed

lemma shrinking_logs:
  assumes "\<And>p. logs_only (f p)" and "\<And>p. inv fuel_ok (f p) (\<lambda>(r, p'). suffix p' p)"
  shows "shrinking f"
  by (rule shrinkingI [OF keeps_logs]) (use assms in auto)

text \<open>\<open>calm\<close>: the line pointer is where it was and the fuel has not run out. The weakest of these
  relations; what the parsing functions keep that also change labels or other variables.\<close>

definition calm :: "asm \<Rightarrow> asm \<Rightarrow> bool" where
  "calm s s' \<longleftrightarrow> lp s' = lp s \<and> (halted s \<noteq> OutOfFuel \<longrightarrow> halted s' \<noteq> OutOfFuel)"

interpretation cm: io_preorder calm
  by unfold_locales (auto simp: calm_def)

abbreviation calm_only :: "'a M \<Rightarrow> bool" where
  "calm_only \<equiv> state_io_rel calm"

named_theorems calming \<open>computations that keep the line pointer and the fuel\<close>

lemmas cm_rules [calming] = cm.io_rules

lemma calm_modify [calming]: "(\<And>s. lp (f s) = lp s) \<Longrightarrow> (\<And>s. halted (f s) = halted s) \<Longrightarrow> calm_only (modify f)"
  by (rule cm.io_modify) (simp add: calm_def)

lemma calm_diag: "diag_only m \<Longrightarrow> calm_only m"
proof -
  have "reports s s' \<Longrightarrow> calm s s'" for s s' by (auto simp: reports_def calm_def)
  then show "diag_only m \<Longrightarrow> calm_only m" unfolding state_io_rel_def by blast
qed

lemmas calming_diag [calming] =
  calm_diag [OF diag_only_Error] calm_diag [OF diag_only_ErrorInt]
  calm_diag [OF diag_only_Warning] calm_diag [OF diag_only_WarningById]
  calm_diag [OF diag_only_WarningByIdInt] calm_diag [OF diag_only_noFakes]

lemma calm_keeps_lp: "calm_only m \<Longrightarrow> keeps lp m"
  by (auto simp: keeps_def state_io_rel_def calm_def)

lemma inv_calm_fuel: "calm_only m \<Longrightarrow> inv (\<lambda>_. True) m V \<Longrightarrow> inv fuel_ok m V"
  by (auto simp: inv_def state_io_rel_def calm_def fuel_ok_def)

lemma inv_calm: "calm_only m \<Longrightarrow> (\<And>r. V r) \<Longrightarrow> inv fuel_ok m V"
  by (auto simp: inv_def state_io_rel_def calm_def fuel_ok_def)

lemma inv_calm_lp: "calm_only m \<Longrightarrow> (\<And>r. V r) \<Longrightarrow> inv (lp_inv p0) m V"
  by (auto simp: inv_def state_io_rel_def calm_def lp_inv_def)

lemma shrinking_calm:
  assumes "\<And>p. calm_only (f p)" and "\<And>p. inv (\<lambda>_. True) (f p) (\<lambda>(r, p'). suffix p' p)"
  shows "shrinking f"
  by (rule shrinkingI [OF calm_keeps_lp inv_calm_fuel]) (use assms in auto)

section \<open>Which errors of a line are counted\<close>

text \<open>The abstract view of \<^verbatim>\<open>IsSkipErrors\<close>, \<^verbatim>\<open>PreviousErrorLine\<close> and \<^verbatim>\<open>CompiledCurrentLine\<close>: a line has no
  counted error yet, has some, or is muted. \<open>line_step\<close> is the automaton the comment of io_err.h
  describes; \<open>active\<close> says in which passes a kind of error is looked at.\<close>

datatype line_state = Fresh | Seen | Muted

definition line_abs :: "diag_state \<Rightarrow> line_state" where
  "line_abs d = (if PreviousErrorLine d \<noteq> CompiledCurrentLine d then Fresh
                 else if IsSkipErrors d then Muted else Seen)"

fun active :: "EStatus \<Rightarrow> int \<Rightarrow> bool" where
  "active E_EARLY p = (p < LASTPASS)"
| "active E_PASS3 p = (LASTPASS \<le> p)"
| "active E_IF_FIRST p = (LASTPASS \<le> p)"
| "active E_SUPPRESS p = (LASTPASS \<le> p)"
| "active E_PASS03 p = (p \<le> 0 \<or> LASTPASS \<le> p)"
| "active E_ALL p = True"
| "active E_FATAL p = True"

fun line_step :: "EStatus \<Rightarrow> line_state \<Rightarrow> bool \<times> line_state" where
  "line_step E_FATAL Muted = (True, Muted)"
| "line_step E_FATAL _ = (True, Seen)"
| "line_step _ Muted = (False, Muted)"
| "line_step E_IF_FIRST Seen = (False, Seen)"
| "line_step E_SUPPRESS _ = (True, Muted)"
| "line_step _ _ = (True, Seen)"

lemma error_skipped_iff:
  "error_skipped t s \<longleftrightarrow> \<not> active t (pass s) \<or> \<not> fst (line_step t (line_abs (dg s)))"
  by (cases t) (auto simp: error_skipped_def line_abs_def)

lemma line_abs_count_error:
  "fst (line_step t (line_abs d)) \<Longrightarrow> line_abs (count_error m b t d) = snd (line_step t (line_abs d))"
  by (cases t) (auto simp: line_abs_def count_error_def Let_def)

lemma line_step_no_count: "\<not> fst (line_step t l) \<Longrightarrow> snd (line_step t l) = l"
  by (cases t; cases l) simp_all

lemma ErrorCount_count_error [simp]: "ErrorCount (count_error m b t d) = ErrorCount d + 1"
  by (simp add: count_error_def Let_def)

section \<open>The mirrored counters\<close>

lemma hex_digit_lt10: "d < 10 \<Longrightarrow> isdigit (hex_digit d)"
proof -
  assume "d < 10"
  then have "d = 0 \<or> d = 1 \<or> d = 2 \<or> d = 3 \<or> d = 4 \<or> d = 5 \<or> d = 6 \<or> d = 7 \<or> d = 8 \<or> d = 9"
    by arith
  then show ?thesis
    by (elim disjE) (simp_all add: hex_digit_def isdigit_def ord_def)
qed

lemma dec_digits_isdigit: "\<forall>c \<in> set (dec_digits n). isdigit c"
proof (induction n rule: dec_digits.induct)
  case (1 n)
  show ?case
  proof (cases "n < 10")
    case True
    then show ?thesis by (simp add: dec_digits.simps [of n] hex_digit_lt10)
  next
    case False
    with 1 have "\<forall>c \<in> set (dec_digits (n div 10)). isdigit c" by blast
    with False show ?thesis by (simp add: dec_digits.simps [of n] hex_digit_lt10)
  qed
qed

lemma isdigit_not_eol: "isdigit c \<Longrightarrow> c \<noteq> CHR 0x0A \<and> c \<noteq> CHR 0x0D"
  by (auto simp: isdigit_def ord_def)

lemma fmt_d_no_eol: "\<forall>c \<in> set (fmt_d x). c \<noteq> CHR 0x0A \<and> c \<noteq> CHR 0x0D"
proof
  fix c assume "c \<in> set (fmt_d x)"
  then have "c = CHR ''-'' \<or> isdigit c"
    using dec_digits_isdigit by (auto simp: fmt_d_def split: if_splits)
  then show "c \<noteq> CHR 0x0A \<and> c \<noteq> CHR 0x0D" using isdigit_not_eol by auto
qed

lemma takeWhile_fmt_d [simp]: "takeWhile (\<lambda>c. c \<noteq> CHR 0x0A \<and> c \<noteq> CHR 0x0D) (fmt_d x) = fmt_d x"
  using fmt_d_no_eol by (simp add: takeWhile_eq_all_conv)

definition def_value :: "diag_state \<Rightarrow> string \<Rightarrow> string option" where
  "def_value d name = map_option (fst \<circ> snd) (def_lookup (defs d) name)"

lemma Replace_int_value: "map_option (fst \<circ> snd) (def_lookup (snd (Replace_int t n x)) n) = Some (fmt_d x)"
  by (auto simp: Replace_int_def def_lookup_abs def_abs_Replace CDefineTableEntry_def
      CDefineTableEntry_Replace_def split: list.split prod.split)

lemma Replace_int_frame: "m \<noteq> n \<Longrightarrow> def_lookup (snd (Replace_int t n x)) m = def_lookup t m"
  by (simp add: Replace_int_def dt.top_put_frame)

lemma def_value_count_error: "def_value (count_error m b t d) ''__ERRORS__'' = Some (fmt_d (ErrorCount d + 1))"
  by (simp add: def_value_def count_error_def Let_def Replace_int_value)

lemma def_value_count_warning:
  "def_value (count_warning w m b d) ''__WARNINGS__'' = Some (fmt_d (WarningCount d + 1))"
  by (simp add: def_value_def count_warning_def Let_def Replace_int_value)

section \<open>Properties\<close>

text \<open>Claim C17. \<open>Error\<close> refines the automaton of a source line: an error that is active in the pass is
  counted and logged exactly when the automaton says so, the automaton's state (no error yet, some
  error, muted by a SUPPRESS error) follows, and a skipped error changes nothing at all; only a fatal
  error ends the run.\<close>

theorem Error_refines_line_automaton:
  "(let s' = snd (run_state (Error m b t) s); (counted, l) = line_step t (line_abs (dg s)) in
     if active t (pass s) \<and> counted
     then line_abs (dg s') = l \<and> ErrorCount (dg s') = ErrorCount (dg s) + 1 \<and>
          messages (dg s') = messages (dg s) @ [ErrorMsg m b] \<and>
          halted s' = (if t = E_FATAL \<and> halted s = Running then Exited else halted s)
     else s' = s)"
  using error_skipped_iff [of t s] line_abs_count_error [of t "dg s" m b]
  by (auto simp: Error_def error_upd_def Let_def count_error_def split: prod.splits)

text \<open>The mirror invariant: the predefined symbols __ERRORS__ and __WARNINGS__ hold the counters.\<close>

definition counters_mirrored :: "diag_state \<Rightarrow> bool" where
  "counters_mirrored d \<longleftrightarrow>
     def_value d ''__ERRORS__'' = Some (fmt_d (ErrorCount d)) \<and>
     def_value d ''__WARNINGS__'' = Some (fmt_d (WarningCount d))"

lemma mirrored_error_upd: "counters_mirrored (dg s) \<Longrightarrow> counters_mirrored (dg (error_upd m b t s))"
  by (simp add: error_upd_def counters_mirrored_def def_value_count_error)
    (simp add: def_value_def count_error_def Let_def Replace_int_frame)

lemma ErrorCount_count_warning [simp]: "ErrorCount (count_warning w m b d) = ErrorCount d"
  by (simp add: count_warning_def Let_def)

lemma mirrored_count_warning: "counters_mirrored d \<Longrightarrow> counters_mirrored (count_warning w m b d)"
  by (simp add: counters_mirrored_def def_value_count_warning)
    (simp add: def_value_def count_warning_def Let_def Replace_int_frame)

lemma mirrored_warning_impl_upd:
  "counters_mirrored (dg s) \<Longrightarrow> counters_mirrored (dg (warning_impl_upd w m b t s))"
  by (simp add: warning_impl_upd_def mirrored_error_upd mirrored_count_warning)

text \<open>The state of the diagnostics at the start, as the witnesses use it.\<close>

definition diag0 :: diag_state where
  "diag0 = \<lparr>messages = [], ErrorCount = 0, WarningCount = 0, IsSkipErrors = False, PreviousErrorLine = -1,
     CompiledCurrentLine = 1, eolComment = None, warn_enabled = w_texts_enabled,
     defs = snd (Replace_int (snd (Replace_int (\<lambda>_. []) ''__ERRORS__'' 0)) ''__WARNINGS__'' 0),
     DefArrayList = []\<rparr>"

text \<open>Claim C24. DEFINE shadows: after \<open>Add\<close> the name has the new replacement text (cut at the line
  end), every other name its old one, and a \<open>Remove\<close> of the name uncovers exactly the old table's
  values; the message of \<open>Add\<close> about replacing the old value is not what happens.\<close>

theorem Add_Remove_shadowing:
  "(let t = defs (dg s); t' = defs (dg (snd (run_state (Add n v nss) s))) in
     def_lookup t' n = Some (CDefineTableEntry n v nss) \<and>
     (\<forall>m. m \<noteq> n \<and> m \<noteq> ''__ERRORS__'' \<longrightarrow> def_lookup t' m = def_lookup t m) \<and>
     (n \<noteq> ''__ERRORS__'' \<longrightarrow> def_lookup (snd (Remove t' n)) n = def_lookup t n))"
proof -
  define t1 where "t1 = defs (dg (if FindDuplicate (defs (dg s)) n
     then error_upd ''Duplicate define (replacing old value)'' (Some n) E_PASS03 s else s))"
  have t1: "def_lookup t1 m = def_lookup (defs (dg s)) m" if "m \<noteq> ''__ERRORS__''" for m
    using that by (simp add: t1_def error_upd_def count_error_def Let_def Replace_int_frame)
  have t': "defs (dg (snd (run_state (Add n v nss) s))) = def_push t1 (CDefineTableEntry n v nss)"
    by (simp add: Add_def t1_def Error_def whenM_def)
  have fst: "fst (CDefineTableEntry n v nss) = n" by (simp add: CDefineTableEntry_def)
  show ?thesis
    unfolding Let_def t' using t1 dt.pop_push [of t1 "CDefineTableEntry n v nss"]
    by (simp add: dt.top_push fst)
qed

theorem Add_Remove_shadowing_witness:
  "\<forall>s. let s0 = s\<lparr>dg := diag0\<rparr>;
          t = defs (dg (snd (run_state (Add ''X'' ''1'' []) s0))) in
       def_lookup t ''X'' = Some (''X'', ''1'', []) \<and>
       def_lookup (snd (Remove t ''X'')) ''X'' = def_lookup (defs diag0) ''X''"
proof
  fix s :: asm
  show "let s0 = s\<lparr>dg := diag0\<rparr>; t = defs (dg (snd (run_state (Add ''X'' ''1'' []) s0))) in
       def_lookup t ''X'' = Some (''X'', ''1'', []) \<and>
       def_lookup (snd (Remove t ''X'')) ''X'' = def_lookup (defs diag0) ''X''"
    using Add_Remove_shadowing [of "s\<lparr>dg := diag0\<rparr>" "''X''" "''1''" "[]"]
    by (simp add: Let_def CDefineTableEntry_def)
qed

text \<open>A concrete state, used by the witnesses: the last pass, no device, nothing defined.\<close>

definition syntax0 :: SSyntax where
  "syntax0 = \<lparr>IsPseudoOpBOF = False, IsReversePOP = False, FakeEnabled = True, FakeWarning = False,
     CaseInsensitiveInstructions = False, WarningsAsErrors = False, Is_M_Memory = False,
     IsSubwordSubstitution = True, MemoryBrackets = 0, IsNextEnabled = 0, MultiArg = MA_doubleComma\<rparr>"

definition asm0 :: asm where
  "asm0 = \<lparr>
     opts = \<lparr>IsI8080 = False, IsLR35902 = False, IsLongPtr = False, syx = syntax0, systemSyntax = syntax0, syxStack = [], host_shl = (\<lambda>_ _. 0),
       host_sar = (\<lambda>_ _. 0), host_shr = (\<lambda>_ _. 0), host_div = (\<lambda>x. x), host_mod = (\<lambda>_. 0)\<rparr>,
     dg = diag0,
     rel = \<lparr>rel_type = REL_OFF, alternative_offset = 0, areLabelsOffset = False, isResultAffected = False,
       deltaType = REL_OFF, maxTableCount = 0, offsets = [], offsetsPrevious = [], warnAboutContentChange = False,
       startPos = \<lparr>tfp_filename = [], tfp_line = 0, colBegin = 0, colEnd = 0\<rparr>\<rparr>,
     labs = \<lparr>symbols = Map.empty, sizeofStack = [], sourceBlockLevel = 0, tl_labels = [], tl_nextPassLabels = [],
       vorlab = ''_'', ModuleName = [], macrolabp = None, getLabel_invalidName = False\<rparr>,
     dv = \<lparr>Devices = [], DefDevices = [], Device = None, DeviceID = None, PageCur = 0, MemoryPointer = None\<rparr>,
     outp = \<lparr>WriteBuffer = [], destlen = 0, FP_Output = None, FP_RAW = None, FP_tapout = None, tape_length = 0,
       tape_parity = 0, FP_HEX = None, hexBytes = [], hexAddress = 0, ListEmittedBytes = [], someByteEmitted = False,
       notWarnedCurAdr = True, notWarnedDisp = True, PageDiffersWarningShown = False, sldActive = False, sldFile = []\<rparr>,
     lp = [], bp = [], line = [], pass = 3, CurAddress = 0, adrdisp = 0, PseudoORG = DISP_NONE,
     dispPageNum = LABEL_PAGE_UNDEFINED, IsLabelNotFound = False, IsSubstituting = False, synerr = True,
     expectedAddressClosingBracket = None, GetRegister_lastIxyD = 0, lastDisplacementParsedP = None,
     sourcePosStack = [], smartSmcLines = [], smartSmcIndex = 0, PredefinedCounter = 0, substitutedLine = [],
     nextExtensions = False, dg_one = 0, zeroInDgWarning = False,
     srcs = \<lparr>comlin = 0, macro_defs = [], macro_used = (\<lambda>_. False), rlbuf = [], colonSubline = False, blockComment = 0,
       IsRunning = True, lijst = 0, lijstp = []\<rparr>,
     prog = \<lparr>LastParsedLabel = None, LastParsedLabelLine = 0, strs = (\<lambda>_. []), PreviousIsLabel = None,
       mac_used = (\<lambda>_. False), macs = Map.empty, macronummer = 0, listmacro = 0, RepeatStack = [], StartAddress = -1,
       deviceDirectivesCount = 0, ConvertEncoding = 1, sldSwapSrcPos = 0, IncludeLevel = 0, fileNameFull = None\<rparr>, disk = (\<lambda>_. None), halted = Running\<rparr>"

end
