(* ===== verification/Sj_Lexer.thy ===== *)
theory Sj_Lexer
  imports Sj_Diag
begin

text \<open>
  reader.cpp, first part: the lexing primitives. A function with a \<^verbatim>\<open>char*&\<close> argument is a \<open>lexer\<close>, it
  returns its result and the new remaining text. \<^verbatim>\<open>need\<close> with a string of two-character operator
  patterns, \<^verbatim>\<open>cmphstr\<close> (keyword match in all-lower or all-upper case) and the comma family are what
  the expression parser and the instruction handlers are built from.
\<close>

section \<open>Blanks\<close>

definition White :: "char \<Rightarrow> bool" where
  "White c \<longleftrightarrow> c \<noteq> NUL \<and> ord c \<le> 32"

definition skip_blanks :: "string \<Rightarrow> string" where
  "skip_blanks p = dropWhile White p"

text \<open>\<^verbatim>\<open>SkipBlanks\<close> also returns whether the end of the line was reached.\<close>

definition SkipBlanks :: "bool lexer" where
  "SkipBlanks p = (let q = skip_blanks p in (cur q = NUL, q))"

definition SkipParam :: "string \<Rightarrow> string" where
  "SkipParam p = dropWhile (\<lambda>c. c \<noteq> CHR '','') p"

definition SkipToEol :: "string \<Rightarrow> string" where
  "SkipToEol p = []"

definition skip_line :: "unit M" where
  "skip_line = modify (\<lambda>s. s\<lparr>lp := SkipToEol (lp s)\<rparr>)"

section \<open>Label characters\<close>

definition islabchar :: "char \<Rightarrow> bool" where
  "islabchar c \<longleftrightarrow> isalnum c \<or> c = CHR ''_'' \<or> c = CHR ''.'' \<or> c = CHR ''?'' \<or> c = CHR ''!'' \<or>
     c = CHR ''#'' \<or> c = CHR ''@''"

definition isLabelStart0 :: "string \<Rightarrow> bool" where
  "isLabelStart0 p \<longleftrightarrow> cur p \<noteq> NUL \<and> (isalpha (cur p) \<or> cur p = CHR ''_'')"

definition isLabelStart :: "string \<Rightarrow> bool \<Rightarrow> bool" where
  "isLabelStart p modifiersAllowed =
     (if modifiersAllowed \<and> (cur p = CHR ''.'' \<or> cur p = CHR ''@'') then isLabelStart0 (drop 1 p)
      else isLabelStart0 p)"

section \<open>Keywords\<close>

text \<open>The three loops of \<^verbatim>\<open>cmphstr\<close>: \<open>match_pre\<close> compares the leading non-letters of the keyword and
  returns the rest of both texts, \<open>match_by f\<close> the remainder under \<open>f\<close> (\<open>toupper\<close> or the identity).\<close>

fun match_pre :: "string \<Rightarrow> string \<Rightarrow> (string \<times> string) option" where
  "match_pre p1 [] = Some (p1, [])"
| "match_pre p1 (k # ks) =
     (if isalpha k then Some (p1, k # ks)
      else if cur p1 \<noteq> k then None else match_pre (drop 1 p1) ks)"

fun match_by :: "(char \<Rightarrow> char) \<Rightarrow> string \<Rightarrow> string \<Rightarrow> string option" where
  "match_by f p1 [] = Some p1"
| "match_by f p1 (k # ks) = (if cur p1 \<noteq> f k then None else match_by f (drop 1 p1) ks)"

text \<open>The character after the keyword: white space, end of line, a comment, or "(" where allowed.\<close>

definition keyword_end :: "bool \<Rightarrow> string \<Rightarrow> bool" where
  "keyword_end allowParenthesisEnd p1 \<longleftrightarrow>
     cur p1 = NUL \<or> White (cur p1) \<or> cur p1 = CHR '';'' \<or>
     (cur p1 = CHR ''/'' \<and> chr_at p1 1 = CHR ''/'') \<or>
     (cur p1 = CHR ''/'' \<and> chr_at p1 1 = CHR ''*'') \<or>
     (allowParenthesisEnd \<and> cur p1 = CHR ''('')"

definition cmphstr :: "string \<Rightarrow> bool \<Rightarrow> bool lexer" where
  "cmphstr p2 allowParenthesisEnd p1 =
     (case match_pre p1 p2 of
        None \<Rightarrow> (False, p1)
      | Some (q, ks) \<Rightarrow>
          (case match_by (if isupper (cur q) then toupper else (\<lambda>c. c)) q ks of
             None \<Rightarrow> (False, p1)
           | Some r \<Rightarrow> if keyword_end allowParenthesisEnd r then (True, r) else (False, p1)))"

definition NeedEQU :: "bool lexer" where
  "NeedEQU p =
     (let q = skip_blanks p; q1 = (if cur q = CHR ''.'' then drop 1 q else q)
      in case cmphstr ''equ'' False q1 of (True, r) \<Rightarrow> (True, r) | (False, _) \<Rightarrow> (False, p))"

definition NeedDEFL :: "bool lexer" where
  "NeedDEFL p =
     (let q = skip_blanks p in
      if cur q = CHR ''='' then (True, drop 1 q)
      else let q1 = (if cur q = CHR ''.'' then drop 1 q else q)
           in case cmphstr ''defl'' False q1 of (True, r) \<Rightarrow> (True, r) | (False, _) \<Rightarrow> (False, p))"

text \<open>\<^verbatim>\<open>isMacroNext\<close> skips blanks on the line pointer itself, then only looks.\<close>

definition isMacroNext :: "bool lexer" where
  "isMacroNext p =
     (let q = skip_blanks p in
      if cur q = NUL then (False, q)
      else let q1 = (if cur q = CHR ''.'' then drop 1 q else q)
           in (fst (cmphstr ''macro'' False q1), q))"

section \<open>Commas and brackets\<close>

definition anyComma :: "bool lexer" where
  "anyComma p = (let q = skip_blanks p in if cur q \<noteq> CHR '','' then (False, q) else (True, drop 1 q))"

definition comma :: "bool lexer" where
  "comma p = (let q = skip_blanks p in
     if CHR '','' \<noteq> cur q \<or> CHR '','' = chr_at q 1 then (False, q) else (True, drop 1 q))"

definition doubleComma :: "bool lexer" where
  "doubleComma p = (let q = skip_blanks p in
     if CHR '','' \<noteq> cur q \<or> CHR '','' \<noteq> chr_at q 1 then (False, q) else (True, drop 2 q))"

definition isMultiArgPlainComma :: "SSyntax \<Rightarrow> bool" where
  "isMultiArgPlainComma x \<longleftrightarrow> MultiArg x = MA_comma"

definition call_MultiArg :: "SSyntax \<Rightarrow> bool lexer" where
  "call_MultiArg x = (case MultiArg x of MA_comma \<Rightarrow> comma | MA_doubleComma \<Rightarrow> doubleComma)"

definition nonMaComma :: "SSyntax \<Rightarrow> bool lexer" where
  "nonMaComma x p = (if isMultiArgPlainComma x then (False, p) else comma p)"

definition relaxedMaComma :: "SSyntax \<Rightarrow> bool lexer" where
  "relaxedMaComma x p =
     (let q = skip_blanks p in
      if CHR '','' \<noteq> cur q then (False, q)
      else if CHR '','' = chr_at q 1 then
        (if isMultiArgPlainComma x then (False, q) else (True, drop 2 q))
      else (True, drop 1 q))"

text \<open>\<^verbatim>\<open>OpenBracket\<close> and \<^verbatim>\<open>CloseBracket\<close> share the variable with the expected closing bracket, which they
  take and return here; the early return for a disabled "(" leaves it unchanged.\<close>

definition OpenBracket :: "int \<Rightarrow> char option \<Rightarrow> string \<Rightarrow> EBracketType \<times> char option \<times> string" where
  "OpenBracket memoryBrackets expected p =
     (let q = skip_blanks p in
      if 2 = memoryBrackets \<and> CHR ''('' = cur q then (BT_NONE, expected, q)
      else if CHR ''('' = cur q then (BT_ROUND, Some CHR '')'', drop 1 q)
      else if CHR ''['' = cur q then (BT_SQUARE, Some CHR '']'', drop 1 q)
      else (BT_NONE, None, q))"

definition CloseBracket :: "char option \<Rightarrow> string \<Rightarrow> bool \<times> char option \<times> string" where
  "CloseBracket expected p =
     (let q = skip_blanks p in
      case expected of
        None \<Rightarrow> (False, expected, q)
      | Some e \<Rightarrow> if cur q \<noteq> e then (False, expected, q) else (True, None, drop 1 q))"

text \<open>\<^verbatim>\<open>ParenthesesEnd\<close>: where the text continues after the parenthesis that closes the first one.\<close>

fun paren_scan :: "int \<Rightarrow> string \<Rightarrow> string option" where
  "paren_scan depth [] = None"
| "paren_scan depth (pc # p) =
     (if CHR ''('' = pc then paren_scan (depth + 1) p
      else if CHR '')'' = pc then
        (if depth - 1 = 0 then Some (skip_blanks p) else paren_scan (depth - 1) p)
      else paren_scan depth p)"

definition ParenthesesEnd :: "string \<Rightarrow> string option" where
  "ParenthesesEnd p =
     (let q = skip_blanks p in
      if cur q = NUL \<or> CHR ''('' \<noteq> cur q then None else paren_scan 0 q)"

section \<open>need and needa\<close>

definition need :: "char \<Rightarrow> bool lexer" where
  "need c p = (let q = skip_blanks p in if cur q \<noteq> c then (False, q) else (True, drop 1 q))"

text \<open>
  \<^verbatim>\<open>need(p, "...")\<close> with operator patterns of two characters \<open>c d\<close>: \<open>d\<close> blank means the single
  character \<open>c\<close>; \<open>d\<close> an underscore means \<open>c\<close> not followed by another \<open>c\<close> (or \<open>c\<close> followed by an
  underscore); otherwise both characters. The result is the code of \<open>c\<close> or the sum of both codes;
  0 if nothing matches. The sum identifies an operator within one pattern only.
\<close>

fun need_ops :: "string \<Rightarrow> int lexer" where
  "need_ops (c # d # cs) p =
     (if cur p \<noteq> c then need_ops cs p
      else if d = CHR '' '' then (ord c, drop 1 p)
      else if d = CHR ''_'' \<and> chr_at p 1 \<noteq> c then (ord c, drop 1 p)
      else if chr_at p 1 = d then (ord c + ord d, drop 2 p)
      else need_ops cs p)"
| "need_ops _ p = (0, p)"

definition need_str :: "string \<Rightarrow> int lexer" where
  "need_str c p = need_ops c (skip_blanks p)"

text \<open>\<^verbatim>\<open>needa\<close>: the first of up to three keywords that matches gives its code.\<close>

fun needa_list :: "(string \<times> int) list \<Rightarrow> bool \<Rightarrow> int lexer" where
  "needa_list [] b p = (0, p)"
| "needa_list ((c, r) # ks) b p =
     (case cmphstr c b p of (True, q) \<Rightarrow> (r, q) | (False, _) \<Rightarrow> needa_list ks b p)"

definition needa :: "(string \<times> int) list \<Rightarrow> bool \<Rightarrow> int lexer" where
  "needa ks allowParenthesisEnd p =
     (if \<not> isalpha (cur p) then (0, p) else needa_list ks allowParenthesisEnd p)"

section \<open>Identifiers\<close>

definition GetID :: "string \<Rightarrow> string option \<times> string" where
  "GetID p =
     (let q = skip_blanks p in
      if cur q = NUL \<or> (\<not> isLabelStart q False \<and> cur q \<noteq> CHR ''.'') then (None, q)
      else (Some (takeWhile islabchar q), dropWhile islabchar q))"

text \<open>\<^verbatim>\<open>getinstr\<close>: a name that is followed by a colon is no instruction (but it has been consumed).\<close>

definition getinstr :: "SSyntax \<Rightarrow> string \<Rightarrow> string option \<times> string" where
  "getinstr x p =
     (let q = skip_blanks p in
      if \<not> isalpha (cur q) \<and> cur q \<noteq> CHR ''.'' then (None, q)
      else
        let word = \<lambda>c. isalnum c \<or> c = CHR ''_'';
            n = cur q # takeWhile word (drop 1 q);
            r = dropWhile word (drop 1 q)
        in if CHR '':'' = cur r then (None, r)
           else (Some (if CaseInsensitiveInstructions x then map tolower n else n), r))"

section \<open>Range checks\<close>

definition check8 :: "aint \<Rightarrow> bool M" where
  "check8 val =
     (if val < -256 \<or> val > 255 then do {
        Warning (''value 0x'' @ fmt_X val @ '' is truncated to 8bit value: 0x'' @ fmt_0X 2 (val AND 255)) None W_PASS3;
        ret False }
      else ret True)"

definition check8o :: "aint \<Rightarrow> bool M" where
  "check8o val =
     (if val < -128 \<or> val > 127 then do {
        Error (''Offset out of range ('' @ fmt_plus_i val @ '')'') None E_IF_FIRST;
        ret False }
      else ret True)"

definition check16 :: "aint \<Rightarrow> bool M" where
  "check16 val =
     (if val < -65536 \<or> val > 65535 then do {
        Warning (''value 0x'' @ fmt_X val @ '' is truncated to 16bit value: 0x'' @ fmt_0X 4 (val AND 65535)) None W_PASS3;
        ret False }
      else ret True)"

definition check16u :: "aint \<Rightarrow> bool M" where
  "check16u val =
     (if val < 0 \<or> val > 65535 then do {
        Warning (''value 0x'' @ fmt_X val @ '' is truncated to 16bit value: 0x'' @ fmt_0X 4 (val AND 65535)) None W_PASS3;
        ret False }
      else ret True)"

definition check24 :: "aint \<Rightarrow> bool M" where
  "check24 val =
     (if val < -16777216 \<or> val > 16777215 then do {
        Warning (''value 0x'' @ fmt_X val @ '' is truncated to 24bit value: 0x'' @ fmt_0X 6 (val AND 16777215)) None W_PASS3;
        ret False }
      else ret True)"

definition checkLowMemory :: "int \<Rightarrow> int \<Rightarrow> unit M" where
  "checkLowMemory hiByte lowByte = do {
     t \<leftarrow> gets (\<lambda>s. rel_type (rel s));
     if hiByte \<noteq> 0 \<or> t \<noteq> REL_OFF then ret ()
     else WarningByIdInt W_READ_LOW_MEM lowByte W_PASS3 }"

section \<open>The pointer only moves forward\<close>

lemma White_NUL [simp]: "\<not> White NUL"
  by (simp add: White_def)

lemma suffix_skip_blanks [simp, intro]: "suffix (skip_blanks p) p"
  by (simp add: skip_blanks_def suffix_dropWhile)

lemma not_White_cur_skip_blanks [simp]: "\<not> White (cur (skip_blanks p))"
  by (induction p) (simp_all add: skip_blanks_def)

lemma skip_blanks_simps [simp]:
  "skip_blanks [] = []" "\<not> White c \<Longrightarrow> skip_blanks (c # p) = c # p" "White c \<Longrightarrow> skip_blanks (c # p) = skip_blanks p"
  by (simp_all add: skip_blanks_def)

lemma skip_blanks_id: "\<not> White (cur p) \<Longrightarrow> skip_blanks p = p"
  by (cases p) simp_all

lemma skip_blanks_idem [simp]: "skip_blanks (skip_blanks p) = skip_blanks p"
  by (rule skip_blanks_id) simp

lemma suffix_skip_blanksI: "suffix p q \<Longrightarrow> suffix (skip_blanks p) q"
  using suffix_skip_blanks suffix_trans' by blast

lemma suffix_dropI: "suffix p q \<Longrightarrow> suffix (drop n p) q"
  using suffix_drop suffix_trans' by blast

lemma suffix_drop_skip [simp, intro]: "suffix (drop n (skip_blanks p)) p"
  by (rule suffix_dropI) simp

lemma length_skip_blanks [simp]: "length (skip_blanks p) \<le> length p"
  by (rule suffix_len) simp

lemma length_drop_cur: "cur p \<noteq> NUL \<Longrightarrow> length (drop (Suc n) p) < length p"
  by (cases p) auto

lemma length_drop_cur_skip: "cur (skip_blanks p) \<noteq> NUL \<Longrightarrow> length (drop (Suc n) (skip_blanks p)) < length p"
  by (rule less_le_trans [OF length_drop_cur]) simp_all

lemma SkipBlanks_sfx [sfx]: "suffix (snd (SkipBlanks p)) p"
  by (simp add: SkipBlanks_def Let_def)

lemma SkipToEol_sfx [sfx]: "suffix (SkipToEol p) p"
  by (simp add: SkipToEol_def)

lemma match_pre_sfx: "match_pre p k = Some (q, ks) \<Longrightarrow> suffix q p"
  by (induction p k rule: match_pre.induct) (auto split: if_splits dest: suffix_trans' [OF _ suffix_drop])

lemma match_by_sfx: "match_by f p k = Some r \<Longrightarrow> suffix r p"
  by (induction f p k rule: match_by.induct) (auto split: if_splits dest: suffix_trans' [OF _ suffix_drop])

lemma cmphstr_sfx [sfx]: "suffix (snd (cmphstr k b p)) p"
  by (auto simp: cmphstr_def split: option.splits dest!: match_pre_sfx match_by_sfx intro: suffix_trans')

lemma comma_sfx [sfx]: "suffix (snd (anyComma p)) p" "suffix (snd (comma p)) p" "suffix (snd (doubleComma p)) p"
  "suffix (snd (nonMaComma x p)) p" "suffix (snd (relaxedMaComma x p)) p" "suffix (snd (call_MultiArg x p)) p"
  by (auto simp: anyComma_def comma_def doubleComma_def nonMaComma_def relaxedMaComma_def
      call_MultiArg_def Let_def split: multi_arg.split)

lemma OpenBracket_sfx [sfx]: "OpenBracket m e p = (bt, e', q) \<Longrightarrow> suffix q p"
  by (auto simp: OpenBracket_def Let_def split: if_splits)

lemma CloseBracket_sfx [sfx]: "CloseBracket e p = (b, e', q) \<Longrightarrow> suffix q p"
  by (auto simp: CloseBracket_def Let_def split: if_splits option.splits)

lemma need_sfx [sfx]: "suffix (snd (need c p)) p"
  by (auto simp: need_def Let_def)

lemma need_ops_sfx: "suffix (snd (need_ops c p)) p"
  by (induction c p rule: need_ops.induct) (auto simp: suffix_drop)

lemma need_str_sfx [sfx]: "suffix (snd (need_str c p)) p"
  unfolding need_str_def using need_ops_sfx suffix_skip_blanks suffix_trans' by blast

lemma needa_list_sfx: "suffix (snd (needa_list ks b p)) p"
  by (induction ks b p rule: needa_list.induct)
    (auto split: prod.splits bool.splits, metis cmphstr_sfx snd_conv)

lemma needa_sfx [sfx]: "suffix (snd (needa ks b p)) p"
  by (simp add: needa_def needa_list_sfx)

lemma NeedEQU_sfx [sfx]: "suffix (snd (NeedEQU p)) p"
  by (auto simp: NeedEQU_def Let_def split: prod.splits bool.splits if_splits)
    (metis cmphstr_sfx snd_conv suffix_drop_skip suffix_skip_blanks suffix_trans')+

lemma NeedDEFL_sfx [sfx]: "suffix (snd (NeedDEFL p)) p"
  by (auto simp: NeedDEFL_def Let_def split: prod.splits bool.splits if_splits)
    (metis cmphstr_sfx snd_conv suffix_drop_skip suffix_skip_blanks suffix_trans')+

lemma GetID_sfx [sfx]: "suffix (snd (GetID p)) p"
  by (auto simp: GetID_def Let_def intro: suffix_trans' [OF suffix_dropWhile])

lemma getinstr_sfx [sfx]: "suffix (snd (getinstr x p)) p"
  by (auto simp: getinstr_def Let_def intro: suffix_trans' [OF suffix_dropWhile])

section \<open>What was consumed\<close>

lemma len_after_comma: "cur (skip_blanks p) = CHR '','' \<Longrightarrow> length (skip_blanks p) - Suc n < length p"
  using length_drop_cur_skip [of p n] by simp

lemma comma_consumes:
  "fst (comma p) \<Longrightarrow> length (snd (comma p)) < length p"
  "fst (doubleComma p) \<Longrightarrow> length (snd (doubleComma p)) < length p"
  "fst (relaxedMaComma x p) \<Longrightarrow> length (snd (relaxedMaComma x p)) < length p"
  "fst (call_MultiArg x p) \<Longrightarrow> length (snd (call_MultiArg x p)) < length p"
  by (cases "cur (skip_blanks p) = CHR '',''",
      simp_all add: comma_def doubleComma_def relaxedMaComma_def call_MultiArg_def Let_def numeral_2_eq_2
        len_after_comma split: if_splits multi_arg.splits)+

lemma need_consumes: "fst (need c p) \<Longrightarrow> c \<noteq> NUL \<Longrightarrow> length (snd (need c p)) < length p"
  using length_drop_cur_skip [of p 0] by (auto simp: need_def Let_def split: if_splits)

lemma need_ops_consumes:
  "fst (need_ops c p) \<noteq> 0 \<Longrightarrow> cstr c \<Longrightarrow> length (snd (need_ops c p)) < length p"
  using length_drop_cur [of p 0] length_drop_cur [of p 1]
  by (induction c p rule: need_ops.induct) (auto simp: numeral_2_eq_2 split: if_splits)

lemma need_str_consumes:
  "fst (need_str c p) \<noteq> 0 \<Longrightarrow> cstr c \<Longrightarrow> length (snd (need_str c p)) < length p"
  unfolding need_str_def by (rule less_le_trans [OF need_ops_consumes]) simp_all

section \<open>Keyword matching\<close>

lemma match_by_iff: "cstr (map f k) \<Longrightarrow> match_by f p k = Some r \<longleftrightarrow> p = map f k @ r"
proof (induction k arbitrary: p)
  case (Cons a k)
  then show ?case by (cases p) auto
qed auto

lemma match_pre_alpha: "isalpha k \<Longrightarrow> match_pre p (k # ks) = Some (p, k # ks)"
  by simp

lemma islower_isupper_disj: "islower c \<Longrightarrow> \<not> isupper c"
  by (auto simp: islower_def isupper_def)

lemma isupper_toupper: "islower c \<Longrightarrow> isupper (toupper c)"
proof (cases c)
  case (Char b0 b1 b2 b3 b4 b5 b6 b7)
  assume "islower c"
  with Char show ?thesis
    by (cases b0; cases b1; cases b2; cases b3; cases b4; cases b5; cases b6; cases b7)
      (simp_all add: islower_def isupper_def toupper_def ord_def)
qed

lemma toupper_not_NUL: "c \<noteq> NUL \<Longrightarrow> toupper c \<noteq> NUL"
proof (cases "islower c")
  case True
  then show ?thesis using isupper_toupper ctype_NUL(4) by metis
qed (simp add: toupper_def)

lemma cstr_map_toupper: "cstr k \<Longrightarrow> cstr (map toupper k)"
  by (induction k) (auto simp: toupper_not_NUL)

text \<open>A keyword that starts with a lower-case letter is recognised when it is written as it is, or with
  all its letters in upper case, and what follows ends a word.\<close>

lemma cmphstr_iff:
  assumes k: "islower a" "cstr k"
  shows "cmphstr (a # k) b p = (True, r) \<longleftrightarrow>
    (p = a # k @ r \<or> p = map toupper (a # k) @ r) \<and> keyword_end b r"
proof -
  have alpha: "isalpha a" using k(1) by (simp add: isalpha_def)
  have nul: "cstr (a # k)" using k ctype_NUL(5) by (metis cstr_simps(2))
  define f where "f = (if isupper (cur p) then toupper else (\<lambda>c. c))"
  have "cmphstr (a # k) b p = (True, r) \<longleftrightarrow> match_by f p (a # k) = Some r \<and> keyword_end b r"
    by (cases "isupper (cur p)"; cases "match_by f p (a # k)")
      (auto simp add: cmphstr_def alpha f_def simp del: match_by.simps)
  moreover have "match_by f p (a # k) = Some r \<longleftrightarrow> p = map f (a # k) @ r"
    using cstr_map_toupper [OF nul] nul by (intro match_by_iff) (simp add: f_def)
  moreover have "p = map f (a # k) @ r \<longleftrightarrow> p = a # k @ r \<or> p = map toupper (a # k) @ r"
    using islower_isupper_disj [OF k(1)] isupper_toupper [OF k(1)] by (auto simp: f_def)
  ultimately show ?thesis by blast
qed

lemma cmphstr_consumes:
  assumes "islower a" "cstr k" "fst (cmphstr (a # k) b p)"
  shows "length (snd (cmphstr (a # k) b p)) < length p"
proof -
  obtain r where r: "cmphstr (a # k) b p = (True, r)" using assms(3) by (cases "cmphstr (a # k) b p") auto
  then have "length r < length p" by (auto simp: cmphstr_iff [OF assms(1,2)])
  with r show ?thesis by simp
qed

section \<open>Range checks only report\<close>

lemma diag_only_checks [reporting]:
  "diag_only (check8 v)" "diag_only (check8o v)" "diag_only (check16 v)" "diag_only (check16u v)"
  "diag_only (check24 v)" "diag_only (checkLowMemory h l)"
  unfolding check8_def check8o_def check16_def check16u_def check24_def checkLowMemory_def
  by (intro reporting)+

section \<open>Properties\<close>

text \<open>Claim C25. Keyword matching: a keyword that starts with a lower-case letter is recognised exactly
  when the text has it as it is written, or with all its letters in upper case (never in mixed case),
  followed by a character that ends a word; then exactly the keyword is consumed.\<close>

theorem cmphstr_correct:
  assumes "islower a" "cstr k"
  shows "cmphstr (a # k) b p = (True, r) \<longleftrightarrow>
    (p = a # k @ r \<or> p = map toupper (a # k) @ r) \<and> keyword_end b r"
  using cmphstr_iff [OF assms] .

theorem cmphstr_correct_witness:
  "cmphstr ''defl'' False ''DEFL 5'' = (True, '' 5'')"
proof -
  have "map toupper ''defl'' = ''DEFL''" "islower CHR ''d''" "cstr ''efl''" "keyword_end False '' 5''"
    by code_simp+
  then show ?thesis using cmphstr_correct [of "CHR ''d''" "''efl''" False "''DEFL 5''" "'' 5''"] by simp
qed

end
