(* ===== verification/Sj_Numbers.thy ===== *)
theory Sj_Numbers
  imports Sj_Lexer
begin

text \<open>
  reader.cpp, numeric literals: \<^verbatim>\<open>getval\<close>, \<^verbatim>\<open>GetNumericValue_TwoBased\<close>, \<^verbatim>\<open>GetNumericValue_IntBased\<close>,
  \<^verbatim>\<open>GetNumericValue_ProcessLastError\<close> and \<^verbatim>\<open>GetConstant\<close>.

  The digit loops run over the text between two pointers. They look one character past the current
  one (also past the end pointer), so the model keeps the text up to the end pointer and the text
  behind it apart: \<open>p\<close> is what is left before \<open>pend\<close>, \<open>after\<close> the text at \<open>pend\<close>.
\<close>

section \<open>Digits\<close>

datatype num_err = NE_syntax | NE_digit | NE_no_digit | NE_overflow

fun num_err_text :: "num_err \<Rightarrow> string" where
  "num_err_text NE_syntax = ''Syntax error''"
| "num_err_text NE_digit = ''Digit not in base''"
| "num_err_text NE_no_digit = ''Missing next digit''"
| "num_err_text NE_overflow = ''Overflow''"

definition getval :: "char \<Rightarrow> int" where
  "getval c = (if ord c \<le> 57 then ord c - 48 else ord (or20 c) - 97 + 10)"

text \<open>The digit-group separators, and the tests of the loop body that both bases share. \<open>digit_step\<close>
  returns nothing when the character is skipped, an error, or the digit.\<close>

datatype digit_step = DS_skip | DS_err num_err | DS_digit int

definition digit_step :: "int \<Rightarrow> char \<Rightarrow> string \<Rightarrow> digit_step" where
  "digit_step base charDigit p =
     (if (CHR 0x27 = charDigit \<or> CHR ''_'' = charDigit) \<and> isalnum (cur p) then DS_skip
      else if NUL = charDigit \<or> \<not> isalnum charDigit then DS_err NE_no_digit
      else if base \<le> getval charDigit then DS_err NE_digit
      else DS_digit (getval charDigit))"

text \<open>The loops return the value, the last error and what is left of the text.\<close>

fun two_based :: "nat \<Rightarrow> aint \<Rightarrow> num_err option \<Rightarrow> string \<Rightarrow> string \<Rightarrow> aint \<times> num_err option \<times> string" where
  "two_based sh val err [] after = (val, err, [])"
| "two_based sh val err (c # p) after =
     (case digit_step (2 ^ sh) c (p @ after) of
        DS_skip \<Rightarrow> two_based sh val err p after
      | DS_err e \<Rightarrow> (val, Some e, p)
      | DS_digit d \<Rightarrow>
          two_based sh (wrap32 (push_bit sh val + d))
            (if val AND wrap32 (push_bit (32 - sh) (NOT 0)) \<noteq> 0 then Some NE_overflow else err) p after)"

fun int_based :: "int \<Rightarrow> aint \<Rightarrow> num_err option \<Rightarrow> string \<Rightarrow> string \<Rightarrow> aint \<times> num_err option \<times> string" where
  "int_based base val err [] after = (val, err, [])"
| "int_based base val err (c # p) after =
     (case digit_step base c (p @ after) of
        DS_skip \<Rightarrow> int_based base val err p after
      | DS_err e \<Rightarrow> (val, Some e, p)
      | DS_digit d \<Rightarrow>
          (let val' = wrap32 (val * base + d)
           in int_based base val' (if u32 val' < u32 val then Some NE_overflow else err) p after))"

text \<open>The functions, with the bases they are called with (1..5 bits; 10): value, error, rest before
  \<open>pend\<close>. An empty digit text is a syntax error and leaves the pointer.\<close>

definition GetNumericValue_TwoBased :: "nat \<Rightarrow> string \<Rightarrow> string \<Rightarrow> aint \<times> num_err option \<times> string" where
  "GetNumericValue_TwoBased shiftBase p after =
     (if p = [] then (0, Some NE_syntax, p) else two_based shiftBase 0 None p after)"

definition GetNumericValue_IntBased :: "int \<Rightarrow> string \<Rightarrow> string \<Rightarrow> aint \<times> num_err option \<times> string" where
  "GetNumericValue_IntBased base p after =
     (if p = [] then (0, Some NE_syntax, p) else int_based base 0 None p after)"

text \<open>Reports the last error; an overflow lets the assembler go on with the truncated value.\<close>

definition GetNumericValue_ProcessLastError :: "num_err option \<Rightarrow> string \<Rightarrow> bool M" where
  "GetNumericValue_ProcessLastError lastErr srcLine =
     (case lastErr of
        None \<Rightarrow> ret False
      | Some e \<Rightarrow> do {
          Error (num_err_text e) (Some srcLine) E_SUPPRESS;
          ret (e \<noteq> NE_overflow) })"

section \<open>GetConstant\<close>

text \<open>The extent of the literal: letters, digits, and separators followed by one.\<close>

fun num_span :: "string \<Rightarrow> string" where
  "num_span [] = []"
| "num_span (c # p) =
     (if isalnum c \<or> ((c = CHR 0x27 \<or> c = CHR ''_'') \<and> isalnum (cur p)) then c # num_span p else [])"

definition is_num_prefix :: "char \<Rightarrow> bool" where
  "is_num_prefix c \<longleftrightarrow> c = CHR ''#'' \<or> c = CHR ''$'' \<or> c = CHR ''%''"

definition literal_text :: "string \<Rightarrow> string" where
  "literal_text p = (if is_num_prefix (cur p) then cur p # num_span (drop 1 p) else num_span p)"

text \<open>The base of a literal and its digits: by prefix first, then by suffix. The result is the number of
  bits per digit (0: decimal), the digit text, and whether a decimal part may follow.\<close>

definition split_prefix :: "string \<Rightarrow> (nat \<times> string) option" where
  "split_prefix lit =
     (let c0 = cur lit; c1 = or20 (chr_at lit 1) in
      if c0 = CHR ''#'' \<or> c0 = CHR ''$'' then Some (4, drop 1 lit)
      else if c0 = CHR ''0'' \<and> c1 = CHR ''x'' then Some (4, drop 2 lit)
      else if c0 = CHR ''0'' \<and> c1 = CHR ''b'' \<and> or20 (last lit) \<noteq> CHR ''h'' then Some (1, drop 2 lit)
      else if c0 = CHR ''0'' \<and> c1 = CHR ''q'' then Some (3, drop 2 lit)
      else if c0 = CHR ''%'' then Some (1, drop 1 lit)
      else None)"

definition split_suffix :: "string \<Rightarrow> nat \<times> string \<times> bool" where
  "split_suffix lit =
     (let c = or20 (last lit) in
      if c = CHR ''h'' then (4, butlast lit, False)
      else if c = CHR ''q'' then (3, butlast lit, False)
      else if c = CHR ''o'' then (3, butlast lit, False)
      else if c = CHR ''b'' then (1, butlast lit, False)
      else if c = CHR ''d'' then (0, butlast lit, False)
      else (0, lit, True))"

definition split_literal :: "string \<Rightarrow> nat \<times> string \<times> bool" where
  "split_literal lit =
     (case split_prefix lit of Some (sh, ds) \<Rightarrow> (sh, ds, True) | None \<Rightarrow> split_suffix lit)"

definition get_digits :: "nat \<Rightarrow> string \<Rightarrow> string \<Rightarrow> aint \<times> num_err option" where
  "get_digits sh ds after =
     (case (if 0 < sh then GetNumericValue_TwoBased sh ds after else GetNumericValue_IntBased 10 ds after)
      of (v, e, _) \<Rightarrow> (v, e))"

text \<open>The character at the pointer \<^verbatim>\<open>*p\<close> (which may already be the one behind the literal) and the one
  before \<^verbatim>\<open>pend\<close> must not be a separator.\<close>

definition tick_error :: "string \<Rightarrow> string \<Rightarrow> string \<Rightarrow> bool" where
  "tick_error lit ds after \<longleftrightarrow>
     (let sep = \<lambda>c. c = CHR 0x27 \<or> c = CHR ''_'' in
      sep (cur (ds @ after)) \<or> sep (if ds = [] then last lit else last ds))"

text \<open>The decimal part after the literal: its digits, and the digits' value is only compared with zero.\<close>

definition decimal_part :: "nat \<Rightarrow> string \<Rightarrow> string \<Rightarrow> aint \<Rightarrow> (aint option \<times> string) M" where
  "decimal_part sh op hardEnd val =
     (let ds = chr_at hardEnd 1 # num_span (drop 2 hardEnd);
          pend = drop (1 + length ds) hardEnd in
      case get_digits sh ds pend of (fractionVal, err) \<Rightarrow>
        if err \<noteq> None \<and> err \<noteq> Some NE_overflow then do {
          GetNumericValue_ProcessLastError err hardEnd;
          ret (None, op) }
        else do {
          WarningById (if err = Some NE_overflow \<or> fractionVal \<noteq> 0 then W_NON_ZERO_DECIMAL else W_ZERO_DECIMAL)
            (Some op) W_PASS3;
          ret (Some val, pend) })"

definition GetConstant :: "aint option parser" where
  "GetConstant op =
     (let lit = literal_text op;
          hardEnd = drop (length lit) op;
          has_decimal_part = (cur hardEnd = CHR ''.'' \<and> isalnum (chr_at hardEnd 1)) in
      case split_literal lit of (sh, ds, may_dec) \<Rightarrow>
        let after = (if may_dec then hardEnd else last lit # hardEnd) in
        if tick_error lit ds after then do {
          Error (num_err_text NE_no_digit) (Some op) E_SUPPRESS;
          ret (None, op) }
        else (case get_digits sh ds after of (val, err) \<Rightarrow> do {
          failed \<leftarrow> GetNumericValue_ProcessLastError err op;
          if failed then ret (None, op)
          else if \<not> (has_decimal_part \<and> may_dec) then ret (Some val, hardEnd)
          else decimal_part sh op hardEnd val }))"

section \<open>Frame: only the returned pointer moves\<close>

lemma num_span_prefix: "num_span p @ drop (length (num_span p)) p = p"
  by (induction p) auto

lemma literal_text_prefix: "literal_text p @ drop (length (literal_text p)) p = p"
  by (cases p) (auto simp: literal_text_def is_num_prefix_def num_span_prefix)

lemma diag_only_ProcessLastError [reporting]: "diag_only (GetNumericValue_ProcessLastError e l)"
  unfolding GetNumericValue_ProcessLastError_def by (intro reporting)

lemma diag_only_GetConstant [reporting]: "diag_only (GetConstant p)"
  unfolding GetConstant_def decimal_part_def by (intro reporting)

lemma GetConstant_sfx: "run_state (GetConstant p) s = ((v, q), s') \<Longrightarrow> suffix q p"
  by (auto simp: GetConstant_def decimal_part_def Let_def suffix_drop
      split: prod.splits if_splits intro: suffix_trans' [OF suffix_drop])

section \<open>The value of a digit text\<close>

text \<open>The grammar of the digit loops: digits of the base, and separators each followed by a letter or
  digit. \<open>num_of\<close> is the number such a text denotes, in unbounded arithmetic.\<close>

definition is_sep :: "char \<Rightarrow> bool" where
  "is_sep c \<longleftrightarrow> c = CHR 0x27 \<or> c = CHR ''_''"

fun well_digits :: "int \<Rightarrow> string \<Rightarrow> string \<Rightarrow> bool" where
  "well_digits base [] after = True"
| "well_digits base (c # p) after \<longleftrightarrow>
     (if is_sep c then isalnum (cur (p @ after)) else isalnum c \<and> getval c < base) \<and> well_digits base p after"

fun num_from :: "int \<Rightarrow> int \<Rightarrow> string \<Rightarrow> int" where
  "num_from base v [] = v"
| "num_from base v (c # p) = (if is_sep c then num_from base v p else num_from base (v * base + getval c) p)"

abbreviation num_of :: "int \<Rightarrow> string \<Rightarrow> int" where
  "num_of base ds \<equiv> num_from base 0 ds"

lemma is_sep_not_alnum: "is_sep c \<Longrightarrow> \<not> isalnum c"
  by (auto simp: is_sep_def ctype ord_def)

lemma isalnum_not_NUL: "isalnum c \<Longrightarrow> c \<noteq> NUL"
  by auto

lemma digit_step_sep: "is_sep c \<Longrightarrow> isalnum (cur p) \<Longrightarrow> digit_step b c p = DS_skip"
  by (auto simp: digit_step_def is_sep_def)

lemma digit_step_digit: "isalnum c \<Longrightarrow> getval c < b \<Longrightarrow> digit_step b c p = DS_digit (getval c)"
  using is_sep_not_alnum [of c] by (auto simp: digit_step_def is_sep_def)

lemma or20_ge: "97 \<le> ord (or20 c)" if "isalpha c"
proof (cases c)
  case (Char b0 b1 b2 b3 b4 b5 b6 b7)
  with that show ?thesis
    by (cases b0; cases b1; cases b2; cases b3; cases b4; cases b5; cases b6; cases b7)
      (simp_all add: ctype ord_def)
qed

lemma getval_nonneg: "isalnum c \<Longrightarrow> 0 \<le> getval c"
  using or20_ge [of c] by (auto simp: getval_def ctype)

lemma num_from_ge: "0 \<le> v \<Longrightarrow> 1 \<le> b \<Longrightarrow> well_digits b p after \<Longrightarrow> v \<le> num_from b v p"
proof (induction p arbitrary: v)
  case (Cons c p)
  show ?case
  proof (cases "is_sep c")
    case False
    with Cons.prems have "0 \<le> getval c" by (simp add: getval_nonneg)
    moreover have "v \<le> v * b" using Cons.prems mult_left_mono [of 1 b v] by simp
    ultimately show ?thesis
      using Cons.IH [of "v * b + getval c"] Cons.prems False by simp
  qed (use Cons in simp)
qed simp

text \<open>The overflow test of the power-of-two bases looks at the bits that are about to be shifted out.\<close>

lemma and_mask_high: "(x::int) AND - (2 ^ k) = push_bit k (drop_bit k x)"
proof (rule bit_eqI)
  fix n
  show "bit (x AND - (2 ^ k)) n = bit (push_bit k (drop_bit k x)) n"
    unfolding minus_exp_eq_not_mask by (auto simp: bit_simps)
qed

lemma u32_neg: "in32 x \<Longrightarrow> x < 0 \<Longrightarrow> u32 x = x + 4294967296"
  unfolding u32_def in32_def by (rule int_mod_pos_eq [where q = "-1"]) auto

lemma in32_neg: "0 < k \<Longrightarrow> k \<le> 2147483648 \<Longrightarrow> in32 (- k)"
  by (simp add: in32_def)

lemma overflow_mask:
  assumes "1 \<le> sh" "sh \<le> 5" "in32 x"
  shows "x AND wrap32 (push_bit (32 - sh) (NOT 0)) \<noteq> 0 \<longleftrightarrow> 2 ^ (32 - sh) \<le> u32 x"
proof -
  have k: "27 \<le> 32 - sh" "32 - sh \<le> 31" using assms by arith+
  have p: "(2::int) ^ (32 - sh) \<le> 2 ^ 31" by (rule power_increasing) (use k in auto)
  have p0: "(0::int) < 2 ^ (32 - sh)" by simp
  have i: "in32 (- (2 ^ (32 - sh)))" using in32_neg [OF p0] p by simp
  have "wrap32 (push_bit (32 - sh) (NOT 0)) = - (2 ^ (32 - sh))"
    using wrap32_id [OF i] by (simp add: minus_exp_eq_not_mask)
  then have "x AND wrap32 (push_bit (32 - sh) (NOT 0)) = 0 \<longleftrightarrow> x div 2 ^ (32 - sh) = 0"
    by (simp add: and_mask_high push_bit_eq_mult drop_bit_eq_div)
  also have "\<dots> \<longleftrightarrow> 0 \<le> x \<and> x < 2 ^ (32 - sh)"
    unfolding zdiv_eq_0_iff using p0 by linarith
  also have "\<dots> \<longleftrightarrow> u32 x < 2 ^ (32 - sh)"
  proof (cases "0 \<le> x")
    case True
    then show ?thesis using assms(3) by (simp add: u32_def in32_def)
  next
    case False
    then have "u32 x = x + 4294967296" using assms(3) by (simp add: u32_neg)
    then show ?thesis using False p assms(3) by (simp add: in32_def)
  qed
  finally show ?thesis by auto
qed

text \<open>With \<open>v\<close> the number read so far, the loops hold its low 32 bits and (for the power-of-two bases)
  the overflow error exactly when \<open>v\<close> does not fit.\<close>

definition ovf :: "int \<Rightarrow> num_err option" where
  "ovf v = (if 4294967296 \<le> v then Some NE_overflow else None)"

lemma ovf_step:
  assumes "1 \<le> sh" "sh \<le> 5" "0 \<le> v" "0 \<le> d" "d < 2 ^ sh"
  shows "(if wrap32 v AND wrap32 (push_bit (32 - sh) (NOT 0)) \<noteq> 0 then Some NE_overflow else ovf v)
    = ovf (v * 2 ^ sh + d)"
proof (cases "4294967296 \<le> v")
  case True
  moreover have "v \<le> v * 2 ^ sh" using assms mult_left_mono [of 1 "2 ^ sh" v] by simp
  ultimately have "4294967296 \<le> v * 2 ^ sh + d" using assms(4) by linarith
  with True show ?thesis by (simp add: ovf_def)
next
  case False
  then have "u32 (wrap32 v) = v" using assms(3) by simp
  then have "wrap32 v AND wrap32 (push_bit (32 - sh) (NOT 0)) \<noteq> 0 \<longleftrightarrow> 2 ^ (32 - sh) \<le> v"
    using overflow_mask [OF assms(1,2) in32_wrap32, of v] by (simp only:)
  also have "\<dots> \<longleftrightarrow> 4294967296 \<le> v * 2 ^ sh + d"
  proof -
    have e: "(4294967296::int) = 2 ^ (32 - sh) * 2 ^ sh"
      using assms(2) by (simp flip: power_add)
    show ?thesis
    proof
      assume "2 ^ (32 - sh) \<le> v"
      then have "2 ^ (32 - sh) * 2 ^ sh \<le> v * 2 ^ sh" by (rule mult_right_mono) simp
      then show "4294967296 \<le> v * 2 ^ sh + d" using e assms(4) by linarith
    next
      assume a: "4294967296 \<le> v * 2 ^ sh + d"
      show "2 ^ (32 - sh) \<le> v"
      proof (rule ccontr)
        assume "\<not> 2 ^ (32 - sh) \<le> v"
        then have "(v + 1) * 2 ^ sh \<le> 2 ^ (32 - sh) * 2 ^ sh" by (intro mult_right_mono) auto
        then show False using a e assms(5) by (simp add: algebra_simps)
      qed
    qed
  qed
  finally show ?thesis using False by (simp add: ovf_def)
qed

lemma two_based_spec:
  assumes "1 \<le> sh" "sh \<le> 5" "0 \<le> v" "well_digits (2 ^ sh) p after"
  shows "two_based sh (wrap32 v) (ovf v) p after
    = (wrap32 (num_from (2 ^ sh) v p), ovf (num_from (2 ^ sh) v p), [])"
  using assms(3,4)
proof (induction p arbitrary: v)
  case (Cons c p)
  show ?case
  proof (cases "is_sep c")
    case True
    with Cons show ?thesis by (simp add: digit_step_sep)
  next
    case False
    with Cons.prems have c: "isalnum c" "getval c < 2 ^ sh" "0 \<le> getval c" "well_digits (2 ^ sh) p after"
      by (auto simp: getval_nonneg)
    have "wrap32 (push_bit sh (wrap32 v) + getval c) = wrap32 (v * 2 ^ sh + getval c)"
      by (simp add: push_bit_eq_mult)
    then show ?thesis
      using Cons.IH [of "v * 2 ^ sh + getval c"] Cons.prems(1) c False
        ovf_step [OF assms(1,2) Cons.prems(1) c(3,2)]
      by (simp add: digit_step_digit del: push_bit_minus_one_eq_not_mask)
  qed
qed simp

lemma int_based_spec:
  assumes "1 \<le> b" "0 \<le> v" "well_digits b p after" "num_from b v p < 4294967296"
  shows "int_based b (wrap32 v) None p after = (wrap32 (num_from b v p), None, [])"
  using assms(2,3,4)
proof (induction p arbitrary: v)
  case (Cons c p)
  show ?case
  proof (cases "is_sep c")
    case True
    with Cons show ?thesis by (simp add: digit_step_sep)
  next
    case False
    define w where "w = v * b + getval c"
    from False Cons.prems have c: "isalnum c" "getval c < b" "0 \<le> getval c" "well_digits b p after"
      "num_from b w p < 4294967296"
      by (auto simp: getval_nonneg w_def)
    have "v \<le> v * b" using Cons.prems assms(1) mult_left_mono [of 1 b v] by simp
    then have w: "0 \<le> w" "v \<le> w" using c Cons.prems(1) by (simp_all add: w_def)
    have "w < 4294967296" using num_from_ge [OF w(1) assms(1) c(4)] c(5) by simp
    then have u: "u32 (wrap32 w) = w" "u32 (wrap32 v) = v" using w Cons.prems(1) by simp_all
    have "wrap32 (wrap32 v * b + getval c) = wrap32 w" by (simp add: w_def)
    then show ?thesis
      using Cons.IH [OF w(1) c(4,5)] c False w(2) u
      by (simp add: digit_step_digit Let_def flip: w_def del: u32_wrap32)
  qed
qed simp

section \<open>Reading back what is printed\<close>

text \<open>\<open>ends_number\<close>: the text after a literal neither continues it nor starts a decimal part.
  \<open>plain_digits\<close>: digits of the base only.\<close>

definition ends_number :: "string \<Rightarrow> bool" where
  "ends_number r \<longleftrightarrow> \<not> isalnum (cur r) \<and> \<not> is_sep (cur r) \<and> \<not> (cur r = CHR ''.'' \<and> isalnum (chr_at r 1))"

definition plain_digits :: "int \<Rightarrow> string \<Rightarrow> bool" where
  "plain_digits b ds \<longleftrightarrow> (\<forall>c \<in> set ds. isalnum c \<and> getval c < b)"

lemma plain_well_digits: "plain_digits b ds \<Longrightarrow> well_digits b ds after"
  by (induction ds) (auto simp: plain_digits_def dest: is_sep_not_alnum)

lemma num_span_plain: "plain_digits b ds \<Longrightarrow> ends_number r \<Longrightarrow> num_span (ds @ r) = ds"
proof (induction ds)
  case Nil
  then show ?case by (cases r) (auto simp: ends_number_def is_sep_def)
qed (auto simp: plain_digits_def)

lemma num_from_snoc: "isalnum c \<Longrightarrow> num_from b v (ds @ [c]) = num_from b v ds * b + getval c"
  using is_sep_not_alnum by (induction ds arbitrary: v) auto

lemma num_from_zeros: "num_from b 0 (replicate n (CHR ''0'') @ ds) = num_from b 0 ds"
  by (induction n) (simp_all add: is_sep_def getval_def ord_def)

lemma hex_digit_props: "d < 16 \<Longrightarrow> isalnum (hex_digit d) \<and> getval (hex_digit d) = int d"
proof -
  assume "d < 16"
  then have "d \<in> set [0..<16]" by simp
  then have "d = 0 \<or> d = 1 \<or> d = 2 \<or> d = 3 \<or> d = 4 \<or> d = 5 \<or> d = 6 \<or> d = 7 \<or> d = 8 \<or> d = 9 \<or>
      d = 10 \<or> d = 11 \<or> d = 12 \<or> d = 13 \<or> d = 14 \<or> d = 15"
    by (simp add: upt_rec) auto
  then show ?thesis
    by (elim disjE) (simp_all add: hex_digit_def ctype getval_def ord_def)
qed

lemma hex_digits_spec: "plain_digits 16 (hex_digits n) \<and> num_of 16 (hex_digits n) = int n"
proof (induction n rule: hex_digits.induct)
  case (1 n)
  show ?case
  proof (cases "n < 16")
    case True
    then show ?thesis using hex_digit_props [OF True] is_sep_not_alnum [of "hex_digit n"]
      by (auto simp: hex_digits.simps [of n] plain_digits_def)
  next
    case False
    have m: "n mod 16 < 16" by simp
    have "int (n div 16) * 16 + int (n mod 16) = int n" by presburger
    then show ?thesis using False 1 hex_digit_props [OF m]
      by (auto simp: hex_digits.simps [of n] plain_digits_def num_from_snoc)
  qed
qed

lemma dec_digits_spec: "plain_digits 10 (dec_digits n) \<and> num_of 10 (dec_digits n) = int n"
proof (induction n rule: dec_digits.induct)
  case (1 n)
  show ?case
  proof (cases "n < 10")
    case True
    then have "n < 16" by simp
    from hex_digit_props [OF this] True show ?thesis using is_sep_not_alnum [of "hex_digit n"]
      by (auto simp: dec_digits.simps [of n] plain_digits_def)
  next
    case False
    have m: "n mod 10 < 16" by presburger
    have "int (n div 10) * 10 + int (n mod 10) = int n" by presburger
    then show ?thesis using False 1 hex_digit_props [OF m]
      by (auto simp: dec_digits.simps [of n] plain_digits_def num_from_snoc)
  qed
qed

lemma fmt_0X_spec: "plain_digits 16 (fmt_0X n x) \<and> num_of 16 (fmt_0X n x) = u32 x \<and> fmt_0X n x \<noteq> []"
proof -
  have 1: "plain_digits 16 (hex_digits (nat (u32 x)))" "num_of 16 (hex_digits (nat (u32 x))) = u32 x"
    using hex_digits_spec by simp_all
  moreover have "hex_digits (nat (u32 x)) \<noteq> []" by (subst hex_digits.simps) simp
  ultimately show ?thesis
    by (auto simp: fmt_0X_def fmt_X_def num_from_zeros plain_digits_def ctype getval_def ord_def Let_def)
qed

lemma plain_ends: "plain_digits b ds \<Longrightarrow> ds \<noteq> [] \<Longrightarrow> isalnum (hd ds) \<and> isalnum (last ds)"
  by (simp add: plain_digits_def)

lemma tick_error_plain: "plain_digits b ds \<Longrightarrow> ds \<noteq> [] \<Longrightarrow> \<not> tick_error lit ds after"
  using plain_ends [of b ds] is_sep_not_alnum [of "hd ds"] is_sep_not_alnum [of "last ds"]
  by (cases ds) (auto simp: tick_error_def is_sep_def Let_def)

lemma get_digits_hex:
  "plain_digits 16 ds \<Longrightarrow> ds \<noteq> [] \<Longrightarrow> get_digits 4 ds after = (wrap32 (num_of 16 ds), ovf (num_of 16 ds))"
  using two_based_spec [of 4 0 ds after] plain_well_digits [of 16 ds after]
  by (simp add: get_digits_def GetNumericValue_TwoBased_def ovf_def)

lemma get_digits_dec:
  "plain_digits 10 ds \<Longrightarrow> ds \<noteq> [] \<Longrightarrow> num_of 10 ds < 4294967296 \<Longrightarrow>
   get_digits 0 ds after = (wrap32 (num_of 10 ds), None)"
  using int_based_spec [of 10 0 ds after] plain_well_digits [of 10 ds after]
  by (simp add: get_digits_def GetNumericValue_IntBased_def)

lemma literal_0x: "plain_digits 16 ds \<Longrightarrow> ends_number r \<Longrightarrow> literal_text (''0x'' @ ds @ r) = ''0x'' @ ds"
  using num_span_plain [of 16 ds r]
  by (simp add: literal_text_def is_num_prefix_def ctype ord_def)

lemma literal_dec: "plain_digits 10 ds \<Longrightarrow> ds \<noteq> [] \<Longrightarrow> ends_number r \<Longrightarrow> literal_text (ds @ r) = ds"
  using num_span_plain [of 10 ds r] plain_ends [of 10 ds]
  by (cases ds) (auto simp: literal_text_def is_num_prefix_def plain_digits_def ctype ord_def)

lemma dec_not_letter: "isalnum c \<Longrightarrow> getval c < 10 \<Longrightarrow> 48 \<le> ord c \<and> ord c \<le> 57"
  using or20_ge [of c] by (auto simp: ctype getval_def split: if_splits)

lemma or20_dec: "48 \<le> ord c \<and> ord c \<le> 57 \<Longrightarrow> or20 c = c"
proof (cases c)
  case (Char b0 b1 b2 b3 b4 b5 b6 b7)
  assume "48 \<le> ord c \<and> ord c \<le> 57"
  with Char show ?thesis
    by (cases b0; cases b1; cases b2; cases b3; cases b4; cases b5; cases b6; cases b7)
      (simp_all add: ord_def)
qed

lemma split_dec:
  assumes "plain_digits 10 ds" "ds \<noteq> []"
  shows "split_literal ds = (0, ds, True)"
proof -
  have d: "48 \<le> ord c \<and> ord c \<le> 57 \<and> or20 c = c" if "c \<in> set ds" for c
    using assms(1) that dec_not_letter [of c] or20_dec [of c] by (auto simp: plain_digits_def)
  obtain a bs where ds: "ds = a # bs" using assms(2) by (cases ds) auto
  have a: "a \<noteq> CHR ''#'' \<and> a \<noteq> CHR ''$'' \<and> a \<noteq> CHR ''%''" using d [of a] ds by (auto simp: ord_def)
  have b: "or20 (chr_at ds 1) = (if bs = [] then CHR '' '' else hd bs)"
    using d [of "hd bs"] ds by (cases bs) auto
  then have b': "or20 (chr_at ds 1) \<noteq> CHR ''x'' \<and> or20 (chr_at ds 1) \<noteq> CHR ''b'' \<and> or20 (chr_at ds 1) \<noteq> CHR ''q''"
    using d [of "hd bs"] ds by (cases bs) (auto simp: ord_def)
  have "or20 (last ds) \<noteq> CHR ''h'' \<and> or20 (last ds) \<noteq> CHR ''q'' \<and> or20 (last ds) \<noteq> CHR ''o'' \<and>
      or20 (last ds) \<noteq> CHR ''b'' \<and> or20 (last ds) \<noteq> CHR ''d''"
    using d [of "last ds"] assms(2) by (auto simp: ord_def)
  with a b' show ?thesis
    by (simp add: ds split_literal_def split_prefix_def split_suffix_def Let_def)
qed

lemma GetConstant_plain:
  assumes "literal_text (lit @ rest) = lit" "ends_number rest" "split_literal lit = (sh, ds, True)"
    and "plain_digits b ds" "ds \<noteq> []" "get_digits sh ds rest = (v, None)"
  shows "run_state (GetConstant (lit @ rest)) s = ((Some v, rest), s)"
  using assms tick_error_plain [OF assms(4,5)]
  by (simp add: GetConstant_def Let_def GetNumericValue_ProcessLastError_def ends_number_def)

lemma GetConstant_hex:
  assumes "in32 v" "ends_number rest"
  shows "run_state (GetConstant (''0x'' @ fmt_0X w v @ rest)) s = ((Some v, rest), s)"
proof -
  have "split_literal (''0x'' @ fmt_0X w v) = (4, fmt_0X w v, True)"
    by (simp add: split_literal_def split_prefix_def Let_def)
  then show ?thesis
    using GetConstant_plain [of "''0x'' @ fmt_0X w v" rest 4 "fmt_0X w v" 16 v s] assms
      fmt_0X_spec [of w v] literal_0x get_digits_hex
    by (simp add: ovf_def not_le)
qed

section \<open>The overflow test of the decimal loop\<close>

lemma int_based_snoc:
  assumes "plain_digits 10 (ds @ [c])"
  shows "int_based 10 v e (ds @ [c]) after = (case int_based 10 v e ds (c # after) of (w, f, r) \<Rightarrow>
    (wrap32 (w * 10 + getval c), if u32 (wrap32 (w * 10 + getval c)) < u32 w then Some NE_overflow else f, []))"
  using assms
proof (induction ds arbitrary: v e)
  case Nil
  then show ?case by (simp add: plain_digits_def digit_step_digit Let_def)
next
  case (Cons d ds)
  then have d: "isalnum d" "getval d < 10" "plain_digits 10 (ds @ [c])" by (simp_all add: plain_digits_def)
  have "\<And>q. digit_step 10 d q = DS_digit (getval d)" using d by (simp add: digit_step_digit)
  then show ?case using Cons.IH [OF d(3)] by (simp add: Let_def)
qed

text \<open>The test misses the overflow of every step in which the truncated number does not get smaller.\<close>

definition unnoticed :: "int \<Rightarrow> nat \<Rightarrow> bool" where
  "unnoticed n k \<longleftrightarrow> n div 10 ^ Suc k mod 4294967296 \<le> n div 10 ^ k mod 4294967296"

lemma int_based_exact:
  "plain_digits 10 ds \<Longrightarrow> int_based 10 0 None ds after =
    (wrap32 (num_of 10 ds), if \<forall>k < length ds. unnoticed (num_of 10 ds) k then None else Some NE_overflow, [])"
proof (induction ds arbitrary: after rule: rev_induct)
  case Nil
  show ?case by (simp add: wrap32_def)
next
  case (snoc c ds)
  then have c: "isalnum c" "getval c < 10" "0 \<le> getval c" "plain_digits 10 ds"
    by (simp_all add: plain_digits_def getval_nonneg)
  define n where "n = num_of 10 ds"
  define n' where "n' = n * 10 + getval c"
  have n': "num_of 10 (ds @ [c]) = n'" using c(1) by (simp add: num_from_snoc n_def n'_def)
  have "n' div 10 = n" using c(2,3) by (simp add: n'_def)
  then have div: "n' div 10 ^ Suc k = n div 10 ^ k" for k
    by (simp add: zdiv_zmult2_eq [of "10 ^ k"] mult.commute [of _ "10 ^ k"]) (simp add: zdiv_zmult2_eq mult.commute)
  have w: "wrap32 (wrap32 n * 10 + getval c) = wrap32 n'" by (simp add: n'_def)
  have "(\<forall>k < length (ds @ [c]). unnoticed n' k) \<longleftrightarrow> n mod 4294967296 \<le> n' mod 4294967296 \<and> (\<forall>k < length ds. unnoticed n k)"
    unfolding length_append_singleton All_less_Suc2 using div [of 0] by (simp add: unnoticed_def div del: power_Suc)
  then show ?case
    unfolding int_based_snoc [OF snoc.prems] snoc.IH [OF c(4)] n' prod.case n_def [symmetric] w
    by (simp add: u32_def not_le)
qed

section \<open>Properties\<close>

text \<open>Claim C26. A digit text of a power-of-two base (separators ' and _ allowed between digits) is read
  as the low 32 bits of the number it denotes, it is consumed to its end, and the overflow error is set
  exactly when the number does not fit into 32 bits.\<close>

theorem GetNumericValue_TwoBased_correct:
  assumes "1 \<le> sh" "sh \<le> 5" "ds \<noteq> []" "well_digits (2 ^ sh) ds after"
  shows "GetNumericValue_TwoBased sh ds after =
    (wrap32 (num_of (2 ^ sh) ds),
     if 4294967296 \<le> num_of (2 ^ sh) ds then Some NE_overflow else None, [])"
  using two_based_spec [of sh 0 ds after] assms by (simp add: GetNumericValue_TwoBased_def ovf_def)

theorem GetNumericValue_TwoBased_correct_witness:
  "GetNumericValue_TwoBased 4 ''12'00AbCd9'' ''h'' = (wrap32 0x1200AbCd9, Some NE_overflow, [])"
proof -
  have "well_digits 16 ''12'00AbCd9'' ''h''" "num_of 16 ''12'00AbCd9'' = 0x1200AbCd9" by code_simp+
  then show ?thesis
    using GetNumericValue_TwoBased_correct [of 4 "''12'00AbCd9''" "''h''"] by simp
qed

text \<open>Claim C27. A decimal digit text that denotes a number below \<open>2 ^ 32\<close> is read as that number's 32-bit
  pattern, without an error.\<close>

theorem GetNumericValue_IntBased_correct:
  assumes "ds \<noteq> []" "well_digits 10 ds after" "num_of 10 ds < 4294967296"
  shows "GetNumericValue_IntBased 10 ds after = (wrap32 (num_of 10 ds), None, [])"
  using int_based_spec [of 10 0 ds after] assms by (simp add: GetNumericValue_IntBased_def)

theorem GetNumericValue_IntBased_correct_witness:
  "GetNumericValue_IntBased 10 ''4_294_967_295'' '' '' = (-1, None, [])"
proof -
  have "well_digits 10 ''4_294_967_295'' '' ''" "num_of 10 ''4_294_967_295'' = 4294967295" by code_simp+
  then show ?thesis
    using GetNumericValue_IntBased_correct [of "''4_294_967_295''" "'' ''"] by (simp add: wrap32_eq_mod)
qed

text \<open>Claim C28. A defect of the overflow test of the decimal loop, exactly: a decimal digit text is always read as the low 32 bits of the number \<open>n\<close> it
  denotes, and the error is missing if and only if no step of the loop makes the truncated value smaller, that is for every \<open>k\<close> the low
  32 bits of \<open>n div 10^(k+1)\<close> are at most those of \<open>n div 10^k\<close>. So many texts above \<open>2^32\<close> pass; 5368709120 is read as 0x40000000 without an error.\<close>

theorem GetNumericValue_IntBased_missed_overflow:
  assumes "ds \<noteq> []" "plain_digits 10 ds"
  shows "GetNumericValue_IntBased 10 ds after = (wrap32 (num_of 10 ds),
    if \<forall>k < length ds. num_of 10 ds div 10 ^ Suc k mod 4294967296 \<le> num_of 10 ds div 10 ^ k mod 4294967296
    then None else Some NE_overflow, [])"
  using int_based_exact [OF assms(2)] assms(1) by (simp add: GetNumericValue_IntBased_def unnoticed_def)

theorem GetNumericValue_IntBased_missed_overflow_witness:
  "4294967296 \<le> num_of 10 ''5368709120'' \<and> GetNumericValue_IntBased 10 ''5368709120'' [] = (0x40000000, None, [])"
proof -
  have n: "num_of 10 ''5368709120'' = 5368709120" and p: "plain_digits 10 ''5368709120''" by code_simp+
  have k: "\<forall>k < length ''5368709120''. (5368709120 :: int) div 10 ^ Suc k mod 4294967296 \<le> 5368709120 div 10 ^ k mod 4294967296"
  proof -
    have "list_all (\<lambda>k. (5368709120 :: int) div 10 ^ Suc k mod 4294967296 \<le> 5368709120 div 10 ^ k mod 4294967296) [0..<10]" by code_simp
    then show ?thesis by (simp add: list_all_iff del: power_Suc)
  qed
  show ?thesis using GetNumericValue_IntBased_missed_overflow [OF _ p, of "[]"] k unfolding n by (simp add: wrap32_eq_mod del: power_Suc)
qed

text \<open>Claim C29. Round trip of numbers through the source text: the hexadecimal print of any 32-bit value
  (prefix 0x, padded to any width) and the decimal print of any unsigned 32-bit value are read back by
  \<open>GetConstant\<close> as that value, up to the end of the literal, without any diagnostic.\<close>

theorem GetConstant_roundtrip:
  assumes "ends_number rest" "in32 v" "n < 4294967296"
  shows "run_state (GetConstant (''0x'' @ fmt_0X w v @ rest)) s = ((Some v, rest), s) \<and>
         run_state (GetConstant (dec_digits n @ rest)) s = ((Some (wrap32 (int n)), rest), s)"
proof
  show "run_state (GetConstant (''0x'' @ fmt_0X w v @ rest)) s = ((Some v, rest), s)"
    by (rule GetConstant_hex [OF assms(2,1)])
  have "dec_digits n \<noteq> []" by (subst dec_digits.simps) simp
  then show "run_state (GetConstant (dec_digits n @ rest)) s = ((Some (wrap32 (int n)), rest), s)"
    using GetConstant_plain [of "dec_digits n" rest 0 "dec_digits n" 10 "wrap32 (int n)" s] assms(1,3)
      dec_digits_spec [of n] literal_dec split_dec get_digits_dec
    by simp
qed

theorem GetConstant_roundtrip_witness:
  "\<forall>s. run_state (GetConstant (''0x'' @ fmt_0X 8 (-5) @ '')'')) s = ((Some (-5), '')''), s) \<and>
       run_state (GetConstant (dec_digits 4000000000 @ '')'')) s = ((Some (wrap32 4000000000), '')''), s)"
proof
  fix s :: asm
  have "ends_number '')''" "in32 (-5)" by code_simp+
  then show "run_state (GetConstant (''0x'' @ fmt_0X 8 (-5) @ '')'')) s = ((Some (-5), '')''), s) \<and>
       run_state (GetConstant (dec_digits 4000000000 @ '')'')) s = ((Some (wrap32 4000000000), '')''), s)"
    using GetConstant_roundtrip [of "'')''" "-5" 4000000000 8 s] by simp
qed

end
