(* ===== verification/Sj_Strings.thy ===== *)
theory Sj_Strings
  imports Sj_Numbers
begin

text \<open>
  reader.cpp, string literals and delimited texts: characters of quoted strings, \<^verbatim>\<open>GetCharConstAsString\<close>
  (with the Z and C suffixes and the concatenation operator), \<^verbatim>\<open>GetCharConst\<close>, \<^verbatim>\<open>GetDelimitedStringEx\<close>,
  macro arguments, and the DG and DH byte texts. Output buffers are the list of the values written so
  far; the index \<^verbatim>\<open>ei\<close> is its length. Loops that consume text take fuel, the length of the text.
\<close>

section \<open>Characters of string literals\<close>

text \<open>The escape sequences of double-quoted strings, by the character after the backslash.\<close>

definition dq_escapes :: "(char \<times> int) list" where
  "dq_escapes =
     [(CHR 0x5C, 92), (CHR 0x27, 39), (CHR 0x22, 34), (CHR ''?'', 63), (CHR ''0'', 0),
      (CHR ''n'', 10), (CHR ''N'', 10), (CHR ''t'', 9), (CHR ''T'', 9), (CHR ''v'', 11), (CHR ''V'', 11),
      (CHR ''b'', 8), (CHR ''B'', 8), (CHR ''r'', 13), (CHR ''R'', 13), (CHR ''f'', 12), (CHR ''F'', 12),
      (CHR ''a'', 7), (CHR ''A'', 7), (CHR ''e'', 27), (CHR ''E'', 27), (CHR ''d'', 127), (CHR ''D'', 127)]"

definition GetCharConstInDoubleQuotes :: "int option parser" where
  "GetCharConstInDoubleQuotes op =
     (if cur op = CHR 0x22 \<or> cur op = NUL then ret (None, op)
      else if cur op \<noteq> CHR 0x5C then ret (Some (ord (cur op)), drop 1 op)
      else (case map_of dq_escapes (chr_at op 1) of
              Some v \<Rightarrow> ret (Some v, drop 2 op)
            | None \<Rightarrow> do {
                Warning ''Unknown escape'' (Some op) W_PASS3;
                ret (Some 92, drop 1 op) }))"

definition GetCharConstInApostrophes :: "int option lexer" where
  "GetCharConstInApostrophes op =
     (if cur op = CHR 0x27 \<and> chr_at op 1 = CHR 0x27 then (Some 39, drop 2 op)
      else if cur op = CHR 0x27 \<or> cur op = NUL then (None, op)
      else (Some (ord (cur op)), drop 1 op))"

definition GetQuotedChar :: "bool \<Rightarrow> int option parser" where
  "GetQuotedChar quotes p =
     (if quotes then GetCharConstInDoubleQuotes p else ret (GetCharConstInApostrophes p))"

text \<open>The inner loop of \<^verbatim>\<open>GetCharConstAsString\<close>.\<close>

fun quoted_chars :: "nat \<Rightarrow> bool \<Rightarrow> nat \<Rightarrow> int \<Rightarrow> int list \<Rightarrow> string \<Rightarrow> (int list \<times> string) M" where
  "quoted_chars 0 quotes max_ei add e p = do { out_of_fuel; ret (e, p) }"
| "quoted_chars (Suc n) quotes max_ei add e p =
     (if length e < max_ei then do {
        (v, q) \<leftarrow> GetQuotedChar quotes p;
        (case v of
           None \<Rightarrow> ret (e, q)
         | Some val \<Rightarrow> quoted_chars n quotes max_ei add (e @ [(val + add) AND 255]) q) }
      else ret (e, p))"

text \<open>One literal of a concatenation: the result code when the function returns here, else \<open>None\<close>.\<close>

definition string_element :: "nat \<Rightarrow> int \<Rightarrow> int list \<Rightarrow> string \<Rightarrow> (int option \<times> bool \<times> int list \<times> string) M" where
  "string_element max_ei add e0 elementP =
     (let quotes = (cur elementP = CHR 0x22) in do {
      (e, p) \<leftarrow> quoted_chars (Suc (length elementP)) quotes max_ei add e0 (drop 1 elementP);
      if (if quotes then CHR 0x22 else CHR 0x27) \<noteq> cur p then
        (if cur p \<noteq> NUL then ret (Some (-2), quotes, e, p)
         else do {
           Error ''Syntax error'' (Some elementP) E_SUPPRESS;
           ret (Some (-1), quotes, e, p) })
      else
        let p1 = drop 1 p in
        if cur p1 = CHR ''Z'' then
          (if max_ei \<le> length e then ret (Some (-2), quotes, e, p1)
           else ret (None, quotes, e @ [0], drop 1 p1))
        else if cur p1 = CHR ''C'' then
          (if length e0 = length e then do {
             Error ''C suffix can't patch empty string'' (Some elementP) E_SUPPRESS;
             ret (Some (-1), quotes, e, drop 1 p1) }
           else ret (None, quotes, butlast e @ [last e OR 0x80], drop 1 p1))
        else ret (None, quotes, e, p1) })"

fun string_elements :: "nat \<Rightarrow> nat \<Rightarrow> int \<Rightarrow> int list \<Rightarrow> string \<Rightarrow> (int \<times> int list \<times> string) M" where
  "string_elements 0 max_ei add e p = do { out_of_fuel; ret (0, e, p) }"
| "string_elements (Suc n) max_ei add e0 elementP = do {
     (res, quotes, e, p) \<leftarrow> string_element max_ei add e0 elementP;
     (case res of
        Some r \<Rightarrow> ret (r, e, p)
      | None \<Rightarrow> do {
          whenM (length e0 = length e) (WarningById W_EMPTY_STRING (Some elementP) W_PASS3);
          (case need_str ''..'' p of (op, p1) \<Rightarrow>
             if op \<noteq> ord CHR ''.'' + ord CHR ''.'' then ret (1 + of_bool quotes, e, p1)
             else (case SkipBlanks p1 of (eol, p2) \<Rightarrow>
               if eol \<or> (cur p2 \<noteq> CHR 0x22 \<and> cur p2 \<noteq> CHR 0x27) then do {
                 Error ''[..] String literal expected'' (Some p2) E_SUPPRESS;
                 ret (-1, e, p2) }
               else string_elements n max_ei add e p2)) }) }"

text \<open>The result: -2 buffer full, -1 syntax error, 0 no string literal, 1 apostrophes, 2 quotes.\<close>

definition GetCharConstAsString :: "nat \<Rightarrow> int \<Rightarrow> int list \<Rightarrow> string \<Rightarrow> (int \<times> int list \<times> string) M" where
  "GetCharConstAsString max_ei add e p =
     (if cur p \<noteq> CHR 0x22 \<and> cur p \<noteq> CHR 0x27 then ret (0, e, p)
      else string_elements (Suc (length p)) max_ei add e p)"

definition char_const_value :: "int list \<Rightarrow> aint" where
  "char_const_value bytes = foldl (\<lambda>val b. wrap32 (push_bit 8 val + (b AND 255))) 0 bytes"

definition GetCharConst :: "aint option parser" where
  "GetCharConst op = do {
     (strRes, buffer, p) \<leftarrow> GetCharConstAsString 128 0 [] op;
     if strRes \<le> 0 then ret (None, p)
     else let val = char_const_value buffer in
       if buffer = [] then do {
         Warning ''Empty string literal converted to value 0!'' (Some op) W_PASS3;
         ret (Some val, p) }
       else if 4 < length buffer then do {
         Warning (''String literal truncated to 0x'' @ fmt_X val) (Some (take (length op - length p) op)) W_PASS3;
         ret (Some val, p) }
       else ret (Some val, p) }"

section \<open>Delimiters\<close>

fun delimiters_b :: "EDelimiterType \<Rightarrow> char" where
  "delimiters_b DT_NONE = CHR '' ''"
| "delimiters_b DT_QUOTES = CHR 0x22"
| "delimiters_b DT_APOSTROPHE = CHR 0x27"
| "delimiters_b DT_ANGLE = CHR ''<''"

fun delimiters_e :: "EDelimiterType \<Rightarrow> char" where
  "delimiters_e DT_NONE = CHR '' ''"
| "delimiters_e DT_QUOTES = CHR 0x22"
| "delimiters_e DT_APOSTROPHE = CHR 0x27"
| "delimiters_e DT_ANGLE = CHR ''>''"

definition delimiters_all :: "EDelimiterType list" where
  "delimiters_all = [DT_QUOTES, DT_APOSTROPHE, DT_ANGLE]"

definition delimiters_noAngle :: "EDelimiterType list" where
  "delimiters_noAngle = [DT_QUOTES, DT_APOSTROPHE]"

fun delimiter_of :: "EDelimiterType list \<Rightarrow> char \<Rightarrow> EDelimiterType" where
  "delimiter_of [] c = DT_NONE"
| "delimiter_of (dt # ds) c = (if delimiters_b dt \<noteq> c then delimiter_of ds c else dt)"

definition DelimiterBegins :: "EDelimiterType list \<Rightarrow> bool \<Rightarrow> EDelimiterType lexer" where
  "DelimiterBegins delimiters advanceSrc src =
     (if cur src = NUL then (DT_NONE, src)
      else let src1 = (if advanceSrc then skip_blanks src else src) in
        if advanceSrc \<and> cur src1 = NUL then (DT_NONE, src1)
        else let dt = delimiter_of delimiters (cur src1) in
          (dt, if dt \<noteq> DT_NONE \<and> advanceSrc then drop 1 src1 else src1))"

definition DelimiterAnyBegins :: "bool \<Rightarrow> EDelimiterType lexer" where
  "DelimiterAnyBegins advanceSrc src = DelimiterBegins delimiters_all advanceSrc src"

fun delimited_elements :: "nat \<Rightarrow> string \<Rightarrow> string \<Rightarrow> ((string \<times> EDelimiterType) \<times> string) M" where
  "delimited_elements 0 acc p = do { out_of_fuel; ret ((acc, DT_NONE), p) }"
| "delimited_elements (Suc n) acc p =
     (case DelimiterAnyBegins True p of (dt, p_begin) \<Rightarrow>
      let inside = (\<lambda>c. if dt \<noteq> DT_NONE then delimiters_e dt \<noteq> c else \<not> White c);
          acc' = acc @ takeWhile inside p_begin;
          p1 = dropWhile inside p_begin in
      if dt \<noteq> DT_NONE \<and> delimiters_e dt \<noteq> cur p1 then do {
        Error ''No closing delimiter'' (Some [delimiters_e dt]) E_SUPPRESS;
        ret (([], dt), p1) }
      else (case need_str ''..'' (if dt \<noteq> DT_NONE then drop 1 p1 else p1) of (op, p2) \<Rightarrow>
        if op = ord CHR ''.'' + ord CHR ''.'' then delimited_elements n acc' p2
        else ret ((acc', dt), p2)))"

definition GetDelimitedStringEx :: "(string \<times> EDelimiterType) parser" where
  "GetDelimitedStringEx p = delimited_elements (Suc (length p)) [] p"

definition GetDelimitedString :: "string parser" where
  "GetDelimitedString p = do { ((s, _), p') \<leftarrow> GetDelimitedStringEx p; ret (s, p') }"

section \<open>Macro arguments\<close>

text \<open>The loop over the inside of a delimited part; the escape sequences depend on the delimiter. What
  has been written is \<open>dst\<close>.\<close>

fun macro_inner :: "EDelimiterType \<Rightarrow> string \<Rightarrow> string \<Rightarrow> string \<times> string" where
  "macro_inner delI dst [] = (dst, [])"
| "macro_inner delI dst (c # src) =
     (if delI = DT_ANGLE \<and> c = CHR ''!'' \<and> (cur src = CHR ''!'' \<or> cur src = CHR ''>'')
      then macro_inner delI (dst @ [cur src]) (drop 1 src)
      else if delI = DT_QUOTES \<and> c = CHR 0x5C \<and> cur src \<noteq> NUL
      then macro_inner delI (dst @ [c, cur src]) (drop 1 src)
      else if delI = DT_APOSTROPHE \<and> c = CHR 0x27 \<and> cur src = CHR 0x27
      then macro_inner delI (dst @ [c, cur src]) (drop 1 src)
      else if delimiters_e delI = c then (dst, c # src)
      else macro_inner delI (dst @ [c]) src)"

lemma macro_inner_length: "length (snd (macro_inner d dst src)) \<le> length src"
  by (induction d dst src rule: macro_inner.induct) auto

definition hexa_or20 :: "char \<Rightarrow> bool" where
  "hexa_or20 c \<longleftrightarrow> (let x = ord (or20 c) in 48 \<le> x \<and> x \<le> 57 \<or> 97 \<le> x \<and> x \<le> 102)"

text \<open>The delimiter at \<open>c # src\<close>, with the heuristic for digit-group apostrophes; \<open>prev\<close> is the character
  before (\<open>None\<close> at the first one, where alone an angle bracket opens).\<close>

definition macro_delimiter :: "char option \<Rightarrow> char \<Rightarrow> string \<Rightarrow> EDelimiterType" where
  "macro_delimiter prev c src =
     (let delI = fst (DelimiterBegins (if prev = None then delimiters_all else delimiters_noAngle) False (c # src)) in
      case prev of
        None \<Rightarrow> delI
      | Some pc \<Rightarrow> if delI = DT_APOSTROPHE \<and> hexa_or20 pc \<and> hexa_or20 (cur src) then DT_NONE else delI)"

function macro_outer :: "char option \<Rightarrow> string \<Rightarrow> nat \<Rightarrow> string \<Rightarrow> bool \<times> string \<times> nat \<times> string" where
  "macro_outer prev dst stop [] = (True, dst, stop, [])"
| "macro_outer prev dst stop (c # src) =
     (if c = CHR '','' then (True, dst, stop, c # src)
      else let delI = macro_delimiter prev c src in
        if delI = DT_NONE then macro_outer (Some c) (dst @ [c]) stop src
        else let r = macro_inner delI (if delI = DT_ANGLE then dst else dst @ [c]) src;
                 endCh = delimiters_e delI in
          if cur (snd r) \<noteq> endCh then (False, fst r, stop, snd r)
          else let dst' = (if delI = DT_ANGLE then fst r else fst r @ [endCh]) in
            macro_outer (Some endCh) dst' (length dst') (drop 1 (snd r)))"
  by pat_completeness auto
termination
proof (relation "measure (\<lambda>(_, _, _, src). length src)")
  fix prev dst stop c src and delI :: EDelimiterType and r endCh dst'
  assume "r = macro_inner delI (if delI = DT_ANGLE then dst else dst @ [c]) src"
  then have "length (snd r) \<le> length src" using macro_inner_length by simp
  then have "length (drop 1 (snd r)) < length (c # src)" by simp
  then show "((Some endCh, dst', length dst', drop 1 (snd r)), prev, dst, stop, c # src)
      \<in> measure (\<lambda>(_, _, _, src). length src)"
    by (simp del: length_drop)
qed auto

definition rtrim_from :: "nat \<Rightarrow> string \<Rightarrow> string" where
  "rtrim_from stop dst = take stop dst @ rev (dropWhile White (rev (drop stop dst)))"

definition GetMacroArgumentValue :: "string \<Rightarrow> (bool \<times> string \<times> string) M" where
  "GetMacroArgumentValue src =
     (let srcOrig = skip_blanks src in
      case macro_outer None [] 0 srcOrig of (ok, dst, stop, src') \<Rightarrow>
        if \<not> ok then ret (False, dst, src')
        else let val = rtrim_from stop dst in do {
          whenM (cur val = NUL) (Warning ''[Macro argument parser] empty value'' (Some srcOrig) W_PASS3);
          ret (True, val, src') })"

section \<open>DG and DH\<close>

definition dg_note :: "char \<Rightarrow> unit M" where
  "dg_note pch = do {
     ps \<leftarrow> gets pass;
     if LASTPASS \<noteq> ps then ret ()
     else do {
       one \<leftarrow> gets dg_one;
       (if 0 < one \<and> one \<noteq> ord pch then do {
          Warning (''[DG] multiple characters used for '' @ [CHR 0x27] @ ''ones'' @ [CHR 0x27]) None W_PASS3;
          modify (\<lambda>s. s\<lparr>dg_one := -1\<rparr>) }
        else whenM (one = 0) (modify (\<lambda>s. s\<lparr>dg_one := ord pch\<rparr>)));
       z \<leftarrow> gets zeroInDgWarning;
       whenM (pch = CHR ''0'' \<and> \<not> z) (do {
         modify (\<lambda>s. s\<lparr>zeroInDgWarning := True\<rparr>);
         Warning ''[DG] character '0' in DG works as value 1'' None W_PASS3 }) } }"

fun dg_bits :: "int \<Rightarrow> string \<Rightarrow> (int \<times> string) M" where
  "dg_bits val [] = ret (val, [])"
| "dg_bits val (pch # p) =
     (if \<not> val < 256 then ret (val, pch # p)
      else if White pch then dg_bits val p
      else if pch = CHR ''-'' \<or> pch = CHR ''.'' \<or> pch = CHR ''_'' then dg_bits (push_bit 1 val) p
      else do { dg_note pch; dg_bits (push_bit 1 val OR 1) p })"

fun dg_bytes :: "nat \<Rightarrow> EDelimiterType \<Rightarrow> int list \<Rightarrow> string \<Rightarrow> (int list \<times> string) M" where
  "dg_bytes 0 dt e p = do { out_of_fuel; ret (e, p) }"
| "dg_bytes (Suc n) dt e p =
     (if cur p = NUL \<or> (dt \<noteq> DT_NONE \<and> delimiters_e dt = cur p) then ret (e, p)
      else if 128 \<le> length e then do {
        Error ''Over 128 bytes defined in DG. Bits over'' (Some p) E_SUPPRESS;
        ret (e, p) }
      else do {
        (val, p1) \<leftarrow> dg_bits 1 p;
        sl \<leftarrow> gets substitutedLine;
        whenM (val < 256) (Error ''[DG] byte needs eight characters'' (Some sl) E_SUPPRESS);
        dg_bytes n dt (if val < 256 then e else e @ [val AND 255]) (skip_blanks p1) })"

definition GetBits :: "int list parser" where
  "GetBits p =
     (case DelimiterBegins delimiters_noAngle True p of (dt, p1) \<Rightarrow> do {
        (e, p2) \<leftarrow> dg_bytes (Suc (length p1)) dt [] p1;
        one \<leftarrow> gets dg_one;
        whenM (0 < one) (modify (\<lambda>s. s\<lparr>dg_one := 0\<rparr>));
        if dt = DT_NONE then ret (e, p2)
        else if delimiters_e dt \<noteq> cur p2 then do {
          Error ''No closing delimiter'' None E_SUPPRESS;
          ret (e, p2) }
        else ret (e, drop 1 p2) })"

text \<open>One byte of a DH text: two characters, the second may be the terminator (then the digit loop
  reports a missing digit, having moved past it).\<close>

fun dh_bytes :: "nat \<Rightarrow> EDelimiterType \<Rightarrow> int list \<Rightarrow> string \<Rightarrow> (bool \<times> int list \<times> string) M" where
  "dh_bytes 0 dt e p = do { out_of_fuel; ret (False, e, p) }"
| "dh_bytes (Suc n) dt e op =
     (if cur op = NUL \<or> (dt \<noteq> DT_NONE \<and> delimiters_e dt = cur op) then ret (True, e, op)
      else (case GetNumericValue_TwoBased 4 (take 2 (op @ [NUL])) (drop 2 op) of (val, err, r) \<Rightarrow> do {
        failed \<leftarrow> GetNumericValue_ProcessLastError err op;
        if failed then ret (False, e, drop (2 - length r) op)
        else if 128 \<le> length e then do {
          Error ''Over 128 bytes defined in DH/DEFH/HEX. Values over'' (Some op) E_SUPPRESS;
          ret (True, e, drop 2 op) }
        else let p1 = skip_blanks (drop 2 op) in
          if dt = DT_NONE \<and> cur p1 = CHR '','' then ret (True, e @ [val AND 255], p1)
          else dh_bytes n dt (e @ [val AND 255]) p1 }))"

fun dh_args :: "nat \<Rightarrow> string \<Rightarrow> int list \<Rightarrow> string \<Rightarrow> (int list \<times> string) M" where
  "dh_args 0 op_full e p = do { out_of_fuel; ret (e, p) }"
| "dh_args (Suc n) op_full e p =
     (case DelimiterBegins delimiters_noAngle True p of (dt, p1) \<Rightarrow> do {
        whenM (cur p1 = NUL) (Error ''no arguments'' None E_PASS3);
        (ok, e1, p2) \<leftarrow> dh_bytes (Suc (length p1)) dt e p1;
        if \<not> ok then ret ([], p2)
        else do {
          p3 \<leftarrow> (if dt \<noteq> DT_NONE then
                   (if delimiters_e dt = cur p2 then ret (skip_blanks (drop 1 p2))
                    else do { Error ''No closing delimiter'' (Some op_full) E_SUPPRESS; ret p2 })
                 else ret p2);
          (case comma p3 of (again, p4) \<Rightarrow>
             if again then dh_args n op_full e1 p4 else ret (e1, p4)) } })"

definition GetBytesHexaText :: "int list parser" where
  "GetBytesHexaText p = dh_args (Suc (length p)) p [] p"

section \<open>Identifiers grown by sub-words, structure members\<close>

definition LINEMAX :: nat where "LINEMAX = 2048"

fun grow_sub :: "bool \<Rightarrow> bool \<Rightarrow> string \<Rightarrow> string \<Rightarrow> string \<times> string" where
  "grow_sub sub us nid [] = (nid, [])"
| "grow_sub sub us nid (c # p) =
     (if \<not> islabchar c then (nid, c # p)
      else if sub \<and> (CHR ''_'' = cur p) \<noteq> us then (nid @ [c], p)
      else grow_sub sub us (nid @ [c]) p)"

definition id_overflow :: "string \<Rightarrow> unit M" where
  "id_overflow nid = whenM (LINEMAX \<le> length nid) (Error ''ID too long, buffer overflow detected.'' None E_FATAL)"

definition GrowSubId :: "string \<Rightarrow> string parser" where
  "GrowSubId nid p = do {
     x \<leftarrow> gets (\<lambda>s. syx (opts s));
     (case grow_sub (IsSubwordSubstitution x) (CHR ''_'' = cur p) nid p of (nid', p') \<Rightarrow> do {
        id_overflow nid';
        ret (nid', p') }) }"

definition GrowSubIdByExtraChar :: "string \<Rightarrow> string parser" where
  "GrowSubIdByExtraChar nid p = do {
     id_overflow (nid @ [cur p]);
     ret (nid @ [cur p], drop 1 p) }"

fun first_keyword :: "(string \<times> 'a) list \<Rightarrow> 'a \<Rightarrow> 'a lexer" where
  "first_keyword [] d p = (d, p)"
| "first_keyword ((k, m) # ks) d p = (case cmphstr k False p of (True, q) \<Rightarrow> (m, q) | _ \<Rightarrow> first_keyword ks d p)"

text \<open>The switch over the first two characters, a number; the keywords under each case.\<close>

definition member_cases :: "(string \<times> (string \<times> EStructureMembers) list) list" where
  "member_cases =
     [(''by'', [(''byte'', SMEMBBYTE)]), (''wo'', [(''word'', SMEMBWORD)]), (''bl'', [(''block'', SMEMBBLOCK)]),
      (''db'', [(''db'', SMEMBBYTE)]), (''dw'', [(''dw'', SMEMBWORD), (''dword'', SMEMBDWORD)]),
      (''ds'', [(''ds'', SMEMBBLOCK)]), (''dd'', [(''dd'', SMEMBDWORD)]), (''al'', [(''align'', SMEMBALIGN)]),
      (''de'', [(''defs'', SMEMBBLOCK), (''defb'', SMEMBBYTE), (''defw'', SMEMBWORD), (''defd'', SMEMBDWORD)]),
      (''d2'', [(''d24'', SMEMBD24)]), (''te'', [(''text'', SMEMBTEXT)])]"

definition key2 :: "string \<Rightarrow> int" where
  "key2 p = ord (cur p) * 2 + ord (chr_at p 1)"

fun member_find :: "(string \<times> (string \<times> EStructureMembers) list) list \<Rightarrow> EStructureMembers lexer" where
  "member_find [] p = (SMEMBUNKNOWN, p)"
| "member_find ((k, ks) # cs) p =
     (if key2 p = key2 k \<or> key2 p = key2 (map toupper k) then first_keyword ks SMEMBUNKNOWN p
      else member_find cs p)"

definition GetStructMemberId :: "EStructureMembers lexer" where
  "GetStructMemberId p =
     (if cur p = CHR ''#'' then
        (if chr_at p 1 = CHR ''#'' then (SMEMBALIGN, drop 2 p) else (SMEMBBLOCK, drop 1 p))
      else member_find member_cases p)"

section \<open>The pointer moves forward, the fuel is enough\<close>

lemma logs_only_GetQuotedChar [logging]: "logs_only (GetQuotedChar q p)"
  unfolding GetQuotedChar_def GetCharConstInDoubleQuotes_def by (intro logging)

lemma logs_only_quoted_chars [logging]: "logs_only (quoted_chars n q m a e p)"
  by (induction n arbitrary: e p) (simp_all only: quoted_chars.simps, (rule logging | assumption)+)

lemma logs_only_string_element [logging]: "logs_only (string_element m a e p)"
  unfolding string_element_def by (intro logging)

lemma logs_only_string_elements [logging]: "logs_only (string_elements n m a e p)"
  by (induction n arbitrary: e p) (simp_all only: string_elements.simps, (rule logging | assumption)+)

lemma logs_only_GetCharConst [logging]: "logs_only (GetCharConst p)"
  unfolding GetCharConst_def GetCharConstAsString_def by (intro logging)

text \<open>A character that was read has been consumed.\<close>

lemma GetQuotedChar_inv:
  "inv fuel_ok (GetQuotedChar q p) (\<lambda>(v, p'). suffix p' p \<and> (v \<noteq> None \<longrightarrow> length p' < length p))"
proof -
  have "cur p \<noteq> NUL \<Longrightarrow> length (drop n p) < length p" if "0 < n" for n
    using that by (cases p) auto
  then show ?thesis
    unfolding GetQuotedChar_def GetCharConstInDoubleQuotes_def GetCharConstInApostrophes_def
    by (intro inv_if inv_case_option inv_bind [OF inv_diag_fuel [OF diag_only_Warning]] inv_ret TrueI)
      (auto simp: suffix_drop)
qed

lemma quoted_chars_inv:
  "length p < n \<Longrightarrow> inv fuel_ok (quoted_chars n q m a e p) (\<lambda>(e', p'). suffix p' p)"
proof (induction n arbitrary: e p)
  case (Suc n)
  show ?case
    unfolding quoted_chars.simps
  proof (intro inv_if inv_bind [OF GetQuotedChar_inv] inv_ret)
    fix x :: "int option \<times> string"
    assume x: "case x of (v, p') \<Rightarrow> suffix p' p \<and> (v \<noteq> None \<longrightarrow> length p' < length p)"
    obtain v r where vr: "x = (v, r)" by (cases x)
    show "inv fuel_ok (case x of (v, r) \<Rightarrow> case v of None \<Rightarrow> ret (e, r)
        | Some val \<Rightarrow> quoted_chars n q m a (e @ [(val + a) AND 255]) r) (\<lambda>(e', p'). suffix p' p)"
    proof (cases v)
      case None
      then show ?thesis using x vr by (auto intro!: inv_ret)
    next
      case (Some val)
      then have "length r < n" "suffix r p" using x vr Suc.prems by auto
      from inv_conseq [OF Suc.IH [OF this(1)]] this(2) show ?thesis
        by (auto simp: vr Some dest: suffix_trans')
    qed
  qed simp
qed simp

lemma suffix_drop_tail:
  assumes "suffix q (drop 1 p)" "cur p \<noteq> NUL"
  shows "suffix (drop n q) p" and "length (drop n q) < length p"
proof -
  have s: "suffix (drop n q) (drop 1 p)" using suffix_trans' [OF suffix_drop assms(1)] .
  then show "suffix (drop n q) p" using suffix_trans' [OF _ suffix_drop] by blast
  have "length (drop n q) \<le> length (drop 1 p)" using s by (rule suffix_len)
  moreover have "length (drop 1 p) < length p" using length_drop_cur [OF assms(2), of 0] by simp
  ultimately show "length (drop n q) < length p" by linarith
qed

lemma string_element_inv:
  "cur p \<noteq> NUL \<Longrightarrow> inv fuel_ok (string_element m a e p) (\<lambda>(r, q, e', p'). suffix p' p \<and> length p' < length p)"
proof -
  assume c: "cur p \<noteq> NUL"
  have 1: "length (drop 1 p) < Suc (length p)" by simp
  have 2: "suffix (drop n q) p \<and> length (drop n q) < length p \<and> suffix q p \<and> length q < length p"
    if "suffix q (drop 1 p)" for q n
    using suffix_drop_tail [OF that c, of n] suffix_drop_tail [OF that c, of 0] by simp
  show ?thesis
    unfolding string_element_def Let_def
    by (rule inv_bind [OF quoted_chars_inv [OF 1]], clarify,
      intro inv_if inv_bind [OF inv_diag_fuel [OF diag_only_Error]] inv_ret TrueI)
     (simp_all only: prod.case drop_drop 2)
qed

lemma string_elements_inv:
  "length p < n \<Longrightarrow> cur p \<noteq> NUL \<Longrightarrow> inv fuel_ok (string_elements n m a e p) (\<lambda>(r, e', p'). suffix p' p)"
proof (induction n arbitrary: e p)
  case (Suc n)
  have nxt: "inv fuel_ok (case need_str ''..'' p' of (op, p1) \<Rightarrow>
        if op \<noteq> ord CHR ''.'' + ord CHR ''.'' then ret (1 + of_bool quotes, e', p1)
        else (case SkipBlanks p1 of (eol, p2) \<Rightarrow>
          if eol \<or> (cur p2 \<noteq> CHR 0x22 \<and> cur p2 \<noteq> CHR 0x27) then do {
            Error ''[..] String literal expected'' (Some p2) E_SUPPRESS;
            ret (-1, e', p2) }
          else string_elements n m a e' p2)) (\<lambda>(r, e', p'). suffix p' p)"
    if s: "suffix p' p" "length p' < length p" for p' quotes e'
  proof -
    obtain op p1 where n: "need_str ''..'' p' = (op, p1)" by fastforce
    obtain eol p2 where b: "SkipBlanks p1 = (eol, p2)" by fastforce
    have p1: "suffix p1 p'" using need_str_sfx [of "''..''" p'] n by simp
    have p2: "suffix p2 p1" using SkipBlanks_sfx [of p1] b by simp
    have p1p: "suffix p1 p" using suffix_trans' [OF p1 s(1)] .
    have p2p: "suffix p2 p" using suffix_trans' [OF p2 p1p] .
    have "length p2 < n"
      using suffix_len [OF p2] suffix_len [OF p1] s(2) Suc.prems(1) by linarith
    then have "inv fuel_ok (string_elements n m a e' p2) (\<lambda>(r, e', p'). suffix p' p)"
      if "cur p2 \<noteq> NUL"
      using inv_conseq [OF Suc.IH [OF _ that]] suffix_trans' [OF _ p2p] by auto
    then show ?thesis
      unfolding n b prod.case using p1p p2p
      by (auto intro!: inv_ret inv_bind [OF inv_diag_fuel [OF diag_only_Error], of "\<lambda>_. True"])
  qed
  show ?case
    unfolding string_elements.simps
    by (rule inv_bind [OF string_element_inv [OF Suc.prems(2)]], clarify, rule inv_case_option,
        rule inv_bind [where V = "\<lambda>_. True"], rule inv_whenM, rule inv_diag_fuel [OF diag_only_WarningById],
        rule TrueI, rule TrueI, rule nxt, assumption, assumption, rule inv_ret, simp)
qed simp

lemma GetCharConst_inv: "inv fuel_ok (GetCharConst p) (\<lambda>(r, p'). suffix p' p)"
proof -
  have "inv fuel_ok (GetCharConstAsString 128 0 [] p) (\<lambda>(r, e, p'). suffix p' p)"
    unfolding GetCharConstAsString_def
    by (intro inv_if inv_ret string_elements_inv) auto
  then show ?thesis
    unfolding GetCharConst_def Let_def
    by (rule inv_bind)
      (clarify, intro inv_if inv_ret inv_bind [OF inv_diag_fuel [OF diag_only_Warning]] TrueI; simp)
qed

lemma shrinking_GetCharConst: "shrinking GetCharConst"
  by (rule shrinking_logs [OF logs_only_GetCharConst GetCharConst_inv])

section \<open>Writing strings and reading them back\<close>

text \<open>How a text is written in the source: in apostrophes with apostrophes doubled, in quotes with
  backslash and quote escaped, and as a macro argument in angle brackets.\<close>

definition esc_apos :: "string \<Rightarrow> string" where
  "esc_apos t = concat (map (\<lambda>c. if c = CHR 0x27 then [c, c] else [c]) t)"

definition esc_quotes :: "string \<Rightarrow> string" where
  "esc_quotes t = concat (map (\<lambda>c. if c = CHR 0x22 \<or> c = CHR 0x5C then [CHR 0x5C, c] else [c]) t)"

definition esc_angle :: "string \<Rightarrow> string" where
  "esc_angle t = concat (map (\<lambda>c. if c = CHR ''!'' \<or> c = CHR ''>'' then [CHR ''!'', c] else [c]) t)"

lemma esc_simps [simp]:
  "esc_apos [] = []" "esc_apos (c # t) = (if c = CHR 0x27 then [c, c] else [c]) @ esc_apos t"
  "esc_quotes [] = []" "esc_quotes (c # t) = (if c = CHR 0x22 \<or> c = CHR 0x5C then [CHR 0x5C, c] else [c]) @ esc_quotes t"
  "esc_angle [] = []" "esc_angle (c # t) = (if c = CHR ''!'' \<or> c = CHR ''>'' then [CHR ''!'', c] else [c]) @ esc_angle t"
  by (simp_all add: esc_apos_def esc_quotes_def esc_angle_def)

lemma read_apos: "c \<noteq> NUL \<Longrightarrow> cur r \<noteq> CHR 0x27 \<or> c = CHR 0x27 \<Longrightarrow>
  run_state (GetQuotedChar False ((if c = CHR 0x27 then [c, c] else [c]) @ r)) s = ((Some (ord c), r), s)"
  by (auto simp: GetQuotedChar_def GetCharConstInApostrophes_def ord_def)

lemma read_quotes: "c \<noteq> NUL \<Longrightarrow>
  run_state (GetQuotedChar True ((if c = CHR 0x22 \<or> c = CHR 0x5C then [CHR 0x5C, c] else [c]) @ r)) s
    = ((Some (ord c), r), s)"
  by (auto simp: GetQuotedChar_def GetCharConstInDoubleQuotes_def dq_escapes_def ord_def)

lemma read_end: "run_state (GetQuotedChar True (CHR 0x22 # r)) s = ((None, CHR 0x22 # r), s)"
  "cur r \<noteq> CHR 0x27 \<Longrightarrow> run_state (GetQuotedChar False (CHR 0x27 # r)) s = ((None, CHR 0x27 # r), s)"
  by (auto simp: GetQuotedChar_def GetCharConstInDoubleQuotes_def GetCharConstInApostrophes_def)

lemma quoted_chars_apos:
  "cstr t \<Longrightarrow> length t + length e \<le> m \<Longrightarrow> length t < n \<Longrightarrow> cur r \<noteq> CHR 0x27 \<Longrightarrow>
   run_state (quoted_chars n False m 0 e (esc_apos t @ CHR 0x27 # r)) s = ((e @ map ord t, CHR 0x27 # r), s)"
proof (induction t arbitrary: n e)
  case Nil
  then obtain k where "n = Suc k" by (cases n) auto
  with Nil show ?case by (simp add: read_end)
next
  case (Cons c t)
  then obtain k where n: "n = Suc k" by (cases n) auto
  have step: "run_state (GetQuotedChar False (esc_apos (c # t) @ CHR 0x27 # r)) s
      = ((Some (ord c), esc_apos t @ CHR 0x27 # r), s)"
  proof (cases "c = CHR 0x27")
    case False
    then show ?thesis using Cons.prems by (simp add: GetQuotedChar_def GetCharConstInApostrophes_def)
  qed (simp add: GetQuotedChar_def GetCharConstInApostrophes_def ord_def)
  show ?case using Cons n step by (simp del: esc_simps)
qed

lemma quoted_chars_quotes:
  "cstr t \<Longrightarrow> length t + length e \<le> m \<Longrightarrow> length t < n \<Longrightarrow>
   run_state (quoted_chars n True m 0 e (esc_quotes t @ CHR 0x22 # r)) s = ((e @ map ord t, CHR 0x22 # r), s)"
proof (induction t arbitrary: n e)
  case Nil
  then obtain k where "n = Suc k" by (cases n) auto
  with Nil show ?case by (simp add: read_end)
next
  case (Cons c t)
  then obtain k where n: "n = Suc k" by (cases n) auto
  show ?case using Cons n read_quotes [of c "esc_quotes t @ CHR 0x22 # r" s] by simp
qed

text \<open>\<open>ends_string\<close>: what follows the closing delimiter is no suffix letter and no concatenation.\<close>

definition ends_string :: "string \<Rightarrow> bool" where
  "ends_string r \<longleftrightarrow> cur r \<noteq> CHR 0x27 \<and> cur r \<noteq> CHR ''Z'' \<and> cur r \<noteq> CHR ''C'' \<and> fst (need_str ''..'' r) = 0"

lemma length_esc: "length t \<le> length (esc_apos t)" "length t \<le> length (esc_quotes t)"
  by (induction t) auto

lemma string_elements_plain:
  assumes "ends_string r" "e \<noteq> []" "q = (d = CHR 0x22)" "d = CHR 0x22 \<or> d = CHR 0x27"
    and "run_state (quoted_chars (Suc (length (d # b))) q m 0 [] b) s = ((e, d # r), s)"
  shows "run_state (string_elements (Suc n) m 0 [] (d # b)) s = ((1 + of_bool q, e, skip_blanks r), s)"
proof -
  have n: "need_str ''..'' r = (0, skip_blanks r)"
    using assms(1) by (auto simp: ends_string_def need_str_def ord_def split: if_splits)
  show ?thesis
    using assms n by (auto simp: string_element_def ends_string_def Let_def ord_def)
qed

section \<open>Properties\<close>

text \<open>Claim C22. String literals: any non-empty text of up to 128 non-zero characters, written in
  apostrophes (apostrophes doubled) or in quotes (backslash and quote escaped), is read back as the list
  of its character codes without a diagnostic, and the result code tells which delimiter it had.\<close>

theorem GetCharConstAsString_roundtrip:
  assumes "cstr t" "t \<noteq> []" "length t \<le> 128" "ends_string rest"
  shows "run_state (GetCharConstAsString 128 0 [] (CHR 0x27 # esc_apos t @ CHR 0x27 # rest)) s
           = ((1, map ord t, skip_blanks rest), s) \<and>
         run_state (GetCharConstAsString 128 0 [] (CHR 0x22 # esc_quotes t @ CHR 0x22 # rest)) s
           = ((2, map ord t, skip_blanks rest), s)"
  unfolding GetCharConstAsString_def
  using string_elements_plain [of rest "map ord t" False "CHR 0x27" "esc_apos t @ CHR 0x27 # rest" 128 s]
    string_elements_plain [of rest "map ord t" True "CHR 0x22" "esc_quotes t @ CHR 0x22 # rest" 128 s]
    quoted_chars_apos [of t "[]" 128 _ rest s] quoted_chars_quotes [of t "[]" 128 _ rest s]
    length_esc [of t] assms
  by (simp add: ends_string_def del: quoted_chars.simps string_elements.simps)

theorem GetCharConstAsString_roundtrip_witness:
  "\<forall>s. run_state (GetCharConstAsString 128 0 [] (CHR 0x22 # esc_quotes [CHR 0x22, CHR ''!''] @ CHR 0x22 # '', 5'')) s
     = ((2, [34, 33], '', 5''), s)"
proof
  fix s :: asm
  have "ends_string '', 5''" "skip_blanks '', 5'' = '', 5''" "map ord [CHR 0x22, CHR ''!''] = [34, 33]" by code_simp+
  then show "run_state (GetCharConstAsString 128 0 [] (CHR 0x22 # esc_quotes [CHR 0x22, CHR ''!''] @ CHR 0x22 # '', 5'')) s
     = ((2, [34, 33], '', 5''), s)"
    using GetCharConstAsString_roundtrip [of "[CHR 0x22, CHR ''!'']" "'', 5''" s] by simp
qed

lemma macro_inner_angle:
  "cstr t \<Longrightarrow> macro_inner DT_ANGLE dst (esc_angle t @ CHR ''>'' # r) = (dst @ t, CHR ''>'' # r)"
proof (induction t arbitrary: dst)
  case (Cons c t)
  then show ?case by (cases "c = CHR ''!'' \<or> c = CHR ''>''") auto
qed simp

text \<open>Claim C23. Macro arguments: any non-empty text, written between angle brackets with ! and >
  escaped by !, is passed to the macro unchanged (commas, quotes and outer blanks included) and the
  parser stops at the comma or end after the bracket.\<close>

theorem GetMacroArgumentValue_angle_roundtrip:
  assumes "cstr t" "t \<noteq> []" "rest = [] \<or> cur rest = CHR '',''"
  shows "run_state (GetMacroArgumentValue (CHR ''<'' # esc_angle t @ CHR ''>'' # rest)) s = ((True, t, rest), s)"
proof -
  have w: "\<not> White (CHR ''<'')" by (simp add: White_def ord_def)
  have d: "macro_delimiter None (CHR ''<'') r = DT_ANGLE" for r
    by (simp add: macro_delimiter_def DelimiterBegins_def delimiters_all_def)
  have "macro_outer (Some (CHR ''>'')) t (length t) rest = (True, t, length t, rest)"
    using assms(3) by (cases rest) auto
  then have "macro_outer None [] 0 (CHR ''<'' # esc_angle t @ CHR ''>'' # rest) = (True, t, length t, rest)"
    using macro_inner_angle [OF assms(1), of "[]" rest] by (simp add: d)
  moreover have "cur t \<noteq> NUL" using assms(1,2) by (cases t) auto
  ultimately show ?thesis
    by (simp add: GetMacroArgumentValue_def w rtrim_from_def Let_def)
qed

theorem GetMacroArgumentValue_angle_roundtrip_witness:
  "\<forall>s. run_state (GetMacroArgumentValue (CHR ''<'' # esc_angle '' a,b>c '' @ CHR ''>'' # '',x'')) s
     = ((True, '' a,b>c '', '',x''), s)"
proof
  fix s :: asm
  show "run_state (GetMacroArgumentValue (CHR ''<'' # esc_angle '' a,b>c '' @ CHR ''>'' # '',x'')) s
     = ((True, '' a,b>c '', '',x''), s)"
    using GetMacroArgumentValue_angle_roundtrip [of "'' a,b>c ''" "'',x''" s] by simp
qed

end
