(* ===== verification/Sj_Device.thy ===== *)
theory Sj_Device
  imports Sj_Strings
begin

text \<open>
  devices.cpp: the virtual devices. A device is a list of slots that cover (part of) the 64 KiB
  address space of the CPU, a list of pages into one block of memory, and the page each slot shows.
  A page's \<^verbatim>\<open>RAM\<close> pointer is its offset in the block, \<^verbatim>\<open>slot->Page\<close> the page's number; a slot always has
  a page after \<^verbatim>\<open>initRegularSlotDevice\<close>, which every device is built with. \<^verbatim>\<open>CheckPage\<close> is in theory
  \<open>Sj_Emit\<close>, since it closes the size tracking of labels.
\<close>

section \<open>Which device\<close>

definition IsZXSpectrumDevice :: "string option \<Rightarrow> bool" where
  "IsZXSpectrumDevice name \<longleftrightarrow> (case name of None \<Rightarrow> False | Some n \<Rightarrow>
     n \<in> set [''ZXSPECTRUM48'', ''ZXSPECTRUM128'', ''ZXSPECTRUM256'', ''ZXSPECTRUM512'', ''ZXSPECTRUM1024'',
       ''ZXSPECTRUM2048'', ''ZXSPECTRUM4096'', ''ZXSPECTRUM8192''])"

definition IsAmstradCPCDevice :: "string option \<Rightarrow> bool" where
  "IsAmstradCPCDevice name \<longleftrightarrow> (case name of None \<Rightarrow> False | Some n \<Rightarrow>
     n \<in> set [''AMSTRADCPC464'', ''AMSTRADCPC6128''])"

definition IsAmstradPLUSDevice :: "string option \<Rightarrow> bool" where
  "IsAmstradPLUSDevice name \<longleftrightarrow> (case name of None \<Rightarrow> False | Some n \<Rightarrow> n = ''AMSTRADCPCPLUS'')"

section \<open>Slots and pages\<close>

abbreviation (input) MAX_SLOT_N :: nat where "MAX_SLOT_N \<equiv> 256"
abbreviation (input) MAX_PAGE_N :: nat where "MAX_PAGE_N \<equiv> 4096"
abbreviation (input) ZX_RAMTOP_DEFAULT :: int where "ZX_RAMTOP_DEFAULT \<equiv> 0x5D5B"
abbreviation (input) ZX_SYSVARS_ADR :: int where "ZX_SYSVARS_ADR \<equiv> 0x5C00"
abbreviation (input) ZX_UDG_ADR :: int where "ZX_UDG_ADR \<equiv> 0xFF58"

definition new_CDevice :: "string \<Rightarrow> CDevice" where
  "new_CDevice name = \<lparr>dev_ID = name, dev_Slots = [], dev_Pages = [], dev_Memory = (\<lambda>_. 0), dev_ZxRamTop = 0,
     dev_CurrentSlot = 0, previousSlotI = 0, previousSlotOpt = O_NONE, limitExceeded = False\<rparr>"

definition new_CDeviceSlot :: "int \<Rightarrow> int \<Rightarrow> CDeviceSlot" where
  "new_CDeviceSlot adr sz = \<lparr>slot_Address = adr, slot_Size = sz, slot_Page = 0, slot_InitialPage = -1, slot_Option = O_NONE\<rparr>"

definition AddSlot :: "int \<Rightarrow> int \<Rightarrow> CDevice \<Rightarrow> CDevice M" where
  "AddSlot adr sz dev = do {
     whenM (length (dev_Slots dev) = MAX_SLOT_N)
       (ErrorInt ''Can't add more slots, already at max'' (int MAX_SLOT_N) E_FATAL);
     ret (dev\<lparr>dev_Slots := dev_Slots dev @ [new_CDeviceSlot adr sz]\<rparr>) }"

definition AddPage :: "int \<Rightarrow> int \<Rightarrow> CDevice \<Rightarrow> CDevice M" where
  "AddPage memory sz dev = do {
     whenM (length (dev_Pages dev) = MAX_PAGE_N)
       (ErrorInt ''Can't add more pages, already at max'' (int MAX_PAGE_N) E_FATAL);
     ret (dev\<lparr>dev_Pages := dev_Pages dev @ [\<lparr>page_Size = sz, page_Number = length (dev_Pages dev), page_RAM = memory\<rparr>]\<rparr>) }"

text \<open>\<^verbatim>\<open>GetSlot\<close> and \<^verbatim>\<open>GetPage\<close> report a wrong number and fall back to the first slot or page (the
  source reads an array of 256 or 4096 pointers for it).\<close>

definition GetSlot :: "int \<Rightarrow> CDevice \<Rightarrow> CDeviceSlot M" where
  "GetSlot num dev =
     (if 0 \<le> num \<and> num < int (length (dev_Slots dev)) then ret (dev_Slots dev ! nat num)
      else do {
        l \<leftarrow> gets lp;
        Error ''Wrong slot number'' (Some l) E_PASS3;
        ret (dev_Slots dev ! 0) })"

definition GetPage :: "int \<Rightarrow> CDevice \<Rightarrow> CDevicePage M" where
  "GetPage num dev =
     (if 0 \<le> num \<and> num < int (length (dev_Pages dev)) then ret (dev_Pages dev ! nat num)
      else do {
        l \<leftarrow> gets lp;
        Error ''Wrong page number'' (Some l) E_PASS3;
        ret (dev_Pages dev ! 0) })"

text \<open>The slot of a CPU address: the last one that starts at or below it, if it reaches the address.\<close>

fun slot_scan :: "CDeviceSlot list \<Rightarrow> int \<Rightarrow> int" where
  "slot_scan [] address = -1"
| "slot_scan (S # rs) address =
     (if address < slot_Address S then slot_scan rs address
      else if slot_Address S + slot_Size S \<le> address then -1
      else int (length rs))"

definition GetSlotOfA16 :: "CDevice \<Rightarrow> int \<Rightarrow> int" where
  "GetSlotOfA16 dev address = slot_scan (rev (dev_Slots dev)) address"

definition GetPageOfA16 :: "CDevice \<Rightarrow> int \<Rightarrow> int" where
  "GetPageOfA16 dev address =
     (let slotNum = GetSlotOfA16 dev address in
      if slotNum = -1 then LABEL_PAGE_OUT_OF_BOUNDS
      else int (slot_Page (dev_Slots dev ! nat slotNum)))"

definition SetSlot :: "int \<Rightarrow> CDevice \<Rightarrow> bool \<times> CDevice" where
  "SetSlot slotNumber dev =
     (if slotNumber < 0 \<or> int (length (dev_Slots dev)) \<le> slotNumber then (False, dev)
      else (True, dev\<lparr>dev_CurrentSlot := nat slotNumber\<rparr>))"

definition GetCurrentSlot :: "CDevice \<Rightarrow> CDeviceSlot M" where
  "GetCurrentSlot dev = GetSlot (int (dev_CurrentSlot dev)) dev"

definition GetMemoryOffset :: "CDevice \<Rightarrow> int \<Rightarrow> int \<Rightarrow> int" where
  "GetMemoryOffset dev page offset =
     (case dev_Pages dev of [] \<Rightarrow> 0 | p # _ \<Rightarrow> wrap32 (offset + page * page_Size p))"

text \<open>\<^verbatim>\<open>Poke\<close> writes through the current mapping; an address outside the slots is ignored.\<close>

definition Poke :: "aint \<Rightarrow> int \<Rightarrow> CDevice \<Rightarrow> CDevice" where
  "Poke z80adr v dev =
     (let adrPage = GetPageOfA16 dev z80adr in
      if adrPage = LABEL_PAGE_OUT_OF_BOUNDS then dev
      else let page = dev_Pages dev ! nat adrPage in
        dev\<lparr>dev_Memory := (dev_Memory dev)(page_RAM page + (z80adr AND (page_Size page - 1)) := v)\<rparr>)"

definition SlotNumberFromPreciseAddress :: "aint \<Rightarrow> CDevice \<Rightarrow> aint" where
  "SlotNumberFromPreciseAddress address dev =
     (if address < int (length (dev_Slots dev)) then address
      else let slotNum = GetSlotOfA16 dev address in
        if slotNum = -1 then address
        else if address \<noteq> slot_Address (dev_Slots dev ! nat slotNum) then address
        else slotNum)"

section \<open>Building a device\<close>

fun add_slots :: "nat \<Rightarrow> int \<Rightarrow> int \<Rightarrow> CDevice \<Rightarrow> CDevice M" where
  "add_slots 0 slotAddress slotSize dev = ret dev"
| "add_slots (Suc n) slotAddress slotSize dev = do {
     dev1 \<leftarrow> AddSlot slotAddress slotSize dev;
     add_slots n (slotAddress + slotSize) slotSize dev1 }"

fun add_pages :: "nat \<Rightarrow> int \<Rightarrow> int \<Rightarrow> CDevice \<Rightarrow> CDevice M" where
  "add_pages 0 memPtr slotSize dev = ret dev"
| "add_pages (Suc n) memPtr slotSize dev = do {
     dev1 \<leftarrow> AddPage memPtr slotSize dev;
     add_pages n (memPtr + slotSize) slotSize dev1 }"

fun map_slots :: "nat \<Rightarrow> nat \<Rightarrow> int list \<Rightarrow> CDevice \<Rightarrow> CDevice M" where
  "map_slots 0 i initialPages dev = ret dev"
| "map_slots (Suc n) i initialPages dev = do {
     pg \<leftarrow> GetPage (initialPages ! i) dev;
     map_slots n (Suc i) initialPages
       (dev\<lparr>dev_Slots := (dev_Slots dev)[i := (dev_Slots dev ! i)
          \<lparr>slot_Page := page_Number pg, slot_InitialPage := int (page_Number pg)\<rparr>]\<rparr>) }"

text \<open>The loops run while the address is below \<^verbatim>\<open>slotSize * count\<close>: with a positive size, \<open>count\<close> times.\<close>

definition initRegularSlotDevice :: "int \<Rightarrow> nat \<Rightarrow> nat \<Rightarrow> int list \<Rightarrow> CDevice \<Rightarrow> CDevice M" where
  "initRegularSlotDevice slotSize slotCount pageCount initialPages dev = do {
     dev1 \<leftarrow> add_slots slotCount 0 slotSize dev;
     dev2 \<leftarrow> add_pages pageCount 0 slotSize dev1;
     dev3 \<leftarrow> map_slots (length (dev_Slots dev2)) 0 initialPages dev2;
     ret (snd (SetSlot (int (length (dev_Slots dev3)) - 1) dev3)) }"

definition ZX_SYSVARS_DATA :: "int list" where
  "ZX_SYSVARS_DATA =
     [0xff, 0x00, 0x00, 0x00, 0xff, 0x00, 0x00, 0x00, 0x00, 0x14, 0x01, 0x00, 0x00, 0x00, 0x00, 0x00,
      0x01, 0x00, 0x06, 0x00, 0x0b, 0x00, 0x01, 0x00, 0x01, 0x00, 0x06, 0x00, 0x10, 0x00, 0x00, 0x00,
      0x00, 0x00, 0x00, 0x00, 0x00, 0x00, 0x00, 0x00, 0x00, 0x00, 0x00, 0x00, 0x00, 0x00, 0x00, 0x00,
      0x00, 0x00, 0x00, 0x00, 0x00, 0x00, 0x00, 0x3c, 0x40, 0x00, 0xff, 0xcc, 0x01, 0x54, 0xff, 0x00,
      0x00, 0x00, 0x00, 0x00, 0x00, 0x00, 0x00, 0x00, 0x38, 0x00, 0x00, 0xcb, 0x5c, 0x00, 0x00, 0xb6,
      0x5c, 0xb6, 0x5c, 0xcb, 0x5c, 0x00, 0x00, 0xca, 0x5c, 0xcc, 0x5c, 0xcc, 0x5c, 0xcc, 0x5c, 0x00,
      0x00, 0xce, 0x5c, 0xce, 0x5c, 0xce, 0x5c, 0x00, 0x92, 0x5c, 0x10, 0x02, 0x00, 0x00, 0x00, 0x00,
      0x00, 0x00, 0x00, 0x00, 0x00, 0x00, 0x00, 0x00, 0x00, 0x00, 0x00, 0x58, 0xff, 0x00, 0x00, 0x21,
      0x5b, 0x00, 0x21, 0x17, 0x00, 0x40, 0xe0, 0x50, 0x21, 0x18, 0x21, 0x17, 0x01, 0x38, 0x00, 0x38,
      0x00, 0x00, 0x00, 0x00, 0x00, 0x00, 0x00, 0x00, 0x00, 0x00, 0x00, 0x00, 0x00, 0x00, 0x00, 0x00,
      0x00, 0x00, 0x00, 0x00, 0x00, 0x00, 0x00, 0x00, 0x00, 0x00, 0x00, 0x00, 0x00, 0x00, 0x00, 0x00,
      0x00, 0x00, 0x57, 0xff, 0xff, 0xff, 0xf4, 0x09, 0xa8, 0x10, 0x4b, 0xf4, 0x09, 0xc4, 0x15, 0x53,
      0x81, 0x0f, 0xc4, 0x15, 0x52, 0xf4, 0x09, 0xc4, 0x15, 0x50, 0x80, 0x80, 0x0d, 0x80, 0x00, 0x00,
      0x00, 0x00, 0x00, 0x00, 0x00, 0x00, 0x00, 0x00, 0x00, 0x00, 0x00, 0x00, 0x00, 0x00, 0x00, 0x00,
      0x00, 0x00, 0x00, 0x00, 0x00, 0x00, 0x00, 0x00, 0x00, 0x00, 0x00, 0x00, 0x00, 0x00, 0x00, 0x00,
      0x00, 0x00, 0x00, 0x00, 0x00, 0x00, 0x00, 0x00, 0x00, 0x00, 0x00, 0x00, 0x00, 0x00, 0x00, 0x00]"

definition ZX_STACK_DATA :: "int list" where
  "ZX_STACK_DATA = [0x03, 0x13, 0x00, 0x3e]"

definition ZX_UDG_DATA :: "int list" where
  "ZX_UDG_DATA =
     [0x00, 0x3c, 0x42, 0x42, 0x7e, 0x42, 0x42, 0x00, 0x00, 0x7c, 0x42, 0x7c, 0x42, 0x42, 0x7c, 0x00,
      0x00, 0x3c, 0x42, 0x40, 0x40, 0x42, 0x3c, 0x00, 0x00, 0x78, 0x44, 0x42, 0x42, 0x44, 0x78, 0x00,
      0x00, 0x7e, 0x40, 0x7c, 0x40, 0x40, 0x7e, 0x00, 0x00, 0x7e, 0x40, 0x7c, 0x40, 0x40, 0x40, 0x00,
      0x00, 0x3c, 0x42, 0x40, 0x4e, 0x42, 0x3c, 0x00, 0x00, 0x42, 0x42, 0x7e, 0x42, 0x42, 0x42, 0x00,
      0x00, 0x3e, 0x08, 0x08, 0x08, 0x08, 0x3e, 0x00, 0x00, 0x02, 0x02, 0x02, 0x42, 0x42, 0x3c, 0x00,
      0x00, 0x44, 0x48, 0x70, 0x48, 0x44, 0x42, 0x00, 0x00, 0x40, 0x40, 0x40, 0x40, 0x40, 0x7e, 0x00,
      0x00, 0x42, 0x66, 0x5a, 0x42, 0x42, 0x42, 0x00, 0x00, 0x42, 0x62, 0x52, 0x4a, 0x46, 0x42, 0x00,
      0x00, 0x3c, 0x42, 0x42, 0x42, 0x42, 0x3c, 0x00, 0x00, 0x7c, 0x42, 0x42, 0x7c, 0x40, 0x40, 0x00,
      0x00, 0x3c, 0x42, 0x42, 0x52, 0x4a, 0x3c, 0x00, 0x00, 0x7c, 0x42, 0x42, 0x7c, 0x44, 0x42, 0x00,
      0x00, 0x3c, 0x40, 0x3c, 0x02, 0x42, 0x3c, 0x00, 0x00, 0xfe, 0x10, 0x10, 0x10, 0x10, 0x10, 0x00,
      0x00, 0x42, 0x42, 0x42, 0x42, 0x42, 0x3c, 0x00]"

fun poke_all :: "aint \<Rightarrow> int list \<Rightarrow> CDevice \<Rightarrow> CDevice" where
  "poke_all adr [] dev = dev"
| "poke_all adr (v # vs) dev = poke_all (adr + 1) vs (Poke adr v dev)"

definition initZxMemory :: "CDevice \<Rightarrow> CDevice" where
  "initZxMemory dev =
     (let top = dev_ZxRamTop dev;
          d1 = poke_all 0x5800 (replicate 0x300 (7 * 8)) dev;
          d2 = poke_all ZX_UDG_ADR ZX_UDG_DATA d1;
          d3 = poke_all ZX_SYSVARS_ADR ZX_SYSVARS_DATA d2;
          d4 = Poke (ZX_SYSVARS_ADR + 0xB2) (top AND 0xFF) d3;
          d5 = Poke (ZX_SYSVARS_ADR + 0xB3) (drop_bit 8 top AND 0xFF) d4;
          adr = top + 1 - int (length ZX_STACK_DATA);
          d6 = Poke (ZX_SYSVARS_ADR + 0x3D) (adr AND 0xFF) d5;
          d7 = Poke (ZX_SYSVARS_ADR + 0x3E) (drop_bit 8 adr AND 0xFF) d6
      in poke_all adr ZX_STACK_DATA d7)"

definition initZxLikeDevice :: "int \<Rightarrow> nat \<Rightarrow> int list \<Rightarrow> aint \<Rightarrow> CDevice \<Rightarrow> CDevice M" where
  "initZxLikeDevice slotSize pageCount initialPages ramtop dev = do {
     dev1 \<leftarrow> initRegularSlotDevice slotSize (nat (0x10000 div slotSize)) pageCount initialPages dev;
     let dev2 = dev1\<lparr>dev_ZxRamTop :=
       (if ramtop = -1 \<or> (0x5D00 \<le> ramtop \<and> ramtop \<le> 0xFFFF) then ramtop else ZX_RAMTOP_DEFAULT)\<rparr>;
     ret (if ramtop = -1 then dev2 else initZxMemory dev2) }"

definition DeviceZXSpectrum48 :: "aint \<Rightarrow> CDevice M" where
  "DeviceZXSpectrum48 ramtop = initZxLikeDevice 0x4000 4 [0, 1, 2, 3] ramtop (new_CDevice ''ZXSPECTRUM48'')"

definition initialPagesZx128 :: "int list" where
  "initialPagesZx128 = [7, 5, 2, 0]"

definition DeviceZXSpectrum128 :: "aint \<Rightarrow> CDevice M" where
  "DeviceZXSpectrum128 ramtop = initZxLikeDevice 0x4000 8 initialPagesZx128 ramtop (new_CDevice ''ZXSPECTRUM128'')"

definition DeviceZXSpectrum256 :: "aint \<Rightarrow> CDevice M" where
  "DeviceZXSpectrum256 ramtop = initZxLikeDevice 0x4000 16 initialPagesZx128 ramtop (new_CDevice ''ZXSPECTRUM256'')"

definition DeviceZXSpectrum512 :: "aint \<Rightarrow> CDevice M" where
  "DeviceZXSpectrum512 ramtop = initZxLikeDevice 0x4000 32 initialPagesZx128 ramtop (new_CDevice ''ZXSPECTRUM512'')"

definition DeviceZXSpectrum1024 :: "aint \<Rightarrow> CDevice M" where
  "DeviceZXSpectrum1024 ramtop = initZxLikeDevice 0x4000 64 initialPagesZx128 ramtop (new_CDevice ''ZXSPECTRUM1024'')"

definition DeviceZXSpectrum2048 :: "aint \<Rightarrow> CDevice M" where
  "DeviceZXSpectrum2048 ramtop = initZxLikeDevice 0x4000 128 initialPagesZx128 ramtop (new_CDevice ''ZXSPECTRUM2048'')"

definition DeviceZXSpectrum4096 :: "aint \<Rightarrow> CDevice M" where
  "DeviceZXSpectrum4096 ramtop = initZxLikeDevice 0x4000 256 initialPagesZx128 ramtop (new_CDevice ''ZXSPECTRUM4096'')"

definition DeviceZXSpectrum8192 :: "aint \<Rightarrow> CDevice M" where
  "DeviceZXSpectrum8192 ramtop = initZxLikeDevice 0x4000 512 initialPagesZx128 ramtop (new_CDevice ''ZXSPECTRUM8192'')"

definition warn_no_ramtop :: "aint \<Rightarrow> unit M" where
  "warn_no_ramtop ramtop = whenM (ramtop \<noteq> 0) (WarningById W_NO_RAMTOP None W_PASS3)"

definition DeviceZxSpectrumNext :: "aint \<Rightarrow> CDevice M" where
  "DeviceZxSpectrumNext ramtop = do {
     warn_no_ramtop ramtop;
     o1 \<leftarrow> gets opts;
     l \<leftarrow> gets line;
     whenM (IsI8080 o1) (Error ''Can't use ZXN device while in i8080 assembling mode'' (Some l) E_FATAL);
     whenM (IsLR35902 o1) (Error ''Can't use ZXN device while in Sharp LR35902 assembling mode'' (Some l) E_FATAL);
     dev \<leftarrow> initRegularSlotDevice 0x2000 8 224 [14, 15, 10, 11, 4, 5, 0, 1] (new_CDevice ''ZXSPECTRUMNEXT'');
     whenM (IsNextEnabled (syx o1) = 0)
       (modify (\<lambda>s. s\<lparr>opts := (opts s)\<lparr>syx := (syx (opts s))\<lparr>IsNextEnabled := 1\<rparr>\<rparr>, nextExtensions := True\<rparr>));
     ret dev }"

definition DeviceElement :: "aint \<Rightarrow> CDevice M" where
  "DeviceElement ramtop = do {
     warn_no_ramtop ramtop;
     initRegularSlotDevice 0x2000 8 2560 [0, 1, 2, 3, 4, 5, 6, 7] (new_CDevice ''ELEMENT'') }"

definition DeviceNoSlot64k :: "aint \<Rightarrow> CDevice M" where
  "DeviceNoSlot64k ramtop = do {
     warn_no_ramtop ramtop;
     initRegularSlotDevice 0x10000 1 32 [0] (new_CDevice ''NOSLOT64K'') }"

definition DeviceAmstradCPC464 :: "aint \<Rightarrow> CDevice M" where
  "DeviceAmstradCPC464 ramtop = do {
     warn_no_ramtop ramtop;
     initRegularSlotDevice 0x4000 4 4 [0, 1, 2, 3] (new_CDevice ''AMSTRADCPC464'') }"

definition DeviceAmstradCPC6128 :: "aint \<Rightarrow> CDevice M" where
  "DeviceAmstradCPC6128 ramtop = do {
     warn_no_ramtop ramtop;
     initRegularSlotDevice 0x4000 4 8 [0, 1, 2, 3] (new_CDevice ''AMSTRADCPC6128'') }"

definition DeviceAmstradCPCPLUS :: "aint \<Rightarrow> CDevice M" where
  "DeviceAmstradCPCPLUS ramtop = do {
     warn_no_ramtop ramtop;
     initRegularSlotDevice 0x4000 4 32 [0, 1, 2, 3] (new_CDevice ''AMSTRADCPCPLUS'') }"

definition new_CDeviceDef :: "string \<Rightarrow> aint \<Rightarrow> nat \<Rightarrow> CDeviceDef" where
  "new_CDeviceDef name slot_size page_count = \<lparr>def_ID = name, def_SlotSize = slot_size,
     def_SlotsCount = (0x10000 + slot_size - 1) div slot_size, def_PagesCount = page_count,
     def_initialPages = replicate MAX_SLOT_N 0\<rparr>"

definition strcasecmp_eq :: "string \<Rightarrow> string \<Rightarrow> bool" where
  "strcasecmp_eq a b \<longleftrightarrow> map tolower a = map tolower b"

definition SetUserDefinedDevice :: "string \<Rightarrow> aint \<Rightarrow> CDevice option M" where
  "SetUserDefinedDevice i ramtop = do {
     ds \<leftarrow> gets (\<lambda>s. DefDevices (dv s));
     (case find (\<lambda>el. strcasecmp_eq i (def_ID el)) ds of
        None \<Rightarrow> ret None
      | Some d \<Rightarrow> do {
          warn_no_ramtop ramtop;
          dev \<leftarrow> initRegularSlotDevice (def_SlotSize d) (nat (def_SlotsCount d)) (def_PagesCount d)
            (def_initialPages d) (new_CDevice (def_ID d));
          ret (Some dev) }) }"

text \<open>The device names of \<^verbatim>\<open>SetDevice\<close>, in the order they are tried.\<close>

definition builtin_devices :: "(string \<times> (aint \<Rightarrow> CDevice M)) list" where
  "builtin_devices =
     [(''zxspectrum48'', DeviceZXSpectrum48), (''zxspectrum128'', DeviceZXSpectrum128),
      (''zxspectrum256'', DeviceZXSpectrum256), (''zxspectrum512'', DeviceZXSpectrum512),
      (''zxspectrum1024'', DeviceZXSpectrum1024), (''zxspectrum2048'', DeviceZXSpectrum2048),
      (''zxspectrum4096'', DeviceZXSpectrum4096), (''zxspectrum8192'', DeviceZXSpectrum8192),
      (''zxspectrumnext'', DeviceZxSpectrumNext), (''element'', DeviceElement),
      (''noslot64k'', DeviceNoSlot64k), (''amstradcpc464'', DeviceAmstradCPC464),
      (''amstradcpc6128'', DeviceAmstradCPC6128), (''amstradcpcplus'', DeviceAmstradCPCPLUS)]"

definition make_device :: "string \<Rightarrow> aint \<Rightarrow> CDevice option M" where
  "make_device i ramtop =
     (case find (\<lambda>(k, _). fst (cmphstr k False i)) builtin_devices of
        Some (_, mk) \<Rightarrow> do { dev \<leftarrow> mk ramtop; ret (Some dev) }
      | None \<Rightarrow> SetUserDefinedDevice i ramtop)"

definition GetDeviceName :: "device_state \<Rightarrow> string" where
  "GetDeviceName d = (case DeviceID d of Some n \<Rightarrow> n | None \<Rightarrow> ''NONE'')"

section \<open>Well-formed devices\<close>

text \<open>The shape every device has after \<^verbatim>\<open>initRegularSlotDevice\<close> and keeps: equal slots from address 0 on,
  equal pages one after the other in the memory block, every slot showing an existing page.\<close>

definition wf_device :: "int \<Rightarrow> CDevice \<Rightarrow> bool" where
  "wf_device sz dev \<longleftrightarrow>
     0 < sz \<and> dev_Slots dev \<noteq> [] \<and>
     (\<forall>i < length (dev_Slots dev). slot_Address (dev_Slots dev ! i) = int i * sz \<and>
        slot_Size (dev_Slots dev ! i) = sz \<and> slot_Page (dev_Slots dev ! i) < length (dev_Pages dev)) \<and>
     (\<forall>i < length (dev_Pages dev). page_Number (dev_Pages dev ! i) = i \<and> page_Size (dev_Pages dev ! i) = sz \<and>
        page_RAM (dev_Pages dev ! i) = int i * sz) \<and>
     dev_CurrentSlot dev < length (dev_Slots dev) \<and> previousSlotI dev < length (dev_Slots dev)"

lemma wf_deviceD:
  assumes "wf_device sz dev"
  shows "0 < sz" "dev_Slots dev \<noteq> []" "dev_CurrentSlot dev < length (dev_Slots dev)"
    "previousSlotI dev < length (dev_Slots dev)"
  using assms by (auto simp: wf_device_def)

lemma wf_slotD:
  assumes "wf_device sz dev" "i < length (dev_Slots dev)"
  shows "slot_Address (dev_Slots dev ! i) = int i * sz" "slot_Size (dev_Slots dev ! i) = sz"
    "slot_Page (dev_Slots dev ! i) < length (dev_Pages dev)"
  using assms by (auto simp: wf_device_def)

lemma wf_pageD:
  assumes "wf_device sz dev" "i < length (dev_Pages dev)"
  shows "page_Number (dev_Pages dev ! i) = i" "page_Size (dev_Pages dev ! i) = sz"
    "page_RAM (dev_Pages dev ! i) = int i * sz"
  using assms by (auto simp: wf_device_def)

lemma zdiv_less:
  assumes "0 < (b::int)" "a < n * b"
  shows "a div b < n"
proof (rule ccontr)
  assume "\<not> a div b < n"
  then have "n * b \<le> a div b * b" using assms(1) by (intro mult_right_mono) auto
  also have "\<dots> \<le> a" using minus_mod_eq_div_mult [of a b] pos_mod_sign [OF assms(1), of a] by linarith
  finally show False using assms(2) by simp
qed

lemma slot_scan_rev:
  assumes "\<forall>i < length ss. slot_Address (ss ! i) = int i * sz \<and> slot_Size (ss ! i) = sz" "0 < sz"
  shows "slot_scan (rev ss) a = (if 0 \<le> a \<and> a < int (length ss) * sz then a div sz else -1)"
  using assms(1)
proof (induction ss rule: rev_induct)
  case (snoc S ss)
  from snoc.prems have S: "slot_Address S = int (length ss) * sz" "slot_Size S = sz"
    by (auto dest!: spec [of _ "length ss"])
  have ss: "\<forall>i < length ss. slot_Address (ss ! i) = int i * sz \<and> slot_Size (ss ! i) = sz"
  proof (intro allI impI)
    fix i assume "i < length ss"
    with snoc.prems show "slot_Address (ss ! i) = int i * sz \<and> slot_Size (ss ! i) = sz"
      by (auto dest!: spec [of _ i] simp: nth_append)
  qed
  have pos: "0 \<le> int (length ss) * sz" using assms(2) by simp
  have dv: "a div sz = int (length ss)" if "int (length ss) * sz \<le> a" "a < int (length ss) * sz + sz"
    using that assms(2) by (intro div_pos_pos_trivial [THEN sym, THEN trans] int_div_pos_eq [where r = "a - int (length ss) * sz"]) auto
  define N where "N = int (length ss) * sz"
  have e: "int (length (ss @ [S])) * sz = N + sz" by (simp add: N_def algebra_simps)
  have "slot_scan (rev (ss @ [S])) a =
      (if a < N then slot_scan (rev ss) a else if N + sz \<le> a then -1 else int (length ss))"
    using S by (simp add: N_def)
  then show ?case
    using snoc.IH [OF ss] pos dv assms(2) unfolding e by (auto simp flip: N_def)
qed simp

lemma GetSlotOfA16_wf:
  "wf_device sz dev \<Longrightarrow>
   GetSlotOfA16 dev a = (if 0 \<le> a \<and> a < int (length (dev_Slots dev)) * sz then a div sz else -1)"
  unfolding GetSlotOfA16_def by (rule slot_scan_rev) (auto simp: wf_device_def)

lemma GetSlotOfA16_range:
  assumes "wf_device sz dev" "0 \<le> a" "a < int (length (dev_Slots dev)) * sz"
  shows "GetSlotOfA16 dev a = a div sz" "0 \<le> a div sz" "nat (a div sz) < length (dev_Slots dev)"
proof -
  show "GetSlotOfA16 dev a = a div sz" using assms by (simp add: GetSlotOfA16_wf)
  show "0 \<le> a div sz" using assms wf_deviceD(1) by (simp add: pos_imp_zdiv_nonneg_iff)
  then show "nat (a div sz) < length (dev_Slots dev)"
    using zdiv_less [OF wf_deviceD(1) [OF assms(1)] assms(3)] by (simp add: nat_less_iff)
qed

section \<open>Building gives a well-formed device\<close>

lemma add_slots_run:
  "length (dev_Slots dev) + n \<le> MAX_SLOT_N \<Longrightarrow> run_state (add_slots n a sz dev) s =
     (dev\<lparr>dev_Slots := dev_Slots dev @ map (\<lambda>i. new_CDeviceSlot (a + int i * sz) sz) [0..<n]\<rparr>, s)"
proof (induction n arbitrary: a dev)
  case (Suc n)
  have "map (\<lambda>i. new_CDeviceSlot (a + int i * sz) sz) [0..<Suc n] =
      new_CDeviceSlot a sz # map (\<lambda>i. new_CDeviceSlot (a + sz + int i * sz) sz) [0..<n]"
    by (simp add: map_upt_Suc algebra_simps del: upt_Suc)
  with Suc show ?case by (simp add: AddSlot_def del: upt_Suc)
qed simp

lemma add_pages_run:
  "length (dev_Pages dev) + n \<le> MAX_PAGE_N \<Longrightarrow> run_state (add_pages n a sz dev) s =
     (dev\<lparr>dev_Pages := dev_Pages dev @ map (\<lambda>i. \<lparr>page_Size = sz, page_Number = length (dev_Pages dev) + i,
        page_RAM = a + int i * sz\<rparr>) [0..<n]\<rparr>, s)"
proof (induction n arbitrary: a dev)
  case (Suc n)
  have "map (\<lambda>i. \<lparr>page_Size = sz, page_Number = length (dev_Pages dev) + i, page_RAM = a + int i * sz\<rparr>) [0..<Suc n] =
      \<lparr>page_Size = sz, page_Number = length (dev_Pages dev), page_RAM = a\<rparr> #
      map (\<lambda>i. \<lparr>page_Size = sz, page_Number = Suc (length (dev_Pages dev)) + i, page_RAM = a + sz + int i * sz\<rparr>) [0..<n]"
    by (simp add: map_upt_Suc algebra_simps del: upt_Suc)
  with Suc show ?case by (simp add: AddPage_def del: upt_Suc)
qed simp

definition mapped_slots :: "nat \<Rightarrow> nat \<Rightarrow> int list \<Rightarrow> CDeviceSlot list \<Rightarrow> CDeviceSlot list" where
  "mapped_slots i n pgs ss = map (\<lambda>j. if i \<le> j \<and> j < i + n
     then (ss ! j)\<lparr>slot_Page := nat (pgs ! j), slot_InitialPage := pgs ! j\<rparr> else ss ! j) [0..<length ss]"

lemma mapped_slots_Suc:
  assumes "i < length ss"
  shows "mapped_slots (Suc i) n pgs (ss[i := (ss ! i)\<lparr>slot_Page := nat (pgs ! i), slot_InitialPage := pgs ! i\<rparr>])
    = mapped_slots i (Suc n) pgs ss"
  using assms by (intro nth_equalityI) (auto simp: mapped_slots_def nth_list_update)

lemma map_slots_run:
  assumes "\<forall>j < length (dev_Pages dev). page_Number (dev_Pages dev ! j) = j"
  shows "i + n \<le> length (dev_Slots dev) \<Longrightarrow>
     (\<forall>j. i \<le> j \<and> j < i + n \<longrightarrow> 0 \<le> pgs ! j \<and> pgs ! j < int (length (dev_Pages dev))) \<Longrightarrow>
     run_state (map_slots n i pgs dev) s = (dev\<lparr>dev_Slots := mapped_slots i n pgs (dev_Slots dev)\<rparr>, s)"
  using assms
proof (induction n arbitrary: i dev)
  case 0
  have "mapped_slots i 0 pgs (dev_Slots dev) = dev_Slots dev"
    by (rule nth_equalityI) (auto simp: mapped_slots_def)
  then show ?case by simp
next
  case (Suc n)
  let ?f = "(dev_Slots dev)[i := (dev_Slots dev ! i)\<lparr>slot_Page := nat (pgs ! i), slot_InitialPage := pgs ! i\<rparr>]"
  have i: "0 \<le> pgs ! i" "pgs ! i < int (length (dev_Pages dev))" "nat (pgs ! i) < length (dev_Pages dev)"
    using Suc.prems(2) by (auto dest!: spec [of _ i])
  have "run_state (map_slots n (Suc i) pgs (dev\<lparr>dev_Slots := ?f\<rparr>)) s =
      (dev\<lparr>dev_Slots := mapped_slots (Suc i) n pgs ?f\<rparr>, s)"
    using Suc.IH [of "Suc i" "dev\<lparr>dev_Slots := ?f\<rparr>"] Suc.prems by simp
  then show ?case
    using Suc.prems i mapped_slots_Suc [of i "dev_Slots dev" n pgs] by (simp add: GetPage_def)
qed

definition regular_device :: "int \<Rightarrow> nat \<Rightarrow> nat \<Rightarrow> int list \<Rightarrow> string \<Rightarrow> CDevice" where
  "regular_device sz sn pn pgs name = (new_CDevice name)
     \<lparr>dev_Slots := map (\<lambda>i. (new_CDeviceSlot (int i * sz) sz)
        \<lparr>slot_Page := nat (pgs ! i), slot_InitialPage := pgs ! i\<rparr>) [0..<sn],
      dev_Pages := map (\<lambda>i. \<lparr>page_Size = sz, page_Number = i, page_RAM = int i * sz\<rparr>) [0..<pn],
      dev_CurrentSlot := sn - 1\<rparr>"

lemma initRegularSlotDevice_run:
  assumes "0 < sn" "sn \<le> MAX_SLOT_N" "pn \<le> MAX_PAGE_N" "\<forall>i < sn. 0 \<le> pgs ! i \<and> pgs ! i < int pn"
  shows "run_state (initRegularSlotDevice sz sn pn pgs (new_CDevice name)) s =
    (regular_device sz sn pn pgs name, s)"
proof -
  have "mapped_slots 0 sn pgs (map (\<lambda>i. new_CDeviceSlot (int i * sz) sz) [0..<sn]) =
      map (\<lambda>i. (new_CDeviceSlot (int i * sz) sz)\<lparr>slot_Page := nat (pgs ! i), slot_InitialPage := pgs ! i\<rparr>) [0..<sn]"
    by (rule nth_equalityI) (auto simp: mapped_slots_def)
  then show ?thesis
    using assms
    by (simp add: initRegularSlotDevice_def add_slots_run add_pages_run map_slots_run new_CDevice_def
        SetSlot_def regular_device_def nat_diff_distrib)
qed

lemma wf_regular_device:
  "0 < sz \<Longrightarrow> 0 < sn \<Longrightarrow> \<forall>i < sn. 0 \<le> pgs ! i \<and> pgs ! i < int pn \<Longrightarrow>
   wf_device sz (regular_device sz sn pn pgs name)"
  by (auto simp: wf_device_def regular_device_def new_CDevice_def new_CDeviceSlot_def nat_less_iff)

section \<open>Writing through the mapping\<close>

text \<open>The offset in the memory block that an address of the CPU is mapped to.\<close>

definition phys :: "int \<Rightarrow> CDevice \<Rightarrow> int \<Rightarrow> int" where
  "phys sz dev a = int (slot_Page (dev_Slots dev ! nat (a div sz))) * sz + a mod sz"

lemma phys_bounds:
  assumes "wf_device sz dev" "0 \<le> a" "a < int (length (dev_Slots dev)) * sz"
  shows "0 \<le> phys sz dev a" "phys sz dev a < int (length (dev_Pages dev)) * sz"
proof -
  have sz: "0 < sz" using wf_deviceD(1) [OF assms(1)] .
  let ?p = "slot_Page (dev_Slots dev ! nat (a div sz))"
  have p: "?p < length (dev_Pages dev)" using wf_slotD(3) [OF assms(1) GetSlotOfA16_range(3) [OF assms]] .
  show "0 \<le> phys sz dev a" using sz by (simp add: phys_def)
  have "int ?p * sz + a mod sz < (int ?p + 1) * sz" using pos_mod_bound [OF sz] by (simp add: algebra_simps)
  also have "\<dots> \<le> int (length (dev_Pages dev)) * sz" using p sz by (intro mult_right_mono) auto
  finally show "phys sz dev a < int (length (dev_Pages dev)) * sz" by (simp add: phys_def)
qed

lemma and_size_minus_1: "(a::int) AND (2 ^ k - 1) = a mod 2 ^ k"
  using take_bit_eq_mask [of k a] by (simp add: take_bit_eq_mod mask_eq_exp_minus_1)

lemma Poke_run:
  assumes "wf_device (2 ^ k) dev" "0 \<le> a" "a < int (length (dev_Slots dev)) * 2 ^ k" "length (dev_Pages dev) \<le> MAX_PAGE_N"
  shows "Poke a v dev = dev\<lparr>dev_Memory := (dev_Memory dev)(phys (2 ^ k) dev a := v)\<rparr>"
proof -
  note r = GetSlotOfA16_range [OF assms(1-3)]
  let ?p = "slot_Page (dev_Slots dev ! nat (a div 2 ^ k))"
  have p: "?p < length (dev_Pages dev)" using wf_slotD(3) [OF assms(1) r(3)] .
  have "GetPageOfA16 dev a = int ?p" using r by (simp add: GetPageOfA16_def)
  moreover have "int ?p \<noteq> 0x7F80" using p assms(4) by linarith
  ultimately show ?thesis
    using wf_pageD [OF assms(1) p] by (simp add: Poke_def Let_def and_size_minus_1 phys_def)
qed

end
