(* ===== verification/Sj_Labels.thy ===== *)
theory Sj_Labels
  imports Sj_Device
begin

text \<open>
  tables.cpp: label names and their name spaces (\<^verbatim>\<open>ValidateLabel\<close>, \<^verbatim>\<open>SearchLabel\<close>), the label table
  \<^verbatim>\<open>CLabelTable\<close> with the tracking of label sizes, temporary labels, the instruction table
  \<^verbatim>\<open>CFunctionTable\<close>, and the text positions. A pointer to a table entry is the entry's name. The stack
  of size-tracked labels has its top at the head of the list.
\<close>

section \<open>Text positions\<close>

definition newFile :: "string \<Rightarrow> TextFilePos" where
  "newFile fileName = \<lparr>tfp_filename = fileName, tfp_line = 0, colBegin = 0, colEnd = 0\<rparr>"

definition nextSegment :: "bool \<Rightarrow> nat \<Rightarrow> TextFilePos \<Rightarrow> TextFilePos" where
  "nextSegment endsWithColon advanceColumns pos =
     (let ce = (if endsWithColon \<and> colEnd pos = 0 then 1 else colEnd pos);
          pos1 = pos\<lparr>colBegin := ce\<rparr>;
          pos2 = (if ce \<le> 1 then pos1\<lparr>tfp_line := tfp_line pos1 + 1\<rparr> else pos1)
      in if endsWithColon then pos2\<lparr>colEnd := ce + advanceColumns\<rparr> else pos2\<lparr>colEnd := 0\<rparr>)"

section \<open>Label names\<close>

definition InitVorlab :: "label_state \<Rightarrow> label_state" where
  "InitVorlab l = l\<lparr>vorlab := (if ModuleName l \<noteq> [] then ModuleName l @ ''._'' else ''_'')\<rparr>"

text \<open>The qualified name of a label: module, macro instance or main label in front, the name itself cut at
  \<^verbatim>\<open>LABMAX\<close> characters. (The source's last check of the buffer length can not fail: the parts are the
  ones the length was added up from.)\<close>

definition qualified_name :: "bool \<Rightarrow> bool \<Rightarrow> bool \<Rightarrow> label_state \<Rightarrow> string \<Rightarrow> string" where
  "qualified_name inModule inMacro local l naam =
     (if inModule then ModuleName l @ ''.'' else []) @
     (if inMacro then (case macrolabp l of Some m \<Rightarrow> m | None \<Rightarrow> []) @ ''>''
      else if local then vorlab l @ ''.'' else []) @
     take LABMAX (takeWhile islabchar naam)"

definition ValidateLabel :: "string \<Rightarrow> bool \<Rightarrow> bool \<Rightarrow> (bool \<times> string option) M" where
  "ValidateLabel naam0 setNameSpace0 ignoreCharAfter =
     (if cur naam0 = NUL \<or> White (cur naam0) then do {
        Error ''Invalid (blank) labelname'' None E_PASS3;
        ret (False, None) }
      else do {
        l \<leftarrow> gets labs;
        let bang = (cur naam0 = CHR ''!'');
        let setNameSpace = (setNameSpace0 \<and> \<not> bang);
        let naam1 = (if bang then drop 1 naam0 else naam0);
        let escMacro = (setNameSpace \<and> macrolabp l \<noteq> None \<and> cur naam1 = CHR ''@'' \<and> chr_at naam1 1 = CHR ''.'');
        let naam2 = (if escMacro then drop 1 naam1 else naam1);
        let global = (cur naam2 = CHR ''@'');
        let local = (cur naam2 = CHR ''.'');
        let naam = (if global \<or> local then drop 1 naam2 else naam2);
        if \<not> isLabelStart naam2 True then do {
          Error ''Invalid character at start of labelname'' (Some naam) E_SUPPRESS;
          ret (local, None) }
        else do {
          let inMacro = (\<not> escMacro \<and> local \<and> macrolabp l \<noteq> None);
          let inModule = (\<not> inMacro \<and> \<not> global \<and> \<not> local \<and> ModuleName l \<noteq> []);
          let np = dropWhile islabchar naam;
          if cur np = CHR ''['' then ret (local, None)
          else if cur np \<noteq> NUL \<and> \<not> ignoreCharAfter then do {
            Error ''Invalid character after labelname'' (Some naam) E_SUPPRESS;
            ret (local, None) }
          else do {
            whenM (LABMAX < length naam - length np) (Error ''Label too long'' (Some naam) E_IF_FIRST);
            let label = qualified_name inModule inMacro local l naam;
            whenM (setNameSpace \<and> \<not> local) (mod_labs (\<lambda>l. l\<lparr>vorlab := label\<rparr>));
            ret (local, Some label) } } })"

section \<open>The label table\<close>

definition the_dev :: "asm \<Rightarrow> CDevice" where
  "the_dev s = Devices (dv s) ! (the (Device (dv s)))"

definition emit_address :: "asm \<Rightarrow> aint" where
  "emit_address s = (if PseudoORG s \<noteq> DISP_NONE then adrdisp s else CurAddress s)"

definition getAddressPageNumber :: "aint \<Rightarrow> bool \<Rightarrow> int M" where
  "getAddressPageNumber address forceRecalculateByAddress = do {
     d \<leftarrow> gets (\<lambda>s. DeviceID (dv s));
     if d = None then ret LABEL_PAGE_ROM
     else do {
       dev \<leftarrow> gets the_dev;
       slot \<leftarrow> GetCurrentSlot dev;
       s \<leftarrow> State_Monad.get;
       if \<not> forceRecalculateByAddress \<and> PseudoORG s = DISP_NONE \<and>
          slot_Address slot \<le> address \<and> address < slot_Address slot + slot_Size slot
       then ret (int (PageCur (dv s)))
       else if PseudoORG s \<noteq> DISP_NONE \<and> dispPageNum s \<noteq> LABEL_PAGE_UNDEFINED then ret (dispPageNum s)
       else let page = GetPageOfA16 dev address in
         ret (if page = LABEL_PAGE_UNDEFINED then LABEL_PAGE_OUT_OF_BOUNDS else page) } }"

definition updatePhAddressPageNumber :: "asm \<Rightarrow> SLabelTableEntry \<Rightarrow> SLabelTableEntry" where
  "updatePhAddressPageNumber s label = label\<lparr>lab_ph_page :=
     (if lab_page label \<noteq> LABEL_PAGE_UNDEFINED then
        (if DeviceID (dv s) \<noteq> None then GetPageOfA16 (the_dev s) (lab_ph_value label) else LABEL_PAGE_ROM)
      else LABEL_PAGE_OUT_OF_BOUNDS)\<rparr>"

definition new_label :: SLabelTableEntry where
  "new_label = \<lparr>lab_value = 0, lab_ph_value = 0, lab_size = 0, lab_page = LABEL_PAGE_UNDEFINED,
     lab_ph_page = LABEL_PAGE_UNDEFINED, lab_traits = 0, lab_updatePass = 0, lab_used = False,
     lab_isRelocatable = REL_OFF\<rparr>"

definition has_trait :: "int \<Rightarrow> int \<Rightarrow> bool" where
  "has_trait traits t \<longleftrightarrow> traits AND t \<noteq> 0"

definition label_delta_type :: "int \<Rightarrow> asm \<Rightarrow> reloc_type" where
  "label_delta_type traits s =
     (if has_trait traits LABEL_HAS_RELOC_TRAIT then (if has_trait traits LABEL_IS_RELOC then REL_REGULAR else REL_OFF)
      else if has_trait traits (LABEL_IS_DEFL OR LABEL_IS_EQU) then deltaType (rel s)
      else if rel_type (rel s) \<noteq> REL_OFF \<and> PseudoORG s \<noteq> DISP_INSIDE_RELOCATE then REL_REGULAR else REL_OFF)"

definition put_label :: "string \<Rightarrow> SLabelTableEntry \<Rightarrow> unit M" where
  "put_label n e = mod_labs (\<lambda>l. l\<lparr>symbols := (symbols l)(n \<mapsto> e)\<rparr>)"

definition label_page_for :: "aint \<Rightarrow> int \<Rightarrow> int \<Rightarrow> int M" where
  "label_page_for nvalue traits equPageNum =
     (if has_trait traits LABEL_IS_EQU \<and> equPageNum \<noteq> LABEL_PAGE_UNDEFINED then ret equPageNum
      else getAddressPageNumber nvalue (has_trait traits (LABEL_IS_DEFL OR LABEL_IS_EQU)))"

definition Insert :: "string \<Rightarrow> aint \<Rightarrow> int \<Rightarrow> int \<Rightarrow> bool M" where
  "Insert nname nvalue traits equPageNum = do {
     let isUndefined = has_trait traits LABEL_IS_UNDEFINED;
     s \<leftarrow> State_Monad.get;
     (case symbols (labs s) nname of
        Some label \<Rightarrow> do {
          whenM (has_trait (lab_traits label) LABEL_IS_KEYWORD) (WarningById W_OPKEYWORD (Some nname) W_EARLY);
          if has_trait (lab_traits label) LABEL_IS_DEFL \<or> lab_page label = LABEL_PAGE_UNDEFINED \<or>
             lab_updatePass label < pass s
          then do {
            page \<leftarrow> label_page_for nvalue traits equPageNum;
            put_label nname ((updatePhAddressPageNumber s
                (label\<lparr>lab_value := nvalue, lab_ph_value := emit_address s, lab_page := page\<rparr>))
              \<lparr>lab_traits := (lab_traits label AND LABEL_HAS_SIZE) OR traits,
               lab_isRelocatable := label_delta_type traits s, lab_updatePass := pass s\<rparr>);
            ret True }
          else ret False }
      | None \<Rightarrow> do {
          page \<leftarrow> (if has_trait traits LABEL_IS_EQU \<and> equPageNum \<noteq> LABEL_PAGE_UNDEFINED then ret equPageNum
                  else if isUndefined then ret LABEL_PAGE_UNDEFINED
                  else label_page_for nvalue traits equPageNum);
          put_label nname ((updatePhAddressPageNumber s
              (new_label\<lparr>lab_traits := traits, lab_updatePass := pass s, lab_value := nvalue,
                 lab_ph_value := emit_address s, lab_used := isUndefined, lab_page := page\<rparr>))
            \<lparr>lab_isRelocatable := (if isUndefined then REL_OFF else label_delta_type traits s)\<rparr>);
          ret True }) }"

definition Update :: "string \<Rightarrow> aint \<Rightarrow> bool M" where
  "Update name v = do {
     s \<leftarrow> State_Monad.get;
     (case symbols (labs s) name of
        None \<Rightarrow> ret False
      | Some label \<Rightarrow> do {
          let label1 = label\<lparr>lab_value := v, lab_ph_value := emit_address s\<rparr>;
          (if \<not> has_trait (lab_traits label) (LABEL_IS_EQU OR LABEL_IS_DEFL OR LABEL_IS_STRUCT_D) then do {
             page \<leftarrow> (if lab_page label \<noteq> LABEL_PAGE_UNDEFINED then getAddressPageNumber v False
                     else ret (lab_page label));
             put_label name (updatePhAddressPageNumber s (label1\<lparr>lab_page := page\<rparr>)) }
           else put_label name label1);
          ret True }) }"

definition Find :: "string \<Rightarrow> bool \<Rightarrow> label_state \<Rightarrow> SLabelTableEntry option" where
  "Find name onlyDefined l =
     (case symbols l name of None \<Rightarrow> None
      | Some e \<Rightarrow> if onlyDefined \<and> lab_page e = LABEL_PAGE_UNDEFINED then None else Some e)"

definition IsUsed :: "string \<Rightarrow> label_state \<Rightarrow> bool" where
  "IsUsed name l = (case symbols l name of Some e \<Rightarrow> lab_used e | None \<Rightarrow> False)"

definition Label_Remove :: "string \<Rightarrow> label_state \<Rightarrow> bool \<times> label_state" where
  "Label_Remove name l = (symbols l name \<noteq> None, l\<lparr>symbols := (symbols l)(name := None)\<rparr>)"

definition Label_RemoveAll :: "label_state \<Rightarrow> label_state" where
  "Label_RemoveAll l = l\<lparr>symbols := Map.empty\<rparr>"

section \<open>SIZEOF tracking\<close>

datatype BoundaryLevel = BOUNDARY_FLOW | BOUNDARY_ALL | BOUNDARY_MAIN | BOUNDARY_LOCAL

definition TrackForSize :: "string \<Rightarrow> unit M" where
  "TrackForSize name = do {
     l \<leftarrow> gets labs;
     (case symbols l name of
        None \<Rightarrow> ret ()
      | Some label \<Rightarrow>
          if has_trait (lab_traits label) (LABEL_IS_EQU OR LABEL_IS_DEFL OR LABEL_IS_SMC) then
            Warning ''SIZEOF(...) this type of label is invalid, size is zero'' None W_PASS3
          else mod_labs (\<lambda>l. l\<lparr>sizeofStack :=
            (name, sourceBlockLevel l + of_bool (has_trait (lab_traits label) LABEL_IS_LOCAL)) # sizeofStack l\<rparr>)) }"

definition close_size :: "aint \<Rightarrow> string \<times> int \<Rightarrow> (string \<rightharpoonup> SLabelTableEntry) \<Rightarrow> (string \<rightharpoonup> SLabelTableEntry)" where
  "close_size adr item sy =
     (case sy (fst item) of None \<Rightarrow> sy
      | Some label \<Rightarrow> sy(fst item \<mapsto> label\<lparr>lab_size := wrap32 (adr - lab_ph_value label)\<rparr>))"

definition close_sizes :: "aint \<Rightarrow> (string \<times> int) list \<Rightarrow> label_state \<Rightarrow> label_state" where
  "close_sizes adr items l = l\<lparr>symbols := fold (close_size adr) items (symbols l),
     sizeofStack := drop (length items) (sizeofStack l)\<rparr>"

definition SizeBoundary :: "BoundaryLevel \<Rightarrow> unit M" where
  "SizeBoundary boundaryLevel = do {
     l \<leftarrow> gets labs;
     if sizeofStack l = [] then ret ()
     else do {
       whenM (boundaryLevel = BOUNDARY_FLOW)
         (Warning ''SIZEOF-tracking does not work across wrap-around. Stopping count here.'' None W_PASS3);
       adr \<leftarrow> gets emit_address;
       let myLevel = sourceBlockLevel l + of_bool (boundaryLevel = BOUNDARY_LOCAL);
       let popped = takeWhile (\<lambda>(_, srcLevel). myLevel \<le> srcLevel) (sizeofStack l);
       mod_labs (close_sizes adr popped);
       let rest = drop (length popped) (sizeofStack l);
       if rest = [] \<or> (boundaryLevel \<noteq> BOUNDARY_FLOW \<and> boundaryLevel \<noteq> BOUNDARY_ALL) then ret ()
       else do {
         whenM (boundaryLevel = BOUNDARY_ALL)
           (Warning ''There are labels in parent scope being SIZEOF-tracked at this point. Stopping their count here.'' None W_PASS3);
         mod_labs (close_sizes adr rest) } } }"

section \<open>Searching labels\<close>

text \<open>The names that are tried, in order: inside a macro the instances from the inner to the outer macro
  and then the label local to the main label; else the full name, and without the module.\<close>

function macro_candidates :: "string \<Rightarrow> string \<Rightarrow> string list" where
  "macro_candidates v findName =
     findName #
     (let r = dropWhile (\<lambda>c. c \<noteq> CHR ''>'' \<and> c \<noteq> CHR ''.'') findName in
      if r = [] then []
      else if cur r = CHR ''>'' then [take (LABMAX - 1) v @ ''.'' @ take (LABMAX - 1) (drop 1 r)]
      else macro_candidates v (drop 1 r))"
  by pat_completeness auto
termination
proof (relation "measure (\<lambda>(v, f). length f)")
  fix v findName r :: string
  assume r: "r = dropWhile (\<lambda>c. c \<noteq> CHR ''>'' \<and> c \<noteq> CHR ''.'') findName" "r \<noteq> []"
  have "length r \<le> length findName" unfolding r(1) by (rule length_dropWhile_le)
  then have "length (drop 1 r) < length findName" using r(2) by (cases r) auto
  then show "((v, drop 1 r), v, findName) \<in> measure (\<lambda>(v, f). length f)" by (simp del: length_drop)
qed auto

declare macro_candidates.simps [simp del]

definition label_candidates :: "bool \<Rightarrow> bool \<Rightarrow> label_state \<Rightarrow> string \<Rightarrow> string list" where
  "label_candidates global local l fullName =
     (if local \<and> macrolabp l \<noteq> None then macro_candidates (vorlab l) fullName
      else fullName # (if \<not> global \<and> \<not> local \<and> ModuleName l \<noteq> [] then [drop (length (ModuleName l) + 1) fullName] else []))"

fun search_loop :: "bool \<Rightarrow> string list \<Rightarrow> string option \<Rightarrow> string option M" where
  "search_loop setUsed [] undefinedLabelEntry = ret undefinedLabelEntry"
| "search_loop setUsed (findName # names) undefinedLabelEntry = do {
     s \<leftarrow> State_Monad.get;
     (case symbols (labs s) findName of
        None \<Rightarrow> search_loop setUsed names undefinedLabelEntry
      | Some e \<Rightarrow> do {
          whenM (setUsed \<and> pass s < LASTPASS) (put_label findName (e\<lparr>lab_used := True\<rparr>));
          if lab_page e \<noteq> LABEL_PAGE_UNDEFINED then ret (Some findName)
          else search_loop setUsed names (Some findName) }) }"

text \<open>The result: the entry found, the name a missing label is to be inserted under (\<^verbatim>\<open>temp\<close> inside a
  macro), and the text behind the label. \<^verbatim>\<open>getLabel_invalidName\<close> is set for a bad name.\<close>

definition SearchLabel :: "bool \<Rightarrow> string \<Rightarrow> ((string option \<times> string) \<times> string) M" where
  "SearchLabel setUsed p = do {
     mod_labs (\<lambda>l. l\<lparr>getLabel_invalidName := True\<rparr>);
     (_, v) \<leftarrow> ValidateLabel p False True;
     (case v of
        None \<Rightarrow> ret ((None, []), p)
      | Some fullName \<Rightarrow> do {
          mod_labs (\<lambda>l. l\<lparr>getLabel_invalidName := False\<rparr>);
          l \<leftarrow> gets labs;
          let global = (cur p = CHR ''@'');
          let local = (cur p = CHR ''.'');
          let names = label_candidates global local l fullName;
          r \<leftarrow> search_loop setUsed names None;
          ret ((r, if local \<and> macrolabp l \<noteq> None then last names else fullName), dropWhile islabchar p) }) }"

definition GetLabel :: "int \<Rightarrow> SLabelTableEntry option parser" where
  "GetLabel setExtraTraits p = do {
     ((r, findName), p') \<leftarrow> SearchLabel True p;
     l \<leftarrow> gets labs;
     if getLabel_invalidName l then ret (None, p')
     else do {
       (case r of None \<Rightarrow> ret ()
        | Some n \<Rightarrow> mod_labs (\<lambda>l. l\<lparr>symbols := (symbols l)(n := map_option
            (\<lambda>e. e\<lparr>lab_traits := lab_traits e OR setExtraTraits\<rparr>) (symbols l n))\<rparr>));
       l1 \<leftarrow> gets labs;
       (case Option.bind r (symbols l1) of
          Some e \<Rightarrow>
            if lab_page e \<noteq> LABEL_PAGE_UNDEFINED then ret (Some e, p')
            else do {
              modify (\<lambda>s. s\<lparr>IsLabelNotFound := True\<rparr>);
              sub \<leftarrow> gets IsSubstituting;
              whenM (\<not> sub) (Error ''Label not found'' (Some findName) E_IF_FIRST);
              ret (None, p') }
        | None \<Rightarrow> do {
            modify (\<lambda>s. s\<lparr>IsLabelNotFound := True\<rparr>);
            sub \<leftarrow> gets IsSubstituting;
            if sub then ret (None, p')
            else do {
              Insert findName 0 (LABEL_IS_UNDEFINED OR setExtraTraits) LABEL_PAGE_UNDEFINED;
              Error ''Label not found'' (Some findName) E_IF_FIRST;
              ret (None, p') } }) } }"

text \<open>The queries of the expression parser: nothing for a bad name, else a value (a default when the
  label is not defined).\<close>

definition label_query :: "(asm \<Rightarrow> SLabelTableEntry option \<Rightarrow> aint) \<Rightarrow> int \<Rightarrow> aint option parser" where
  "label_query f traits p = do {
     (e, p') \<leftarrow> GetLabel traits p;
     s \<leftarrow> State_Monad.get;
     ret (if getLabel_invalidName (labs s) then None else Some (f s e), p') }"

definition LabelExist :: "aint option parser" where
  "LabelExist p = do {
     ((r, _), p') \<leftarrow> SearchLabel False p;
     l \<leftarrow> gets labs;
     ret (if getLabel_invalidName l then None
          else Some (case Option.bind r (symbols l) of
                       Some e \<Rightarrow> if lab_page e \<noteq> LABEL_PAGE_UNDEFINED then -1 else 0 | None \<Rightarrow> 0), p') }"

definition GetLabelPage :: "aint option parser" where
  "GetLabelPage = label_query (\<lambda>s e. case e of Some x \<Rightarrow> lab_page x | None \<Rightarrow> LABEL_PAGE_UNDEFINED) 0"

definition offset_value :: "reloc_state \<Rightarrow> SLabelTableEntry \<Rightarrow> aint" where
  "offset_value r e =
     (if areLabelsOffset r then
        (case lab_isRelocatable e of
           REL_REGULAR \<Rightarrow> wrap32 (lab_value e + alternative_offset r)
         | REL_HIGH \<Rightarrow> wrap32 (lab_value e + drop_bit 8 (alternative_offset r))
         | REL_OFF \<Rightarrow> lab_value e)
      else lab_value e)"

definition GetLabelValue :: "aint option parser" where
  "GetLabelValue = label_query (\<lambda>s e. case e of Some x \<Rightarrow> offset_value (rel s) x | None \<Rightarrow> 0) 0"

definition GetLabelPhPage :: "aint option parser" where
  "GetLabelPhPage = label_query (\<lambda>s e. case e of Some x \<Rightarrow> lab_ph_page x | None \<Rightarrow> LABEL_PAGE_UNDEFINED) 0"

definition GetLabelPhValue :: "aint option parser" where
  "GetLabelPhValue = label_query (\<lambda>s e. case e of Some x \<Rightarrow> lab_ph_value x | None \<Rightarrow> 0) 0"

definition GetLabelSize :: "aint option parser" where
  "GetLabelSize = label_query (\<lambda>s e. case e of Some x \<Rightarrow> lab_size x | None \<Rightarrow> 0) LABEL_HAS_SIZE"

section \<open>Temporary labels\<close>

definition TL_InitPass :: "label_state \<Rightarrow> label_state" where
  "TL_InitPass l = l\<lparr>tl_labels := tl_nextPassLabels l, tl_nextPassLabels := []\<rparr>"

definition InsertRefresh :: "aint \<Rightarrow> bool M" where
  "InsertRefresh labelNumber = do {
     s \<leftarrow> State_Monad.get;
     let refresh = length (tl_nextPassLabels (labs s));
     mod_labs (\<lambda>l. l\<lparr>tl_nextPassLabels := tl_nextPassLabels l @
       [\<lparr>tl_nummer = labelNumber, tl_value = CurAddress s, tl_isRelocatable = (rel_type (rel s) \<noteq> REL_OFF)\<rparr>]\<rparr>);
     let old = tl_labels (labs s);
     if length old \<le> refresh \<or> tl_nummer (old ! refresh) \<noteq> labelNumber then ret False
     else do {
       whenM (tl_value (old ! refresh) \<noteq> CurAddress s) (Warning ''Temporary label has different address'' None W_PASS3);
       ret True } }"

definition seekForward :: "aint \<Rightarrow> label_state \<Rightarrow> TemporaryLabel option" where
  "seekForward labelNumber l =
     find (\<lambda>t. labelNumber = tl_nummer t) (drop (length (tl_nextPassLabels l)) (tl_labels l))"

definition seekBack :: "aint \<Rightarrow> label_state \<Rightarrow> TemporaryLabel option" where
  "seekBack labelNumber l = find (\<lambda>t. labelNumber = tl_nummer t) (rev (tl_nextPassLabels l))"

text \<open>When the digits overflow the function returns 0, but the pointer has moved behind the digits.\<close>

definition GetTemporaryLabelValue :: "bool \<Rightarrow> aint option parser" where
  "GetTemporaryLabelValue requireUnderscore op =
     (let numberB = skip_blanks op;
          ds = takeWhile isdigit numberB;
          p = dropWhile isdigit numberB;
          hasUnderscore = (cur p = CHR ''_'');
          type = or20 (if hasUnderscore then chr_at p 1 else cur p);
          following = (if hasUnderscore then chr_at p 2 else chr_at p 1) in
      if cur numberB = NUL \<or> \<not> isdigit (cur numberB) then ret (None, op)
      else if requireUnderscore \<and> \<not> hasUnderscore then ret (None, op)
      else if type \<noteq> CHR ''b'' \<and> type \<noteq> CHR ''f'' then ret (None, op)
      else if islabchar following then ret (None, op)
      else (case GetNumericValue_IntBased 10 ds p of (n, err, r) \<Rightarrow>
        if err \<noteq> None then ret (None, r @ p)
        else do {
          let op' = drop (if hasUnderscore then 2 else 1) p;
          s \<leftarrow> State_Monad.get;
          (case (if type = CHR ''b'' then seekBack n (labs s) else seekForward n (labs s)) of
             Some label \<Rightarrow>
               if requireUnderscore then
                 ret (Some (if tl_isRelocatable label \<and> areLabelsOffset (rel s)
                            then wrap32 (tl_value label + alternative_offset (rel s)) else tl_value label), op')
               else do {
                 mod_rel (\<lambda>r. r\<lparr>isResultAffected := tl_isRelocatable label,
                   deltaType := (if tl_isRelocatable label then REL_REGULAR else REL_OFF)\<rparr>);
                 ret (Some (tl_value label), op') }
           | None \<Rightarrow> do {
               whenM (pass s = LASTPASS) (Error ''Temporary label not found'' (Some numberB) E_SUPPRESS);
               ret (Some 0, op') }) }))"

section \<open>The table of functions\<close>

type_synonym 'f function_map = "string \<rightharpoonup> 'f"

definition emplace :: "string \<Rightarrow> 'f \<Rightarrow> 'f function_map \<Rightarrow> bool \<times> 'f function_map" where
  "emplace n f m = (if m n = None then (True, m(n \<mapsto> f)) else (False, m))"

definition CFunctionTable_Insert :: "string \<Rightarrow> 'f \<Rightarrow> 'f function_map \<Rightarrow> bool \<times> 'f function_map" where
  "CFunctionTable_Insert name f m =
     (case emplace name f m of (ok, m1) \<Rightarrow> if ok then emplace (map toupper name) f m1 else (False, m1))"

definition zoek :: "string \<Rightarrow> 'f function_map \<Rightarrow> 'f option" where
  "zoek name m = m name"

section \<open>Labels do not move the line pointer\<close>

lemma calm_devices [calming]: "calm_only (GetSlot n d)" "calm_only (GetPage n d)" "calm_only (GetCurrentSlot d)"
  unfolding GetCurrentSlot_def GetSlot_def GetPage_def by (intro calming)+

lemma calm_ValidateLabel [calming]: "calm_only (ValidateLabel n b c)"
  unfolding ValidateLabel_def by (intro calming; simp)

lemma calm_Insert [calming]: "calm_only (Insert n v t e)"
  unfolding Insert_def put_label_def label_page_for_def getAddressPageNumber_def by (intro calming; simp)

lemma calm_Update [calming]: "calm_only (Update n v)"
  unfolding Update_def put_label_def getAddressPageNumber_def by (intro calming; simp)

lemma calm_SizeBoundary [calming]: "calm_only (SizeBoundary b)" "calm_only (TrackForSize n)"
  unfolding SizeBoundary_def TrackForSize_def by (intro calming; simp)+

lemma calm_search_loop [calming]: "calm_only (search_loop u ns e)"
proof (induction ns arbitrary: e)
  case (Cons n ns)
  show ?case unfolding search_loop.simps put_label_def
    by (intro calming Cons.IH; simp)
qed (simp add: calming)

lemma calm_SearchLabel [calming]: "calm_only (SearchLabel u p)"
  unfolding SearchLabel_def by (intro calming; simp)

lemma calm_GetLabel [calming]: "calm_only (GetLabel t p)"
  unfolding GetLabel_def by (intro calming; simp)

lemma calm_label_query [calming]: "calm_only (label_query f t p)" "calm_only (LabelExist p)"
  unfolding label_query_def LabelExist_def by (intro calming; simp)+

lemma calm_label_queries [calming]:
  "calm_only (GetLabelPage p)" "calm_only (GetLabelValue p)" "calm_only (GetLabelPhPage p)"
  "calm_only (GetLabelPhValue p)" "calm_only (GetLabelSize p)"
  unfolding GetLabelPage_def GetLabelValue_def GetLabelPhPage_def GetLabelPhValue_def GetLabelSize_def
  by (rule calming)+

lemma calm_GetTemporaryLabelValue [calming]: "calm_only (GetTemporaryLabelValue r p)"
  unfolding GetTemporaryLabelValue_def by (intro calming; simp)

lemma calm_InsertRefresh [calming]: "calm_only (InsertRefresh n)"
  unfolding InsertRefresh_def by (intro calming; simp)

text \<open>The pointer a label function returns.\<close>

lemma SearchLabel_sfx: "inv (\<lambda>_. True) (SearchLabel u p) (\<lambda>(r, p'). suffix p' p)"
  unfolding SearchLabel_def
  by (intro inv_bind [where V = "\<lambda>_. True"] inv_case_prod inv_case_option inv_let inv_ret
      inv_modify inv_gets) (auto simp: inv_def suffix_dropWhile)

lemma GetLabel_sfx: "inv (\<lambda>_. True) (GetLabel t p) (\<lambda>(r, p'). suffix p' p)"
  unfolding GetLabel_def
  by (rule inv_bind [OF SearchLabel_sfx], clarify)
    (intro inv_bind [where V = "\<lambda>_. True"] inv_if inv_case_option inv_ret; simp add: inv_def)

lemma label_query_sfx: "inv (\<lambda>_. True) (label_query f t p) (\<lambda>(r, p'). suffix p' p)"
  unfolding label_query_def
  by (rule inv_bind [OF GetLabel_sfx], clarify)
    (intro inv_bind [where V = "\<lambda>_. True"] inv_ret; simp add: inv_def)

lemma LabelExist_sfx: "inv (\<lambda>_. True) (LabelExist p) (\<lambda>(r, p'). suffix p' p)"
  unfolding LabelExist_def
  by (rule inv_bind [OF SearchLabel_sfx], clarify)
    (intro inv_bind [where V = "\<lambda>_. True"] inv_ret; simp add: inv_def)

lemma int_based_rest: "int_based b v e p after = (w, e', r) \<Longrightarrow> suffix r p"
proof (induction p arbitrary: v e)
  case (Cons c p)
  show ?case
  proof (cases "digit_step b c (p @ after)")
    case (DS_err x)
    then show ?thesis using Cons.prems by (simp add: suffix_ConsI)
  next
    case DS_skip
    then show ?thesis using Cons by (simp add: suffix_ConsI)
  next
    case (DS_digit d)
    then show ?thesis using Cons.prems by (auto simp: Let_def intro: suffix_ConsI Cons.IH)
  qed
qed simp

lemma GetTemporaryLabelValue_sfx: "inv (\<lambda>_. True) (GetTemporaryLabelValue b op) (\<lambda>(r, p'). suffix p' op)"
proof -
  define q where "q = skip_blanks op"
  have q: "suffix q op" by (simp add: q_def)
  have p: "suffix (dropWhile isdigit q) op" using suffix_trans' [OF suffix_dropWhile q] .
  have d: "suffix (drop n (dropWhile isdigit q)) op" for n using suffix_trans' [OF suffix_drop p] .
  have r: "suffix (r @ dropWhile isdigit q) op"
    if "GetNumericValue_IntBased 10 (takeWhile isdigit q) (dropWhile isdigit q) = (v, e, r)" for v e r
  proof -
    have "suffix r (takeWhile isdigit q)"
      using that int_based_rest by (auto simp: GetNumericValue_IntBased_def split: if_splits)
    then have "suffix (r @ dropWhile isdigit q) q"
      by (metis takeWhile_dropWhile_id append_assoc suffix_def)
    then show ?thesis using suffix_trans' [OF _ q] by blast
  qed
  show ?thesis
    unfolding GetTemporaryLabelValue_def Let_def q_def [symmetric]
    by (intro inv_bind [where V = "\<lambda>_. True"] inv_if inv_case_prod inv_case_option inv_ret; (simp add: inv_def d r)?)
qed

lemma shrinking_labels:
  "shrinking GetLabelPage" "shrinking GetLabelValue" "shrinking GetLabelPhPage" "shrinking GetLabelPhValue"
  "shrinking GetLabelSize" "shrinking LabelExist" "shrinking (GetTemporaryLabelValue b)"
  unfolding GetLabelPage_def GetLabelValue_def GetLabelPhPage_def GetLabelPhValue_def GetLabelSize_def
  by (rule shrinking_calm, rule calming, rule label_query_sfx LabelExist_sfx GetTemporaryLabelValue_sfx)+

end
