(* ===== verification/Sj_Reloc.thy ===== *)
theory Sj_Reloc
  imports Sj_Labels
begin

text \<open>
  relocate.cpp: the relocation mechanism. While a relocation block is open, every expression is
  evaluated twice, the second time with relocatable labels moved by \<^verbatim>\<open>alternative_offset\<close>; when the two
  values differ by exactly the offset (or its high byte), the address of the emitted value is added
  to the relocation table. \<^verbatim>\<open>dirRELOCATE_TABLE\<close> is in theory \<open>Sj_Emit\<close>.
\<close>

abbreviation (input) ALTERNATIVE_OFFSET_WORD :: int where "ALTERNATIVE_OFFSET_WORD \<equiv> 0x0272"
abbreviation (input) ALTERNATIVE_OFFSET_HIGH :: int where "ALTERNATIVE_OFFSET_HIGH \<equiv> 0x0300"

definition addOffsetToRelocate :: "aint \<Rightarrow> unit M" where
  "addOffsetToRelocate offset = do {
     r \<leftarrow> gets rel;
     let newIndex = length (offsets r);
     whenM (warnAboutContentChange r \<and>
            (length (offsetsPrevious r) \<le> newIndex \<or> offsetsPrevious r ! newIndex \<noteq> offset)) (do {
       Warning ''Relocation table seems internally inconsistent'' (Some ''table content differs in last pass'') W_PASS3;
       mod_rel (\<lambda>r. r\<lparr>warnAboutContentChange := False\<rparr>) });
     mod_rel (\<lambda>r. r\<lparr>offsets := offsets r @ [offset AND 65535]\<rparr>) }"

definition resolveRelocationAffected :: "aint \<Rightarrow> reloc_type \<Rightarrow> unit M" where
  "resolveRelocationAffected opcodeRelOffset minType = do {
     s \<leftarrow> State_Monad.get;
     let r = rel s;
     if rel_type r < minType \<or> \<not> isResultAffected r then ret ()
     else do {
       mod_rel (\<lambda>r. r\<lparr>isResultAffected := False\<rparr>);
       if minType \<le> deltaType r then
         (if opcodeRelOffset = INT_MAX then ret ()
          else addOffsetToRelocate (wrap32
            ((if PseudoORG s = DISP_INSIDE_RELOCATE then adrdisp s else CurAddress s) + opcodeRelOffset
             + rel_num (rel_type r) - rel_num (deltaType r))))
       else WarningById (if deltaType r \<noteq> REL_OFF then W_REL_UNSTABLE else W_REL_DIVERTS) None W_PASS3 } }"

definition checkAndWarn :: "bool \<Rightarrow> bool M" where
  "checkAndWarn doError = do {
     a \<leftarrow> gets (\<lambda>s. isResultAffected (rel s));
     if \<not> a then ret False
     else do {
       mod_rel (\<lambda>r. r\<lparr>isResultAffected := False\<rparr>);
       (if doError then Error ''Relocation makes one of the expressions unstable, use non-relocatable values only'' None E_PASS3
        else WarningById W_REL_UNSTABLE None W_PASS3);
       ret True } }"

definition refreshMaxTableCount :: "unit M" where
  "refreshMaxTableCount = do {
     mod_rel (\<lambda>r. r\<lparr>maxTableCount := max (maxTableCount r) (length (offsets r))\<rparr>);
     r \<leftarrow> gets rel;
     whenM (rel_type r \<noteq> REL_OFF \<or> maxTableCount r \<noteq> 0) (do {
       mod_rel (\<lambda>r. r\<lparr>isResultAffected := False, deltaType := REL_OFF\<rparr>);
       Insert ''relocate_count'' (int (maxTableCount r)) LABEL_IS_DEFL LABEL_PAGE_UNDEFINED;
       Insert ''relocate_size'' (int (maxTableCount r) * 2) LABEL_IS_DEFL LABEL_PAGE_UNDEFINED;
       ret () }) }"

text \<open>The errors that point at the start of the open block push its position for the time of the report;
  the position text is not part of the modelled diagnostics.\<close>

definition dirRELOCATE_START :: "unit M" where
  "dirRELOCATE_START = do {
     eol \<leftarrow> lexM SkipBlanks;
     isHigh \<leftarrow> (if eol then ret False else lexM (cmphstr ''high'' False));
     s \<leftarrow> State_Monad.get;
     if rel_type (rel s) \<noteq> REL_OFF then Error ''Relocation block already started here'' None E_PASS3
     else do {
       let new_offset = (if isHigh then ALTERNATIVE_OFFSET_HIGH else ALTERNATIVE_OFFSET_WORD);
       if alternative_offset (rel s) \<noteq> 0 \<and> alternative_offset (rel s) \<noteq> new_offset then
         Error ''HIGH mode can't be mixed with regular mode'' None E_PASS3
       else do {
         mod_rel (\<lambda>r. r\<lparr>alternative_offset := new_offset, rel_type := (if isHigh then REL_HIGH else REL_REGULAR),
           startPos := last (sourcePosStack s)\<rparr>);
         refreshMaxTableCount } } }"

definition dirRELOCATE_END :: "unit M" where
  "dirRELOCATE_END = do {
     s \<leftarrow> State_Monad.get;
     if rel_type (rel s) = REL_OFF then Error ''Relocation block start for this end is missing'' None E_PASS3
     else if PseudoORG s = DISP_INSIDE_RELOCATE then Error ''End the current DISP block first'' None E_PASS3
     else do {
       mod_rel (\<lambda>r. r\<lparr>rel_type := REL_OFF\<rparr>);
       refreshMaxTableCount } }"

definition Relocation_InitPass :: "unit M" where
  "Relocation_InitPass = do {
     t \<leftarrow> gets (\<lambda>s. rel_type (rel s));
     whenM (t \<noteq> REL_OFF) (Error ''Missing end of relocation block started here'' None E_PASS3);
     mod_rel (\<lambda>r. r\<lparr>offsetsPrevious := offsets r, maxTableCount := length (offsets r), offsets := [],
       rel_type := REL_OFF\<rparr>) }"

end
