(* ===== verification/Sj_Expr.thy ===== *)
theory Sj_Expr
  imports Sj_Reloc
begin

text \<open>
  parser.cpp: the expression parser, a recursive descent over eleven precedence levels of binary
  operators. Every level has the same shape (\<open>binary_level\<close>): parse an operand with the next level,
  then, as long as one of the level's operators follows, another operand. A function that returns 0 in
  the source returns \<open>None\<close> here.

  The nesting through parentheses and braces, the chain of unary operators and the loop of a level
  take fuel; \<open>Suc (length p)\<close> is used for each, since each nesting level, unary operator and loop round
  consumes text. Also here: \<^verbatim>\<open>MemGetByte\<close> of sjio.cpp, which the operand \<^verbatim>\<open>{address}\<close> calls, and
  \<^verbatim>\<open>GetBytes\<close> of reader.cpp.
\<close>

section \<open>Reading device memory\<close>

definition slot_covers :: "int \<Rightarrow> CDeviceSlot \<Rightarrow> bool" where
  "slot_covers address S \<longleftrightarrow> slot_Address S \<le> address \<and> address < slot_Address S + slot_Size S"

definition MemGetByte :: "int \<Rightarrow> int M" where
  "MemGetByte address = do {
     s \<leftarrow> State_Monad.get;
     if DeviceID (dv s) = None \<or> pass s \<noteq> LASTPASS then ret 0
     else (let dev = the_dev s in
       case find (slot_covers address) (dev_Slots dev) of
         Some S \<Rightarrow> ret (dev_Memory dev (page_RAM (dev_Pages dev ! slot_Page S) + (address - slot_Address S)))
       | None \<Rightarrow> do {
           ErrorInt ''MemGetByte: Error reading address'' address E_PASS3;
           ret 0 }) }"

definition MemGetWord :: "int \<Rightarrow> int M" where
  "MemGetWord address = do {
     l \<leftarrow> MemGetByte address;
     h \<leftarrow> MemGetByte (address + 1);
     ret (l + push_bit 8 h) }"

section \<open>Operands\<close>

definition set_areLabelsOffset :: "bool \<Rightarrow> unit M" where
  "set_areLabelsOffset b = mod_rel (\<lambda>r. r\<lparr>areLabelsOffset := b\<rparr>)"

text \<open>The operand \<^verbatim>\<open>{address}\<close> or \<^verbatim>\<open>{b address}\<close>; \<open>entry\<close> is \<^verbatim>\<open>ParseExpressionEntry\<close>.\<close>

definition ParsePrimMem :: "aint option parser \<Rightarrow> aint option parser" where
  "ParsePrimMem entry readMemP =
     (case cmphstr ''b'' False (drop 1 readMemP) of (byteOnly, p1) \<Rightarrow> do {
        old \<leftarrow> gets (\<lambda>s. areLabelsOffset (rel s));
        set_areLabelsOffset False;
        (addr, p2) \<leftarrow> entry p1;
        set_areLabelsOffset old;
        (case addr of
           None \<Rightarrow> ret (None, p2)
         | Some nval \<Rightarrow>
             (case need CHR ''}'' p2 of (ok, p3) \<Rightarrow>
                if \<not> ok then do {
                  Error (CHR 0x27 # ''}' expected'') (Some readMemP) E_SUPPRESS;
                  ret (None, p3) }
                else if nval < 0 \<or> 0xFFFE + of_bool byteOnly < nval then do {
                  Error ''Address in {..} must fetch bytes from 0x0000..0xFFFF range'' (Some readMemP) E_PASS3;
                  ret (Some 0, p3) }
                else do {
                  l \<leftarrow> MemGetByte nval;
                  if byteOnly then ret (Some l, p3)
                  else do { h \<leftarrow> MemGetByte (nval + 1); ret (Some (l + push_bit 8 h), p3) } })) })"

text \<open>Numbers, labels, the address and page operators and string literals.\<close>

definition ParsePrimRest :: "aint option parser" where
  "ParsePrimRest p = do {
     s \<leftarrow> State_Monad.get;
     let dollars = (\<lambda>n. take n p = replicate n CHR ''$'');
     if isdigit (cur p) \<or> (cur p = CHR ''#'' \<and> isalnum (chr_at p 1)) \<or>
        (cur p = CHR ''$'' \<and> isalnum (chr_at p 1)) \<or> cur p = CHR ''%''
     then GetConstant p
     else if isLabelStart p True then GetLabelValue p
     else if cur p = CHR ''?'' \<and> isLabelStart (drop 1 p) True then do {
       Warning ''?<symbol> operator is deprecated and will be removed in v2.x'' (Some p) W_PASS3;
       GetLabelValue (drop 1 p) }
     else if dollars 4 \<and> isLabelStart (drop 4 p) True then GetLabelPhPage (drop 4 p)
     else if dollars 3 \<and> isLabelStart (drop 3 p) True then GetLabelPhValue (drop 3 p)
     else if PseudoORG s \<noteq> DISP_NONE \<and> dollars 3 then
       (if chr_at p 3 = CHR ''$'' then
          ret (Some (if DeviceID (dv s) \<noteq> None then int (PageCur (dv s)) else LABEL_PAGE_UNDEFINED), drop 4 p)
        else ret (Some (adrdisp s), drop 3 p))
     else if DeviceID (dv s) \<noteq> None \<and> dollars 2 then
       (if isLabelStart (drop 2 p) True then GetLabelPage (drop 2 p)
        else if PseudoORG s \<noteq> DISP_NONE \<and> dispPageNum s \<noteq> LABEL_PAGE_UNDEFINED then ret (Some (dispPageNum s), drop 2 p)
        else ret (Some (int (PageCur (dv s))), drop 2 p))
     else if cur p = CHR ''$'' then
       ret (Some (if rel_type (rel s) \<noteq> REL_OFF \<and> areLabelsOffset (rel s) \<and> PseudoORG s \<noteq> DISP_INSIDE_RELOCATE
                  then wrap32 (CurAddress s + alternative_offset (rel s)) else CurAddress s), drop 1 p)
     else do {
       (r, p') \<leftarrow> GetCharConst p;
       whenM (r = None \<and> synerr s) (Error ''Syntax error'' (Some p') E_IF_FIRST);
       ret (r, p') } }"

definition ParseExpPrim :: "aint option parser \<Rightarrow> aint option parser" where
  "ParseExpPrim entry p0 =
     (let p = skip_blanks p0 in
      if cur p = NUL then ret (None, p)
      else if cur p = CHR ''('' then do {
        (res, p1) \<leftarrow> entry (drop 1 p);
        (case need CHR '')'' p1 of (ok, p2) \<Rightarrow>
           if ok then ret (res, p2)
           else do {
             Error (CHR 0x27 # '')' expected'') None E_PASS3;
             ret (None, p2) }) }
      else do {
        d \<leftarrow> gets (\<lambda>s. DeviceID (dv s));
        if d \<noteq> None \<and> cur p = CHR ''{'' then ParsePrimMem entry p
        else do {
          (t, p1) \<leftarrow> (if isdigit (cur p) then GetTemporaryLabelValue True p else ret (None, p));
          if t \<noteq> None then ret (t, p1) else ParsePrimRest p1 } })"

section \<open>Unary operators\<close>

text \<open>The keyword operators come first. Each returns \<open>None\<close> when the keyword is not there or has to be
  taken as a label (the pointer then is where it was), \<open>Some\<close> the result of the whole function else.\<close>

definition try_norel :: "aint option parser \<Rightarrow> string \<Rightarrow> (aint option \<times> string) option M" where
  "try_norel entry p =
     (case cmphstr ''norel'' True p of
        (False, _) \<Rightarrow> ret None
      | (True, p1) \<Rightarrow> do {
          old \<leftarrow> gets (\<lambda>s. areLabelsOffset (rel s));
          set_areLabelsOffset False;
          (r, p2) \<leftarrow> ParseExpPrim entry p1;
          set_areLabelsOffset old;
          ret (if r \<noteq> None then Some (r, p2) else None) })"

definition try_exist :: "string \<Rightarrow> (aint option \<times> string) option M" where
  "try_exist p =
     (case cmphstr ''exist'' True p of
        (False, _) \<Rightarrow> ret None
      | (True, p1) \<Rightarrow>
          (case need CHR ''('' p1 of (par, p2) \<Rightarrow>
             if par \<or> isLabelStart p2 True then do {
               (r, p3) \<leftarrow> LabelExist p2;
               (case need CHR '')'' p3 of (closed, p4) \<Rightarrow>
                  if r \<noteq> None \<and> par then ret (if closed then Some (r, p4) else None)
                  else ret (if r \<noteq> None then Some (r, p3) else None)) }
             else ret None))"

definition try_sizeof :: "string \<Rightarrow> (aint option \<times> string) option M" where
  "try_sizeof p =
     (case cmphstr ''sizeof'' True p of
        (False, _) \<Rightarrow> ret None
      | (True, p1) \<Rightarrow>
          (case need CHR ''('' p1 of (par, p2) \<Rightarrow>
             if par \<or> isLabelStart p2 True then do {
               (r, p3) \<leftarrow> GetLabelSize p2;
               (case need CHR '')'' p3 of (closed, p4) \<Rightarrow>
                  if par then ret (if r \<noteq> None \<and> closed then Some (r, p4) else None)
                  else ret (if r \<noteq> None then Some (r, p3) else None)) }
             else ret None))"

definition try_pair :: "aint option parser \<Rightarrow> string \<Rightarrow> (aint option \<times> string) option M" where
  "try_pair entry p =
     (case cmphstr ''pair'' True p of
        (False, _) \<Rightarrow> ret None
      | (True, p1) \<Rightarrow>
          (case need CHR ''('' p1 of (par, p2) \<Rightarrow>
             if \<not> par then ret (Some (None, p))
             else do {
               (hi, p3) \<leftarrow> entry p2;
               (case hi of None \<Rightarrow> ret (Some (None, p))
                | Some h \<Rightarrow>
                  (case need CHR '','' p3 of (com, p4) \<Rightarrow>
                     if \<not> com then ret (Some (None, p))
                     else do {
                       (lo, p5) \<leftarrow> entry p4;
                       (case lo of None \<Rightarrow> ret (Some (None, p))
                        | Some l \<Rightarrow>
                          (case need CHR '')'' p5 of (closed, p6) \<Rightarrow>
                             if \<not> closed then ret (Some (None, p))
                             else do {
                               check8 h;
                               check8 l;
                               ret (Some (Some (push_bit 8 (h AND 0xFF) OR (l AND 0xFF)), p6)) })) })) }))"

text \<open>The operators proper, with the codes the source switches over.\<close>

definition first_op :: "int lexer \<Rightarrow> int lexer \<Rightarrow> int lexer" where
  "first_op f g p = (case f p of (oper, p1) \<Rightarrow> if oper \<noteq> 0 then (oper, p1) else g p1)"

definition unary_ops :: "int lexer" where
  "unary_ops = first_op (need_str ''! ~ + - '')
     (first_op (needa [(''not'', ord CHR ''!''), (''low'', ord CHR ''l''), (''high'', ord CHR ''h'')] True)
               (needa [(''abs'', ord CHR ''a''), (''u16'', ord CHR ''u'')] True))"

definition unary_act :: "int \<Rightarrow> aint \<Rightarrow> aint M" where
  "unary_act oper right =
     (if oper = ord CHR ''!'' then ret (if right = 0 then -1 else 0)
      else if oper = ord CHR ''~'' then ret (NOT right)
      else if oper = ord CHR ''+'' then ret right
      else if oper = ord CHR ''-'' then ret (wrap32 (NOT right + 1))
      else if oper = ord CHR ''l'' then ret (right AND 255)
      else if oper = ord CHR ''h'' then ret (drop_bit 8 right AND 255)
      else if oper = ord CHR ''a'' then ret (wrap32 \<bar>right\<bar>)
      else if oper = ord CHR ''u'' then ret (right AND 0xFFFF)
      else do { Error ''internal error'' None E_FATAL; ret 0 })"

definition or_try :: "'a option M \<Rightarrow> 'a option M \<Rightarrow> 'a option M" where
  "or_try m n = do { r \<leftarrow> m; (case r of None \<Rightarrow> n | Some x \<Rightarrow> ret (Some x)) }"

fun ParseExpUnair_n :: "nat \<Rightarrow> aint option parser \<Rightarrow> aint option parser" where
  "ParseExpUnair_n 0 entry p = do { out_of_fuel; ret (None, p) }"
| "ParseExpUnair_n (Suc n) entry p0 =
     (let p = skip_blanks p0 in do {
        r \<leftarrow> or_try (try_norel entry p) (or_try (try_exist p) (or_try (try_sizeof p) (try_pair entry p)));
        (case r of
           Some x \<Rightarrow> ret x
         | None \<Rightarrow>
             (case unary_ops p of (oper, p1) \<Rightarrow>
                if oper \<noteq> 0 then do {
                  (right, p2) \<leftarrow> ParseExpUnair_n n entry p1;
                  (case right of
                     None \<Rightarrow> ret (None, p2)
                   | Some v \<Rightarrow> do { nval \<leftarrow> unary_act oper v; ret (Some nval, p2) }) }
                else ParseExpPrim entry p1)) })"

definition ParseExpUnair :: "aint option parser \<Rightarrow> aint option parser" where
  "ParseExpUnair entry p = ParseExpUnair_n (Suc (length p)) entry p"

section \<open>Binary operators\<close>

fun bin_loop :: "nat \<Rightarrow> int lexer \<Rightarrow> (int \<Rightarrow> aint \<Rightarrow> aint \<Rightarrow> aint M) \<Rightarrow> aint option parser \<Rightarrow> aint \<Rightarrow> aint option parser" where
  "bin_loop 0 ops act sub left p = do { out_of_fuel; ret (None, p) }"
| "bin_loop (Suc n) ops act sub left p =
     (case ops p of (oper, p1) \<Rightarrow>
        if oper = 0 then ret (Some left, p1)
        else do {
          (right, p2) \<leftarrow> sub p1;
          (case right of
             None \<Rightarrow> ret (None, p2)
           | Some r \<Rightarrow> do { v \<leftarrow> act oper left r; bin_loop n ops act sub v p2 }) })"

definition binary_level :: "int lexer \<Rightarrow> (int \<Rightarrow> aint \<Rightarrow> aint \<Rightarrow> aint M) \<Rightarrow> aint option parser \<Rightarrow> aint option parser" where
  "binary_level ops act sub p = do {
     (l, p1) \<leftarrow> sub p;
     (case l of
        None \<Rightarrow> ret (None, p1)
      | Some left \<Rightarrow> bin_loop (Suc (length p1)) ops act sub left p1) }"

text \<open>C++ integer division truncates towards zero; the one overflowing division is up to the host.\<close>

definition c_quot :: "aint \<Rightarrow> aint \<Rightarrow> aint" where
  "c_quot a b = sgn a * sgn b * (\<bar>a\<bar> div \<bar>b\<bar>)"

definition c_rem :: "aint \<Rightarrow> aint \<Rightarrow> aint" where
  "c_rem a b = a - c_quot a b * b"

definition div_overflows :: "aint \<Rightarrow> aint \<Rightarrow> bool" where
  "div_overflows a b \<longleftrightarrow> a = -2147483648 \<and> b = -1"

definition mul_ops :: "int lexer" where
  "mul_ops = first_op (need_str ''* / % '') (needa [(''mod'', ord CHR ''%'')] True)"

definition mul_act :: "int \<Rightarrow> aint \<Rightarrow> aint \<Rightarrow> aint M" where
  "mul_act oper left right = do {
     o1 \<leftarrow> gets opts;
     if oper = ord CHR ''*'' then ret (wrap32 (left * right))
     else if oper = ord CHR ''/'' then
       (if right = 0 then do { Error ''Division by zero'' None E_PASS3; ret 0 }
        else ret (if div_overflows left right then host_div o1 left else c_quot left right))
     else if oper = ord CHR ''%'' then
       (if right = 0 then do { Error ''Division by zero'' None E_PASS3; ret 0 }
        else ret (if div_overflows left right then host_mod o1 left else c_rem left right))
     else do { Error ''internal error'' None E_FATAL; ret left } }"

definition add_act :: "int \<Rightarrow> aint \<Rightarrow> aint \<Rightarrow> aint M" where
  "add_act oper left right =
     ret (wrap32 (left + (if oper = ord CHR ''-'' then wrap32 (- right) else right)))"

definition shift_ops :: "int lexer" where
  "shift_ops p =
     (let g = ord CHR ''>'' in
      case first_op (need_str ''<<>>'') (needa [(''shl'', ord CHR ''<'' + ord CHR ''<''), (''shr'', g + g)] True) p
      of (oper, p1) \<Rightarrow> if oper = g + g \<and> cur p1 = CHR ''>'' then (oper + g, drop 1 p1) else (oper, p1))"

definition shift_act :: "int \<Rightarrow> aint \<Rightarrow> aint \<Rightarrow> aint M" where
  "shift_act oper left right = do {
     o1 \<leftarrow> gets opts;
     let defined = (0 \<le> right \<and> right \<le> 31);
     let g = ord CHR ''>'';
     if oper = ord CHR ''<'' + ord CHR ''<'' then
       ret (if defined then wrap32 (push_bit (nat right) left) else host_shl o1 left right)
     else if oper = g + g then ret (if defined then drop_bit (nat right) left else host_sar o1 left right)
     else if oper = g + g + g then
       ret (if defined then wrap32 (drop_bit (nat right) (u32 left)) else host_shr o1 left right)
     else do { Error ''internal error'' None E_FATAL; ret left } }"

definition minmax_act :: "int \<Rightarrow> aint \<Rightarrow> aint \<Rightarrow> aint M" where
  "minmax_act oper left right =
     (if oper = ord CHR ''<'' + ord CHR ''?'' then ret (if left < right then left else right)
      else if oper = ord CHR ''>'' + ord CHR ''?'' then ret (if left > right then left else right)
      else do { Error ''internal error'' None E_FATAL; ret left })"

definition c_bool :: "bool \<Rightarrow> aint" where
  "c_bool b = (if b then -1 else 0)"

definition cmp_act :: "int \<Rightarrow> aint \<Rightarrow> aint \<Rightarrow> aint M" where
  "cmp_act oper left right =
     (if oper = ord CHR ''<'' then ret (c_bool (left < right))
      else if oper = ord CHR ''>'' then ret (c_bool (left > right))
      else if oper = ord CHR ''<'' + ord CHR ''='' then ret (c_bool (left \<le> right))
      else if oper = ord CHR ''>'' + ord CHR ''='' then ret (c_bool (left \<ge> right))
      else do { Error ''internal error'' None E_FATAL; ret left })"

definition equ_act :: "int \<Rightarrow> aint \<Rightarrow> aint \<Rightarrow> aint M" where
  "equ_act oper left right =
     ret (if oper = ord CHR ''!'' + ord CHR ''='' then c_bool (left \<noteq> right) else c_bool (left = right))"

definition keyword_op :: "string \<Rightarrow> int lexer" where
  "keyword_op k p = (case cmphstr k True p of (b, p1) \<Rightarrow> (of_bool b, p1))"

definition char_op :: "char \<Rightarrow> int lexer" where
  "char_op c p = (case need c p of (b, p1) \<Rightarrow> (of_bool b, p1))"

definition ParseExpMul :: "aint option parser \<Rightarrow> aint option parser" where
  "ParseExpMul entry = binary_level mul_ops mul_act (ParseExpUnair entry)"

definition ParseExpAdd :: "aint option parser \<Rightarrow> aint option parser" where
  "ParseExpAdd entry = binary_level (need_str ''+ - '') add_act (ParseExpMul entry)"

definition ParseExpShift :: "aint option parser \<Rightarrow> aint option parser" where
  "ParseExpShift entry = binary_level shift_ops shift_act (ParseExpAdd entry)"

definition ParseExpMinMax :: "aint option parser \<Rightarrow> aint option parser" where
  "ParseExpMinMax entry = binary_level (need_str ''<?>?'') minmax_act (ParseExpShift entry)"

definition ParseExpCmp :: "aint option parser \<Rightarrow> aint option parser" where
  "ParseExpCmp entry = binary_level (need_str ''<=>=< > '') cmp_act (ParseExpMinMax entry)"

definition ParseExpEqu :: "aint option parser \<Rightarrow> aint option parser" where
  "ParseExpEqu entry = binary_level (need_str ''=_==!='') equ_act (ParseExpCmp entry)"

definition ParseExpBitAnd :: "aint option parser \<Rightarrow> aint option parser" where
  "ParseExpBitAnd entry = binary_level (first_op (need_str ''&_'') (keyword_op ''and''))
     (\<lambda>_ left right. ret (left AND right)) (ParseExpEqu entry)"

definition ParseExpBitXor :: "aint option parser \<Rightarrow> aint option parser" where
  "ParseExpBitXor entry = binary_level (first_op (char_op CHR ''^'') (keyword_op ''xor''))
     (\<lambda>_ left right. ret (left XOR right)) (ParseExpBitAnd entry)"

definition ParseExpBitOr :: "aint option parser \<Rightarrow> aint option parser" where
  "ParseExpBitOr entry = binary_level (first_op (need_str ''|_'') (keyword_op ''or''))
     (\<lambda>_ left right. ret (left OR right)) (ParseExpBitXor entry)"

definition ParseExpLogAnd :: "aint option parser \<Rightarrow> aint option parser" where
  "ParseExpLogAnd entry = binary_level (need_str ''&&'')
     (\<lambda>_ left right. ret (c_bool (left \<noteq> 0 \<and> right \<noteq> 0))) (ParseExpBitOr entry)"

definition ParseExpLogOr :: "aint option parser \<Rightarrow> aint option parser" where
  "ParseExpLogOr entry = binary_level (need_str ''||'')
     (\<lambda>_ left right. ret (c_bool (left \<noteq> 0 \<or> right \<noteq> 0))) (ParseExpLogAnd entry)"

section \<open>Expressions\<close>

fun ParseExpressionEntry_n :: "nat \<Rightarrow> aint option parser" where
  "ParseExpressionEntry_n 0 p = do { out_of_fuel; ret (None, p) }"
| "ParseExpressionEntry_n (Suc n) p = ParseExpLogOr (ParseExpressionEntry_n n) p"

definition ParseExpressionEntry :: "aint option parser" where
  "ParseExpressionEntry p = ParseExpressionEntry_n (Suc (length p)) p"

text \<open>Inside a relocation block the expression is first evaluated with moved labels, on a copy of the
  pointer and without syntax errors.\<close>

definition set_synerr :: "bool \<Rightarrow> unit M" where
  "set_synerr b = modify (\<lambda>s. s\<lparr>synerr := b\<rparr>)"

definition ParseExpression :: "aint option parser" where
  "ParseExpression p = do {
     t \<leftarrow> gets (\<lambda>s. rel_type (rel s));
     alt \<leftarrow> (if t \<noteq> REL_OFF then do {
       osynerr \<leftarrow> gets synerr;
       set_synerr False;
       set_areLabelsOffset True;
       (r, _) \<leftarrow> ParseExpressionEntry p;
       set_areLabelsOffset False;
       set_synerr osynerr;
       ret r } else ret None);
     (res, p') \<leftarrow> ParseExpressionEntry p;
     (case (alt, res) of
        (Some relocationVal, Some nval) \<Rightarrow>
          mod_rel (\<lambda>r. r\<lparr>isResultAffected := isResultAffected r \<or> relocationVal \<noteq> nval,
            deltaType :=
              (if alternative_offset r = wrap32 (relocationVal - nval) then REL_REGULAR
               else if rel_type r = REL_HIGH \<and> drop_bit 8 (alternative_offset r) = wrap32 (relocationVal - nval)
               then REL_HIGH else REL_OFF)\<rparr>)
      | _ \<Rightarrow> ret ());
     ret (res, p') }"

definition ParseExpressionNoSyntaxError :: "aint option parser" where
  "ParseExpressionNoSyntaxError p = do {
     osynerr \<leftarrow> gets synerr;
     set_synerr False;
     r \<leftarrow> ParseExpression p;
     set_synerr osynerr;
     ret r }"

definition ParseExpressionInSubstitution :: "aint option parser" where
  "ParseExpressionInSubstitution p = do {
     modify (\<lambda>s. s\<lparr>IsSubstituting := True\<rparr>);
     r \<leftarrow> ParseExpressionNoSyntaxError p;
     modify (\<lambda>s. s\<lparr>IsSubstituting := False\<rparr>);
     ret r }"

definition OpenBracketM :: "EBracketType parser" where
  "OpenBracketM p = do {
     s \<leftarrow> State_Monad.get;
     (case OpenBracket (MemoryBrackets (syx (opts s))) (expectedAddressClosingBracket s) p of (bt, e, p') \<Rightarrow> do {
        modify (\<lambda>s. s\<lparr>expectedAddressClosingBracket := e\<rparr>);
        ret (bt, p') }) }"

definition CloseBracketM :: "bool parser" where
  "CloseBracketM p = do {
     s \<leftarrow> State_Monad.get;
     (case CloseBracket (expectedAddressClosingBracket s) p of (ok, e, p') \<Rightarrow> do {
        modify (\<lambda>s. s\<lparr>expectedAddressClosingBracket := e\<rparr>);
        ret (ok, p') }) }"

text \<open>0: syntax error, 1: a value, 2: the whole expression is in memory brackets. The value is 0 when the
  expression has a syntax error.\<close>

definition ParseExpressionMemAccess :: "(int \<times> aint) parser" where
  "ParseExpressionMemAccess p0 = do {
     (bt, p1) \<leftarrow> OpenBracketM p0;
     let p = (if bt = BT_ROUND then skip_blanks p0 else p1);
     let expectedEndBracket = (if bt = BT_ROUND then ParenthesesEnd p else None);
     (r, p2) \<leftarrow> ParseExpression p;
     (case r of
        None \<Rightarrow> ret ((0, 0), p2)
      | Some nval \<Rightarrow>
          if bt = BT_NONE then ret ((1, nval), p2)
          else if bt = BT_ROUND then ret ((if expectedEndBracket = Some p2 then 2 else 1, nval), p2)
          else do {
            (ok, p3) \<leftarrow> CloseBracketM p2;
            ret ((if ok then 2 else 0, nval), p3) }) }"

text \<open>Every caller passes the line pointer itself as \<^verbatim>\<open>src\<close>; the result is \<open>(alignment, fill)\<close>.\<close>

definition ParseAlignArguments :: "(aint \<times> aint) M" where
  "ParseAlignArguments = do {
     lexM SkipBlanks;
     oldSrc \<leftarrow> gets lp;
     a \<leftarrow> on_lp ParseExpression;
     (case a of
        None \<Rightarrow> ret (-1, -1)
      | Some alignment \<Rightarrow> do {
          t \<leftarrow> gets (\<lambda>s. rel_type (rel s));
          whenM (t \<noteq> REL_OFF) (WarningById W_RELOCATABLE_ALIGN None W_PASS3);
          if alignment < 1 \<or> 32768 < alignment \<or> alignment AND (alignment - 1) \<noteq> 0 then do {
            Error ''[ALIGN] Illegal align'' (Some oldSrc) E_SUPPRESS;
            ret (0, -1) }
          else do {
            c \<leftarrow> lexM comma;
            if \<not> c then ret (alignment, -1)
            else do {
              f \<leftarrow> on_lp ParseExpressionEntry;
              b \<leftarrow> gets bp;
              (case f of
                 None \<Rightarrow> do {
                   Error ''[ALIGN] fill-byte expected after comma'' (Some b) E_IF_FIRST;
                   ret (alignment, -1) }
               | Some fill \<Rightarrow>
                   if fill < 0 \<or> 255 < fill then do {
                     Error ''[ALIGN] Illegal align fill-byte'' (Some oldSrc) E_SUPPRESS;
                     ret (alignment, -1) }
                   else ret (alignment, fill)) } } }) }"

text \<open>\<^verbatim>\<open>GetBytes\<close>: the arguments of DB/DC/DZ, strings and expressions. One round of the loop returns whether
  the loop is left by \<^verbatim>\<open>break\<close> (then no comma is looked for), the bytes so far and the pointer.\<close>

definition getbytes_expr :: "int \<Rightarrow> int list \<Rightarrow> string \<Rightarrow> (bool \<times> int list \<times> string) M" where
  "getbytes_expr add e p = do {
     (r, p') \<leftarrow> ParseExpressionNoSyntaxError p;
     (case r of
        Some val \<Rightarrow> do {
          check8 val;
          resolveRelocationAffected (int (length e)) REL_HIGH;
          ret (False, e @ [wrap32 (val + add) AND 255], p') }
      | None \<Rightarrow> do {
          Error ''Syntax error'' (Some p') E_SUPPRESS;
          ret (True, e, p') }) }"

definition getbytes_arg :: "int \<Rightarrow> bool \<Rightarrow> int list \<Rightarrow> string \<Rightarrow> (bool \<times> int list \<times> string) M" where
  "getbytes_arg add dc e oldP =
     (case SkipBlanks oldP of (eol, p) \<Rightarrow>
        if eol then do {
          Error ''Expression expected'' None E_SUPPRESS;
          ret (True, e, p) }
        else do {
          (strRes, e1, p1) \<leftarrow> GetCharConstAsString 128 add e p;
          if strRes < 0 then ret (True, e1, p1)
          else if strRes \<noteq> 0 then
            (let p2 = skip_blanks p1 in
             if length e1 = length e + 1 \<and> cur p2 \<noteq> NUL \<and> cur p2 \<noteq> CHR '','' then getbytes_expr add e oldP
             else
               let p3 = (if length e1 = length e + 1 then p2 else p1);
                   maxLengthNotString = (if strRes = 1 then 1 else 0) in
               ret (False, if length e < length e1 \<and> dc \<and> maxLengthNotString < length e1 - length e
                           then butlast e1 @ [last e1 OR 128] else e1, p3))
          else getbytes_expr add e p1 })"

fun getbytes_loop :: "nat \<Rightarrow> int \<Rightarrow> bool \<Rightarrow> int list \<Rightarrow> string \<Rightarrow> (int list \<times> string) M" where
  "getbytes_loop 0 add dc e p = do { out_of_fuel; ret (e, p) }"
| "getbytes_loop (Suc n) add dc e p = do {
     (left, e1, p1) \<leftarrow> getbytes_arg add dc e p;
     if left then ret (e1, p1)
     else (case comma p1 of (again, p2) \<Rightarrow>
       if again \<and> length e1 < 128 then getbytes_loop n add dc e1 p2 else ret (e1, p2)) }"

definition GetBytes :: "int \<Rightarrow> bool \<Rightarrow> int list parser" where
  "GetBytes add dc p = do {
     mod_rel (\<lambda>r. r\<lparr>isResultAffected := False\<rparr>);
     (e, p') \<leftarrow> getbytes_loop (Suc (length p)) add dc [] p;
     checkAndWarn False;
     whenM (length e = 128 \<and> cur p' \<noteq> NUL)
       (Error ''Over 128 bytes defined in single DB/DC/... Values over'' (Some p') E_SUPPRESS);
     ret (e, p') }"

end
