(* ===== verification/Sj_Hex.thy ===== *)
theory Sj_Hex
  imports Sj_Numbers
begin

text \<open>
  sjio.cpp: hexadecimal printing, the export of labels and the Intel HEX writer. The writer collects
  bytes of consecutive addresses in a buffer of 16 and writes a record when the buffer is full or the
  address jumps. \<open>FP_HEX\<close> is the list of the lines written so far (None: no file is open).

  Shown here: a record is read back by a reader of the format that checks length and checksum, and the
  buffering is invisible, the records and the buffer together always hold exactly the stream of
  addressed bytes that was emitted.
\<close>

section \<open>Printing\<close>

definition ExitASM :: "unit M" where
  "ExitASM = modify (\<lambda>s. s\<lparr>halted := Exited\<rparr>)"

definition PrintHex :: "aint \<Rightarrow> nat \<Rightarrow> string M" where
  "PrintHex value nibbles = do {
     whenM (nibbles < 1 \<or> 8 < nibbles) ExitASM;
     let msk = (if 8 \<le> nibbles then -1 else push_bit (nibbles * 4) 1 - 1);
     let txt = fmt_0X nibbles (value AND msk);
     whenM (length txt \<noteq> nibbles) ExitASM;
     ret txt }"

definition PrintHex32 :: "aint \<Rightarrow> string M" where
  "PrintHex32 value = PrintHex value 8"

definition PrintHexAlt :: "aint \<Rightarrow> string" where
  "PrintHexAlt value = fmt_0X 4 value"

text \<open>The line \<^verbatim>\<open>name: EQU 0x12345678\<close> of the export file (names shorter than the line buffer).\<close>

definition WriteLabelEquValue :: "string \<Rightarrow> aint \<Rightarrow> string M" where
  "WriteLabelEquValue name value = do {
     lnrs \<leftarrow> PrintHex32 value;
     ret (name @ '': EQU '' @ ''0x'' @ lnrs @ [CHR 0x0A]) }"

section \<open>The writer\<close>

abbreviation (input) HEX_RECORD_MAX :: nat where "HEX_RECORD_MAX \<equiv> 16"

definition fputs_hex :: "string \<Rightarrow> unit M" where
  "fputs_hex t = mod_outp (\<lambda>w. w\<lparr>FP_HEX := map_option (\<lambda>f. f @ [t]) (FP_HEX w)\<rparr>)"

text \<open>The loop over the data bytes; \<open>crc\<close> is a \<^verbatim>\<open>uint8_t\<close>.\<close>

fun hex_data :: "int \<Rightarrow> int list \<Rightarrow> (string \<times> int) M" where
  "hex_data crc [] = ret ([], crc)"
| "hex_data crc (d # ds) = do {
     t \<leftarrow> PrintHex d 2;
     (r, crc') \<leftarrow> hex_data ((crc - d) mod 256) ds;
     ret (t @ r, crc') }"

definition WriteHexRecord :: "int \<Rightarrow> int \<Rightarrow> int list \<Rightarrow> unit M" where
  "WriteHexRecord block_type address dat = do {
     let len = int (length dat);
     l \<leftarrow> PrintHex len 2;
     a \<leftarrow> PrintHex address 4;
     t \<leftarrow> PrintHex block_type 2;
     let crc = (- len - (drop_bit 8 address AND 255) - (address AND 255) - block_type) mod 256;
     (ds, crc') \<leftarrow> hex_data crc dat;
     c \<leftarrow> PrintHex crc' 2;
     fputs_hex ('':'' @ l @ a @ t @ ds @ c @ [CHR 0x0A]) }"

definition FlushHexBuffer :: "unit M" where
  "FlushHexBuffer = do {
     o1 \<leftarrow> gets outp;
     if hexBytes o1 = [] then ret ()
     else do {
       WriteHexRecord 0 (hexAddress o1 mod 65536) (hexBytes o1);
       mod_outp (\<lambda>w. w\<lparr>hexBytes := []\<rparr>) } }"

definition EmitToHex :: "int \<Rightarrow> unit M" where
  "EmitToHex mc = do {
     s \<leftarrow> State_Monad.get;
     whenM (hexAddress (outp s) + int (length (hexBytes (outp s))) \<noteq> CurAddress s) FlushHexBuffer;
     mod_outp (\<lambda>w. if hexBytes w = [] then w\<lparr>hexAddress := CurAddress s\<rparr> else w);
     mod_outp (\<lambda>w. w\<lparr>hexBytes := hexBytes w @ [mc]\<rparr>);
     n \<leftarrow> gets (\<lambda>s. length (hexBytes (outp s)));
     whenM (n = HEX_RECORD_MAX) FlushHexBuffer }"

text \<open>\<^verbatim>\<open>CloseHex\<close> also returns the lines of the file it closed.\<close>

definition CloseHex :: "aint \<Rightarrow> string list option M" where
  "CloseHex start = do {
     f \<leftarrow> gets (\<lambda>s. FP_HEX (outp s));
     if f = None then ret None
     else do {
       FlushHexBuffer;
       whenM (0 \<le> start) (WriteHexRecord 3 0
         [drop_bit 24 start mod 256, drop_bit 16 start mod 256, drop_bit 8 start mod 256, start mod 256]);
       WriteHexRecord 1 0 [];
       f' \<leftarrow> gets (\<lambda>s. FP_HEX (outp s));
       mod_outp (\<lambda>w. w\<lparr>FP_HEX := None\<rparr>);
       ret f' } }"

section \<open>Printed digits\<close>

fun hex_fixed :: "nat \<Rightarrow> nat \<Rightarrow> string" where
  "hex_fixed 0 v = []"
| "hex_fixed (Suc n) v = hex_fixed n (v div 16) @ [hex_digit (v mod 16)]"

lemma length_hex_fixed [simp]: "length (hex_fixed n v) = n"
  by (induction n arbitrary: v) simp_all

lemma hex_fixed_0: "hex_fixed n 0 = replicate n CHR ''0''"
  by (induction n) (simp_all add: hex_digit_def replicate_append_same)

lemma hex_digits_fixed:
  "v < 16 ^ n \<Longrightarrow> 0 < n \<Longrightarrow> replicate (n - length (hex_digits v)) CHR ''0'' @ hex_digits v = hex_fixed n v"
proof (induction n arbitrary: v)
  case (Suc n)
  show ?case
  proof (cases "v < 16")
    case True
    then show ?thesis by (simp add: hex_digits.simps [of v] hex_fixed_0)
  next
    case False
    then have "0 < n" using Suc.prems(1) by (cases n) auto
    moreover have "v div 16 < 16 ^ n" using Suc.prems(1) by (simp add: less_mult_imp_div_less mult.commute)
    ultimately show ?thesis using Suc.IH [of "v div 16"] False by (simp add: hex_digits.simps [of v])
  qed
qed simp

lemma PrintHex_run:
  assumes "0 < n" "n \<le> 8" "0 \<le> v" "v < 16 ^ n"
  shows "run_state (PrintHex v n) s = (hex_fixed n (nat v), s)"
proof -
  have "(16::int) ^ n \<le> 16 ^ 8" using assms(2) by (intro power_increasing) auto
  then have v: "v < 4294967296" using assms(4) by simp
  have m: "v AND (if 8 \<le> n then -1 else push_bit (n * 4) 1 - 1) = v"
  proof (cases "8 \<le> n")
    case False
    have "v AND (push_bit (n * 4) 1 - 1) = take_bit (n * 4) v"
      by (simp add: take_bit_eq_mask mask_eq_exp_minus_1 push_bit_eq_mult)
    also have "\<dots> = v" using assms(3,4) by (simp add: take_bit_int_eq_self_iff power_mult mult.commute [of n])
    finally show ?thesis using False by simp
  qed simp
  have "u32 v = v" using assms(3) v by (simp add: u32_def)
  moreover have "nat v < 16 ^ n" using assms(3,4) by (simp add: nat_less_iff)
  ultimately have "fmt_0X n v = hex_fixed n (nat v)"
    using hex_digits_fixed [of "nat v" n] assms(1) by (simp add: fmt_0X_def fmt_X_def Let_def)
  then show ?thesis using assms(1,2) unfolding PrintHex_def Let_def m by simp
qed


lemmas print_bytes = PrintHex_run [of 2, simplified] PrintHex_run [of 4, simplified]

section \<open>A reader of the format\<close>

definition nibble :: "char \<Rightarrow> int option" where
  "nibble c = (if isalnum c \<and> getval c < 16 then Some (getval c) else None)"

fun unhex :: "string \<Rightarrow> int list option" where
  "unhex [] = Some []"
| "unhex [c] = None"
| "unhex (c # d # r) =
     (case nibble c of None \<Rightarrow> None | Some a \<Rightarrow>
       (case nibble d of None \<Rightarrow> None | Some b \<Rightarrow> map_option (\<lambda>bs. (16 * a + b) # bs) (unhex r)))"

text \<open>Type, address and data of a line; None when the start mark, the length, the checksum or the line end is wrong.\<close>

definition read_record :: "string \<Rightarrow> (int \<times> int \<times> int list) option" where
  "read_record l =
     (if l = [] \<or> hd l \<noteq> CHR '':'' \<or> last l \<noteq> CHR 0x0A then None
      else (case unhex (butlast (tl l)) of
              None \<Rightarrow> None
            | Some bs \<Rightarrow>
                if length bs < 5 \<or> hd bs \<noteq> int (length bs) - 5 \<or> sum_list bs mod 256 \<noteq> 0 then None
                else Some (bs ! 3, 256 * bs ! 1 + bs ! 2, take (length bs - 5) (drop 4 bs))))"

abbreviation is_byte :: "int \<Rightarrow> bool" where
  "is_byte b \<equiv> 0 \<le> b \<and> b < 256"

lemma nibble_digit: "d < 16 \<Longrightarrow> nibble (hex_digit d) = Some (int d)"
  using hex_digit_props by (simp add: nibble_def)

lemma byte_split: "16 * int (m div 16 mod 16) + int (m mod 16) = int (m mod 256)"
  using mod_mult2_eq [of m 16 16] by simp

lemma unhex_digits:
  "unhex (hex_digit (a mod 16) # hex_digit (b mod 16) # r) =
     map_option (\<lambda>bs. (16 * int (a mod 16) + int (b mod 16)) # bs) (unhex r)"
  using nibble_digit [of "a mod 16"] nibble_digit [of "b mod 16"] by (simp only: unhex.simps option.case)

lemma hex_fixed_2: "hex_fixed 2 n = [hex_digit (n div 16 mod 16), hex_digit (n mod 16)]"
  by (simp only: numeral_2_eq_2 hex_fixed.simps append.simps)

lemma hex_fixed_4: "hex_fixed 4 n = hex_fixed 2 (n div 256) @ hex_fixed 2 n"
proof -
  have "hex_fixed (Suc (Suc 2)) n = hex_fixed 2 (n div 16 div 16) @ [hex_digit (n div 16 mod 16), hex_digit (n mod 16)]"
    by (simp only: hex_fixed.simps append.simps append_assoc)
  moreover have "Suc (Suc 2) = 4" by simp
  ultimately show ?thesis by (simp add: hex_fixed_2 div_mult2_eq [symmetric])
qed

lemma unhex_mod: "unhex (hex_fixed 2 n @ r) = map_option (\<lambda>bs. int (n mod 256) # bs) (unhex r)"
  unfolding hex_fixed_2 append.simps unhex_digits byte_split ..

lemma unhex_byte: "is_byte b \<Longrightarrow> unhex (hex_fixed 2 (nat b) @ r) = map_option (\<lambda>bs. b # bs) (unhex r)"
  by (simp add: unhex_mod zmod_int)

lemma unhex_word:
  assumes "0 \<le> w" "w < 65536"
  shows "unhex (hex_fixed 4 (nat w) @ r) = map_option (\<lambda>bs. (w div 256) # (w mod 256) # bs) (unhex r)"
proof -
  have "int (nat w div 256 mod 256) = w div 256" "int (nat w mod 256) = w mod 256"
    using assms by (simp_all add: zdiv_int zmod_int)
  then show ?thesis unfolding hex_fixed_4 append_assoc unhex_mod by (cases "unhex r") (simp_all only: option.map)
qed

definition hex_bytes :: "int list \<Rightarrow> string" where
  "hex_bytes ds = concat (map (\<lambda>d. hex_fixed 2 (nat d)) ds)"

lemma unhex_bytes: "\<forall>d \<in> set ds. is_byte d \<Longrightarrow> unhex (hex_bytes ds @ r) = map_option (\<lambda>bs. ds @ bs) (unhex r)"
  by (induction ds; cases "unhex r") (auto simp: hex_bytes_def unhex_byte)

lemma hex_data_run:
  "\<forall>d \<in> set ds. is_byte d \<Longrightarrow> run_state (hex_data crc ds) s =
     ((hex_bytes ds, if ds = [] then crc else (crc - sum_list ds) mod 256), s)"
proof (induction ds arbitrary: crc)
  case (Cons d ds)
  then show ?case by (simp add: print_bytes hex_bytes_def mod_diff_left_eq diff_diff_eq)
qed (simp add: hex_bytes_def)

text \<open>The text of a record.\<close>

definition record_text :: "int \<Rightarrow> int \<Rightarrow> int list \<Rightarrow> string" where
  "record_text ty a ds = '':'' @ hex_fixed 2 (length ds) @ hex_fixed 4 (nat a) @ hex_fixed 2 (nat ty) @ hex_bytes ds @
     hex_fixed 2 (nat ((- int (length ds) - a div 256 - a mod 256 - ty - sum_list ds) mod 256)) @ [CHR 0x0A]"

lemma WriteHexRecord_run:
  assumes "is_byte ty" "0 \<le> a" "a < 65536" "length ds < 256" "\<forall>d \<in> set ds. is_byte d"
  shows "run_state (WriteHexRecord ty a ds) s = run_state (fputs_hex (record_text ty a ds)) s"
proof -
  have a: "drop_bit 8 a AND 255 = a div 256" "a AND 255 = a mod 256"
    using take_bit_eq_mask [of 8 a] take_bit_eq_mask [of 8 "drop_bit 8 a"] assms(2,3)
    by (simp_all add: mask_eq_exp_minus_1 take_bit_eq_mod drop_bit_eq_div)
  let ?c = "- int (length ds) - a div 256 - a mod 256 - ty"
  have c: "(if ds = [] then ?c mod 256 else (?c mod 256 - sum_list ds) mod 256) = (?c - sum_list ds) mod 256"
    by (simp add: mod_diff_left_eq)
  show ?thesis
    using assms unfolding WriteHexRecord_def Let_def a
    by (simp add: print_bytes hex_data_run c record_text_def)
qed

lemma read_record_text:
  assumes "is_byte ty" "0 \<le> a" "a < 65536" "length ds < 256" "\<forall>d \<in> set ds. is_byte d"
  shows "read_record (record_text ty a ds) = Some (ty, a, ds)"
proof -
  define c where "c = (- int (length ds) - a div 256 - a mod 256 - ty - sum_list ds) mod 256"
  have c: "is_byte c" by (simp add: c_def)
  let ?bs = "int (length ds) # a div 256 # a mod 256 # ty # ds @ [c]"
  let ?t = "hex_fixed 2 (length ds) @ hex_fixed 4 (nat a) @ hex_fixed 2 (nat ty) @ hex_bytes ds @ hex_fixed 2 (nat c)"
  have t: "record_text ty a ds = '':'' @ ?t @ [CHR 0x0A]" by (simp add: record_text_def c_def)
  have u: "unhex ?t = Some ?bs"
    using unhex_byte [of "int (length ds)"] unhex_byte [OF c, of "[]"] assms
    by (simp add: unhex_byte [OF assms(1)] unhex_word [OF assms(2,3)] unhex_bytes [OF assms(5)])
  have "(int (length ds) + a div 256 + a mod 256 + ty + sum_list ds + c) mod 256 = 0"
    unfolding c_def by (subst mod_add_right_eq) simp
  moreover have "sum_list ?bs = int (length ds) + a div 256 + a mod 256 + ty + sum_list ds + c" by simp
  ultimately have "sum_list ?bs mod 256 = 0" by (simp only:)
  moreover have "256 * (a div 256) + a mod 256 = a" by simp
  moreover have "butlast (tl (record_text ty a ds)) = ?t" unfolding t by (simp add: butlast_append)
  moreover have "hd (record_text ty a ds) = CHR '':''" "last (record_text ty a ds) = CHR 0x0A" "record_text ty a ds \<noteq> []"
    unfolding t by simp_all
  moreover have "?bs ! 3 = ty" "?bs ! 1 = a div 256" "?bs ! 2 = a mod 256" "take (length ?bs - 5) (drop 4 ?bs) = ds"
    "\<not> length ?bs < 5" "hd ?bs = int (length ?bs) - 5" by simp_all
  ultimately show ?thesis unfolding read_record_def by (simp only: u option.case simp_thms if_False)
qed

section \<open>The stream of addressed bytes\<close>

fun addressed :: "int \<Rightarrow> int list \<Rightarrow> (int \<times> int) list" where
  "addressed a [] = []"
| "addressed a (b # bs) = (a mod 65536, b) # addressed (a + 1) bs"

text \<open>What a reader of the file gets from a line: the bytes of a data record with their addresses (16 bits),
  nothing from the other records.\<close>

definition record_image :: "string \<Rightarrow> (int \<times> int) list" where
  "record_image l = (case read_record l of Some (ty, a, ds) \<Rightarrow> if ty = 0 then addressed a ds else [] | None \<Rightarrow> [])"

definition file_image :: "string list \<Rightarrow> (int \<times> int) list" where
  "file_image ls = concat (map record_image ls)"

text \<open>The abstraction: what the file holds and what is still buffered.\<close>

definition hex_image :: "output_state \<Rightarrow> (int \<times> int) list" where
  "hex_image w = (case FP_HEX w of None \<Rightarrow> [] | Some f \<Rightarrow> file_image f @ addressed (hexAddress w) (hexBytes w))"

definition hex_wf :: "output_state \<Rightarrow> bool" where
  "hex_wf w \<longleftrightarrow> length (hexBytes w) < HEX_RECORD_MAX \<and> (\<forall>b \<in> set (hexBytes w). is_byte b)"

lemma addressed_append: "addressed a (xs @ ys) = addressed a xs @ addressed (a + int (length xs)) ys"
  by (induction xs arbitrary: a) (simp_all add: add.assoc)

lemma addressed_mod: "addressed (a mod 65536) xs = addressed a xs"
proof (induction xs arbitrary: a)
  case (Cons b bs)
  have "addressed (a mod 65536 + 1) bs = addressed ((a mod 65536 + 1) mod 65536) bs" using Cons by simp
  also have "\<dots> = addressed (a + 1) bs" using Cons [of "a + 1"] by (simp add: mod_add_left_eq)
  finally show ?case by simp
qed simp

lemma file_image_append: "file_image (ls @ [l]) = file_image ls @ record_image l"
  by (simp add: file_image_def)

text \<open>Flushing writes the buffer as one data record and does not change the image.\<close>

lemma FlushHexBuffer_run:
  assumes "\<forall>b \<in> set (hexBytes (outp s)). is_byte b" "length (hexBytes (outp s)) \<le> HEX_RECORD_MAX" "FP_HEX (outp s) = Some f"
  shows "\<exists>f'. run_state FlushHexBuffer s = ((), s\<lparr>outp := outp s\<lparr>FP_HEX := Some f', hexBytes := []\<rparr>\<rparr>) \<and>
    file_image f' = file_image f @ addressed (hexAddress (outp s)) (hexBytes (outp s))"
proof (cases "hexBytes (outp s) = []")
  case True
  then show ?thesis using assms by (intro exI [of _ f]) (simp add: FlushHexBuffer_def)
next
  case False
  let ?r = "record_text 0 (hexAddress (outp s) mod 65536) (hexBytes (outp s))"
  have "run_state FlushHexBuffer s = ((), s\<lparr>outp := outp s\<lparr>FP_HEX := Some (f @ [?r]), hexBytes := []\<rparr>\<rparr>)"
    using False assms by (simp add: FlushHexBuffer_def WriteHexRecord_run fputs_hex_def)
  moreover have "record_image ?r = addressed (hexAddress (outp s)) (hexBytes (outp s))"
    using assms(1,2) by (simp add: record_image_def read_record_text addressed_mod)
  ultimately show ?thesis by (intro exI [of _ "f @ [?r]"]) (simp add: file_image_append)
qed

lemma EmitToHex_run:
  assumes "hex_wf (outp s)" "FP_HEX (outp s) = Some f" "is_byte mc"
  obtains f' bs a where
    "run_state (EmitToHex mc) s = ((), s\<lparr>outp := outp s\<lparr>FP_HEX := Some f', hexBytes := bs, hexAddress := a\<rparr>\<rparr>)"
    "file_image f' @ addressed a bs =
       file_image f @ addressed (hexAddress (outp s)) (hexBytes (outp s)) @ [(CurAddress s mod 65536, mc)]"
    "length bs < HEX_RECORD_MAX" "\<forall>b \<in> set bs. is_byte b"
proof -
  let ?w = "outp s"
  have wf: "length (hexBytes ?w) < 16" "\<forall>b \<in> set (hexBytes ?w). is_byte b" using assms(1) by (auto simp: hex_wf_def)
  text \<open>after the flush on an address jump\<close>
  obtain g bb where 1: "run_state (whenM (hexAddress ?w + int (length (hexBytes ?w)) \<noteq> CurAddress s) FlushHexBuffer) s =
      ((), s\<lparr>outp := ?w\<lparr>FP_HEX := Some g, hexBytes := bb\<rparr>\<rparr>)"
    "file_image g @ addressed (hexAddress ?w) bb = file_image f @ addressed (hexAddress ?w) (hexBytes ?w)"
    "bb = [] \<or> hexAddress ?w + int (length bb) = CurAddress s" "length bb < 16" "\<forall>b \<in> set bb. is_byte b"
  proof (cases "hexAddress ?w + int (length (hexBytes ?w)) = CurAddress s")
    case True
    have "s\<lparr>outp := ?w\<lparr>FP_HEX := Some f, hexBytes := hexBytes ?w\<rparr>\<rparr> = s" by (simp add: assms(2) [symmetric])
    then show thesis using True wf by (intro that [where g = f and bb = "hexBytes ?w"]) simp_all
  next
    case False
    obtain f' where "run_state FlushHexBuffer s = ((), s\<lparr>outp := outp s\<lparr>FP_HEX := Some f', hexBytes := []\<rparr>\<rparr>)"
      "file_image f' = file_image f @ addressed (hexAddress ?w) (hexBytes ?w)"
      using FlushHexBuffer_run [OF wf(2) _ assms(2)] wf(1) by (metis less_imp_le)
    then show thesis using False by (intro that [where g = f' and bb = "[]"]) simp_all
  qed
  define a where "a = (if bb = [] then CurAddress s else hexAddress ?w)"
  let ?s2 = "s\<lparr>outp := ?w\<lparr>FP_HEX := Some g, hexBytes := bb @ [mc], hexAddress := a\<rparr>\<rparr>"
  have run: "run_state (EmitToHex mc) s = run_state (whenM (length (bb @ [mc]) = 16) FlushHexBuffer) ?s2"
    using 1(1) by (auto simp: EmitToHex_def State_Monad.get_def a_def)
  have img: "file_image g @ addressed a (bb @ [mc]) =
      file_image f @ addressed (hexAddress ?w) (hexBytes ?w) @ [(CurAddress s mod 65536, mc)]"
    using 1(2,3) by (auto simp: addressed_append a_def)
  have ok: "\<forall>b \<in> set (bb @ [mc]). is_byte b" using 1(5) assms(3) by auto
  show thesis
  proof (cases "length (bb @ [mc]) = 16")
    case False
    then show thesis using run img ok 1(4) by (intro that [where f' = g and bs = "bb @ [mc]" and a = a]) simp_all
  next
    case True
    obtain f2 where "run_state FlushHexBuffer ?s2 = ((), ?s2\<lparr>outp := outp ?s2\<lparr>FP_HEX := Some f2, hexBytes := []\<rparr>\<rparr>)"
      "file_image f2 = file_image g @ addressed a (bb @ [mc])"
      using FlushHexBuffer_run [of ?s2 g] ok True by auto
    then show thesis using run img True by (intro that [where f' = f2 and bs = "[]" and a = a]) simp_all
  qed
qed


text \<open>A sequence of emitted bytes, each at its address, and the closing of the file.\<close>

fun hex_stream :: "(int \<times> int) list \<Rightarrow> unit M" where
  "hex_stream [] = ret ()"
| "hex_stream ((a, b) # r) = do { modify (\<lambda>s. s\<lparr>CurAddress := a\<rparr>); EmitToHex b; hex_stream r }"

lemma hex_stream_run:
  assumes "hex_wf (outp s)" "FP_HEX (outp s) \<noteq> None" "\<forall>(a, b) \<in> set es. is_byte b"
  shows "hex_wf (outp (snd (run_state (hex_stream es) s))) \<and> FP_HEX (outp (snd (run_state (hex_stream es) s))) \<noteq> None \<and>
    hex_image (outp (snd (run_state (hex_stream es) s))) = hex_image (outp s) @ map (\<lambda>(a, b). (a mod 65536, b)) es"
  using assms
proof (induction es arbitrary: s)
  case (Cons e es)
  obtain a b where e: "e = (a, b)" by fastforce
  let ?s = "s\<lparr>CurAddress := a\<rparr>"
  obtain f where f: "FP_HEX (outp ?s) = Some f" using Cons.prems(2) by auto
  have "hex_wf (outp ?s)" "is_byte b" using Cons.prems(1,3) e by simp_all
  then obtain f' bs a' where r:
    "run_state (EmitToHex b) ?s = ((), ?s\<lparr>outp := outp ?s\<lparr>FP_HEX := Some f', hexBytes := bs, hexAddress := a'\<rparr>\<rparr>)"
    "file_image f' @ addressed a' bs =
       file_image f @ addressed (hexAddress (outp ?s)) (hexBytes (outp ?s)) @ [(CurAddress ?s mod 65536, b)]"
    "length bs < HEX_RECORD_MAX" "\<forall>b \<in> set bs. is_byte b"
    by (rule EmitToHex_run [OF _ f])
  let ?t = "?s\<lparr>outp := outp ?s\<lparr>FP_HEX := Some f', hexBytes := bs, hexAddress := a'\<rparr>\<rparr>"
  have w: "hex_wf (outp ?t)" using r(3,4) by (simp add: hex_wf_def)
  have i: "hex_image (outp ?t) = hex_image (outp s) @ [(a mod 65536, b)]" using r(2) f by (simp add: hex_image_def)
  have x: "run_state (hex_stream (e # es)) s = run_state (hex_stream es) ?t" using r(1) e by simp
  have b: "\<forall>(a, b) \<in> set es. is_byte b" using Cons.prems(3) by simp
  show ?case using Cons.IH [OF w _ b] unfolding x i by (simp add: e)
qed simp

lemma CloseHex_run:
  assumes "hex_wf (outp s)" "FP_HEX (outp s) = Some f"
  obtains ls s' where "run_state (CloseHex start) s = (Some ls, s')" "file_image ls = hex_image (outp s)" "FP_HEX (outp s') = None"
    "read_record (last ls) = Some (1, 0, [])"
    "0 \<le> start \<Longrightarrow> read_record (last (butlast ls)) = Some (3, 0,
       [drop_bit 24 start mod 256, drop_bit 16 start mod 256, drop_bit 8 start mod 256, start mod 256])"
proof -
  let ?w = "outp s" and ?sd = "[drop_bit 24 start mod 256, drop_bit 16 start mod 256, drop_bit 8 start mod 256, start mod 256]"
  obtain g where g: "run_state FlushHexBuffer s = ((), s\<lparr>outp := ?w\<lparr>FP_HEX := Some g, hexBytes := []\<rparr>\<rparr>)"
    "file_image g = file_image f @ addressed (hexAddress ?w) (hexBytes ?w)"
    using FlushHexBuffer_run [of s f] assms by (auto simp: hex_wf_def)
  have img: "record_image (record_text 3 0 ?sd) = []" "record_image (record_text 1 0 []) = []"
    by (simp_all add: record_image_def read_record_text)
  let ?ls = "g @ (if 0 \<le> start then [record_text 3 0 ?sd] else []) @ [record_text 1 0 []]"
  have "run_state (CloseHex start) s = (Some ?ls, s\<lparr>outp := ?w\<lparr>FP_HEX := None, hexBytes := []\<rparr>\<rparr>)"
    using g(1) assms(2) by (simp add: CloseHex_def WriteHexRecord_run fputs_hex_def)
  moreover have "file_image ?ls = hex_image ?w"
    using g(2) assms(2) img by (simp add: hex_image_def file_image_def)
  ultimately show thesis
    by (intro that [where ls = ?ls and s' = "s\<lparr>outp := ?w\<lparr>FP_HEX := None, hexBytes := []\<rparr>\<rparr>"])
      (simp_all add: read_record_text butlast_append)
qed

section \<open>Properties\<close>

text \<open>Claim C14. The Intel HEX writer is faithful end to end: into a freshly opened file emit any sequence of
  addressed bytes, with address jumps at any place, and close it. A reader of the format that checks the length and
  the checksum of every record gets exactly the emitted bytes in order, each at its address modulo 65536; the last
  record is the end-of-file record, and the one before carries the start address when one was given.\<close>

theorem hex_output_faithful:
  assumes "FP_HEX (outp s) = Some []" "hexBytes (outp s) = []" "\<forall>(a, b) \<in> set es. 0 \<le> b \<and> b < 256"
  shows "\<exists>ls. fst (run_state (do { hex_stream es; CloseHex start }) s) = Some ls \<and>
    file_image ls = map (\<lambda>(a, b). (a mod 65536, b)) es \<and>
    read_record (last ls) = Some (1, 0, []) \<and>
    (0 \<le> start \<longrightarrow> read_record (last (butlast ls)) = Some (3, 0,
       [drop_bit 24 start mod 256, drop_bit 16 start mod 256, drop_bit 8 start mod 256, start mod 256]))"
proof -
  let ?t = "snd (run_state (hex_stream es) s)"
  have "hex_wf (outp s)" using assms(2) by (simp add: hex_wf_def)
  from hex_stream_run [OF this _ assms(3)] assms(1)
  have t: "hex_wf (outp ?t)" "FP_HEX (outp ?t) \<noteq> None" "hex_image (outp ?t) = map (\<lambda>(a, b). (a mod 65536, b)) es"
    by (simp_all add: hex_image_def assms file_image_def)
  then obtain f where f: "FP_HEX (outp ?t) = Some f" by blast
  obtain ls s' where "run_state (CloseHex start) ?t = (Some ls, s')" "file_image ls = hex_image (outp ?t)"
    "read_record (last ls) = Some (1, 0, [])"
    "0 \<le> start \<Longrightarrow> read_record (last (butlast ls)) = Some (3, 0,
       [drop_bit 24 start mod 256, drop_bit 16 start mod 256, drop_bit 8 start mod 256, start mod 256])"
    by (rule CloseHex_run [OF t(1) f, of start]) blast
  then show ?thesis using t(3) by (auto split: prod.split)
qed

theorem hex_output_faithful_witness:
  "\<exists>ls. fst (run_state (do { hex_stream [(0x8000, 0x3E), (0x8001, 1), (0x9000, 0xC9)]; CloseHex (-1) })
     (asm0\<lparr>outp := (outp asm0)\<lparr>FP_HEX := Some []\<rparr>\<rparr>)) = Some ls \<and>
   file_image ls = [(0x8000, 0x3E), (0x8001, 1), (0x9000, 0xC9)]"
proof -
  let ?s = "asm0\<lparr>outp := (outp asm0)\<lparr>FP_HEX := Some []\<rparr>\<rparr>"
  have "hexBytes (outp asm0) = []" by code_simp
  then show ?thesis
    using hex_output_faithful [of ?s "[(0x8000, 0x3E), (0x8001, 1), (0x9000, 0xC9)]" "-1"] by auto
qed

text \<open>Claim C30. A label exported to the label file is read back: the number in the written line
  \<^verbatim>\<open>name: EQU 0x...\<close> is the label's 32-bit value.\<close>

theorem WriteLabelEquValue_roundtrip:
  assumes "in32 v"
  shows "\<exists>n. run_state (WriteLabelEquValue name v) s = (name @ '': EQU '' @ n @ [CHR 0x0A], s) \<and>
    run_state (GetConstant (n @ [CHR 0x0A])) t = ((Some v, [CHR 0x0A]), t)"
proof -
  have w: "length (fmt_0X 8 v) = 8"
  proof -
    have "u32 v < 16 ^ 8" "0 \<le> u32 v" by (simp_all add: u32_def)
    then have "nat (u32 v) < 16 ^ 8" by (simp add: nat_less_iff)
    then show ?thesis using hex_digits_fixed [of "nat (u32 v)" 8] by (simp add: fmt_0X_def fmt_X_def Let_def)
  qed
  have "ends_number [CHR 0x0A]" by (simp add: ends_number_def is_sep_def ctype ord_def)
  then have "run_state (GetConstant ((''0x'' @ fmt_0X 8 v) @ [CHR 0x0A])) t = ((Some v, [CHR 0x0A]), t)"
    using GetConstant_hex [OF assms, of _ 8 t] by simp
  moreover have "run_state (WriteLabelEquValue name v) s = (name @ '': EQU '' @ (''0x'' @ fmt_0X 8 v) @ [CHR 0x0A], s)"
    using w by (simp add: WriteLabelEquValue_def PrintHex32_def PrintHex_def Let_def)
  ultimately show ?thesis by blast
qed

theorem WriteLabelEquValue_roundtrip_witness:
  "\<forall>s. \<exists>n. run_state (WriteLabelEquValue ''main.loop'' (-2)) s = (''main.loop'' @ '': EQU '' @ n @ [CHR 0x0A], s) \<and>
    run_state (GetConstant (n @ [CHR 0x0A])) s = ((Some (-2), [CHR 0x0A]), s)"
proof
  fix s :: asm
  have "in32 (-2)" by code_simp
  then show "\<exists>n. run_state (WriteLabelEquValue ''main.loop'' (-2)) s = (''main.loop'' @ '': EQU '' @ n @ [CHR 0x0A], s) \<and>
    run_state (GetConstant (n @ [CHR 0x0A])) s = ((Some (-2), [CHR 0x0A]), s)"
    by (rule WriteLabelEquValue_roundtrip)
qed

end
