(* ===== verification/Sj_Emit.thy ===== *)
theory Sj_Emit
  imports Sj_Expr Sj_Hex
begin

text \<open>
  Emitting machine code: \<^verbatim>\<open>CDevice::CheckPage\<close> and \<^verbatim>\<open>SetDevice\<close> of devices.cpp, the emit functions of
  sjio.cpp with the output buffer and the tape block, and \<^verbatim>\<open>dirRELOCATE_TABLE\<close> of relocate.cpp. The
  memory of a device is a function from offsets; \<open>MemoryPointer\<close> is an offset, or None for the null
  pointer. An output file is the list of the bytes written to it; a failing write (disk full) is not
  modelled.
\<close>

section \<open>The memory page under the emit address\<close>

datatype ECheckPageLevel = CHECK_RESET | CHECK_NO_EMIT | CHECK_EMIT

definition upd_dev :: "(CDevice \<Rightarrow> CDevice) \<Rightarrow> unit M" where
  "upd_dev f = mod_dv (\<lambda>d. case Device d of None \<Rightarrow> d | Some i \<Rightarrow> d\<lparr>Devices := (Devices d)[i := f (Devices d ! i)]\<rparr>)"

definition set_mp :: "int option \<Rightarrow> unit M" where
  "set_mp p = mod_dv (\<lambda>d. d\<lparr>MemoryPointer := p\<rparr>)"

definition set_page :: "nat \<Rightarrow> unit M" where
  "set_page p = mod_dv (\<lambda>d. d\<lparr>PageCur := p\<rparr>)"

text \<open>The address wraps at the end of a DISP block.\<close>

definition wrap_disp :: "ECheckPageLevel \<Rightarrow> unit M" where
  "wrap_disp level = do {
     s \<leftarrow> State_Monad.get;
     whenM (PseudoORG s \<noteq> DISP_NONE \<and> level \<noteq> CHECK_NO_EMIT \<and> 0x10000 \<le> CurAddress s) (do {
       whenM (pass s = LASTPASS)
         (Warning (''RAM limit exceeded 0x'' @ fmt_X (CurAddress s) @ '' by DISP'') None W_PASS3);
       SizeBoundary BOUNDARY_FLOW;
       modify (\<lambda>s. s\<lparr>CurAddress := CurAddress s AND 0xFFFF\<rparr>) }) }"

text \<open>The slot that an address falls into after masking it to 16 bits: the last one that starts not above it.\<close>

definition masked_slot :: "CDevice \<Rightarrow> int \<Rightarrow> nat option" where
  "masked_slot dev longAddr =
     find (\<lambda>i. \<not> longAddr AND 0xFFFF < slot_Address (dev_Slots dev ! i)) (rev [0..<length (dev_Slots dev)])"

definition refresh_check :: "ECheckPageLevel \<Rightarrow> nat \<Rightarrow> unit M" where
  "refresh_check level i = whenM (level = CHECK_EMIT) (upd_dev (\<lambda>d. d\<lparr>
     limitExceeded := limitExceeded d \<and> previousSlotI d = i,
     previousSlotI := i, previousSlotOpt := slot_Option (dev_Slots d ! i)\<rparr>))"

text \<open>The option NEXT of the slot that was left: the next page is mapped into it.\<close>

definition map_page_after :: "ECheckPageLevel \<Rightarrow> int \<Rightarrow> nat \<Rightarrow> CDevice \<Rightarrow> unit M" where
  "map_page_after level longAddr i dev =
    (let prev = previousSlotI dev;
         prevS = dev_Slots dev ! prev;
         nextPageN = page_Number (dev_Pages dev ! slot_Page prevS) + 1 in
     if length (dev_Pages dev) \<le> nextPageN then do {
       ErrorInt ''No more memory pages to map next one into slot'' (int prev) E_SUPPRESS;
       upd_dev (\<lambda>d. d\<lparr>dev_Slots := (dev_Slots d)[prev := prevS\<lparr>slot_Option := O_NONE\<rparr>]\<rparr>);
       upd_dev (\<lambda>d. d\<lparr>limitExceeded := False, previousSlotI := i,
         previousSlotOpt := slot_Option (dev_Slots d ! i)\<rparr>);
       refresh_check level i }
     else if longAddr \<noteq> slot_Address prevS + slot_Size prevS then do {
       ErrorInt ''Write beyond memory slot in wrap-around slot caught too late by''
         (longAddr - slot_Address prevS - slot_Size prevS) E_FATAL;
       refresh_check level i }
     else do {
       upd_dev (\<lambda>d. d\<lparr>dev_Slots := (dev_Slots d)[prev := prevS\<lparr>slot_Page := nextPageN\<rparr>]\<rparr>);
       set_page nextPageN;
       modify (\<lambda>s. if PseudoORG s \<noteq> DISP_NONE then s\<lparr>adrdisp := adrdisp s - slot_Size prevS\<rparr>
                   else s\<lparr>CurAddress := CurAddress s - slot_Size prevS\<rparr>);
       set_mp (Some (page_RAM (dev_Pages dev ! nextPageN))) })"

definition map_next_page :: "ECheckPageLevel \<Rightarrow> int \<Rightarrow> nat \<Rightarrow> unit M" where
  "map_next_page level longAddr i = do {
     SizeBoundary BOUNDARY_FLOW;
     dev \<leftarrow> gets the_dev;
     map_page_after level longAddr i dev }"

text \<open>Leaving the previous slot by way of its option.\<close>

definition leave_slot :: "ECheckPageLevel \<Rightarrow> int \<Rightarrow> nat \<Rightarrow> bool \<Rightarrow> bool \<Rightarrow> ESlotOptions \<Rightarrow> unit M" where
  "leave_slot level longAddr i inside warn_now previousOpt =
     (case previousOpt of
        O_ERROR \<Rightarrow> do {
          whenM warn_now (do {
            ErrorInt ''Write outside of memory slot'' longAddr E_SUPPRESS;
            upd_dev (\<lambda>d. d\<lparr>limitExceeded := True\<rparr>) });
          refresh_check level i }
      | O_WARNING \<Rightarrow> do {
          whenM warn_now (do {
            Warning ''Write outside of memory slot'' None W_PASS3;
            upd_dev (\<lambda>d. d\<lparr>limitExceeded := True\<rparr>) });
          refresh_check level i }
      | O_NEXT \<Rightarrow> map_next_page level longAddr i
      | O_NONE \<Rightarrow> do {
          whenM (warn_now \<and> \<not> inside) (do {
            ErrorInt ''Write outside of device memory at'' longAddr E_SUPPRESS;
            upd_dev (\<lambda>d. d\<lparr>limitExceeded := True, previousSlotI := i\<rparr>) });
          refresh_check level i })"

text \<open>The loop body for the found slot.\<close>

definition enter_slot :: "ECheckPageLevel \<Rightarrow> int \<Rightarrow> nat \<Rightarrow> int \<Rightarrow> CDevice \<Rightarrow> unit M" where
  "enter_slot level longAddr i p dev =
     (let S = dev_Slots dev ! i; inside = slot_covers longAddr S in do {
        set_page (slot_Page S);
        set_mp (if inside then Some (page_RAM (dev_Pages dev ! slot_Page S) + (longAddr - slot_Address S)) else None);
        if level = CHECK_RESET then
          upd_dev (\<lambda>d. d\<lparr>previousSlotOpt := slot_Option S, previousSlotI := i, limitExceeded := False\<rparr>)
        else if i = previousSlotI dev \<and> inside then ret ()
        else leave_slot level longAddr i inside (p = LASTPASS \<and> level = CHECK_EMIT \<and> \<not> limitExceeded dev)
          (previousSlotOpt dev) })"

definition check_slots :: "ECheckPageLevel \<Rightarrow> int \<Rightarrow> int \<Rightarrow> CDevice \<Rightarrow> unit M" where
  "check_slots level longAddr p dev =
     (let prevS = dev_Slots dev ! previousSlotI dev in
      if level \<noteq> CHECK_RESET \<and> slot_covers longAddr prevS then
        set_mp (Some (page_RAM (dev_Pages dev ! slot_Page prevS) + (longAddr - slot_Address prevS)))
      else (case masked_slot dev longAddr of
              None \<Rightarrow> Error ''CheckPage(..): please, contact the author of this program.'' None E_FATAL
            | Some i \<Rightarrow> enter_slot level longAddr i p dev))"

definition CheckPage :: "ECheckPageLevel \<Rightarrow> unit M" where
  "CheckPage level = do {
     wrap_disp level;
     s \<leftarrow> State_Monad.get;
     check_slots level (emit_address s) (pass s) (the_dev s) }"

section \<open>Selecting a device\<close>

definition IsSldExportActive :: "asm \<Rightarrow> bool" where
  "IsSldExportActive s \<longleftrightarrow> sldActive (outp s) \<and> DeviceID (dv s) \<noteq> None"

text \<open>A line of the file for source level debugging, without the source positions.\<close>

definition WriteToSldFile :: "int \<Rightarrow> int \<Rightarrow> char \<Rightarrow> string option \<Rightarrow> unit M" where
  "WriteToSldFile pageNum val ty symbol = mod_outp (\<lambda>w.
     if sldActive w \<and> ty \<noteq> NUL then w\<lparr>sldFile := sldFile w @ [(pageNum, val, ty, symbol)]\<rparr> else w)"

definition sld_device_text :: "CDeviceSlot \<Rightarrow> CDevice \<Rightarrow> string" where
  "sld_device_text slot dev =
     ''pages.size:'' @ fmt_d (slot_Size slot) @ '',pages.count:'' @ fmt_d (int (length (dev_Pages dev))) @
     '',slots.count:'' @ fmt_d (int (length (dev_Slots dev))) @
     concat (map (\<lambda>i. (if i = 0 then '',slots.adr:'' else '','') @ fmt_d (slot_Address (dev_Slots dev ! i)))
       [0..<length (dev_Slots dev)])"

text \<open>Finding the device in the list of devices, or making it and putting it at the end of the list.\<close>

definition find_device :: "string \<Rightarrow> aint \<Rightarrow> nat option M" where
  "find_device i ramtop = do {
     d \<leftarrow> gets dv;
     (case find (\<lambda>n. dev_ID (Devices d ! n) = i) [0..<length (Devices d)] of
        Some n \<Rightarrow> ret (Some n)
      | None \<Rightarrow> do {
          new \<leftarrow> make_device i ramtop;
          (case new of
             None \<Rightarrow> ret None
           | Some dev \<Rightarrow> do {
               mod_dv (\<lambda>d. d\<lparr>Devices := Devices d @ [dev]\<rparr>);
               ret (Some (length (Devices d))) }) }) }"

definition SetDevice :: "string option \<Rightarrow> aint \<Rightarrow> bool M" where
  "SetDevice const_id ramtop =
     (case const_id of
        None \<Rightarrow> do { mod_dv (\<lambda>d. d\<lparr>DeviceID := None, Device := None\<rparr>); ret True }
      | Some i \<Rightarrow>
          if fst (cmphstr ''none'' False i) then do {
            mod_dv (\<lambda>d. d\<lparr>DeviceID := None, Device := None\<rparr>); ret True }
          else do {
            cid \<leftarrow> gets (\<lambda>s. DeviceID (dv s));
            ok \<leftarrow> (if cid = Some i then ret True
              else do {
                mod_dv (\<lambda>d. d\<lparr>DeviceID := None\<rparr>);
                found \<leftarrow> find_device i ramtop;
                (case found of
                   None \<Rightarrow> ret False
                 | Some n \<Rightarrow> do {
                     mod_dv (\<lambda>d. d\<lparr>Device := Some n, DeviceID := Some (dev_ID (Devices d ! n))\<rparr>);
                     CheckPage CHECK_RESET;
                     ret True }) });
            if \<not> ok then ret False
            else do {
              dev \<leftarrow> gets the_dev;
              whenM (ramtop \<noteq> 0 \<and> dev_ZxRamTop dev \<noteq> 0 \<and> ramtop \<noteq> dev_ZxRamTop dev)
                (WarningById W_DEV_RAMTOP None W_PASS3);
              a \<leftarrow> gets IsSldExportActive;
              whenM a (do {
                slot \<leftarrow> GetCurrentSlot dev;
                WriteToSldFile (-1) (-1) CHR ''Z'' (Some (sld_device_text slot dev)) });
              ret True } })"

section \<open>The output buffer and the tape block\<close>

abbreviation (input) LIST_EMIT_BYTES_BUFFER_SIZE :: nat where "LIST_EMIT_BYTES_BUFFER_SIZE \<equiv> 65536"
abbreviation (input) DESTBUFLEN :: nat where "DESTBUFLEN \<equiv> 8192"

text \<open>A \<^verbatim>\<open>char\<close> of the buffer as a signed number.\<close>

definition sbyte :: "int \<Rightarrow> int" where
  "sbyte b = (if b < 128 then b else b - 256)"

text \<open>\<^verbatim>\<open>CloseTapFile\<close> after its call of \<^verbatim>\<open>WriteDest\<close>; it returns the tape block of the closed file: the length
  goes to the front of the block, the parity to its end.\<close>

definition close_tap :: "int list option M" where
  "close_tap = do {
     w \<leftarrow> gets outp;
     (case FP_tapout w of
        None \<Rightarrow> ret None
      | Some f \<Rightarrow> do {
          mod_outp (\<lambda>w. w\<lparr>FP_tapout := None, destlen := 0\<rparr>);
          ret (Some ([tape_length w AND 0xFF, drop_bit 8 (tape_length w) AND 0xFF] @ drop 2 f @
            [tape_parity w AND 0xFF])) }) }"

text \<open>A nested call of \<^verbatim>\<open>WriteDest\<close> by \<^verbatim>\<open>CloseTapFile\<close> finds the buffer empty and returns at once.\<close>

definition write_tap :: "int list \<Rightarrow> unit M" where
  "write_tap wb = do {
     w \<leftarrow> gets outp;
     (case FP_tapout w of
        None \<Rightarrow> ret ()
      | Some f \<Rightarrow> do {
          let write_length = (if 65535 < tape_length w + int (length wb) then 65535 - tape_length w else int (length wb));
          let written = take (nat write_length) wb;
          mod_outp (\<lambda>w. w\<lparr>FP_tapout := Some (f @ written),
            tape_parity := fold (\<lambda>b p. p XOR sbyte b) written (tape_parity w),
            tape_length := tape_length w + write_length\<rparr>);
          whenM (write_length < int (length wb)) (do {
            mod_outp (\<lambda>w. w\<lparr>WriteBuffer := []\<rparr>);
            close_tap;
            Error ''Tape block exceeds maximal size'' None E_PASS3 }) }) }"

definition WriteDest :: "unit M" where
  "WriteDest = do {
     w \<leftarrow> gets outp;
     let wb = WriteBuffer w;
     if wb = [] then ret ()
     else do {
       mod_outp (\<lambda>w. w\<lparr>destlen := destlen w + int (length wb),
         FP_Output := map_option (\<lambda>f. f @ wb) (FP_Output w), FP_RAW := map_option (\<lambda>f. f @ wb) (FP_RAW w)\<rparr>);
       write_tap wb;
       mod_outp (\<lambda>w. w\<lparr>WriteBuffer := []\<rparr>) } }"

definition CloseTapFile :: "int list option M" where
  "CloseTapFile = do { WriteDest; close_tap }"

text \<open>\<open>opened\<close>: the file could be opened. The block starts at the end of the file (\<^verbatim>\<open>tape_seek\<close>).\<close>

definition OpenTapFile :: "bool \<Rightarrow> string \<Rightarrow> int \<Rightarrow> int list option M" where
  "OpenTapFile opened tapename flagbyte = do {
     old \<leftarrow> CloseTapFile;
     (if opened then mod_outp (\<lambda>w. w\<lparr>FP_tapout := Some [0, 0, flagbyte mod 256], tape_parity := flagbyte,
        tape_length := 2, destlen := 0\<rparr>)
      else Error ''opening file for write'' (Some tapename) E_PASS3);
     ret old }"

definition DidEmitByte :: "bool M" where
  "DidEmitByte = do {
     b \<leftarrow> gets (\<lambda>s. someByteEmitted (outp s));
     mod_outp (\<lambda>w. w\<lparr>someByteEmitted := False\<rparr>);
     ret b }"

definition DidWriteOutputByte :: "asm \<Rightarrow> bool" where
  "DidWriteOutputByte s \<longleftrightarrow> (let w = outp s in
     (FP_Output w \<noteq> None \<or> FP_RAW w \<noteq> None \<or> FP_tapout w \<noteq> None) \<and> int (length (WriteBuffer w)) + destlen w \<noteq> 0)"

section \<open>Emitting\<close>

definition CheckRamLimitExceeded :: "unit M" where
  "CheckRamLimitExceeded = do {
     s \<leftarrow> State_Monad.get;
     if IsLongPtr (opts s) then ret ()
     else do {
       (if 0x10000 \<le> CurAddress s then do {
          whenM (pass s = LASTPASS \<and> notWarnedCurAdr (outp s)) (do {
            Warning (''RAM limit exceeded 0x'' @ fmt_X (CurAddress s) @ '' by '' @
              (if PseudoORG s \<noteq> DISP_NONE then ''DISP'' else ''ORG'')) None W_PASS3;
            mod_outp (\<lambda>w. w\<lparr>notWarnedCurAdr := False\<rparr>) });
          whenM (PseudoORG s \<noteq> DISP_NONE) (modify (\<lambda>s. s\<lparr>CurAddress := CurAddress s AND 0xFFFF\<rparr>)) }
        else mod_outp (\<lambda>w. w\<lparr>notWarnedCurAdr := True\<rparr>));
       (if PseudoORG s \<noteq> DISP_NONE \<and> 0x10000 \<le> adrdisp s then
          whenM (pass s = LASTPASS \<and> notWarnedDisp (outp s)) (do {
            Warning (''RAM limit exceeded 0x'' @ fmt_X (adrdisp s) @ '' by ORG'') None W_PASS3;
            mod_outp (\<lambda>w. w\<lparr>notWarnedDisp := False\<rparr>) })
        else mod_outp (\<lambda>w. w\<lparr>notWarnedDisp := True\<rparr>)) } }"

definition resolveRelocationAndSmartSmc :: "aint \<Rightarrow> reloc_type \<Rightarrow> unit M" where
  "resolveRelocationAndSmartSmc immediateOffset minType = do {
     resolveRelocationAffected immediateOffset minType;
     s \<leftarrow> State_Monad.get;
     if immediateOffset = INT_MAX \<or> sourcePosStack s = [] \<or> smartSmcIndex s = 0 then ret ()
     else if length (smartSmcLines s) < smartSmcIndex s then ret ()
     else
       let k = smartSmcIndex s - 1; smartSmc = smartSmcLines s ! k; here = last (sourcePosStack s) in
       if colBegin smartSmc \<noteq> 4294967295 \<or> tfp_filename smartSmc \<noteq> tfp_filename here \<or> tfp_line smartSmc \<noteq> tfp_line here
       then ret ()
       else if 1 < colBegin here then ret ()
       else modify (\<lambda>s. s\<lparr>smartSmcLines := (smartSmcLines s)[k := smartSmc\<lparr>colBegin := nat (immediateOffset mod 4294967296)\<rparr>]\<rparr>) }"

definition incr_address :: "asm \<Rightarrow> asm" where
  "incr_address s = (if PseudoORG s \<noteq> DISP_NONE then s\<lparr>CurAddress := CurAddress s + 1, adrdisp := adrdisp s + 1\<rparr>
     else s\<lparr>CurAddress := CurAddress s + 1\<rparr>)"

definition poke_mp :: "int \<Rightarrow> int \<Rightarrow> unit M" where
  "poke_mp p b = upd_dev (\<lambda>d. d\<lparr>dev_Memory := (dev_Memory d)(p := b)\<rparr>)"

definition emit_output :: "int \<Rightarrow> unit M" where
  "emit_output b = do {
     mod_outp (\<lambda>w. w\<lparr>WriteBuffer := WriteBuffer w @ [b mod 256]\<rparr>);
     n \<leftarrow> gets (\<lambda>s. length (WriteBuffer (outp s)));
     whenM (n = DESTBUFLEN) WriteDest;
     h \<leftarrow> gets (\<lambda>s. FP_HEX (outp s));
     whenM (h \<noteq> None) (EmitToHex (b mod 256)) }"

definition emit_device :: "int \<Rightarrow> bool \<Rightarrow> unit M" where
  "emit_device b poke = do {
     CheckPage CHECK_EMIT;
     mp \<leftarrow> gets (\<lambda>s. MemoryPointer (dv s));
     (case mp of
        None \<Rightarrow> ret ()
      | Some p \<Rightarrow> do {
          whenM poke (poke_mp p (b mod 256));
          set_mp (Some (p + 1)) }) }"

definition EmitByteNoListing :: "int \<Rightarrow> bool \<Rightarrow> unit M" where
  "EmitByteNoListing b preserveDeviceMemory = do {
     mod_outp (\<lambda>w. w\<lparr>someByteEmitted := True\<rparr>);
     ps \<leftarrow> gets pass;
     whenM (ps = LASTPASS) (emit_output b);
     d \<leftarrow> gets (\<lambda>s. DeviceID (dv s));
     (if d \<noteq> None then emit_device b (ps = LASTPASS \<and> \<not> preserveDeviceMemory) else CheckRamLimitExceeded);
     modify incr_address }"

text \<open>The trace line for an instruction.\<close>

definition sld_trace :: "unit M" where
  "sld_trace = do {
     s \<leftarrow> State_Monad.get;
     whenM (IsSldExportActive s) (do {
       let mappingPageNum = GetPageOfA16 (the_dev s) (CurAddress s);
       let pageNum = (if PseudoORG s = DISP_NONE then int (PageCur (dv s))
                      else if dispPageNum s = LABEL_PAGE_UNDEFINED then mappingPageNum else dispPageNum s);
       whenM (PseudoORG s \<noteq> DISP_NONE \<and> dispPageNum s \<noteq> LABEL_PAGE_UNDEFINED \<and> pageNum \<noteq> mappingPageNum \<and>
              \<not> PageDiffersWarningShown (outp s)) (do {
         WarningById W_DISP_MEM_PAGE None W_PASS3;
         mod_outp (\<lambda>w. w\<lparr>PageDiffersWarningShown := True\<rparr>) });
       WriteToSldFile pageNum (CurAddress s) CHR ''T'' None }) }"

definition EmitByte :: "int \<Rightarrow> bool \<Rightarrow> unit M" where
  "EmitByte b0 isInstructionStart = do {
     whenM isInstructionStart sld_trace;
     let b = b0 AND 0xFF;
     mod_outp (\<lambda>w. if length (ListEmittedBytes w) < LIST_EMIT_BYTES_BUFFER_SIZE - 1
       then w\<lparr>ListEmittedBytes := ListEmittedBytes w @ [b]\<rparr>
       else if length (ListEmittedBytes w) < LIST_EMIT_BYTES_BUFFER_SIZE
       then w\<lparr>ListEmittedBytes := ListEmittedBytes w @ [-2]\<rparr> else w);
     EmitByteNoListing b False }"

definition EmitWord :: "int \<Rightarrow> bool \<Rightarrow> unit M" where
  "EmitWord wd isInstructionStart = do {
     EmitByte (wd AND 0xFF) isInstructionStart;
     EmitByte (drop_bit 8 wd AND 0xFF) False }"

text \<open>An array that ends with \<open>BYTES_END_MARKER\<close>; the end of the list is taken for the marker, too.\<close>

fun emit_all :: "int list \<Rightarrow> bool \<Rightarrow> unit M" where
  "emit_all [] st = ret ()"
| "emit_all [b] st = (if b = BYTES_END_MARKER then ret () else EmitByte b st)"
| "emit_all (b # c # bs) st =
     (if b = BYTES_END_MARKER then ret ()
      else do {
        EmitByte b st;
        if c = INSTRUCTION_START_MARKER then emit_all bs True else emit_all (c # bs) False })"

definition EmitBytes :: "int list \<Rightarrow> bool \<Rightarrow> unit M" where
  "EmitBytes bs isInstructionStart = do {
     whenM (bs = [] \<or> hd bs = BYTES_END_MARKER) (do {
       l \<leftarrow> gets line;
       Error ''Illegal instruction'' (Some l) E_IF_FIRST;
       modify (\<lambda>s. s\<lparr>lp := SkipToEol (lp s)\<rparr>) });
     emit_all bs isInstructionStart }"

fun emit_words :: "int list \<Rightarrow> bool \<Rightarrow> unit M" where
  "emit_words [] st = ret ()"
| "emit_words (w # ws) st = (if w = BYTES_END_MARKER then ret () else do { EmitWord w st; emit_words ws False })"

definition EmitWords :: "int list \<Rightarrow> bool \<Rightarrow> unit M" where
  "EmitWords ws isInstructionStart = emit_words ws isInstructionStart"

text \<open>\<open>emit_block n\<close>: the loop of \<^verbatim>\<open>EmitBlock\<close> with \<open>n\<close> rounds left.\<close>

fun emit_block :: "nat \<Rightarrow> aint \<Rightarrow> bool \<Rightarrow> int \<Rightarrow> unit M" where
  "emit_block 0 b keep_mem maxl = ret ()"
| "emit_block (Suc n) b keep_mem maxl = do {
     s \<leftarrow> State_Monad.get;
     let dVal = (case MemoryPointer (dv s) of
                   Some p \<Rightarrow> if keep_mem \<and> DeviceID (dv s) \<noteq> None then dev_Memory (the_dev s) p else b
                 | None \<Rightarrow> b);
     EmitByteNoListing b keep_mem;
     if pass s = LASTPASS \<and> maxl \<noteq> 0 then do {
       mod_outp (\<lambda>w. w\<lparr>ListEmittedBytes := ListEmittedBytes w @ [if maxl - 1 = 0 \<and> n \<noteq> 0 then -2 else dVal AND 0xFF]\<rparr>);
       emit_block n b keep_mem (maxl - 1) }
     else emit_block n b keep_mem maxl }"

definition EmitBlock :: "aint \<Rightarrow> aint \<Rightarrow> bool \<Rightarrow> int \<Rightarrow> unit M" where
  "EmitBlock b len preserveDeviceMemory emitMaxToListing =
     (if len \<le> 0 then do {
        modify (\<lambda>s. if PseudoORG s \<noteq> DISP_NONE then s\<lparr>CurAddress := wrap32 (CurAddress s + len), adrdisp := wrap32 (adrdisp s + len)\<rparr>
                    else s\<lparr>CurAddress := wrap32 (CurAddress s + len)\<rparr>);
        d \<leftarrow> gets (\<lambda>s. DeviceID (dv s));
        if d \<noteq> None then CheckPage CHECK_NO_EMIT else CheckRamLimitExceeded }
      else do {
        n \<leftarrow> gets (\<lambda>s. length (ListEmittedBytes (outp s)));
        emit_block (nat len) b preserveDeviceMemory
          (if int LIST_EMIT_BYTES_BUFFER_SIZE \<le> int n + emitMaxToListing then int LIST_EMIT_BYTES_BUFFER_SIZE - int n
           else emitMaxToListing) })"


section \<open>Including a binary file\<close>

text \<open>\<open>content\<close> is the file, None when it can not be opened. The passes before the last one only advance
  the address, page by page.\<close>

fun skip_pages :: "nat \<Rightarrow> aint \<Rightarrow> unit M" where
  "skip_pages 0 len = out_of_fuel"
| "skip_pages (Suc n) len =
     (if len = 0 then ret ()
      else do {
        d \<leftarrow> gets (\<lambda>s. DeviceID (dv s));
        adv \<leftarrow> (if d = None then ret len
          else do {
            CheckPage CHECK_EMIT;
            s \<leftarrow> State_Monad.get;
            (case MemoryPointer (dv s) of
               None \<Rightarrow> ret len
             | Some p \<Rightarrow> do {
                 let pg = dev_Pages (the_dev s) ! PageCur (dv s);
                 let room = page_RAM pg + page_Size pg - p;
                 let adv = (if len < room then len else room);
                 set_mp (Some (p + adv));
                 ret adv }) });
        whenM (len - adv \<le> 0 \<and> adv = 0) (Error ''BinIncFile internal error'' None E_FATAL);
        modify (\<lambda>s. if PseudoORG s \<noteq> DISP_NONE then s\<lparr>CurAddress := wrap32 (CurAddress s + adv), adrdisp := wrap32 (adrdisp s + adv)\<rparr>
                    else s\<lparr>CurAddress := wrap32 (CurAddress s + adv)\<rparr>);
        skip_pages n (len - adv) })"

fun emit_file :: "int list \<Rightarrow> unit M" where
  "emit_file [] = ret ()"
| "emit_file (b # bs) = do { EmitByteNoListing b False; emit_file bs }"

definition BinIncFile :: "string \<Rightarrow> int list option \<Rightarrow> aint \<Rightarrow> aint \<Rightarrow> unit M" where
  "BinIncFile name content offset0 length0 = do {
     whenM (content = None) (Error ''opening file'' (Some name) E_PASS3);
     let totlen = (case content of None \<Rightarrow> 0 | Some c \<Rightarrow> int (length c));
     let offset1 = (if offset0 < 0 then wrap32 (offset0 + totlen) else offset0);
     let length1 = (if length0 < 0 then wrap32 (length0 + (totlen - offset1)) else length0);
     let length2 = (if length1 = INT_MAX then wrap32 (totlen - offset1) else length1);
     let bad = (offset1 < 0 \<or> length2 < 0 \<or> totlen < wrap32 (offset1 + length2));
     whenM bad (Error ''file too short'' (Some name) E_PASS3);
     let offset = (if bad then max 0 (min offset1 totlen) else offset1);
     let len = (if bad then max 0 (min length2 (totlen - offset)) else length2);
     if len = 0 then Warning ''include data: requested to include no data (length=0)'' None W_PASS3
     else do {
       ps \<leftarrow> gets pass;
       if ps \<noteq> LASTPASS then skip_pages (Suc (nat len)) len
       else emit_file (take (nat len) (drop (nat offset) (the content))) } }"

section \<open>The relocation table\<close>

fun emit_offsets :: "nat list \<Rightarrow> aint \<Rightarrow> unit M" where
  "emit_offsets [] subtract_offset = ret ()"
| "emit_offsets (k # ks) subtract_offset = do {
     r \<leftarrow> gets rel;
     EmitWord ((if k < length (offsets r) then offsets r ! k else offsetsPrevious r ! k) - subtract_offset) False;
     emit_offsets ks subtract_offset }"

definition dirRELOCATE_TABLE :: "unit M" where
  "dirRELOCATE_TABLE = do {
     eol \<leftarrow> lexM SkipBlanks;
     sub \<leftarrow> (if eol then ret (Some 0) else on_lp ParseExpressionNoSyntaxError);
     (case sub of
        None \<Rightarrow> do {
          b \<leftarrow> gets bp;
          Error ''[RELOCATE_TABLE] Syntax error in <subtract_offset>'' (Some b) E_SUPPRESS }
      | Some subtract_offset \<Rightarrow> do {
          refreshMaxTableCount;
          n \<leftarrow> gets (\<lambda>s. maxTableCount (rel s));
          emit_offsets [0..<n] subtract_offset;
          p \<leftarrow> gets pass;
          mod_rel (\<lambda>r. r\<lparr>warnAboutContentChange := (p = LASTPASS)\<rparr>) }) }"

end
