(* ===== verification/Sj_Hoare.thy ===== *)
theory Sj_Hoare
  imports Sj_Diag
begin

text \<open>
  Hoare triples for the state monad, for computations whose start and end state satisfy different
  assertions. The rules work backwards, one per combinator, like the invariant rules of \<open>Sj_Logic\<close>;
  \<open>hoare_frame\<close> takes a computation that keeps the variables an assertion depends on.
\<close>

definition hoare :: "(asm \<Rightarrow> bool) \<Rightarrow> 'a M \<Rightarrow> ('a \<Rightarrow> asm \<Rightarrow> bool) \<Rightarrow> bool" where
  "hoare P m Q \<longleftrightarrow> (\<forall>s. P s \<longrightarrow> Q (fst (run_state m s)) (snd (run_state m s)))"

lemma hoareD: "hoare P m Q \<Longrightarrow> P s \<Longrightarrow> run_state m s = (r, s') \<Longrightarrow> Q r s'"
  by (auto simp: hoare_def)

lemma hoareI: "(\<And>s r s'. P s \<Longrightarrow> run_state m s = (r, s') \<Longrightarrow> Q r s') \<Longrightarrow> hoare P m Q"
  unfolding hoare_def by (metis prod.collapse)

lemma hoare_conseq:
  "hoare P m Q \<Longrightarrow> (\<And>s. P' s \<Longrightarrow> P s) \<Longrightarrow> (\<And>r s. Q r s \<Longrightarrow> Q' r s) \<Longrightarrow> hoare P' m Q'"
  by (auto simp: hoare_def)

lemma hoare_post: "hoare P m Q \<Longrightarrow> (\<And>r s. Q r s \<Longrightarrow> Q' r s) \<Longrightarrow> hoare P m Q'"
  by (auto simp: hoare_def)

lemma hoare_pre: "hoare P m Q \<Longrightarrow> (\<And>s. P' s \<Longrightarrow> P s) \<Longrightarrow> hoare P' m Q"
  by (auto simp: hoare_def)

lemma hoare_assume: "(\<And>s. P s \<Longrightarrow> hoare P m Q) \<Longrightarrow> hoare P m Q"
  by (auto simp: hoare_def)

lemma hoare_bind: "hoare P m R \<Longrightarrow> (\<And>x. hoare (R x) (f x) Q) \<Longrightarrow> hoare P (m \<bind> f) Q"
  by (auto simp: hoare_def split: prod.split)

lemma hoare_ret: "(\<And>s. P s \<Longrightarrow> Q x s) \<Longrightarrow> hoare P (ret x) Q"
  by (simp add: hoare_def)

lemma hoare_gets: "(\<And>s. P s \<Longrightarrow> Q (f s) s) \<Longrightarrow> hoare P (gets f) Q"
  by (simp add: hoare_def)

lemma hoare_gets_const: "(\<And>s. P s \<Longrightarrow> f s = v) \<Longrightarrow> hoare P (g v) Q \<Longrightarrow> hoare P (gets f \<bind> g) Q"
  by (auto simp: hoare_def)

lemma hoare_get: "(\<And>s. P s \<Longrightarrow> Q s s) \<Longrightarrow> hoare P State_Monad.get Q"
  by (simp add: hoare_def State_Monad.get_def)

lemma hoare_modify: "(\<And>s. P s \<Longrightarrow> Q () (f s)) \<Longrightarrow> hoare P (modify f) Q"
  by (simp add: hoare_def)

lemma hoare_if: "(b \<Longrightarrow> hoare P m Q) \<Longrightarrow> (\<not> b \<Longrightarrow> hoare P n Q) \<Longrightarrow> hoare P (if b then m else n) Q"
  by simp

lemma hoare_whenM: "(b \<Longrightarrow> hoare P m Q) \<Longrightarrow> (\<And>s. \<not> b \<Longrightarrow> P s \<Longrightarrow> Q () s) \<Longrightarrow> hoare P (whenM b m) Q"
  by (auto simp: hoare_def)

lemma hoare_case_option:
  "(x = None \<Longrightarrow> hoare P m Q) \<Longrightarrow> (\<And>a. x = Some a \<Longrightarrow> hoare P (f a) Q) \<Longrightarrow>
   hoare P (case x of None \<Rightarrow> m | Some a \<Rightarrow> f a) Q"
  by (cases x) simp_all

lemma hoare_case_prod: "(\<And>a b. x = (a, b) \<Longrightarrow> hoare P (f a b) Q) \<Longrightarrow> hoare P (case x of (a, b) \<Rightarrow> f a b) Q"
  by (cases x) simp

lemma hoare_let: "(\<And>a. a = x \<Longrightarrow> hoare P (f a) Q) \<Longrightarrow> hoare P (let a = x in f a) Q"
  by (simp add: Let_def)

text \<open>An assertion on the variable \<open>f\<close> survives a computation that keeps \<open>f\<close>.\<close>

lemma hoare_frame:
  assumes "keeps f m" "\<And>s t. f s = f t \<Longrightarrow> P s \<Longrightarrow> P t"
  shows "hoare P m (\<lambda>_. P)"
  using assms by (auto simp: hoare_def keeps_def state_io_rel_def split_beta)

lemma hoare_diag:
  assumes "diag_only m" "\<And>s d h. P (s\<lparr>dg := d, halted := h\<rparr>) = P s"
  shows "hoare P m (\<lambda>_. P)"
  by (rule hoare_frame [OF keeps_diag [of m P]]) (use assms in auto)

end
