(* ===== verification/Sj_Emit_Safe.thy ===== *)
theory Sj_Emit_Safe
  imports Sj_Emit Sj_Hoare
begin

text \<open>
  Memory safety and functional behaviour of emitting: the pointer into the device memory is null or
  points into the memory block after every page check, whatever the slot options, so that emitting
  never writes outside the block; inside the address space a byte goes to the place the current mapping
  gives; a tape block has the right length and parity.
\<close>

section \<open>Invariant\<close>

text \<open>The current device is well formed with slots of size \<open>sz\<close> and has \<open>N\<close> pages.\<close>

definition dev_inv :: "int \<Rightarrow> nat \<Rightarrow> asm \<Rightarrow> bool" where
  "dev_inv sz N s \<longleftrightarrow> (\<exists>i. Device (dv s) = Some i \<and> i < length (Devices (dv s))) \<and>
     wf_device sz (the_dev s) \<and> length (dev_Pages (the_dev s)) = N"

definition mp_ok :: "int \<Rightarrow> nat \<Rightarrow> asm \<Rightarrow> bool" where
  "mp_ok sz N s \<longleftrightarrow> (\<forall>p. MemoryPointer (dv s) = Some p \<longrightarrow> 0 \<le> p \<and> p < int N * sz)"

definition mem_safe :: "int \<Rightarrow> nat \<Rightarrow> asm \<Rightarrow> bool" where
  "mem_safe sz N s \<longleftrightarrow> dev_inv sz N s \<and> mp_ok sz N s"

lemma the_dev_dv: "the_dev (s\<lparr>dv := d\<rparr>) = Devices d ! the (Device d)"
  by (simp add: the_dev_def)

lemma dev_inv_cong: "dv s = dv t \<Longrightarrow> dev_inv sz N s = dev_inv sz N t"
  by (simp add: dev_inv_def the_dev_def)

lemma mp_ok_cong: "dv s = dv t \<Longrightarrow> mp_ok sz N s = mp_ok sz N t"
  by (simp add: mp_ok_def)

lemma mem_safe_cong: "dv s = dv t \<Longrightarrow> mem_safe sz N s = mem_safe sz N t"
  by (simp add: mem_safe_def dev_inv_cong [of s t] mp_ok_cong [of s t])

lemma keeps_dv_diag: "diag_only m \<Longrightarrow> keeps dv m"
  by (rule keeps_diag) simp_all

lemma keeps_dv_SizeBoundary: "keeps dv (SizeBoundary b)"
  unfolding SizeBoundary_def by (intro keep keeps_dv_diag reporting; simp)

lemma keeps_dv_wrap_disp: "keeps dv (wrap_disp l)"
  unfolding wrap_disp_def by (intro keep keeps_dv_diag keeps_dv_SizeBoundary reporting; simp)

lemmas keeps_dv = keeps_dv_SizeBoundary keeps_dv_wrap_disp
  keeps_dv_diag [OF diag_only_Error] keeps_dv_diag [OF diag_only_ErrorInt] keeps_dv_diag [OF diag_only_Warning]
  keeps_dv_diag [OF diag_only_WarningById]

lemma hoare_dv: "keeps dv m \<Longrightarrow> (\<And>s t. dv s = dv t \<Longrightarrow> P s \<Longrightarrow> P t) \<Longrightarrow> hoare P m (\<lambda>_. P)"
  by (rule hoare_frame)

lemma upd_dev_run:
  assumes "dev_inv sz N s"
  shows "the_dev (snd (run_state (upd_dev f) s)) = f (the_dev s)"
    and "MemoryPointer (dv (snd (run_state (upd_dev f) s))) = MemoryPointer (dv s)"
    and "\<exists>i. Device (dv (snd (run_state (upd_dev f) s))) = Some i \<and> i < length (Devices (dv (snd (run_state (upd_dev f) s))))"
    and "fst (run_state (upd_dev f) s) = ()"
  using assms by (auto simp: upd_dev_def dev_inv_def the_dev_def)

lemma hoare_upd_dev:
  assumes "\<And>d. P d \<Longrightarrow> wf_device sz d \<Longrightarrow> wf_device sz (f d) \<and> length (dev_Pages (f d)) = length (dev_Pages d)"
  shows "hoare (\<lambda>s. mem_safe sz N s \<and> P (the_dev s)) (upd_dev f) (\<lambda>_. mem_safe sz N)"
proof (rule hoareI)
  fix s r s' assume a: "mem_safe sz N s \<and> P (the_dev s)" "run_state (upd_dev f) s = (r, s')"
  then have i: "dev_inv sz N s" by (simp add: mem_safe_def)
  have "wf_device sz (f (the_dev s))" "length (dev_Pages (f (the_dev s))) = N"
    using assms [of "the_dev s"] i a(1) by (auto simp: dev_inv_def)
  then show "mem_safe sz N s'"
    using upd_dev_run [OF i, of f] a by (simp add: mem_safe_def dev_inv_def mp_ok_def)
qed

lemma slot_mp_bounds:
  assumes "wf_device sz dev" "i < length (dev_Slots dev)" "slot_covers a (dev_Slots dev ! i)"
  defines "p \<equiv> page_RAM (dev_Pages dev ! slot_Page (dev_Slots dev ! i)) + (a - slot_Address (dev_Slots dev ! i))"
  shows "0 \<le> p" "p < int (length (dev_Pages dev)) * sz"
proof -
  let ?S = "dev_Slots dev ! i"
  have S: "slot_Page ?S < length (dev_Pages dev)" "slot_Size ?S = sz" using wf_slotD [OF assms(1,2)] by auto
  have r: "page_RAM (dev_Pages dev ! slot_Page ?S) = int (slot_Page ?S) * sz" using wf_pageD [OF assms(1) S(1)] by simp
  have sz: "0 < sz" by (rule wf_deviceD(1) [OF assms(1)])
  show "0 \<le> p" using assms(3) sz by (simp add: p_def r slot_covers_def)
  have "p < (int (slot_Page ?S) + 1) * sz" using assms(3) S(2) by (simp add: p_def r slot_covers_def algebra_simps)
  also have "\<dots> \<le> int (length (dev_Pages dev)) * sz" using S(1) sz by (intro mult_right_mono) auto
  finally show "p < int (length (dev_Pages dev)) * sz" .
qed

lemma page_start_bounds:
  assumes "wf_device sz dev" "p < length (dev_Pages dev)"
  shows "0 \<le> page_RAM (dev_Pages dev ! p)" "page_RAM (dev_Pages dev ! p) < int (length (dev_Pages dev)) * sz"
  using wf_pageD(3) [OF assms] wf_deviceD(1) [OF assms(1)] assms(2) by simp_all

lemma masked_slot_lt: "masked_slot dev a = Some i \<Longrightarrow> i < length (dev_Slots dev)"
  by (auto simp: masked_slot_def find_Some_iff rev_nth)

section \<open>The page check\<close>


lemma wf_slot_upd:
  assumes "wf_device sz d" "prev < length (dev_Slots d)" "slot_Address S = slot_Address (dev_Slots d ! prev)"
    "slot_Size S = slot_Size (dev_Slots d ! prev)" "slot_Page S < length (dev_Pages d)"
  shows "wf_device sz (d\<lparr>dev_Slots := (dev_Slots d)[prev := S]\<rparr>)"
  using assms by (auto simp: wf_device_def nth_list_update)

text \<open>The states between the steps: the device, its slot count \<open>n\<close>.\<close>

definition slots_safe :: "int \<Rightarrow> nat \<Rightarrow> nat \<Rightarrow> asm \<Rightarrow> bool" where
  "slots_safe sz N n s \<longleftrightarrow> mem_safe sz N s \<and> length (dev_Slots (the_dev s)) = n"

lemma slots_safe_cong: "dv s = dv t \<Longrightarrow> slots_safe sz N n s = slots_safe sz N n t"
  by (simp add: slots_safe_def mem_safe_cong [of s t] the_dev_def)

lemma hoare_upd_slots:
  assumes "\<And>d. wf_device sz d \<Longrightarrow> length (dev_Slots d) = n \<Longrightarrow> P d \<Longrightarrow> wf_device sz (f d) \<and>
    length (dev_Pages (f d)) = length (dev_Pages d) \<and> length (dev_Slots (f d)) = length (dev_Slots d)"
  shows "hoare (\<lambda>s. slots_safe sz N n s \<and> P (the_dev s)) (upd_dev f) (\<lambda>_. slots_safe sz N n)"
proof (rule hoareI)
  fix s r s' assume a: "slots_safe sz N n s \<and> P (the_dev s)" "run_state (upd_dev f) s = (r, s')"
  then have i: "dev_inv sz N s" by (simp add: slots_safe_def mem_safe_def)
  have "wf_device sz (f (the_dev s))" "length (dev_Pages (f (the_dev s))) = N" "length (dev_Slots (f (the_dev s))) = n"
    using assms [of "the_dev s"] i a(1) by (auto simp: dev_inv_def slots_safe_def)
  then show "slots_safe sz N n s'"
    using upd_dev_run [OF i, of f] a by (simp add: slots_safe_def mem_safe_def dev_inv_def mp_ok_def)
qed

lemma upd_slots_safe:
  assumes "\<And>d. wf_device sz d \<Longrightarrow> length (dev_Slots d) = n \<Longrightarrow> wf_device sz (f d) \<and>
    length (dev_Pages (f d)) = length (dev_Pages d) \<and> length (dev_Slots (f d)) = length (dev_Slots d)"
  shows "hoare (slots_safe sz N n) (upd_dev f) (\<lambda>_. slots_safe sz N n)"
  by (rule hoare_pre [OF hoare_upd_slots [where P = "\<lambda>_. True" and f = f]]) (use assms in auto)

lemma refresh_check_safe: "i < n \<Longrightarrow> hoare (slots_safe sz N n) (refresh_check l i) (\<lambda>_. slots_safe sz N n)"
  unfolding refresh_check_def by (intro hoare_whenM upd_slots_safe) (simp_all add: wf_device_def)

lemma set_limit_safe:
  "hoare (slots_safe sz N n) (upd_dev (\<lambda>d. d\<lparr>limitExceeded := b\<rparr>)) (\<lambda>_. slots_safe sz N n)"
  "i < n \<Longrightarrow> hoare (slots_safe sz N n) (upd_dev (\<lambda>d. d\<lparr>limitExceeded := b, previousSlotI := i\<rparr>)) (\<lambda>_. slots_safe sz N n)"
  "i < n \<Longrightarrow> hoare (slots_safe sz N n) (upd_dev (\<lambda>d. d\<lparr>limitExceeded := b, previousSlotI := i,
     previousSlotOpt := slot_Option (dev_Slots d ! i)\<rparr>)) (\<lambda>_. slots_safe sz N n)"
  "i < n \<Longrightarrow> hoare (slots_safe sz N n) (upd_dev (\<lambda>d. d\<lparr>previousSlotOpt := op, previousSlotI := i,
     limitExceeded := b\<rparr>)) (\<lambda>_. slots_safe sz N n)"
  by (rule upd_slots_safe, simp add: wf_device_def)+

lemma safe_diag: "diag_only m \<Longrightarrow> hoare (slots_safe sz N n) m (\<lambda>_. slots_safe sz N n)"
  by (rule hoare_dv [OF keeps_dv_diag]) (use slots_safe_cong in blast)+

lemmas safe_reports = safe_diag [OF diag_only_Error] safe_diag [OF diag_only_ErrorInt] safe_diag [OF diag_only_Warning]


text \<open>Establishing a safe pointer.\<close>

lemma set_mp_safe:
  assumes "\<And>q. p = Some q \<Longrightarrow> 0 \<le> q \<and> q < int N * sz"
  shows "hoare (\<lambda>s. dev_inv sz N s \<and> length (dev_Slots (the_dev s)) = n) (set_mp p) (\<lambda>_. slots_safe sz N n)"
  unfolding set_mp_def using assms
  by (intro hoare_modify) (auto simp: slots_safe_def mem_safe_def dev_inv_def mp_ok_def the_dev_def)

text \<open>\<open>dev_at\<close>: in addition, the current device is \<open>dev\<close>.\<close>

definition dev_at :: "int \<Rightarrow> nat \<Rightarrow> nat \<Rightarrow> CDevice \<Rightarrow> asm \<Rightarrow> bool" where
  "dev_at sz N n dev s \<longleftrightarrow> slots_safe sz N n s \<and> the_dev s = dev"

lemma dev_atD: "dev_at sz N n dev s \<Longrightarrow> wf_device sz dev \<and> length (dev_Pages dev) = N \<and> length (dev_Slots dev) = n"
  by (auto simp: dev_at_def slots_safe_def mem_safe_def dev_inv_def)

lemma dev_at_safe: "dev_at sz N n dev s \<Longrightarrow> slots_safe sz N n s"
  by (simp add: dev_at_def)

lemma dev_at_error: "hoare (dev_at sz N n dev) (ErrorInt m v t) (\<lambda>_. dev_at sz N n dev)"
proof (rule hoare_dv [OF keeps_dv(4)])
  show "dev_at sz N n dev t" if "dv s = dv t" "dev_at sz N n dev s" for s t
    using that slots_safe_cong [OF that(1)] by (simp add: dev_at_def the_dev_def)
qed

lemma dev_at_slot_upd:
  assumes "slot_Address T = slot_Address (dev_Slots dev ! previousSlotI dev)"
    "slot_Size T = slot_Size (dev_Slots dev ! previousSlotI dev)"
    "wf_device sz dev \<Longrightarrow> slot_Page T < length (dev_Pages dev)"
  shows "hoare (dev_at sz N n dev) (upd_dev (\<lambda>d. d\<lparr>dev_Slots := (dev_Slots d)[previousSlotI dev := T]\<rparr>))
    (\<lambda>_. slots_safe sz N n)"
  by (rule hoare_pre [OF hoare_upd_slots [where P = "\<lambda>d. d = dev"]])
    (use wf_slot_upd [of sz dev "previousSlotI dev" T] wf_deviceD(4) assms in \<open>auto simp: dev_at_def\<close>)

lemma new_page_safe:
  assumes "wf_device sz dev" "length (dev_Pages dev) = N" "np < N" "\<And>s. dv (g s) = dv s"
  shows "hoare (slots_safe sz N n) (do { set_page np; modify g; set_mp (Some (page_RAM (dev_Pages dev ! np))) })
    (\<lambda>_. slots_safe sz N n)"
proof -
  let ?D = "\<lambda>s. dev_inv sz N s \<and> length (dev_Slots (the_dev s)) = n"
  have "hoare (slots_safe sz N n) (set_page np) (\<lambda>_. ?D)" unfolding set_page_def
    by (rule hoare_modify) (auto simp: slots_safe_def mem_safe_def dev_inv_def the_dev_def)
  moreover have "hoare ?D (modify g) (\<lambda>_. ?D)"
    by (rule hoare_modify) (use dev_inv_cong [OF assms(4)] assms(4) in \<open>simp add: the_dev_def\<close>)
  moreover have "hoare ?D (set_mp (Some (page_RAM (dev_Pages dev ! np)))) (\<lambda>_. slots_safe sz N n)"
    by (rule set_mp_safe) (use page_start_bounds [OF assms(1), of np] assms(2,3) in auto)
  ultimately show ?thesis by (intro hoare_bind)
qed

lemma map_next_page_safe:
  assumes "i < n"
  shows "hoare (slots_safe sz N n) (map_next_page l a i) (\<lambda>_. slots_safe sz N n)"
proof -
  note last_page = hoare_bind [OF dev_at_error hoare_bind [OF dev_at_slot_upd
    hoare_bind [OF set_limit_safe(3) [OF assms] refresh_check_safe [OF assms]]]]
  note too_late = hoare_bind [OF hoare_pre [OF safe_reports(2) dev_at_safe] refresh_check_safe [OF assms]]
  note next_page = hoare_bind [OF dev_at_slot_upd new_page_safe]
  have "hoare (dev_at sz N n dev) (map_page_after l a i dev) (\<lambda>_. slots_safe sz N n)"
    if w: "wf_device sz dev \<and> length (dev_Pages dev) = N \<and> length (dev_Slots dev) = n" for dev
    unfolding map_page_after_def Let_def
    by (intro hoare_if last_page too_late next_page) (use w wf_slotD(3) wf_deviceD(4) in auto)
  then have "hoare (dev_at sz N n dev) (map_page_after l a i dev) (\<lambda>_. slots_safe sz N n)" for dev
    using hoare_assume dev_atD by metis
  then show ?thesis
    unfolding map_next_page_def
    by (intro hoare_bind [OF hoare_dv [OF keeps_dv(1)]] hoare_bind [OF hoare_gets [where Q = "dev_at sz N n"]])
      (use slots_safe_cong in blast, simp add: dev_at_def, assumption)
qed

lemma leave_slot_safe:
  assumes "i < n"
  shows "hoare (slots_safe sz N n) (leave_slot l a i b w opt) (\<lambda>_. slots_safe sz N n)"
proof -
  have limit: "hoare (slots_safe sz N n) (do { whenM b (do { m; upd_dev f }); refresh_check l i }) (\<lambda>_. slots_safe sz N n)"
    if "hoare (slots_safe sz N n) m (\<lambda>_. slots_safe sz N n)"
      "hoare (slots_safe sz N n) (upd_dev f) (\<lambda>_. slots_safe sz N n)" for m :: "unit M" and f b
    by (rule hoare_bind [OF hoare_whenM [OF hoare_bind [OF that]] refresh_check_safe [OF assms]])
  show ?thesis
    unfolding leave_slot_def
    using limit [OF safe_reports(2) set_limit_safe(1)] limit [OF safe_reports(3) set_limit_safe(1)]
      limit [OF safe_reports(2) set_limit_safe(2) [OF assms]] map_next_page_safe [OF assms]
    by (cases opt) simp_all
qed

lemma enter_slot_safe:
  assumes "i < n" "wf_device sz dev" "length (dev_Pages dev) = N" "length (dev_Slots dev) = n"
  shows "hoare (\<lambda>s. dev_inv sz N s \<and> the_dev s = dev) (enter_slot l a i p dev) (\<lambda>_. slots_safe sz N n)"
proof -
  let ?D = "\<lambda>s. dev_inv sz N s \<and> length (dev_Slots (the_dev s)) = n"
  have page: "hoare (\<lambda>s. dev_inv sz N s \<and> the_dev s = dev) (set_page q) (\<lambda>_. ?D)" for q unfolding set_page_def
    by (rule hoare_modify) (use assms(4) in \<open>auto simp: dev_inv_def the_dev_def\<close>)
  have mp: "hoare ?D (set_mp (if slot_covers a (dev_Slots dev ! i)
      then Some (page_RAM (dev_Pages dev ! slot_Page (dev_Slots dev ! i)) + (a - slot_Address (dev_Slots dev ! i))) else None))
      (\<lambda>_. slots_safe sz N n)"
    by (rule set_mp_safe) (use assms slot_mp_bounds [of sz dev i a] in \<open>auto split: if_splits\<close>)
  show ?thesis
    unfolding enter_slot_def Let_def
    by (intro hoare_bind [OF page] hoare_bind [OF mp] hoare_if set_limit_safe(4) [OF assms(1)] hoare_ret
        leave_slot_safe [OF assms(1)])
qed

lemma masked_slot_wf:
  assumes "wf_device sz dev"
  obtains i where "masked_slot dev a = Some i" "i < length (dev_Slots dev)"
proof -
  have n: "0 < length (dev_Slots dev)" using wf_deviceD(2) [OF assms] by simp
  have "slot_Address (dev_Slots dev ! 0) = 0" using wf_slotD(1) [OF assms n] by simp
  then have "\<not> a AND 0xFFFF < slot_Address (dev_Slots dev ! 0)" by (simp add: not_less)
  then have "masked_slot dev a \<noteq> None" using n by (auto simp: masked_slot_def find_None_iff)
  then show thesis using that masked_slot_lt by blast
qed

lemma check_slots_safe:
  assumes "wf_device sz dev" "length (dev_Pages dev) = N"
  shows "hoare (\<lambda>s. dev_inv sz N s \<and> the_dev s = dev) (check_slots l a p dev) (\<lambda>_. mem_safe sz N)"
proof -
  let ?n = "length (dev_Slots dev)"
  obtain i where i: "masked_slot dev a = Some i" "i < ?n" by (rule masked_slot_wf [OF assms(1)])
  have "hoare (\<lambda>s. dev_inv sz N s \<and> the_dev s = dev) (check_slots l a p dev) (\<lambda>_. slots_safe sz N ?n)"
    unfolding check_slots_def Let_def i(1) option.case
    by (intro hoare_if hoare_pre [OF set_mp_safe] enter_slot_safe)
      (use assms slot_mp_bounds [OF assms(1) wf_deviceD(4) [OF assms(1)], of a] i(2) in auto)
  then show ?thesis by (rule hoare_post) (simp add: slots_safe_def)
qed

lemma CheckPage_safe: "hoare (dev_inv sz N) (CheckPage l) (\<lambda>_. mem_safe sz N)"
proof -
  have 1: "hoare (dev_inv sz N) (wrap_disp l) (\<lambda>_. dev_inv sz N)"
    by (rule hoare_dv [OF keeps_dv(2)]) (use dev_inv_cong in blast)
  have 2: "hoare (\<lambda>s. dev_inv sz N s \<and> s = t) (check_slots l (emit_address t) (pass t) (the_dev t)) (\<lambda>_. mem_safe sz N)" for t
  proof (rule hoare_assume)
    fix s assume "dev_inv sz N s \<and> s = t"
    then have "wf_device sz (the_dev t)" "length (dev_Pages (the_dev t)) = N" by (auto simp: dev_inv_def)
    from check_slots_safe [OF this] show ?thesis by (rule hoare_pre) auto
  qed
  show ?thesis unfolding CheckPage_def
    by (rule hoare_bind [OF 1], rule hoare_bind [OF hoare_get [where Q = "\<lambda>t s. dev_inv sz N s \<and> s = t"]]) (simp, rule 2)
qed

section \<open>Emitting stays inside the memory\<close>

text \<open>What the output functions leave alone.\<close>

definition core :: "asm \<Rightarrow> device_state \<times> aint \<times> aint \<times> EDispMode \<times> int \<times> reloc_state" where
  "core s = (dv s, CurAddress s, adrdisp s, PseudoORG s, pass s, rel s)"

lemma keeps_dv_core: "keeps core m \<Longrightarrow> keeps dv m"
  by (simp add: keeps_def state_io_rel_def core_def)

lemma keeps_core_diag: "diag_only m \<Longrightarrow> keeps core m"
  by (rule keeps_diag) (simp_all add: core_def)

lemmas keeps_core_reports = keeps_core_diag [OF diag_only_Error] keeps_core_diag [OF diag_only_WarningById]

lemma keeps_core_outp: "keeps core (mod_outp f)"
  by (intro keep) (simp add: core_def)

lemma keeps_core_Hex: "keeps core (EmitToHex b)"
proof -
  have p: "keeps core (PrintHex v n)" for v n
    unfolding PrintHex_def ExitASM_def by (intro keep; simp add: core_def)
  have d: "keeps core (hex_data c ds)" for c ds by (induction c ds rule: hex_data.induct) (simp_all, (intro keep p; simp)+)
  have w: "keeps core (WriteHexRecord t a ds)" for t a ds
    unfolding WriteHexRecord_def fputs_hex_def by (intro keep p d; simp add: core_def)
  have f: "keeps core FlushHexBuffer" unfolding FlushHexBuffer_def by (intro keep w; simp add: core_def)
  show ?thesis unfolding EmitToHex_def by (intro keep f; simp add: core_def)
qed

lemma keeps_core_WriteDest: "keeps core WriteDest"
proof -
  have c: "keeps core close_tap" unfolding close_tap_def by (intro keep; simp add: core_def)
  have t: "keeps core (write_tap wb)" for wb
    unfolding write_tap_def by (intro keep c keeps_core_reports; simp add: core_def)
  show ?thesis unfolding WriteDest_def by (intro keep t; simp add: core_def)
qed

lemma keeps_core_sld: "keeps core sld_trace"
  unfolding sld_trace_def WriteToSldFile_def by (intro keep keeps_core_reports; simp add: core_def)

lemma keeps_core_output: "keeps core (emit_output b)"
  unfolding emit_output_def by (intro keep keeps_core_Hex keeps_core_WriteDest; simp add: core_def)

lemmas keeps_core = keeps_core_output keeps_core_outp keeps_core_Hex keeps_core_WriteDest keeps_core_sld

definition mem_of :: "asm \<Rightarrow> int \<Rightarrow> int" where
  "mem_of s = dev_Memory (the_dev s)"

lemma keeps_mem_dv: "keeps dv m \<Longrightarrow> keeps mem_of m"
  by (simp add: keeps_def state_io_rel_def mem_of_def the_dev_def)

lemma dev_mem_cong: "dv s = dv t \<Longrightarrow> dev_inv sz N s \<and> mem_of s = m \<Longrightarrow> dev_inv sz N t \<and> mem_of t = m"
  using dev_inv_cong [of s t sz N] by (simp add: mem_of_def the_dev_def)

lemma keeps_mem_upd: "(\<And>d. dev_Memory (f d) = dev_Memory d) \<Longrightarrow> keeps mem_of (upd_dev f)"
  unfolding upd_dev_def
  by (intro keep) (auto simp: mem_of_def the_dev_def nth_list_update list_update_beyond not_less split: option.split,
      metis list_update_beyond not_less nth_list_update_eq)

lemma keeps_mem_set: "keeps mem_of (set_mp p)" "keeps mem_of (set_page q)"
  unfolding set_mp_def set_page_def by (intro keep; simp add: mem_of_def the_dev_def)+

lemmas keeps_mem_rules = keeps_mem_set keeps_dv [THEN keeps_mem_dv]

lemma keeps_mem_CheckPage: "keeps mem_of (CheckPage l)"
proof -
  have r: "keeps mem_of (refresh_check l i)" for l i
    unfolding refresh_check_def by (intro keep keeps_mem_upd) simp
  have "keeps mem_of (map_next_page l a i)" for l a i
    unfolding map_next_page_def map_page_after_def
    by (intro keep keeps_mem_rules r keeps_mem_upd; simp add: mem_of_def the_dev_def)
  then have "keeps mem_of (leave_slot l a i b w opt)" for l a i b w opt
    unfolding leave_slot_def by (cases opt) (simp_all, (intro keep keeps_mem_rules r keeps_mem_upd; simp)+)
  then show ?thesis
    unfolding CheckPage_def check_slots_def enter_slot_def by (intro keep keeps_mem_rules keeps_mem_upd; simp)
qed

text \<open>What may have changed in the memory: at most one byte, inside the block.\<close>

definition one_byte :: "int \<Rightarrow> (int \<Rightarrow> int) \<Rightarrow> (int \<Rightarrow> int) \<Rightarrow> bool" where
  "one_byte z m m' \<longleftrightarrow> m' = m \<or> (\<exists>p v. 0 \<le> p \<and> p < z \<and> m' = m(p := v))"

lemma one_byteI: "0 \<le> p \<Longrightarrow> p < z \<Longrightarrow> one_byte z m (m(p := v))"
  by (auto simp: one_byte_def)

lemma keeps_dv_CheckRam: "keeps dv CheckRamLimitExceeded"
  unfolding CheckRamLimitExceeded_def by (intro keep keeps_dv; simp)

lemma wf_device_mem: "wf_device sz (d\<lparr>dev_Memory := m\<rparr>) = wf_device sz d"
  by (simp add: wf_device_def)

lemma poke_mp_run:
  assumes "dev_inv sz N s"
  shows "dev_inv sz N (snd (run_state (poke_mp p b) s))" "mem_of (snd (run_state (poke_mp p b) s)) = (mem_of s)(p := b)"
    "MemoryPointer (dv (snd (run_state (poke_mp p b) s))) = MemoryPointer (dv s)"
  using assms upd_dev_run [OF assms, of "\<lambda>d. d\<lparr>dev_Memory := (dev_Memory d)(p := b)\<rparr>"]
  by (simp_all add: poke_mp_def dev_inv_def mem_of_def wf_device_mem)

lemma EmitByteNoListing_safe:
  "hoare (\<lambda>s. dev_inv sz N s \<and> mem_of s = m) (EmitByteNoListing b k)
     (\<lambda>_ s. dev_inv sz N s \<and> one_byte (int N * sz) m (mem_of s))"
proof -
  let ?I = "\<lambda>s. dev_inv sz N s \<and> mem_of s = m"
  let ?Q = "\<lambda>s. dev_inv sz N s \<and> one_byte (int N * sz) m (mem_of s)"
  have Q: "?Q t" if "dv s = dv t" "?Q s" for s t
    using that dev_inv_cong [OF that(1)] by (simp add: mem_of_def the_dev_def)
  have IQ: "?Q s" if "?I s" for s using that by (simp add: one_byte_def)
  have frame: "hoare ?I c (\<lambda>_. ?I)" if "keeps dv c" for c :: "unit M" by (rule hoare_dv [OF that]) (rule dev_mem_cong)
  have out: "hoare ?I (mod_outp g) (\<lambda>_. ?I)" for g by (rule frame [OF keeps_dv_core [OF keeps_core_outp]])
  have last: "hoare ?I (whenM c (emit_output b)) (\<lambda>_. ?I)" for c
    by (intro frame keeps_dv_core keep keeps_core)
  have check: "hoare ?I (CheckPage CHECK_EMIT) (\<lambda>_ s. ?I s \<and> mp_ok sz N s)"
    using CheckPage_safe [of sz N CHECK_EMIT] keeps_mem_CheckPage [of CHECK_EMIT]
    by (auto simp: hoare_def mem_safe_def keeps_def state_io_rel_def split_beta)
  have poke: "hoare (\<lambda>s. ?I s \<and> 0 \<le> p \<and> p < int N * sz) (whenM c (poke_mp p v)) (\<lambda>_. ?Q)" for c p v
    using poke_mp_run IQ by (intro hoare_whenM) (auto simp: hoare_def one_byteI)
  have mp: "hoare ?Q (set_mp x) (\<lambda>_. ?Q)" for x
    unfolding set_mp_def by (rule hoare_modify) (auto simp: dev_inv_def mem_of_def the_dev_def)
  have wr: "hoare (\<lambda>s. ?I s \<and> mp_ok sz N s \<and> MemoryPointer (dv s) = x)
      (case x of None \<Rightarrow> ret () | Some p \<Rightarrow> do { whenM c (poke_mp p v); set_mp (Some (p + 1)) }) (\<lambda>_. ?Q)" for x c v
    by (intro hoare_case_option hoare_ret hoare_bind [OF hoare_pre [OF poke]] mp) (auto simp: mp_ok_def one_byte_def)
  note dev = hoare_bind [OF check hoare_bind [OF hoare_gets [where Q = "\<lambda>x s. ?I s \<and> mp_ok sz N s \<and> MemoryPointer (dv s) = x"] wr]]
  have ram: "hoare ?I CheckRamLimitExceeded (\<lambda>_. ?Q)"
    by (rule hoare_post [OF frame [OF keeps_dv_CheckRam]]) (rule IQ)
  have inc: "hoare ?Q (modify incr_address) (\<lambda>_. ?Q)"
    by (rule hoare_modify, rule Q) (auto simp: incr_address_def)
  have any: "hoare ?I (gets g) (\<lambda>_. ?I)" for g :: "asm \<Rightarrow> 'z" by (rule hoare_gets)
  have "hoare ?I (emit_device b c) (\<lambda>_. ?Q)" for c unfolding emit_device_def by (rule dev) simp
  then show ?thesis unfolding EmitByteNoListing_def
    by (intro hoare_bind [OF out] hoare_bind [OF any] hoare_bind [OF last] hoare_bind [OF hoare_if inc] ram)
qed


lemma EmitByte_safe:
  "hoare (\<lambda>s. dev_inv sz N s \<and> mem_of s = m) (EmitByte b st)
     (\<lambda>_ s. dev_inv sz N s \<and> one_byte (int N * sz) m (mem_of s))"
proof -
  let ?I = "\<lambda>s. dev_inv sz N s \<and> mem_of s = m"
  have frame: "hoare ?I c (\<lambda>_. ?I)" if "keeps dv c" for c :: "unit M"
    by (rule hoare_dv [OF that]) (rule dev_mem_cong)
  show ?thesis unfolding EmitByte_def Let_def
    by (intro hoare_bind [OF frame [OF keeps_dv_core]] EmitByteNoListing_safe keep keeps_core)
qed

section \<open>Where a byte goes\<close>

lemma find_rev_upt: "k < n \<Longrightarrow> P k \<Longrightarrow> (\<And>j. k < j \<Longrightarrow> j < n \<Longrightarrow> \<not> P j) \<Longrightarrow> find P (rev [0..<n]) = Some k"
  by (induction n) (auto simp: less_Suc_eq)

lemma div_bounds:
  assumes "0 < (sz::int)"
  shows "a div sz * sz \<le> a" "a < a div sz * sz + sz"
  using pos_mod_sign [OF assms, of a] pos_mod_bound [OF assms, of a] div_mult_mod_eq [of a sz] by linarith+

lemma masked_slot_in_range:
  assumes "wf_device sz dev" "0 \<le> a" "a < int (length (dev_Slots dev)) * sz" "a < 0x10000"
  shows "masked_slot dev a = Some (nat (a div sz))"
proof -
  have "a AND 0xFFFF = a"
    using take_bit_int_eq_self [of a 16] assms(2,4) take_bit_eq_mask [of 16 a] by (simp add: mask_eq_exp_minus_1)
  note r = GetSlotOfA16_range [OF assms(1-3)]
  have sz: "0 < sz" by (rule wf_deviceD(1) [OF assms(1)])
  have adr: "slot_Address (dev_Slots dev ! i) = int i * sz" if "i < length (dev_Slots dev)" for i
    using wf_slotD(1) [OF assms(1) that] .
  note d = div_bounds [OF sz, of a]
  have "a < int j * sz" if "nat (a div sz) < j" for j
  proof -
    have "(a div sz + 1) * sz \<le> int j * sz" using that r(2) sz by (intro mult_right_mono) linarith+
    then show ?thesis using d(2) by (simp add: algebra_simps)
  qed
  moreover have "int (nat (a div sz)) * sz \<le> a" using d(1) r(2) by simp
  ultimately show ?thesis
    unfolding masked_slot_def \<open>a AND 0xFFFF = a\<close>
    by (intro find_rev_upt r(3)) (auto simp: adr r(3))
qed


text \<open>The addresses that are emitted to without leaving a slot with an option: the previous slot, or any slot when
  the previous one has no option.\<close>

definition plain_emit :: "int \<Rightarrow> asm \<Rightarrow> bool" where
  "plain_emit sz s \<longleftrightarrow> (let dev = the_dev s; a = CurAddress s in
     DeviceID (dv s) \<noteq> None \<and> PseudoORG s = DISP_NONE \<and>
     0 \<le> a \<and> a < int (length (dev_Slots dev)) * sz \<and> a < 0x10000 \<and>
     (slot_covers a (dev_Slots dev ! previousSlotI dev) \<or> previousSlotOpt dev = O_NONE))"

lemma slot_covers_wf:
  assumes "wf_device sz dev" "i < length (dev_Slots dev)"
  shows "slot_covers a (dev_Slots dev ! i) \<longleftrightarrow> a div sz = int i"
proof -
  have sz: "0 < sz" by (rule wf_deviceD(1) [OF assms(1)])
  have "int i * sz \<le> a \<and> a < int i * sz + sz \<longleftrightarrow> a div sz = int i"
    using div_bounds [OF sz, of a] int_div_pos_eq [of a sz "int i" "a - int i * sz"] by (auto simp: mult.commute)
  then show ?thesis using wf_slotD [OF assms] by (simp add: slot_covers_def)
qed

lemma slot_phys:
  assumes "wf_device sz dev" "i < length (dev_Slots dev)" "a div sz = int i"
  shows "page_RAM (dev_Pages dev ! slot_Page (dev_Slots dev ! i)) + (a - slot_Address (dev_Slots dev ! i)) = phys sz dev a"
proof -
  have "a - int i * sz = a mod sz" using assms(3) by (metis minus_div_mult_eq_mod)
  then show ?thesis
    using wf_slotD [OF assms(1,2)] wf_pageD(3) [OF assms(1)] assms(3) by (simp add: phys_def)
qed

lemma MemGetByte_phys:
  assumes "wf_device sz (the_dev s)" "DeviceID (dv s) \<noteq> None" "pass s = LASTPASS"
    and "0 \<le> a" "a < int (length (dev_Slots (the_dev s))) * sz"
  shows "run_state (MemGetByte a) s = (mem_of s (phys sz (the_dev s) a), s)"
proof -
  let ?dev = "the_dev s" and ?i = "nat (a div sz)"
  note r = GetSlotOfA16_range [OF assms(1,4,5)]
  have "slot_covers a (dev_Slots ?dev ! ?i)" using slot_covers_wf [OF assms(1) r(3), of a] r(2) by simp
  then have "find (slot_covers a) (dev_Slots ?dev) \<noteq> None" using r(3) by (auto simp: find_None_iff dest: nth_mem)
  then obtain S where S: "find (slot_covers a) (dev_Slots ?dev) = Some S" by blast
  then obtain k where k: "k < length (dev_Slots ?dev)" "S = dev_Slots ?dev ! k" "slot_covers a S" by (auto simp: find_Some_iff)
  then have "a div sz = int k" using slot_covers_wf [OF assms(1) k(1)] by simp
  from slot_phys [OF assms(1) k(1) this] show ?thesis
    using S k(2) assms(2,3) by (auto simp: MemGetByte_def State_Monad.get_def mem_of_def Let_def)
qed

lemma CheckPage_plain:
  assumes "dev_inv sz N s" "plain_emit sz s"
  obtains s' where "run_state (CheckPage CHECK_EMIT) s = ((), s')" "MemoryPointer (dv s') = Some (phys sz (the_dev s) (CurAddress s))"
    "dev_Slots (the_dev s') = dev_Slots (the_dev s)" "mem_of s' = mem_of s" "dev_inv sz N s'"
    "CurAddress s' = CurAddress s" "PseudoORG s' = PseudoORG s" "pass s' = pass s" "DeviceID (dv s') = DeviceID (dv s)"
proof -
  let ?dev = "the_dev s" and ?a = "CurAddress s"
  have wf: "wf_device sz ?dev" using assms(1) by (simp add: dev_inv_def)
  have p: "DeviceID (dv s) \<noteq> None" "PseudoORG s = DISP_NONE" "0 \<le> ?a" "?a < int (length (dev_Slots ?dev)) * sz" "?a < 0x10000"
    "slot_covers ?a (dev_Slots ?dev ! previousSlotI ?dev) \<or> previousSlotOpt ?dev = O_NONE"
    using assms(2) by (auto simp: plain_emit_def Let_def)
  note r = GetSlotOfA16_range [OF wf p(3,4)]
  have start: "run_state (CheckPage CHECK_EMIT) s = run_state (check_slots CHECK_EMIT ?a (pass s) ?dev) s"
    using p(2) by (simp add: CheckPage_def wrap_disp_def State_Monad.get_def emit_address_def)
  show thesis
  proof (cases "slot_covers ?a (dev_Slots ?dev ! previousSlotI ?dev)")
    case True
    have "?a div sz = int (previousSlotI ?dev)" using True slot_covers_wf [OF wf wf_deviceD(4) [OF wf]] by simp
    from slot_phys [OF wf wf_deviceD(4) [OF wf] this] True
    have "run_state (check_slots CHECK_EMIT ?a (pass s) ?dev) s =
        ((), s\<lparr>dv := (dv s)\<lparr>MemoryPointer := Some (phys sz ?dev ?a)\<rparr>\<rparr>)"
      by (simp add: check_slots_def Let_def set_mp_def)
    then show thesis using start assms(1)
      by (intro that [where s' = "s\<lparr>dv := (dv s)\<lparr>MemoryPointer := Some (phys sz ?dev ?a)\<rparr>\<rparr>"])
        (simp_all add: mem_of_def the_dev_def dev_inv_def)
  next
    case False
    let ?i = "nat (?a div sz)"
    have i: "?a div sz = int ?i" using r(2) by simp
    have cov: "slot_covers ?a (dev_Slots ?dev ! ?i)" using slot_covers_wf [OF wf r(3)] r(2) by simp
    obtain k where k: "Device (dv s) = Some k" "k < length (Devices (dv s))" using assms(1) by (auto simp: dev_inv_def)
    let ?d = "?dev\<lparr>limitExceeded := limitExceeded ?dev \<and> previousSlotI ?dev = ?i, previousSlotI := ?i,
      previousSlotOpt := slot_Option (dev_Slots ?dev ! ?i)\<rparr>"
    let ?s = "s\<lparr>dv := (dv s)\<lparr>PageCur := slot_Page (dev_Slots ?dev ! ?i), MemoryPointer := Some (phys sz ?dev ?a),
      Devices := (Devices (dv s))[k := ?d]\<rparr>\<rparr>"
    have "wf_device sz ?d" using wf r(3) by (simp add: wf_device_def)
    then have inv: "dev_inv sz N ?s" using assms(1) k by (simp add: dev_inv_def the_dev_def)
    have "run_state (check_slots CHECK_EMIT ?a (pass s) ?dev) s = ((), ?s)"
      using False cov p(6) masked_slot_in_range [OF wf p(3-5)] slot_phys [OF wf r(3) i] k
      by (auto simp: check_slots_def enter_slot_def leave_slot_def refresh_check_def upd_dev_def set_page_def set_mp_def
          Let_def the_dev_def)
    then show thesis using start inv k
      by (intro that [where s' = ?s]) (simp_all add: mem_of_def the_dev_def)
  qed
qed


text \<open>The state after emitting \<open>v\<close>, started in \<open>t\<close>.\<close>

definition emitted :: "int \<Rightarrow> nat \<Rightarrow> asm \<Rightarrow> int \<Rightarrow> asm \<Rightarrow> bool" where
  "emitted sz N t v s \<longleftrightarrow> mem_of s = (mem_of t)(phys sz (the_dev t) (CurAddress t) := v) \<and> dev_inv sz N s \<and>
     dev_Slots (the_dev s) = dev_Slots (the_dev t) \<and> CurAddress s = CurAddress t + 1 \<and> PseudoORG s = DISP_NONE \<and>
     pass s = LASTPASS \<and> DeviceID (dv s) \<noteq> None"

definition pointing :: "int \<Rightarrow> nat \<Rightarrow> asm \<Rightarrow> asm \<Rightarrow> bool" where
  "pointing sz N t s \<longleftrightarrow> MemoryPointer (dv s) = Some (phys sz (the_dev t) (CurAddress t)) \<and> mem_of s = mem_of t \<and>
     dev_inv sz N s \<and> dev_Slots (the_dev s) = dev_Slots (the_dev t) \<and> CurAddress s = CurAddress t \<and>
     PseudoORG s = DISP_NONE \<and> pass s = LASTPASS \<and> DeviceID (dv s) \<noteq> None"

lemma CheckPage_pointing:
  assumes "dev_inv sz N t" "plain_emit sz t" "pass t = LASTPASS"
  shows "hoare (\<lambda>s. core s = core t) (CheckPage CHECK_EMIT) (\<lambda>_. pointing sz N t)"
proof (rule hoareI)
  fix s r s' assume a: "core s = core t" "run_state (CheckPage CHECK_EMIT) s = (r, s')"
  have c: "dv s = dv t" "CurAddress s = CurAddress t" "PseudoORG s = PseudoORG t" "pass s = pass t"
    using a(1) by (simp_all add: core_def)
  then have "the_dev s = the_dev t" by (simp add: the_dev_def)
  moreover have "dev_inv sz N s" "plain_emit sz s"
    using assms c dev_inv_cong [OF c(1)] by (simp_all add: plain_emit_def the_dev_def)
  from CheckPage_plain [OF this] a(2)
  have "MemoryPointer (dv s') = Some (phys sz (the_dev s) (CurAddress s))" "dev_Slots (the_dev s') = dev_Slots (the_dev s)"
    "mem_of s' = mem_of s" "dev_inv sz N s'" "CurAddress s' = CurAddress s" "PseudoORG s' = PseudoORG s" "pass s' = pass s"
    "DeviceID (dv s') = DeviceID (dv s)"
    by (metis prod.inject)+
  ultimately show "pointing sz N t s'"
    using assms(2,3) c by (auto simp: pointing_def mem_of_def plain_emit_def Let_def)
qed

lemma poke_emitted:
  "hoare (pointing sz N t) (do { poke_mp (phys sz (the_dev t) (CurAddress t)) v; set_mp x }) 
     (\<lambda>_ s. emitted sz N t v (incr_address s))"
proof (rule hoareI)
  fix s r s' assume a: "pointing sz N t s" "run_state (do { poke_mp (phys sz (the_dev t) (CurAddress t)) v; set_mp x }) s = (r, s')"
  have i: "dev_inv sz N s" using a(1) by (simp add: pointing_def)
  obtain k where k: "Device (dv s) = Some k" "k < length (Devices (dv s))" using i by (auto simp: dev_inv_def)
  have s': "s' = s\<lparr>dv := (dv s)\<lparr>Devices := (Devices (dv s))[k := (the_dev s)\<lparr>dev_Memory :=
      (mem_of s)(phys sz (the_dev t) (CurAddress t) := v)\<rparr>], MemoryPointer := x\<rparr>\<rparr>"
    using a(2) k by (auto simp: poke_mp_def upd_dev_def set_mp_def mem_of_def the_dev_def)
  then have "dev_inv sz N (incr_address s')"
    using i k by (simp add: dev_inv_def incr_address_def the_dev_def wf_device_mem)
  then show "emitted sz N t v (incr_address s')"
    using a(1) k unfolding s' by (simp add: emitted_def pointing_def incr_address_def mem_of_def the_dev_def)
qed

lemma EmitByte_plain:
  assumes "dev_inv sz N t" "plain_emit sz t" "pass t = LASTPASS"
  shows "hoare (\<lambda>s. s = t) (EmitByte b st) (\<lambda>_. emitted sz N t (b AND 0xFF))"
proof -
  let ?C = "\<lambda>s. core s = core t"
  have byte: "(b AND 0xFF) mod 256 = b AND 0xFF"
    using take_bit_eq_mask [of 8 b] by (simp add: mask_eq_exp_minus_1 take_bit_eq_mod)
  have frame: "hoare ?C c (\<lambda>_. ?C)" if "keeps core c" for c :: "unit M" by (rule hoare_frame [OF that]) simp
  have dev: "hoare ?C (emit_device (b AND 0xFF) True) (\<lambda>_ s. emitted sz N t (b AND 0xFF) (incr_address s))"
    unfolding emit_device_def byte
    by (rule hoare_bind [OF CheckPage_pointing [OF assms]],
        rule hoare_gets_const [where v = "Some (phys sz (the_dev t) (CurAddress t))"])
      (simp add: pointing_def, use poke_emitted in \<open>simp add: whenM_def\<close>)
  have C: "pass s = LASTPASS" "DeviceID (dv s) = DeviceID (dv t)" if "?C s" for s
    using that assms(3) by (simp_all add: core_def)
  have "DeviceID (dv t) \<noteq> None" using assms(2) by (simp add: plain_emit_def Let_def)
  then have "hoare ?C (if DeviceID (dv t) \<noteq> None then emit_device (b AND 0xFF) (LASTPASS = LASTPASS \<and> \<not> False)
      else CheckRamLimitExceeded) (\<lambda>_ s. emitted sz N t (b AND 0xFF) (incr_address s))" using dev by simp
  note last = hoare_bind [OF this hoare_modify]
  have "hoare ?C (EmitByteNoListing (b AND 0xFF) False) (\<lambda>_. emitted sz N t (b AND 0xFF))"
    unfolding EmitByteNoListing_def
    by (rule hoare_bind [OF frame [OF keeps_core_outp]], rule hoare_gets_const [OF C(1)], assumption,
        rule hoare_bind [OF frame], intro keep keeps_core, rule hoare_gets_const [OF C(2)], assumption, rule last)
  then have "hoare ?C (EmitByte b st) (\<lambda>_. emitted sz N t (b AND 0xFF))"
    unfolding EmitByte_def Let_def by (intro hoare_bind [OF frame] keep keeps_core)
  then show ?thesis by (rule hoare_pre) simp
qed

section \<open>Properties\<close>

text \<open>A device of four slots of 16 kiB over eight pages, in the last pass at address 0x8000.\<close>

definition asm_dev :: asm where
  "asm_dev = asm0\<lparr>CurAddress := 0x8000, dv := (dv asm0)\<lparr>Devices := [regular_device 0x4000 4 8 [7, 5, 2, 0] ''D''],
     Device := Some 0, DeviceID := Some ''D''\<rparr>\<rparr>"

lemma asm_dev_inv: "dev_inv 0x4000 8 asm_dev" "pass asm_dev = LASTPASS"
proof -
  have "wf_device 0x4000 (regular_device 0x4000 4 8 [7, 5, 2, 0] ''D'')"
    by (rule wf_regular_device) (simp_all add: numeral_eq_Suc All_less_Suc)
  then show "dev_inv 0x4000 8 asm_dev"
    by (simp add: asm_dev_def dev_inv_def the_dev_def regular_device_def)
  show "pass asm_dev = LASTPASS" by code_simp
qed


text \<open>Claim C5. Emitting a byte writes at most one byte of the device memory, and that inside the memory block of
  the device, whatever the address, the DISP mode, the slot options and the mapping are. The device stays well formed,
  its page mapping included, and keeps its pages.\<close>

theorem EmitByte_in_memory:
  assumes "dev_inv sz N s" "run_state (EmitByte b st) s = (r, s')"
  shows "dev_inv sz N s' \<and> (mem_of s' = mem_of s \<or> (\<exists>p v. 0 \<le> p \<and> p < int N * sz \<and> mem_of s' = (mem_of s)(p := v)))"
  using hoareD [OF EmitByte_safe [of sz N "mem_of s" b st] _ assms(2)] assms(1) by (simp add: one_byte_def)

theorem EmitByte_in_memory_witness:
  "\<exists>r s'. run_state (EmitByte 0x3E True) asm_dev = (r, s') \<and> dev_inv 0x4000 8 s' \<and>
     (mem_of s' = mem_of asm_dev \<or> (\<exists>p v. 0 \<le> p \<and> p < 0x20000 \<and> mem_of s' = (mem_of asm_dev)(p := v)))"
proof -
  obtain r s' where "run_state (EmitByte 0x3E True) asm_dev = (r, s')" by (metis surj_pair)
  with EmitByte_in_memory [OF asm_dev_inv(1) this] show ?thesis by auto
qed

text \<open>Claim C15. In the last pass, at an address of the device in a slot without an option (or in the slot that was
  emitted to before), a byte goes to the place in memory that the current page mapping gives for the address, nothing
  else of the memory changes, the mapping stays, the address advances by one, and reading the address back through
  the expression operator \<^verbatim>\<open>{b address}\<close> gives the low eight bits of what was emitted.\<close>

theorem EmitByte_read_back:
  assumes "dev_inv sz N s" "plain_emit sz s" "pass s = LASTPASS" "run_state (EmitByte b st) s = (r, s')"
  shows "mem_of s' = (mem_of s)(phys sz (the_dev s) (CurAddress s) := b AND 0xFF) \<and>
    dev_Slots (the_dev s') = dev_Slots (the_dev s) \<and> CurAddress s' = CurAddress s + 1 \<and>
    run_state (MemGetByte (CurAddress s)) s' = (b AND 0xFF, s')"
proof -
  have e: "emitted sz N s (b AND 0xFF) s'" by (rule hoareD [OF EmitByte_plain [OF assms(1-3)] _ assms(4)]) simp
  have "phys sz (the_dev s') a = phys sz (the_dev s) a" for a using e by (simp add: emitted_def phys_def)
  moreover have "run_state (MemGetByte (CurAddress s)) s' = (mem_of s' (phys sz (the_dev s') (CurAddress s)), s')"
    using e assms(2) by (intro MemGetByte_phys) (auto simp: emitted_def dev_inv_def plain_emit_def Let_def)
  ultimately show ?thesis using e by (simp add: emitted_def)
qed

theorem EmitByte_read_back_witness:
  "run_state (MemGetByte 0x8000) (snd (run_state (EmitByte 0x13E True) asm_dev)) =
     (0x3E, snd (run_state (EmitByte 0x13E True) asm_dev))"
proof -
  have "plain_emit 0x4000 asm_dev"
    by (simp add: plain_emit_def asm_dev_def the_dev_def regular_device_def new_CDevice_def asm0_def Let_def)
  moreover have "CurAddress asm_dev = 0x8000" by (simp add: asm_dev_def)
  moreover obtain r s' where r: "run_state (EmitByte 0x13E True) asm_dev = (r, s')" by (metis surj_pair)
  ultimately show ?thesis using EmitByte_read_back [OF asm_dev_inv(1) _ asm_dev_inv(2) r] by simp
qed

section \<open>The tape block\<close>

fun write_blocks :: "int list list \<Rightarrow> unit M" where
  "write_blocks [] = ret ()"
| "write_blocks (b # bs) = do { mod_outp (\<lambda>w. w\<lparr>WriteBuffer := b\<rparr>); WriteDest; write_blocks bs }"

lemma fold_xor_sbyte:
  assumes "\<forall>b \<in> set bs. is_byte b"
  shows "fold (\<lambda>b p. p XOR sbyte b) bs q AND 0xFF = fold (\<lambda>b p. p XOR b) bs (q AND 0xFF) \<and>
    is_byte (fold (\<lambda>b p. p XOR b) bs (q AND 0xFF))"
  using assms
proof (induction bs arbitrary: q)
  case Nil
  show ?case using take_bit_eq_mask [of 8 q] by (simp add: mask_eq_exp_minus_1 take_bit_eq_mod)
next
  case (Cons b bs)
  have "sbyte b AND 0xFF = b"
  proof -
    have "sbyte b mod 256 = b" using Cons.prems by (auto simp: sbyte_def)
    then show ?thesis using take_bit_eq_mask [of 8 "sbyte b"] by (simp add: mask_eq_exp_minus_1 take_bit_eq_mod)
  qed
  then have "(q XOR sbyte b) AND 0xFF = (q AND 0xFF) XOR b"
    by (metis (no_types) bit.conj_xor_distrib2)
  then show ?case using Cons.IH [of "q XOR sbyte b"] Cons.prems by simp
qed


definition tape_state :: "int \<Rightarrow> int list \<Rightarrow> output_state \<Rightarrow> bool" where
  "tape_state flag d w \<longleftrightarrow> FP_tapout w = Some ([0, 0, flag] @ d) \<and> tape_length w = int (length d) + 2 \<and>
     tape_parity w = fold (\<lambda>b p. p XOR sbyte b) d flag"

lemma WriteDest_tape:
  assumes "tape_state flag d (outp s)" "WriteBuffer (outp s) = b" "length d + length b + 2 \<le> 65535"
  shows "tape_state flag (d @ b) (outp (snd (run_state WriteDest s))) \<and>
    WriteBuffer (outp (snd (run_state WriteDest s))) = []"
  using assms by (auto simp: WriteDest_def write_tap_def tape_state_def Let_def)

lemma write_blocks_tape:
  assumes "tape_state flag d (outp s)" "WriteBuffer (outp s) = []" "length d + length (concat bs) + 2 \<le> 65535"
  shows "tape_state flag (d @ concat bs) (outp (snd (run_state (write_blocks bs) s))) \<and>
    WriteBuffer (outp (snd (run_state (write_blocks bs) s))) = []"
  using assms
proof (induction bs arbitrary: d s)
  case (Cons b bs)
  let ?s = "snd (run_state WriteDest (s\<lparr>outp := (outp s)\<lparr>WriteBuffer := b\<rparr>\<rparr>))"
  have "tape_state flag (d @ b) (outp ?s)" "WriteBuffer (outp ?s) = []"
    using WriteDest_tape [of flag d "s\<lparr>outp := (outp s)\<lparr>WriteBuffer := b\<rparr>\<rparr>" b] Cons.prems
    by (simp_all add: tape_state_def)
  from Cons.IH [OF this] Cons.prems(3) show ?case by (simp add: split_beta)
qed simp

text \<open>Claim C21. A tape block is well formed: open it with a flag byte, let the output buffer be flushed any number of
  times with at most 65533 bytes in all, and close it. The block in the file is the length of what follows (flag,
  data, parity) in two bytes, the flag, the data, and a parity byte that makes the exclusive or of flag, data and
  parity zero.\<close>

theorem tape_block_well_formed:
  assumes "FP_tapout (outp s) = None" "WriteBuffer (outp s) = []" "0 \<le> flag" "flag < 256"
    and "\<forall>b \<in> set (concat blocks). 0 \<le> b \<and> b < 256" "length (concat blocks) \<le> 65533"
  shows "\<exists>lo hi parity. fst (run_state (do { OpenTapFile True name flag; write_blocks blocks; CloseTapFile }) s) =
      Some ([lo, hi, flag] @ concat blocks @ [parity]) \<and>
    0 \<le> lo \<and> lo < 256 \<and> 0 \<le> hi \<and> hi < 256 \<and> lo + 256 * hi = int (length (concat blocks)) + 2 \<and>
    fold (\<lambda>b p. p XOR b) ([flag] @ concat blocks @ [parity]) 0 = 0"
proof -
  let ?d = "concat blocks" and ?n = "int (length (concat blocks)) + 2"
  define s1 where "s1 = snd (run_state (OpenTapFile True name flag) s)"
  define s2 where "s2 = snd (run_state (write_blocks blocks) s1)"
  have "tape_state flag [] (outp s1)" "WriteBuffer (outp s1) = []"
    using assms(1-4) by (simp_all add: s1_def OpenTapFile_def CloseTapFile_def WriteDest_def close_tap_def tape_state_def)
  from write_blocks_tape [OF this, of blocks] assms(6)
  have t: "tape_state flag ?d (outp s2)" "WriteBuffer (outp s2) = []" by (simp_all add: s2_def)
  let ?p = "fold (\<lambda>b p. p XOR sbyte b) ?d flag AND 0xFF"
  have run: "fst (run_state (do { OpenTapFile True name flag; write_blocks blocks; CloseTapFile }) s) =
      Some ([?n AND 0xFF, drop_bit 8 ?n AND 0xFF, flag] @ ?d @ [?p])"
    using t by (simp add: split_beta s1_def [symmetric] s2_def [symmetric] CloseTapFile_def WriteDest_def close_tap_def tape_state_def)
  have f: "flag AND 0xFF = flag"
    using take_bit_int_eq_self [of flag 8] assms(3,4) take_bit_eq_mask [of 8 flag] by (simp add: mask_eq_exp_minus_1)
  then have "?p = fold (\<lambda>b p. p XOR b) ?d flag" using fold_xor_sbyte [OF assms(5), of flag] by simp
  then have x: "fold (\<lambda>b p. p XOR b) ([flag] @ ?d @ [?p]) 0 = 0" by simp
  have m: "a AND 0xFF = a mod 256" for a :: int
    using take_bit_eq_mask [of 8 a] by (simp add: mask_eq_exp_minus_1 take_bit_eq_mod)
  have "?n div 256 < 256" using assms(6) by linarith
  then have n: "(?n AND 0xFF) + 256 * (drop_bit 8 ?n AND 0xFF) = ?n" by (simp add: m drop_bit_eq_div)
  show ?thesis
    using run x n by (intro exI [of _ "?n AND 0xFF"] exI [of _ "drop_bit 8 ?n AND 0xFF"] exI [of _ ?p]) (simp add: m)
qed

theorem tape_block_well_formed_witness:
  "\<exists>lo hi parity. fst (run_state (do { OpenTapFile True ''t.tap'' 255; write_blocks [[1, 2], [], [200]]; CloseTapFile }) asm0) =
      Some ([lo, hi, 255] @ [1, 2, 200] @ [parity]) \<and> lo + 256 * hi = 5"
proof -
  have "FP_tapout (outp asm0) = None" "WriteBuffer (outp asm0) = []" by code_simp+
  from tape_block_well_formed [OF this, of 255 "[[1, 2], [], [200]]" "''t.tap''"] show ?thesis by auto
qed

end
