(* ===== verification/Sj_Expr_Term.thy ===== *)
theory Sj_Expr_Term
  imports Sj_Expr
begin

text \<open>
  The expression parser always returns: the fuel of its loops and of its recursion is enough, and the
  pointer it returns points into the text it was given. The argument is the same at every precedence
  level, so it is made once, in the locale \<open>level_spec\<close>: over an operand parser that keeps the contract
  \<open>operand_parser\<close>, a level of binary operators keeps it again (the \<open>sublocale\<close>). The contract is
  relative to a bound \<open>n\<close> on the length of the text, which grows by one with every nesting level of
  parentheses.
\<close>

section \<open>The contract of an operand parser\<close>

locale operand_parser =
  fixes n :: nat and f :: "aint option parser"
  assumes operand_keeps: "keeps lp (f p)"
    and operand_ok: "length p < n \<Longrightarrow> inv fuel_ok (f p) (\<lambda>(r, p'). suffix p' p)"

locale level_spec = operand_parser +
  fixes ops :: "int lexer" and act :: "int \<Rightarrow> aint \<Rightarrow> aint \<Rightarrow> aint M"
  assumes ops_sfx: "suffix (snd (ops p)) p"
    and ops_consume: "fst (ops p) \<noteq> 0 \<Longrightarrow> length (snd (ops p)) < length p"
    and act_diag: "diag_only (act oper l r)"
begin

lemma act_calm: "calm_only (act oper l r)"
  by (rule calm_diag [OF act_diag])

lemma loop_keeps: "keeps lp (bin_loop k ops act f left p)"
proof (induction k arbitrary: left p)
  case 0
  show ?case by (simp add: out_of_fuel_def) (intro keep; simp)
next
  case (Suc k)
  show ?case unfolding bin_loop.simps
    by (intro keep operand_keeps calm_keeps_lp [OF act_calm] Suc.IH)
qed

lemma loop_ok:
  "length p < k \<Longrightarrow> length p < n \<Longrightarrow> inv fuel_ok (bin_loop k ops act f left p) (\<lambda>(r, p'). suffix p' p)"
proof (induction k arbitrary: left p)
  case (Suc k)
  obtain oper p1 where o: "ops p = (oper, p1)" by fastforce
  have p1: "suffix p1 p" using ops_sfx [of p] o by simp
  have next_ok: "inv fuel_ok (bin_loop k ops act f v p2) (\<lambda>(r, p'). suffix p' p)"
    if "oper \<noteq> 0" "suffix p2 p1" for v p2
  proof -
    have "length p2 < length p" using ops_consume [of p] o that(1) suffix_len [OF that(2)] by simp
    then have "inv fuel_ok (bin_loop k ops act f v p2) (\<lambda>(r, p'). suffix p' p2)"
      using Suc.prems by (intro Suc.IH) auto
    then show ?thesis
      by (rule inv_conseq) (auto dest: suffix_trans' [OF _ suffix_trans' [OF that(2) p1]])
  qed
  have "length p1 < n" using suffix_len [OF p1] Suc.prems(2) by simp
  then have sub: "inv fuel_ok (f p1) (\<lambda>(r, p'). suffix p' p1)" by (rule operand_ok)
  show ?case
  proof (cases "oper = 0")
    case True
    then show ?thesis by (simp add: o p1 inv_ret)
  next
    case False
    have "inv fuel_ok (do { (right, p2) \<leftarrow> f p1; (case right of None \<Rightarrow> ret (None, p2)
        | Some r \<Rightarrow> do { v \<leftarrow> act oper left r; bin_loop k ops act f v p2 }) }) (\<lambda>(r, p'). suffix p' p)"
      by (rule inv_bind [OF sub], clarify, rule inv_case_option)
        (auto intro!: inv_ret inv_bind [OF inv_calm [OF act_calm], of "\<lambda>_. True"] next_ok False
          dest: suffix_trans' [OF _ p1])
    then show ?thesis using False by (simp add: o)
  qed
qed simp

end

sublocale level_spec \<subseteq> level: operand_parser n "binary_level ops act f"
proof
  show "keeps lp (binary_level ops act f p)" for p
    unfolding binary_level_def by (intro keep operand_keeps loop_keeps)
  show "inv fuel_ok (binary_level ops act f p) (\<lambda>(r, p'). suffix p' p)" if "length p < n" for p
  proof -
    have l: "inv fuel_ok (bin_loop (Suc (length p1)) ops act f left p1) (\<lambda>(r, p'). suffix p' p)"
      if s: "suffix p1 p" for p1 left
      by (rule inv_conseq [OF loop_ok])
        (use suffix_len [OF s] \<open>length p < n\<close> suffix_trans' [OF _ s] in auto)
    show ?thesis unfolding binary_level_def
      by (rule inv_bind [OF operand_ok [OF that]], clarify, rule inv_case_option)
        (auto intro!: inv_ret l simp del: bin_loop.simps)
  qed
qed

section \<open>The operators of the levels\<close>

text \<open>\<open>op_lexer\<close>: the pointer moves forward, and strictly so when an operator was found.\<close>

definition op_lexer :: "int lexer \<Rightarrow> bool" where
  "op_lexer f \<longleftrightarrow> (\<forall>p. suffix (snd (f p)) p \<and> (fst (f p) \<noteq> 0 \<longrightarrow> length (snd (f p)) < length p))"

lemma op_need_str: "cstr c \<Longrightarrow> op_lexer (need_str c)"
  by (simp add: op_lexer_def need_str_sfx need_str_consumes)

lemma op_first:
  assumes "op_lexer f" "op_lexer g"
  shows "op_lexer (first_op f g)"
  unfolding op_lexer_def
proof
  fix p
  obtain o1 p1 where f: "f p = (o1, p1)" by fastforce
  have 1: "suffix p1 p" "o1 \<noteq> 0 \<Longrightarrow> length p1 < length p"
    using assms(1) f by (auto simp: op_lexer_def dest: spec [of _ p])
  have 2: "suffix (snd (g p1)) p1" "fst (g p1) \<noteq> 0 \<Longrightarrow> length (snd (g p1)) < length p1"
    using assms(2) by (auto simp: op_lexer_def)
  show "suffix (snd (first_op f g p)) p \<and> (fst (first_op f g p) \<noteq> 0 \<longrightarrow> length (snd (first_op f g p)) < length p)"
    using 1 2 suffix_trans' [OF 2(1) 1(1)] suffix_len [OF 1(1)] by (auto simp: first_op_def f)
qed

lemma op_needa:
  assumes "\<forall>k \<in> fst ` set ks. k \<noteq> [] \<and> islower (hd k) \<and> cstr k"
  shows "op_lexer (needa ks b)"
proof -
  have "fst (needa_list ks b p) \<noteq> 0 \<longrightarrow> length (snd (needa_list ks b p)) < length p" for p
    using assms
  proof (induction ks b p rule: needa_list.induct)
    case (2 c r ks b p)
    obtain a k where c: "c = a # k" using 2(2) by (cases c) auto
    show ?case
      using 2 cmphstr_consumes [of a k b p] by (auto simp: c split: prod.split bool.split)
  qed simp
  then show ?thesis by (simp add: op_lexer_def needa_sfx) (simp add: needa_def)
qed

lemma op_keyword: "islower a \<Longrightarrow> cstr k \<Longrightarrow> op_lexer (keyword_op (a # k))"
  using cmphstr_sfx [of "a # k" True] cmphstr_consumes [of a k True]
  by (auto simp: op_lexer_def keyword_op_def split: prod.split) (metis fst_conv snd_conv)+

lemma op_char: "c \<noteq> NUL \<Longrightarrow> op_lexer (char_op c)"
  using need_sfx [of c] need_consumes [of c]
  by (auto simp: op_lexer_def char_op_def split: prod.split) (metis fst_conv snd_conv)+

lemma op_shift:
  assumes "op_lexer f"
  shows "op_lexer (\<lambda>p. case f p of (oper, p1) \<Rightarrow> if oper = g + g \<and> cur p1 = c then (oper + g, drop 1 p1) else (oper, p1))"
  unfolding op_lexer_def
proof
  fix p
  obtain o1 p1 where f: "f p = (o1, p1)" by fastforce
  have 1: "suffix p1 p" "o1 \<noteq> 0 \<longrightarrow> length p1 < length p"
    using assms f by (auto simp: op_lexer_def dest: spec [of _ p])
  then show "suffix (snd (case f p of (oper, p1) \<Rightarrow> if oper = g + g \<and> cur p1 = c then (oper + g, drop 1 p1) else (oper, p1))) p \<and>
    (fst (case f p of (oper, p1) \<Rightarrow> if oper = g + g \<and> cur p1 = c then (oper + g, drop 1 p1) else (oper, p1)) \<noteq> 0 \<longrightarrow>
     length (snd (case f p of (oper, p1) \<Rightarrow> if oper = g + g \<and> cur p1 = c then (oper + g, drop 1 p1) else (oper, p1))) < length p)"
    using suffix_trans' [OF suffix_drop 1(1)] by (auto simp: f)
qed

lemma op_levels:
  "op_lexer mul_ops" "op_lexer (need_str ''+ - '')" "op_lexer shift_ops" "op_lexer (need_str ''<?>?'')"
  "op_lexer (need_str ''<=>=< > '')" "op_lexer (need_str ''=_==!='')"
  "op_lexer (first_op (need_str ''&_'') (keyword_op ''and''))"
  "op_lexer (first_op (char_op CHR ''^'') (keyword_op ''xor''))"
  "op_lexer (first_op (need_str ''|_'') (keyword_op ''or''))"
  "op_lexer (need_str ''&&'')" "op_lexer (need_str ''||'')" "op_lexer unary_ops"
proof -
  have low: "islower CHR ''m''" "islower CHR ''s''" "islower CHR ''a''" "islower CHR ''x''" "islower CHR ''o''"
    "islower CHR ''n''" "islower CHR ''l''" "islower CHR ''h''" "islower CHR ''u''" by code_simp+
  show "op_lexer mul_ops" unfolding mul_ops_def
    by (intro op_first op_need_str op_needa) (simp_all add: low)
  show "op_lexer unary_ops" unfolding unary_ops_def
    by (intro op_first op_need_str op_needa) (simp_all add: low)
  show "op_lexer shift_ops" unfolding shift_ops_def [abs_def] Let_def
    by (intro op_shift op_first op_need_str op_needa) (simp_all add: low)
  show "op_lexer (first_op (need_str ''&_'') (keyword_op ''and''))"
    "op_lexer (first_op (char_op CHR ''^'') (keyword_op ''xor''))"
    "op_lexer (first_op (need_str ''|_'') (keyword_op ''or''))"
    by (intro op_first op_need_str op_keyword op_char; simp add: low)+
qed (intro op_need_str; simp)+

lemma level_specI:
  assumes "operand_parser n f" "op_lexer ops" "\<And>oper l r. diag_only (act oper l r)"
  shows "level_spec n f ops act"
  using assms by (simp add: level_spec_def level_spec_axioms_def op_lexer_def)

context level_spec
begin

lemma is_operand: "operand_parser n (binary_level ops act f)"
  by (rule level.operand_parser_axioms)

end

lemmas level_ok = level_spec.is_operand [OF level_specI]

section \<open>Operands and unary operators\<close>

lemma shrink_at: "shrinking f \<Longrightarrow> suffix q p \<Longrightarrow> inv fuel_ok (f q) (\<lambda>(r, p'). suffix p' p)"
  by (rule inv_conseq [OF shrinkingD(2)]) (auto dest: suffix_trans')

lemma shrinking_GetConstant: "shrinking GetConstant"
proof (rule shrinking_calm [OF calm_diag [OF diag_only_GetConstant]], rule invI)
  fix p and s :: asm
  obtain v q s' where r: "run_state (GetConstant p) s = ((v, q), s')" by (metis prod.collapse)
  then show "True \<and> (case fst (run_state (GetConstant p) s) of (r, p') \<Rightarrow> suffix p' p)"
    using GetConstant_sfx [OF r] by simp
qed

lemma keeps_ParsePrimRest: "keeps lp (ParsePrimRest p)"
  unfolding ParsePrimRest_def
  by (intro keep calm_keeps_lp [OF calming_diag(3)] calm_keeps_lp [OF calming_diag(1)]
      shrinkingD(1) [OF shrinking_GetConstant] shrinkingD(1) [OF shrinking_GetCharConst]
      shrinking_labels [THEN shrinkingD(1)])

lemma ParsePrimRest_ok: "inv fuel_ok (ParsePrimRest p) (\<lambda>(r, p'). suffix p' p)"
proof -
  have c: "inv fuel_ok (do { (r, p') \<leftarrow> GetCharConst p;
      whenM (r = None \<and> b) (Error m (Some p') t); ret (r, p') }) (\<lambda>(r, p'). suffix p' p)" for b m t
    by (rule inv_bind [OF GetCharConst_inv], clarify)
      (rule inv_bind [where V = "\<lambda>_. True"], intro inv_whenM inv_diag_fuel diag_only_Error TrueI; simp add: inv_ret)
  show ?thesis
    unfolding ParsePrimRest_def
    by (rule inv_bind [where V = "\<lambda>_. True"], simp add: inv_get, intro inv_let inv_if c inv_ret
        inv_bind [OF inv_diag_fuel [OF diag_only_Warning], of "\<lambda>_. True"]
        shrinking_labels [THEN shrink_at] shrink_at [OF shrinking_GetConstant])
      (auto simp: suffix_drop)
qed

lemma calm_MemGetByte [calming]: "calm_only (MemGetByte a)" "calm_only (MemGetWord a)"
proof -
  show "calm_only (MemGetByte b)" for b unfolding MemGetByte_def by (intro calming)
  then show "calm_only (MemGetWord a)" unfolding MemGetWord_def by (intro calming)
qed

lemma calm_set [calming]: "calm_only (set_areLabelsOffset b)" "calm_only (set_synerr b)"
  unfolding set_areLabelsOffset_def set_synerr_def by (intro calming; simp)+

lemma need_sfx': "need c p = (b, q) \<Longrightarrow> suffix q p"
  using need_sfx [of c p] by simp

lemma cmphstr_sfx': "cmphstr k b p = (r, q) \<Longrightarrow> suffix q p"
  using cmphstr_sfx [of k b p] by simp

context operand_parser
begin

lemma operand_at: "suffix q p \<Longrightarrow> length q < n \<Longrightarrow> inv fuel_ok (f q) (\<lambda>(r, p'). suffix p' p)"
  by (rule inv_conseq [OF operand_ok]) (auto dest: suffix_trans')

lemma keeps_mem: "keeps lp (ParsePrimMem f p)"
  unfolding ParsePrimMem_def
  by (intro keep operand_keeps calm_keeps_lp calming)

lemma mem_ok:
  assumes "cur p \<noteq> NUL" "length p < Suc n"
  shows "inv fuel_ok (ParsePrimMem f p) (\<lambda>(r, p'). suffix p' p)"
proof -
  obtain b p1 where c: "cmphstr ''b'' False (drop 1 p) = (b, p1)" by fastforce
  have p1: "suffix p1 p" "length p1 < n"
    using suffix_drop_tail [OF cmphstr_sfx' [OF c] assms(1), of 0] assms(2) by auto
  have calm: "inv fuel_ok m (\<lambda>_. True)" if "calm_only m" for m :: "'z M" by (rule inv_calm [OF that]) simp
  note cb = inv_bind [OF calm]
  show ?thesis
    unfolding ParsePrimMem_def c prod.case
    by (rule inv_bind [where V = "\<lambda>_. True"], simp add: inv_gets, rule cb, intro calming, rule inv_bind [OF operand_at [OF p1]], clarify, rule cb, intro calming)
      (intro inv_case_option inv_case_prod inv_if inv_ret cb calming;
       auto dest!: need_sfx' dest: suffix_trans')
qed

lemma keeps_prim: "keeps lp (ParseExpPrim f p)"
  unfolding ParseExpPrim_def
  by (intro keep operand_keeps keeps_mem keeps_ParsePrimRest calm_keeps_lp [OF calming_diag(1)]
      calm_keeps_lp [OF calm_GetTemporaryLabelValue])

lemma prim_ok:
  assumes "length p < Suc n"
  shows "inv fuel_ok (ParseExpPrim f p) (\<lambda>(r, p'). suffix p' p)"
proof -
  define q where "q = skip_blanks p"
  have q: "suffix q p" "length q < Suc n" using assms length_skip_blanks [of p] by (auto simp: q_def simp del: length_skip_blanks)
  have par: "suffix (drop 1 q) p" "length (drop 1 q) < n" if "cur q \<noteq> NUL"
    using suffix_trans' [OF suffix_drop q(1)] length_drop_cur [OF that, of 0] q(2) by auto
  have "inv fuel_ok (do { (res, p1) \<leftarrow> f (drop 1 q);
      (case need CHR '')'' p1 of (ok, p2) \<Rightarrow> if ok then ret (res, p2)
        else do { Error m None E_PASS3; ret (None, p2) }) }) (\<lambda>(r, p'). suffix p' p)" if "cur q \<noteq> NUL" for m
    by (rule inv_bind [OF operand_at [OF par [OF that]]], clarify)
      (intro inv_case_prod inv_if inv_ret inv_bind [OF inv_diag_fuel [OF diag_only_Error], of "\<lambda>_. True"];
       auto dest!: need_sfx' dest: suffix_trans')
  moreover have "inv fuel_ok (ParsePrimMem f q) (\<lambda>(r, p'). suffix p' p)" if "cur q \<noteq> NUL"
    by (rule inv_conseq [OF mem_ok [OF that q(2)]]) (auto dest: suffix_trans' [OF _ q(1)])
  moreover have "inv fuel_ok (do { (t, p1) \<leftarrow> (if b then GetTemporaryLabelValue True q else ret (None, q));
      if t \<noteq> None then ret (t, p1) else ParsePrimRest p1 }) (\<lambda>(r, p'). suffix p' p)" for b
  proof -
    have "inv fuel_ok (if b then GetTemporaryLabelValue True q else ret (None, q)) (\<lambda>(r, p'). suffix p' p)"
      using shrink_at [OF shrinking_labels(7) q(1)] q(1) by (auto intro: inv_ret)
    then show ?thesis
      by (rule inv_bind)
        (auto intro!: inv_ret inv_conseq [OF ParsePrimRest_ok] dest: suffix_trans')
  qed
  ultimately show ?thesis
    unfolding ParseExpPrim_def q_def [symmetric] Let_def
    by (intro inv_if inv_ret inv_bind [where V = "\<lambda>_. True" and m = "gets _"]; simp add: q inv_gets)
qed

end

definition opt_sfx :: "string \<Rightarrow> (aint option \<times> string) option \<Rightarrow> bool" where
  "opt_sfx p r \<longleftrightarrow> (case r of None \<Rightarrow> True | Some (v, p') \<Rightarrow> suffix p' p)"

lemma opt_sfx_simps [simp]: "opt_sfx p None" "opt_sfx p (Some (v, q)) \<longleftrightarrow> suffix q p"
  by (simp_all add: opt_sfx_def)

lemma inv_case_bool:
  "(b \<Longrightarrow> inv I m V) \<Longrightarrow> (\<not> b \<Longrightarrow> inv I k V) \<Longrightarrow> inv I (case b of True \<Rightarrow> m | False \<Rightarrow> k) V"
  by (cases b) simp_all

lemma keeps_case_bool [keep]: "keeps f m \<Longrightarrow> keeps f k \<Longrightarrow> keeps f (case b of True \<Rightarrow> m | False \<Rightarrow> k)"
  by (cases b) simp_all

lemma keeps_case_bool_app [keep]:
  "keeps f (m q) \<Longrightarrow> keeps f (k q) \<Longrightarrow> keeps f ((case b of True \<Rightarrow> m | False \<Rightarrow> k) q)"
  by (cases b) simp_all

lemma inv_case_bool_app:
  "(b \<Longrightarrow> inv I (m q) V) \<Longrightarrow> (\<not> b \<Longrightarrow> inv I (k q) V) \<Longrightarrow> inv I ((case b of True \<Rightarrow> m | False \<Rightarrow> k) q) V"
  by (cases b) simp_all

lemma keeps_try: "keeps lp (try_exist p)" "keeps lp (try_sizeof p)"
  unfolding try_exist_def try_sizeof_def by (intro keep calm_keeps_lp calming)+

lemma label_try_ok:
  assumes q: "\<And>p. inv fuel_ok (g p) (\<lambda>(r, p'). suffix p' p)"
  shows "suffix p1 p \<Longrightarrow> inv fuel_ok (case need CHR ''('' p1 of (par, p2) \<Rightarrow>
       if par \<or> isLabelStart p2 True then do {
         (r, p3) \<leftarrow> g p2;
         (case need CHR '')'' p3 of (closed, p4) \<Rightarrow>
            if cond r par then ret (if ok r closed then Some (r, p4) else None)
            else ret (if r \<noteq> None then Some (r, p3) else None)) }
       else ret None) (opt_sfx p)"
proof -
  assume p1: "suffix p1 p"
  obtain par p2 where n: "need CHR ''('' p1 = (par, p2)" by fastforce
  have p2: "suffix p2 p" using suffix_trans' [OF need_sfx' [OF n] p1] .
  have "inv fuel_ok (g p2) (\<lambda>(r, p'). suffix p' p)"
    by (rule inv_conseq [OF q]) (auto dest: suffix_trans' [OF _ p2])
  then have "inv fuel_ok (do { (r, p3) \<leftarrow> g p2;
         (case need CHR '')'' p3 of (closed, p4) \<Rightarrow>
            if cond r par then ret (if ok r closed then Some (r, p4) else None)
            else ret (if r \<noteq> None then Some (r, p3) else None)) }) (opt_sfx p)"
    by (rule inv_bind)
      (clarify, intro inv_case_prod inv_if inv_ret; auto dest!: need_sfx' dest: suffix_trans')
  then show ?thesis unfolding n prod.case by (auto intro: inv_ret)
qed

lemma try_exist_ok: "inv fuel_ok (try_exist p) (opt_sfx p)"
proof -
  obtain b p1 where c: "cmphstr ''exist'' True p = (b, p1)" by fastforce
  show ?thesis
    unfolding try_exist_def c prod.case
    by (intro inv_case_bool inv_ret label_try_ok [OF shrinkingD(2) [OF shrinking_labels(6)],
          where cond = "\<lambda>r par. r \<noteq> None \<and> par" and ok = "\<lambda>r closed. closed"])
      (use cmphstr_sfx' [OF c] in auto)
qed

lemma try_sizeof_ok: "inv fuel_ok (try_sizeof p) (opt_sfx p)"
proof -
  obtain b p1 where c: "cmphstr ''sizeof'' True p = (b, p1)" by fastforce
  show ?thesis
    unfolding try_sizeof_def c prod.case
    by (intro inv_case_bool inv_ret label_try_ok [OF shrinkingD(2) [OF shrinking_labels(5)],
          where cond = "\<lambda>r par. par" and ok = "\<lambda>r closed. r \<noteq> None \<and> closed"])
      (use cmphstr_sfx' [OF c] in auto)
qed

lemma unary_act_diag: "diag_only (unary_act oper r)"
  unfolding unary_act_def by (intro reporting)

context operand_parser
begin

lemma keeps_try_norel: "keeps lp (try_norel f p)"
  unfolding try_norel_def by (intro keep keeps_prim calm_keeps_lp [OF calm_set(1)])

lemma keeps_try_pair: "keeps lp (try_pair f p)"
  unfolding try_pair_def by (intro keep operand_keeps calm_keeps_lp [OF calm_diag [OF diag_only_checks(1)]])

lemma try_norel_ok:
  assumes "length p < Suc n"
  shows "inv fuel_ok (try_norel f p) (opt_sfx p)"
proof -
  obtain b p1 where c: "cmphstr ''norel'' True p = (b, p1)" by fastforce
  have p1: "suffix p1 p" "length p1 < Suc n"
    using cmphstr_sfx' [OF c] suffix_len [OF cmphstr_sfx' [OF c]] assms by auto
  have pr: "inv fuel_ok (ParseExpPrim f p1) (\<lambda>(r, p'). suffix p' p)"
    by (rule inv_conseq [OF prim_ok [OF p1(2)]]) (auto dest: suffix_trans' [OF _ p1(1)])
  note cb = inv_bind [OF inv_calm [OF calm_set(1)], of "\<lambda>_. True"]
  show ?thesis
    unfolding try_norel_def c prod.case
    by (intro inv_case_bool inv_ret, rule inv_bind [where V = "\<lambda>_. True"], simp add: inv_gets,
        rule cb, simp, rule inv_bind [OF pr], clarify, rule cb, simp, rule inv_ret) auto
qed

lemma try_pair_ok:
  assumes "length p < Suc n"
  shows "inv fuel_ok (try_pair f p) (opt_sfx p)"
proof -
  obtain b p1 where c: "cmphstr ''pair'' True p = (b, p1)" by fastforce
  obtain par p2 where o: "need CHR ''('' p1 = (par, p2)" by fastforce
  note p1 = cmphstr_sfx' [OF c]
  have p2: "suffix p2 p" "length p2 < n" if par
    using suffix_trans' [OF need_sfx' [OF o] p1] need_consumes [of "CHR ''(''" p1] o that
      suffix_len [OF p1] assms by auto
  have at: "inv fuel_ok (f q) (\<lambda>(r, p'). suffix p' p2)" if par "suffix q p2" for q
    using operand_at [OF that(2)] p2(2) [OF that(1)] suffix_len [OF that(2)] by simp
  note chk = inv_bind [OF inv_diag_fuel [OF diag_only_checks(1)], of "\<lambda>_. True"]
  have snd: "inv fuel_ok (do { (lo, p5) \<leftarrow> f p4;
       (case lo of None \<Rightarrow> ret (Some (None, p))
        | Some l \<Rightarrow> (case need CHR '')'' p5 of (closed, p6) \<Rightarrow>
             if \<not> closed then ret (Some (None, p))
             else do { check8 h; check8 l;
               ret (Some (Some (push_bit 8 (h AND 0xFF) OR (l AND 0xFF)), p6)) })) }) (opt_sfx p)"
    if par "suffix p4 p2" for p4 h
    by (rule inv_bind [OF at [OF that]], clarify,
        intro inv_case_option inv_case_prod inv_if inv_ret chk TrueI)
      (use p2(1) [OF that(1)] in \<open>auto dest!: need_sfx' dest: suffix_trans'\<close>)
  have fst: "inv fuel_ok (do { (hi, p3) \<leftarrow> f p2;
       (case hi of None \<Rightarrow> ret (Some (None, p))
        | Some h \<Rightarrow> (case need CHR '','' p3 of (com, p4) \<Rightarrow>
             if \<not> com then ret (Some (None, p))
             else do { (lo, p5) \<leftarrow> f p4;
               (case lo of None \<Rightarrow> ret (Some (None, p))
                | Some l \<Rightarrow> (case need CHR '')'' p5 of (closed, p6) \<Rightarrow>
                     if \<not> closed then ret (Some (None, p))
                     else do { check8 h; check8 l;
                       ret (Some (Some (push_bit 8 (h AND 0xFF) OR (l AND 0xFF)), p6)) })) })) }) (opt_sfx p)"
    if par
    by (rule inv_bind [OF at [OF that suffix_order.refl]], clarify,
        intro inv_case_option inv_case_prod inv_if inv_ret snd that)
      (auto dest!: need_sfx' dest: suffix_trans')
  show ?thesis
    unfolding try_pair_def c prod.case o
    by (intro inv_case_bool inv_if inv_ret fst) auto
qed

lemma keeps_unair: "keeps lp (ParseExpUnair_n k f p)"
proof (induction k arbitrary: p)
  case 0
  show ?case by (simp add: out_of_fuel_def) (intro keep; simp)
next
  case (Suc k)
  show ?case unfolding ParseExpUnair_n.simps or_try_def
    by (intro keep keeps_try keeps_try_norel keeps_try_pair keeps_prim Suc.IH
        calm_keeps_lp [OF calm_diag [OF unary_act_diag]])
qed

lemma inv_or_try: "inv fuel_ok m V \<Longrightarrow> inv fuel_ok k V \<Longrightarrow> inv fuel_ok (or_try m k) V"
  unfolding or_try_def by (rule inv_bind, assumption) (auto split: option.split intro: inv_ret)

lemma unair_ok:
  "length p < k \<Longrightarrow> length p < Suc n \<Longrightarrow> inv fuel_ok (ParseExpUnair_n k f p) (\<lambda>(r, p'). suffix p' p)"
proof (induction k arbitrary: p)
  case (Suc k)
  define q where "q = skip_blanks p"
  have q: "suffix q p" "length q < Suc n" "length q \<le> length p"
    using Suc.prems(2) length_skip_blanks [of p] by (auto simp: q_def simp del: length_skip_blanks)
  obtain oper p1 where o: "unary_ops q = (oper, p1)" by fastforce
  have p1: "suffix p1 q" "oper \<noteq> 0 \<Longrightarrow> length p1 < length q"
    using op_levels(12) o unfolding op_lexer_def by (metis fst_conv snd_conv)+
  have p1p: "suffix p1 p" "length p1 < Suc n" using suffix_trans' [OF p1(1) q(1)] suffix_len [OF p1(1)] q(2) by auto
  have un: "inv fuel_ok (do { (right, p2) \<leftarrow> ParseExpUnair_n k f p1;
      (case right of None \<Rightarrow> ret (None, p2)
       | Some v \<Rightarrow> do { nval \<leftarrow> unary_act oper v; ret (Some nval, p2) }) }) (\<lambda>(r, p'). suffix p' p)" if "oper \<noteq> 0"
  proof -
    have "inv fuel_ok (ParseExpUnair_n k f p1) (\<lambda>(r, p'). suffix p' p1)"
      using p1(2) [OF that] q(3) Suc.prems p1p(2) by (intro Suc.IH) auto
    then show ?thesis
      by (rule inv_bind)
        (auto split: option.split dest: suffix_trans' [OF _ p1p(1)]
         intro!: inv_ret inv_bind [OF inv_diag_fuel [OF unary_act_diag], of "\<lambda>_. True"])
  qed
  have pr: "inv fuel_ok (ParseExpPrim f p1) (\<lambda>(r, p'). suffix p' p)"
    by (rule inv_conseq [OF prim_ok [OF p1p(2)]]) (auto dest: suffix_trans' [OF _ p1p(1)])
  have tr: "inv fuel_ok (or_try (try_norel f q) (or_try (try_exist q) (or_try (try_sizeof q) (try_pair f q)))) (opt_sfx q)"
    by (intro inv_or_try try_norel_ok try_exist_ok try_sizeof_ok try_pair_ok q)
  show ?case
    unfolding ParseExpUnair_n.simps q_def [symmetric] Let_def
    by (rule inv_bind [OF tr], rule inv_case_option)
      (auto simp: o intro!: un pr inv_ret dest: suffix_trans' [OF _ q(1)])
qed simp

lemma unair_operand: "operand_parser (Suc n) (ParseExpUnair f)"
  by unfold_locales (auto simp: ParseExpUnair_def keeps_unair simp del: ParseExpUnair_n.simps intro: unair_ok)

end

section \<open>The tower of levels\<close>

lemma act_diag:
  "diag_only (mul_act oper l r)" "diag_only (add_act oper l r)" "diag_only (shift_act oper l r)"
  "diag_only (minmax_act oper l r)" "diag_only (cmp_act oper l r)" "diag_only (equ_act oper l r)"
  unfolding mul_act_def add_act_def shift_act_def minmax_act_def cmp_act_def equ_act_def
  by (intro reporting)+

lemma levels_ok:
  assumes "operand_parser n entry"
  shows "operand_parser (Suc n) (ParseExpMul entry)" "operand_parser (Suc n) (ParseExpAdd entry)"
    "operand_parser (Suc n) (ParseExpShift entry)" "operand_parser (Suc n) (ParseExpMinMax entry)"
    "operand_parser (Suc n) (ParseExpCmp entry)" "operand_parser (Suc n) (ParseExpEqu entry)"
    "operand_parser (Suc n) (ParseExpBitAnd entry)" "operand_parser (Suc n) (ParseExpBitXor entry)"
    "operand_parser (Suc n) (ParseExpBitOr entry)" "operand_parser (Suc n) (ParseExpLogAnd entry)"
    "operand_parser (Suc n) (ParseExpLogOr entry)"
  unfolding ParseExpLogOr_def ParseExpLogAnd_def ParseExpBitOr_def ParseExpBitXor_def ParseExpBitAnd_def
    ParseExpEqu_def ParseExpCmp_def ParseExpMinMax_def ParseExpShift_def ParseExpAdd_def ParseExpMul_def
  by (intro level_ok act_diag op_levels rep.io_ret operand_parser.unair_operand assms)+

lemma entry_operand: "operand_parser n (ParseExpressionEntry_n n)"
proof (induction n)
  case 0
  show ?case by unfold_locales (auto simp: out_of_fuel_def intro!: keep)
next
  case (Suc n)
  have "ParseExpressionEntry_n (Suc n) = ParseExpLogOr (ParseExpressionEntry_n n)" by (rule ext) simp
  then show ?case using levels_ok(11) [OF Suc] by simp
qed

interpretation entry: operand_parser n "ParseExpressionEntry_n n" for n
  by (rule entry_operand)

interpretation mul: level_spec "Suc n" "ParseExpUnair (ParseExpressionEntry_n n)" mul_ops mul_act for n
  by (intro level_specI operand_parser.unair_operand entry_operand op_levels act_diag)

lemma shrinking_ParseExpressionEntry: "shrinking ParseExpressionEntry"
  unfolding ParseExpressionEntry_def [abs_def]
  by (rule shrinkingI [OF entry.operand_keeps entry.operand_ok]) simp

lemma keeps_ParseExpression: "keeps lp (ParseExpression p)"
  unfolding ParseExpression_def
  by (intro keep calm_keeps_lp [OF calm_set(1)] calm_keeps_lp [OF calm_set(2)]
      shrinkingD(1) [OF shrinking_ParseExpressionEntry]) (auto split: option.split intro!: keep)

lemma ParseExpression_ok: "inv fuel_ok (ParseExpression p) (\<lambda>(r, p'). suffix p' p)"
proof -
  note cb = inv_bind [OF inv_calm, of _ "\<lambda>_. True"]
  have e: "inv fuel_ok (ParseExpressionEntry p) (\<lambda>(r, p'). suffix p' p)"
    by (rule shrinkingD(2) [OF shrinking_ParseExpressionEntry])
  have alt: "inv fuel_ok (if t \<noteq> REL_OFF then do {
       osynerr \<leftarrow> gets synerr; set_synerr False; set_areLabelsOffset True;
       (r, _) \<leftarrow> ParseExpressionEntry p;
       set_areLabelsOffset False; set_synerr osynerr; ret r } else ret None) (\<lambda>_. True)" for t
    by (rule inv_if, rule cb, intro calming, rule TrueI, (rule cb, rule calming, rule TrueI)+,
        rule inv_bind [OF e], clarify, (rule cb, rule calming, rule TrueI)+, (rule inv_ret, rule TrueI)+)

  show ?thesis
    unfolding ParseExpression_def
    by (rule cb, intro calming, rule TrueI, rule inv_bind [OF alt], rule inv_bind [OF e], clarify,
        rule inv_bind [where V = "\<lambda>_. True"])
      (auto split: option.split intro!: inv_modify inv_ret simp: fuel_ok_def)
qed

lemma shrinking_ParseExpression: "shrinking ParseExpression"
  by (rule shrinkingI [OF keeps_ParseExpression ParseExpression_ok])

lemma shrinking_ParseExpressionNoSyntaxError: "shrinking ParseExpressionNoSyntaxError"
proof (rule shrinkingI)
  show "keeps lp (ParseExpressionNoSyntaxError p)" for p
    unfolding ParseExpressionNoSyntaxError_def
    by (intro keep keeps_ParseExpression calm_keeps_lp [OF calm_set(2)])
  show "inv fuel_ok (ParseExpressionNoSyntaxError p) (\<lambda>(r, p'). suffix p' p)" for p
    unfolding ParseExpressionNoSyntaxError_def
    by (rule inv_bind [OF inv_calm, of _ "\<lambda>_. True"], intro calming, rule TrueI,
        rule inv_bind [OF inv_calm, of _ "\<lambda>_. True"], rule calming, rule TrueI,
        rule inv_bind [OF ParseExpression_ok], rule inv_bind [OF inv_calm, of _ "\<lambda>_. True"],
        rule calming, rule TrueI, rule inv_ret)
qed

lemma calm_brackets [calming]: "calm_only (OpenBracketM p)" "calm_only (CloseBracketM p)"
  unfolding OpenBracketM_def CloseBracketM_def by (intro calming; simp)+

section \<open>Properties\<close>

text \<open>Claim C12. The expression parser terminates on every text in every state: started with no fuel
  exhausted, no loop and no recursion of \<open>ParseExpression\<close> runs out of its fuel (which is the length of
  the text), the returned pointer points into the given text, and the line pointer is not touched.\<close>

theorem ParseExpression_terminates:
  assumes "halted s \<noteq> OutOfFuel" "run_state (ParseExpression p) s = ((v, p'), s')"
  shows "halted s' \<noteq> OutOfFuel \<and> suffix p' p \<and> lp s' = lp s"
  using invD [OF ParseExpression_ok [of p] _ assms(2)] keepsD [OF keeps_ParseExpression assms(2)] assms(1)
  by (auto simp: fuel_ok_def)

theorem ParseExpression_terminates_witness:
  "halted (snd (run_state (ParseExpression ''1+2*(3-x)'') asm0)) \<noteq> OutOfFuel"
proof -
  obtain v p' s' where r: "run_state (ParseExpression ''1+2*(3-x)'') asm0 = ((v, p'), s')" by (metis prod.collapse)
  moreover have "halted asm0 \<noteq> OutOfFuel" by code_simp
  ultimately show ?thesis using ParseExpression_terminates [of asm0 "''1+2*(3-x)''" v p' s'] by simp
qed

end
