(* ===== verification/Sj_Expr_Eval.thy ===== *)
theory Sj_Expr_Eval
  imports Sj_Expr_Term
begin

text \<open>
  What the expression parser computes. Expressions as trees have a mathematical value (\<open>eval\<close>) and a
  source text (\<open>pr\<close>) that has parentheses only where the precedence or the left associativity of the
  operators demands them. Parsing the text of a tree gives the tree's value and stops behind it: the
  precedence climbing of the eleven functions is right for every combination of operators.
\<close>

section \<open>Trees, values and texts\<close>

datatype binop =
    OMul | ODiv | OMod | OAdd | OSub | OShl | OSar | OShr | OMin | OMax | OLt | OGt | OLe | OGe | OEq | ONe
  | OBAnd | OBXor | OBOr | OLAnd | OLOr

datatype unop = UNot | UCom | UPlus | UNeg | ULow | UHigh | UAbs | UU16

datatype expr = Num nat | Here | Una unop expr | Bina binop expr expr

fun bin_sem :: "binop \<Rightarrow> int \<Rightarrow> int \<Rightarrow> int" where
  "bin_sem OMul a b = wrap32 (a * b)"
| "bin_sem ODiv a b = (if (a < 0) = (b < 0) then \<bar>a\<bar> div \<bar>b\<bar> else - (\<bar>a\<bar> div \<bar>b\<bar>))"
| "bin_sem OMod a b = (if a < 0 then - (\<bar>a\<bar> mod \<bar>b\<bar>) else \<bar>a\<bar> mod \<bar>b\<bar>)"
| "bin_sem OAdd a b = wrap32 (a + b)"
| "bin_sem OSub a b = wrap32 (a - b)"
| "bin_sem OShl a b = wrap32 (a * 2 ^ nat b)"
| "bin_sem OSar a b = a div 2 ^ nat b"
| "bin_sem OShr a b = wrap32 (u32 a div 2 ^ nat b)"
| "bin_sem OMin a b = min a b"
| "bin_sem OMax a b = max a b"
| "bin_sem OLt a b = c_bool (a < b)"
| "bin_sem OGt a b = c_bool (b < a)"
| "bin_sem OLe a b = c_bool (a \<le> b)"
| "bin_sem OGe a b = c_bool (b \<le> a)"
| "bin_sem OEq a b = c_bool (a = b)"
| "bin_sem ONe a b = c_bool (a \<noteq> b)"
| "bin_sem OBAnd a b = a AND b"
| "bin_sem OBXor a b = a XOR b"
| "bin_sem OBOr a b = a OR b"
| "bin_sem OLAnd a b = c_bool (a \<noteq> 0 \<and> b \<noteq> 0)"
| "bin_sem OLOr a b = c_bool (a \<noteq> 0 \<or> b \<noteq> 0)"

fun un_sem :: "unop \<Rightarrow> int \<Rightarrow> int" where
  "un_sem UNot a = c_bool (a = 0)"
| "un_sem UCom a = - a - 1"
| "un_sem UPlus a = a"
| "un_sem UNeg a = wrap32 (- a)"
| "un_sem ULow a = a mod 256"
| "un_sem UHigh a = a div 256 mod 256"
| "un_sem UAbs a = wrap32 \<bar>a\<bar>"
| "un_sem UU16 a = a mod 65536"

fun eval :: "int \<Rightarrow> expr \<Rightarrow> int" where
  "eval here (Num n) = wrap32 (int n)"
| "eval here Here = here"
| "eval here (Una u e) = un_sem u (eval here e)"
| "eval here (Bina b e1 e2) = bin_sem b (eval here e1) (eval here e2)"

text \<open>Trees whose evaluation is defined: numbers of 32 bits, no division by zero or overflowing division, no
  shift by an amount outside \<open>0..31\<close>.\<close>

fun bin_defined :: "binop \<Rightarrow> int \<Rightarrow> int \<Rightarrow> bool" where
  "bin_defined ODiv a b \<longleftrightarrow> b \<noteq> 0 \<and> \<not> div_overflows a b"
| "bin_defined OMod a b \<longleftrightarrow> b \<noteq> 0 \<and> \<not> div_overflows a b"
| "bin_defined OShl a b \<longleftrightarrow> 0 \<le> b \<and> b \<le> 31"
| "bin_defined OSar a b \<longleftrightarrow> 0 \<le> b \<and> b \<le> 31"
| "bin_defined OShr a b \<longleftrightarrow> 0 \<le> b \<and> b \<le> 31"
| "bin_defined _ a b \<longleftrightarrow> True"

fun defined :: "int \<Rightarrow> expr \<Rightarrow> bool" where
  "defined here (Num n) \<longleftrightarrow> n < 4294967296"
| "defined here Here \<longleftrightarrow> True"
| "defined here (Una u e) \<longleftrightarrow> defined here e"
| "defined here (Bina b e1 e2) \<longleftrightarrow> defined here e1 \<and> defined here e2 \<and> bin_defined b (eval here e1) (eval here e2)"

text \<open>The height of an operator: 1 binds strongest.\<close>

fun op_height :: "binop \<Rightarrow> nat" where
  "op_height OMul = 1" | "op_height ODiv = 1" | "op_height OMod = 1"
| "op_height OAdd = 2" | "op_height OSub = 2"
| "op_height OShl = 3" | "op_height OSar = 3" | "op_height OShr = 3"
| "op_height OMin = 4" | "op_height OMax = 4"
| "op_height OLt = 5" | "op_height OGt = 5" | "op_height OLe = 5" | "op_height OGe = 5"
| "op_height OEq = 6" | "op_height ONe = 6"
| "op_height OBAnd = 7" | "op_height OBXor = 8" | "op_height OBOr = 9" | "op_height OLAnd = 10" | "op_height OLOr = 11"

fun op_text :: "binop \<Rightarrow> string" where
  "op_text OMul = ''*''" | "op_text ODiv = ''/''" | "op_text OMod = ''%''"
| "op_text OAdd = ''+''" | "op_text OSub = ''-''"
| "op_text OShl = ''<<''" | "op_text OSar = ''>>''" | "op_text OShr = ''>>>''"
| "op_text OMin = ''<?''" | "op_text OMax = ''>?''"
| "op_text OLt = ''<''" | "op_text OGt = ''>''" | "op_text OLe = ''<=''" | "op_text OGe = ''>=''"
| "op_text OEq = ''==''" | "op_text ONe = ''!=''"
| "op_text OBAnd = ''&''" | "op_text OBXor = ''^''" | "op_text OBOr = ''|''" | "op_text OLAnd = ''&&''" | "op_text OLOr = ''||''"

fun un_text :: "unop \<Rightarrow> string" where
  "un_text UNot = ''!''" | "un_text UCom = ''~''" | "un_text UPlus = ''+''" | "un_text UNeg = ''-''"
| "un_text ULow = ''low ''" | "un_text UHigh = ''high ''" | "un_text UAbs = ''abs ''" | "un_text UU16 = ''u16 ''"

fun height :: "expr \<Rightarrow> nat" where
  "height (Bina b e1 e2) = op_height b"
| "height _ = 0"

definition paren :: "bool \<Rightarrow> string \<Rightarrow> string" where
  "paren b t = (if b then ''('' @ t @ '')'' else t)"

fun bare :: "expr \<Rightarrow> string" where
  "bare (Num n) = dec_digits n"
| "bare Here = ''$''"
| "bare (Una u e) = un_text u @ paren (0 < height e) (bare e)"
| "bare (Bina b e1 e2) =
     paren (op_height b < height e1) (bare e1) @ '' '' @ op_text b @ paren (op_height b - 1 < height e2) (bare e2)"

definition pr :: "nat \<Rightarrow> expr \<Rightarrow> string" where
  "pr h e = paren (h < height e) (bare e)"

section \<open>The tower\<close>

text \<open>The operators and actions of the levels, by height, and the parser of a height.\<close>

fun lev_ops :: "nat \<Rightarrow> int lexer" where
  "lev_ops 0 = mul_ops"
| "lev_ops (Suc 0) = need_str ''+ - ''"
| "lev_ops (Suc (Suc 0)) = shift_ops"
| "lev_ops (Suc (Suc (Suc 0))) = need_str ''<?>?''"
| "lev_ops (Suc (Suc (Suc (Suc 0)))) = need_str ''<=>=< > ''"
| "lev_ops (Suc (Suc (Suc (Suc (Suc 0))))) = need_str ''=_==!=''"
| "lev_ops (Suc (Suc (Suc (Suc (Suc (Suc 0)))))) = first_op (need_str ''&_'') (keyword_op ''and'')"
| "lev_ops (Suc (Suc (Suc (Suc (Suc (Suc (Suc 0))))))) = first_op (char_op CHR ''^'') (keyword_op ''xor'')"
| "lev_ops (Suc (Suc (Suc (Suc (Suc (Suc (Suc (Suc 0)))))))) = first_op (need_str ''|_'') (keyword_op ''or'')"
| "lev_ops (Suc (Suc (Suc (Suc (Suc (Suc (Suc (Suc (Suc 0))))))))) = need_str ''&&''"
| "lev_ops _ = need_str ''||''"

fun lev_act :: "nat \<Rightarrow> int \<Rightarrow> aint \<Rightarrow> aint \<Rightarrow> aint M" where
  "lev_act 0 = mul_act"
| "lev_act (Suc 0) = add_act"
| "lev_act (Suc (Suc 0)) = shift_act"
| "lev_act (Suc (Suc (Suc 0))) = minmax_act"
| "lev_act (Suc (Suc (Suc (Suc 0)))) = cmp_act"
| "lev_act (Suc (Suc (Suc (Suc (Suc 0))))) = equ_act"
| "lev_act (Suc (Suc (Suc (Suc (Suc (Suc 0)))))) = (\<lambda>_ left right. ret (left AND right))"
| "lev_act (Suc (Suc (Suc (Suc (Suc (Suc (Suc 0))))))) = (\<lambda>_ left right. ret (left XOR right))"
| "lev_act (Suc (Suc (Suc (Suc (Suc (Suc (Suc (Suc 0)))))))) = (\<lambda>_ left right. ret (left OR right))"
| "lev_act (Suc (Suc (Suc (Suc (Suc (Suc (Suc (Suc (Suc 0))))))))) = (\<lambda>_ left right. ret (c_bool (left \<noteq> 0 \<and> right \<noteq> 0)))"
| "lev_act _ = (\<lambda>_ left right. ret (c_bool (left \<noteq> 0 \<or> right \<noteq> 0)))"

fun tower :: "nat \<Rightarrow> aint option parser \<Rightarrow> aint option parser" where
  "tower 0 entry = ParseExpUnair entry"
| "tower (Suc j) entry = binary_level (lev_ops j) (lev_act j) (tower j entry)"

lemma tower_LogOr: "ParseExpLogOr entry = tower 11 entry"
  by (simp add: numeral_eq_Suc ParseExpLogOr_def ParseExpLogAnd_def ParseExpBitOr_def ParseExpBitXor_def
      ParseExpBitAnd_def ParseExpEqu_def ParseExpCmp_def ParseExpMinMax_def ParseExpShift_def ParseExpAdd_def
      ParseExpMul_def)

lemma entry_Suc: "ParseExpressionEntry_n (Suc m) = tower 11 (ParseExpressionEntry_n m)"
  by (rule ext) (simp add: tower_LogOr)

declare ParseExpressionEntry_n.simps [simp del]

section \<open>Operators in the text\<close>

fun op_code :: "binop \<Rightarrow> int" where
  "op_code OMul = 42" | "op_code ODiv = 47" | "op_code OMod = 37" | "op_code OAdd = 43" | "op_code OSub = 45"
| "op_code OShl = 120" | "op_code OSar = 124" | "op_code OShr = 186" | "op_code OMin = 123" | "op_code OMax = 125"
| "op_code OLt = 60" | "op_code OGt = 62" | "op_code OLe = 121" | "op_code OGe = 123" | "op_code OEq = 122"
| "op_code ONe = 94" | "op_code OBAnd = 38" | "op_code OBXor = 1" | "op_code OBOr = 124" | "op_code OLAnd = 76"
| "op_code OLOr = 248"

text \<open>The characters an operand may start with.\<close>

definition starts_operand :: "string \<Rightarrow> bool" where
  "starts_operand t \<longleftrightarrow> cur t \<in> set ''0123456789$(!~+-lhau''"

lemma starts_operandD:
  assumes "starts_operand t"
  shows "cur t \<noteq> CHR ''=''" "cur t \<noteq> CHR ''?''" "cur t \<noteq> CHR ''<''" "cur t \<noteq> CHR ''>''" "cur t \<noteq> CHR ''&''"
    "cur t \<noteq> CHR ''|''" "cur t \<noteq> CHR ''_''" "cur t \<noteq> CHR '' ''" "cur t \<noteq> NUL"
  using assms unfolding starts_operand_def by auto

lemma blanks_op: "skip_blanks (op_text b @ t) = op_text b @ t" "skip_blanks ('' '' @ t) = skip_blanks t"
  by (cases b; simp add: White_def ord_def) (simp add: White_def ord_def)

lemma ord_codes:
  "ord CHR ''*'' = 42" "ord CHR ''/'' = 47" "ord CHR ''%'' = 37" "ord CHR ''+'' = 43" "ord CHR ''-'' = 45"
  "ord CHR ''<'' = 60" "ord CHR ''>'' = 62" "ord CHR ''?'' = 63" "ord CHR ''='' = 61" "ord CHR ''!'' = 33"
  "ord CHR ''&'' = 38" "ord CHR ''|'' = 124" "ord CHR ''~'' = 126" "ord CHR ''l'' = 108" "ord CHR ''h'' = 104"
  "ord CHR ''a'' = 97" "ord CHR ''u'' = 117" "ord CHR ''^'' = 94" "ord CHR ''('' = 40" "ord CHR '')'' = 41"
  "ord CHR ''$'' = 36"
  by (simp_all add: ord_def)

lemma not_alpha_op: "\<not> isalpha (cur (op_text b @ t))"
  by (cases b) (simp_all add: ctype ord_def)

lemma needa_not_alpha: "\<not> isalpha (cur p) \<Longrightarrow> needa ks b p = (0, p)"
  by (simp add: needa_def)

lemma cmphstr_other:
  assumes "islower a" "cur p \<noteq> a" "cur p \<noteq> toupper a"
  shows "cmphstr (a # k) b p = (False, p)"
  using assms by (auto simp: cmphstr_def isalpha_def)

lemma keyword_not_alpha: "islower a \<Longrightarrow> \<not> isalpha (cur p) \<Longrightarrow> keyword_op (a # k) p = (0, p)"
proof -
  assume a: "islower a" "\<not> isalpha (cur p)"
  then have "cur p \<noteq> a" "cur p \<noteq> toupper a" using isupper_toupper [of a] by (auto simp: isalpha_def)
  from cmphstr_other [OF a(1) this] show ?thesis by (simp add: keyword_op_def)
qed

lemma op_found:
  assumes "starts_operand t" "op_height b = Suc j"
  shows "lev_ops j (op_text b @ t) = (op_code b, t)"
  using assms(2) starts_operandD [OF assms(1)]
  by (cases b; clarsimp simp: need_str_def first_op_def mul_ops_def shift_ops_def char_op_def need_def
      White_def ord_codes Let_def numeral_eq_Suc)

text \<open>When none of a level's operators starts here, by the first two characters.\<close>

definition nomatch :: "nat \<Rightarrow> char \<Rightarrow> char \<Rightarrow> bool" where
  "nomatch i c d \<longleftrightarrow>
     (i = 0 \<longrightarrow> c \<noteq> CHR ''*'' \<and> c \<noteq> CHR ''/'' \<and> c \<noteq> CHR ''%'') \<and>
     (i = 1 \<longrightarrow> c \<noteq> CHR ''+'' \<and> c \<noteq> CHR ''-'') \<and>
     (i = 2 \<longrightarrow> \<not> (c = CHR ''<'' \<and> d = CHR ''<'') \<and> \<not> (c = CHR ''>'' \<and> d = CHR ''>'')) \<and>
     (i = 3 \<longrightarrow> \<not> (c = CHR ''<'' \<and> d = CHR ''?'') \<and> \<not> (c = CHR ''>'' \<and> d = CHR ''?'')) \<and>
     (i = 4 \<longrightarrow> c \<noteq> CHR ''<'' \<and> c \<noteq> CHR ''>'') \<and>
     (i = 5 \<longrightarrow> c \<noteq> CHR ''='' \<and> \<not> (c = CHR ''!'' \<and> d = CHR ''='')) \<and>
     (i = 6 \<longrightarrow> \<not> (c = CHR ''&'' \<and> d \<noteq> CHR ''&'')) \<and>
     (i = 7 \<longrightarrow> c \<noteq> CHR ''^'') \<and>
     (i = 8 \<longrightarrow> \<not> (c = CHR ''|'' \<and> d \<noteq> CHR ''|'')) \<and>
     (i = 9 \<longrightarrow> \<not> (c = CHR ''&'' \<and> d = CHR ''&'')) \<and>
     (i = 10 \<longrightarrow> \<not> (c = CHR ''|'' \<and> d = CHR ''|''))"

lemma lev_ops_nomatch:
  assumes "nomatch i (cur p) (chr_at p 1)" "i < 11" "\<not> White (cur p)" "\<not> isalpha (cur p)"
  shows "lev_ops i p = (0, p)"
proof -
  have low: "islower CHR ''a''" "islower CHR ''x''" "islower CHR ''o''" by code_simp+
  have p: "skip_blanks p = p" by (rule skip_blanks_id [OF assms(3)])
  note k = needa_not_alpha [OF assms(4)] keyword_not_alpha [OF _ assms(4)]
  note d = need_str_def first_op_def mul_ops_def shift_ops_def char_op_def need_def Let_def p k low ord_codes
  from assms(2) have "i = 0 \<or> i = 1 \<or> i = 2 \<or> i = 3 \<or> i = 4 \<or> i = 5 \<or> i = 6 \<or> i = 7 \<or> i = 8 \<or> i = 9 \<or> i = 10"
    by arith
  then consider "i = 0" | "i = 1" | "i = 2" | "i = 3" | "i = 4" | "i = 5" | "i = 6" | "i = 7" | "i = 8"
    | "i = 9" | "i = 10" by blast
  then show ?thesis
  proof cases
    case 1 with assms(1) show ?thesis by (simp add: d nomatch_def)
  next case 2 with assms(1) show ?thesis by (simp add: d nomatch_def)
  next case 3 with assms(1) show ?thesis by (auto simp add: d nomatch_def numeral_eq_Suc)
  next case 4 with assms(1) show ?thesis by (auto simp add: d nomatch_def numeral_eq_Suc)
  next case 5 with assms(1) show ?thesis by (simp add: d nomatch_def numeral_eq_Suc)
  next case 6 with assms(1) show ?thesis by (auto simp add: d nomatch_def numeral_eq_Suc)
  next case 7 with assms(1) show ?thesis by (auto simp add: d nomatch_def numeral_eq_Suc)
  next case 8 with assms(1) show ?thesis by (simp add: d nomatch_def numeral_eq_Suc)
  next case 9 with assms(1) show ?thesis by (auto simp add: d nomatch_def numeral_eq_Suc)
  next case 10 with assms(1) show ?thesis by (auto simp add: d nomatch_def numeral_eq_Suc)
  next case 11 with assms(1) show ?thesis by (auto simp add: d nomatch_def numeral_eq_Suc)
  qed
qed

lemma op_height_le: "op_height b \<le> 11"
  by (cases b) simp_all

lemma not_White_op: "\<not> White (cur (op_text b @ t))"
  by (cases b) (simp_all add: White_def ord_def)

lemma op_not_lower:
  assumes "starts_operand t" "i < op_height b - 1"
  shows "lev_ops i (op_text b @ t) = (0, op_text b @ t)"
proof (rule lev_ops_nomatch [OF _ _ not_White_op not_alpha_op])
  show "i < 11" using assms(2) op_height_le [of b] by simp
  show "nomatch i (cur (op_text b @ t)) (chr_at (op_text b @ t) 1)"
    using assms(2) starts_operandD [OF assms(1)] by (cases b) (simp_all add: nomatch_def)
qed

lemma need_str_blanks: "need_str c (skip_blanks r) = need_str c r"
  by (simp add: need_str_def)

lemma first_op_blanks: "first_op (need_str c) g (skip_blanks r) = first_op (need_str c) g r"
  by (simp add: first_op_def need_str_blanks)

lemma first_char_blanks: "first_op (char_op c) g (skip_blanks r) = first_op (char_op c) g r"
  by (simp add: first_op_def char_op_def need_def)

lemma lev_ops_blanks: "lev_ops j r = lev_ops j (skip_blanks r)"
  by (cases j rule: lev_ops.cases)
    (simp_all only: lev_ops.simps mul_ops_def shift_ops_def need_str_blanks first_op_blanks first_char_blanks)

lemma wrap32_sub: "wrap32 (x + wrap32 (- y)) = wrap32 (x - y)"
  using wrap32_add_wrap32_left [of "- y" x] by (simp add: add.commute)

lemma lev_act_run:
  assumes "op_height b = Suc j" "bin_defined b x y"
  shows "run_state (lev_act j (op_code b) x y) s = (bin_sem b x y, s)"
proof -
  have d: "c_quot x y = (if (x < 0) = (y < 0) then \<bar>x\<bar> div \<bar>y\<bar> else - (\<bar>x\<bar> div \<bar>y\<bar>))" if "y \<noteq> 0"
    using that by (auto simp: c_quot_def sgn_if)
  have m: "c_rem x y = (if x < 0 then - (\<bar>x\<bar> mod \<bar>y\<bar>) else \<bar>x\<bar> mod \<bar>y\<bar>)" if "y \<noteq> 0"
  proof -
    have "\<bar>x\<bar> mod \<bar>y\<bar> = \<bar>x\<bar> - \<bar>x\<bar> div \<bar>y\<bar> * \<bar>y\<bar>" by (simp add: minus_div_mult_eq_mod)
    then show ?thesis unfolding c_rem_def d [OF that] by (auto simp: abs_if)
  qed
  show ?thesis
    using assms d m
    by (cases b; clarsimp simp: mul_act_def add_act_def shift_act_def minmax_act_def cmp_act_def equ_act_def
        ord_codes numeral_eq_Suc push_bit_eq_mult drop_bit_eq_div min_def max_def wrap32_sub)
qed

section \<open>Where an expression ends\<close>

definition stops :: "nat \<Rightarrow> string \<Rightarrow> bool" where
  "stops h r \<longleftrightarrow> (\<forall>i < h. lev_ops i r = (0, skip_blanks r))"

definition good_rest :: "string \<Rightarrow> bool" where
  "good_rest r \<longleftrightarrow> ends_number r \<and> cur r \<noteq> CHR ''$''"

lemma stopsD: "stops h r \<Longrightarrow> i < h \<Longrightarrow> lev_ops i r = (0, skip_blanks r)"
  by (simp add: stops_def)

lemma stops_mono: "stops h r \<Longrightarrow> i \<le> h \<Longrightarrow> stops i r"
  by (auto simp: stops_def)

lemma stops_op: "starts_operand t \<Longrightarrow> stops (op_height b - 1) ('' '' @ op_text b @ t)"
  unfolding stops_def
proof (intro allI impI)
  fix i assume a: "starts_operand t" "i < op_height b - 1"
  have "skip_blanks ('' '' @ op_text b @ t) = op_text b @ t"
    using blanks_op(1) [of b t] blanks_op(2) [of "op_text b @ t"] by (simp only:)
  then show "lev_ops i ('' '' @ op_text b @ t) = (0, skip_blanks ('' '' @ op_text b @ t))"
    using op_not_lower [OF a] lev_ops_blanks [of i "'' '' @ op_text b @ t"] by (simp only:)
qed

lemma stops_closing: "stops 11 (CHR '')'' # r)"
proof -
  have c: "\<not> isalpha CHR '')''" "\<not> White CHR '')''" by code_simp+
  have "nomatch i (CHR '')'') d" for i d by (simp add: nomatch_def)
  then have "lev_ops i (CHR '')'' # r) = (0, CHR '')'' # r)" if "i < 11" for i
    using lev_ops_nomatch [of i "CHR '')'' # r"] that c by simp
  then show ?thesis by (simp add: stops_def c)
qed

lemma good_rest_op: "good_rest ('' '' @ t)"
  by (simp add: good_rest_def ends_number_def is_sep_def ctype ord_def)

lemma good_rest_closing: "good_rest (CHR '')'' # t)"
  by (simp add: good_rest_def ends_number_def is_sep_def ctype ord_def)

section \<open>Operands\<close>

lemma starts_not_White: "starts_operand p \<Longrightarrow> \<not> White (cur p) \<and> cur p \<noteq> NUL"
  unfolding starts_operand_def by (auto simp: White_def ord_def)

lemma starts_skip: "starts_operand p \<Longrightarrow> skip_blanks p = p"
  using starts_not_White by (simp add: skip_blanks_id)

lemma isdigit_cases:
  assumes "isdigit c"
  shows "c \<in> set ''0123456789''"
proof -
  from assms have "of_char c \<in> {48..57::int}" by (simp add: isdigit_def ord_def)
  then have "of_char c \<in> set (map of_char ''0123456789'' :: int list)" by simp presburger
  then show ?thesis unfolding set_map by (auto simp only: image_iff of_char_eq_iff)
qed

lemma starts_digit: "isdigit (cur p) \<Longrightarrow> starts_operand p"
  using isdigit_cases [of "cur p"] unfolding starts_operand_def by auto

lemma no_keyword:
  assumes "starts_operand p"
  shows "run_state (or_try (try_norel entry p) (or_try (try_exist p) (or_try (try_sizeof p) (try_pair entry p)))) s
    = (None, s)"
proof -
  have low: "islower CHR ''n''" "islower CHR ''e''" "islower CHR ''s''" "islower CHR ''p''"
    "toupper CHR ''n'' = CHR ''N''" "toupper CHR ''e'' = CHR ''E''" "toupper CHR ''s'' = CHR ''S''"
    "toupper CHR ''p'' = CHR ''P''" by code_simp+
  have c: "cur p \<noteq> CHR ''n'' \<and> cur p \<noteq> CHR ''e'' \<and> cur p \<noteq> CHR ''s'' \<and> cur p \<noteq> CHR ''p'' \<and>
      cur p \<noteq> CHR ''N'' \<and> cur p \<noteq> CHR ''E'' \<and> cur p \<noteq> CHR ''S'' \<and> cur p \<noteq> CHR ''P''"
    using assms unfolding starts_operand_def by auto
  show ?thesis
    using c low cmphstr_other [of _ p]
    by (simp add: or_try_def try_norel_def try_exist_def try_sizeof_def try_pair_def)
qed

text \<open>Numbers, the address, parentheses.\<close>

definition atom_start :: "string \<Rightarrow> bool" where
  "atom_start p \<longleftrightarrow> cur p \<in> set ''0123456789$(''"

lemma atom_starts: "atom_start p \<Longrightarrow> starts_operand p"
  by (auto simp: atom_start_def starts_operand_def)

lemma atom_unary:
  assumes "atom_start p"
  shows "unary_ops p = (0, p)"
proof -
  have "\<not> isalpha (cur p)" "cur p \<noteq> CHR ''!''" "cur p \<noteq> CHR ''~''" "cur p \<noteq> CHR ''+''" "cur p \<noteq> CHR ''-''"
    using assms unfolding atom_start_def by (auto simp: ctype ord_def)
  then show ?thesis
    using starts_skip [OF atom_starts [OF assms]]
    by (simp add: unary_ops_def first_op_def need_str_def needa_not_alpha)
qed

lemma unair_atom:
  assumes "atom_start q" "skip_blanks p = q"
  shows "run_state (ParseExpUnair_n (Suc n) entry p) s = run_state (ParseExpPrim entry q) s"
  using no_keyword [OF atom_starts [OF assms(1)]] atom_unary [OF assms(1)]
  by (simp add: assms(2) Let_def)

lemma digits_start: "dec_digits n \<noteq> [] \<and> isdigit (cur (dec_digits n @ r))"
proof -
  have ne: "dec_digits n \<noteq> []" by (subst dec_digits.simps) simp
  then obtain c cs where "dec_digits n = c # cs" by (cases "dec_digits n") auto
  then show ?thesis using dec_digits_isdigit [of n] by simp
qed

lemma ends_not_digit: "ends_number r \<Longrightarrow> \<not> isdigit (cur r) \<and> cur r \<noteq> CHR ''_''"
  by (auto simp: ends_number_def isalnum_def is_sep_def)

lemma prim_num:
  assumes "good_rest rest" "n < 4294967296"
  shows "run_state (ParseExpPrim entry (dec_digits n @ rest)) s = ((Some (wrap32 (int n)), rest), s)"
proof -
  let ?p = "dec_digits n @ rest"
  have e: "ends_number rest" using assms(1) by (simp add: good_rest_def)
  have d: "dec_digits n \<noteq> []" "isdigit (cur ?p)" using digits_start by auto
  note ds = dec_digits_spec [of n]
  have c: "cur ?p \<noteq> NUL" "cur ?p \<noteq> CHR ''(''" "cur ?p \<noteq> CHR ''{''"
    using isdigit_cases [OF d(2)] by auto
  have t: "takeWhile isdigit ?p = dec_digits n" "dropWhile isdigit ?p = rest"
    using dec_digits_isdigit [of n] ends_not_digit [OF e]
    by (cases rest; simp add: takeWhile_append2)+
  have skip: "skip_blanks ?p = ?p" by (rule starts_skip [OF starts_digit [OF d(2)]])
  have "run_state (GetTemporaryLabelValue True ?p) s = ((None, ?p), s)"
    using c d ends_not_digit [OF e] by (simp add: GetTemporaryLabelValue_def skip t Let_def)
  moreover have "run_state (GetConstant ?p) s = ((Some (wrap32 (int n)), rest), s)"
    using ds d(1) e assms(2)
    by (intro GetConstant_plain [where ds = "dec_digits n" and b = 10 and sh = 0])
      (auto simp: literal_dec split_dec get_digits_dec)
  ultimately show ?thesis
    using c d by (simp add: ParseExpPrim_def skip Let_def ParsePrimRest_def)
qed

lemma prim_here:
  assumes "good_rest rest" "rel_type (rel s) = REL_OFF"
  shows "run_state (ParseExpPrim entry (CHR ''$'' # rest)) s = ((Some (CurAddress s), rest), s)"
proof -
  have r: "\<not> isalnum (cur rest)" "cur rest \<noteq> CHR ''$''" using assms(1) by (simp_all add: good_rest_def ends_number_def)
  then have d: "CHR ''$'' # take n rest \<noteq> replicate (Suc n) CHR ''$''" if "0 < n" for n
    using that by (cases n; cases rest) auto
  have "CHR ''$'' # take 1 rest \<noteq> replicate 2 CHR ''$''" "CHR ''$'' # take 2 rest \<noteq> replicate 3 CHR ''$''"
    "CHR ''$'' # take 3 rest \<noteq> replicate 4 CHR ''$''"
    using d [of 1] d [of 2] d [of 3] by (simp_all add: numeral_eq_Suc)
  moreover have "\<not> White CHR ''$''" "\<not> isdigit CHR ''$''" "\<not> isLabelStart (CHR ''$'' # rest) True"
    by (simp_all add: White_def isdigit_def isLabelStart_def isLabelStart0_def ctype ord_def)
  ultimately show ?thesis
    using assms(2) r by (simp add: ParseExpPrim_def ParsePrimRest_def Let_def)
qed

lemma prim_paren:
  assumes "run_state (entry (t @ CHR '')'' # rest)) s = ((v, r), s)" "skip_blanks r = CHR '')'' # rest"
  shows "run_state (ParseExpPrim entry (CHR ''('' # t @ CHR '')'' # rest)) s = ((v, rest), s)"
proof -
  have "\<not> White CHR ''(''" by code_simp
  then show ?thesis using assms by (simp add: ParseExpPrim_def Let_def need_def)
qed


text \<open>Unary operators.\<close>

fun un_code :: "unop \<Rightarrow> int" where
  "un_code UNot = 33" | "un_code UCom = 126" | "un_code UPlus = 43" | "un_code UNeg = 45"
| "un_code ULow = 108" | "un_code UHigh = 104" | "un_code UAbs = 97" | "un_code UU16 = 117"

lemma un_found:
  obtains t' where "unary_ops (un_text u @ t) = (un_code u, t')" "skip_blanks t' = skip_blanks t"
    "length t' < length (un_text u @ t)"
proof -
  have low: "islower CHR ''n''" "islower CHR ''l''" "islower CHR ''h''" "islower CHR ''a''" "islower CHR ''u''"
    "toupper CHR ''n'' = CHR ''N''" "toupper CHR ''l'' = CHR ''L''" "toupper CHR ''h'' = CHR ''H''"
    "toupper CHR ''a'' = CHR ''A''" by code_simp+
  have alpha: "isalpha CHR ''l''" "isalpha CHR ''h''" "isalpha CHR ''a''" "isalpha CHR ''u''" by code_simp+
  have white: "White CHR '' ''" "\<not> White CHR ''l''" "\<not> White CHR ''h''" "\<not> White CHR ''a''" "\<not> White CHR ''u''"
    "\<not> White CHR ''!''" "\<not> White CHR ''~''" "\<not> White CHR ''+''" "\<not> White CHR ''-''" by code_simp+
  have ke: "keyword_end True (CHR '' '' # t)" by (simp add: keyword_end_def White_def ord_def)
  note f = low(1-5) [THEN cmphstr_other] 
  have "cmphstr ''low'' True (''low'' @ '' '' @ t) = (True, '' '' @ t)"
    "cmphstr ''high'' True (''high'' @ '' '' @ t) = (True, '' '' @ t)"
    "cmphstr ''abs'' True (''abs'' @ '' '' @ t) = (True, '' '' @ t)"
    "cmphstr ''u16'' True (''u16'' @ '' '' @ t) = (True, '' '' @ t)"
    using ke by (subst cmphstr_iff; simp add: low)+
  note k = this [simplified]
  have "\<exists>t'. unary_ops (un_text u @ t) = (un_code u, t') \<and> skip_blanks t' = skip_blanks t \<and>
      length t' < length (un_text u @ t)"
    by (cases u) (simp_all add: unary_ops_def first_op_def need_str_def needa_def f k low alpha white ord_codes)
  then show thesis using that by blast
qed

lemma un_starts: "starts_operand (un_text u @ t)"
  by (cases u) (simp_all add: starts_operand_def)

lemma un_act_run: "run_state (unary_act (un_code u) a) s = (un_sem u a, s)"
proof -
  have "a AND 255 = a mod 256" "a AND 65535 = a mod 65536" "drop_bit 8 a AND 255 = a div 256 mod 256" for a :: int
    using take_bit_eq_mask [of 8 a] take_bit_eq_mask [of 16 a] take_bit_eq_mask [of 8 "drop_bit 8 a"]
    by (simp_all add: mask_eq_exp_minus_1 take_bit_eq_mod drop_bit_eq_div)
  then show ?thesis
    by (cases u) (simp_all add: unary_act_def ord_codes c_bool_def not_int_def)
qed

lemma unair_un:
  assumes "skip_blanks p = un_text u @ t" "length p \<le> n"
    and "\<And>n' t'. skip_blanks t' = skip_blanks t \<Longrightarrow> length t' < length p \<Longrightarrow> length t' < n' \<Longrightarrow>
      run_state (ParseExpUnair_n n' entry t') s = ((Some v, r), s)"
  shows "run_state (ParseExpUnair_n (Suc n) entry p) s = ((Some (un_sem u v), r), s)"
proof -
  obtain t' where t: "unary_ops (un_text u @ t) = (un_code u, t')" "skip_blanks t' = skip_blanks t"
    "length t' < length (un_text u @ t)" by (rule un_found)
  have "length (un_text u @ t) \<le> length p" using assms(1) length_skip_blanks [of p] by simp
  then have "run_state (ParseExpUnair_n n entry t') s = ((Some v, r), s)"
    using t assms(2) by (intro assms(3)) auto
  moreover have "un_code u \<noteq> 0" by (cases u) simp_all
  ultimately show ?thesis
    using no_keyword [OF un_starts] t(1) by (simp add: assms(1) Let_def un_act_run)
qed


section \<open>The induction\<close>

text \<open>What is shown of a tree at every height: the unary level (\<open>at_unary\<close>), the level of height \<open>h\<close> as a whole
  (\<open>at_level\<close>), and the next level up to the point where its loop has the tree's value as left operand
  (\<open>at_loop\<close>), which carries the left associativity.\<close>

definition after :: "nat \<Rightarrow> string \<Rightarrow> string" where
  "after h rest = (if h = 0 then rest else skip_blanks rest)"

definition at_unary :: "asm \<Rightarrow> expr \<Rightarrow> bool" where
  "at_unary s e \<longleftrightarrow> (\<forall>m rest n p. good_rest rest \<longrightarrow> length (pr 0 e) \<le> m \<longrightarrow> skip_blanks p = pr 0 e @ rest \<longrightarrow>
     length p < n \<longrightarrow>
     run_state (ParseExpUnair_n n (ParseExpressionEntry_n m) p) s = ((Some (eval (CurAddress s) e), rest), s))"

definition at_level :: "asm \<Rightarrow> expr \<Rightarrow> nat \<Rightarrow> bool" where
  "at_level s e h \<longleftrightarrow> (\<forall>m rest. good_rest rest \<longrightarrow> stops h rest \<longrightarrow> length (pr h e) \<le> m \<longrightarrow>
     run_state (tower h (ParseExpressionEntry_n m) (pr h e @ rest)) s =
       ((Some (eval (CurAddress s) e), after h rest), s))"

definition at_loop :: "asm \<Rightarrow> expr \<Rightarrow> nat \<Rightarrow> bool" where
  "at_loop s e h \<longleftrightarrow> (\<forall>m rest. good_rest rest \<longrightarrow> stops h rest \<longrightarrow> length (pr (Suc h) e) \<le> m \<longrightarrow>
     (\<exists>N. length (after h rest) < N \<and>
       run_state (tower (Suc h) (ParseExpressionEntry_n m) (pr (Suc h) e @ rest)) s =
       run_state (bin_loop N (lev_ops h) (lev_act h) (tower h (ParseExpressionEntry_n m))
         (eval (CurAddress s) e) (after h rest)) s))"

lemma after_props: "skip_blanks (after h rest) = skip_blanks rest" "length (after h rest) \<le> length rest"
  by (simp_all add: after_def)

lemma starts_bare: "starts_operand (bare e @ t)"
proof (induction e arbitrary: t)
  case (Num n)
  show ?case using starts_digit digits_start by simp
next
  case (Bina b e1 e2)
  show ?case
  proof (cases "op_height b < height e1")
    case True then show ?thesis by (simp add: paren_def starts_operand_def)
  next
    case False then show ?thesis using Bina(1) by (simp add: paren_def)
  qed
qed (simp add: starts_operand_def, simp only: bare.simps append_assoc un_starts)

lemma starts_pr: "starts_operand (pr h e @ t)"
  using starts_bare by (auto simp: pr_def paren_def) (simp add: starts_operand_def)

lemma level_0: "at_unary s e \<Longrightarrow> at_level s e 0"
  using starts_skip [OF starts_pr [of 0 e]]
  by (simp add: at_level_def at_unary_def ParseExpUnair_def after_def del: ParseExpUnair_n.simps)

lemma level_Suc: "at_loop s e h \<Longrightarrow> at_level s e (Suc h)"
  unfolding at_level_def
proof (intro allI impI)
  fix m rest
  assume l: "at_loop s e h" and r: "good_rest rest" "stops (Suc h) rest" "length (pr (Suc h) e) \<le> m"
  obtain N where N: "length (after h rest) < N"
    "run_state (tower (Suc h) (ParseExpressionEntry_n m) (pr (Suc h) e @ rest)) s =
      run_state (bin_loop N (lev_ops h) (lev_act h) (tower h (ParseExpressionEntry_n m))
         (eval (CurAddress s) e) (after h rest)) s"
    using l r stops_mono [OF r(2), of h] unfolding at_loop_def by (metis Suc_n_not_le_n nat_le_linear)
  obtain N' where "N = Suc N'" using N(1) by (cases N) auto
  moreover have "lev_ops h (after h rest) = (0, skip_blanks rest)"
    using stopsD [OF r(2), of h] lev_ops_blanks [of h rest] lev_ops_blanks [of h "after h rest"]
    by (simp add: after_props)
  ultimately show "run_state (tower (Suc h) (ParseExpressionEntry_n m) (pr (Suc h) e @ rest)) s =
       ((Some (eval (CurAddress s) e), after (Suc h) rest), s)"
    using N(2) by (simp add: after_def)
qed

lemma loop_of_level: "at_level s e h \<Longrightarrow> pr (Suc h) e = pr h e \<Longrightarrow> at_loop s e h"
  unfolding at_loop_def at_level_def by (auto simp: binary_level_def simp del: bin_loop.simps)

lemma climb:
  assumes "at_level s e k" "k \<le> n" "\<And>i. k \<le> i \<Longrightarrow> i < n \<Longrightarrow> pr (Suc i) e = pr i e"
  shows "(\<forall>i. k \<le> i \<and> i \<le> n \<longrightarrow> at_level s e i) \<and> (\<forall>i. k \<le> i \<and> i < n \<longrightarrow> at_loop s e i)"
proof -
  have "k \<le> i \<longrightarrow> i \<le> n \<longrightarrow> at_level s e i" for i
    by (induction i) (use assms level_Suc loop_of_level in \<open>auto simp: le_Suc_eq\<close>)
  then show ?thesis using loop_of_level assms(3) by auto
qed


lemma unary_paren:
  assumes "at_level s e 11" "0 < height e" "height e \<le> 11"
  shows "at_unary s e"
  unfolding at_unary_def
proof (intro allI impI)
  fix m rest n p
  assume a: "good_rest rest" "length (pr 0 e) \<le> m" "skip_blanks p = pr 0 e @ rest" "length p < n"
  have pr: "pr 0 e = CHR ''('' # bare e @ '')''" "pr 11 e = bare e" using assms(2,3) by (simp_all add: pr_def paren_def)
  obtain m' where m: "m = Suc m'" "length (bare e) \<le> m'" using a(2) by (cases m) (auto simp: pr)
  obtain n' where n: "n = Suc n'" using a(4) by (cases n) auto
  have w: "skip_blanks (CHR '')'' # rest) = CHR '')'' # rest" by (rule skip_blanks_id) (simp add: White_def ord_def)
  have "run_state (tower 11 (ParseExpressionEntry_n m') (bare e @ CHR '')'' # rest)) s =
      ((Some (eval (CurAddress s) e), CHR '')'' # rest), s)"
    using assms(1) m(2) good_rest_closing stops_closing w unfolding at_level_def pr(2) by (simp add: after_def)
  then have "run_state (ParseExpPrim (ParseExpressionEntry_n m) (CHR ''('' # bare e @ CHR '')'' # rest)) s =
      ((Some (eval (CurAddress s) e), rest), s)"
    unfolding m(1) entry_Suc by (rule prim_paren) (rule w)
  moreover have "atom_start (CHR ''('' # bare e @ CHR '')'' # rest)" by (simp add: atom_start_def)
  ultimately show "run_state (ParseExpUnair_n n (ParseExpressionEntry_n m) p) s =
      ((Some (eval (CurAddress s) e), rest), s)"
    using a(3) unfolding n pr by (subst unair_atom) simp_all
qed

lemma loop_bin:
  assumes "at_loop s e1 j" "at_level s e2 j" "op_height b = Suc j"
    and "bin_defined b (eval (CurAddress s) e1) (eval (CurAddress s) e2)"
  shows "at_loop s (Bina b e1 e2) j"
  unfolding at_loop_def
proof (intro allI impI)
  fix m rest
  let ?E = "ParseExpressionEntry_n m" and ?e = "Bina b e1 e2"
  let ?t = "pr j e2 @ rest" and ?v = "eval (CurAddress s)"
  let ?loop = "\<lambda>N. bin_loop N (lev_ops j) (lev_act j) (tower j ?E)"
  assume a: "good_rest rest" "stops j rest" "length (pr (Suc j) ?e) \<le> m"
  have pr: "pr (Suc j) ?e = pr (Suc j) e1 @ '' '' @ op_text b @ pr j e2"
    using assms(3) by (simp add: pr_def paren_def)
  have l: "length (pr (Suc j) e1) \<le> m" "length (pr j e2) \<le> m" using a(3) unfolding pr by auto
  let ?r = "'' '' @ op_text b @ ?t"
  have "good_rest ?r" "stops j ?r" using good_rest_op stops_op [OF starts_pr, of b] assms(3) by auto
  then obtain N where N: "length (after j ?r) < N" "run_state (tower (Suc j) ?E (pr (Suc j) e1 @ ?r)) s =
      run_state (?loop N (?v e1) (after j ?r)) s"
    using assms(1) l(1) unfolding at_loop_def by blast
  have sk: "skip_blanks (after j ?r) = op_text b @ ?t"
    using after_props(1) [of j ?r] blanks_op by (simp only:)
  have ops: "lev_ops j (after j ?r) = (op_code b, ?t)"
    using op_found [OF starts_pr assms(3)] sk lev_ops_blanks [of j "after j ?r"] by (simp only:)
  have "op_text b \<noteq> []" by (cases b) simp_all
  then have len: "length rest < length (after j ?r)"
    using sk length_skip_blanks [of "after j ?r"] by (cases "op_text b") auto
  obtain N' where N': "N = Suc N'" using N(1) by (cases N) auto
  have right: "run_state (tower j ?E ?t) s = ((Some (?v e2), after j rest), s)"
    using assms(2) a(1,2) l(2) unfolding at_level_def by blast
  have "op_code b \<noteq> 0" by (cases b) simp_all
  then have "run_state (?loop N (?v e1) (after j ?r)) s = run_state (?loop N' (?v ?e) (after j rest)) s"
    using ops right lev_act_run [OF assms(3,4), of s] by (simp add: N')
  moreover have "length (after j rest) < N'"
    using N(1) N' len after_props(2) [of j rest] by simp
  ultimately show "\<exists>N. length (after j rest) < N \<and> run_state (tower (Suc j) ?E (pr (Suc j) ?e @ rest)) s =
       run_state (?loop N (?v ?e) (after j rest)) s"
    using N(2) unfolding pr append_assoc by (intro exI [of _ N']) (simp only: simp_thms)
qed

lemma unary_atomI:
  assumes "\<And>rest. good_rest rest \<Longrightarrow> atom_start (pr 0 e @ rest)"
    and "\<And>rest entry. good_rest rest \<Longrightarrow>
      run_state (ParseExpPrim entry (pr 0 e @ rest)) s = ((Some (eval (CurAddress s) e), rest), s)"
  shows "at_unary s e"
  unfolding at_unary_def
proof (intro allI impI)
  fix m rest n p
  assume a: "good_rest rest" "skip_blanks p = pr 0 e @ rest" "length p < n"
  then obtain n' where "n = Suc n'" by (cases n) auto
  then show "run_state (ParseExpUnair_n n (ParseExpressionEntry_n m) p) s = ((Some (eval (CurAddress s) e), rest), s)"
    using unair_atom [OF assms(1) [OF a(1)] a(2), of n'] assms(2) [OF a(1)] by (simp only:)
qed

lemma at_everywhere_atom:
  assumes "at_unary s e" "height e = 0"
  shows "(\<forall>h \<le> 11. at_level s e h) \<and> (\<forall>h < 11. at_loop s e h) \<and> at_unary s e"
  using climb [OF level_0 [OF assms(1)], of 11] assms by (simp add: pr_def)

lemma at_everywhere_bin:
  assumes "at_loop s e j" "height e = Suc j" "j < 11"
  shows "(\<forall>h \<le> 11. at_level s e h) \<and> (\<forall>h < 11. at_loop s e h) \<and> at_unary s e"
proof -
  note up = climb [OF level_Suc [OF assms(1)], of 11]
  have u: "(\<forall>i. Suc j \<le> i \<and> i \<le> 11 \<longrightarrow> at_level s e i) \<and> (\<forall>i. Suc j \<le> i \<and> i < 11 \<longrightarrow> at_loop s e i)"
    using assms(2,3) by (intro up) (simp_all add: pr_def paren_def)
  have un: "at_unary s e" using u assms(2,3) by (intro unary_paren) simp_all
  have d: "(\<forall>i. 0 \<le> i \<and> i \<le> j \<longrightarrow> at_level s e i) \<and> (\<forall>i. 0 \<le> i \<and> i < j \<longrightarrow> at_loop s e i)"
    using assms(2) by (intro climb level_0 un) (simp_all add: pr_def paren_def)
  have "at_level s e h" if "h \<le> 11" for h using u d that by (cases "h \<le> j") simp_all
  moreover have "at_loop s e h" if "h < 11" for h
    using u d assms(1) that by (cases "h < j"; cases "h = j") simp_all
  ultimately show ?thesis using un by blast
qed

lemma at_everywhere:
  assumes "rel_type (rel s) = REL_OFF"
  shows "defined (CurAddress s) e \<Longrightarrow>
    (\<forall>h \<le> 11. at_level s e h) \<and> (\<forall>h < 11. at_loop s e h) \<and> at_unary s e"
proof (induction e)
  case (Num n)
  show ?case
  proof (rule at_everywhere_atom [OF unary_atomI])
    fix rest entry assume a: "good_rest rest"
    have "cur (dec_digits n @ rest) \<in> set ''0123456789''" by (rule isdigit_cases) (simp add: digits_start)
    then show "atom_start (pr 0 (Num n) @ rest)" by (auto simp: atom_start_def pr_def paren_def)
    show "run_state (ParseExpPrim entry (pr 0 (Num n) @ rest)) s = ((Some (eval (CurAddress s) (Num n)), rest), s)"
      using Num by (simp add: pr_def paren_def prim_num [OF a])
  qed simp
next
  case Here
  show ?case
    by (rule at_everywhere_atom [OF unary_atomI])
      (simp_all add: pr_def paren_def atom_start_def prim_here [OF _ assms])
next
  case (Una u e)
  then have IH: "at_unary s e" by simp
  have pr: "pr 0 (Una u e) = un_text u @ pr 0 e" by (simp add: pr_def paren_def)
  show ?case
  proof (rule at_everywhere_atom)
    show "at_unary s (Una u e)" unfolding at_unary_def
    proof (intro allI impI)
      fix m rest k p
      assume a: "good_rest rest" "length (pr 0 (Una u e)) \<le> m" "skip_blanks p = pr 0 (Una u e) @ rest" "length p < k"
      then obtain k' where "k = Suc k'" by (cases k) auto
      then show "run_state (ParseExpUnair_n k (ParseExpressionEntry_n m) p) s =
          ((Some (eval (CurAddress s) (Una u e)), rest), s)"
        using a IH starts_skip [OF starts_pr [of 0 e rest]] unfolding pr eval.simps
        by (simp only:, intro unair_un [of p u "pr 0 e @ rest"]) (auto simp: at_unary_def)
    qed
  qed simp
next
  case (Bina b e1 e2)
  obtain j where j: "op_height b = Suc j" by (cases b) simp_all
  then have "j < 11" using op_height_le [of b] by simp
  then show ?case
    using Bina j by (intro at_everywhere_bin [of s _ j] loop_bin) auto
qed


section \<open>Property\<close>

text \<open>What may follow an expression: blanks, then the end of the text, a closing bracket or a comma.\<close>

definition ends_expr :: "string \<Rightarrow> bool" where
  "ends_expr r \<longleftrightarrow> cur (skip_blanks r) \<in> {NUL, CHR '')'', CHR '']'', CHR ''}'', CHR '',''}"

lemma ends_expr_good:
  assumes "ends_expr r"
  shows "good_rest r"
proof -
  have "cur r \<in> {NUL, CHR '')'', CHR '']'', CHR ''}'', CHR '',''} \<or> White (cur r)"
    using assms unfolding ends_expr_def by (cases r) (auto split: if_splits)
  then show ?thesis
    unfolding good_rest_def ends_number_def by (auto simp: is_sep_def ctype White_def ord_def)
qed

lemma ends_expr_stops:
  assumes "ends_expr r"
  shows "stops 11 r"
  unfolding stops_def
proof (intro allI impI)
  fix i assume i: "i < (11::nat)"
  let ?q = "skip_blanks r"
  have c: "cur ?q \<in> {NUL, CHR '')'', CHR '']'', CHR ''}'', CHR '',''}" using assms by (simp add: ends_expr_def)
  then have "nomatch i (cur ?q) d" for d by (auto simp: nomatch_def)
  moreover have "\<not> White (cur ?q)" "\<not> isalpha (cur ?q)" using c by (auto simp: White_def ctype ord_def)
  ultimately have "lev_ops i ?q = (0, ?q)" by (intro lev_ops_nomatch i)
  then show "lev_ops i r = (0, ?q)" using lev_ops_blanks [of i r] by simp
qed

lemma ParseExpression_value:
  assumes "rel_type (rel s) = REL_OFF" "defined (CurAddress s) e" "ends_expr rest"
  shows "run_state (ParseExpression (pr 11 e @ rest)) s = ((Some (eval (CurAddress s) e), skip_blanks rest), s)"
proof -
  have "at_level s e 11" using at_everywhere [OF assms(1,2)] by simp
  then have "run_state (ParseExpressionEntry (pr 11 e @ rest)) s =
      ((Some (eval (CurAddress s) e), skip_blanks rest), s)"
    unfolding ParseExpressionEntry_def entry_Suc
    using ends_expr_good [OF assms(3)] ends_expr_stops [OF assms(3)] by (simp add: at_level_def after_def)
  then show ?thesis by (simp add: ParseExpression_def assms(1))
qed

text \<open>Claim C1. The expression parser computes the value of the expression. For every tree of the 21 binary and
  8 unary operators over decimal numbers and the address \<^verbatim>\<open>$\<close>, printed with parentheses only where precedence
  or left associativity need them, and for every following text that ends an expression, parsing returns the
  tree's value in 32-bit arithmetic, stops at the following text, and changes no state (no diagnostics).
  Outside of a relocation block; the tree must not divide by zero or shift by an amount outside 0..31.\<close>

theorem ParseExpression_evaluates:
  assumes "rel_type (rel s) = REL_OFF" "defined (CurAddress s) e" "ends_expr rest"
  shows "run_state (ParseExpression (pr 11 e @ rest)) s = ((Some (eval (CurAddress s) e), skip_blanks rest), s)"
  by (rule ParseExpression_value [OF assms])

theorem ParseExpression_evaluates_witness:
  "run_state (ParseExpression ''1 +2 *(3 -10) -(low $ --258) ,b'') asm0 = ((Some (-271), '',b''), asm0)"
proof -
  let ?e = "Bina OSub (Bina OAdd (Num 1) (Bina OMul (Num 2) (Bina OSub (Num 3) (Num 10))))
    (Bina OSub (Una ULow Here) (Una UNeg (Num 258)))"
  have "rel_type (rel asm0) = REL_OFF" "ends_expr '' ,b''" by code_simp+
  moreover have "defined (CurAddress asm0) ?e" by simp
  ultimately have p: "run_state (ParseExpression (pr 11 ?e @ '' ,b'')) asm0 =
      ((Some (eval (CurAddress asm0) ?e), skip_blanks '' ,b''), asm0)"
    by (intro ParseExpression_evaluates)
  have "pr 11 ?e @ '' ,b'' = ''1 +2 *(3 -10) -(low $ --258) ,b''" by code_simp
  moreover have "eval (CurAddress asm0) ?e = -271" by code_simp
  moreover have "skip_blanks '' ,b'' = '',b''" by code_simp
  ultimately show ?thesis using p by (simp only:)
qed

end
