(* ===== verification/Sj_Z80_Reg.thy ===== *)
theory Sj_Z80_Reg
  imports Sj_Emit_Safe Sj_Expr_Eval
begin

unbundle bit_operations_syntax

text \<open>
  The operand parsers of the instruction handlers, z80.cpp: the byte, word, port and address operands,
  the index displacement, the conditions and the registers. A register is the number the C++ enumeration
  \<^verbatim>\<open>Z80Reg\<close> gives it, because the handlers calculate with these numbers: the parts of the index
  registers carry the prefix in the low byte and the register code of H, L or (HL) above it.
\<close>

section \<open>Registers and conditions\<close>

type_synonym Z80Reg = int
type_synonym Z80Cond = int

abbreviation (input) Z80_B :: Z80Reg where "Z80_B \<equiv> 0"
abbreviation (input) Z80_C :: Z80Reg where "Z80_C \<equiv> 1"
abbreviation (input) Z80_D :: Z80Reg where "Z80_D \<equiv> 2"
abbreviation (input) Z80_E :: Z80Reg where "Z80_E \<equiv> 3"
abbreviation (input) Z80_H :: Z80Reg where "Z80_H \<equiv> 4"
abbreviation (input) Z80_L :: Z80Reg where "Z80_L \<equiv> 5"
abbreviation (input) Z80_MEM_HL :: Z80Reg where "Z80_MEM_HL \<equiv> 6"
abbreviation (input) Z80_A :: Z80Reg where "Z80_A \<equiv> 7"
abbreviation (input) Z80_I :: Z80Reg where "Z80_I \<equiv> 8"
abbreviation (input) Z80_R :: Z80Reg where "Z80_R \<equiv> 9"
abbreviation (input) Z80_F :: Z80Reg where "Z80_F \<equiv> 10"
abbreviation (input) Z80_BC :: Z80Reg where "Z80_BC \<equiv> 0x10"
abbreviation (input) Z80_DE :: Z80Reg where "Z80_DE \<equiv> 0x20"
abbreviation (input) Z80_HL :: Z80Reg where "Z80_HL \<equiv> 0x30"
abbreviation (input) Z80_SP :: Z80Reg where "Z80_SP \<equiv> 0x40"
abbreviation (input) Z80_AF :: Z80Reg where "Z80_AF \<equiv> 0x50"
abbreviation (input) LR35902_MEM_HL_I :: Z80Reg where "LR35902_MEM_HL_I \<equiv> 0x22"
abbreviation (input) LR35902_MEM_HL_D :: Z80Reg where "LR35902_MEM_HL_D \<equiv> 0x32"
abbreviation (input) Z80_IX :: Z80Reg where "Z80_IX \<equiv> 0xDD"
abbreviation (input) Z80_IY :: Z80Reg where "Z80_IY \<equiv> 0xFD"
abbreviation (input) Z80_MEM_IX :: Z80Reg where "Z80_MEM_IX \<equiv> 0x6DD"
abbreviation (input) Z80_MEM_IY :: Z80Reg where "Z80_MEM_IY \<equiv> 0x6FD"
abbreviation (input) Z80_IXH :: Z80Reg where "Z80_IXH \<equiv> 0x4DD"
abbreviation (input) Z80_IXL :: Z80Reg where "Z80_IXL \<equiv> 0x5DD"
abbreviation (input) Z80_IYH :: Z80Reg where "Z80_IYH \<equiv> 0x4FD"
abbreviation (input) Z80_IYL :: Z80Reg where "Z80_IYL \<equiv> 0x5FD"
abbreviation (input) Z80_UNK :: Z80Reg where "Z80_UNK \<equiv> -1"

abbreviation (input) Z80C_NZ :: Z80Cond where "Z80C_NZ \<equiv> 0x00"
abbreviation (input) Z80C_Z :: Z80Cond where "Z80C_Z \<equiv> 0x08"
abbreviation (input) Z80C_NC :: Z80Cond where "Z80C_NC \<equiv> 0x10"
abbreviation (input) Z80C_C :: Z80Cond where "Z80C_C \<equiv> 0x18"
abbreviation (input) Z80C_PO :: Z80Cond where "Z80C_PO \<equiv> 0x20"
abbreviation (input) Z80C_PE :: Z80Cond where "Z80C_PE \<equiv> 0x28"
abbreviation (input) Z80C_P :: Z80Cond where "Z80C_P \<equiv> 0x30"
abbreviation (input) Z80C_M :: Z80Cond where "Z80C_M \<equiv> 0x38"
abbreviation (input) Z80C_UNK :: Z80Cond where "Z80C_UNK \<equiv> 0x39"

text \<open>The groups of registers that the cases of the handlers name: the 8 bit registers with the number of
  their encoding, without and with (HL); the halves of the index registers; the pairs of the 16 bit
  arithmetic.\<close>

definition r8_regs :: "Z80Reg list" where
  "r8_regs = [Z80_B, Z80_C, Z80_D, Z80_E, Z80_H, Z80_L, Z80_A]"

definition r8_or_mem :: "Z80Reg list" where
  "r8_or_mem = [Z80_B, Z80_C, Z80_D, Z80_E, Z80_H, Z80_L, Z80_MEM_HL, Z80_A]"

definition ixy_halves :: "Z80Reg list" where
  "ixy_halves = [Z80_IXH, Z80_IXL, Z80_IYH, Z80_IYL]"

definition mem_ixy :: "Z80Reg list" where
  "mem_ixy = [Z80_MEM_IX, Z80_MEM_IY]"

definition rp_regs :: "Z80Reg list" where
  "rp_regs = [Z80_BC, Z80_DE, Z80_HL, Z80_SP]"

section \<open>Bytes, words and addresses\<close>

definition err_here :: "string \<Rightarrow> string option \<Rightarrow> EStatus \<Rightarrow> 'a \<Rightarrow> 'a M" where
  "err_here m b t v = do { Error m b t; ret v }"

definition GetByte :: "bool \<Rightarrow> int parser" where
  "GetByte signedCheck p = do {
     (r, p') \<leftarrow> ParseExpression p;
     (case r of
        None \<Rightarrow> err_here ''Operand expected'' None E_IF_FIRST (0, p')
      | Some val \<Rightarrow> do {
          (if signedCheck then check8o val else check8 val);
          ret (val AND 255, p') }) }"

definition GetByteNoMem :: "bool \<Rightarrow> int parser" where
  "GetByteNoMem signedCheck p = do {
     brackets \<leftarrow> gets (\<lambda>s. MemoryBrackets (syx (opts s)));
     if brackets = 0 then GetByte signedCheck p
     else do {
       ((res, val), p') \<leftarrow> ParseExpressionMemAccess p;
       if res = 1 then do {
         (if signedCheck then check8o val else check8 val);
         ret (val AND 255, p') }
       else if res = 2 then err_here ''Illegal instruction (can't access memory)'' (Some p) E_PASS3 (0, p')
       else err_here ''Operand expected'' (Some p) E_IF_FIRST (0, p') } }"

definition GetIoPort :: "int parser" where
  "GetIoPort p = do {
     ((res, val), p') \<leftarrow> ParseExpressionMemAccess p;
     brackets \<leftarrow> gets (\<lambda>s. MemoryBrackets (syx (opts s)));
     if res = 0 then err_here ''Operand expected'' (Some p) E_IF_FIRST (0, p')
     else if brackets = 2 \<and> res \<noteq> 2 then
       err_here ''Port address must use square brackets'' (Some p) E_PASS3 (0, p')
     else do { check8 val; ret (val AND 255, p') } }"

definition GetWord :: "int parser" where
  "GetWord p = do {
     (r, p') \<leftarrow> ParseExpression p;
     (case r of
        None \<Rightarrow> err_here ''Operand expected'' None E_IF_FIRST (0, p')
      | Some val \<Rightarrow> do { check16 val; ret (val AND 65535, p') }) }"

definition GetWordNoMem :: "int parser" where
  "GetWordNoMem p = do {
     brackets \<leftarrow> gets (\<lambda>s. MemoryBrackets (syx (opts s)));
     if brackets = 0 then GetWord p
     else do {
       ((res, val), p') \<leftarrow> ParseExpressionMemAccess p;
       if res = 1 then do { check16 val; ret (val AND 65535, p') }
       else if res = 2 then err_here ''Illegal instruction (can't access memory)'' (Some p) E_PASS3 (0, p')
       else err_here ''Operand expected'' (Some p) E_IF_FIRST (0, p') } }"

text \<open>The displacement of (IX+d). The warning about a relocated displacement is given once per place in
  the line, which \<^verbatim>\<open>lastDisplacementParsedP\<close> remembers.\<close>

definition z80GetIDxoffset :: "int parser" where
  "z80GetIDxoffset p = do {
     let pp = skip_blanks p;
     l \<leftarrow> gets lastDisplacementParsedP;
     let parsingFirstTime = (l \<noteq> Some pp);
     modify (\<lambda>s. s\<lparr>lastDisplacementParsedP := Some pp\<rparr>);
     if cur pp = CHR '')'' \<or> cur pp = CHR '']'' then ret (0, p)
     else do {
       (r, p') \<leftarrow> ParseExpression p;
       (case r of
          None \<Rightarrow> err_here ''Operand expected'' None E_IF_FIRST (0, p')
        | Some val \<Rightarrow> do {
            check8o val;
            (if parsingFirstTime then checkAndWarn False
             else do { mod_rel (\<lambda>r. r\<lparr>isResultAffected := False\<rparr>); ret False });
            ret (val AND 255, p') }) } }"

text \<open>\<open>None\<close>: the C++ function returns 0, having set the address to zero.\<close>

definition GetAddress :: "aint option parser" where
  "GetAddress p = do {
     (t, p1) \<leftarrow> GetTemporaryLabelValue False p;
     if t \<noteq> None then ret (t, p1)
     else do {
       (r, p2) \<leftarrow> ParseExpression p1;
       (case r of
          None \<Rightarrow> err_here ''Operand expected'' None E_IF_FIRST (None, p2)
        | Some ad \<Rightarrow> ret (Some ad, p2)) } }"

section \<open>Conditions\<close>

text \<open>Bit 5 of two letters differs: one is lower case, the other one upper case.\<close>

definition diff20 :: "char \<Rightarrow> char \<Rightarrow> bool" where
  "diff20 a b \<longleftrightarrow> (or20 a = a) \<noteq> (or20 b = b)"

definition cond1 :: "char \<Rightarrow> Z80Cond" where
  "cond1 c = (if c = CHR ''z'' then Z80C_Z else if c = CHR ''c'' then Z80C_C else if c = CHR ''p'' then Z80C_P
     else if c = CHR ''m'' then Z80C_M else if c = CHR ''s'' then Z80C_M else Z80C_UNK)"

definition cond2 :: "char \<Rightarrow> char \<Rightarrow> Z80Cond" where
  "cond2 a b =
     (if a = CHR ''n'' then
        (if b = CHR ''z'' then Z80C_NZ else if b = CHR ''c'' then Z80C_NC
         else if b = CHR ''s'' then Z80C_P else Z80C_UNK)
      else if a = CHR ''p'' then
        (if b = CHR ''o'' then Z80C_PO else if b = CHR ''e'' then Z80C_PE else Z80C_UNK)
      else Z80C_UNK)"

definition getz80cond_Z80 :: "Z80Cond lexer" where
  "getz80cond_Z80 p0 =
     (let p = skip_blanks p0 in
      if cur p = NUL then (Z80C_UNK, p)
      else if \<not> islabchar (chr_at p 1) then
        (let cc = cond1 (or20 (cur p)) in (cc, if cc = Z80C_UNK then p else drop 1 p))
      else if diff20 (cur p) (chr_at p 1) then (Z80C_UNK, p)
      else if islabchar (chr_at p 2) then (Z80C_UNK, p)
      else (let cc = cond2 (or20 (cur p)) (or20 (chr_at p 1)) in (cc, if cc = Z80C_UNK then p else drop 2 p)))"

definition getz80cond :: "bool \<Rightarrow> Z80Cond lexer" where
  "getz80cond isLR35902 p =
     (if \<not> isLR35902 then getz80cond_Z80 p
      else case getz80cond_Z80 p of (cc, p') \<Rightarrow>
        if cc \<in> {Z80C_NZ, Z80C_Z, Z80C_NC, Z80C_C} then (cc, p') else (Z80C_UNK, p))"

definition condM :: "Z80Cond M" where
  "condM = do { b \<leftarrow> gets (\<lambda>s. IsLR35902 (opts s)); lexM (getz80cond b) }"

section \<open>Register names\<close>

definition GetRegister_r16High :: "Z80Reg \<Rightarrow> Z80Reg" where
  "GetRegister_r16High r16 =
     (if r16 = Z80_BC then Z80_B else if r16 = Z80_DE then Z80_D else if r16 = Z80_HL then Z80_H
      else if r16 = Z80_AF then Z80_A else if r16 = Z80_IX then Z80_IXH else if r16 = Z80_IY then Z80_IYH
      else Z80_UNK)"

definition GetRegister_r16Low :: "Z80Reg \<Rightarrow> Z80Reg" where
  "GetRegister_r16Low r16 =
     (if r16 = Z80_BC then Z80_C else if r16 = Z80_DE then Z80_E else if r16 = Z80_HL then Z80_L
      else if r16 = Z80_AF then Z80_F else if r16 = Z80_IX then Z80_IXL else if r16 = Z80_IY then Z80_IYL
      else Z80_UNK)"

definition force_case :: "bool \<Rightarrow> char \<Rightarrow> char" where
  "force_case caseInsensitive c = (if caseInsensitive then or20 c else c)"

definition GetRegister_pair :: "bool \<Rightarrow> char \<Rightarrow> bool lexer" where
  "GetRegister_pair ci expect p =
     (if force_case ci expect \<noteq> force_case ci (cur p) \<or> islabchar (chr_at p 1) then (False, p)
      else (True, drop 1 p))"

definition GetRegister_3letter :: "bool \<Rightarrow> char \<Rightarrow> char \<Rightarrow> bool lexer" where
  "GetRegister_3letter ci expect1 expect2 p =
     (if islabchar (chr_at p 2) then (False, p)
      else if force_case ci expect1 \<noteq> force_case ci (cur p) \<or> force_case ci expect2 \<noteq> force_case ci (chr_at p 1)
      then (False, p) else (True, drop 2 p))"

text \<open>The look-up table for single letters; None: the letter is outside of its range.\<close>

definition r8 :: "options \<Rightarrow> char \<Rightarrow> Z80Reg option" where
  "r8 opt c =
     (let nonZ80CPU = (IsI8080 opt \<or> IsLR35902 opt) in
      if c = CHR ''a'' then Some Z80_A else if c = CHR ''b'' then Some Z80_B else if c = CHR ''c'' then Some Z80_C
      else if c = CHR ''d'' then Some Z80_D else if c = CHR ''e'' then Some Z80_E else if c = CHR ''f'' then Some Z80_F
      else if c = CHR ''h'' then Some Z80_H
      else if c = CHR ''i'' then Some (if nonZ80CPU then Z80_UNK else Z80_I)
      else if c = CHR ''l'' then Some Z80_L
      else if c = CHR ''m'' then Some (if Is_M_Memory (syx opt) then Z80_MEM_HL else Z80_UNK)
      else if c = CHR ''r'' then Some (if nonZ80CPU then Z80_UNK else Z80_R)
      else if c \<in> {CHR ''g'', CHR ''j'', CHR ''k'', CHR ''n'', CHR ''o'', CHR ''p'', CHR ''q''} then Some Z80_UNK
      else None)"

text \<open>The rest of the longer names after their first letter, in the order of the tests: one more letter
  (\<^verbatim>\<open>GetRegister_pair\<close>) or two (\<^verbatim>\<open>GetRegister_3letter\<close>).\<close>

definition reg_tails_low :: "bool \<Rightarrow> char \<Rightarrow> (string \<times> Z80Reg) list" where
  "reg_tails_low nonZ80CPU c =
     (if c = CHR ''a'' then [(''f'', Z80_AF)]
      else if c = CHR ''b'' then [(''c'', Z80_BC)]
      else if c = CHR ''d'' then [(''e'', Z80_DE)]
      else if c = CHR ''h'' then (''l'', Z80_HL) # (if nonZ80CPU then [] else [(''x'', Z80_IXH), (''y'', Z80_IYH)])
      else if c = CHR ''s'' then [(''p'', Z80_SP)]
      else if nonZ80CPU then []
      else if c = CHR ''i'' then [(''x'', Z80_IX), (''y'', Z80_IY), (''xh'', Z80_IXH), (''xl'', Z80_IXL),
        (''yh'', Z80_IYH), (''yl'', Z80_IYL)]
      else if c = CHR ''x'' then [(''h'', Z80_IXH), (''l'', Z80_IXL)]
      else if c = CHR ''y'' then [(''h'', Z80_IYH), (''l'', Z80_IYL)]
      else if c = CHR ''l'' then [(''x'', Z80_IXL), (''y'', Z80_IYL)]
      else [])"

definition reg_tails :: "bool \<Rightarrow> char \<Rightarrow> (string \<times> Z80Reg) list" where
  "reg_tails nonZ80CPU c =
     (if isupper c then map (\<lambda>(t, r). (map toupper t, r)) (reg_tails_low nonZ80CPU (tolower c))
      else reg_tails_low nonZ80CPU c)"

fun match_tails :: "bool \<Rightarrow> (string \<times> Z80Reg) list \<Rightarrow> string \<Rightarrow> (Z80Reg \<times> string) option" where
  "match_tails ci [] p = None"
| "match_tails ci ((t, r) # ts) p =
     (case (if length t = 1 then GetRegister_pair ci (hd t) p else GetRegister_3letter ci (hd t) (last t) p) of
        (ok, p') \<Rightarrow> if ok then Some (r, p') else match_tails ci ts p)"

definition mem_close :: "int \<Rightarrow> char \<Rightarrow> char option" where
  "mem_close brackets c =
     (if c = CHR ''('' then (if brackets \<noteq> 2 then Some CHR '')'' else None)
      else if c = CHR ''['' then Some CHR '']'' else None)"

section \<open>GetRegister\<close>

text \<open>The memory operands: the register, "+" or "-" after HL on the LR35902, the displacement after IX and
  IY, the closing bracket.\<close>

definition hl_inc_dec :: "bool \<Rightarrow> Z80Reg \<Rightarrow> Z80Reg lexer" where
  "hl_inc_dec isLR35902 r p =
     (if isLR35902 \<and> r = Z80_HL \<and> cur p = CHR ''+'' then (LR35902_MEM_HL_I, drop 1 p)
      else if isLR35902 \<and> r = Z80_HL \<and> cur p = CHR ''-'' then (LR35902_MEM_HL_D, drop 1 p)
      else (r, p))"

definition mem_reg :: "Z80Reg \<Rightarrow> Z80Reg" where
  "mem_reg r = (if r = Z80_HL then Z80_MEM_HL else if r = Z80_IX then Z80_MEM_IX else if r = Z80_IY then Z80_MEM_IY
     else if r = LR35902_MEM_HL_I \<or> r = LR35902_MEM_HL_D then r else Z80_UNK)"

definition mem_operand :: "Z80Reg parser \<Rightarrow> char \<Rightarrow> string \<Rightarrow> Z80Reg parser" where
  "mem_operand get memClose pp q = do {
     (r1, p1) \<leftarrow> get q;
     isLR \<leftarrow> gets (\<lambda>s. IsLR35902 (opts s));
     (case hl_inc_dec isLR r1 p1 of (memReg, p2) \<Rightarrow> do {
        p3 \<leftarrow> (if memReg = Z80_IX \<or> memReg = Z80_IY then do {
            (d, p3) \<leftarrow> z80GetIDxoffset p2;
            modify (\<lambda>s. s\<lparr>GetRegister_lastIxyD := d\<rparr>);
            ret p3 }
          else ret p2);
        let p4 = skip_blanks p3;
        if cur p4 = memClose \<and> mem_reg memReg \<noteq> Z80_UNK then ret (mem_reg memReg, drop 1 p4)
        else ret (Z80_UNK, pp) }) }"

text \<open>high and low of a register pair. The pointer is set back only when no register was found: after a
  register that is no pair, the unknown register is returned with the pointer behind it.\<close>

definition reg_part :: "Z80Reg parser \<Rightarrow> (Z80Reg \<Rightarrow> Z80Reg) \<Rightarrow> string \<Rightarrow> Z80Reg parser" where
  "reg_part get part pp q = do {
     (reg, p1) \<leftarrow> get q;
     ret (if reg = Z80_UNK then (Z80_UNK, pp) else (part reg, p1)) }"

fun GetRegister_n :: "nat \<Rightarrow> Z80Reg parser" where
  "GetRegister_n 0 pp = do { out_of_fuel; ret (Z80_UNK, pp) }"
| "GetRegister_n (Suc n) pp = do {
     opt \<leftarrow> gets opts;
     let p = skip_blanks pp;
     (case (if islabchar (chr_at p 1) then None else r8 opt (or20 (cur p))) of
        Some r \<Rightarrow> ret (r, if r = Z80_UNK then pp else drop 1 p)
      | None \<Rightarrow>
          (case cmphstr ''high'' False p of (isHigh, p1) \<Rightarrow>
             if isHigh then reg_part (GetRegister_n n) GetRegister_r16High pp p1
             else case cmphstr ''low'' False p1 of (isLow, p2) \<Rightarrow>
               if isLow then reg_part (GetRegister_n n) GetRegister_r16Low pp p2
               else case match_tails (CaseInsensitiveInstructions (syx opt))
                   (reg_tails (IsI8080 opt \<or> IsLR35902 opt) (cur p2)) (drop 1 p2) of
                 Some (r, p3) \<Rightarrow> ret (r, p3)
               | None \<Rightarrow>
                   (case mem_close (MemoryBrackets (syx opt)) (cur p2) of
                      None \<Rightarrow> ret (Z80_UNK, pp)
                    | Some memClose \<Rightarrow> mem_operand (GetRegister_n n) memClose pp (drop 1 p2)))) }"

definition GetRegister :: "Z80Reg parser" where
  "GetRegister p = GetRegister_n (Suc (length p)) p"

text \<open>Looks for (C) or [C] as port.\<close>

definition NeedIoC :: "bool M" where
  "NeedIoC = do {
     lexM SkipBlanks;
     old_p \<leftarrow> gets lp;
     bt \<leftarrow> on_lp OpenBracketM;
     ok1 \<leftarrow> (if bt = BT_NONE then ret False else do { r \<leftarrow> on_lp GetRegister; ret (r = Z80_C) });
     ok2 \<leftarrow> (if ok1 then on_lp CloseBracketM else ret False);
     whenM (\<not> ok2) (set_lp old_p);
     ret ok2 }"

section \<open>The loop over the arguments of a multi-argument instruction\<close>

text \<open>\<open>multi_args sep body\<close> is \<^verbatim>\<open>do { body } while (sep(lp))\<close>; \<open>body\<close> returns False for a \<^verbatim>\<open>break\<close>. A
  separator is at least one character, the rest of the line bounds the number of rounds.\<close>

definition multi_args :: "(SSyntax \<Rightarrow> bool lexer) \<Rightarrow> bool M \<Rightarrow> unit M" where
  "multi_args sep body = do {
     p \<leftarrow> gets lp;
     do_while (Suc (length p)) (do {
       go \<leftarrow> body;
       if go then do { x \<leftarrow> gets (\<lambda>s. syx (opts s)); lexM (sep x) } else ret False }) }"

text \<open>The bodies mostly fill an array \<^verbatim>\<open>e\<close> of machine code bytes, preset with -1, and emit it at their end. The
  model has the list of the bytes, where the end of the list is the first -1 that was left; \<open>emit_break\<close> takes
  a body that may leave the loop instead (None).\<close>

definition emit_args :: "(SSyntax \<Rightarrow> bool lexer) \<Rightarrow> int list M \<Rightarrow> unit M" where
  "emit_args sep body = multi_args sep (do { e \<leftarrow> body; EmitBytes e True; ret True })"

definition emit_break :: "(SSyntax \<Rightarrow> bool lexer) \<Rightarrow> int list option M \<Rightarrow> unit M" where
  "emit_break sep body = multi_args sep (do {
     r \<leftarrow> body;
     (case r of None \<Rightarrow> ret False | Some e \<Rightarrow> do { EmitBytes e True; ret True }) })"

text \<open>The rest of a body after a fake instruction was recognised: no bytes when fakes are disabled.\<close>

definition fake :: "int list \<Rightarrow> int list M" where
  "fake e = do { no \<leftarrow> noFakes True; ret (if no then [] else e) }"

definition commaM :: "bool M" where
  "commaM = lexM comma"

definition getReg :: "Z80Reg M" where
  "getReg = on_lp GetRegister"

end
