(* ===== verification/Sj_Z80_Alu.thy ===== *)
theory Sj_Z80_Alu
  imports Sj_Z80_Reg
begin

unbundle bit_operations_syntax

text \<open>
  The handlers of the arithmetic and logic instructions, of the rotates, shifts and bit instructions and
  of INC and DEC, z80.cpp. \<open>CommonAluOpcode\<close>, \<open>OpCode_CbFamily\<close> and \<open>OpCode_DecInc\<close> are the shared parts, they
  return the bytes that the C++ functions store into the array of their caller.
\<close>

section \<open>Shared encodings\<close>

text \<open>\<open>alu_bytes\<close>: the inner \<^verbatim>\<open>switch\<close> of \<open>CommonAluOpcode\<close>, after an optional "a,".\<close>

definition alu_bytes :: "int \<Rightarrow> Z80Reg \<Rightarrow> int list M" where
  "alu_bytes opcodeBase reg = do {
     d \<leftarrow> gets GetRegister_lastIxyD;
     if reg \<in> set (ixy_halves @ mem_ixy) then
       (let r = drop_bit 8 reg in
        ret ([reg AND 0xFF, opcodeBase + r] @ (if r = Z80_MEM_HL then [d] else [])))
     else if reg \<in> set r8_or_mem then ret [opcodeBase + reg]
     else if reg = Z80_UNK then do {
       b \<leftarrow> on_lp (GetByteNoMem False);
       resolveRelocationAndSmartSmc 1 REL_HIGH;
       ret [opcodeBase + 0x46, b] }
     else ret [] }"

text \<open>The result says whether the operands were dealt with; False: another variant may still fit, and the
  pointer is back at the first operand.\<close>

definition CommonAluOpcode :: "int \<Rightarrow> bool \<Rightarrow> bool \<Rightarrow> (bool \<times> int list) M" where
  "CommonAluOpcode opcodeBase hasNonRegA nonMultiArgComma = do {
     oldLp \<leftarrow> gets lp;
     reg \<leftarrow> getReg;
     isLR \<leftarrow> gets (\<lambda>s. IsLR35902 (opts s));
     x \<leftarrow> gets (\<lambda>s. syx (opts s));
     if reg \<in> {Z80_BC, Z80_DE, Z80_HL, Z80_IX, Z80_IY} then do {
       whenM hasNonRegA (set_lp oldLp);
       ret (\<not> hasNonRegA, []) }
     else if reg = Z80_SP then do {
       whenM isLR (set_lp oldLp);
       ret (\<not> isLR, []) }
     else if reg \<in> {Z80_AF, Z80_I, Z80_R, Z80_F, LR35902_MEM_HL_I, LR35902_MEM_HL_D} then ret (True, [])
     else do {
       second \<leftarrow> (if reg = Z80_A then lexM (if nonMultiArgComma then nonMaComma x else comma) else ret False);
       reg' \<leftarrow> (if second then getReg else ret reg);
       e \<leftarrow> alu_bytes opcodeBase reg';
       ret (True, e) } }"

definition OpCode_SimpleAlu :: "int \<Rightarrow> unit M" where
  "OpCode_SimpleAlu opcodeBase =
     emit_args call_MultiArg (do { (_, e) \<leftarrow> CommonAluOpcode opcodeBase False True; ret e })"

text \<open>\<^verbatim>\<open>OpCode_CbFamily\<close> returns A when the instruction was recognised, otherwise the register it found.\<close>

definition OpCode_CbFamily :: "int \<Rightarrow> bool \<Rightarrow> (Z80Reg \<times> int list) M" where
  "OpCode_CbFamily baseOpcode canHaveDstRegForIxy = do {
     reg \<leftarrow> getReg;
     d \<leftarrow> gets GetRegister_lastIxyD;
     if reg \<in> set r8_or_mem then ret (Z80_A, [0xcb, baseOpcode + reg])
     else if reg \<in> set mem_ixy then do {
       second \<leftarrow> (if canHaveDstRegForIxy then commaM else ret False);
       op \<leftarrow> (if second then do {
           reg2 \<leftarrow> getReg;
           if reg2 \<in> set r8_regs then ret (baseOpcode + reg2)
           else do {
             l \<leftarrow> gets line;
             err_here ''Illegal destination register'' (Some l) E_PASS3 (baseOpcode + drop_bit 8 reg) } }
         else ret (baseOpcode + drop_bit 8 reg));
       ret (Z80_A, [reg AND 0xFF, 0xcb, d, op]) }
     else ret (reg, []) }"

section \<open>16 bit arithmetic\<close>

text \<open>DE and HL swapped, for the fakes that exchange the two around an operation on HL.\<close>

definition swap_de_hl :: "Z80Reg \<Rightarrow> Z80Reg" where
  "swap_de_hl r = (if r = Z80_DE \<or> r = Z80_HL then r XOR 0x10 else r)"

text \<open>The common frame of ADC, ADD, SBC and SUB: \<open>alu16 name base sepA pairs\<close> first tries the 8 bit variants; otherwise
  \<open>pairs reg reg2\<close> gives the bytes for the two registers.\<close>

definition alu16 :: "string \<Rightarrow> int \<Rightarrow> bool \<Rightarrow> (Z80Reg \<Rightarrow> Z80Reg \<Rightarrow> int list M) \<Rightarrow> unit M" where
  "alu16 name opcodeBase nonMultiArgComma pairs = emit_break call_MultiArg (do {
     (handled, e) \<leftarrow> CommonAluOpcode opcodeBase True nonMultiArgComma;
     if handled then ret (Some e)
     else do {
       reg \<leftarrow> getReg;
       if reg = Z80_UNK then ret None
       else do {
         c \<leftarrow> commaM;
         if \<not> c then err_here (name @ '' Comma expected'') None E_PASS3 None
         else do {
           reg2 \<leftarrow> getReg;
           e \<leftarrow> pairs reg reg2;
           ret (Some e) } } } })"

definition adc_pairs :: "Z80Reg \<Rightarrow> Z80Reg \<Rightarrow> int list M" where
  "adc_pairs reg reg2 = do {
     opt \<leftarrow> gets opts;
     if reg = Z80_HL \<and> \<not> (IsI8080 opt \<or> IsLR35902 opt) then
       ret (if reg2 \<in> set rp_regs then [0xed, 0x4a + reg2 - Z80_BC] else [])
     else if reg = Z80_DE \<and> reg2 \<in> set rp_regs then
       fake [0xEB, INSTRUCTION_START_MARKER, 0xED, 0x4A + swap_de_hl reg2 - Z80_BC, INSTRUCTION_START_MARKER, 0xEB]
     else ret [] }"

definition OpCode_ADC :: "unit M" where
  "OpCode_ADC = alu16 ''[ADC]'' 0x88 False adc_pairs"

text \<open>ADD with an immediate word, of the Z80N.\<close>

definition add_imm16 :: "int \<Rightarrow> int list M" where
  "add_imm16 opcode = do {
     b \<leftarrow> on_lp GetWordNoMem;
     resolveRelocationAndSmartSmc 2 REL_REGULAR;
     ret [0xED, opcode, b AND 255, drop_bit 8 b] }"

text \<open>The case BC, into which DE falls through with the bytes \<open>e\<close> of a possible fake.\<close>

definition add_next :: "Z80Reg \<Rightarrow> Z80Reg \<Rightarrow> int list \<Rightarrow> int list M" where
  "add_next reg reg2 e = do {
     nxt \<leftarrow> gets (\<lambda>s. IsNextEnabled (syx (opts s)));
     let bc = (if reg = Z80_BC then 1 else 0);
     if nxt = 0 then ret e
     else if reg2 = Z80_A then ret [0xED, 0x32 + bc]
     else if reg2 = Z80_UNK then add_imm16 (0x35 + bc)
     else ret e }"

definition add_pairs :: "Z80Reg \<Rightarrow> Z80Reg \<Rightarrow> int list M" where
  "add_pairs reg reg2 = do {
     opt \<leftarrow> gets opts;
     if reg = Z80_HL then
       (if reg2 \<in> set rp_regs then ret [0x09 + reg2 - Z80_BC]
        else if IsNextEnabled (syx opt) = 0 then ret []
        else if reg2 = Z80_A then ret [0xED, 0x31]
        else add_imm16 0x34)
     else if reg = Z80_IX \<or> reg = Z80_IY then
       (if reg2 \<in> {Z80_BC, Z80_DE, Z80_SP} then ret [reg, 0x09 + reg2 - Z80_BC]
        else if reg2 = reg then ret [reg, 0x29]
        else ret [])
     else if reg = Z80_DE then do {
       e \<leftarrow> (if reg2 \<in> set rp_regs then
           fake [0xEB, INSTRUCTION_START_MARKER, 0x09 + swap_de_hl reg2 - Z80_BC, INSTRUCTION_START_MARKER, 0xEB]
         else ret []);
       add_next reg reg2 e }
     else if reg = Z80_BC then add_next reg reg2 []
     else if reg = Z80_SP then
       (if \<not> IsLR35902 opt \<or> reg2 \<noteq> Z80_UNK then ret []
        else do { b \<leftarrow> on_lp (GetByteNoMem True); ret [0xE8, b] })
     else ret [] }"

definition OpCode_ADD :: "unit M" where
  "OpCode_ADD = alu16 ''[ADD]'' 0x80 False add_pairs"

definition sbc_pairs :: "Z80Reg \<Rightarrow> Z80Reg \<Rightarrow> int list M" where
  "sbc_pairs reg reg2 = do {
     opt \<leftarrow> gets opts;
     if reg = Z80_HL \<and> \<not> (IsI8080 opt \<or> IsLR35902 opt) then
       ret (if reg2 \<in> set rp_regs then [0xed, 0x32 + reg2] else [])
     else if reg = Z80_DE \<and> reg2 \<in> set rp_regs then
       fake [0xEB, INSTRUCTION_START_MARKER, 0xED, 0x32 + swap_de_hl reg2, INSTRUCTION_START_MARKER, 0xEB]
     else ret [] }"

definition OpCode_SBC :: "unit M" where
  "OpCode_SBC = alu16 ''[SBC]'' 0x98 False sbc_pairs"

definition sub_pairs :: "Z80Reg \<Rightarrow> Z80Reg \<Rightarrow> int list M" where
  "sub_pairs reg reg2 =
     (if reg = Z80_HL \<and> reg2 \<in> set rp_regs then
        fake [0xB7, INSTRUCTION_START_MARKER, 0xed, 0x32 + reg2]
      else if reg = Z80_DE \<and> reg2 \<in> set rp_regs then
        fake [0xB7, INSTRUCTION_START_MARKER, 0xEB, INSTRUCTION_START_MARKER, 0xED, 0x32 + swap_de_hl reg2,
          INSTRUCTION_START_MARKER, 0xEB]
      else ret [])"

definition OpCode_SUB :: "unit M" where
  "OpCode_SUB = alu16 ''[SUB]'' 0x90 True sub_pairs"

section \<open>8 bit arithmetic and logic\<close>

definition OpCode_AND :: "unit M" where "OpCode_AND = OpCode_SimpleAlu 0xa0"
definition OpCode_CP :: "unit M" where "OpCode_CP = OpCode_SimpleAlu 0xb8"
definition OpCode_OR :: "unit M" where "OpCode_OR = OpCode_SimpleAlu 0xb0"
definition OpCode_XOR :: "unit M" where "OpCode_XOR = OpCode_SimpleAlu 0xa8"

definition OpCode_DecInc :: "int \<Rightarrow> int \<Rightarrow> int list M" where
  "OpCode_DecInc base8bOpcode base16bOpcode = do {
     reg \<leftarrow> getReg;
     d \<leftarrow> gets GetRegister_lastIxyD;
     ret (if reg \<in> set mem_ixy then [reg AND 0xFF, base8bOpcode + 8 * drop_bit 8 reg, d]
          else if reg \<in> set ixy_halves then [reg AND 0xFF, base8bOpcode + 8 * drop_bit 8 reg]
          else if reg \<in> set r8_or_mem then [base8bOpcode + 8 * reg]
          else if reg = Z80_IX \<or> reg = Z80_IY then [reg, base16bOpcode + Z80_HL - Z80_BC]
          else if reg \<in> set rp_regs then [base16bOpcode + reg - Z80_BC]
          else []) }"

definition OpCode_DEC :: "unit M" where
  "OpCode_DEC = emit_args relaxedMaComma (OpCode_DecInc 0x05 0x0B)"

definition OpCode_INC :: "unit M" where
  "OpCode_INC = emit_args relaxedMaComma (OpCode_DecInc 0x04 0x03)"

section \<open>Bits, rotates and shifts\<close>

text \<open>The body of BIT, RES and SET.\<close>

definition bit_op :: "int \<Rightarrow> bool \<Rightarrow> int list M" where
  "bit_op opcodeBase canHaveDstRegForIxy = do {
     bit \<leftarrow> on_lp (GetByteNoMem False);
     c \<leftarrow> commaM;
     if c \<and> bit \<le> 7 then do { (_, e) \<leftarrow> OpCode_CbFamily (8 * bit + opcodeBase) canHaveDstRegForIxy; ret e }
     else ret [] }"

definition OpCode_BIT :: "unit M" where "OpCode_BIT = emit_args call_MultiArg (bit_op 0x40 False)"
definition OpCode_RES :: "unit M" where "OpCode_RES = emit_args call_MultiArg (bit_op 0x80 True)"
definition OpCode_SET :: "unit M" where "OpCode_SET = emit_args call_MultiArg (bit_op 0xc0 True)"

definition rot_op :: "int \<Rightarrow> int list M" where
  "rot_op baseOpcode = do { (_, e) \<leftarrow> OpCode_CbFamily baseOpcode True; ret e }"

definition OpCode_RLC :: "unit M" where "OpCode_RLC = emit_args call_MultiArg (rot_op 0x00)"
definition OpCode_RRC :: "unit M" where "OpCode_RRC = emit_args call_MultiArg (rot_op 0x08)"

text \<open>The rotates and shifts with a fake for register pairs: the 8 bit operation on one half of the pair, then
  the rotate of the other half through the carry.\<close>

definition fake_rot :: "int \<Rightarrow> (Z80Reg \<Rightarrow> int list M) \<Rightarrow> int list M" where
  "fake_rot baseOpcode pair = do {
     (reg, e) \<leftarrow> OpCode_CbFamily baseOpcode True;
     if reg = Z80_A then ret e
     else if reg \<in> {Z80_BC, Z80_DE, Z80_HL} then pair reg
     else ret e }"

definition rot_pair :: "int \<Rightarrow> Z80Reg \<Rightarrow> int \<Rightarrow> Z80Reg \<Rightarrow> int list M" where
  "rot_pair op1 first op2 second = fake [0xcb, op1 + first, INSTRUCTION_START_MARKER, 0xcb, op2 + second]"

definition rl_pair :: "Z80Reg \<Rightarrow> int list M" where
  "rl_pair reg = rot_pair 0x10 (GetRegister_r16Low reg) 0x10 (GetRegister_r16High reg)"

definition OpCode_RL :: "unit M" where
  "OpCode_RL = emit_args call_MultiArg (fake_rot 0x10 rl_pair)"

definition rr_pair :: "Z80Reg \<Rightarrow> int list M" where
  "rr_pair reg = rot_pair 0x18 (GetRegister_r16High reg) 0x18 (GetRegister_r16Low reg)"

definition OpCode_RR :: "unit M" where
  "OpCode_RR = emit_args call_MultiArg (fake_rot 0x18 rr_pair)"

definition sla_pair :: "Z80Reg \<Rightarrow> int list M" where
  "sla_pair reg = (if reg = Z80_HL then fake [0x29]
     else rot_pair 0x20 (GetRegister_r16Low reg) 0x10 (GetRegister_r16High reg))"

definition OpCode_SLA :: "unit M" where
  "OpCode_SLA = emit_args call_MultiArg (fake_rot 0x20 sla_pair)"

definition sll_pair :: "Z80Reg \<Rightarrow> int list M" where
  "sll_pair reg = rot_pair 0x30 (GetRegister_r16Low reg) 0x10 (GetRegister_r16High reg)"

definition OpCode_SLL :: "unit M" where
  "OpCode_SLL = emit_args call_MultiArg (fake_rot 0x30 sll_pair)"

definition sra_pair :: "Z80Reg \<Rightarrow> int list M" where
  "sra_pair reg = rot_pair 0x28 (GetRegister_r16High reg) 0x18 (GetRegister_r16Low reg)"

definition OpCode_SRA :: "unit M" where
  "OpCode_SRA = emit_args call_MultiArg (fake_rot 0x28 sra_pair)"

definition srl_pair :: "Z80Reg \<Rightarrow> int list M" where
  "srl_pair reg = rot_pair 0x38 (GetRegister_r16High reg) 0x18 (GetRegister_r16Low reg)"

definition OpCode_SRL :: "unit M" where
  "OpCode_SRL = emit_args call_MultiArg (fake_rot 0x38 srl_pair)"

end
