(* ===== verification/Sj_Z80_Jump.thy ===== *)
theory Sj_Z80_Jump
  imports Sj_Z80_Reg
begin

unbundle bit_operations_syntax

text \<open>
  The handlers of jumps, calls and returns, of the exchange, stack, port and interrupt mode instructions,
  z80.cpp.
\<close>

section \<open>Calls and absolute jumps\<close>

text \<open>The operand of \<^verbatim>\<open>GetAddress\<close>, zero when there is none.\<close>

definition getAddr :: "aint M" where
  "getAddr = do { r \<leftarrow> on_lp GetAddress; ret (case r of None \<Rightarrow> 0 | Some ad \<Rightarrow> ad) }"

text \<open>An absolute address behind an opcode: \<open>e0\<close> is the opcode, -1 when the operands before it were wrong.\<close>

definition imm16 :: "int \<Rightarrow> int list M" where
  "imm16 e0 = do {
     ad \<leftarrow> getAddr;
     check16 ad;
     resolveRelocationAndSmartSmc 1 REL_REGULAR;
     ret [e0, ad AND 255, drop_bit 8 ad AND 255] }"

text \<open>The opcode with a condition, followed by a comma.\<close>

definition cond_opcode :: "string \<Rightarrow> int \<Rightarrow> Z80Cond \<Rightarrow> int M" where
  "cond_opcode name opcode cc = do {
     c \<leftarrow> commaM;
     if c then ret (opcode + cc)
     else do {
       b \<leftarrow> gets bp;
       err_here (name @ '' Comma expected'') (Some b) E_PASS3 (-1) } }"

definition OpCode_CALL :: "unit M" where
  "OpCode_CALL = emit_args call_MultiArg (do {
     cc \<leftarrow> condM;
     e0 \<leftarrow> (if cc = Z80C_UNK then ret 0xcd else cond_opcode ''[CALL cc]'' 0xC4 cc);
     imm16 e0 })"

text \<open>JP without a condition: (HL), (IX), (IY) with or without brackets, (C) on the Z80N. The result is the
  bytes so far and whether the address has to follow.\<close>

definition jp_register :: "(bool \<times> int list) M" where
  "jp_register = do {
     expLp \<leftarrow> gets lp;
     nxt \<leftarrow> gets (\<lambda>s. IsNextEnabled (syx (opts s)));
     jpc \<leftarrow> (if nxt \<noteq> 0 then NeedIoC else ret False);
     if jpc then ret (False, [0xED, 0x98])
     else do {
       bt \<leftarrow> on_lp OpenBracketM;
       reg \<leftarrow> getReg;
       if reg \<in> {Z80_HL, Z80_IX, Z80_IY} then do {
         ok \<leftarrow> (if bt \<noteq> BT_NONE then on_lp CloseBracketM else ret True);
         ret (False, if \<not> ok then [] else if reg = Z80_HL then [0xe9] else [reg, 0xe9]) }
       else if reg \<in> {Z80_MEM_HL, Z80_MEM_IX, Z80_MEM_IY, Z80_UNK} then
         (if bt = BT_SQUARE then ret (True, [])
          else do {
            whenM (bt = BT_ROUND) (set_lp expLp);
            ret (True, [0xc3]) })
       else ret (False, []) } }"

definition OpCode_JP :: "unit M" where
  "OpCode_JP = emit_args call_MultiArg (do {
     cc \<leftarrow> condM;
     (adr, e) \<leftarrow> (if cc = Z80C_UNK then jp_register
       else do { e0 \<leftarrow> cond_opcode ''[JP cc]'' 0xC2 cc; ret (True, [e0]) });
     if adr then imm16 (if e = [] then -1 else hd e) else ret e })"

section \<open>Relative jumps\<close>

text \<open>The distance as byte; out of range it is an error and the byte zero.\<close>

definition rel_byte :: "string \<Rightarrow> aint \<Rightarrow> int M" where
  "rel_byte name jmp =
     (if jmp < -128 \<or> 127 < jmp then
        err_here (name @ '' Target out of range ('' @ fmt_plus_i jmp @ '')'') None E_PASS3 0
      else ret (jmp AND 0xFF))"

text \<open>No relocation for a relative jump, but a marker of self modifying code is resolved.\<close>

definition rel_resolve :: "unit M" where
  "rel_resolve = do {
     resolveRelocationAffected INT_MAX REL_OFF;
     resolveRelocationAndSmartSmc 1 REL_REGULAR }"

definition OpCode_DJNZ :: "unit M" where
  "OpCode_DJNZ = do {
     emit_args call_MultiArg (do {
       r \<leftarrow> on_lp GetAddress;
       here \<leftarrow> gets CurAddress;
       let nad = (case r of None \<Rightarrow> wrap32 (here + 2) | Some ad \<Rightarrow> ad);
       b \<leftarrow> rel_byte ''[DJNZ]'' (wrap32 (wrap32 (nad - here) - 2));
       rel_resolve;
       ret [0x10, b] });
     mod_rel (\<lambda>r. r\<lparr>isResultAffected := False\<rparr>) }"

definition OpCode_JR :: "unit M" where
  "OpCode_JR = do {
     emit_break call_MultiArg (do {
       cc \<leftarrow> condM;
       if cc \<noteq> Z80C_UNK \<and> \<not> cc \<le> Z80C_C then do {
         b \<leftarrow> gets bp;
         Error ''[JR] Illegal condition'' (Some b) E_PASS3;
         modify (\<lambda>s. s\<lparr>lp := SkipToEol (lp s)\<rparr>);
         ret None }
       else do {
         e0 \<leftarrow> (if cc = Z80C_UNK then ret 0x18 else cond_opcode ''[JR cc]'' 0x20 cc);
         r \<leftarrow> on_lp GetAddress;
         here \<leftarrow> gets CurAddress;
         b \<leftarrow> rel_byte ''[JR]'' (case r of None \<Rightarrow> 0 | Some jrad \<Rightarrow> wrap32 (jrad - wrap32 (here + 2)));
         rel_resolve;
         ret (Some [e0, b]) } });
     mod_rel (\<lambda>r. r\<lparr>isResultAffected := False\<rparr>) }"

section \<open>Returns and restarts\<close>

definition OpCode_RET :: "unit M" where
  "OpCode_RET = do {
     cc \<leftarrow> condM;
     EmitByte (if cc = Z80C_UNK then 0xc9 else 0xc0 + cc) True }"

definition OpCode_RST :: "unit M" where
  "OpCode_RST = multi_args call_MultiArg (do {
     e \<leftarrow> on_lp (GetByteNoMem False);
     if e AND NOT 0x38 \<noteq> 0 then do {
       l \<leftarrow> gets line;
       Error ''[RST] Illegal operand'' (Some l) E_PASS3;
       modify (\<lambda>s. s\<lparr>lp := SkipToEol (lp s)\<rparr>);
       ret False }
     else do { EmitByte (0xC7 + e) True; ret True } })"

section \<open>Exchanges\<close>

text \<open>"(SP)" after a register was not found.\<close>

definition mem_sp :: "bool M" where
  "mem_sp = do {
     bt \<leftarrow> on_lp OpenBracketM;
     if bt = BT_NONE then ret False
     else do {
       r \<leftarrow> getReg;
       if r = Z80_SP then on_lp CloseBracketM else ret False } }"

text \<open>The first operand; SP stands for (SP).\<close>

definition ex_first :: "Z80Reg M" where
  "ex_first = do {
     reg1 \<leftarrow> getReg;
     if reg1 = Z80_SP then ret Z80_UNK
     else if reg1 = Z80_UNK then do { m \<leftarrow> mem_sp; ret (if m then Z80_SP else Z80_UNK) }
     else ret reg1 }"

text \<open>The second operand; "(SP)" there is swapped to the front.\<close>

definition ex_second :: "Z80Reg \<Rightarrow> (Z80Reg \<times> Z80Reg) M" where
  "ex_second reg1 = do {
     reg2 \<leftarrow> getReg;
     whenM (reg2 = Z80_AF) (modify (\<lambda>s. if cur (lp s) = CHR 0x27 then s\<lparr>lp := drop 1 (lp s)\<rparr> else s));
     m \<leftarrow> (if reg2 = Z80_UNK then mem_sp else ret False);
     ret (if m then (Z80_SP, reg1) else (reg1, reg2)) }"

definition ex_bytes :: "Z80Reg \<Rightarrow> Z80Reg \<Rightarrow> int list" where
  "ex_bytes reg1 reg2 =
     (if reg1 = Z80_SP then
        (if reg2 = Z80_HL then [0xe3] else if reg2 = Z80_IX \<or> reg2 = Z80_IY then [reg2, 0xe3] else [])
      else if reg1 XOR Z80_DE XOR Z80_HL = reg2 then [0xeb] else [])"

definition OpCode_EX :: "unit M" where
  "OpCode_EX = do {
     r1 \<leftarrow> ex_first;
     has_comma \<leftarrow> commaM;
     (reg1, reg2) \<leftarrow> (if has_comma then ex_second r1 else ret (r1, Z80_UNK));
     i8080 \<leftarrow> gets (\<lambda>s. IsI8080 (opts s));
     e \<leftarrow> (if reg1 = Z80_AF then ret (if i8080 \<or> has_comma \<and> reg2 \<noteq> Z80_AF then [] else [0x08])
       else if reg1 \<in> {Z80_DE, Z80_HL, Z80_SP} then
         (if \<not> has_comma then err_here ''[EX] Comma expected'' None E_PASS3 [] else ret (ex_bytes reg1 reg2))
       else ret []);
     EmitBytes e True }"

section \<open>Interrupt mode and ports\<close>

definition OpCode_IM :: "unit M" where
  "OpCode_IM = do {
     mode \<leftarrow> on_lp (GetByteNoMem False);
     EmitBytes (if mode \<le> 2 then [0xed, [0x46, 0x56, 0x5e] ! nat mode] else []) True }"

definition OpCode_IN :: "unit M" where
  "OpCode_IN = emit_args call_MultiArg (do {
     reg0 \<leftarrow> getReg;
     i8080 \<leftarrow> gets (\<lambda>s. IsI8080 (opts s));
     c \<leftarrow> (if reg0 = Z80_UNK then ret True else commaM);
     if \<not> c then ret []
     else do {
       let reg = (if reg0 = Z80_UNK then Z80_F else reg0);
       io \<leftarrow> (if i8080 then ret False else NeedIoC);
       if io then
         ret (if reg \<in> set r8_regs then [0xed, 0x40 + reg * 8] else if reg = Z80_F then [0xed, 0x70] else [])
       else do {
         port \<leftarrow> on_lp GetIoPort;
         ret (if reg = Z80_A then [0xdb, port] else []) } } })"

definition OpCode_OUT :: "unit M" where
  "OpCode_OUT = emit_args call_MultiArg (do {
     i8080 \<leftarrow> gets (\<lambda>s. IsI8080 (opts s));
     io \<leftarrow> (if i8080 then ret False else NeedIoC);
     if io then do {
       c \<leftarrow> commaM;
       if \<not> c then ret []
       else do {
         reg \<leftarrow> getReg;
         if reg \<in> set r8_regs then ret [0xed, 0x41 + 8 * reg]
         else if reg = Z80_UNK then do {
           b \<leftarrow> on_lp (GetByteNoMem False);
           if b = 0 then do { WarningById W_OUT0 None W_PASS3; ret [0xed, 0x71] } else ret [] }
         else ret [] } }
     else do {
       port \<leftarrow> on_lp GetIoPort;
       c \<leftarrow> commaM;
       r \<leftarrow> (if c then getReg else ret Z80_UNK);
       ret (if r = Z80_A then [0xd3, port] else []) } })"

section \<open>Stack\<close>

definition pop_bytes :: "Z80Reg \<Rightarrow> int list" where
  "pop_bytes r16 =
     (if r16 = Z80_AF then [0xf1] else if r16 = Z80_BC then [0xc1] else if r16 = Z80_DE then [0xd1]
      else if r16 = Z80_HL then [0xe1] else if r16 = Z80_IX \<or> r16 = Z80_IY then [r16, 0xe1] else [])"

definition OpCode_POPone :: "Z80Reg \<Rightarrow> unit M" where
  "OpCode_POPone r16 = EmitBytes (pop_bytes r16) True"

text \<open>The registers of a reversed POP: at most \<open>n\<close>, the last one is the first that is no pair.\<close>

fun pop_regs :: "nat \<Rightarrow> Z80Reg list M" where
  "pop_regs 0 = ret []"
| "pop_regs (Suc n) = do {
     r \<leftarrow> getReg;
     if GetRegister_r16Low r = Z80_UNK \<or> n = 0 then ret [r]
     else do {
       x \<leftarrow> gets (\<lambda>s. syx (opts s));
       again \<leftarrow> lexM (relaxedMaComma x);
       if again then do { rs \<leftarrow> pop_regs n; ret (r # rs) } else ret [r] } }"

fun pop_all :: "Z80Reg list \<Rightarrow> unit M" where
  "pop_all [] = ret ()"
| "pop_all (r # rs) = do { OpCode_POPone r; pop_all rs }"

definition OpCode_POPreverse :: "unit M" where
  "OpCode_POPreverse = do { regs \<leftarrow> pop_regs 30; pop_all (rev regs) }"

definition OpCode_POPnormal :: "unit M" where
  "OpCode_POPnormal = multi_args relaxedMaComma (do { r \<leftarrow> getReg; OpCode_POPone r; ret True })"

definition OpCode_POP :: "unit M" where
  "OpCode_POP = do {
     rv \<leftarrow> gets (\<lambda>s. IsReversePOP (syx (opts s)));
     if rv then OpCode_POPreverse else OpCode_POPnormal }"

text \<open>PUSH of a word on the Z80N: big endian, so only a relocation of single bytes is possible.\<close>

definition push_imm16 :: "int list M" where
  "push_imm16 = do {
     imm \<leftarrow> on_lp GetWordNoMem;
     r \<leftarrow> gets rel;
     whenM (isResultAffected r)
       (if rel_type r = REL_HIGH then resolveRelocationAffected (if deltaType r = REL_REGULAR then 1 else 3) REL_REGULAR
        else do {
          b \<leftarrow> gets bp;
          Error ''PUSH imm16 is big-endian encoded and can't be part of RELOCATE_TABLE'' (Some b) E_PASS3;
          mod_rel (\<lambda>r. r\<lparr>isResultAffected := False\<rparr>) });
     ret [0xED, 0x8A, drop_bit 8 imm, imm AND 255] }"

definition OpCode_PUSH :: "unit M" where
  "OpCode_PUSH = emit_args relaxedMaComma (do {
     reg \<leftarrow> getReg;
     nxt \<leftarrow> gets (\<lambda>s. IsNextEnabled (syx (opts s)));
     if reg = Z80_AF then ret [0xf5] else if reg = Z80_BC then ret [0xc5] else if reg = Z80_DE then ret [0xd5]
     else if reg = Z80_HL then ret [0xe5] else if reg = Z80_IX \<or> reg = Z80_IY then ret [reg, 0xe5]
     else if reg = Z80_UNK \<and> nxt \<noteq> 0 then push_imm16
     else ret [] })"

end
