(* ===== verification/Sj_Z80_Ld.thy ===== *)
theory Sj_Z80_Ld
  imports Sj_Z80_Reg
begin

unbundle bit_operations_syntax

text \<open>
  The handlers of the load instructions, z80.cpp: LD with all its variants and fakes, LDI and LDD with their
  fakes, and the loads of the LR35902. The register to register part \<^verbatim>\<open>LD_simple_r_r\<close> is split at its
  \<^verbatim>\<open>switch\<close> statements: the destination, the source, the encoding.
\<close>

section \<open>Register to register\<close>

text \<open>The destination: prefix, register and whether it is an 8 bit one; None: not a simple one.\<close>

definition ld_dest :: "Z80Reg \<Rightarrow> (int \<times> Z80Reg \<times> bool) option" where
  "ld_dest r1 =
     (if r1 \<in> set (ixy_halves @ mem_ixy) then Some (r1 AND 0xFF, drop_bit 8 r1, True)
      else if r1 \<in> set r8_or_mem \<union> {Z80_I, Z80_R, LR35902_MEM_HL_I, LR35902_MEM_HL_D} then Some (0, r1, True)
      else if r1 = Z80_IY \<or> r1 = Z80_IX then Some (r1, Z80_HL, False)
      else if r1 \<in> set rp_regs then Some (0, r1, False)
      else None)"

text \<open>The source: the instruction is decided (with these bytes, none: it is invalid), or another variant has
  to be tried from the source operand on, or it goes on with this prefix and register.\<close>

datatype ld_src = LdDone "int list" | LdRetry | LdGo int Z80Reg

definition ld_src8 :: "Z80Reg \<Rightarrow> bool \<Rightarrow> int \<Rightarrow> Z80Reg \<Rightarrow> ld_src" where
  "ld_src8 r1 eightBit prefix2 r2 =
     (if \<not> eightBit then LdDone []
      else if r1 = LR35902_MEM_HL_I \<or> r1 = LR35902_MEM_HL_D then LdDone (if r2 = Z80_A then [r1] else [])
      else LdGo prefix2 r2)"

definition ld_src_mem :: "int \<Rightarrow> Z80Reg \<Rightarrow> bool \<Rightarrow> int \<Rightarrow> ld_src" where
  "ld_src_mem prefix1 r1 eightBit prefix2 =
     (if r1 = Z80_MEM_HL \<or> prefix1 \<noteq> 0 then LdDone []
      else if r1 = Z80_BC \<or> r1 = Z80_DE \<or> r1 = Z80_HL \<and> prefix2 \<noteq> 0 then LdRetry
      else ld_src8 r1 eightBit prefix2 Z80_MEM_HL)"

definition ld_src16 :: "Z80Reg \<Rightarrow> bool \<Rightarrow> int \<Rightarrow> Z80Reg \<Rightarrow> ld_src" where
  "ld_src16 r1 eightBit prefix2 r2 =
     (if \<not> eightBit then LdGo prefix2 r2 else if r1 = Z80_MEM_HL then LdRetry else LdDone [])"

definition ld_source :: "bool \<Rightarrow> int \<Rightarrow> Z80Reg \<Rightarrow> bool \<Rightarrow> Z80Reg \<Rightarrow> ld_src" where
  "ld_source isLR prefix1 r1 eightBit r2 =
     (if r2 \<in> set ixy_halves then
        (if \<not> eightBit \<or> r1 = Z80_MEM_HL then LdDone [] else LdGo (r2 AND 0xFF) (drop_bit 8 r2))
      else if r2 = Z80_I \<or> r2 = Z80_R then
        LdDone (if r1 \<noteq> Z80_A then [] else [0xED, if r2 = Z80_I then 0x57 else 0x5F])
      else if r2 \<in> set mem_ixy then ld_src_mem prefix1 r1 eightBit (r2 AND 0xFF)
      else if r2 = Z80_MEM_HL then ld_src_mem prefix1 r1 eightBit 0
      else if r2 \<in> set r8_regs then ld_src8 r1 eightBit 0 r2
      else if r2 = Z80_IX \<or> r2 = Z80_IY then ld_src16 r1 eightBit r2 Z80_HL
      else if r2 = Z80_BC \<or> r2 = Z80_DE then ld_src16 r1 eightBit 0 r2
      else if r2 = Z80_HL \<and> r1 = Z80_MEM_HL \<and> prefix1 \<noteq> 0 then LdRetry
      else if r2 = Z80_HL \<and> \<not> eightBit then LdGo 0 Z80_HL
      else if r2 = Z80_HL \<or> r2 = Z80_SP then (if isLR \<and> r1 = Z80_HL then LdRetry else LdDone [])
      else if r2 = Z80_AF \<or> r2 = Z80_F then LdDone []
      else if r2 = LR35902_MEM_HL_I \<or> r2 = LR35902_MEM_HL_D then LdDone (if r1 = Z80_A then [r2 + 0x08] else [])
      else LdRetry)"

definition pre :: "int \<Rightarrow> int list" where
  "pre px = (if px \<noteq> 0 then [px] else [])"

text \<open>LD between register pairs: all of them are fakes, by way of the stack between HL, IX and IY.\<close>

definition ld_pair_bytes :: "int \<Rightarrow> Z80Reg \<Rightarrow> int \<Rightarrow> Z80Reg \<Rightarrow> int list" where
  "ld_pair_bytes prefix1 r1 prefix2 r2 =
     (if prefix1 \<noteq> prefix2 \<and> r1 = r2 then
        pre prefix2 @ [0xE5, INSTRUCTION_START_MARKER] @ pre prefix1 @ [0xE1]
      else
        let px = (if prefix2 \<noteq> 0 then prefix2 else prefix1) in
        pre px @ [GetRegister_r16High r2 + GetRegister_r16High r1 * 8 + 0x40, INSTRUCTION_START_MARKER] @
        pre px @ [GetRegister_r16Low r2 + GetRegister_r16Low r1 * 8 + 0x40])"

definition ld_r8_bytes :: "int \<Rightarrow> Z80Reg \<Rightarrow> int \<Rightarrow> Z80Reg \<Rightarrow> int \<Rightarrow> int list" where
  "ld_r8_bytes prefix1 r1 prefix2 r2 d =
     (if prefix1 \<noteq> prefix2 \<and> (r1 = Z80_H \<or> r1 = Z80_L) \<and> (r2 = Z80_H \<or> r2 = Z80_L) then []
      else pre (prefix1 OR prefix2) @ [r2 + r1 * 8 + 0x40] @
        (if prefix1 OR prefix2 \<noteq> 0 \<and> (r1 = Z80_MEM_HL \<or> r2 = Z80_MEM_HL) then [d] else []))"

definition ld_encode :: "int \<Rightarrow> Z80Reg \<Rightarrow> bool \<Rightarrow> int \<Rightarrow> Z80Reg \<Rightarrow> int list M" where
  "ld_encode prefix1 r1 eightBit prefix2 r2 = do {
     d \<leftarrow> gets GetRegister_lastIxyD;
     if r1 = Z80_I \<or> r1 = Z80_R then
       ret (if r2 \<noteq> Z80_A then [] else [0xED, if r1 = Z80_I then 0x47 else 0x4F])
     else if r1 = Z80_SP then ret (if r2 = Z80_HL then pre prefix2 @ [0xF9] else [])
     else if \<not> eightBit then fake (ld_pair_bytes prefix1 r1 prefix2 r2)
     else ret (ld_r8_bytes prefix1 r1 prefix2 r2 d) }"

text \<open>None: \<^verbatim>\<open>LD_simple_r_r\<close> returns false; the pointer is then at the source operand, or was not moved at all.\<close>

definition LD_simple_r_r :: "Z80Reg \<Rightarrow> int list option M" where
  "LD_simple_r_r reg1 =
     (case ld_dest reg1 of
        None \<Rightarrow> ret None
      | Some (prefix1, r1, eightBit) \<Rightarrow> do {
          c \<leftarrow> commaM;
          if \<not> c then ret (Some [])
          else do {
            olp \<leftarrow> gets lp;
            r2 \<leftarrow> getReg;
            isLR \<leftarrow> gets (\<lambda>s. IsLR35902 (opts s));
            (case ld_source isLR prefix1 r1 eightBit r2 of
               LdDone e \<Rightarrow> ret (Some e)
             | LdRetry \<Rightarrow> do { set_lp olp; ret None }
             | LdGo prefix2 r2' \<Rightarrow> do { e \<leftarrow> ld_encode prefix1 r1 eightBit prefix2 r2'; ret (Some e) }) } })"

section \<open>Immediate values and memory\<close>

text \<open>\<^verbatim>\<open>lp[-1]\<close> and \<^verbatim>\<open>--lp\<close>: \<open>start\<close> is the text from an earlier place of the line, \<open>p\<close> the current rest of it.\<close>

definition prev_char :: "string \<Rightarrow> string \<Rightarrow> char" where
  "prev_char start p = chr_at start (length start - length p - 1)"

definition step_back :: "string \<Rightarrow> string \<Rightarrow> string" where
  "step_back start p = drop (length start - length p - 1) start"

definition lo :: "int \<Rightarrow> int" where "lo v = v AND 255"
definition hi :: "int \<Rightarrow> int" where "hi v = drop_bit 8 v AND 255"

text \<open>LD r,n with the bytes \<open>bs\<close> before the immediate byte.\<close>

definition ld_imm8 :: "int list \<Rightarrow> int list M" where
  "ld_imm8 bs = do {
     b \<leftarrow> on_lp (GetByteNoMem False);
     resolveRelocationAndSmartSmc (int (length bs)) REL_HIGH;
     ret (bs @ [b]) }"

definition ld_word :: "int list \<Rightarrow> aint \<Rightarrow> int list M" where
  "ld_word bs b = do {
     resolveRelocationAndSmartSmc (int (length bs)) REL_REGULAR;
     ret (bs @ [lo b, hi b]) }"

text \<open>A memory operand in round brackets below address 256 looks like a mistaken immediate value.\<close>

definition warn_low :: "bool \<Rightarrow> aint \<Rightarrow> unit M" where
  "warn_low roundBrackets b = whenM roundBrackets (checkLowMemory (hi b) (lo b))"

definition ld_a_value :: "EBracketType \<Rightarrow> int list M" where
  "ld_a_value bt = do {
     (res, b) \<leftarrow> on_lp ParseExpressionMemAccess;
     isLR \<leftarrow> gets (\<lambda>s. IsLR35902 (opts s));
     if res = 1 then do {
       check8 b;
       resolveRelocationAndSmartSmc 1 REL_HIGH;
       ret [0x3e, lo b] }
     else if res = 2 then do {
       check16 b;
       if isLR then (if 0xFF00 \<le> b \<and> b \<le> 0xFFFF then ret [0xF0, lo b] else ld_word [0xFA] b)
       else do {
         e \<leftarrow> ld_word [0x3a] b;
         warn_low (bt = BT_ROUND) b;
         ret e } }
     else ret [] }"

definition ld_a :: "int list M" where
  "ld_a = do {
     start \<leftarrow> gets lp;
     bt \<leftarrow> on_lp OpenBracketM;
     if bt = BT_NONE then ld_a_value bt
     else do {
       reg2 \<leftarrow> getReg;
       isLR \<leftarrow> gets (\<lambda>s. IsLR35902 (opts s));
       ok \<leftarrow> (if reg2 = Z80_BC \<or> reg2 = Z80_DE \<or> reg2 = Z80_C \<and> isLR then on_lp CloseBracketM else ret False);
       if reg2 \<noteq> Z80_UNK then ret (if \<not> ok then [] else if reg2 = Z80_C then [0xF2] else [reg2 - 6])
       else do {
         modify (\<lambda>s. s\<lparr>lp := step_back start (lp s)\<rparr>);
         ld_a_value bt } } }"

definition ld_mem_hl :: "int list M" where
  "ld_mem_hl = do {
     reg2 \<leftarrow> getReg;
     if reg2 = Z80_BC \<or> reg2 = Z80_DE then
       fake [0x70 + GetRegister_r16Low reg2, INSTRUCTION_START_MARKER, 0x23, INSTRUCTION_START_MARKER,
         0x70 + GetRegister_r16High reg2, INSTRUCTION_START_MARKER, 0x2b]
     else if reg2 = Z80_UNK then ld_imm8 [0x36]
     else ret [] }"

text \<open>The fakes that load or store a pair at (IX+d) and (IX+d+1) need room for the second displacement.\<close>

definition ixy_pair :: "int \<Rightarrow> int \<Rightarrow> int \<Rightarrow> int \<Rightarrow> int list M" where
  "ixy_pair px op1 op2 d = do {
     no \<leftarrow> noFakes True;
     if no then ret []
     else if d = 127 then err_here ''Offset out of range'' None E_IF_FIRST []
     else ret [px, op1, d, INSTRUCTION_START_MARKER, px, op2, d + 1] }"

definition ld_mem_ixy :: "Z80Reg \<Rightarrow> int list M" where
  "ld_mem_ixy reg1 = do {
     d \<leftarrow> gets GetRegister_lastIxyD;
     reg2 \<leftarrow> getReg;
     if reg2 \<in> {Z80_BC, Z80_DE, Z80_HL} then
       ixy_pair (reg1 AND 0xFF) (0x70 + GetRegister_r16Low reg2) (0x70 + GetRegister_r16High reg2) d
     else if reg2 = Z80_UNK then ld_imm8 [reg1 AND 0xFF, 0x36, d]
     else ret [] }"

text \<open>LD HL,SP+r8 of the LR35902.\<close>

definition ld_hl_sp :: "int list M" where
  "ld_hl_sp = do {
     eol \<leftarrow> lexM SkipBlanks;
     p \<leftarrow> gets lp;
     if eol \<or> cur p = CHR '','' then ret [0xF8, 0]
     else if cur p \<noteq> CHR ''+'' \<and> cur p \<noteq> CHR ''-'' then
       err_here ''[LD] `ld hl,sp+r8` expects + or - after sp, found'' (Some p) E_PASS3 []
     else do { b \<leftarrow> on_lp (GetByteNoMem True); ret [0xF8, b] } }"

definition ld_pair_value :: "Z80Reg \<Rightarrow> int list M" where
  "ld_pair_value reg1 = do {
     start \<leftarrow> gets lp;
     (res, b) \<leftarrow> on_lp ParseExpressionMemAccess;
     opt \<leftarrow> gets opts;
     if res = 1 then do { check16 b; ld_word [reg1 - 0x0F] b }
     else if res = 2 \<and> \<not> IsLR35902 opt then do {
       check16 b;
       if reg1 \<noteq> Z80_HL \<and> IsI8080 opt then ret []
       else do {
         e \<leftarrow> ld_word (if reg1 = Z80_HL then [0x2a] else [0xed, reg1 + 0x3b]) b;
         p \<leftarrow> gets lp;
         warn_low (prev_char start p = CHR '')'') b;
         ret e } }
     else ret [] }"

definition ld_pair :: "Z80Reg \<Rightarrow> int list M" where
  "ld_pair reg1 = do {
     reg2 \<leftarrow> getReg;
     d \<leftarrow> gets GetRegister_lastIxyD;
     isLR \<leftarrow> gets (\<lambda>s. IsLR35902 (opts s));
     if reg2 = Z80_MEM_HL then
       fake [reg1 + 0x3e, INSTRUCTION_START_MARKER, 0x23, INSTRUCTION_START_MARKER, reg1 + 0x36,
         INSTRUCTION_START_MARKER, 0x2b]
     else if reg2 \<in> set mem_ixy then
       (if reg1 = Z80_SP then ret [] else ixy_pair (reg2 AND 0xFF) (reg1 + 0x3e) (reg1 + 0x36) d)
     else if reg2 = Z80_SP \<and> isLR \<and> reg1 = Z80_HL then ld_hl_sp
     else if reg2 \<noteq> Z80_UNK then ret []
     else ld_pair_value reg1 }"

definition ld_ixy :: "Z80Reg \<Rightarrow> int list M" where
  "ld_ixy reg1 = do {
     start \<leftarrow> gets lp;
     (res, b) \<leftarrow> on_lp ParseExpressionMemAccess;
     if 0 < res then do {
       check16 b;
       e \<leftarrow> ld_word [reg1, if res = 1 then 0x21 else 0x2a] b;
       p \<leftarrow> gets lp;
       warn_low (res = 2 \<and> prev_char start p = CHR '')'') b;
       ret e }
     else ret [] }"

definition LD_LR35902 :: "Z80Reg \<Rightarrow> aint \<Rightarrow> int list" where
  "LD_LR35902 r2 a16 =
     (if r2 = Z80_A \<and> 0xFF00 \<le> a16 \<and> a16 \<le> 0xFFFF then [0xE0, lo a16]
      else if r2 = Z80_SP then [0x08, lo a16, hi a16]
      else if r2 = Z80_A then [0xEA, lo a16, hi a16] else [])"

definition ld_to_address :: "Z80Reg \<Rightarrow> aint \<Rightarrow> int list M" where
  "ld_to_address reg2 b = do {
     opt \<leftarrow> gets opts;
     if IsLR35902 opt then ret (LD_LR35902 reg2 b)
     else if reg2 = Z80_A then ld_word [0x32] b
     else if reg2 = Z80_HL then ld_word [0x22] b
     else if reg2 \<in> {Z80_BC, Z80_DE, Z80_SP} then
       (if IsI8080 opt then ret [] else ld_word [0xed, 0x33 + reg2] b)
     else if reg2 = Z80_IX \<or> reg2 = Z80_IY then ld_word [reg2, 0x22] b
     else ret [] }"

text \<open>LD to a memory operand that is no (HL) and no (IX+d): (BC), (DE), (C) or an address.\<close>

definition ld_to_mem :: "int list M" where
  "ld_to_mem = do {
     bt \<leftarrow> on_lp OpenBracketM;
     if bt = BT_NONE then ret []
     else do {
       reg1 \<leftarrow> getReg;
       b \<leftarrow> (if reg1 = Z80_UNK then on_lp GetWord else ret 0);
       ok \<leftarrow> on_lp CloseBracketM;
       c \<leftarrow> (if ok then commaM else ret False);
       if \<not> c then ret []
       else do {
         reg2 \<leftarrow> getReg;
         isLR \<leftarrow> gets (\<lambda>s. IsLR35902 (opts s));
         if reg1 = Z80_C then ret (if isLR \<and> reg2 = Z80_A then [0xE2] else [])
         else if reg1 = Z80_BC \<or> reg1 = Z80_DE then ret (if reg2 = Z80_A then [reg1 - 14] else [])
         else if reg1 = Z80_UNK then ld_to_address reg2 b
         else ret [] } } }"

definition ld_other :: "Z80Reg \<Rightarrow> int list M" where
  "ld_other reg1 =
     (if reg1 = Z80_A then ld_a
      else if reg1 \<in> set r8_regs then ld_imm8 [0x06 + 8 * reg1]
      else if reg1 = Z80_MEM_HL then ld_mem_hl
      else if reg1 \<in> set mem_ixy then ld_mem_ixy reg1
      else if reg1 \<in> set ixy_halves then ld_imm8 [reg1 AND 0xFF, 0x06 + 8 * drop_bit 8 reg1]
      else if reg1 \<in> set rp_regs then ld_pair reg1
      else if reg1 = Z80_IX \<or> reg1 = Z80_IY then ld_ixy reg1
      else if reg1 = Z80_UNK then ld_to_mem
      else ret [])"

definition OpCode_LD :: "unit M" where
  "OpCode_LD = emit_args call_MultiArg (do {
     reg1 \<leftarrow> getReg;
     simple \<leftarrow> (if reg1 = Z80_UNK then ret None else LD_simple_r_r reg1);
     (case simple of Some e \<Rightarrow> ret e | None \<Rightarrow> ld_other reg1) })"

section \<open>LDD and LDI with their fakes\<close>

text \<open>The bytes when the closing bracket follows.\<close>

definition closed :: "int list \<Rightarrow> int list M" where
  "closed e = do { ok \<leftarrow> on_lp CloseBracketM; ret (if ok then e else []) }"

text \<open>A case after its comma, respectively after its comma and an opening bracket.\<close>

definition after_comma :: "int list M \<Rightarrow> int list M" where
  "after_comma m = do { c \<leftarrow> commaM; if c then m else ret [] }"

definition after_bracket :: "int list M \<Rightarrow> int list M" where
  "after_bracket m = after_comma (do { bt \<leftarrow> on_lp OpenBracketM; if bt = BT_NONE then ret [] else do { noFakes True; m } })"

definition ldd_a :: "int list M" where
  "ldd_a = after_bracket (do {
     reg \<leftarrow> getReg;
     if reg = Z80_BC \<or> reg = Z80_DE then closed [reg - 6, INSTRUCTION_START_MARKER, reg - 5]
     else if reg = Z80_HL then closed [0x7e, INSTRUCTION_START_MARKER, 0x2b]
     else if reg = Z80_IX \<or> reg = Z80_IY then do {
       d \<leftarrow> on_lp z80GetIDxoffset;
       closed [reg, 0x7e, d, INSTRUCTION_START_MARKER, reg, 0x2b] }
     else ret [] })"

definition ldd_r :: "Z80Reg \<Rightarrow> int list M" where
  "ldd_r reg = after_comma (do {
     reg2 \<leftarrow> getReg;
     d \<leftarrow> gets GetRegister_lastIxyD;
     if reg2 = Z80_MEM_HL then do { noFakes True; ret [0x46 + reg * 8, INSTRUCTION_START_MARKER, 0x2b] }
     else if reg2 \<in> set mem_ixy then do {
       noFakes True;
       ret [reg2 AND 0xFF, 0x46 + reg * 8, d, INSTRUCTION_START_MARKER, reg2 AND 0xFF, 0x2b] }
     else ret [] })"

text \<open>LDD and LDI to (HL) and to (IX+d): \<open>step\<close> is the opcode of DEC HL or INC HL.\<close>

definition ldx_mem_hl :: "int \<Rightarrow> Z80Reg \<Rightarrow> int list M" where
  "ldx_mem_hl step reg =
     (if reg \<in> set r8_regs then do { noFakes True; ret [0x70 + reg, INSTRUCTION_START_MARKER, step] }
      else if reg = Z80_UNK then do {
        noFakes True;
        b \<leftarrow> on_lp (GetByteNoMem False);
        ret [0x36, b, INSTRUCTION_START_MARKER, step] }
      else ret [])"

definition ldx_mem_ixy :: "int \<Rightarrow> Z80Reg \<Rightarrow> Z80Reg \<Rightarrow> int list M" where
  "ldx_mem_ixy step reg reg2 = do {
     d \<leftarrow> gets GetRegister_lastIxyD;
     if reg2 \<in> set r8_regs then do {
       noFakes True;
       ret [reg AND 0xFF, 0x70 + reg2, d, INSTRUCTION_START_MARKER, reg AND 0xFF, step] }
     else if reg2 = Z80_UNK then do {
       noFakes True;
       b \<leftarrow> on_lp (GetByteNoMem False);
       ret [reg AND 0xFF, 0x36, d, b, INSTRUCTION_START_MARKER, reg AND 0xFF, step] }
     else ret [] }"

text \<open>The default case: the fake with (BC) or (DE) as destination, or the regular instruction.\<close>

definition ldx_default :: "int \<Rightarrow> (Z80Reg \<Rightarrow> int) \<Rightarrow> int list M" where
  "ldx_default opcode step = do {
     bt \<leftarrow> on_lp OpenBracketM;
     if bt = BT_NONE then ret [0xed, opcode]
     else do {
       reg \<leftarrow> getReg;
       ok \<leftarrow> on_lp CloseBracketM;
       c \<leftarrow> (if ok then commaM else ret False);
       if \<not> c \<or> reg \<noteq> Z80_BC \<and> reg \<noteq> Z80_DE then ret []
       else do {
         r \<leftarrow> getReg;
         if r \<noteq> Z80_A then ret []
         else do { noFakes True; ret [reg - 14, INSTRUCTION_START_MARKER, step reg] } } } }"

definition ldd_body :: "int list M" where
  "ldd_body = do {
     reg \<leftarrow> getReg;
     if reg = Z80_A then ldd_a
     else if reg \<in> set r8_regs then ldd_r reg
     else if reg = Z80_MEM_HL then after_comma (do { r \<leftarrow> getReg; ldx_mem_hl 0x2b r })
     else if reg \<in> set mem_ixy then after_comma (do { r \<leftarrow> getReg; ldx_mem_ixy 0x2b reg r })
     else ldx_default 0xa8 (\<lambda>r. r - 5) }"

definition two_bytes :: "int \<Rightarrow> int \<Rightarrow> unit M" where
  "two_bytes b1 b2 = do { EmitByte b1 True; EmitByte b2 False }"

definition OpCode_LDD :: "unit M" where
  "OpCode_LDD = do {
     no \<leftarrow> noFakes False;
     if no then two_bytes 0xED 0xA8 else emit_args call_MultiArg ldd_body }"

definition ldi_a :: "int list M" where
  "ldi_a = after_bracket (do {
     reg \<leftarrow> getReg;
     if reg = Z80_BC \<or> reg = Z80_DE then closed [reg - Z80_BC + 0x0a, INSTRUCTION_START_MARKER, reg - Z80_BC + 0x03]
     else if reg = Z80_HL then closed [0x7e, INSTRUCTION_START_MARKER, 0x23]
     else if reg = Z80_IX \<or> reg = Z80_IY then do {
       d \<leftarrow> on_lp z80GetIDxoffset;
       closed [reg, 0x7e, d, INSTRUCTION_START_MARKER, reg, 0x23] }
     else ret [] })"

definition ldi_r :: "Z80Reg \<Rightarrow> int list M" where
  "ldi_r reg = after_bracket (do {
     reg2 \<leftarrow> getReg;
     if reg2 = Z80_HL then closed [0x46 + reg * 8, INSTRUCTION_START_MARKER, 0x23]
     else if reg2 = Z80_IX \<or> reg2 = Z80_IY then do {
       d \<leftarrow> on_lp z80GetIDxoffset;
       closed [reg2, 0x46 + reg * 8, d, INSTRUCTION_START_MARKER, reg2, 0x23] }
     else ret [] })"

text \<open>Two bytes at (HL) respectively (IX+d), with the pointer advanced after each.\<close>

definition ldi_hl_twice :: "int \<Rightarrow> int \<Rightarrow> int list" where
  "ldi_hl_twice op1 op2 = [op1, INSTRUCTION_START_MARKER, 0x23, INSTRUCTION_START_MARKER, op2,
     INSTRUCTION_START_MARKER, 0x23]"

definition ldi_ixy_twice :: "int \<Rightarrow> int \<Rightarrow> int \<Rightarrow> int \<Rightarrow> int list" where
  "ldi_ixy_twice px d op1 op2 = [px, op1, d, INSTRUCTION_START_MARKER, px, 0x23, INSTRUCTION_START_MARKER,
     px, op2, d, INSTRUCTION_START_MARKER, px, 0x23]"

definition ldi_pair :: "Z80Reg \<Rightarrow> int list M" where
  "ldi_pair reg = after_comma (do {
     reg2 \<leftarrow> getReg;
     d \<leftarrow> gets GetRegister_lastIxyD;
     if reg2 = Z80_MEM_HL then
       (if reg = Z80_HL then ret [] else do { noFakes True; ret (ldi_hl_twice (0x3e + reg) (0x36 + reg)) })
     else if reg2 \<in> set mem_ixy then do {
       noFakes True; ret (ldi_ixy_twice (reg2 AND 0xFF) d (0x3e + reg) (0x36 + reg)) }
     else ret [] })"

definition ldi_mem_hl :: "int list M" where
  "ldi_mem_hl = after_comma (do {
     reg \<leftarrow> getReg;
     if reg = Z80_BC \<or> reg = Z80_DE then do {
       noFakes True;
       ret (ldi_hl_twice (0x70 + GetRegister_r16Low reg) (0x70 + GetRegister_r16High reg)) }
     else ldx_mem_hl 0x23 reg })"

definition ldi_mem_ixy :: "Z80Reg \<Rightarrow> int list M" where
  "ldi_mem_ixy reg = after_comma (do {
     reg2 \<leftarrow> getReg;
     d \<leftarrow> gets GetRegister_lastIxyD;
     if reg2 \<in> {Z80_BC, Z80_DE, Z80_HL} then do {
       noFakes True;
       ret (ldi_ixy_twice (reg AND 0xFF) d (0x70 + GetRegister_r16Low reg2) (0x70 + GetRegister_r16High reg2)) }
     else ldx_mem_ixy 0x23 reg reg2 })"

definition ldi_body :: "int list M" where
  "ldi_body = do {
     reg \<leftarrow> getReg;
     if reg = Z80_A then ldi_a
     else if reg \<in> set r8_regs then ldi_r reg
     else if reg \<in> {Z80_BC, Z80_DE, Z80_HL} then ldi_pair reg
     else if reg = Z80_MEM_HL then ldi_mem_hl
     else if reg \<in> set mem_ixy then ldi_mem_ixy reg
     else ldx_default 0xa0 (\<lambda>r. r - 13) }"

definition OpCode_LDI :: "unit M" where
  "OpCode_LDI = do {
     no \<leftarrow> noFakes False;
     if no then two_bytes 0xED 0xA0 else emit_args call_MultiArg ldi_body }"

section \<open>Loads of the LR35902\<close>

text \<open>The body of LDD and LDI of the LR35902: \<open>to_mem\<close> for (HL),A and \<open>to_a\<close> for A,(HL).\<close>

definition lr_load :: "int \<Rightarrow> int \<Rightarrow> int list M" where
  "lr_load to_mem to_a = do {
     r1 \<leftarrow> getReg;
     comma_ok \<leftarrow> commaM;
     r2 \<leftarrow> (if comma_ok then getReg else ret Z80_UNK);
     ret (if r1 = Z80_MEM_HL \<and> r2 = Z80_A then [to_mem] else if r1 = Z80_A \<and> r2 = Z80_MEM_HL then [to_a] else []) }"

definition OpCode_LR35902_LDD :: "unit M" where
  "OpCode_LR35902_LDD = emit_args call_MultiArg (lr_load 0x32 0x3A)"

definition OpCode_LR35902_LDI :: "unit M" where
  "OpCode_LR35902_LDI = emit_args call_MultiArg (lr_load 0x22 0x2A)"

text \<open>The operands of LDH: the result of the memory operand (0, 1 or 2), its value and the second register.\<close>

definition ldh_operands :: "(int \<times> aint \<times> Z80Reg) M" where
  "ldh_operands = do {
     r1 \<leftarrow> getReg;
     (res1, a1) \<leftarrow> (if r1 = Z80_UNK then on_lp ParseExpressionMemAccess else ret (0, -1));
     comma_ok \<leftarrow> (if r1 = Z80_A \<or> 0 < res1 then commaM else ret False);
     r2 \<leftarrow> (if comma_ok then getReg else ret Z80_F);
     if r2 = Z80_UNK \<and> r1 = Z80_A then do {
       (res2, a2) \<leftarrow> on_lp ParseExpressionMemAccess;
       ret (res2, a2, r2) }
     else ret (if r2 \<noteq> Z80_A then 0 else res1, a1, r2) }"

definition OpCode_LR35902_LDH :: "unit M" where
  "OpCode_LR35902_LDH = emit_args call_MultiArg (do {
     (pemaRes, a, r2) \<leftarrow> ldh_operands;
     if pemaRes = 2 then do {
       let a8 = (if 0xFF00 \<le> a \<and> a \<le> 0xFFFF then a - 0xFF00 else a);
       check8 a8;
       ret [if r2 = Z80_A then 0xE0 else 0xF0, a8 AND 0xFF] }
     else do {
       p \<leftarrow> gets lp;
       err_here ''[LDH] only valid combinations: `ldh a,(a8)` or `ldh (a8),a`'' (Some p) E_SUPPRESS [] } })"

end
