(* ===== verification/Sj_Z80.thy ===== *)
theory Sj_Z80
  imports Sj_Z80_Alu Sj_Z80_Jump Sj_Z80_Ld
begin

unbundle bit_operations_syntax

text \<open>
  The remaining instruction handlers of z80.cpp (the instructions without operands, the Z80N extensions), the
  table of the instructions, which depends on the CPU, and \<^verbatim>\<open>GetOpCode\<close>, which assembles the instruction at the
  line pointer.
\<close>

section \<open>Instructions without operands\<close>

definition OpCode_CCF :: "unit M" where "OpCode_CCF = EmitByte 0x3f True"
definition OpCode_CPL :: "unit M" where "OpCode_CPL = EmitByte 0x2f True"
definition OpCode_DAA :: "unit M" where "OpCode_DAA = EmitByte 0x27 True"
definition OpCode_DI :: "unit M" where "OpCode_DI = EmitByte 0xf3 True"
definition OpCode_EI :: "unit M" where "OpCode_EI = EmitByte 0xfb True"
definition OpCode_EXA :: "unit M" where "OpCode_EXA = EmitByte 0x08 True"
definition OpCode_EXD :: "unit M" where "OpCode_EXD = EmitByte 0xeb True"
definition OpCode_EXX :: "unit M" where "OpCode_EXX = EmitByte 0xd9 True"
definition OpCode_HALT :: "unit M" where "OpCode_HALT = EmitByte 0x76 True"
definition OpCode_NOP :: "unit M" where "OpCode_NOP = EmitByte 0x0 True"
definition OpCode_RLA :: "unit M" where "OpCode_RLA = EmitByte 0x17 True"
definition OpCode_RLCA :: "unit M" where "OpCode_RLCA = EmitByte 0x7 True"
definition OpCode_RRA :: "unit M" where "OpCode_RRA = EmitByte 0x1f True"
definition OpCode_RRCA :: "unit M" where "OpCode_RRCA = EmitByte 0xf True"
definition OpCode_SCF :: "unit M" where "OpCode_SCF = EmitByte 0x37 True"

definition OpCode_CPD :: "unit M" where "OpCode_CPD = two_bytes 0xED 0xA9"
definition OpCode_CPDR :: "unit M" where "OpCode_CPDR = two_bytes 0xED 0xB9"
definition OpCode_CPI :: "unit M" where "OpCode_CPI = two_bytes 0xED 0xA1"
definition OpCode_CPIR :: "unit M" where "OpCode_CPIR = two_bytes 0xED 0xB1"
definition OpCode_IND :: "unit M" where "OpCode_IND = two_bytes 0xED 0xAA"
definition OpCode_INDR :: "unit M" where "OpCode_INDR = two_bytes 0xED 0xBA"
definition OpCode_INI :: "unit M" where "OpCode_INI = two_bytes 0xED 0xA2"
definition OpCode_INIR :: "unit M" where "OpCode_INIR = two_bytes 0xED 0xB2"
definition OpCode_INF :: "unit M" where "OpCode_INF = two_bytes 0xED 0x70"
definition OpCode_LDDR :: "unit M" where "OpCode_LDDR = two_bytes 0xED 0xB8"
definition OpCode_LDIR :: "unit M" where "OpCode_LDIR = two_bytes 0xED 0xB0"
definition OpCode_NEG :: "unit M" where "OpCode_NEG = two_bytes 0xED 0x44"
definition OpCode_OTDR :: "unit M" where "OpCode_OTDR = two_bytes 0xED 0xBB"
definition OpCode_OTIR :: "unit M" where "OpCode_OTIR = two_bytes 0xED 0xB3"
definition OpCode_OUTD :: "unit M" where "OpCode_OUTD = two_bytes 0xED 0xAB"
definition OpCode_OUTI :: "unit M" where "OpCode_OUTI = two_bytes 0xED 0xA3"
definition OpCode_RETI :: "unit M" where "OpCode_RETI = two_bytes 0xED 0x4D"
definition OpCode_RETN :: "unit M" where "OpCode_RETN = two_bytes 0xED 0x45"
definition OpCode_RLD :: "unit M" where "OpCode_RLD = two_bytes 0xED 0x6F"
definition OpCode_RRD :: "unit M" where "OpCode_RRD = two_bytes 0xED 0x67"

section \<open>Extensions\<close>

definition z80n :: "unit M \<Rightarrow> unit M" where
  "z80n m = do {
     nxt \<leftarrow> gets (\<lambda>s. IsNextEnabled (syx (opts s)));
     if nxt < 1 then do {
       b \<leftarrow> gets bp;
       Error ''Z80N instructions are currently disabled'' (Some b) E_SUPPRESS }
     else m }"

definition OpCode_Next_LDDRX :: "unit M" where "OpCode_Next_LDDRX = z80n (two_bytes 0xED 0xBC)"
definition OpCode_Next_LDDX :: "unit M" where "OpCode_Next_LDDX = z80n (two_bytes 0xED 0xAC)"
definition OpCode_Next_LDIRX :: "unit M" where "OpCode_Next_LDIRX = z80n (two_bytes 0xED 0xB4)"
definition OpCode_Next_LDIX :: "unit M" where "OpCode_Next_LDIX = z80n (two_bytes 0xED 0xA4)"
definition OpCode_Next_LDPIRX :: "unit M" where "OpCode_Next_LDPIRX = z80n (two_bytes 0xED 0xB7)"
definition OpCode_Next_LDWS :: "unit M" where "OpCode_Next_LDWS = z80n (two_bytes 0xED 0xA5)"
definition OpCode_Next_OUTINB :: "unit M" where "OpCode_Next_OUTINB = z80n (two_bytes 0xED 0x90)"
definition OpCode_Next_SETAE :: "unit M" where "OpCode_Next_SETAE = z80n (two_bytes 0xED 0x95)"

definition OpCode_Z80N_BarrelShifts :: "int \<Rightarrow> unit M" where
  "OpCode_Z80N_BarrelShifts mainOpcode = z80n (do {
     r1 \<leftarrow> getReg;
     c \<leftarrow> (if r1 = Z80_DE then commaM else ret False);
     r2 \<leftarrow> (if c then getReg else ret Z80_UNK);
     e \<leftarrow> (if r2 = Z80_B then ret [0xED, mainOpcode]
       else do {
         b \<leftarrow> gets bp;
         err_here ''Z80N barrel shifts exist only with \"DE,B\" arguments'' (Some b) E_SUPPRESS [] });
     EmitBytes e True })"

definition OpCode_Next_BRLC :: "unit M" where "OpCode_Next_BRLC = OpCode_Z80N_BarrelShifts 0x2C"
definition OpCode_Next_BSLA :: "unit M" where "OpCode_Next_BSLA = OpCode_Z80N_BarrelShifts 0x28"
definition OpCode_Next_BSRA :: "unit M" where "OpCode_Next_BSRA = OpCode_Z80N_BarrelShifts 0x29"
definition OpCode_Next_BSRF :: "unit M" where "OpCode_Next_BSRF = OpCode_Z80N_BarrelShifts 0x2B"
definition OpCode_Next_BSRL :: "unit M" where "OpCode_Next_BSRL = OpCode_Z80N_BarrelShifts 0x2A"

text \<open>MIRROR and SWAPNIB, with an optional operand A.\<close>

definition only_a :: "string \<Rightarrow> int \<Rightarrow> unit M" where
  "only_a name opcode = z80n (do {
     reg \<leftarrow> getReg;
     if reg \<noteq> Z80_UNK \<and> reg \<noteq> Z80_A then do {
       l \<leftarrow> gets line;
       Error (name @ '' Illegal operand (can be only register A)'') (Some l) E_PASS3 }
     else two_bytes 0xED opcode })"

definition OpCode_Next_MIRROR :: "unit M" where "OpCode_Next_MIRROR = only_a ''[MIRROR]'' 0x24"
definition OpCode_Next_SWAPNIB :: "unit M" where "OpCode_Next_SWAPNIB = only_a ''[SWAPNIB]'' 0x23"

text \<open>PIXELAD and PIXELDN, with an optional operand HL.\<close>

definition opt_hl :: "int \<Rightarrow> unit M" where
  "opt_hl opcode = z80n (do {
     oldLp \<leftarrow> gets lp;
     reg \<leftarrow> getReg;
     whenM (reg \<noteq> Z80_HL) (set_lp oldLp);
     two_bytes 0xED opcode })"

definition OpCode_Next_PIXELAD :: "unit M" where "OpCode_Next_PIXELAD = opt_hl 0x94"
definition OpCode_Next_PIXELDN :: "unit M" where "OpCode_Next_PIXELDN = opt_hl 0x93"

definition OpCode_Next_MUL :: "unit M" where
  "OpCode_Next_MUL = z80n (do {
     r0 \<leftarrow> getReg;
     bare \<leftarrow> (if r0 = Z80_UNK then lexM SkipBlanks else ret False);
     no \<leftarrow> (if bare then noFakes True else ret True);
     let r1 = (if bare \<and> \<not> no then Z80_DE else r0);
     c \<leftarrow> (if r1 = Z80_D then commaM else ret False);
     r2 \<leftarrow> (if c then getReg else ret Z80_UNK);
     if r1 = Z80_DE \<or> r2 = Z80_E then EmitBytes [0xED, 0x30] True
     else do {
       b \<leftarrow> gets bp;
       Error ''Z80N MUL exist only with \"D,E\" arguments'' (Some b) E_SUPPRESS } })"

definition OpCode_Next_NEXTREG :: "unit M" where
  "OpCode_Next_NEXTREG = z80n (emit_break call_MultiArg (do {
     reg \<leftarrow> getReg;
     if reg \<noteq> Z80_UNK then do {
       l \<leftarrow> gets line;
       err_here ''[NEXTREG] first operand should be register number'' (Some l) E_SUPPRESS None }
     else do {
       n \<leftarrow> on_lp (GetByteNoMem False);
       checkAndWarn False;
       c \<leftarrow> commaM;
       if \<not> c then err_here ''[NEXTREG] Comma expected'' None E_PASS3 None
       else do {
         reg2 \<leftarrow> getReg;
         if reg2 = Z80_A then ret (Some [0xED, 0x92, n])
         else if reg2 = Z80_UNK then do { e \<leftarrow> ld_imm8 [0xED, 0x91, n]; ret (Some e) }
         else ret (Some []) } } }))"

definition OpCode_Next_TEST :: "unit M" where
  "OpCode_Next_TEST = z80n (do { e \<leftarrow> ld_imm8 [0xED, 0x27]; EmitBytes e True })"

text \<open>Instructions of the emulator CSpect.\<close>

definition cspect :: "string \<Rightarrow> string \<Rightarrow> unit M \<Rightarrow> unit M \<Rightarrow> unit M" where
  "cspect upper lower cleanup m = do {
     nxt \<leftarrow> gets (\<lambda>s. IsNextEnabled (syx (opts s)));
     if nxt < 2 then do {
       Error (''['' @ upper @ ''] fake instruction \"'' @ lower @
         ''\" must be specifically enabled by --zxnext=cspect option'') None E_PASS3;
       cleanup }
     else m }"

definition OpCode_Next_BREAK :: "unit M" where
  "OpCode_Next_BREAK = cspect ''BREAK'' ''break'' (ret ()) (two_bytes 0xFD 0x00)"

definition OpCode_Next_EXIT :: "unit M" where
  "OpCode_Next_EXIT = cspect ''EXIT'' ''exit'' (ret ()) (two_bytes 0xDD 0x00)"

definition break_range :: "string \<Rightarrow> int \<Rightarrow> unit M" where
  "break_range name opcode = do {
     t \<leftarrow> on_lp (GetByte False);
     c1 \<leftarrow> commaM;
     startad \<leftarrow> (if c1 then on_lp GetWord else ret 0);
     c2 \<leftarrow> (if c1 then commaM else ret False);
     if c2 then do {
       endad \<leftarrow> on_lp GetWord;
       EmitBytes [0xED, opcode, t] True;
       EmitWord startad False;
       EmitWord endad False }
     else Error (''['' @ name @ ''] syntax: '' @ name @ '' <type>, <start_address>, <end_address>'') None E_PASS3 }"

definition OpCode_Next_SETBRK :: "unit M" where
  "OpCode_Next_SETBRK = cspect ''SETBRK'' ''setbrk'' skip_line (break_range ''SETBRK'' 0x01)"

definition OpCode_Next_CLRBRK :: "unit M" where
  "OpCode_Next_CLRBRK = cspect ''CLRBRK'' ''clrbrk'' skip_line (break_range ''CLRBRK'' 0x02)"

text \<open>Multiplications of the R800.\<close>

definition mul_r800 :: "Z80Reg \<Rightarrow> (Z80Reg \<Rightarrow> int list) \<Rightarrow> unit M" where
  "mul_r800 first bytes = do {
     reg \<leftarrow> getReg;
     c \<leftarrow> (if reg = first then commaM else ret False);
     reg' \<leftarrow> (if c then getReg else ret reg);
     EmitBytes (bytes reg') True }"

definition OpCode_MULUB :: "unit M" where
  "OpCode_MULUB = mul_r800 Z80_A (\<lambda>reg. if reg = Z80_B then [0xed, 0xc1] else if reg = Z80_C then [0xed, 0xc9]
     else if reg = Z80_D then [0xed, 0xd1] else if reg = Z80_E then [0xed, 0xd9] else [])"

definition OpCode_MULUW :: "unit M" where
  "OpCode_MULUW = mul_r800 Z80_HL (\<lambda>reg. if reg = Z80_BC then [0xed, 0xc3] else if reg = Z80_SP then [0xed, 0xf3] else [])"

definition OpCode_LR35902_STOP :: "unit M" where
  "OpCode_LR35902_STOP = do {
     EmitByte 0x10 True;
     eol \<leftarrow> lexM SkipBlanks;
     if eol then EmitByte 0x00 False
     else do { b \<leftarrow> on_lp (GetByteNoMem False); EmitByte b False } }"

section \<open>The instruction table\<close>

text \<open>The groups of \<^verbatim>\<open>Init\<close> in its order. IN, OUT and EX are missing on the LR35902.\<close>

definition shared_instructions :: "options \<Rightarrow> (string \<times> unit M) list" where
  "shared_instructions opt =
    [(''adc'', OpCode_ADC), (''add'', OpCode_ADD), (''and'', OpCode_AND), (''call'', OpCode_CALL), (''ccf'',
      OpCode_CCF), (''cp'', OpCode_CP), (''cpl'', OpCode_CPL), (''daa'', OpCode_DAA), (''dec'', OpCode_DEC),
      (''di'', OpCode_DI), (''ei'', OpCode_EI)] @
     (if IsLR35902 opt then [] else [(''ex'', OpCode_EX)]) @
     [(''exd'', OpCode_EXD), (''halt'', OpCode_HALT)] @
     (if IsLR35902 opt then [] else [(''in'', OpCode_IN)]) @
     [(''inc'', OpCode_INC), (''jp'', OpCode_JP), (''ld'', OpCode_LD), (''nop'', OpCode_NOP), (''or'',
      OpCode_OR)] @
     (if IsLR35902 opt then [] else [(''out'', OpCode_OUT)]) @
     [(''pop'', OpCode_POP), (''push'', OpCode_PUSH), (''ret'', OpCode_RET), (''rla'', OpCode_RLA),
      (''rlca'', OpCode_RLCA), (''rra'', OpCode_RRA), (''rrca'', OpCode_RRCA), (''rst'', OpCode_RST),
      (''sbc'', OpCode_SBC), (''scf'', OpCode_SCF), (''sub'', OpCode_SUB), (''xor'', OpCode_XOR)]"

definition z80_lr_instructions :: "(string \<times> unit M) list" where
  "z80_lr_instructions = [(''bit'', OpCode_BIT), (''jr'', OpCode_JR), (''res'', OpCode_RES), (''rl'', OpCode_RL),
     (''rlc'', OpCode_RLC), (''rr'', OpCode_RR), (''rrc'', OpCode_RRC), (''set'', OpCode_SET),
     (''sla'', OpCode_SLA), (''sra'', OpCode_SRA), (''srl'', OpCode_SRL)]"

definition lr35902_instructions :: "(string \<times> unit M) list" where
  "lr35902_instructions = [(''ldd'', OpCode_LR35902_LDD), (''ldh'', OpCode_LR35902_LDH), (''ldi'', OpCode_LR35902_LDI),
     (''reti'', OpCode_EXX), (''stop'', OpCode_LR35902_STOP), (''swap'', OpCode_SLL)]"

definition z80_instructions :: "(string \<times> unit M) list" where
  "z80_instructions = [(''cpd'', OpCode_CPD), (''cpdr'', OpCode_CPDR), (''cpi'', OpCode_CPI), (''cpir'', OpCode_CPIR),
     (''djnz'', OpCode_DJNZ), (''exa'', OpCode_EXA), (''exx'', OpCode_EXX), (''im'', OpCode_IM),
     (''ind'', OpCode_IND), (''indr'', OpCode_INDR), (''inf'', OpCode_INF), (''ini'', OpCode_INI),
     (''inir'', OpCode_INIR), (''ldd'', OpCode_LDD), (''lddr'', OpCode_LDDR), (''ldi'', OpCode_LDI),
     (''ldir'', OpCode_LDIR), (''mulub'', OpCode_MULUB), (''muluw'', OpCode_MULUW),
     (''neg'', OpCode_NEG), (''otdr'', OpCode_OTDR), (''otir'', OpCode_OTIR), (''outd'', OpCode_OUTD),
     (''outi'', OpCode_OUTI), (''reti'', OpCode_RETI), (''retn'', OpCode_RETN), (''rld'', OpCode_RLD),
     (''rrd'', OpCode_RRD), (''sli'', OpCode_SLL), (''sll'', OpCode_SLL)]"

definition next_instructions :: "(string \<times> unit M) list" where
  "next_instructions = [(''brlc'', OpCode_Next_BRLC), (''bsla'', OpCode_Next_BSLA), (''bsra'', OpCode_Next_BSRA),
     (''bsrf'', OpCode_Next_BSRF), (''bsrl'', OpCode_Next_BSRL), (''lddrx'', OpCode_Next_LDDRX),
     (''lddx'', OpCode_Next_LDDX), (''ldirx'', OpCode_Next_LDIRX), (''ldix'', OpCode_Next_LDIX),
     (''ldpirx'', OpCode_Next_LDPIRX), (''ldws'', OpCode_Next_LDWS), (''mirror'', OpCode_Next_MIRROR),
     (''mul'', OpCode_Next_MUL), (''nextreg'', OpCode_Next_NEXTREG), (''outinb'', OpCode_Next_OUTINB),
     (''pixelad'', OpCode_Next_PIXELAD), (''pixeldn'', OpCode_Next_PIXELDN),
     (''setae'', OpCode_Next_SETAE), (''swapnib'', OpCode_Next_SWAPNIB), (''test'', OpCode_Next_TEST),
     (''exit'', OpCode_Next_EXIT), (''break'', OpCode_Next_BREAK), (''setbrk'', OpCode_Next_SETBRK),
     (''clrbrk'', OpCode_Next_CLRBRK)]"

fun insert_all :: "(string \<times> 'f) list \<Rightarrow> 'f function_map \<Rightarrow> 'f function_map" where
  "insert_all [] m = m"
| "insert_all ((n, f) # fs) m = insert_all fs (snd (CFunctionTable_Insert n f m))"

text \<open>\<open>Init\<close> is the table after the call of \<^verbatim>\<open>Init\<close> without its last call, \<^verbatim>\<open>InitNextExtensions\<close>, which may also happen
  later and only once: \<open>nextExtensions\<close> is its variable \<^verbatim>\<open>nextWasInitialized\<close>.\<close>

definition Init :: "options \<Rightarrow> unit M function_map" where
  "Init opt =
     (let m1 = insert_all (shared_instructions opt) Map.empty in
      if IsI8080 opt then m1
      else let m2 = insert_all z80_lr_instructions m1 in
        if IsLR35902 opt then insert_all lr35902_instructions m2
        else insert_all z80_instructions m2)"

definition InitNextExtensions :: "unit M" where
  "InitNextExtensions = modify (\<lambda>s. if IsNextEnabled (syx (opts s)) = 0 then s else s\<lparr>nextExtensions := True\<rparr>)"

definition OpCodeTable :: "asm \<Rightarrow> unit M function_map" where
  "OpCodeTable s = (if nextExtensions s then insert_all next_instructions (Init (opts s)) else Init (opts s))"

definition GetOpCode :: "unit M" where
  "GetOpCode = do {
     modify (\<lambda>s. s\<lparr>lastDisplacementParsedP := None, bp := lp s\<rparr>);
     mod_rel (\<lambda>r. r\<lparr>isResultAffected := False\<rparr>);
     x \<leftarrow> gets (\<lambda>s. syx (opts s));
     n \<leftarrow> lexM (getinstr x);
     table \<leftarrow> gets OpCodeTable;
     (case (case n of None \<Rightarrow> None | Some name \<Rightarrow> zoek name table) of
        None \<Rightarrow> do {
          b \<leftarrow> gets bp;
          Error ''Unrecognized instruction'' (Some b) E_PASS3;
          skip_line }
      | Some handler \<Rightarrow> do {
          handler;
          checkAndWarn False;
          ret () }) }"

end
