(* ===== verification/Sj_Z80_Term.thy ===== *)
theory Sj_Z80_Term
  imports Sj_Z80
begin

unbundle bit_operations_syntax

text \<open>
  Assembling an instruction always comes to an end: the loops over the arguments of a multi-argument
  instruction and the recursion of the register parser do not run out of their fuel, and the line pointer
  stays in the line. The operand parsers keep the contract \<open>shrinking\<close> of all parsers; the handlers keep
  \<open>stays\<close>, the invariant that the line pointer points into the line. Both are proved by rules over the
  combinators of the monad.
\<close>

section \<open>Rules for parsers\<close>

definition parse_ok :: "string \<Rightarrow> ('a \<times> string) M \<Rightarrow> bool" where
  "parse_ok p m \<longleftrightarrow> (\<forall>l. inv (\<lambda>s. fuel_ok s \<and> lp s = l) m (\<lambda>(r, p'). suffix p' p))"

definition parser_ok :: "'a parser \<Rightarrow> bool" where
  "parser_ok f \<longleftrightarrow> (\<forall>p. parse_ok p (f p))"

named_theorems parsing \<open>parsers return a pointer into the text they were given\<close>

lemma parse_okD:
  assumes "parse_ok p m" "fuel_ok s"
  shows "fuel_ok (snd (run_state m s))" "lp (snd (run_state m s)) = lp s" "suffix (snd (fst (run_state m s))) p"
  using assms by (auto simp: parse_ok_def inv_def split_beta)

lemma shrinking_parser_ok: "shrinking f \<Longrightarrow> parser_ok f"
  by (auto simp: shrinking_def parser_ok_def parse_ok_def inv_def keeps_def state_io_rel_def)

lemma parser_okI: "(\<And>p. parse_ok p (f p)) \<Longrightarrow> parser_ok f"
  by (simp add: parser_ok_def)

lemma parse_ret [parsing]: "suffix (snd x) p \<Longrightarrow> parse_ok p (ret x)"
  by (auto simp: parse_ok_def split_beta intro: inv_ret)

lemma parse_calm: "calm_only m \<Longrightarrow> (\<And>x. parse_ok p (f x)) \<Longrightarrow> parse_ok p (m \<bind> f)"
  by (auto simp: parse_ok_def inv_def state_io_rel_def calm_def fuel_ok_def split_beta)

lemma parse_at: "parser_ok g \<Longrightarrow> suffix q p \<Longrightarrow> parse_ok p (g q)"
  by (auto simp: parser_ok_def parse_ok_def inv_def split_beta dest: suffix_trans')

lemma parse_bind: "parse_ok p m \<Longrightarrow> (\<And>r q. suffix q p \<Longrightarrow> parse_ok p (f (r, q))) \<Longrightarrow> parse_ok p (m \<bind> f)"
  unfolding parse_ok_def by (intro allI inv_bind [where V = "\<lambda>(r, p'). suffix p' p"]) auto

lemma parse_split [parsing]:
  "(b \<Longrightarrow> parse_ok p m) \<Longrightarrow> (\<not> b \<Longrightarrow> parse_ok p n) \<Longrightarrow> parse_ok p (if b then m else n)"
  "(x = None \<Longrightarrow> parse_ok p m) \<Longrightarrow> (\<And>a. x = Some a \<Longrightarrow> parse_ok p (g a)) \<Longrightarrow>
    parse_ok p (case x of None \<Rightarrow> m | Some a \<Rightarrow> g a)"
  "(\<And>a. a = v \<Longrightarrow> parse_ok p (g a)) \<Longrightarrow> parse_ok p (let a = v in g a)"
  by (simp_all split: option.split)

lemma parse_tuple [parsing]:
  "parse_ok p (g a b) \<Longrightarrow> parse_ok p (case (a, b) of (x, y) \<Rightarrow> g x y)"
  "(\<And>a b. parse_ok p (h a b q)) \<Longrightarrow> parse_ok p ((case x of (a, b) \<Rightarrow> h a b) q)"
  by (simp_all add: split_beta)

lemma parse_err [parsing]: "suffix (snd v) p \<Longrightarrow> parse_ok p (err_here m b t v)"
  unfolding err_here_def by (intro parse_calm calming parsing)

section \<open>The operand parsers\<close>

lemmas calm_checks [calming] = diag_only_checks [THEN calm_diag]

lemma calm_addOffset [calming]: "calm_only (addOffsetToRelocate r)"
  unfolding addOffsetToRelocate_def by (intro calming; simp)

lemma calm_reloc [calming]: "calm_only (resolveRelocationAffected r t)" "calm_only (checkAndWarn b)"
  unfolding resolveRelocationAffected_def checkAndWarn_def by (intro calming; simp)+

lemma calm_smc [calming]: "calm_only (resolveRelocationAndSmartSmc r t)"
  unfolding resolveRelocationAndSmartSmc_def by (intro calming; simp)

lemma parser_brackets: "parser_ok OpenBracketM" "parser_ok CloseBracketM"
proof -
  have o: "inv (\<lambda>_. True) (OpenBracketM p) (\<lambda>(r, p'). suffix p' p)" for p
    unfolding OpenBracketM_def
    by (rule inv_bind [where V = "\<lambda>_. True"], simp add: inv_get, rule inv_case_prod, rule inv_case_prod)
      (auto intro!: inv_bind [OF inv_modify] inv_ret dest: OpenBracket_sfx)
  have c: "inv (\<lambda>_. True) (CloseBracketM p) (\<lambda>(r, p'). suffix p' p)" for p
    unfolding CloseBracketM_def
    by (rule inv_bind [where V = "\<lambda>_. True"], simp add: inv_get, rule inv_case_prod, rule inv_case_prod)
      (auto intro!: inv_bind [OF inv_modify] inv_ret dest: CloseBracket_sfx)
  show "parser_ok OpenBracketM" "parser_ok CloseBracketM"
    by (rule shrinking_parser_ok [OF shrinking_calm [OF calm_brackets(1) o]],
        rule shrinking_parser_ok [OF shrinking_calm [OF calm_brackets(2) c]])
qed

lemmas parser_ParseExpression = shrinking_parser_ok [OF shrinking_ParseExpression]
lemmas parser_Temporary = shrinking_parser_ok [OF shrinking_labels(7)]

lemma parser_MemAccess: "parser_ok ParseExpressionMemAccess"
proof (rule parser_okI)
  fix p
  have b: "parse_ok p (ParseExpression (if bt = BT_ROUND then skip_blanks p else p1))" if "suffix p1 p" for bt p1
    using that by (intro parse_at [OF parser_ParseExpression]) simp
  show "parse_ok p (ParseExpressionMemAccess p)"
    unfolding ParseExpressionMemAccess_def Let_def
    by (rule parse_bind [OF parse_at [OF parser_brackets(1)]], simp, simp only: prod.case,
        rule parse_bind [OF b], assumption, simp only: prod.case,
        intro parsing parse_bind [OF parse_at [OF parser_brackets(2)]]; simp add: parse_ret)
qed

text \<open>The rules for the calls inside a parser.\<close>

lemmas parse_calls = parse_bind [OF parse_at [OF parser_ParseExpression]] parse_bind [OF parse_at [OF parser_MemAccess]]
  parse_bind [OF parse_at [OF parser_Temporary]]

lemmas parse_calm_calls = parse_calm [OF cm.io_gets] parse_calm [OF calm_checks(1)] parse_calm [OF calm_checks(2)]
  parse_calm [OF calm_checks(3)] parse_calm [OF calm_reloc(2)]

lemma parser_GetByte: "parser_ok (GetByte b)"
proof (rule parser_okI)
  have c: "calm_only (if b then check8o v else check8 v)" for v by (intro calming)
  show "parse_ok p (GetByte b p)" for p
    unfolding GetByte_def by (intro parse_calls parse_calm [OF c] parsing) simp_all
qed

lemma parser_GetByteNoMem: "parser_ok (GetByteNoMem b)"
proof (rule parser_okI)
  have c: "calm_only (if b then check8o v else check8 v)" for v by (intro calming)
  show "parse_ok p (GetByteNoMem b p)" for p
    unfolding GetByteNoMem_def
    by (intro parse_calls parse_calm_calls parse_calm [OF c] parse_at [OF parser_GetByte] parsing) simp_all
qed

lemma parser_GetIoPort: "parser_ok GetIoPort"
  by (rule parser_okI, unfold GetIoPort_def, intro parse_calls parse_calm_calls parsing) simp_all

lemma parser_GetWord: "parser_ok GetWord"
  by (rule parser_okI, unfold GetWord_def, intro parse_calls parse_calm_calls parsing) simp_all

lemma parser_GetWordNoMem: "parser_ok GetWordNoMem"
  by (rule parser_okI, unfold GetWordNoMem_def,
      intro parse_calls parse_calm_calls parse_at [OF parser_GetWord] parsing) simp_all

lemma parser_GetAddress: "parser_ok GetAddress"
  by (rule parser_okI, unfold GetAddress_def, intro parse_calls parse_calm_calls parsing) simp_all

lemma parser_z80GetIDxoffset: "parser_ok z80GetIDxoffset"
proof (rule parser_okI)
  have c: "calm_only (if b then checkAndWarn False else do { mod_rel (\<lambda>r. r\<lparr>isResultAffected := False\<rparr>); ret False })" for b
    by (intro calming; simp)
  have m: "calm_only (modify (\<lambda>s. s\<lparr>lastDisplacementParsedP := x\<rparr>))" for x by (intro calming; simp)
  show "parse_ok p (z80GetIDxoffset p)" for p
    unfolding z80GetIDxoffset_def
    by (intro parse_calls parse_calm_calls parse_calm [OF c] parse_calm [OF m] parsing) simp_all
qed

section \<open>The register parser\<close>

lemma match_tails_sfx: "match_tails ci ts p = Some (r, q) \<Longrightarrow> suffix q p"
  by (induction ci ts p rule: match_tails.induct)
    (auto simp: GetRegister_pair_def GetRegister_3letter_def split: if_splits intro: suffix_drop)

lemma hl_inc_dec_sfx: "hl_inc_dec b r p = (r', q) \<Longrightarrow> suffix q p"
  by (auto simp: hl_inc_dec_def split: if_splits intro: suffix_drop)

lemma parse_mem_operand:
  assumes "parse_ok p (get q)" "suffix pp p"
  shows "parse_ok p (mem_operand get c pp q)"
proof -
  have m: "calm_only (modify (\<lambda>s. s\<lparr>GetRegister_lastIxyD := d\<rparr>))" for d by (intro calming; simp)
  define step where "step r x = (if r = Z80_IX \<or> r = Z80_IY then do { (d, p3) \<leftarrow> z80GetIDxoffset x;
      modify (\<lambda>s. s\<lparr>GetRegister_lastIxyD := d\<rparr>); ret ((), p3) } else ret ((), x))" for r x
  have step: "parse_ok p (step r x)" if "suffix x p" for r x
    unfolding step_def using that
    by (intro parse_bind [OF parse_at [OF parser_z80GetIDxoffset]] parse_calm [OF m] parsing) simp_all
  have eq: "((if r = Z80_IX \<or> r = Z80_IY then do { (d, p3) \<leftarrow> z80GetIDxoffset x;
      modify (\<lambda>s. s\<lparr>GetRegister_lastIxyD := d\<rparr>); ret p3 } else ret x) \<bind> k) = (step r x \<bind> (\<lambda>(u, p3). k p3))" for r x and k :: "_ \<Rightarrow> 'a M"
    by (simp add: step_def split_beta)
  show ?thesis
    unfolding mem_operand_def eq
    by (intro parse_bind [OF assms(1)] parse_calm_calls parse_bind [OF step] parsing)
      (auto split: prod.split dest!: hl_inc_dec_sfx intro!: parse_bind [OF step] parsing assms(2)
        intro: suffix_trans' simp: suffix_dropI suffix_skip_blanksI)
qed

lemma parse_reg_part: "parse_ok p (get q) \<Longrightarrow> suffix pp p \<Longrightarrow> parse_ok p (reg_part get h pp q)"
  unfolding reg_part_def by (intro parse_bind parsing) simp_all

lemma parse_GetRegister_n: "length p < n \<Longrightarrow> parse_ok p (GetRegister_n n p)"
proof (induction n arbitrary: p)
  case (Suc n)
  define p0 where "p0 = skip_blanks p"
  have p0: "suffix p0 p" by (simp add: p0_def)
  have sub: "parse_ok p (GetRegister_n n q)" if "suffix q p" "length q < length p" for q
    using Suc.IH [of q] Suc.prems that
    by (auto simp: parse_ok_def inv_def split_beta dest!: suffix_trans' [OF _ that(1)])
  obtain h p1 where H: "cmphstr ''high'' False p0 = (h, p1)" by fastforce
  obtain l p2 where L: "cmphstr ''low'' False p1 = (l, p2)" by fastforce
  have p1: "suffix p1 p" using cmphstr_sfx' [OF H] p0 by (rule suffix_trans')
  have p2: "suffix p2 p" using cmphstr_sfx' [OF L] p1 by (rule suffix_trans')
  have low: "islower CHR ''h''" "islower CHR ''l''" by code_simp+
  have high: "h \<Longrightarrow> length p1 < length p"
    using cmphstr_consumes [OF low(1), of "''igh''" False p0] H suffix_len [OF p0] by simp
  have low: "l \<Longrightarrow> length p2 < length p"
    using cmphstr_consumes [OF low(2), of "''ow''" False p1] L suffix_len [OF p1] by simp
  have bracket: "length (drop 1 p2) < length p" if "mem_close m (cur p2) = Some c" for m c
    using that length_drop_cur [of p2 0] suffix_len [OF p2] by (auto simp: mem_close_def split: if_splits)
  have tails: "parse_ok p (case match_tails ci ts (drop 1 p2) of Some (r, q) \<Rightarrow> ret (r, q) | None \<Rightarrow> m)"
    if "parse_ok p m" for ci ts m
    using that match_tails_sfx [of ci ts "drop 1 p2"] suffix_trans' [OF _ suffix_dropI [OF p2]]
    by (auto split: option.split intro!: parsing)
  show ?case
    unfolding GetRegister_n.simps Let_def p0_def [symmetric] H L prod.case
    by (intro parse_calm_calls parsing tails parse_reg_part parse_mem_operand sub p1 p2 high low bracket suffix_dropI)
      (simp_all add: suffix_dropI [OF p0])
qed simp

lemma parser_GetRegister: "parser_ok GetRegister"
  unfolding GetRegister_def [abs_def] by (rule parser_okI, rule parse_GetRegister_n) simp

section \<open>Emitting keeps the line pointer\<close>

lemma calm_dev [calming]: "calm_only (upd_dev f)" "calm_only (set_mp p)" "calm_only (set_page q)" "calm_only (poke_mp a b)"
  unfolding upd_dev_def set_mp_def set_page_def poke_mp_def by (intro calming; simp add: upd_dev_def)+

lemma calm_CheckPage [calming]: "calm_only (CheckPage l)"
proof -
  have m: "calm_only (map_next_page l a i)" for l a i
    unfolding map_next_page_def map_page_after_def refresh_check_def by (intro calming; simp)
  have "calm_only (leave_slot l a i b w opt)" for l a i b w opt
    unfolding leave_slot_def refresh_check_def by (cases opt) (simp_all, (intro calming m; simp)+)
  then show ?thesis
    unfolding CheckPage_def check_slots_def enter_slot_def wrap_disp_def by (intro calming; simp)
qed

lemma calm_Hex [calming]: "calm_only (EmitToHex b)"
proof -
  have p: "calm_only (PrintHex v n)" for v n
    unfolding PrintHex_def ExitASM_def by (intro calming cm.io_modify; simp add: calm_def)
  have d: "calm_only (hex_data c ds)" for c ds by (induction c ds rule: hex_data.induct) (simp_all, (intro calming p; simp)+)
  have w: "calm_only (WriteHexRecord t a ds)" for t a ds
    unfolding WriteHexRecord_def fputs_hex_def by (intro calming p d; simp)
  have f: "calm_only FlushHexBuffer" unfolding FlushHexBuffer_def by (intro calming w; simp)
  show ?thesis unfolding EmitToHex_def by (intro calming f; simp)
qed

lemma calm_WriteDest [calming]: "calm_only WriteDest"
  unfolding WriteDest_def write_tap_def close_tap_def by (intro calming; simp)

lemma calm_EmitByte [calming]: "calm_only (EmitByte b st)"
proof -
  have "calm_only sld_trace" unfolding sld_trace_def WriteToSldFile_def by (intro calming; simp)
  moreover have "calm_only (emit_output b)" for b unfolding emit_output_def by (intro calming; simp)
  moreover have "calm_only CheckRamLimitExceeded" unfolding CheckRamLimitExceeded_def by (intro calming; simp)
  moreover have "calm_only (emit_device b k)" for b k unfolding emit_device_def by (intro calming)
  ultimately show ?thesis
    unfolding EmitByte_def EmitByteNoListing_def by (intro calming; simp add: incr_address_def)
qed

lemma calm_EmitWord [calming]: "calm_only (EmitWord w st)"
  unfolding EmitWord_def by (intro calming)

lemma calm_emit_all: "calm_only (emit_all bs st)"
  by (induction bs st rule: emit_all.induct) (auto intro!: calming)

section \<open>Rules for handlers\<close>

definition stays :: "string \<Rightarrow> 'a M \<Rightarrow> bool" where
  "stays p0 m \<longleftrightarrow> inv (lp_inv p0) m (\<lambda>_. True)"

named_theorems staying \<open>computations that keep the line pointer inside the line\<close>

lemma staysD: "stays p0 m \<Longrightarrow> suffix (lp s) p0 \<Longrightarrow> halted s \<noteq> OutOfFuel \<Longrightarrow> run_state m s = (r, s') \<Longrightarrow>
    suffix (lp s') p0 \<and> halted s' \<noteq> OutOfFuel"
  using invD [of "lp_inv p0" m "\<lambda>_. True" s r s'] by (simp add: stays_def lp_inv_def)

lemma stays_calm: "calm_only m \<Longrightarrow> stays p0 m"
  unfolding stays_def by (rule inv_calm_lp) simp_all

lemma stays_bind [staying]: "stays p0 m \<Longrightarrow> (\<And>x. stays p0 (f x)) \<Longrightarrow> stays p0 (m \<bind> f)"
  unfolding stays_def by (rule inv_bind)

lemma stays_get_lp: "(\<And>p. suffix p p0 \<Longrightarrow> stays p0 (f p)) \<Longrightarrow> stays p0 (gets lp \<bind> f)"
  unfolding stays_def by (rule inv_bind [OF inv_get_lp])

lemma stays_set_lp [staying]: "suffix p p0 \<Longrightarrow> stays p0 (set_lp p)"
  unfolding stays_def by (rule inv_set_lp) simp_all

lemma stays_mod_lp: "(\<And>p. suffix (f p) p) \<Longrightarrow> stays p0 (modify (\<lambda>s. s\<lparr>lp := f (lp s)\<rparr>))"
  unfolding stays_def by (rule inv_modify) (auto simp: lp_inv_def dest: suffix_trans')

lemma stays_split [staying]:
  "stays p0 m \<Longrightarrow> stays p0 n \<Longrightarrow> stays p0 (if b then m else n)"
  "stays p0 k \<Longrightarrow> stays p0 (whenM b k)"
  "stays p0 m \<Longrightarrow> (\<And>a. stays p0 (g a)) \<Longrightarrow> stays p0 (case x of None \<Rightarrow> m | Some a \<Rightarrow> g a)"
  "(\<And>a. stays p0 (g a)) \<Longrightarrow> stays p0 (let a = v in g a)"
  "(\<And>a b. stays p0 (h a b)) \<Longrightarrow> stays p0 (case y of (a, b) \<Rightarrow> h a b)"
  by (auto simp: whenM_def split: option.split prod.split intro: stays_calm calming)

lemmas stays_basic [staying] = stays_calm [OF cm.io_ret] stays_calm [OF cm.io_gets] stays_calm [OF cm.io_get]
  calming_diag [THEN stays_calm] calm_checks [THEN stays_calm] calm_reloc [THEN stays_calm] stays_calm [OF calm_smc]
  stays_calm [OF calm_EmitByte] stays_calm [OF calm_EmitWord]

lemma stays_on_lp: "parser_ok f \<Longrightarrow> stays p0 (on_lp f)"
  unfolding stays_def on_lp_def set_lp_def
  using parse_okD [of _ "f _"]
  by (auto simp: inv_def lp_inv_def split_beta fuel_ok_def parser_ok_def) (metis suffix_trans')

lemma stays_lexM: "(\<And>p. suffix (snd (f p)) p) \<Longrightarrow> stays p0 (lexM f)"
  unfolding stays_def by (rule inv_lexM) simp_all

lemmas stays_parsers [staying] = parser_brackets [THEN stays_on_lp] stays_on_lp [OF parser_MemAccess]
  stays_on_lp [OF parser_GetByte] stays_on_lp [OF parser_GetByteNoMem] stays_on_lp [OF parser_GetIoPort]
  stays_on_lp [OF parser_GetWord] stays_on_lp [OF parser_GetWordNoMem] stays_on_lp [OF parser_GetAddress]
  stays_on_lp [OF parser_z80GetIDxoffset]

lemmas stays_lexers [staying] = stays_lexM [OF SkipBlanks_sfx] stays_lexM [OF comma_sfx(2)] stays_lexM [OF comma_sfx(4)]
  stays_lexM [OF comma_sfx(5)] stays_mod_lp [OF SkipToEol_sfx]

lemma getz80cond_sfx: "suffix (snd (getz80cond b p)) p"
  by (auto simp: getz80cond_def getz80cond_Z80_def Let_def)

lemma stays_calls [staying]: "stays p0 getReg" "stays p0 commaM" "stays p0 condM" "stays p0 skip_line"
  unfolding getReg_def commaM_def condM_def skip_line_def
  by (rule stays_on_lp [OF parser_GetRegister], rule staying,
      rule stays_bind [OF stays_basic(2) stays_lexM [OF getz80cond_sfx]], rule staying)

lemma stays_err [staying]: "stays p0 (err_here m b t v)" "stays p0 (fake e)"
  unfolding err_here_def fake_def by (intro staying)+

lemma stays_EmitBytes [staying]: "stays p0 (EmitBytes bs st)"
  unfolding EmitBytes_def by (intro staying stays_calm [OF calm_emit_all])

text \<open>The loop over the arguments: every further round starts with a shorter rest of the line.\<close>

lemma do_while_args:
  assumes "\<And>p. stays p body" "\<And>x p. suffix (snd (sep x p)) p"
    "\<And>x p. fst (sep x p) \<Longrightarrow> length (snd (sep x p)) < length p"
  shows "length (lp s) < n \<Longrightarrow> lp_inv p0 s \<Longrightarrow> lp_inv p0 (snd (run_state (do_while n (do {
      go \<leftarrow> body; if go then do { x \<leftarrow> gets (\<lambda>s. syx (opts s)); lexM (sep x) } else ret False })) s))"
proof (induction n arbitrary: s)
  case (Suc n)
  obtain go t where b: "run_state body s = (go, t)" by fastforce
  have t: "suffix (lp t) (lp s)" "halted t \<noteq> OutOfFuel"
    using staysD [OF assms(1) _ _ b, of "lp s"] Suc.prems(2) by (auto simp: lp_inv_def)
  obtain c q where c: "sep (syx (opts t)) (lp t) = (c, q)" by fastforce
  have q: "suffix q (lp t)" "c \<Longrightarrow> length q < length (lp t)"
    using assms(2,3) [of "syx (opts t)" "lp t"] c by auto
  have inv: "lp_inv p0 t" "lp_inv p0 (t\<lparr>lp := q\<rparr>)"
    using t q(1) Suc.prems(2) by (auto simp: lp_inv_def intro: suffix_trans')
  have "c \<Longrightarrow> length q < n" using q(2) suffix_len [OF t(1)] Suc.prems(1) by simp
  then show ?case
    using inv Suc.IH [of "t\<lparr>lp := q\<rparr>"] by (simp add: b c lexM_def set_lp_def)
qed simp

lemma stays_multi_args:
  assumes "\<And>p. stays p body" "\<And>x p. suffix (snd (sep x p)) p"
    "\<And>x p. fst (sep x p) \<Longrightarrow> length (snd (sep x p)) < length p"
  shows "stays p0 (multi_args sep body)"
  unfolding stays_def inv_def multi_args_def
  by (auto simp del: do_while.simps intro!: do_while_args [OF assms])

lemma stays_args [staying]:
  assumes "\<And>p. stays p body"
  shows "stays p0 (multi_args call_MultiArg body)" "stays p0 (multi_args relaxedMaComma body)"
  by (rule stays_multi_args [OF assms comma_sfx(6) comma_consumes(4)], assumption,
      rule stays_multi_args [OF assms comma_sfx(5) comma_consumes(3)], assumption)

lemma stays_emit_args [staying]:
  assumes "\<And>p. stays p body"
  shows "stays p0 (emit_args call_MultiArg body)" "stays p0 (emit_args relaxedMaComma body)"
  unfolding emit_args_def by (intro staying assms)+

lemma stays_emit_break [staying]:
  assumes "\<And>p. stays p body"
  shows "stays p0 (emit_break call_MultiArg body)"
  unfolding emit_break_def by (intro staying assms)

lemma stays_jump_lp: "(\<And>s. suffix (f s) p0) \<Longrightarrow> stays p0 (modify (\<lambda>s. s\<lparr>lp := f s\<rparr>))"
  unfolding stays_def by (rule inv_modify) (auto simp: lp_inv_def)

lemma stays_upd [staying]: "stays p0 (mod_rel f)"
  by (rule stays_calm) (intro calming; simp)

section \<open>The handlers\<close>

lemma stays_NeedIoC [staying]: "stays p0 NeedIoC"
  unfolding NeedIoC_def getReg_def [symmetric] by (intro stays_bind [OF stays_lexers(1)] stays_get_lp staying)

lemma stays_alu [staying]:
  "stays p0 (alu_bytes b r)" "stays p0 (CommonAluOpcode b x y)" "stays p0 (OpCode_CbFamily b c)"
  "stays p0 (adc_pairs r r2)" "stays p0 (add_imm16 b)" "stays p0 (add_next r r2 e)" "stays p0 (sbc_pairs r r2)"
  "stays p0 (sub_pairs r r2)" "stays p0 (OpCode_DecInc b b2)" "stays p0 (rot_pair b r b2 r2)"
proof -
  show a: "stays p0 (alu_bytes b r)" for b r unfolding alu_bytes_def by (intro staying)
  have l: "stays p0 (lexM (if c then nonMaComma x else comma))" for c x by (cases c) (simp_all add: staying)
  show "stays p0 (CommonAluOpcode b x y)" unfolding CommonAluOpcode_def by (intro stays_get_lp staying a l)
  show "stays p0 (OpCode_CbFamily b c)" unfolding OpCode_CbFamily_def by (intro staying)
  show "stays p0 (adc_pairs r r2)" "stays p0 (sbc_pairs r r2)" "stays p0 (sub_pairs r r2)"
    unfolding adc_pairs_def sbc_pairs_def sub_pairs_def by (intro staying)+
  show i: "stays p0 (add_imm16 b)" for b unfolding add_imm16_def by (intro staying)
  show "stays p0 (add_next r r2 e)" unfolding add_next_def by (intro staying i)
  show "stays p0 (OpCode_DecInc b b2)" "stays p0 (rot_pair b r b2 r2)"
    unfolding OpCode_DecInc_def rot_pair_def by (intro staying)+
qed

lemma stays_alu16 [staying]:
  assumes "\<And>p r r2. stays p (f r r2)"
  shows "stays p0 (alu16 n b c f)"
  unfolding alu16_def by (intro staying assms)

lemma stays_add_pairs [staying]: "stays p0 (add_pairs r r2)"
  unfolding add_pairs_def by (intro staying)

lemma stays_ADC [staying]: "stays p0 OpCode_ADC" "stays p0 OpCode_ADD" "stays p0 OpCode_SBC" "stays p0 OpCode_SUB"
  unfolding OpCode_ADC_def OpCode_ADD_def OpCode_SBC_def OpCode_SUB_def by (intro staying)+

lemma stays_simple_alu [staying]:
  "stays p0 OpCode_AND" "stays p0 OpCode_CP" "stays p0 OpCode_OR" "stays p0 OpCode_XOR" "stays p0 OpCode_DEC" "stays p0 OpCode_INC"
  unfolding OpCode_AND_def OpCode_CP_def OpCode_OR_def OpCode_XOR_def OpCode_DEC_def OpCode_INC_def OpCode_SimpleAlu_def
  by (intro staying)+

lemma stays_fake_rot [staying]:
  assumes "\<And>p r. stays p (f r)"
  shows "stays p0 (fake_rot b f)"
  unfolding fake_rot_def by (intro staying assms)

lemma stays_bits [staying]: "stays p0 (bit_op b c)" "stays p0 (rot_op b)"
  unfolding bit_op_def rot_op_def by (intro staying)+

lemma stays_shift_pairs [staying]:
  "stays p0 (rl_pair r)" "stays p0 (rr_pair r)" "stays p0 (sla_pair r)" "stays p0 (sll_pair r)" "stays p0 (sra_pair r)"
  "stays p0 (srl_pair r)"
  unfolding rl_pair_def rr_pair_def sla_pair_def sll_pair_def sra_pair_def srl_pair_def by (intro staying)+

lemma stays_rotates [staying]:
  "stays p0 OpCode_BIT" "stays p0 OpCode_RES" "stays p0 OpCode_SET" "stays p0 OpCode_RLC" "stays p0 OpCode_RRC"
  "stays p0 OpCode_RL" "stays p0 OpCode_RR" "stays p0 OpCode_SLA" "stays p0 OpCode_SLL" "stays p0 OpCode_SRA" "stays p0 OpCode_SRL"
  unfolding OpCode_BIT_def OpCode_RES_def OpCode_SET_def OpCode_RLC_def OpCode_RRC_def OpCode_RL_def OpCode_RR_def
    OpCode_SLA_def OpCode_SLL_def OpCode_SRA_def OpCode_SRL_def
  by (intro staying)+

lemma stays_jump_parts [staying]:
  "stays p0 getAddr" "stays p0 (imm16 e)" "stays p0 (cond_opcode n b cc)" "stays p0 jp_register" "stays p0 (rel_byte n j)"
  "stays p0 rel_resolve" "stays p0 mem_sp"
proof -
  show g: "stays p0 getAddr" unfolding getAddr_def by (intro staying)
  show "stays p0 (imm16 e)" unfolding imm16_def by (intro staying g)
  show "stays p0 jp_register" unfolding jp_register_def by (intro stays_get_lp staying)
  show "stays p0 (cond_opcode n b cc)" "stays p0 (rel_byte n j)" "stays p0 rel_resolve" "stays p0 mem_sp"
    unfolding cond_opcode_def rel_byte_def rel_resolve_def mem_sp_def by (intro staying)+
qed

lemma stays_jumps [staying]:
  "stays p0 OpCode_CALL" "stays p0 OpCode_JP" "stays p0 OpCode_DJNZ" "stays p0 OpCode_JR" "stays p0 OpCode_RET" "stays p0 OpCode_RST"
  unfolding OpCode_CALL_def OpCode_JP_def OpCode_DJNZ_def OpCode_JR_def OpCode_RET_def OpCode_RST_def
  by (intro staying)+

lemma stays_EX [staying]: "stays p0 OpCode_EX"
proof -
  have q: "stays p0 (modify (\<lambda>s. if cur (lp s) = CHR 0x27 then s\<lparr>lp := drop 1 (lp s)\<rparr> else s))"
    unfolding stays_def by (rule inv_modify) (auto simp: lp_inv_def intro: suffix_dropI)
  show ?thesis unfolding OpCode_EX_def ex_first_def ex_second_def by (intro staying q)
qed

lemma stays_POP [staying]: "stays p0 OpCode_POP"
proof -
  have one: "stays p (OpCode_POPone r)" for p r unfolding OpCode_POPone_def by (intro staying)
  have regs: "stays p0 (pop_regs n)" for n by (induction n) (simp_all, (intro staying; simp)+)
  have all: "stays p0 (pop_all rs)" for rs by (induction rs) (simp_all, (intro staying one; simp)+)
  show ?thesis
    unfolding OpCode_POP_def OpCode_POPreverse_def OpCode_POPnormal_def by (intro staying one regs all)
qed

lemma stays_ports [staying]: "stays p0 OpCode_IM" "stays p0 OpCode_IN" "stays p0 OpCode_OUT" "stays p0 push_imm16"
  "stays p0 OpCode_PUSH"
proof -
  show p: "stays p0 push_imm16" for p0 unfolding push_imm16_def by (intro staying)
  show "stays p0 OpCode_IM" "stays p0 OpCode_IN" "stays p0 OpCode_OUT" "stays p0 OpCode_PUSH"
    unfolding OpCode_IM_def OpCode_IN_def OpCode_OUT_def OpCode_PUSH_def by (intro staying p)+
qed

lemma stays_ld_encode [staying]: "stays p0 (ld_encode a b c d e)" "stays p0 (ld_imm8 bs)" "stays p0 (ld_word bs v)"
  "stays p0 (warn_low r v)"
  unfolding ld_encode_def ld_imm8_def ld_word_def warn_low_def by (intro staying)+

lemma stays_ld_simple [staying]: "stays p0 (LD_simple_r_r r)"
proof -
  have s: "stays p0 (case x of LdDone e \<Rightarrow> m e | LdRetry \<Rightarrow> k | LdGo a b \<Rightarrow> g a b)"
    if "\<And>e. stays p0 (m e)" "stays p0 k" "\<And>a b. stays p0 (g a b)"
    for x and m :: "int list \<Rightarrow> int list option M" and k g using that by (cases x) simp_all
  show ?thesis unfolding LD_simple_r_r_def by (intro stays_get_lp staying s)
qed

lemma stays_ld_parts [staying]:
  "stays p0 (ld_a_value bt)" "stays p0 ld_mem_hl" "stays p0 (ixy_pair a b c d)" "stays p0 ld_hl_sp"
  "stays p0 (ld_to_address r v)"
  unfolding ld_a_value_def ld_mem_hl_def ixy_pair_def ld_hl_sp_def ld_to_address_def by (intro staying)+

lemma stays_ld_a [staying]: "stays p0 ld_a"
proof -
  have b: "stays p0 (modify (\<lambda>s. s\<lparr>lp := step_back p (lp s)\<rparr>))" if "suffix p p0" for p
    by (rule stays_jump_lp) (simp add: step_back_def suffix_dropI [OF that])
  show ?thesis unfolding ld_a_def by (intro stays_get_lp staying b)
qed

lemma stays_ld_values [staying]: "stays p0 (ld_mem_ixy r)" "stays p0 (ld_pair_value r)" "stays p0 (ld_ixy r)" "stays p0 ld_to_mem"
  unfolding ld_mem_ixy_def ld_pair_value_def ld_ixy_def ld_to_mem_def by (intro staying)+

lemma stays_ld_pair [staying]: "stays p0 (ld_pair r)"
  unfolding ld_pair_def by (intro staying)

lemma stays_LD [staying]: "stays p0 OpCode_LD"
  unfolding OpCode_LD_def ld_other_def by (intro staying)

lemma stays_after [staying]:
  "stays p0 m \<Longrightarrow> stays p0 (after_comma m)" "stays p0 m \<Longrightarrow> stays p0 (after_bracket m)" "stays p0 (closed e)"
  unfolding after_bracket_def after_comma_def closed_def by (intro staying; assumption?)+

lemma stays_ldx [staying]: "stays p0 (ldx_mem_hl st r)" "stays p0 (ldx_mem_ixy st r r2)" "stays p0 (ldx_default b f)"
  unfolding ldx_mem_hl_def ldx_mem_ixy_def ldx_default_def by (intro staying)+

lemma stays_two_bytes [staying]: "stays p0 (two_bytes a b)"
  unfolding two_bytes_def by (intro staying)

lemma stays_LDD [staying]: "stays p0 OpCode_LDD"
  unfolding OpCode_LDD_def ldd_body_def ldd_a_def ldd_r_def by (intro staying)

lemma stays_LDI [staying]: "stays p0 OpCode_LDI"
  unfolding OpCode_LDI_def ldi_body_def ldi_a_def ldi_r_def ldi_pair_def ldi_mem_hl_def ldi_mem_ixy_def by (intro staying)

lemma stays_LR [staying]: "stays p0 OpCode_LR35902_LDD" "stays p0 OpCode_LR35902_LDI" "stays p0 OpCode_LR35902_LDH"
  unfolding OpCode_LR35902_LDD_def OpCode_LR35902_LDI_def OpCode_LR35902_LDH_def lr_load_def ldh_operands_def
  by (intro staying)+

lemma stays_z80n [staying]: "stays p0 m \<Longrightarrow> stays p0 (z80n m)" "stays p0 m \<Longrightarrow> stays p0 c \<Longrightarrow> stays p0 (cspect u l c m)"
  unfolding z80n_def cspect_def by (intro staying; assumption?)+

lemma stays_next_parts [staying]:
  "stays p0 (OpCode_Z80N_BarrelShifts b)" "stays p0 (only_a n b)" "stays p0 (opt_hl b)" "stays p0 (break_range n b)"
  "stays p0 (mul_r800 r f)"
proof -
  show "stays p0 (opt_hl b)" unfolding opt_hl_def by (intro staying stays_get_lp)
  show "stays p0 (OpCode_Z80N_BarrelShifts b)" "stays p0 (only_a n b)" "stays p0 (break_range n b)" "stays p0 (mul_r800 r f)"
    unfolding OpCode_Z80N_BarrelShifts_def only_a_def break_range_def mul_r800_def by (intro staying)+
qed

lemma stays_next [staying]: "stays p0 OpCode_Next_MUL" "stays p0 OpCode_Next_NEXTREG" "stays p0 OpCode_Next_TEST"
  "stays p0 OpCode_LR35902_STOP"
  unfolding OpCode_Next_MUL_def OpCode_Next_NEXTREG_def OpCode_Next_TEST_def OpCode_LR35902_STOP_def by (intro staying)+

section \<open>The instruction table\<close>

lemma insert_all_ran:
  "list_all (\<lambda>(n, f). P f) fs \<Longrightarrow> \<forall>f \<in> ran m. P f \<Longrightarrow> \<forall>f \<in> ran (insert_all fs m). P f"
proof (induction fs m rule: insert_all.induct)
  case (2 n f fs m)
  have "\<forall>g \<in> ran (snd (CFunctionTable_Insert n f m)). P g"
    using 2(2,3) by (auto simp: CFunctionTable_Insert_def emplace_def ran_def split: if_splits)
  then show ?case using 2 by simp
qed simp

lemmas operandless_defs =
  OpCode_CCF_def OpCode_CPL_def OpCode_DAA_def OpCode_DI_def OpCode_EI_def OpCode_EXA_def OpCode_EXD_def OpCode_EXX_def
  OpCode_HALT_def OpCode_NOP_def OpCode_RLA_def OpCode_RLCA_def OpCode_RRA_def OpCode_RRCA_def OpCode_SCF_def
  OpCode_CPD_def OpCode_CPDR_def OpCode_CPI_def OpCode_CPIR_def OpCode_IND_def OpCode_INDR_def OpCode_INI_def
  OpCode_INIR_def OpCode_INF_def OpCode_LDDR_def OpCode_LDIR_def OpCode_NEG_def OpCode_OTDR_def OpCode_OTIR_def
  OpCode_OUTD_def OpCode_OUTI_def OpCode_RETI_def OpCode_RETN_def OpCode_RLD_def OpCode_RRD_def

lemmas next_defs =
  OpCode_Next_LDDRX_def OpCode_Next_LDDX_def OpCode_Next_LDIRX_def OpCode_Next_LDIX_def OpCode_Next_LDPIRX_def
  OpCode_Next_LDWS_def OpCode_Next_OUTINB_def OpCode_Next_SETAE_def OpCode_Next_BRLC_def OpCode_Next_BSLA_def
  OpCode_Next_BSRA_def OpCode_Next_BSRF_def OpCode_Next_BSRL_def OpCode_Next_MIRROR_def OpCode_Next_SWAPNIB_def
  OpCode_Next_PIXELAD_def OpCode_Next_PIXELDN_def OpCode_Next_BREAK_def OpCode_Next_EXIT_def OpCode_Next_SETBRK_def
  OpCode_Next_CLRBRK_def

lemma stays_operandless [staying]:
  "stays p0 OpCode_MULUB" "stays p0 OpCode_MULUW"
  unfolding OpCode_MULUB_def OpCode_MULUW_def by (intro staying)+

lemma all_handlers:
  "list_all P []" "list_all P xs \<Longrightarrow> list_all P (if b then [] else xs)"
  "list_all P xs \<Longrightarrow> list_all P ys \<Longrightarrow> list_all P (xs @ ys)"
  "Q f \<Longrightarrow> list_all (\<lambda>(n, f). Q f) fs \<Longrightarrow> list_all (\<lambda>(n, f). Q f) ((n, f) # fs)"
  by simp_all

lemma stays_tables:
  "list_all (\<lambda>(n, f). stays p0 f) (shared_instructions opt)" "list_all (\<lambda>(n, f). stays p0 f) z80_lr_instructions"
  "list_all (\<lambda>(n, f). stays p0 f) lr35902_instructions" "list_all (\<lambda>(n, f). stays p0 f) z80_instructions"
  "list_all (\<lambda>(n, f). stays p0 f) next_instructions"
  unfolding shared_instructions_def z80_lr_instructions_def lr35902_instructions_def z80_instructions_def
    next_instructions_def operandless_defs next_defs
  by (intro all_handlers staying)+

lemma stays_OpCodeTable: "OpCodeTable s n = Some f \<Longrightarrow> stays p0 f"
proof -
  have e: "\<forall>f \<in> ran Map.empty. stays p0 f" by simp
  have "\<forall>f \<in> ran (Init opt). stays p0 f" for opt
    unfolding Init_def Let_def
    by (cases "IsI8080 opt"; cases "IsLR35902 opt"; simp only: if_True if_False simp_thms)
      (rule insert_all_ran [OF stays_tables(1) e]
        insert_all_ran [OF stays_tables(3) insert_all_ran [OF stays_tables(2) insert_all_ran [OF stays_tables(1) e]]]
        insert_all_ran [OF stays_tables(4) insert_all_ran [OF stays_tables(2) insert_all_ran [OF stays_tables(1) e]]])+
  then have "\<forall>f \<in> ran (OpCodeTable s). stays p0 f"
    unfolding OpCodeTable_def
    by (cases "nextExtensions s"; simp only: if_True if_False) (rule insert_all_ran [OF stays_tables(5)])
  then show "OpCodeTable s n = Some f \<Longrightarrow> stays p0 f" by (auto simp only: ran_def)
qed

lemma stays_GetOpCode: "stays p0 GetOpCode"
proof -
  define body where "body n table = (case (case n of None \<Rightarrow> None | Some name \<Rightarrow> zoek name table) of
        None \<Rightarrow> do { b \<leftarrow> gets bp; Error ''Unrecognized instruction'' (Some b) E_PASS3; skip_line }
      | Some handler \<Rightarrow> do { handler; checkAndWarn False; ret () })" for n and table :: "unit M function_map"
  have body: "stays p0 (body n (OpCodeTable s))" for n s
    unfolding body_def by (auto split: option.splits simp: zoek_def intro!: staying dest: stays_OpCodeTable)
  have table: "stays p0 (gets OpCodeTable \<bind> body n)" for n
    using body by (auto simp: stays_def inv_def)
  have "stays p0 (modify (\<lambda>s. s\<lparr>lastDisplacementParsedP := None, bp := lp s\<rparr>))"
    by (rule stays_calm) (intro calming; simp)
  then show ?thesis
    unfolding GetOpCode_def body_def [symmetric]
    by (intro stays_bind stays_upd stays_basic(2) stays_lexM [OF getinstr_sfx] table)
qed

section \<open>Properties\<close>

text \<open>Claim C11. Assembling an instruction terminates on every line in every state and for every CPU: no loop over
  arguments, no expression and no register operand runs out of its fuel, and the line pointer afterwards points
  into the line it started in.\<close>

theorem GetOpCode_terminates:
  assumes "halted s \<noteq> OutOfFuel" "run_state GetOpCode s = (r, s')"
  shows "halted s' \<noteq> OutOfFuel \<and> suffix (lp s') (lp s)"
  using staysD [OF stays_GetOpCode _ assms, of "lp s"] by simp

theorem GetOpCode_terminates_witness:
  "halted (snd (run_state GetOpCode (asm0\<lparr>lp := '' ld (ix+1),high bc,,nop''\<rparr>))) \<noteq> OutOfFuel"
proof -
  obtain r s' where "run_state GetOpCode (asm0\<lparr>lp := '' ld (ix+1),high bc,,nop''\<rparr>) = (r, s')" by (metis surj_pair)
  moreover have "halted asm0 \<noteq> OutOfFuel" by code_simp
  ultimately show ?thesis using GetOpCode_terminates [of "asm0\<lparr>lp := '' ld (ix+1),high bc,,nop''\<rparr>" r s'] by simp
qed

end
