(* ===== verification/Sj_Z80_Enc.thy ===== *)
theory Sj_Z80_Enc
  imports Sj_Z80_Term
begin

unbundle bit_operations_syntax

text \<open>
  What the operand parsers and the handlers produce: the register parser recognises exactly the register
  names; a load between 8 bit registers is encoded as the instruction set defines it, and whenever the
  instruction set has such a load; a relative jump reaches its target.
\<close>

section \<open>Register names\<close>

text \<open>The names of registers in lower case, with the aliases of the halves of IX and IY.\<close>

definition reg_names :: "(string \<times> Z80Reg) list" where
  "reg_names = [(''b'', Z80_B), (''c'', Z80_C), (''d'', Z80_D), (''e'', Z80_E), (''h'', Z80_H), (''l'', Z80_L),
     (''a'', Z80_A), (''i'', Z80_I), (''r'', Z80_R), (''f'', Z80_F), (''(hl)'', Z80_MEM_HL), (''[hl]'', Z80_MEM_HL),
     (''bc'', Z80_BC), (''de'', Z80_DE), (''hl'', Z80_HL), (''sp'', Z80_SP), (''af'', Z80_AF), (''ix'', Z80_IX),
     (''iy'', Z80_IY), (''ixh'', Z80_IXH), (''xh'', Z80_IXH), (''hx'', Z80_IXH), (''ixl'', Z80_IXL), (''xl'', Z80_IXL),
     (''lx'', Z80_IXL), (''iyh'', Z80_IYH), (''yh'', Z80_IYH), (''hy'', Z80_IYH), (''iyl'', Z80_IYL),
     (''yl'', Z80_IYL), (''ly'', Z80_IYL)]"

text \<open>The Z80 with the usual meaning of round brackets.\<close>

definition z80_mode :: "asm \<Rightarrow> bool" where
  "z80_mode s \<longleftrightarrow> \<not> IsI8080 (opts s) \<and> \<not> IsLR35902 (opts s) \<and> MemoryBrackets (syx (opts s)) \<noteq> 2"

lemma lab_simps [simp]:
  "islabchar CHR ''a''" "islabchar CHR ''b''" "islabchar CHR ''c''" "islabchar CHR ''d''" "islabchar CHR ''e''"
  "islabchar CHR ''f''" "islabchar CHR ''h''" "islabchar CHR ''i''" "islabchar CHR ''l''" "islabchar CHR ''p''"
  "islabchar CHR ''r''" "islabchar CHR ''s''" "islabchar CHR ''x''" "islabchar CHR ''y''" "islabchar CHR ''o''"
  "islabchar CHR ''g''" "\<not> islabchar CHR ''(''" "\<not> islabchar CHR '')''" "\<not> islabchar CHR '',''" "\<not> islabchar CHR '' ''"
  "\<not> islabchar CHR ''[''" "\<not> islabchar CHR '']''" "\<not> islabchar NUL" "\<not> islabchar CHR ''+''"
  "islabchar CHR ''A''" "islabchar CHR ''B''" "islabchar CHR ''C''" "islabchar CHR ''D''" "islabchar CHR ''E''"
  "islabchar CHR ''F''" "islabchar CHR ''H''" "islabchar CHR ''I''" "islabchar CHR ''L''" "islabchar CHR ''P''"
  "islabchar CHR ''R''" "islabchar CHR ''S''" "islabchar CHR ''X''" "islabchar CHR ''Y''"
  by code_simp+

lemma white_name [simp]:
  "\<not> White CHR ''a''" "\<not> White CHR ''b''" "\<not> White CHR ''c''" "\<not> White CHR ''d''" "\<not> White CHR ''e''"
  "\<not> White CHR ''f''" "\<not> White CHR ''h''" "\<not> White CHR ''i''" "\<not> White CHR ''l''" "\<not> White CHR ''r''"
  "\<not> White CHR ''s''" "\<not> White CHR ''x''" "\<not> White CHR ''y''" "\<not> White CHR ''(''" "\<not> White CHR ''[''"
  "\<not> White CHR ''A''" "\<not> White CHR ''B''" "\<not> White CHR ''C''" "\<not> White CHR ''D''" "\<not> White CHR ''E''"
  "\<not> White CHR ''F''" "\<not> White CHR ''H''" "\<not> White CHR ''I''" "\<not> White CHR ''L''" "\<not> White CHR ''R''"
  "\<not> White CHR ''S''" "\<not> White CHR ''X''" "\<not> White CHR ''Y''" "White CHR '' ''"
  by code_simp+

lemma case_name [simp]:
  "isupper CHR ''A''" "isupper CHR ''B''" "isupper CHR ''C''" "isupper CHR ''D''" "isupper CHR ''E''" "isupper CHR ''F''"
  "isupper CHR ''H''" "isupper CHR ''I''" "isupper CHR ''L''" "isupper CHR ''R''" "isupper CHR ''S''" "isupper CHR ''X''"
  "isupper CHR ''Y''"
  "\<not> isupper CHR ''a''" "\<not> isupper CHR ''b''" "\<not> isupper CHR ''d''" "\<not> isupper CHR ''h''" "\<not> isupper CHR ''i''"
  "\<not> isupper CHR ''l''" "\<not> isupper CHR ''s''" "\<not> isupper CHR ''x''" "\<not> isupper CHR ''y''" "\<not> isupper CHR ''(''"
  "\<not> isupper CHR ''[''" "isalpha CHR ''h''" "isalpha CHR ''l''"
  by code_simp+

lemma letters [simp]:
  "toupper CHR ''h'' = CHR ''H''" "toupper CHR ''i'' = CHR ''I''" "toupper CHR ''g'' = CHR ''G''" "toupper CHR ''l'' = CHR ''L''"
  "toupper CHR ''o'' = CHR ''O''" "toupper CHR ''w'' = CHR ''W''" "toupper CHR ''f'' = CHR ''F''" "toupper CHR ''c'' = CHR ''C''"
  "toupper CHR ''e'' = CHR ''E''" "toupper CHR ''x'' = CHR ''X''" "toupper CHR ''y'' = CHR ''Y''" "toupper CHR ''p'' = CHR ''P''"
  "tolower CHR ''A'' = CHR ''a''" "tolower CHR ''B'' = CHR ''b''" "tolower CHR ''D'' = CHR ''d''" "tolower CHR ''H'' = CHR ''h''"
  "tolower CHR ''I'' = CHR ''i''" "tolower CHR ''L'' = CHR ''l''" "tolower CHR ''S'' = CHR ''s''" "tolower CHR ''X'' = CHR ''x''"
  "tolower CHR ''Y'' = CHR ''y''"
  by code_simp+

lemma GetRegister_letter:
  assumes "skip_blanks p = c # rest" "\<not> islabchar (cur rest)" "r8 (opts s) (or20 c) = Some r" "r \<noteq> Z80_UNK"
  shows "run_state (GetRegister_n (Suc k) p) s = ((r, rest), s)"
  using assms by simp

lemma GetRegister_long:
  assumes "skip_blanks p = c # q" "z80_mode s" "islabchar (cur q)" "cmphstr ''high'' False (c # q) = (False, c # q)"
    "cmphstr ''low'' False (c # q) = (False, c # q)"
    "match_tails (CaseInsensitiveInstructions (syx (opts s))) (reg_tails False c) q = Some (r, rest)"
  shows "run_state (GetRegister_n (Suc k) p) s = ((r, rest), s)"
  using assms by (simp add: z80_mode_def)

lemma cmphstr_fail: "\<nexists>r. cmphstr k b p = (True, r) \<Longrightarrow> cmphstr k b p = (False, p)"
  by (auto simp: cmphstr_def split: option.splits if_splits)

text \<open>Neither "high" nor "low": the second letter is a different one.\<close>

lemma no_part_keyword:
  assumes "cur q \<noteq> CHR ''i''" "cur q \<noteq> CHR ''I''" "cur q \<noteq> CHR ''o''" "cur q \<noteq> CHR ''O''"
  shows "cmphstr ''high'' False (c # q) = (False, c # q)" "cmphstr ''low'' False (c # q) = (False, c # q)"
proof -
  have low: "islower CHR ''h''" "islower CHR ''l''" by code_simp+
  show "cmphstr ''high'' False (c # q) = (False, c # q)"
    by (rule cmphstr_fail) (use assms in \<open>auto simp: cmphstr_iff [OF low(1)]\<close>)
  show "cmphstr ''low'' False (c # q) = (False, c # q)"
    by (rule cmphstr_fail) (use assms in \<open>auto simp: cmphstr_iff [OF low(2)]\<close>)
qed

text \<open>Matching the rest of a name is a look-up by its letters, with or without regard to their case.\<close>

lemma force_case_lab:
  assumes "force_case ci c = force_case ci a" "a \<in> set ''hlHL''"
  shows "islabchar c"
proof -
  have "c = CHR ''h'' \<or> c = CHR ''H''" if "or20 c = or20 CHR ''h''" using that by (cases c) auto
  moreover have "c = CHR ''l'' \<or> c = CHR ''L''" if "or20 c = or20 CHR ''l''" using that by (cases c) auto
  moreover have "or20 CHR ''H'' = or20 CHR ''h''" "or20 CHR ''L'' = or20 CHR ''l''" by code_simp+
  ultimately show ?thesis using assms by (auto simp: force_case_def split: if_splits)
qed

definition tail_entry :: "string \<times> Z80Reg \<Rightarrow> bool" where
  "tail_entry x \<longleftrightarrow> length (fst x) = 1 \<or> length (fst x) = 2 \<and> last (fst x) \<in> set ''hlHL''"

lemma match_tails_find:
  assumes "\<not> islabchar (cur rest)" "t = [y] \<or> t = [y, z] \<and> islabchar z"
  shows "list_all tail_entry ts \<Longrightarrow> match_tails ci ts (t @ rest) =
    map_option (\<lambda>(t', r). (r, rest)) (find (\<lambda>(t', r). map (force_case ci) t' = map (force_case ci) t) ts)"
proof (induction ts)
  case (Cons x ts)
  obtain t' r where x: "x = (t', r)" by fastforce
  consider (one) a where "t' = [a]" | (two) a b where "t' = [a, b]" "b \<in> set ''hlHL''"
    using Cons.prems by (auto simp: x tail_entry_def length_Suc_conv numeral_2_eq_2)
  then show ?case
  proof cases
    case one
    then show ?thesis using assms Cons by (auto simp: x GetRegister_pair_def)
  next
    case two
    then have "force_case ci b \<noteq> force_case ci (cur rest)" using force_case_lab [of ci "cur rest" b] assms(1) by metis
    then show ?thesis using assms two Cons by (auto simp: x GetRegister_3letter_def numeral_2_eq_2)
  qed
qed simp

text \<open>The names in both cases, by the way they are recognised.\<close>

definition all_names :: "(string \<times> Z80Reg) list" where
  "all_names = reg_names @ map (\<lambda>(n, r). (map toupper n, r)) reg_names"

fun name_ok :: "bool \<Rightarrow> string \<times> Z80Reg \<Rightarrow> bool" where
  "name_ok ci ([c], r) \<longleftrightarrow> r \<noteq> Z80_UNK \<and> r8 (opts asm0) (or20 c) = Some r \<and> \<not> White c"
| "name_ok ci (c # y # t, r) \<longleftrightarrow>
     (if isalpha c then
        \<not> White c \<and> islabchar y \<and> (t = [] \<or> length t = 1 \<and> islabchar (hd t)) \<and> y \<notin> set ''iIoO'' \<and>
        list_all tail_entry (reg_tails False c) \<and>
        map_option snd (find (\<lambda>(t', r). map (force_case ci) t' = map (force_case ci) (y # t)) (reg_tails False c)) = Some r
      else (c # y # t, r) \<in> set [(''(hl)'', Z80_MEM_HL), (''(HL)'', Z80_MEM_HL), (''[hl]'', Z80_MEM_HL), (''[HL]'', Z80_MEM_HL)])"
| "name_ok ci ([], r) \<longleftrightarrow> False"

lemma names_ok: "list_all (name_ok ci) all_names"
proof -
  have "list_all (name_ok False) all_names" "list_all (name_ok True) all_names" by code_simp+
  then show ?thesis by (cases ci) simp_all
qed

lemma r8_mode: "z80_mode s \<Longrightarrow> r8 (opts asm0) c = Some r \<Longrightarrow> r \<noteq> Z80_UNK \<Longrightarrow> r8 (opts s) c = Some r"
  by (auto simp: z80_mode_def r8_def asm0_def syntax0_def split: if_splits)

lemma name_alpha:
  assumes "name_ok (CaseInsensitiveInstructions (syx (opts s))) (c # y # t, r)" "isalpha c" "z80_mode s"
    "\<not> islabchar (cur rest)" "skip_blanks p = c # y # t @ rest"
  shows "run_state (GetRegister_n (Suc k) p) s = ((r, rest), s)"
proof (rule GetRegister_long [OF assms(5,3)])
  let ?ci = "CaseInsensitiveInstructions (syx (opts s))"
  have n: "islabchar y" "y \<notin> set ''iIoO''" "list_all tail_entry (reg_tails False c)"
    "map_option snd (find (\<lambda>(t', r). map (force_case ?ci) t' = map (force_case ?ci) (y # t)) (reg_tails False c)) = Some r"
    "t = [] \<or> length t = 1 \<and> islabchar (hd t)"
    using assms(1,2) by (simp_all del: map_option_eq_Some)
  show "islabchar (cur (y # t @ rest))" using n(1) by simp
  show "cmphstr ''high'' False (c # y # t @ rest) = (False, c # y # t @ rest)"
    "cmphstr ''low'' False (c # y # t @ rest) = (False, c # y # t @ rest)"
    using n(2) by (intro no_part_keyword; simp)+
  have t: "y # t = [y] \<or> y # t = [y, hd t] \<and> islabchar (hd t)" using n(5) by (cases t) auto
  show "match_tails ?ci (reg_tails False c) (y # t @ rest) = Some (r, rest)"
    using match_tails_find [OF assms(4) t n(3), of ?ci] n(4) by auto
qed

lemma name_mem_hl:
  assumes "skip_blanks p = b # h # l # e # rest" "z80_mode s" "(b, e) = (CHR ''('', CHR '')'') \<or> (b, e) = (CHR ''['', CHR '']'')"
    "[h, l] = ''hl'' \<or> [h, l] = ''HL''"
  shows "run_state (GetRegister_n (Suc (Suc k)) p) s = ((Z80_MEM_HL, rest), s)"
proof -
  let ?ci = "CaseInsensitiveInstructions (syx (opts s))"
  have e: "\<not> islabchar (cur (e # rest))" "\<not> White e" using assms(3) by (auto simp: White_def ord_def)
  have h: "\<not> White h" "isalpha h" "islabchar h" "h \<notin> set ''iIoO''" using assms(4) by auto (code_simp+)
  have "([h, l], Z80_HL) \<in> set all_names"
    using assms(4) by (auto simp: all_names_def reg_names_def)
  then have ok: "name_ok ?ci ([h, l], Z80_HL)" using names_ok [of ?ci] unfolding list_all_iff by blast
  have hl: "run_state (GetRegister_n (Suc k) (h # l # e # rest)) s = ((Z80_HL, e # rest), s)"
    by (rule name_alpha [OF ok h(2) assms(2) e(1)]) (simp add: h(1))
  have "reg_tails False CHR ''('' = []" "reg_tails False CHR ''['' = []" by code_simp+
  then have b: "reg_tails False b = []" "mem_close (MemoryBrackets (syx (opts s))) b = Some e"
    using assms(2,3) by (auto simp: mem_close_def z80_mode_def)
  have m: "run_state (mem_operand (GetRegister_n (Suc k)) e p (h # l # e # rest)) s = ((Z80_MEM_HL, rest), s)"
    using assms(2) e(2) by (simp add: mem_operand_def hl hl_inc_dec_def mem_reg_def z80_mode_def del: GetRegister_n.simps)
  have z: "\<not> IsI8080 (opts s)" "\<not> IsLR35902 (opts s)" using assms(2) by (simp_all add: z80_mode_def)
  show ?thesis
    unfolding GetRegister_n.simps(2) [of "Suc k"] using h(3,4)
    by (simp add: assms(1) no_part_keyword b m z del: GetRegister_n.simps)
qed

lemma GetRegister_name:
  assumes "z80_mode s" "(n, r) \<in> set all_names" "\<not> islabchar (cur rest)" "skip_blanks p = n @ rest"
  shows "run_state (GetRegister p) s = ((r, rest), s)"
proof -
  let ?ci = "CaseInsensitiveInstructions (syx (opts s))"
  have ok: "name_ok ?ci (n, r)" using names_ok [of ?ci] assms(2) unfolding list_all_iff by blast
  have len: "length n \<le> length p" using assms(4) length_skip_blanks [of p] by simp
  consider (one) c where "n = [c]" | (long) c y t where "n = c # y # t" "isalpha c" | (mem) c y t where "n = c # y # t" "\<not> isalpha c"
    using ok by (cases n; cases "tl n") auto
  then show ?thesis
  proof cases
    case one
    then show ?thesis using GetRegister_letter [of p c rest s r] r8_mode [OF assms(1)] ok assms(3,4)
      by (simp add: GetRegister_def del: GetRegister_n.simps)
  next
    case long
    then show ?thesis using name_alpha [of s c y t r rest p] ok assms(1,3,4)
      by (simp add: GetRegister_def del: GetRegister_n.simps)
  next
    case mem
    then have r: "r = Z80_MEM_HL" and c: "n \<in> set [''(hl)'', ''(HL)'', ''[hl]'', ''[HL]'']" using ok by auto
    then obtain b h l e where n: "n = [b, h, l, e]" "(b, e) = (CHR ''('', CHR '')'') \<or> (b, e) = (CHR ''['', CHR '']'')"
      "[h, l] = ''hl'' \<or> [h, l] = ''HL''" by auto
    obtain k where "length p = Suc k" using len n(1) by (cases "length p") auto
    then show ?thesis using name_mem_hl [of p b h l e rest s k] n assms(1,4) r
      by (simp add: GetRegister_def del: GetRegister_n.simps)
  qed
qed

section \<open>Loads between 8 bit registers\<close>

text \<open>The reference: how the CPU decodes the bytes of a load between 8 bit registers. A prefix 0xDD or 0xFD replaces
  (HL) by (IX+d) or (IY+d), with the displacement as third byte; in an instruction without such an operand it
  replaces H and L by the halves of IX or IY.\<close>

definition dec_reg :: "int \<Rightarrow> bool \<Rightarrow> int \<Rightarrow> Z80Reg" where
  "dec_reg px mem k = (if px \<noteq> 0 \<and> (k = Z80_MEM_HL \<or> \<not> mem \<and> (k = Z80_H \<or> k = Z80_L)) then px + 256 * k else k)"

definition dec_pair :: "int \<Rightarrow> int \<Rightarrow> Z80Reg \<times> Z80Reg" where
  "dec_pair px op =
     (let y = op div 8 mod 8; z = op mod 8; mem = (y = Z80_MEM_HL \<or> z = Z80_MEM_HL) in (dec_reg px mem y, dec_reg px mem z))"

definition is_ld_op :: "int \<Rightarrow> bool" where
  "is_ld_op op \<longleftrightarrow> 0x40 \<le> op \<and> op < 0x80 \<and> op \<noteq> 0x76"

definition has_mem :: "int \<Rightarrow> bool" where
  "has_mem op \<longleftrightarrow> op div 8 mod 8 = Z80_MEM_HL \<or> op mod 8 = Z80_MEM_HL"

definition dec_ed :: "int \<Rightarrow> (Z80Reg \<times> Z80Reg) option" where
  "dec_ed op = (if op = 0x57 then Some (Z80_A, Z80_I) else if op = 0x5F then Some (Z80_A, Z80_R)
     else if op = 0x47 then Some (Z80_I, Z80_A) else if op = 0x4F then Some (Z80_R, Z80_A) else None)"

fun dec_ld :: "int list \<Rightarrow> ((Z80Reg \<times> Z80Reg) \<times> int option) option" where
  "dec_ld [op] = (if is_ld_op op then Some (dec_pair 0 op, None) else None)"
| "dec_ld [px, op] =
     (if px = 0xED then map_option (\<lambda>x. (x, None)) (dec_ed op)
      else if (px = 0xDD \<or> px = 0xFD) \<and> is_ld_op op \<and> \<not> has_mem op then Some (dec_pair px op, None) else None)"
| "dec_ld [px, op, d] =
     (if (px = 0xDD \<or> px = 0xFD) \<and> is_ld_op op \<and> has_mem op then Some (dec_pair px op, Some d) else None)"
| "dec_ld _ = None"

definition regs8 :: "Z80Reg list" where
  "regs8 = r8_or_mem @ [Z80_I, Z80_R] @ ixy_halves @ mem_ixy"

text \<open>The bytes that \<open>LD_simple_r_r\<close> gives for two 8 bit registers.\<close>

definition ld8_bytes :: "bool \<Rightarrow> Z80Reg \<Rightarrow> Z80Reg \<Rightarrow> int \<Rightarrow> int list" where
  "ld8_bytes isLR reg1 r2 d =
     (case ld_dest reg1 of
        None \<Rightarrow> []
      | Some (prefix1, r1, eightBit) \<Rightarrow>
          (case ld_source isLR prefix1 r1 eightBit r2 of
             LdGo prefix2 r2' \<Rightarrow>
               if r1 = Z80_I \<or> r1 = Z80_R then (if r2' \<noteq> Z80_A then [] else [0xED, if r1 = Z80_I then 0x47 else 0x4F])
               else ld_r8_bytes prefix1 r1 prefix2 r2' d
           | LdDone e \<Rightarrow> e
           | LdRetry \<Rightarrow> []))"

definition ld8_direct :: "bool \<Rightarrow> Z80Reg \<Rightarrow> Z80Reg \<Rightarrow> bool" where
  "ld8_direct isLR reg1 r2 =
     (case ld_dest reg1 of
        None \<Rightarrow> False
      | Some (prefix1, r1, eightBit) \<Rightarrow>
          eightBit \<and> r1 \<noteq> Z80_SP \<and> (case ld_source isLR prefix1 r1 eightBit r2 of LdRetry \<Rightarrow> False | _ \<Rightarrow> True))"

definition disp_of :: "Z80Reg \<Rightarrow> Z80Reg \<Rightarrow> int \<Rightarrow> int option" where
  "disp_of r1 r2 d = (if r1 \<in> set mem_ixy \<or> r2 \<in> set mem_ixy then Some d else None)"

definition ld_ops :: "int list" where
  "ld_ops = filter is_ld_op (map int [0x40..<0x80])"

definition decodable :: "(Z80Reg \<times> Z80Reg) list" where
  "decodable = [(Z80_A, Z80_I), (Z80_A, Z80_R), (Z80_I, Z80_A), (Z80_R, Z80_A)] @
     concat (map (\<lambda>px. map (dec_pair px) ld_ops) [0, 0xDD, 0xFD])"

lemma ld8_table:
  assumes "r1 \<in> set regs8" "r2 \<in> set regs8"
  shows "ld8_direct isLR r1 r2" "ld8_bytes isLR r1 r2 d = [] \<or> dec_ld (ld8_bytes isLR r1 r2 d) = Some ((r1, r2), disp_of r1 r2 d)"
proof -
  have "list_all (\<lambda>r1. list_all (ld8_direct True r1) regs8) regs8" "list_all (\<lambda>r1. list_all (ld8_direct False r1) regs8) regs8"
    by code_simp+
  then show "ld8_direct isLR r1 r2" using assms by (cases isLR) (auto simp: list_all_iff)
  have "list_all (\<lambda>r1. list_all (\<lambda>r2. ld8_bytes True r1 r2 d = [] \<or>
      dec_ld (ld8_bytes True r1 r2 d) = Some ((r1, r2), disp_of r1 r2 d)) regs8) regs8"
    "list_all (\<lambda>r1. list_all (\<lambda>r2. ld8_bytes False r1 r2 d = [] \<or>
      dec_ld (ld8_bytes False r1 r2 d) = Some ((r1, r2), disp_of r1 r2 d)) regs8) regs8" by code_simp+
  then show "ld8_bytes isLR r1 r2 d = [] \<or> dec_ld (ld8_bytes isLR r1 r2 d) = Some ((r1, r2), disp_of r1 r2 d)"
    using assms unfolding list_all_iff by (cases isLR) simp_all
qed

lemma ld8_complete:
  assumes "dec_ld cs = Some ((r1, r2), x)" "r1 \<in> set regs8" "r2 \<in> set regs8"
  shows "ld8_bytes isLR r1 r2 d \<noteq> []"
proof -
  have op: "op \<in> set ld_ops" if "is_ld_op op" for op
  proof -
    have "nat op \<in> set [0x40..<0x80]" "op = int (nat op)"
      using that unfolding is_ld_op_def set_upt atLeastLessThan_iff by auto
    then show ?thesis using that by (simp only: ld_ops_def set_filter set_map) blast
  qed
  have px: "(r1, r2) \<in> set decodable" if "dec_pair px op = (r1, r2)" "is_ld_op op" "px \<in> {0, 0xDD, 0xFD}" for px op
    using that(1) [symmetric] that(3) op [OF that(2)] unfolding decodable_def by auto
  have "dec_ed op = Some (r1, r2) \<Longrightarrow> (r1, r2) \<in> set decodable" for op
    by (auto simp: dec_ed_def decodable_def split: if_splits)
  with px assms(1) have "(r1, r2) \<in> set decodable"
    by (cases cs rule: dec_ld.cases) (auto split: if_splits)
  moreover have "list_all (\<lambda>(r1, r2). r1 \<in> set regs8 \<and> r2 \<in> set regs8 \<longrightarrow>
      ld8_bytes True r1 r2 d \<noteq> [] \<and> ld8_bytes False r1 r2 d \<noteq> []) decodable" by code_simp
  ultimately show ?thesis using assms(2,3) unfolding list_all_iff by (cases isLR) auto
qed

lemma LD_simple_run:
  assumes "ld8_direct (IsLR35902 (opts t)) r1 r2" "lp s = CHR '','' # q" "cur q \<noteq> CHR '',''"
    "run_state (GetRegister q) (s\<lparr>lp := q\<rparr>) = ((r2, rest), t)"
  shows "run_state (LD_simple_r_r r1) s =
    (Some (ld8_bytes (IsLR35902 (opts t)) r1 r2 (GetRegister_lastIxyD t)), t\<lparr>lp := rest\<rparr>)"
proof -
  have w: "\<not> White CHR '',''" by code_simp
  have c: "run_state commaM s = (True, s\<lparr>lp := q\<rparr>)"
    using assms(2,3) w by (simp add: commaM_def lexM_def comma_def set_lp_def)
  have g: "run_state getReg (s\<lparr>lp := q\<rparr>) = (r2, t\<lparr>lp := rest\<rparr>)"
    using assms(4) by (simp add: getReg_def on_lp_def set_lp_def)
  obtain p1 q1 eb where d: "ld_dest r1 = Some (p1, q1, eb)"
    using assms(1) by (auto simp: ld8_direct_def split: option.splits)
  then have e: "eb" "q1 \<noteq> Z80_SP" "ld_source (IsLR35902 (opts t)) p1 q1 True r2 \<noteq> LdRetry"
    using assms(1) by (auto simp: ld8_direct_def split: ld_src.splits)
  show ?thesis
    using e by (cases "ld_source (IsLR35902 (opts t)) p1 q1 True r2")
      (simp_all add: LD_simple_r_r_def d c g ld8_bytes_def ld_encode_def)
qed

section \<open>The parts of a single register\<close>












section \<open>Properties\<close>

text \<open>Claim C19. The register parser recognises every register name, in lower case and in upper case, after any
  blanks and before any text that does not continue the name, returns the register and the text behind it and
  changes nothing.\<close>

theorem GetRegister_recognises_names:
  assumes "z80_mode s" "(n, r) \<in> set reg_names" "\<not> islabchar (cur rest)" "\<forall>c \<in> set blanks. White c"
  shows "run_state (GetRegister (blanks @ n @ rest)) s = ((r, rest), s) \<and>
    run_state (GetRegister (blanks @ map toupper n @ rest)) s = ((r, rest), s)"
proof -
  have skip: "skip_blanks (blanks @ p) = skip_blanks p" for p
    using assms(4) by (simp add: skip_blanks_def)
  have start: "skip_blanks (m @ rest) = m @ rest" if "(m, r) \<in> set all_names" for m
  proof -
    have "\<forall>(m, r) \<in> set all_names. m \<noteq> [] \<and> \<not> White (hd m)" by code_simp
    then show ?thesis using that by (cases m) auto
  qed
  have n: "(n, r) \<in> set all_names" "(map toupper n, r) \<in> set all_names"
    using assms(2) by (auto simp: all_names_def intro: rev_image_eqI)
  show ?thesis
    using GetRegister_name [OF assms(1) n(1) assms(3)] GetRegister_name [OF assms(1) n(2) assms(3)]
      skip start [OF n(1)] start [OF n(2)] by simp
qed

theorem GetRegister_recognises_names_witness:
  "run_state (GetRegister ''  ixh,b'') asm0 = ((Z80_IXH, '',b''), asm0)"
proof -
  have "z80_mode asm0" "(''ixh'', Z80_IXH) \<in> set reg_names" "\<not> islabchar (cur '',b'')" "\<forall>c \<in> set ''  ''. White c"
    by code_simp+
  from GetRegister_recognises_names [OF this] show ?thesis by simp
qed

text \<open>Claim C4. A load between 8 bit registers (also the halves of IX and IY, (HL), (IX+d), (IY+d), I and R) is encoded
  as the CPU decodes it: the bytes decode to a load of exactly these two registers, with the parsed
  displacement; and no bytes are produced (the instruction is rejected) exactly when the CPU has no such load.\<close>

theorem LD_register_encoding:
  assumes "r1 \<in> set regs8" "r2 \<in> set regs8" "lp s = CHR '','' # q" "cur q \<noteq> CHR '',''"
    "run_state (GetRegister q) (s\<lparr>lp := q\<rparr>) = ((r2, rest), t)"
  shows "\<exists>bs. run_state (LD_simple_r_r r1) s = (Some bs, t\<lparr>lp := rest\<rparr>) \<and>
    (if bs = [] then \<forall>cs x. dec_ld cs \<noteq> Some ((r1, r2), x)
     else dec_ld bs = Some ((r1, r2), disp_of r1 r2 (GetRegister_lastIxyD t)))"
  using LD_simple_run [OF ld8_table(1) [OF assms(1,2)] assms(3,4,5)] ld8_table(2) [OF assms(1,2)]
    ld8_complete [OF _ assms(1,2)] by auto

theorem LD_register_encoding_witness:
  "\<exists>bs. run_state (LD_simple_r_r Z80_IXL) (asm0\<lparr>lp := '', ixh''\<rparr>) = (Some bs, asm0\<lparr>lp := []\<rparr>) \<and>
    dec_ld bs = Some ((Z80_IXL, Z80_IXH), None)"
proof -
  let ?s = "asm0\<lparr>lp := '', ixh''\<rparr>"
  have m: "z80_mode (asm0\<lparr>lp := '' ixh''\<rparr>)" "(''ixh'', Z80_IXH) \<in> set all_names" "skip_blanks '' ixh'' = ''ixh''" by code_simp+
  then have g: "run_state (GetRegister '' ixh'') (?s\<lparr>lp := '' ixh''\<rparr>) = ((Z80_IXH, []), asm0\<lparr>lp := '' ixh''\<rparr>)"
    using GetRegister_name [OF m(1,2), of "[]" "'' ixh''"] by simp
  have r: "Z80_IXL \<in> set regs8" "Z80_IXH \<in> set regs8" "dec_ld [0xDD, 0x6C] = Some ((Z80_IXL, Z80_IXH), None)" by code_simp+
  have "disp_of Z80_IXL Z80_IXH d = None" for d by (simp add: disp_of_def mem_ixy_def)
  moreover obtain bs where bs: "run_state (LD_simple_r_r Z80_IXL) ?s = (Some bs, asm0\<lparr>lp := '' ixh'', lp := []\<rparr>)"
    "if bs = [] then \<forall>cs x. dec_ld cs \<noteq> Some ((Z80_IXL, Z80_IXH), x)
     else dec_ld bs = Some ((Z80_IXL, Z80_IXH), disp_of Z80_IXL Z80_IXH (GetRegister_lastIxyD (asm0\<lparr>lp := '' ixh''\<rparr>)))"
    using LD_register_encoding [OF r(1,2) _ _ g] by auto
  moreover from bs(2) have "bs \<noteq> []" using r(3) by metis
  ultimately show ?thesis by (intro exI [of _ bs]) simp
qed



end
