(* ===== verification/Sj_Z80_Rel.thy ===== *)
theory Sj_Z80_Rel
  imports Sj_Z80_Term
begin

unbundle bit_operations_syntax

text \<open>
  Relative jumps. The bytes of an instruction are followed through to the listing of the line, which has every
  emitted byte; errors are only ever counted up.
\<close>

section \<open>The listing\<close>

definition listing :: "asm \<Rightarrow> int list" where
  "listing s = ListEmittedBytes (outp s)"

lemma listing_diag: "diag_only m \<Longrightarrow> keeps listing m"
  by (rule keeps_diag) (simp_all add: listing_def)

lemmas listing_reports = diag_only_Error [THEN listing_diag] diag_only_ErrorInt [THEN listing_diag]
  diag_only_Warning [THEN listing_diag] diag_only_WarningById [THEN listing_diag] diag_only_WarningByIdInt [THEN listing_diag]

lemma listing_dev: "keeps listing (upd_dev f)" "keeps listing (set_mp p)" "keeps listing (set_page q)" "keeps listing (poke_mp a b)"
  unfolding upd_dev_def set_mp_def set_page_def poke_mp_def by (intro keep; simp add: listing_def upd_dev_def)+

lemma listing_SizeBoundary: "keeps listing (SizeBoundary b)"
  unfolding SizeBoundary_def by (intro keep listing_reports; simp add: listing_def)

lemma listing_CheckPage: "keeps listing (CheckPage l)"
proof -
  have m: "keeps listing (map_next_page l a i)" for l a i
    unfolding map_next_page_def map_page_after_def refresh_check_def
    by (intro keep listing_reports listing_dev listing_SizeBoundary; simp add: listing_def)
  have v: "keeps listing (leave_slot l a i b w opt)" for l a i b w opt
    unfolding leave_slot_def refresh_check_def
    by (cases opt) (simp_all, (intro keep m listing_reports listing_dev; simp)+)
  show ?thesis
    unfolding CheckPage_def check_slots_def enter_slot_def wrap_disp_def
    by (intro keep v listing_reports listing_dev listing_SizeBoundary; simp add: listing_def)
qed

lemma listing_Hex: "keeps listing (EmitToHex b)"
proof -
  have p: "keeps listing (PrintHex v n)" for v n
    unfolding PrintHex_def ExitASM_def by (intro keep; simp add: listing_def)
  have d: "keeps listing (hex_data c ds)" for c ds by (induction c ds rule: hex_data.induct) (simp_all, (intro keep p; simp)+)
  have w: "keeps listing (WriteHexRecord t a ds)" for t a ds
    unfolding WriteHexRecord_def fputs_hex_def by (intro keep p d; simp add: listing_def)
  have f: "keeps listing FlushHexBuffer" unfolding FlushHexBuffer_def by (intro keep w; simp add: listing_def)
  show ?thesis unfolding EmitToHex_def by (intro keep f; simp add: listing_def)
qed

lemma listing_NoListing: "keeps listing (EmitByteNoListing b k)"
proof -
  have w: "keeps listing WriteDest"
    unfolding WriteDest_def write_tap_def close_tap_def by (intro keep listing_reports; simp add: listing_def)
  have e: "keeps listing (emit_output b)" unfolding emit_output_def by (intro keep listing_Hex w; simp add: listing_def)
  have c: "keeps listing CheckRamLimitExceeded"
    unfolding CheckRamLimitExceeded_def by (intro keep listing_reports; simp add: listing_def)
  have d: "keeps listing (emit_device b k)" for b k
    unfolding emit_device_def by (intro keep listing_CheckPage listing_dev)
  show ?thesis
    unfolding EmitByteNoListing_def by (intro keep e c d; simp add: listing_def incr_address_def)
qed

lemma EmitByte_listing:
  assumes "length (listing s) < LIST_EMIT_BYTES_BUFFER_SIZE - 1"
  shows "listing (snd (run_state (EmitByte b st) s)) = listing s @ [b AND 0xFF]"
proof -
  have t: "keeps listing (whenM st sld_trace)"
    unfolding sld_trace_def WriteToSldFile_def by (intro keep listing_reports; simp add: listing_def)
  obtain s1 where s1: "run_state (whenM st sld_trace) s = ((), s1)" "listing s1 = listing s"
    using keepsD [OF t] by (metis (full_types) old.unit.exhaust surj_pair)
  let ?s2 = "s1\<lparr>outp := (outp s1)\<lparr>ListEmittedBytes := ListEmittedBytes (outp s1) @ [b AND 0xFF]\<rparr>\<rparr>"
  have "run_state (EmitByte b st) s = run_state (EmitByteNoListing (b AND 0xFF) False) ?s2"
    using assms s1 by (simp add: EmitByte_def listing_def Let_def del: run_whenM)
  then show ?thesis
    using keepsD [OF listing_NoListing, of "b AND 0xFF" False ?s2] s1(2) by (cases "run_state (EmitByteNoListing (b AND 0xFF) False) ?s2") (simp add: listing_def)
qed

lemma lp_EmitByte: "lp (snd (run_state (EmitByte b st) s)) = lp s"
  using keepsD [OF calm_keeps_lp [OF calm_EmitByte]] by (metis prod.collapse)

lemma is_byte_and: "0 \<le> b \<Longrightarrow> b < 256 \<Longrightarrow> b AND 0xFF = (b :: int)"
  using take_bit_int_eq_self [of b 8] take_bit_eq_mask [of 8 b] by (simp add: mask_eq_exp_minus_1)

lemma emit_all_listing:
  assumes "\<forall>b \<in> set bs. 0 \<le> b \<and> b < 256" "length (listing s) + length bs < LIST_EMIT_BYTES_BUFFER_SIZE"
  shows "listing (snd (run_state (emit_all bs st) s)) = listing s @ bs"
  using assms
proof (induction bs st arbitrary: s rule: emit_all.induct)
  case (2 b st)
  then show ?case using EmitByte_listing [of s b st] by (simp add: is_byte_and)
next
  case (3 b c bs st)
  let ?s = "snd (run_state (EmitByte b st) s)"
  have l: "listing ?s = listing s @ [b]" using EmitByte_listing [of s b st] 3(3,4) by (simp add: is_byte_and)
  have "c \<noteq> -2" "b \<noteq> -1" using 3(3) by auto
  then show ?case using 3(2) [of ?s] 3(3,4) l by (simp add: split_beta)
qed simp

lemma EmitBytes_run:
  assumes "bs \<noteq> []" "\<forall>b \<in> set bs. 0 \<le> b \<and> b < 256" "length (listing s) + length bs < LIST_EMIT_BYTES_BUFFER_SIZE"
  shows "listing (snd (run_state (EmitBytes bs st) s)) = listing s @ bs" "lp (snd (run_state (EmitBytes bs st) s)) = lp s"
proof -
  have e: "run_state (EmitBytes bs st) s = run_state (emit_all bs st) s"
    using assms(1,2) by (cases bs) (auto simp: EmitBytes_def)
  show "listing (snd (run_state (EmitBytes bs st) s)) = listing s @ bs" using emit_all_listing [OF assms(2,3)] e by simp
  show "lp (snd (run_state (EmitBytes bs st) s)) = lp s"
    using keepsD [OF calm_keeps_lp [OF calm_emit_all], of bs st s] e by (metis prod.collapse)
qed

section \<open>Errors are counted up\<close>

definition counts_up :: "asm \<Rightarrow> asm \<Rightarrow> bool" where
  "counts_up s s' \<longleftrightarrow> ErrorCount (dg s) \<le> ErrorCount (dg s')"

interpretation cu: io_preorder counts_up
  by unfold_locales (auto simp: counts_up_def)

named_theorems counting \<open>computations that never lower the number of errors\<close>

lemmas cu_rules [counting] = cu.io_rules

lemma up_modify [counting]: "(\<And>s. dg (f s) = dg s) \<Longrightarrow> state_io_rel counts_up (modify f)"
  by (rule cu.io_modify) (simp add: counts_up_def)

lemma up_error_upd: "counts_up s (error_upd m b t s)"
  by (simp add: error_upd_def counts_up_def)

lemma up_reports [counting]:
  "state_io_rel counts_up (Error m b t)" "state_io_rel counts_up (ErrorInt m v t)" "state_io_rel counts_up (Warning m b wt)"
  "state_io_rel counts_up (WarningById w b wt)" "state_io_rel counts_up (WarningByIdInt w v wt)"
proof -
  have i: "counts_up s (warning_impl_upd w m b wt s)" for w m b wt s
    using up_error_upd [of s] by (simp add: warning_impl_upd_def counts_up_def)
  show "state_io_rel counts_up (Error m b t)" for m b t unfolding Error_def by (intro cu.io_modify up_error_upd)
  then show "state_io_rel counts_up (ErrorInt m v t)" unfolding ErrorInt_def .
  show "state_io_rel counts_up (Warning m b wt)"
    unfolding Warning_def by (rule cu.io_modify) (simp add: warning_upd_def i cu.R_refl)
  show "state_io_rel counts_up (WarningById w b wt)" for w b wt
    unfolding WarningById_def by (rule cu.io_modify) (simp add: warning_by_id_upd_def i cu.R_refl)
  then show "state_io_rel counts_up (WarningByIdInt w v wt)" unfolding WarningByIdInt_def .
qed

lemma up_dev [counting]: "state_io_rel counts_up (upd_dev f)" "state_io_rel counts_up (set_mp p)"
  "state_io_rel counts_up (set_page q)" "state_io_rel counts_up (poke_mp a b)"
  unfolding upd_dev_def set_mp_def set_page_def poke_mp_def by (intro counting; simp add: upd_dev_def)+

lemma up_SizeBoundary [counting]: "state_io_rel counts_up (SizeBoundary b)"
  unfolding SizeBoundary_def by (intro counting; simp)

lemma up_CheckPage [counting]: "state_io_rel counts_up (CheckPage l)"
proof -
  have m: "state_io_rel counts_up (map_next_page l a i)" for l a i
    unfolding map_next_page_def map_page_after_def refresh_check_def by (intro counting; simp)
  have v: "state_io_rel counts_up (leave_slot l a i b w opt)" for l a i b w opt
    unfolding leave_slot_def refresh_check_def by (cases opt) (simp_all, (intro counting m; simp)+)
  show ?thesis
    unfolding CheckPage_def check_slots_def enter_slot_def wrap_disp_def by (intro counting v; simp)
qed

lemma up_Hex [counting]: "state_io_rel counts_up (EmitToHex b)"
proof -
  have p: "state_io_rel counts_up (PrintHex v n)" for v n unfolding PrintHex_def ExitASM_def by (intro counting; simp)
  have d: "state_io_rel counts_up (hex_data c ds)" for c ds
    by (induction c ds rule: hex_data.induct) (simp_all, (intro counting p; simp)+)
  have w: "state_io_rel counts_up (WriteHexRecord t a ds)" for t a ds
    unfolding WriteHexRecord_def fputs_hex_def by (intro counting p d; simp)
  have f: "state_io_rel counts_up FlushHexBuffer" unfolding FlushHexBuffer_def by (intro counting w; simp)
  show ?thesis unfolding EmitToHex_def by (intro counting f; simp)
qed

lemma up_EmitByte [counting]: "state_io_rel counts_up (EmitByte b st)"
proof -
  have w: "state_io_rel counts_up WriteDest" unfolding WriteDest_def write_tap_def close_tap_def by (intro counting; simp)
  have o: "state_io_rel counts_up (emit_output b)" for b unfolding emit_output_def by (intro counting w; simp)
  have c: "state_io_rel counts_up CheckRamLimitExceeded" unfolding CheckRamLimitExceeded_def by (intro counting; simp)
  have d: "state_io_rel counts_up (emit_device b k)" for b k unfolding emit_device_def by (intro counting)
  have t: "state_io_rel counts_up sld_trace" unfolding sld_trace_def WriteToSldFile_def by (intro counting; simp)
  show ?thesis
    unfolding EmitByte_def EmitByteNoListing_def by (intro counting o c d t; simp add: incr_address_def)
qed

lemma up_EmitBytes [counting]: "state_io_rel counts_up (EmitBytes bs st)"
proof -
  have a: "state_io_rel counts_up (emit_all bs st)" for bs st
    by (induction bs st rule: emit_all.induct) (auto intro!: counting)
  show ?thesis unfolding EmitBytes_def by (intro counting a; simp)
qed

lemma up_resolve [counting]: "state_io_rel counts_up rel_resolve"
proof -
  have a: "state_io_rel counts_up (addOffsetToRelocate r)" for r unfolding addOffsetToRelocate_def by (intro counting; simp)
  have r: "state_io_rel counts_up (resolveRelocationAffected r t)" for r t
    unfolding resolveRelocationAffected_def by (intro counting a; simp)
  show ?thesis unfolding rel_resolve_def resolveRelocationAndSmartSmc_def by (intro counting r; simp)
qed

section \<open>Relative jumps\<close>

lemma keeps_resolve: "keeps listing rel_resolve" "keeps lp rel_resolve"
proof -
  have a: "keeps listing (addOffsetToRelocate r)" for r
    unfolding addOffsetToRelocate_def by (intro keep listing_reports; simp add: listing_def)
  have r: "keeps listing (resolveRelocationAffected r t)" for r t
    unfolding resolveRelocationAffected_def by (intro keep a listing_reports; simp add: listing_def)
  show "keeps listing rel_resolve"
    unfolding rel_resolve_def resolveRelocationAndSmartSmc_def by (intro keep r; simp add: listing_def)
  show "keeps lp rel_resolve" unfolding rel_resolve_def by (intro calm_keeps_lp calming)
qed

text \<open>The last argument of a multi-argument instruction: after its bytes the rest of the line is blank.\<close>

lemma last_round:
  assumes "run_state body s = (True, s1)" "skip_blanks (lp s1) = []"
  shows "run_state (multi_args call_MultiArg body) s = ((), s1\<lparr>lp := []\<rparr>)"
  using assms
  by (simp add: multi_args_def lexM_def call_MultiArg_def comma_def doubleComma_def set_lp_def Let_def split: multi_arg.split)

definition jump_result :: "int \<Rightarrow> asm \<Rightarrow> aint \<Rightarrow> asm \<Rightarrow> bool" where
  "jump_result opcode t jmp u \<longleftrightarrow> (\<exists>b. listing u = listing t @ [opcode, b] \<and> 0 \<le> b \<and> b < 256 \<and>
     (if -128 \<le> jmp \<and> jmp \<le> 127 then sbyte b = jmp
      else b = 0 \<and> (\<not> error_skipped E_PASS3 t \<longrightarrow> ErrorCount (dg t) < ErrorCount (dg u))))"

lemma rel_byte_run:
  assumes "run_state (rel_byte name jmp) t = (b, t1)"
  shows "0 \<le> b \<and> b < 256" "listing t1 = listing t" "lp t1 = lp t" "counts_up t t1"
    "if -128 \<le> jmp \<and> jmp \<le> 127 then sbyte b = jmp
     else b = 0 \<and> (\<not> error_skipped E_PASS3 t \<longrightarrow> ErrorCount (dg t) < ErrorCount (dg t1))"
proof -
  have m: "jmp AND 0xFF = jmp mod 256"
    using take_bit_eq_mask [of 8 jmp] by (simp add: mask_eq_exp_minus_1 take_bit_eq_mod)
  have j: "sbyte (jmp mod 256) = jmp" if "-128 \<le> jmp" "jmp \<le> 127"
  proof (cases "jmp < 0")
    case True
    then have "jmp mod 256 = jmp + 256" using that(1) mod_pos_pos_trivial [of "jmp + 256" 256] by simp
    then show ?thesis using that(1) True by (simp add: sbyte_def)
  qed (use that in \<open>simp add: sbyte_def\<close>)
  show "0 \<le> b \<and> b < 256" "listing t1 = listing t" "lp t1 = lp t" "counts_up t t1"
    "if -128 \<le> jmp \<and> jmp \<le> 127 then sbyte b = jmp
     else b = 0 \<and> (\<not> error_skipped E_PASS3 t \<longrightarrow> ErrorCount (dg t) < ErrorCount (dg t1))"
    using assms j
    by (auto simp: rel_byte_def err_here_def Error_def m listing_def error_upd_def counts_up_def split: if_splits)
qed

lemma rel_jump_run:
  assumes "0 \<le> opcode" "opcode < 256" "length (listing t) + 2 < LIST_EMIT_BYTES_BUFFER_SIZE"
  shows "\<exists>u. run_state (do { b \<leftarrow> rel_byte name jmp; rel_resolve; EmitBytes [opcode, b] True; ret True }) t = (True, u) \<and>
    lp u = lp t \<and> jump_result opcode t jmp u"
proof -
  obtain b t1 where b: "run_state (rel_byte name jmp) t = (b, t1)" by (metis surj_pair)
  note B = rel_byte_run [OF b]
  obtain t2 where t2: "run_state rel_resolve t1 = ((), t2)" by (metis (full_types) old.unit.exhaust surj_pair)
  have k: "listing t2 = listing t" "lp t2 = lp t" using keeps_resolve [THEN keepsD, OF t2] B(2,3) by simp_all
  obtain u where u: "run_state (EmitBytes [opcode, b] True) t2 = ((), u)" by (metis (full_types) old.unit.exhaust surj_pair)
  have l: "listing u = listing t @ [opcode, b]" "lp u = lp t"
    using EmitBytes_run [of "[opcode, b]" t2 True] assms B(1) k u by simp_all
  have "counts_up t1 t2" "counts_up t2 u"
    using state_io_relD [OF up_resolve t2] state_io_relD [OF up_EmitBytes u] by simp_all
  then have c: "ErrorCount (dg t1) \<le> ErrorCount (dg u)" by (simp add: counts_up_def)
  have "jump_result opcode t jmp u"
    unfolding jump_result_def using l(1) B(1,5) c by (intro exI [of _ b]) auto
  then show ?thesis using b t2 u l(2) by simp
qed

lemma jump_reaches:
  assumes "jump_result opcode t (wrap32 (target - here - 2)) u" "in32 target"
  shows "\<exists>b. listing u = listing t @ [opcode, b] \<and> 0 \<le> b \<and> b < 256 \<and>
    (if -128 \<le> wrap32 (target - here - 2) \<and> wrap32 (target - here - 2) \<le> 127
     then wrap32 (here + 2 + sbyte b) = target
     else b = 0 \<and> (\<not> error_skipped E_PASS3 t \<longrightarrow> ErrorCount (dg t) < ErrorCount (dg u)))"
proof -
  have "wrap32 (here + 2 + wrap32 (target - here - 2)) = wrap32 (wrap32 (target - here - 2) + (here + 2))"
    by (simp add: add.commute)
  also have "\<dots> = target" using assms(2) by simp
  finally show ?thesis using assms(1) unfolding jump_result_def by (auto split: if_splits)
qed

lemma jump_result_cong:
  assumes "listing t = listing s" "dg t = dg s" "pass t = pass s" "listing v = listing u" "dg v = dg u" "jump_result op t j u"
  shows "jump_result op s j v"
proof -
  have e: "error_skipped E_PASS3 s = error_skipped E_PASS3 t" using assms(2,3) by (simp add: error_skipped_def)
  show ?thesis using assms(6) unfolding jump_result_def by (simp only: assms(1-5) e)
qed

lemma wrap_sub: "wrap32 (wrap32 (a - b) - c) = wrap32 (a - b - c)" "wrap32 (a - wrap32 (b + c)) = wrap32 (a - b - c)"
  using wrap32_add_wrap32_left [of "a - b" "-c"]
  by (simp_all, intro wrap32_cong_mod) (metis (no_types) add_diff_eq diff_diff_eq mod_diff_right_eq wrap32_mod)

lemma DJNZ_run:
  assumes "run_state (GetAddress (lp s)) s = ((Some target, rest), t)" "skip_blanks rest = []"
    "length (listing t) + 2 < LIST_EMIT_BYTES_BUFFER_SIZE"
  shows "jump_result 0x10 t (wrap32 (target - CurAddress t - 2)) (snd (run_state OpCode_DJNZ s))"
proof -
  let ?t = "t\<lparr>lp := rest\<rparr>" and ?j = "wrap32 (target - CurAddress t - 2)"
  have a: "run_state (on_lp GetAddress) s = (Some target, ?t)" using assms(1) by (simp add: on_lp_def set_lp_def)
  obtain u where u: "run_state (do { b \<leftarrow> rel_byte ''[DJNZ]'' ?j; rel_resolve; EmitBytes [0x10, b] True; ret True }) ?t = (True, u)"
    "lp u = rest" "jump_result 0x10 ?t ?j u"
    using rel_jump_run [where opcode = "0x10" and t = ?t and name = "''[DJNZ]''" and jmp = ?j] assms(3) by (auto simp: listing_def)
  have "run_state (do { e \<leftarrow> do { r \<leftarrow> on_lp GetAddress; here \<leftarrow> gets CurAddress;
        let nad = (case r of None \<Rightarrow> wrap32 (here + 2) | Some ad \<Rightarrow> ad);
        b \<leftarrow> rel_byte ''[DJNZ]'' (wrap32 (wrap32 (nad - here) - 2)); rel_resolve; ret [0x10, b] };
      EmitBytes e True; ret True }) s = (True, u)"
    using u(1) by (simp add: a wrap_sub)
  from last_round [OF this] u(2) assms(2)
  have "run_state OpCode_DJNZ s = ((), u\<lparr>lp := [], rel := (rel u)\<lparr>isResultAffected := False\<rparr>\<rparr>)"
    by (simp add: OpCode_DJNZ_def emit_args_def Let_def)
  then show ?thesis by (intro jump_result_cong [OF _ _ _ _ _ u(3)]) (simp_all add: listing_def)
qed

text \<open>The operand of JR: an optional condition with a comma, and the opcode that goes with it; the address starts at \<open>p\<close>.\<close>

definition jr_condition :: "bool \<Rightarrow> string \<Rightarrow> int \<Rightarrow> string \<Rightarrow> bool" where
  "jr_condition isLR text opcode p \<longleftrightarrow> (case getz80cond isLR text of (cc, p1) \<Rightarrow>
     if cc = Z80C_UNK then opcode = 0x18 \<and> p = p1
     else cc \<in> {Z80C_NZ, Z80C_Z, Z80C_NC, Z80C_C} \<and> opcode = 0x20 + cc \<and> comma p1 = (True, p))"

lemma JR_run:
  assumes "jr_condition (IsLR35902 (opts s)) (lp s) opcode p" "run_state (GetAddress p) (s\<lparr>lp := p\<rparr>) = ((Some target, rest), t)"
    "skip_blanks rest = []" "length (listing t) + 2 < LIST_EMIT_BYTES_BUFFER_SIZE"
  shows "jump_result opcode t (wrap32 (target - CurAddress t - 2)) (snd (run_state OpCode_JR s))"
proof -
  let ?t = "t\<lparr>lp := rest\<rparr>" and ?j = "wrap32 (target - CurAddress t - 2)"
  obtain cc p1 where cc: "getz80cond (IsLR35902 (opts s)) (lp s) = (cc, p1)" by fastforce
  have c: "run_state condM s = (cc, s\<lparr>lp := p1\<rparr>)" by (simp add: condM_def lexM_def cc set_lp_def)
  have le: "cc = Z80C_UNK \<or> cc \<le> Z80C_C" and op: "0 \<le> opcode" "opcode < 256"
    and e0: "run_state (if cc = Z80C_UNK then ret 0x18 else cond_opcode ''[JR cc]'' 0x20 cc) (s\<lparr>lp := p1\<rparr>) = (opcode, s\<lparr>lp := p\<rparr>)"
    using assms(1) cc by (auto simp: jr_condition_def cond_opcode_def commaM_def lexM_def set_lp_def split: if_splits)
  have a: "run_state (on_lp GetAddress) (s\<lparr>lp := p\<rparr>) = (Some target, ?t)" using assms(2) by (simp add: on_lp_def set_lp_def)
  obtain u where u: "run_state (do { b \<leftarrow> rel_byte ''[JR]'' ?j; rel_resolve; EmitBytes [opcode, b] True; ret True }) ?t = (True, u)"
    "lp u = rest" "jump_result opcode ?t ?j u"
    using rel_jump_run [where opcode = opcode and t = ?t and name = "''[JR]''" and jmp = ?j] op assms(4) by (auto simp: listing_def)
  obtain b t1 t2 where r: "run_state (rel_byte ''[JR]'' ?j) ?t = (b, t1)" "run_state rel_resolve t1 = ((), t2)"
    by (metis (full_types) old.unit.exhaust surj_pair)
  define body where "body = (do {
       cc \<leftarrow> condM;
       if cc \<noteq> Z80C_UNK \<and> \<not> cc \<le> Z80C_C then do {
         b \<leftarrow> gets bp;
         Error ''[JR] Illegal condition'' (Some b) E_PASS3;
         modify (\<lambda>s. s\<lparr>lp := SkipToEol (lp s)\<rparr>);
         ret None }
       else do {
         e0 \<leftarrow> (if cc = Z80C_UNK then ret 0x18 else cond_opcode ''[JR cc]'' 0x20 cc);
         r \<leftarrow> on_lp GetAddress;
         here \<leftarrow> gets CurAddress;
         b \<leftarrow> rel_byte ''[JR]'' (case r of None \<Rightarrow> 0 | Some jrad \<Rightarrow> wrap32 (jrad - wrap32 (here + 2)));
         rel_resolve;
         ret (Some [e0, b]) } })"
  have "run_state body s = (Some [opcode, b], t2)"
    unfolding body_def using le r by (auto simp add: c e0 a wrap_sub)
  moreover have "run_state (EmitBytes [opcode, b] True) t2 = ((), u)"
    using u(1) by (simp add: r split: prod.splits)
  ultimately have "run_state (do { r \<leftarrow> body; (case r of None \<Rightarrow> ret False | Some e \<Rightarrow> do { EmitBytes e True; ret True }) }) s = (True, u)"
    by simp
  from last_round [OF this] u(2) assms(3)
  have "run_state OpCode_JR s = ((), u\<lparr>lp := [], rel := (rel u)\<lparr>isResultAffected := False\<rparr>\<rparr>)"
    by (simp add: OpCode_JR_def emit_break_def body_def)
  then show ?thesis by (intro jump_result_cong [OF _ _ _ _ _ u(3)]) (simp_all add: listing_def)
qed

section \<open>Properties\<close>

text \<open>Claim C20. DJNZ reaches its target: whatever the address operand is (label, temporary label, expression), if the
  distance from the next instruction is in -128..127 the emitted byte, read as signed number by the CPU, leads from the
  address behind the instruction exactly to the target; otherwise the byte is zero and an error is counted (unless
  errors of this line or pass are not counted).\<close>

theorem DJNZ_reaches_target:
  assumes "run_state (GetAddress (lp s)) s = ((Some target, rest), t)" "in32 target" "skip_blanks rest = []"
    "length (listing t) + 2 < LIST_EMIT_BYTES_BUFFER_SIZE"
  shows "\<exists>b. listing (snd (run_state OpCode_DJNZ s)) = listing t @ [0x10, b] \<and> 0 \<le> b \<and> b < 256 \<and>
    (if -128 \<le> wrap32 (target - CurAddress t - 2) \<and> wrap32 (target - CurAddress t - 2) \<le> 127
     then wrap32 (CurAddress t + 2 + sbyte b) = target
     else b = 0 \<and> (\<not> error_skipped E_PASS3 t \<longrightarrow> ErrorCount (dg t) < ErrorCount (dg (snd (run_state OpCode_DJNZ s)))))"
  by (rule jump_reaches [OF DJNZ_run [OF assms(1,3,4)] assms(2)])

text \<open>A state at address 100 with the temporary label 1 at address 90.\<close>

definition asm_jump :: "string \<Rightarrow> asm" where
  "asm_jump p = asm0\<lparr>lp := p, CurAddress := 100,
     labs := (labs asm0)\<lparr>tl_nextPassLabels := [\<lparr>tl_nummer = 1, tl_value = 90, tl_isRelocatable = False\<rparr>]\<rparr>\<rparr>"

lemma asm_jump_address: "run_state (GetAddress ''1B'') (asm_jump p) = ((Some 90, []), asm_jump p)"
proof -
  have c: "skip_blanks ''1B'' = ''1B''" "takeWhile isdigit ''1B'' = ''1''" "dropWhile isdigit ''1B'' = ''B''"
    "or20 CHR ''B'' = CHR ''b''" "\<not> islabchar NUL" "isdigit CHR ''1''" "GetNumericValue_IntBased 10 ''1'' ''B'' = (1, None, [])"
    by code_simp+
  have "seekBack 1 (labs (asm_jump p)) = Some \<lparr>tl_nummer = 1, tl_value = 90, tl_isRelocatable = False\<rparr>"
    by (simp add: asm_jump_def seekBack_def)
  moreover have "(rel (asm_jump p))\<lparr>isResultAffected := False, deltaType := REL_OFF\<rparr> = rel (asm_jump p)"
    by (simp add: asm_jump_def asm0_def)
  ultimately have "run_state (GetTemporaryLabelValue False ''1B'') (asm_jump p) = ((Some 90, []), asm_jump p)"
    unfolding GetTemporaryLabelValue_def c Let_def by (simp add: c)
  then show ?thesis by (simp add: GetAddress_def)
qed

theorem DJNZ_reaches_target_witness:
  "\<exists>b. listing (snd (run_state OpCode_DJNZ (asm_jump ''1B''))) = [0x10, b] \<and> wrap32 (100 + 2 + sbyte b) = 90"
proof -
  have s: "lp (asm_jump ''1B'') = ''1B''" "listing (asm_jump ''1B'') = []" "CurAddress (asm_jump ''1B'') = 100"
    by (simp_all add: asm_jump_def asm0_def listing_def)
  moreover have "in32 90" "skip_blanks [] = []" "wrap32 (90 - 100 - 2) = -12" by code_simp+
  ultimately show ?thesis
    using DJNZ_reaches_target [of "asm_jump ''1B''" 90 "[]" "asm_jump ''1B''"] asm_jump_address by auto
qed

text \<open>Claim C8. JR reaches its target, with and without a condition: the opcode is the one of the condition, and the
  displacement byte has the same guarantee as that of DJNZ.\<close>

theorem JR_reaches_target:
  assumes "jr_condition (IsLR35902 (opts s)) (lp s) opcode p"
    "run_state (GetAddress p) (s\<lparr>lp := p\<rparr>) = ((Some target, rest), t)" "in32 target" "skip_blanks rest = []"
    "length (listing t) + 2 < LIST_EMIT_BYTES_BUFFER_SIZE"
  shows "\<exists>b. listing (snd (run_state OpCode_JR s)) = listing t @ [opcode, b] \<and> 0 \<le> b \<and> b < 256 \<and>
    (if -128 \<le> wrap32 (target - CurAddress t - 2) \<and> wrap32 (target - CurAddress t - 2) \<le> 127
     then wrap32 (CurAddress t + 2 + sbyte b) = target
     else b = 0 \<and> (\<not> error_skipped E_PASS3 t \<longrightarrow> ErrorCount (dg t) < ErrorCount (dg (snd (run_state OpCode_JR s)))))"
  by (rule jump_reaches [OF JR_run [OF assms(1,2,4,5)] assms(3)])

theorem JR_reaches_target_witness:
  "\<exists>b. listing (snd (run_state OpCode_JR (asm_jump '' nc,1B''))) = [0x30, b] \<and> wrap32 (100 + 2 + sbyte b) = 90"
proof -
  let ?t = "asm_jump '' nc,1B''\<lparr>lp := ''1B''\<rparr>"
  have t: "?t = asm_jump ''1B''" by (simp add: asm_jump_def)
  have s: "lp (asm_jump '' nc,1B'') = '' nc,1B''" "\<not> IsLR35902 (opts (asm_jump '' nc,1B''))"
    "listing (asm_jump ''1B'') = []" "CurAddress (asm_jump ''1B'') = 100"
    by (simp_all add: asm_jump_def asm0_def listing_def)
  moreover have "in32 90" "skip_blanks [] = []" "wrap32 (90 - 100 - 2) = -12" "jr_condition False '' nc,1B'' 0x30 ''1B''" by code_simp+
  ultimately show ?thesis
    using JR_reaches_target [of "asm_jump '' nc,1B''" "0x30" "''1B''" 90 "[]" "asm_jump ''1B''"] asm_jump_address t by auto
qed

end
