(* ===== verification/Sj_Z80_Fake.thy ===== *)
theory Sj_Z80_Fake
  imports Sj_Z80_Term
begin

unbundle bit_operations_syntax

text \<open>
  The fake instructions for register pairs are sequences of real ones. Here they are run on a model of the part of
  the CPU that they use, and shown to compute what the 16 bit instruction of their name would: the same
  rotate or shift at width 16, the sum or difference of the pairs, the copied pair.
\<close>

section \<open>The part of the CPU\<close>

text \<open>Registers by their number, the stack pointer, the memory and the carry flag; other flags are left out.\<close>

record cpu =
  reg8 :: "Z80Reg \<Rightarrow> 8 word"
  reg_SP :: "16 word"
  ram :: "16 word \<Rightarrow> 8 word"
  carry :: bool

definition get16 :: "cpu \<Rightarrow> Z80Reg \<Rightarrow> 16 word" where
  "get16 m rp = (if rp = Z80_SP then reg_SP m
     else word_cat (reg8 m (GetRegister_r16High rp)) (reg8 m (GetRegister_r16Low rp)))"

definition hi8 :: "16 word \<Rightarrow> 8 word" where "hi8 v = ucast (drop_bit 8 v)"
definition lo8 :: "16 word \<Rightarrow> 8 word" where "lo8 v = ucast v"

definition set16 :: "Z80Reg \<Rightarrow> 16 word \<Rightarrow> cpu \<Rightarrow> cpu" where
  "set16 rp v m = (if rp = Z80_SP then m\<lparr>reg_SP := v\<rparr>
     else m\<lparr>reg8 := (reg8 m)(GetRegister_r16High rp := hi8 v, GetRegister_r16Low rp := lo8 v)\<rparr>)"

text \<open>Rotates and shifts, at any width: the kind is the number in the opcode. The result is the value and the new carry.\<close>

definition rot :: "int \<Rightarrow> bool \<Rightarrow> 'a::len word \<Rightarrow> 'a word \<times> bool" where
  "rot kind c v =
     (if kind = 2 then (push_bit 1 v OR of_bool c, bit v (LENGTH('a) - 1))
      else if kind = 3 then (drop_bit 1 v OR push_bit (LENGTH('a) - 1) (of_bool c), bit v 0)
      else if kind = 4 then (push_bit 1 v, bit v (LENGTH('a) - 1))
      else if kind = 5 then (signed_drop_bit 1 v, bit v 0)
      else if kind = 6 then (push_bit 1 v OR 1, bit v (LENGTH('a) - 1))
      else (drop_bit 1 v, bit v 0))"

definition get8 :: "cpu \<Rightarrow> Z80Reg \<Rightarrow> 8 word" where
  "get8 m r = (if r = Z80_MEM_HL then ram m (get16 m Z80_HL) else reg8 m r)"

definition set8 :: "Z80Reg \<Rightarrow> 8 word \<Rightarrow> cpu \<Rightarrow> cpu" where
  "set8 r v m = (if r = Z80_MEM_HL then m\<lparr>ram := (ram m)(get16 m Z80_HL := v)\<rparr> else m\<lparr>reg8 := (reg8 m)(r := v)\<rparr>)"

definition rp_of :: "int \<Rightarrow> Z80Reg" where
  "rp_of k = Z80_BC + 16 * k"

definition add16 :: "16 word \<Rightarrow> 16 word \<Rightarrow> bool \<Rightarrow> 16 word \<times> bool" where
  "add16 a b c = (a + b + of_bool c, 65536 \<le> uint a + uint b + of_bool c)"

definition sub16 :: "16 word \<Rightarrow> 16 word \<Rightarrow> bool \<Rightarrow> 16 word \<times> bool" where
  "sub16 a b c = (a - b - of_bool c, uint a < uint b + of_bool c)"

definition put16 :: "Z80Reg \<Rightarrow> 16 word \<times> bool \<Rightarrow> cpu \<Rightarrow> cpu" where
  "put16 rp r m = (set16 rp (fst r) m)\<lparr>carry := snd r\<rparr>"

definition ex_de_hl :: "cpu \<Rightarrow> cpu" where
  "ex_de_hl m = set16 Z80_HL (get16 m Z80_DE) (set16 Z80_DE (get16 m Z80_HL) m)"

text \<open>One instruction; None: not one of those the fakes are made of.\<close>

fun exec :: "int list \<Rightarrow> cpu \<Rightarrow> cpu option" where
  "exec [op] m =
     (if op = 0xEB then Some (ex_de_hl m)
      else if op = 0xB7 then Some (m\<lparr>carry := False\<rparr>)
      else if op = 0x23 then Some (set16 Z80_HL (get16 m Z80_HL + 1) m)
      else if op = 0x2B then Some (set16 Z80_HL (get16 m Z80_HL - 1) m)
      else if op \<in> {0x09, 0x19, 0x29, 0x39} then
        Some (put16 Z80_HL (add16 (get16 m Z80_HL) (get16 m (rp_of ((op - 0x09) div 16))) False) m)
      else if 0x40 \<le> op \<and> op < 0x80 \<and> op \<noteq> 0x76 then Some (set8 ((op - 0x40) div 8) (get8 m (op mod 8)) m)
      else None)"
| "exec [px, op] m =
     (if px = 0xCB \<and> 0x10 \<le> op \<and> op < 0x40 then
        (let r = op mod 8; v = rot (op div 8) (carry m) (get8 m r) in Some ((set8 r (fst v) m)\<lparr>carry := snd v\<rparr>))
      else if px = 0xED \<and> op \<in> {0x4A, 0x5A, 0x6A, 0x7A} then
        Some (put16 Z80_HL (add16 (get16 m Z80_HL) (get16 m (rp_of ((op - 0x4A) div 16))) (carry m)) m)
      else if px = 0xED \<and> op \<in> {0x42, 0x52, 0x62, 0x72} then
        Some (put16 Z80_HL (sub16 (get16 m Z80_HL) (get16 m (rp_of ((op - 0x42) div 16))) (carry m)) m)
      else None)"
| "exec _ m = None"

text \<open>A list of bytes with the markers between the instructions.\<close>

fun split_marks :: "int list \<Rightarrow> int list \<Rightarrow> int list list" where
  "split_marks acc [] = [acc]"
| "split_marks acc (b # bs) = (if b = INSTRUCTION_START_MARKER then acc # split_marks [] bs else split_marks (acc @ [b]) bs)"

fun exec_seq :: "int list list \<Rightarrow> cpu \<Rightarrow> cpu option" where
  "exec_seq [] m = Some m"
| "exec_seq (i # is) m = (case exec i m of None \<Rightarrow> None | Some m' \<Rightarrow> exec_seq is m')"

definition exec_all :: "int list \<Rightarrow> cpu \<Rightarrow> cpu option" where
  "exec_all bs m = exec_seq (split_marks [] bs) m"

section \<open>Halves of a pair\<close>

lemma bit_hi8 [simp]: "bit (hi8 v) n \<longleftrightarrow> n < 8 \<and> bit v (n + 8)"
  by (auto simp: hi8_def bit_simps add.commute)

lemma bit_lo8 [simp]: "bit (lo8 v) n \<longleftrightarrow> n < 8 \<and> bit v n"
  by (auto simp: lo8_def bit_simps)

lemma bit_cat: "bit (word_cat (h :: 8 word) (l :: 8 word) :: 16 word) n \<longleftrightarrow> n < 16 \<and> (if n < 8 then bit l n else bit h (n - 8))"
  by (auto simp: bit_word_cat_iff dest: bit_imp_le_length)

lemma halves_cat [simp]: "hi8 (word_cat h l) = h" "lo8 (word_cat h l) = l"
  by (rule bit_word_eqI; simp add: bit_cat)+

lemma cat_halves [simp]: "word_cat (hi8 v) (lo8 v) = v"
  by (rule bit_word_eqI) (auto simp add: bit_cat)

lemma bit_rot_left:
  assumes "kind \<in> {2, 4, 6}"
  shows "bit (fst (rot kind c (v :: 'a::len word))) n \<longleftrightarrow>
      n < LENGTH('a) \<and> (if n = 0 then kind = 2 \<and> c \<or> kind = 6 else bit v (n - 1))"
    "snd (rot kind c v) = bit v (LENGTH('a) - 1)"
  using assms by (auto simp: rot_def bit_simps simp del: push_bit_Suc)

lemma bit_rot_right:
  assumes "kind \<in> {3, 5, 7}"
  shows "bit (fst (rot kind c (v :: 'a::len word))) n \<longleftrightarrow>
      n < LENGTH('a) \<and> (if n = LENGTH('a) - 1 then kind = 3 \<and> c \<or> kind = 5 \<and> bit v n else bit v (n + 1))"
    "snd (rot kind c v) = bit v 0"
  using assms
  by (auto simp: rot_def bit_simps bit_signed_drop_bit_iff dest: bit_imp_le_length simp del: push_bit_Suc drop_bit_Suc)

text \<open>A rotate or shift of a pair, by the halves: to the left first the low half, then the high half through the
  carry; to the right the other way round.\<close>

lemma rot_left_halves:
  assumes "kind \<in> {2, 4, 6}"
  shows "rot kind c (word_cat (h :: 8 word) (l :: 8 word) :: 16 word) =
    (word_cat (fst (rot 2 (snd (rot kind c l)) h)) (fst (rot kind c l)), snd (rot 2 (snd (rot kind c l)) h))"
proof -
  have "fst (rot kind c (word_cat h l :: 16 word)) = word_cat (fst (rot 2 (snd (rot kind c l)) h)) (fst (rot kind c l))"
    by (rule bit_word_eqI)
      (auto simp: bit_rot_left [OF assms] bit_rot_left [of 2] bit_cat less_diff_conv split: if_splits)
  then show ?thesis by (simp add: prod_eq_iff bit_rot_left [OF assms] bit_rot_left [of 2] bit_cat)
qed

lemma rot_right_halves:
  assumes "kind \<in> {3, 5, 7}"
  shows "rot kind c (word_cat (h :: 8 word) (l :: 8 word) :: 16 word) =
    (word_cat (fst (rot kind c h)) (fst (rot 3 (snd (rot kind c h)) l)), snd (rot 3 (snd (rot kind c h)) l))"
proof -
  have n: "\<not> n < 8 \<Longrightarrow> Suc (n - 8) = n - 7" for n :: nat by simp
  have "fst (rot kind c (word_cat h l :: 16 word)) = word_cat (fst (rot kind c h)) (fst (rot 3 (snd (rot kind c h)) l))"
    by (rule bit_word_eqI)
      (auto simp: n bit_rot_right [OF assms] bit_rot_right [of 3] bit_cat less_diff_conv split: if_splits)
  then show ?thesis by (simp add: prod_eq_iff bit_rot_right [OF assms] bit_rot_right [of 3] bit_cat)
qed

section \<open>Registers after an instruction\<close>

lemma rp_cases: "rp \<in> set rp_regs \<Longrightarrow> rp = Z80_BC \<or> rp = Z80_DE \<or> rp = Z80_HL \<or> rp = Z80_SP"
  by (auto simp: rp_regs_def)

lemma get16_set16:
  assumes "a \<in> set rp_regs" "b \<in> set rp_regs"
  shows "get16 (set16 a v m) b = (if a = b then v else get16 m b)"
  using assms [THEN rp_cases] by (auto simp: get16_def set16_def GetRegister_r16High_def GetRegister_r16Low_def)

lemma get16_frame [simp]: "get16 (m\<lparr>carry := c\<rparr>) rp = get16 m rp" "get16 (put16 a r m) rp = get16 (set16 a (fst r) m) rp"
  by (simp_all add: get16_def put16_def)

lemma frame16 [simp]: "ram (set16 a v m) = ram m" "carry (set16 a v m) = carry m" "ram (put16 a r m) = ram m" "carry (put16 a r m) = snd r"
  by (simp_all add: set16_def put16_def)

lemma get16_ex: "rp \<in> set rp_regs \<Longrightarrow> get16 (ex_de_hl m) rp = get16 m (swap_de_hl rp)"
  using rp_cases [of rp] by (auto simp: ex_de_hl_def get16_set16 swap_de_hl_def rp_regs_def)

lemma frame_ex [simp]: "ram (ex_de_hl m) = ram m" "carry (ex_de_hl m) = carry m"
  by (simp_all add: ex_de_hl_def)

lemma swap_simps [simp]: "swap_de_hl Z80_DE = Z80_HL" "swap_de_hl Z80_HL = Z80_DE" "swap_de_hl Z80_BC = Z80_BC" "swap_de_hl Z80_SP = Z80_SP"
  by (simp_all add: swap_de_hl_def)

text \<open>The real 16 bit instructions on HL.\<close>

lemma exec_rp:
  assumes "rp \<in> set rp_regs"
  shows "exec [0x09 + rp - Z80_BC] m = Some (put16 Z80_HL (add16 (get16 m Z80_HL) (get16 m rp) False) m)"
    "exec [0xED, 0x4A + rp - Z80_BC] m = Some (put16 Z80_HL (add16 (get16 m Z80_HL) (get16 m rp) (carry m)) m)"
    "exec [0xED, 0x32 + rp] m = Some (put16 Z80_HL (sub16 (get16 m Z80_HL) (get16 m rp) (carry m)) m)"
  using rp_cases [OF assms] by (auto simp: rp_of_def)

text \<open>\<open>computes dst f m m'\<close>: the pair \<open>dst\<close> has the result \<open>f\<close> of the instruction, with its carry, and everything else is
  as before.\<close>

definition computes :: "Z80Reg \<Rightarrow> 16 word \<times> bool \<Rightarrow> cpu \<Rightarrow> cpu \<Rightarrow> bool" where
  "computes dst f m m' \<longleftrightarrow> get16 m' dst = fst f \<and> carry m' = snd f \<and> ram m' = ram m \<and>
     (\<forall>rp \<in> set rp_regs - {dst}. get16 m' rp = get16 m rp)"

lemma put16_computes: "dst \<in> set rp_regs \<Longrightarrow> computes dst f m (put16 dst f m)"
  by (auto simp: computes_def get16_set16)

lemma exchanged:
  assumes "computes Z80_HL f (ex_de_hl m) n"
  shows "computes Z80_DE f m (ex_de_hl n)"
  using assms by (auto simp: computes_def get16_ex rp_regs_def)

lemma exec_exchanged:
  assumes "exec i (ex_de_hl m) = Some n" "split_marks [] (bs @ [-2, 0xEB]) = [i, [0xEB]]"
  shows "exec_all (0xEB # -2 # bs @ [-2, 0xEB]) m = Some (ex_de_hl n)"
  using assms by (simp add: exec_all_def)

section \<open>The fakes\<close>

definition fakes_on :: "asm \<Rightarrow> bool" where
  "fakes_on s \<longleftrightarrow> \<not> IsI8080 (opts s) \<and> \<not> IsLR35902 (opts s) \<and> FakeEnabled (syx (opts s))"

lemma fake_run: "fakes_on s \<Longrightarrow> \<exists>s'. run_state (fake e) s = (e, s') \<and> opts s' = opts s"
  by (auto simp: fake_def noFakes_def fakes_on_def Let_def WarningById_def warning_by_id_upd_def warning_impl_upd_def
      error_upd_def split: prod.splits)

text \<open>The bytes that \<open>c\<close> returns in the state \<open>s\<close> of the assembler compute \<open>f\<close> into \<open>dst\<close> on the CPU \<open>m\<close>.\<close>

definition runs_as :: "int list M \<Rightarrow> asm \<Rightarrow> cpu \<Rightarrow> Z80Reg \<Rightarrow> 16 word \<times> bool \<Rightarrow> bool" where
  "runs_as c s m dst f \<longleftrightarrow> (\<exists>m'. exec_all (fst (run_state c s)) m = Some m' \<and> computes dst f m m')"

lemma runs_as_fake: "fakes_on s \<Longrightarrow> exec_all e m = Some m' \<Longrightarrow> computes dst f m m' \<Longrightarrow> runs_as (fake e) s m dst f"
  using fake_run [of s e] by (auto simp: runs_as_def)

lemma swap_rp: "r \<in> set rp_regs \<Longrightarrow> swap_de_hl r \<in> set rp_regs" "r \<in> set rp_regs \<Longrightarrow> swap_de_hl (swap_de_hl r) = r"
  using rp_cases [of r] by (auto simp: rp_regs_def)

text \<open>An operation on HL between two exchanges of DE and HL.\<close>

lemma runs_as_exchanged:
  assumes "fakes_on s" "r \<in> set rp_regs" "exec i (ex_de_hl m) = Some (put16 Z80_HL f (ex_de_hl m))"
    "split_marks [] (bs @ [-2, 0xEB]) = [i, [0xEB]]"
  shows "runs_as (fake (0xEB # -2 # bs @ [-2, 0xEB])) s m Z80_DE f"
  by (rule runs_as_fake [OF assms(1) exec_exchanged [OF assms(3,4)] exchanged [OF put16_computes]])
    (simp add: rp_regs_def)

lemma runs_as_ADC_ADD:
  assumes "fakes_on s" "r \<in> set rp_regs"
  shows "runs_as (adc_pairs Z80_DE r) s m Z80_DE (add16 (get16 m Z80_DE) (get16 m r) (carry m))"
    "runs_as (add_pairs Z80_DE r) s m Z80_DE (add16 (get16 m Z80_DE) (get16 m r) False)"
    "runs_as (sbc_pairs Z80_DE r) s m Z80_DE (sub16 (get16 m Z80_DE) (get16 m r) (carry m))"
proof -
  note x = exec_rp [OF swap_rp(1) [OF assms(2)], of "ex_de_hl m"]
  have g: "get16 (ex_de_hl m) Z80_HL = get16 m Z80_DE" "get16 (ex_de_hl m) (swap_de_hl r) = get16 m r"
    using get16_ex [of Z80_HL m] get16_ex [OF swap_rp(1) [OF assms(2)]] swap_rp(2) [OF assms(2)] by (simp_all add: rp_regs_def)
  have n: "swap_de_hl r \<ge> 16" using rp_cases [OF assms(2)] by auto
  have z: "\<not> (Z80_DE = Z80_HL)" by simp
  have adc: "runs_as (fake (0xEB # -2 # [0xED, 0x4A + swap_de_hl r - Z80_BC] @ [-2, 0xEB])) s m Z80_DE
      (add16 (get16 m Z80_DE) (get16 m r) (carry m))"
    by (rule runs_as_exchanged [OF assms]) (use x(2) n in \<open>simp_all add: g\<close>)
  have add: "runs_as (fake (0xEB # -2 # [0x09 + swap_de_hl r - Z80_BC] @ [-2, 0xEB])) s m Z80_DE
      (add16 (get16 m Z80_DE) (get16 m r) False)"
    by (rule runs_as_exchanged [OF assms]) (use x(1) n in \<open>simp_all add: g\<close>)
  have sbc: "runs_as (fake (0xEB # -2 # [0xED, 0x32 + swap_de_hl r] @ [-2, 0xEB])) s m Z80_DE
      (sub16 (get16 m Z80_DE) (get16 m r) (carry m))"
    by (rule runs_as_exchanged [OF assms]) (use x(3) n in \<open>simp_all add: g\<close>)
  show "runs_as (adc_pairs Z80_DE r) s m Z80_DE (add16 (get16 m Z80_DE) (get16 m r) (carry m))"
    "runs_as (sbc_pairs Z80_DE r) s m Z80_DE (sub16 (get16 m Z80_DE) (get16 m r) (carry m))"
    using adc sbc assms by (simp_all add: adc_pairs_def sbc_pairs_def runs_as_def)
  obtain s' where "run_state (fake (0xEB # -2 # [0x09 + swap_de_hl r - Z80_BC] @ [-2, 0xEB])) s =
      (0xEB # -2 # [0x09 + swap_de_hl r - Z80_BC] @ [-2, 0xEB], s')" using fake_run [OF assms(1)] by blast
  then show "runs_as (add_pairs Z80_DE r) s m Z80_DE (add16 (get16 m Z80_DE) (get16 m r) False)"
    using add assms(2) rp_cases [OF assms(2)] by (auto simp: add_pairs_def add_next_def runs_as_def)
qed

lemma computes_carry: "computes dst f (m\<lparr>carry := c\<rparr>) m' = computes dst f m m'"
  by (simp add: computes_def)

lemma runs_as_SUB:
  assumes "fakes_on s" "r \<in> set rp_regs"
  shows "runs_as (sub_pairs Z80_HL r) s m Z80_HL (sub16 (get16 m Z80_HL) (get16 m r) False)"
    "runs_as (sub_pairs Z80_DE r) s m Z80_DE (sub16 (get16 m Z80_DE) (get16 m r) False)"
proof -
  let ?m = "m\<lparr>carry := False\<rparr>"
  have n: "r \<ge> 16" "swap_de_hl r \<ge> 16" using rp_cases [OF assms(2)] by auto
  have hl: "computes Z80_HL f m (put16 Z80_HL f ?m)" for f
    using put16_computes [of Z80_HL f ?m] by (simp add: computes_carry rp_regs_def)
  have "exec_all [0xB7, -2, 0xed, 0x32 + r] m = Some (put16 Z80_HL (sub16 (get16 m Z80_HL) (get16 m r) False) ?m)"
    using exec_rp(3) [OF assms(2), of ?m] n by (simp add: exec_all_def)
  then show "runs_as (sub_pairs Z80_HL r) s m Z80_HL (sub16 (get16 m Z80_HL) (get16 m r) False)"
    using assms runs_as_fake [OF assms(1) _ hl] by (simp add: sub_pairs_def)
  have g: "get16 (ex_de_hl ?m) Z80_HL = get16 m Z80_DE" "get16 (ex_de_hl ?m) (swap_de_hl r) = get16 m r"
    using get16_ex [of Z80_HL ?m] get16_ex [OF swap_rp(1) [OF assms(2)], of ?m] swap_rp(2) [OF assms(2)] by (simp_all add: rp_regs_def)
  let ?n = "put16 Z80_HL (sub16 (get16 m Z80_DE) (get16 m r) False) (ex_de_hl ?m)"
  have "exec_all [0xB7, -2, 0xEB, -2, 0xED, 0x32 + swap_de_hl r, -2, 0xEB] m = Some (ex_de_hl ?n)"
    using exec_rp(3) [OF swap_rp(1) [OF assms(2)], of "ex_de_hl ?m"] n by (simp add: exec_all_def g)
  moreover have "computes Z80_DE (sub16 (get16 m Z80_DE) (get16 m r) False) ?m (ex_de_hl ?n)"
    by (rule exchanged [OF put16_computes]) (simp add: rp_regs_def)
  ultimately show "runs_as (sub_pairs Z80_DE r) s m Z80_DE (sub16 (get16 m Z80_DE) (get16 m r) False)"
    using assms by (auto simp: sub_pairs_def computes_carry intro!: runs_as_fake)
qed

text \<open>Rotates and shifts.\<close>

lemma exec_cb:
  assumes "k \<in> {2..7}" "r \<in> {0..5}"
  shows "exec [0xcb, 8 * k + r] m = Some (m\<lparr>reg8 := (reg8 m)(r := fst (rot k (carry m) (reg8 m r))),
    carry := snd (rot k (carry m) (reg8 m r))\<rparr>)"
  using assms by (auto simp: get8_def set8_def Let_def)

text \<open>The CPU after two rotates of halves.\<close>

definition rot2 :: "int \<Rightarrow> Z80Reg \<Rightarrow> int \<Rightarrow> Z80Reg \<Rightarrow> cpu \<Rightarrow> cpu" where
  "rot2 k1 a k2 b m =
     (let v1 = rot k1 (carry m) (reg8 m a); v2 = rot k2 (snd v1) (reg8 m b)
      in m\<lparr>reg8 := (reg8 m)(a := fst v1, b := fst v2), carry := snd v2\<rparr>)"

lemma runs_as_rot_pair:
  assumes "fakes_on s" "k1 \<in> {2..7}" "k2 \<in> {2..7}" "a \<in> {0..5}" "b \<in> {0..5}" "a \<noteq> b" "computes reg f m (rot2 k1 a k2 b m)"
  shows "runs_as (rot_pair (8 * k1) a (8 * k2) b) s m reg f"
proof -
  have "exec_all [0xcb, 8 * k1 + a, -2, 0xcb, 8 * k2 + b] m =
      (case exec [0xcb, 8 * k1 + a] m of None \<Rightarrow> None | Some m' \<Rightarrow> exec [0xcb, 8 * k2 + b] m')"
    using assms(2-5) by (auto simp: exec_all_def simp del: exec.simps split: option.split)
  then have "exec_all [0xcb, 8 * k1 + a, -2, 0xcb, 8 * k2 + b] m = Some (rot2 k1 a k2 b m)"
    using exec_cb [OF assms(2,4)] exec_cb [OF assms(3,5)] assms(6) by (simp add: rot2_def Let_def del: exec.simps)
  then show ?thesis unfolding rot_pair_def using runs_as_fake [OF assms(1) _ assms(7)] by simp
qed

lemma pair_halves:
  assumes "reg \<in> {Z80_BC, Z80_DE, Z80_HL}"
  shows "GetRegister_r16High reg \<in> {0..5}" "GetRegister_r16Low reg \<in> {0..5}" "GetRegister_r16High reg \<noteq> GetRegister_r16Low reg"
    "get16 m reg = word_cat (reg8 m (GetRegister_r16High reg)) (reg8 m (GetRegister_r16Low reg))"
  using assms by (auto simp: get16_def GetRegister_r16High_def GetRegister_r16Low_def)

lemma rot2_frame:
  assumes "reg \<in> {Z80_BC, Z80_DE, Z80_HL}" "rp \<in> set rp_regs" "rp \<noteq> reg"
  shows "get16 (rot2 k1 (GetRegister_r16High reg) k2 (GetRegister_r16Low reg) m) rp = get16 m rp"
    "get16 (rot2 k1 (GetRegister_r16Low reg) k2 (GetRegister_r16High reg) m) rp = get16 m rp"
  using rp_cases [OF assms(2)] assms(1,3)
  by (elim insertE emptyE disjE; simp add: get16_def rot2_def Let_def GetRegister_r16High_def GetRegister_r16Low_def)+

lemma rot2_left:
  assumes "reg \<in> {Z80_BC, Z80_DE, Z80_HL}" "k \<in> {2, 4, 6}"
  shows "computes reg (rot k (carry m) (get16 m reg)) m (rot2 k (GetRegister_r16Low reg) 2 (GetRegister_r16High reg) m)"
  unfolding computes_def pair_halves(4) [OF assms(1)] rot_left_halves [OF assms(2)]
  using pair_halves(3) [OF assms(1)] rot2_frame(2) [OF assms(1)] by (simp add: rot2_def Let_def fun_upd_other)

lemma rot2_right:
  assumes "reg \<in> {Z80_BC, Z80_DE, Z80_HL}" "k \<in> {3, 5, 7}"
  shows "computes reg (rot k (carry m) (get16 m reg)) m (rot2 k (GetRegister_r16High reg) 3 (GetRegister_r16Low reg) m)"
  unfolding computes_def pair_halves(4) [OF assms(1)] rot_right_halves [OF assms(2)]
  using pair_halves(3) [OF assms(1)] rot2_frame(1) [OF assms(1)] by (simp add: rot2_def Let_def)

lemma top_bit:
  fixes v :: "16 word"
  shows "bit v 15 \<longleftrightarrow> 32768 \<le> uint v"
proof -
  have b: "bit v 15 \<longleftrightarrow> odd (uint v div 2 ^ 15)"
    using bit_uint_iff [of v 15] bit_iff_odd [of "uint v" 15] by simp
  have "uint v div 2 ^ 15 = 0" if "uint v < 32768" using that by (intro div_pos_pos_trivial) simp_all
  moreover have "uint v div 2 ^ 15 = 1" if "32768 \<le> uint v"
    using that uint_lt2p [of v] by (intro int_div_pos_eq [of _ _ 1 "uint v - 32768"]) simp_all
  ultimately show ?thesis unfolding b by (cases "uint v < 32768") (simp_all only: even_zero odd_one not_less, simp_all)
qed

lemma add16_self: "add16 v v False = rot 4 c v"
  using top_bit [of v] by (simp add: add16_def rot_def push_bit_eq_mult)

lemma sla_hl: "computes Z80_HL (rot 4 (carry m) (get16 m Z80_HL)) m (put16 Z80_HL (add16 (get16 m Z80_HL) (get16 m Z80_HL) False) m)"
  unfolding add16_self [of _ "carry m"] by (rule put16_computes) (simp add: rp_regs_def)

section \<open>The properties\<close>

text \<open>
  Claim C13: the fake 16 bit shifts and rotates of BC, DE and HL (\<open>rl bc\<close>, \<open>rr de\<close>, \<open>sla hl\<close>, ...) are right:
  with fakes enabled, the instructions that are emitted shift or rotate the pair as one 16 bit register, the bit
  shifted out is the carry, and the other pairs and the memory are not changed.
\<close>

theorem fake_shifts_correct:
  assumes "fakes_on s" "reg \<in> {Z80_BC, Z80_DE, Z80_HL}"
  shows "runs_as (rl_pair reg) s m reg (rot 2 (carry m) (get16 m reg)) \<and>
    runs_as (rr_pair reg) s m reg (rot 3 (carry m) (get16 m reg)) \<and>
    runs_as (sla_pair reg) s m reg (rot 4 (carry m) (get16 m reg)) \<and>
    runs_as (sra_pair reg) s m reg (rot 5 (carry m) (get16 m reg)) \<and>
    runs_as (sll_pair reg) s m reg (rot 6 (carry m) (get16 m reg)) \<and>
    runs_as (srl_pair reg) s m reg (rot 7 (carry m) (get16 m reg))"
proof -
  note h = pair_halves(1,2) [OF assms(2)] pair_halves(3) [OF assms(2)] pair_halves(3) [OF assms(2), symmetric]
  have l: "runs_as (rot_pair (8 * k) (GetRegister_r16Low reg) (8 * 2) (GetRegister_r16High reg)) s m reg (rot k (carry m) (get16 m reg))"
    if "k \<in> {2, 4, 6}" for k
    by (rule runs_as_rot_pair [OF assms(1) _ _ _ _ _ rot2_left [OF assms(2) that]]) (use that h in auto)
  have r: "runs_as (rot_pair (8 * k) (GetRegister_r16High reg) (8 * 3) (GetRegister_r16Low reg)) s m reg (rot k (carry m) (get16 m reg))"
    if "k \<in> {3, 5, 7}" for k
    by (rule runs_as_rot_pair [OF assms(1) _ _ _ _ _ rot2_right [OF assms(2) that]]) (use that h in auto)
  have "exec_all [0x29] m = Some (put16 Z80_HL (add16 (get16 m Z80_HL) (get16 m Z80_HL) False) m)"
    by (simp add: exec_all_def rp_of_def)
  then have sla: "runs_as (fake [0x29]) s m Z80_HL (rot 4 (carry m) (get16 m Z80_HL))"
    using runs_as_fake [OF assms(1) _ sla_hl] by blast
  show ?thesis
    using l [of 2] l [of 4] l [of 6] r [of 3] r [of 5] r [of 7] sla
    by (simp add: rl_pair_def rr_pair_def sla_pair_def sra_pair_def sll_pair_def srl_pair_def)
qed

text \<open>
  Claim C16: the fake 16 bit sums and differences are right: with fakes enabled, the instructions that are emitted for
  \<open>adc de,rp\<close>, \<open>add de,rp\<close>, \<open>sbc de,rp\<close>, \<open>sub de,rp\<close> and \<open>sub hl,rp\<close>, for each of BC, DE, HL and SP, leave the 16 bit sum
  or difference with its carry in the destination, and every other pair and the memory as they were. This includes
  the case where the source is the pair that the sequence exchanges with the destination.
\<close>

theorem fake_arithmetic_correct:
  assumes "fakes_on s" "rp \<in> set rp_regs"
  shows "runs_as (adc_pairs Z80_DE rp) s m Z80_DE (add16 (get16 m Z80_DE) (get16 m rp) (carry m)) \<and>
    runs_as (add_pairs Z80_DE rp) s m Z80_DE (add16 (get16 m Z80_DE) (get16 m rp) False) \<and>
    runs_as (sbc_pairs Z80_DE rp) s m Z80_DE (sub16 (get16 m Z80_DE) (get16 m rp) (carry m)) \<and>
    runs_as (sub_pairs Z80_DE rp) s m Z80_DE (sub16 (get16 m Z80_DE) (get16 m rp) False) \<and>
    runs_as (sub_pairs Z80_HL rp) s m Z80_HL (sub16 (get16 m Z80_HL) (get16 m rp) False)"
  using runs_as_ADC_ADD [OF assms] runs_as_SUB [OF assms] by simp

definition cpu0 :: cpu where
  "cpu0 = \<lparr>reg8 = (\<lambda>r. word_of_int (0x80 + r)), reg_SP = 0x8000, ram = (\<lambda>_. 0), carry = True\<rparr>"

lemma fakes_on0: "fakes_on asm0"
  by (simp add: fakes_on_def asm0_def syntax0_def)

theorem fake_shifts_correct_witness:
  "runs_as (sra_pair Z80_DE) asm0 cpu0 Z80_DE (0xC141, True)"
proof -
  have "rot 5 (carry cpu0) (get16 cpu0 Z80_DE) = (0xC141, True)"
    by (simp add: rot_def get16_def cpu0_def GetRegister_r16High_def GetRegister_r16Low_def word_cat_eq) 
  then show ?thesis using fake_shifts_correct [OF fakes_on0, of Z80_DE cpu0] by simp
qed

theorem fake_arithmetic_correct_witness:
  "runs_as (sub_pairs Z80_DE Z80_HL) asm0 cpu0 Z80_DE (0xFDFE, True)"
proof -
  have "sub16 (get16 cpu0 Z80_DE) (get16 cpu0 Z80_HL) False = (0xFDFE, True)"
    by (simp add: sub16_def get16_def cpu0_def GetRegister_r16High_def GetRegister_r16Low_def word_cat_eq) 
  then show ?thesis using fake_arithmetic_correct [OF fakes_on0, of Z80_HL cpu0] by (simp add: rp_regs_def)
qed

end
