(* ===== verification/Sj_Subst.thy ===== *)
theory Sj_Subst
  imports Sj_Expr_Term
begin

text \<open>
  The substitution of defines and macro arguments in a line, \<^verbatim>\<open>ReplaceDefine\<close> of parser.cpp, with the macro argument
  table of tables.cpp. A round copies the line into another buffer: comments are dropped, strings are copied, and in
  every identifier the sub-words between underscores, and the combinations of them, are looked up. Rounds are repeated
  while one of them replaced something. A lone underscore between blanks next to a replacement glues its
  neighbours together in the end; it is marked by a line feed, which no line contains.
\<close>

section \<open>Macro arguments\<close>

definition MacroDefine_ReInit :: "unit M" where
  "MacroDefine_ReInit = mod_src (\<lambda>r. r\<lparr>macro_defs := [], macro_used := (\<lambda>_. False)\<rparr>)"

definition AddMacro :: "string \<Rightarrow> string \<Rightarrow> unit M" where
  "AddMacro naam vervanger = mod_src (\<lambda>r. r\<lparr>macro_defs := (naam, vervanger) # macro_defs r,
     macro_used := (macro_used r)(bucket naam := True)\<rparr>)"

text \<open>\<^verbatim>\<open>setdefs\<close> goes back to a tail of the chain, got before by \<^verbatim>\<open>getdefs\<close>.\<close>

definition setdefs :: "(string \<times> string) list \<Rightarrow> unit M" where
  "setdefs ndefs = mod_src (\<lambda>r. r\<lparr>macro_defs := ndefs\<rparr>)"

definition getverv :: "source_state \<Rightarrow> string \<Rightarrow> string option" where
  "getverv r name = (if name = [] \<or> \<not> macro_used r (bucket name) then None else map_of (macro_defs r) name)"

section \<open>Glue\<close>

definition GLUE_TAG :: char where "GLUE_TAG = CHR 10"
definition GLUE_CHAR :: char where "GLUE_CHAR = CHR ''_''"

definition glue_blank :: "char \<Rightarrow> bool" where
  "glue_blank c \<longleftrightarrow> c \<noteq> GLUE_TAG \<and> White c"

text \<open>The underscore between blanks at the end of the output, and at the start of the rest of the input: the
  text with the mark, and whether there is one.\<close>

definition glue_before :: "string \<Rightarrow> string \<times> bool" where
  "glue_before out =
     (let i = length (dropWhile glue_blank (rev out)) in
      if 1 < i \<and> i < length out \<and> out ! (i - 1) = GLUE_CHAR \<and> White (out ! (i - 2))
      then (out[i - 1 := GLUE_TAG], True) else (out, False))"

definition glue_after :: "string \<Rightarrow> string \<times> bool" where
  "glue_after p =
     (let k = length (takeWhile glue_blank p) in
      if 0 < k \<and> chr_at p k = GLUE_CHAR \<and> White (chr_at p (k + 1)) then (p[k := GLUE_TAG], True) else (p, False))"

text \<open>The mark in the input is written into its buffer, which is \<^verbatim>\<open>line\<close> in the first round.\<close>

definition mark_glue :: "bool \<Rightarrow> string \<Rightarrow> string \<Rightarrow> (string \<times> string \<times> bool) M" where
  "mark_glue inLine p out =
     (case glue_before out of (out', g1) \<Rightarrow> case glue_after p of (p', g2) \<Rightarrow> do {
        whenM (inLine \<and> g2) (modify (\<lambda>s. s\<lparr>line := take (length (line s) - length p) (line s) @ p'\<rparr>));
        ret (p', out', g1 \<or> g2) })"

text \<open>Gluing: the blanks around a mark are dropped with it, unless nothing is on one of its sides.\<close>

function join_glue :: "string \<Rightarrow> string \<Rightarrow> string" where
  "join_glue acc [] = acc"
| "join_glue acc (c # cs) =
     (if c \<noteq> GLUE_TAG then join_glue (acc @ [c]) cs
      else let left = rev (dropWhile White (rev acc)); right = dropWhile White (c # cs) in
        if left = [] \<or> right = [] then join_glue (acc @ [GLUE_CHAR]) cs
        else join_glue (left @ [hd right]) (tl right))"
  by pat_completeness auto
termination
  by (relation "measure (\<lambda>(acc, p). length p)")
    (auto simp: less_Suc_eq_le intro: order.trans [OF diff_le_self length_dropWhile_le])

section \<open>Arrays\<close>

fun grow_blanks :: "string \<Rightarrow> string \<Rightarrow> (string \<times> string) M" where
  "grow_blanks nid [] = ret (nid, [])"
| "grow_blanks nid (c # p) = (if White c then do { (nid', p') \<leftarrow> GrowSubIdByExtraChar nid (c # p); grow_blanks nid' p }
     else ret (nid, c # p))"

text \<open>An array define: its size, or the element of an index. The result is the kind (1: a replacement, -1: only
  copied), the text for the output and the rest of the input.\<close>

definition subst_array :: "string list \<Rightarrow> string \<Rightarrow> string \<Rightarrow> string \<Rightarrow> (int \<times> string \<times> string) M" where
  "subst_array a nextSub nid p = do {
     (nid1, p1) \<leftarrow> grow_blanks nid p;
     whenM (cur p1 \<noteq> CHR ''['') (Error ''[ARRAY] Expression error'' (Some nextSub) E_SUPPRESS);
     if take 3 p1 = ''[#]'' then ret (1, fmt_d (int (length a)), drop 3 p1)
     else do {
       modify (\<lambda>s. s\<lparr>IsLabelNotFound := False\<rparr>);
       if cur p1 \<noteq> CHR ''['' then ret (-1, nid1, p1)
       else do {
         (nid2, p2) \<leftarrow> GrowSubIdByExtraChar nid1 p1;
         (r, p3) \<leftarrow> ParseExpressionInSubstitution p2;
         notFound \<leftarrow> gets IsLabelNotFound;
         (case r of
            None \<Rightarrow> ret (-1, nid2, p2)
          | Some val \<Rightarrow>
              if cur p3 \<noteq> CHR '']'' \<or> notFound then ret (-1, nid2, p2)
              else if val < 0 \<or> int (length a) \<le> val then do {
                Error ''[ARRAY] index not in 0..<Size-1> range'' (Some nextSub) E_SUPPRESS;
                ret (1, [], drop 1 p3) }
              else ret (1, a ! nat val, drop 1 p3)) } } }"

section \<open>One round\<close>

text \<open>What the sub-word \<open>nid\<close> is replaced with: 2 a macro argument, 1 a define, 0 nothing.\<close>

definition find_subst :: "bool \<Rightarrow> bool \<Rightarrow> string \<Rightarrow> string \<Rightarrow> string \<Rightarrow> (int \<times> string \<times> string) M" where
  "find_subst isDefDir canSubstituteInside nextSub nid p = do {
     s \<leftarrow> State_Monad.get;
     if macrolabp (labs s) \<noteq> None \<and> canSubstituteInside \<and> getverv (srcs s) nid \<noteq> None
     then ret (2, the (getverv (srcs s) nid), p)
     else if isDefDir \<or> \<not> canSubstituteInside then ret (0, nid, p)
     else do {
       v \<leftarrow> Get nid;
       a \<leftarrow> gets (\<lambda>s. DefArrayList (dg s));
       (case v of
          None \<Rightarrow> ret (0, nid, p)
        | Some ver \<Rightarrow> if a = [] then ret (1, ver, p) else subst_array a nextSub nid p) } }"

text \<open>The loop over the sub-words of an identifier, which is \<open>whole\<close> characters from the end of the input; \<open>nid\<close>: what has been
  grown so far, from \<open>nextSub\<close> on.\<close>

fun sub_loop :: "nat \<Rightarrow> bool \<Rightarrow> bool \<Rightarrow> nat \<Rightarrow> string \<Rightarrow> string \<Rightarrow> string \<Rightarrow> string \<Rightarrow> bool \<Rightarrow> bool \<Rightarrow> (string \<times> string \<times> bool \<times> bool) M" where
  "sub_loop 0 inLine isDefDir whole nid nextSub p out replaced glue = do { out_of_fuel; ret ([], out, replaced, glue) }"
| "sub_loop (Suc n) inLine isDefDir whole nid nextSub p out replaced glue = do {
     (nid1, p1) \<leftarrow> GrowSubId nid p;
     (dr0, ver0, p2) \<leftarrow> find_subst isDefDir (cur nid1 \<noteq> CHR ''_'' \<or> length nextSub = whole) nextSub nid1 p1;
     (dr, ver, p3) \<leftarrow> (if dr0 = 0 \<and> \<not> islabchar (cur p2) then do { (v, q) \<leftarrow> GrowSubId [] nextSub; ret (-1, v, q) }
       else ret (dr0, ver0, p2));
     (p4, out1, g) \<leftarrow> (if 0 < dr then mark_glue inLine p3 out else ret (p3, out, False));
     let replaced' = (replaced \<or> 0 < dr);
     let glue' = (glue \<or> g);
     let out2 = (if dr \<noteq> 0 then out1 @ take (LINEMAX - length out1) ver else out1);
     let nid2 = (if dr \<noteq> 0 then [] else nid1);
     let nextSub2 = (if dr \<noteq> 0 then p4 else nextSub);
     if islabchar (cur p4) then sub_loop n inLine isDefDir whole nid2 nextSub2 p4 out2 replaced' glue'
     else ret (p4, out2, replaced', glue') }"

definition is_define_directive :: "string \<Rightarrow> bool" where
  "is_define_directive p = list_ex (\<lambda>k. fst (cmphstr k False p))
     [''define+'', ''define'', ''undefine'', ''defarray+'', ''defarray'', ''ifdef'', ''ifndef'', ''macro'']"

text \<open>A string from behind its opening delimiter \<open>d\<close>: the copied text with the closing one, and the rest.\<close>

fun copy_string :: "char \<Rightarrow> string \<Rightarrow> string \<times> string" where
  "copy_string d [] = ([], [])"
| "copy_string d (c # p) =
     (if c = NUL then ([], c # p)
      else if c = d then ([c], p)
      else if d = CHR 0x22 \<and> c = CHR 0x5C \<and> cur p \<noteq> NUL then
        (case copy_string d (drop 1 p) of (t, q) \<Rightarrow> (c # cur p # t, q))
      else (case copy_string d p of (t, q) \<Rightarrow> (c # t, q)))"

definition sub_fuel :: "string \<Rightarrow> nat" where
  "sub_fuel p = (length p + 1) * (length p + 2)"

text \<open>The loop over the line: \<open>afterNonAlphaNum\<close> tells whether the character before was no letter or digit.\<close>

fun rd_loop :: "nat \<Rightarrow> bool \<Rightarrow> bool \<Rightarrow> bool \<Rightarrow> string \<Rightarrow> string \<Rightarrow> bool \<Rightarrow> bool \<Rightarrow> (string \<times> bool \<times> bool) M" where
  "rd_loop 0 inLine isDefDir afterNonAlphaNum p out replaced glue = do { out_of_fuel; ret (out, replaced, glue) }"
| "rd_loop (Suc n) inLine isDefDir afterNonAlphaNum p out replaced glue =
     (let c1 = cur p; c2 = chr_at p 1; after = \<not> isalnum c1 in
      if c1 = NUL \<or> LINEMAX \<le> length out then ret (out, replaced, glue)
      else do {
        com \<leftarrow> gets (\<lambda>s. comlin (srcs s));
        if c1 = CHR ''/'' \<and> c2 = CHR ''*'' then do {
          mod_src (\<lambda>r. r\<lparr>comlin := com + 1\<rparr>);
          rd_loop n inLine isDefDir after (drop 2 p) out replaced glue }
        else if com \<noteq> 0 then
          (if c1 = CHR ''*'' \<and> c2 = CHR ''/'' then do {
             mod_src (\<lambda>r. r\<lparr>comlin := com - 1\<rparr>);
             rd_loop n inLine isDefDir after (drop 2 p) (if com = 1 then out @ '' '' else out) replaced glue }
           else rd_loop n inLine isDefDir after (drop 1 p) out replaced glue)
        else if c1 = CHR '';'' \<or> c1 = CHR ''/'' \<and> c2 = CHR ''/'' then do {
          whenM inLine (mod_dg (\<lambda>d. if eolComment d = None then d\<lparr>eolComment := Some p\<rparr> else d));
          ret (out, replaced, glue) }
        else if afterNonAlphaNum \<and> (c1 = CHR 0x22 \<or> c1 = CHR 0x27) then
          (case copy_string c1 (drop 1 p) of (t, q) \<Rightarrow> rd_loop n inLine isDefDir after q (out @ c1 # t) replaced glue)
        else if \<not> isLabelStart p False then rd_loop n inLine isDefDir after (drop 1 p) (out @ [c1]) replaced glue
        else do {
          let isDefDir' = (isDefDir \<or> afterNonAlphaNum \<and> is_define_directive p);
          (p', out', replaced', glue') \<leftarrow> sub_loop (sub_fuel p) inLine isDefDir' (length p) [] p p out replaced glue;
          rd_loop n inLine isDefDir' after p' out' replaced' glue' } })"

text \<open>The end of a round: the result, whether the line was modified, and the glue that is still to be processed.\<close>

definition rd_finish :: "string \<Rightarrow> bool \<Rightarrow> bool \<Rightarrow> (bool \<times> string \<times> bool) M" where
  "rd_finish out replaced glue = do {
     whenM (LINEMAX \<le> length out + 1) (Error ''line too long after macro expansion'' (Some out) E_SUPPRESS);
     if \<not> replaced \<and> glue then ret (True, join_glue [] out, False)
     else do {
       let out' = (if \<not> glue \<and> cur (skip_blanks out) = NUL then [] else out);
       modify (\<lambda>s. s\<lparr>substitutedLine := out'\<rparr>);
       ret (replaced, out', glue) } }"

definition ReplaceDefineInternal :: "bool \<Rightarrow> bool \<Rightarrow> string \<Rightarrow> (bool \<times> string \<times> bool) M" where
  "ReplaceDefineInternal inLine glue p = do {
     (out, replaced, glue') \<leftarrow> rd_loop (length p + 1) inLine False True p [] False glue;
     rd_finish out replaced glue' }"

section \<open>All rounds\<close>

fun replace_rounds :: "nat \<Rightarrow> bool \<Rightarrow> bool \<Rightarrow> string \<Rightarrow> string M" where
  "replace_rounds 0 inLine glue p = do {
     Error ''Unable to finish substitutions, line after last iteration'' (Some p) E_SUPPRESS;
     ret p }"
| "replace_rounds (Suc n) inLine glue p = do {
     (modified, q, glue') \<leftarrow> ReplaceDefineInternal inLine glue p;
     if modified then replace_rounds n False glue' q else ret q }"

text \<open>\<open>inLine\<close>: the argument points into the buffer \<^verbatim>\<open>line\<close>.\<close>

definition ReplaceDefine :: "bool \<Rightarrow> string \<Rightarrow> string M" where
  "ReplaceDefine inLine p = replace_rounds 31 inLine False p"

section \<open>Termination\<close>


lemma islabchar_NUL [simp]: "\<not> islabchar NUL"
  by code_simp

lemma grow_sub_length:
  "length (snd (grow_sub sub us nid p)) \<le> length p"
  "islabchar (cur p) \<Longrightarrow> length (snd (grow_sub sub us nid p)) < length p"
proof -
  show 1: "length (snd (grow_sub sub us nid p)) \<le> length p" for nid p
    by (induction sub us nid p rule: grow_sub.induct) auto
  show "islabchar (cur p) \<Longrightarrow> length (snd (grow_sub sub us nid p)) < length p"
    using 1 by (cases p) (auto simp: less_Suc_eq_le)
qed

lemma inv_id_overflow: "V () \<Longrightarrow> inv fuel_ok (id_overflow nid) V"
  unfolding id_overflow_def by (intro inv_diag_fuel reporting) auto

lemma GrowSubId_ok:
  "inv fuel_ok (GrowSubId nid p) (\<lambda>(nid', p'). length p' \<le> length p \<and> (islabchar (cur p) \<longrightarrow> length p' < length p))"
proof -
  have "inv fuel_ok (case grow_sub sub us nid p of (nid', p') \<Rightarrow> do { id_overflow nid'; ret (nid', p') })
      (\<lambda>(nid', p'). length p' \<le> length p \<and> (islabchar (cur p) \<longrightarrow> length p' < length p))" for sub us
    using grow_sub_length(1) [of sub us nid p] grow_sub_length(2) [of p sub us nid]
    by (auto intro!: inv_bind [OF inv_id_overflow [where V = "\<lambda>_. True"]] inv_ret split: prod.split)
  then show ?thesis
    unfolding GrowSubId_def by (intro inv_bind [OF inv_gets [where V = "\<lambda>_. True"]]) auto
qed

lemma GrowSubIdByExtraChar_ok: "inv fuel_ok (GrowSubIdByExtraChar nid p) (\<lambda>(nid', p'). p' = drop 1 p)"
  unfolding GrowSubIdByExtraChar_def by (intro inv_bind [OF inv_id_overflow [where V = "\<lambda>_. True"]] inv_ret) auto

lemma grow_blanks_ok: "inv fuel_ok (grow_blanks nid p) (\<lambda>(nid', p'). length p' \<le> length p)"
proof (induction p arbitrary: nid)
  case (Cons c p)
  have "inv fuel_ok (grow_blanks n p) (\<lambda>(nid', p'). length p' \<le> Suc (length p))" for n
    by (rule inv_conseq [OF Cons.IH]) auto
  then show ?case
    unfolding grow_blanks.simps length_Cons
    by (intro inv_if inv_bind [OF GrowSubIdByExtraChar_ok] inv_case_prod inv_ret) auto
qed (simp add: inv_ret)

lemma subst_array_ok: "inv fuel_ok (subst_array a nextSub nid p) (\<lambda>(dr, ver, p'). length p' \<le> length p \<and> dr \<noteq> 0)"
proof -
  have e: "inv fuel_ok (ParseExpressionInSubstitution q) (\<lambda>(r, p'). length p' \<le> length q)" for q
    unfolding ParseExpressionInSubstitution_def
    by (rule inv_bind [OF inv_modify [where V = "\<lambda>_. True"]], simp add: fuel_ok_def, simp,
        rule inv_bind [OF shrinkingD(2) [OF shrinking_ParseExpressionNoSyntaxError]],
        rule inv_bind [OF inv_modify [where V = "\<lambda>_. True"]], simp add: fuel_ok_def, simp, rule inv_ret)
      (auto dest: suffix_length_le)
  show ?thesis
    unfolding subst_array_def
    apply (rule inv_bind [OF grow_blanks_ok], rule inv_case_prod)
    apply (rule inv_bind [where V = "\<lambda>_. True"], intro inv_whenM inv_diag_fuel reporting, simp, simp)
    apply (rule inv_if, rule inv_ret, simp)
    apply (rule inv_bind [OF inv_modify [where V = "\<lambda>_. True"]], simp add: fuel_ok_def, simp)
    apply (rule inv_if, rule inv_ret, simp)
    apply (rule inv_bind [OF GrowSubIdByExtraChar_ok], rule inv_case_prod)
    apply (rule inv_bind [OF e], rule inv_case_prod)
    apply (rule inv_bind [OF inv_gets [where V = "\<lambda>_. True"]], simp)
    by (auto intro!: inv_case_option inv_ret inv_bind [OF inv_diag_fuel [OF diag_only_Error, where V = "\<lambda>_. True"]])
qed


lemma Get_ok: "inv fuel_ok (Get nid) (\<lambda>_. True)"
proof -
  have "calm_only (Get nid)" unfolding Get_def by (intro calming; simp split: prod.split; intro impI calming; simp)
  then show ?thesis by (rule inv_calm) simp
qed

lemma find_subst_ok: "inv fuel_ok (find_subst d i nextSub nid p) (\<lambda>(dr, ver, p'). length p' \<le> length p \<and> (dr = 0 \<longrightarrow> p' = p))"
proof -
  have a: "inv fuel_ok (subst_array a nextSub nid p) (\<lambda>(dr, ver, p'). length p' \<le> length p \<and> (dr = 0 \<longrightarrow> p' = p))" for a
    by (rule inv_conseq [OF subst_array_ok]) auto
  show ?thesis
    unfolding find_subst_def
    by (rule inv_bind [OF inv_get [where V = "\<lambda>_. True"]], simp, intro inv_if inv_bind [OF Get_ok]
        inv_bind [OF inv_gets [where V = "\<lambda>_. True"]] inv_case_option a inv_ret) auto
qed

lemma mark_glue_ok: "inv fuel_ok (mark_glue inLine p out) (\<lambda>(p', out', g). length p' = length p)"
proof -
  have "length (fst (glue_after p)) = length p" by (simp add: glue_after_def Let_def)
  then show ?thesis
    unfolding mark_glue_def
    by (intro inv_case_prod inv_bind [where V = "\<lambda>_. True"] inv_whenM inv_modify inv_ret) (auto simp: fuel_ok_def)
qed

text \<open>The fuel of the loop over sub-words: every round that writes starts the next sub-word further on, and every other
  one makes the current one longer.\<close>

lemma sub_loop_ok:
  assumes "length nextSub * (N + 2) + length p < n" "length p \<le> length nextSub" "length nextSub \<le> N"
    "islabchar (cur nextSub)" "islabchar (cur p)"
  shows "inv fuel_ok (sub_loop n inLine d whole nid nextSub p out rep glue) (\<lambda>(p', out', r, g). length p' < length nextSub)"
  using assms
proof (induction n arbitrary: nid nextSub p out rep glue)
  case (Suc n)
  have w: "inv fuel_ok (if dr0 = 0 \<and> \<not> islabchar (cur p2) then do { (v, q) \<leftarrow> GrowSubId [] nextSub; ret (-1, v, q) } else ret (dr0, ver0, p2))
      (\<lambda>(dr, ver, p3). length p3 < length nextSub \<and> (dr = 0 \<longrightarrow> length p3 < length p))"
    if "length p2 < length p" for dr0 :: int and ver0 p2
    using that Suc.prems by (intro inv_if inv_bind [OF GrowSubId_ok] inv_case_prod inv_ret) auto
  have m: "inv fuel_ok (if 0 < dr then mark_glue inLine p3 out else ret (p3, out, False)) (\<lambda>(p', out', g). length p' = length p3)"
    for dr :: int and p3
    by (intro inv_if mark_glue_ok inv_ret) auto
  have s: "inv fuel_ok (sub_loop n inLine d whole nid2 (if dr \<noteq> 0 then p4 else nextSub) p4 out2 r2 g2)
      (\<lambda>(p', out', r, g). length p' < length nextSub)"
    if "length p4 < length nextSub" "dr = 0 \<longrightarrow> length p4 < length p" "islabchar (cur p4)" for nid2 p4 out2 r2 g2 and dr :: int
  proof (cases "dr = 0")
    case True
    have "inv fuel_ok (sub_loop n inLine d whole nid2 nextSub p4 out2 r2 g2) (\<lambda>(p', out', r, g). length p' < length nextSub)"
      using Suc.prems that True by (intro Suc.IH) auto
    then show ?thesis using True by (simp only: simp_thms if_False)
  next
    case False
    have "Suc (length p4) * (N + 2) \<le> length nextSub * (N + 2)"
      by (rule mult_le_mono1) (use that in simp)
    then have "length p4 * (N + 2) + length p4 < n" using Suc.prems that by simp
    then have "inv fuel_ok (sub_loop n inLine d whole nid2 p4 p4 out2 r2 g2) (\<lambda>(p', out', r, g). length p' < length p4)"
      using Suc.prems that by (intro Suc.IH) auto
    then have "inv fuel_ok (sub_loop n inLine d whole nid2 p4 p4 out2 r2 g2) (\<lambda>(p', out', r, g). length p' < length nextSub)"
      by (rule inv_conseq) (use that in auto)
    then show ?thesis using False by (simp only: simp_thms if_True)
  qed
  show ?case
    unfolding sub_loop.simps Let_def
    apply (rule inv_bind [OF GrowSubId_ok], rule inv_case_prod)
    apply (rule inv_bind [OF find_subst_ok], rule inv_case_prod, rule inv_case_prod)
    apply (rule inv_bind [OF w], use Suc.prems in force, rule inv_case_prod, rule inv_case_prod)
    apply (rule inv_bind [OF m], rule inv_case_prod, rule inv_case_prod)
    by (intro inv_if s inv_ret) auto
qed simp

lemma copy_string_length: "length (snd (copy_string d p)) \<le> length p"
  by (induction d p rule: copy_string.induct) (auto split: prod.split)

lemma isLabelStart_labchar: "isLabelStart p False \<Longrightarrow> islabchar (cur p)"
  by (auto simp: isLabelStart_def isLabelStart0_def islabchar_def isalnum_def)

lemma rd_loop_ok:
  assumes "length p < n"
  shows "inv fuel_ok (rd_loop n inLine d nan p out rep glue) (\<lambda>_. True)"
  using assms
proof (induction n arbitrary: d nan p out rep glue)
  case (Suc n)
  have sub: "inv fuel_ok (sub_loop (sub_fuel p) inLine d' (length p) [] p p out rep glue) (\<lambda>(p', out', r, g). length p' < length p)"
    if "isLabelStart p False" for d'
    by (rule sub_loop_ok [where N = "length p"]) (use isLabelStart_labchar [OF that] in \<open>simp_all add: sub_fuel_def\<close>)
  have next_loop: "inv fuel_ok (rd_loop n inLine d' nan' q out' rep' glue') (\<lambda>_. True)"
    if "cur p \<noteq> NUL" "length q < length p" for d' nan' q out' rep' glue'
    using Suc that by simp
  have p: "0 < length p" if "cur p \<noteq> NUL" using that by auto
  show ?case
    unfolding rd_loop.simps Let_def
    apply (rule inv_if, rule inv_ret, simp)
    apply (rule inv_bind [OF inv_gets [where V = "\<lambda>_. True"]], simp)
    apply (intro inv_if inv_bind [OF inv_modify [where V = "\<lambda>_. True"]] inv_case_prod next_loop inv_ret
        inv_bind [OF inv_whenM [OF inv_modify [where V = "\<lambda>_. True"]]] inv_bind [OF sub])
    using p copy_string_length [of "cur p" "drop 1 p"] by (auto simp: fuel_ok_def simp del: length_greater_0_conv)
qed simp


lemma ReplaceDefineInternal_ok: "inv fuel_ok (ReplaceDefineInternal inLine glue p) (\<lambda>_. True)"
  unfolding ReplaceDefineInternal_def rd_finish_def Let_def
  by (rule inv_bind [OF rd_loop_ok], simp)
    (intro inv_case_prod inv_bind [OF inv_whenM [OF inv_diag_fuel [OF diag_only_Error, where V = "\<lambda>_. True"]]]
      inv_if inv_ret inv_bind [OF inv_modify [where V = "\<lambda>_. True"]]; simp add: fuel_ok_def)

lemma replace_rounds_ok: "inv fuel_ok (replace_rounds n inLine glue p) (\<lambda>_. True)"
proof (induction n arbitrary: inLine glue p)
  case 0
  show ?case by (auto intro!: inv_bind [OF inv_diag_fuel [OF diag_only_Error, where V = "\<lambda>_. True"]] inv_ret)
next
  case (Suc n)
  show ?case by (auto intro!: inv_bind [OF ReplaceDefineInternal_ok] inv_case_prod inv_ret Suc.IH)
qed

text \<open>
  Claim C36. The substitution of a line comes to an end: on every text, in every state, with any define table (also
  with defines that contain themselves) and any array index expressions, none of its loops runs out of fuel. The rounds
  are limited by the code itself.
\<close>

theorem ReplaceDefine_terminates:
  assumes "halted s \<noteq> OutOfFuel"
  shows "halted (snd (run_state (ReplaceDefine inLine p) s)) \<noteq> OutOfFuel"
  using replace_rounds_ok [of 31 inLine False p] assms by (simp add: ReplaceDefine_def inv_def fuel_ok_def)

theorem ReplaceDefine_terminates_witness:
  "halted (snd (run_state (ReplaceDefine True ''loop arr[1 foo_bar /* ; x'')
     (snd (run_state (Add ''loop'' ''loop loop'' []) asm0)))) \<noteq> OutOfFuel"
proof -
  have "halted (snd (run_state (Add ''loop'' ''loop loop'' []) asm0)) \<noteq> OutOfFuel" by code_simp
  then show ?thesis by (rule ReplaceDefine_terminates)
qed

end
