(* ===== verification/Sj_Subst_Spec.thy ===== *)
theory Sj_Subst_Spec
  imports Sj_Subst
begin

text \<open>
  Substitution against a specification: a line is a sequence of words, strings and other characters, and
  the substitution replaces exactly the words that have a value, whole words only, nothing inside strings.
  The specification covers lines without comments and underscores; sub-words and glue are the subject of the model alone.
\<close>

section \<open>Lines as tokens\<close>

datatype token = Word string | Quoted char string | Sep char

fun tok_text :: "token \<Rightarrow> string" where
  "tok_text (Word w) = w"
| "tok_text (Quoted d t) = d # t @ [d]"
| "tok_text (Sep c) = [c]"

definition line_text :: "token list \<Rightarrow> string" where
  "line_text ts = concat (map tok_text ts)"

fun quoted_ok :: "char \<Rightarrow> string \<Rightarrow> bool" where
  "quoted_ok d [] = True"
| "quoted_ok d [c] = (c \<noteq> NUL \<and> c \<noteq> d \<and> \<not> (d = CHR 0x22 \<and> c = CHR 0x5C))"
| "quoted_ok d (c # e # t) =
     (c \<noteq> NUL \<and> c \<noteq> d \<and> (if d = CHR 0x22 \<and> c = CHR 0x5C then e \<noteq> NUL \<and> quoted_ok d t else quoted_ok d (e # t)))"

definition word_ok :: "string \<Rightarrow> bool" where
  "word_ok w \<longleftrightarrow> w \<noteq> [] \<and> isalpha (hd w) \<and> (\<forall>c \<in> set w. islabchar c \<and> c \<noteq> CHR ''_'')"

text \<open>The tokens are those that the line is read as: words are maximal and no directive on defines, a quote
  starts a string unless it is behind a letter or digit, nothing starts a comment.\<close>

fun wf_line :: "bool \<Rightarrow> token list \<Rightarrow> bool" where
  "wf_line nan [] = True"
| "wf_line nan (Word w # ts) = (word_ok w \<and> \<not> islabchar (cur (line_text ts)) \<and>
     \<not> (nan \<and> is_define_directive (w @ line_text ts)) \<and> wf_line False ts)"
| "wf_line nan (Quoted d t # ts) = (nan \<and> (d = CHR 0x22 \<or> d = CHR 0x27) \<and> quoted_ok d t \<and> wf_line True ts)"
| "wf_line nan (Sep c # ts) = (c \<noteq> NUL \<and> \<not> isalpha c \<and> c \<noteq> CHR ''_'' \<and> c \<noteq> CHR '';'' \<and>
     \<not> (c = CHR ''/'' \<and> (cur (line_text ts) = CHR ''/'' \<or> cur (line_text ts) = CHR ''*'')) \<and>
     \<not> (nan \<and> (c = CHR 0x22 \<or> c = CHR 0x27)) \<and> wf_line (\<not> isalnum c) ts)"

section \<open>What is substituted\<close>

definition word_value :: "asm \<Rightarrow> string \<Rightarrow> string option" where
  "word_value s w =
     (case (if macrolabp (labs s) = None then None else getverv (srcs s) w) of
        Some v \<Rightarrow> Some v
      | None \<Rightarrow> map_option (\<lambda>(_, v, _). v) (def_lookup (defs (dg s)) w))"

definition plain_word :: "asm \<Rightarrow> string \<Rightarrow> bool" where
  "plain_word s w \<longleftrightarrow> (case word_value s w of Some v \<Rightarrow> CHR ''_'' \<notin> set v | None \<Rightarrow> True) \<and>
     (case def_lookup (defs (dg s)) w of Some (_, _, nss) \<Rightarrow> nss = [] | None \<Rightarrow> True)"

fun tok_subst :: "asm \<Rightarrow> token \<Rightarrow> string" where
  "tok_subst s (Word w) = (case word_value s w of Some v \<Rightarrow> v | None \<Rightarrow> w)"
| "tok_subst s t = tok_text t"

definition line_subst :: "asm \<Rightarrow> token list \<Rightarrow> string" where
  "line_subst s ts = concat (map (tok_subst s) ts)"

fun has_value :: "asm \<Rightarrow> token \<Rightarrow> bool" where
  "has_value s (Word w) = (word_value s w \<noteq> None)"
| "has_value s t = False"

text \<open>The array list of the last define that was looked up and the result for the listing are all that changes.\<close>

definition looked_up :: "asm \<Rightarrow> asm \<Rightarrow> bool" where
  "looked_up s s' \<longleftrightarrow> (\<exists>a l. s' = s\<lparr>dg := (dg s)\<lparr>DefArrayList := a\<rparr>, substitutedLine := l\<rparr>)"

lemma looked_up_refl: "looked_up s s"
  unfolding looked_up_def by (rule exI [of _ "DefArrayList (dg s)"], rule exI [of _ "substitutedLine s"]) simp

lemma looked_up_array: "looked_up s (s\<lparr>dg := (dg s)\<lparr>DefArrayList := a\<rparr>\<rparr>)"
  unfolding looked_up_def by (rule exI [of _ a], rule exI [of _ "substitutedLine s"]) simp

lemma looked_up_trans: "looked_up s t \<Longrightarrow> looked_up t u \<Longrightarrow> looked_up s u"
  unfolding looked_up_def by fastforce

interpretation lu: io_preorder looked_up
  by unfold_locales (rule looked_up_refl, erule looked_up_trans)

lemma looked_upD:
  assumes "looked_up s s'"
  shows "word_value s' = word_value s" "srcs s' = srcs s" "labs s' = labs s" "opts s' = opts s"
    "defs (dg s') = defs (dg s)" "plain_word s' = plain_word s" "eolComment (dg s') = eolComment (dg s)"
proof -
  show w: "srcs s' = srcs s" "labs s' = labs s" "opts s' = opts s" "defs (dg s') = defs (dg s)"
    "eolComment (dg s') = eolComment (dg s)"
    using assms by (auto simp: looked_up_def)
  show "word_value s' = word_value s" by (simp only: fun_eq_iff word_value_def w simp_thms)
  then show "plain_word s' = plain_word s" by (simp add: fun_eq_iff plain_word_def w)
qed

lemma line_subst_looked_up:
  assumes "looked_up s s'"
  shows "line_subst s' ts = line_subst s ts" "has_value s' t = has_value s t"
proof -
  have "tok_subst s' t = tok_subst s t" for t by (cases t) (simp_all add: looked_upD [OF assms])
  then have "tok_subst s' = tok_subst s" by blast
  then show "line_subst s' ts = line_subst s ts" by (simp add: line_subst_def)
  show "has_value s' t = has_value s t" by (cases t) (simp_all add: looked_upD [OF assms])
qed

section \<open>No glue\<close>

definition glue_free :: "string \<Rightarrow> bool" where
  "glue_free out \<longleftrightarrow> cur (dropWhile glue_blank (rev out)) \<noteq> CHR ''_''"

lemma glue_before_free:
  assumes "glue_free out"
  shows "glue_before out = (out, False)"
proof -
  let ?d = "dropWhile glue_blank (rev out)"
  have "out ! (length ?d - 1) \<noteq> CHR ''_''" if "1 < length ?d"
  proof -
    have "out = rev ?d @ rev (takeWhile glue_blank (rev out))"
      by (metis rev_append rev_rev_ident takeWhile_dropWhile_id)
    then have "out ! (length ?d - 1) = rev ?d ! (length ?d - 1)"
      using that by (metis One_nat_def diff_Suc_less dual_order.strict_trans length_rev less_numeral_extra(1) nth_append)
    also have "\<dots> = hd ?d" using that by (cases ?d) (simp_all add: nth_append)
    also have "\<dots> \<noteq> CHR ''_''" using assms that by (cases ?d) (simp_all add: glue_free_def)
    finally show ?thesis .
  qed
  then show ?thesis by (auto simp: glue_before_def Let_def GLUE_CHAR_def)
qed

lemma glue_free_append:
  assumes "glue_free out" "CHR ''_'' \<notin> set x"
  shows "glue_free (out @ x)"
proof (cases "\<forall>c \<in> set x. glue_blank c")
  case True
  then have "dropWhile glue_blank (rev (out @ x)) = dropWhile glue_blank (rev out)"
    by (simp, intro dropWhile_append2) (use True in auto)
  with assms(1) show ?thesis by (simp add: glue_free_def)
next
  case False
  then have d: "dropWhile glue_blank (rev x @ rev out) = dropWhile glue_blank (rev x) @ rev out"
    using dropWhile_append1 [of _ "rev x" glue_blank "rev out"] by auto
  have "dropWhile glue_blank (rev x) \<noteq> []" using False by (simp add: dropWhile_eq_Nil_conv)
  then have "cur (dropWhile glue_blank (rev x)) \<in> set x"
    using set_dropWhileD [of _ glue_blank "rev x"] by (cases "dropWhile glue_blank (rev x)") auto
  then show ?thesis
    using assms(2) \<open>dropWhile glue_blank (rev x) \<noteq> []\<close> by (cases "dropWhile glue_blank (rev x)") (auto simp: glue_free_def d)
qed

lemma quote_not_blank: "\<not> glue_blank CHR 0x22" "\<not> glue_blank CHR 0x27"
  by code_simp+

lemma glue_free_quoted: "d = CHR 0x22 \<or> d = CHR 0x27 \<Longrightarrow> glue_free (out @ d # t @ [d])"
  by (auto simp: glue_free_def quote_not_blank)

lemma line_text_simps [simp]:
  "line_text [] = []" "line_text (t # ts) = tok_text t @ line_text ts"
  by (simp_all add: line_text_def)

lemma line_subst_simps [simp]:
  "line_subst s [] = []" "line_subst s (t # ts) = tok_subst s t @ line_subst s ts"
  by (simp_all add: line_subst_def)

text \<open>Behind the blanks at the start of a line is no underscore.\<close>

lemma no_underscore: "wf_line nan ts \<Longrightarrow> cur (dropWhile glue_blank (line_text ts)) \<noteq> CHR ''_''"
proof (induction nan ts rule: wf_line.induct)
  case (2 nan w ts)
  have "glue_blank c \<Longrightarrow> \<not> islabchar c" for c
    by (auto simp: glue_blank_def White_def islabchar_def ctype; simp add: ord_def)
  with 2 show ?case by (cases w) (auto simp: word_ok_def)
next
  case (3 nan d t ts)
  then show ?case by (auto simp: quote_not_blank)
qed auto

lemma glue_after_line: "wf_line nan ts \<Longrightarrow> glue_after (line_text ts) = (line_text ts, False)"
proof -
  have "chr_at p (length (takeWhile P p)) = cur (dropWhile P p)" for p and P :: "char \<Rightarrow> bool"
    by (induction p) auto
  then show "wf_line nan ts \<Longrightarrow> ?thesis"
    using no_underscore by (auto simp: glue_after_def Let_def GLUE_CHAR_def)
qed


section \<open>One round\<close>

lemma islabchar_underscore: "islabchar CHR ''_''"
  by code_simp

lemma copy_string_step:
  "d \<noteq> NUL \<Longrightarrow> copy_string d (d # p) = ([d], p)"
  "c \<noteq> NUL \<Longrightarrow> c \<noteq> d \<Longrightarrow> \<not> (d = CHR 0x22 \<and> c = CHR 0x5C) \<Longrightarrow>
    copy_string d (c # p) = (case copy_string d p of (t, q) \<Rightarrow> (c # t, q))"
  "e \<noteq> NUL \<Longrightarrow> copy_string CHR 0x22 (CHR 0x5C # e # p) = (case copy_string CHR 0x22 p of (t, q) \<Rightarrow> (CHR 0x5C # e # t, q))"
  by (simp_all) auto

lemma copy_string_quoted:
  assumes "quoted_ok d t" "d = CHR 0x22 \<or> d = CHR 0x27"
  shows "copy_string d (t @ d # r) = (t @ [d], r)"
  using assms
proof (induction d t rule: quoted_ok.induct)
  case (1 d)
  then have "d \<noteq> NUL" by auto
  then show ?case by (simp add: copy_string_step(1) del: copy_string.simps)
next
  case (2 d c)
  then have "d \<noteq> NUL" "c \<noteq> NUL" "c \<noteq> d" "\<not> (d = CHR 0x22 \<and> c = CHR 0x5C)" by auto
  then show ?case by (simp add: copy_string_step(1,2) del: copy_string.simps)
next
  case (3 d c e t)
  show ?case
  proof (cases "d = CHR 0x22 \<and> c = CHR 0x5C")
    case True
    then have "e \<noteq> NUL" "copy_string CHR 0x22 (t @ CHR 0x22 # r) = (t @ [CHR 0x22], r)" using 3 by auto
    then show ?thesis using True by (simp add: copy_string_step(3) del: copy_string.simps)
  next
    case False
    then have "c \<noteq> NUL" "c \<noteq> d" "copy_string d (e # t @ d # r) = (e # t @ [d], r)" using 3 by auto
    then show ?thesis using False by (simp add: copy_string_step(2) del: copy_string.simps)
  qed
qed

lemma grow_sub_word:
  assumes "\<forall>c \<in> set w. islabchar c \<and> c \<noteq> CHR ''_''" "\<not> islabchar (cur r)"
  shows "grow_sub sub False nid (w @ r) = (nid @ w, r)"
proof -
  have r: "cur r \<noteq> CHR ''_''" using assms(2) by (metis islabchar_underscore)
  show ?thesis
    using assms(1)
  proof (induction w arbitrary: nid)
    case Nil
    then show ?case using assms(2) by (cases r) auto
  next
    case (Cons c w)
    then show ?case using r by (cases w) auto
  qed
qed

lemma GrowSubId_word:
  assumes "word_ok w" "\<not> islabchar (cur r)" "length w < LINEMAX"
  shows "run_state (GrowSubId [] (w @ r)) s = ((w, r), s)"
proof -
  have "cur (w @ r) \<noteq> CHR ''_''" using assms(1) by (cases w) (auto simp: word_ok_def)
  moreover have "grow_sub sub False [] (w @ r) = (w, r)" for sub
    using grow_sub_word [of w r sub "[]"] assms(1,2) by (simp add: word_ok_def)
  ultimately show ?thesis using assms(3) by (simp add: GrowSubId_def id_overflow_def)
qed

lemma find_subst_word:
  assumes "word_ok w" "plain_word s w"
  obtains s' dr where "run_state (find_subst False True p w r) s = ((dr, case word_value s w of Some v \<Rightarrow> v | None \<Rightarrow> w, r), s')"
    "looked_up s s'" "0 < dr \<longleftrightarrow> word_value s w \<noteq> None" "dr \<noteq> 0 \<longrightarrow> 0 < dr"
proof -
  have w: "w \<noteq> []" "chr_at w 1 \<noteq> CHR ''_''"
    using assms(1) by (cases w; cases "tl w"; force simp: word_ok_def)+
  let ?s = "s\<lparr>dg := (dg s)\<lparr>DefArrayList := []\<rparr>\<rparr>"
  have lu: "looked_up s ?s" by (rule looked_up_array)
  have d: "dg s\<lparr>DefArrayList := []\<rparr>\<lparr>DefArrayList := []\<rparr> = dg s\<lparr>DefArrayList := []\<rparr>" by simp
  show thesis
  proof (cases "macrolabp (labs s) \<noteq> None \<and> getverv (srcs s) w \<noteq> None")
    case True
    then show thesis using that [of 2 s] looked_up_refl by (auto simp: find_subst_def word_value_def State_Monad.get_def)
  next
    case False
    show thesis
    proof (cases "def_lookup (defs (dg s)) w")
      case None
      then show thesis using that [of 0 ?s] False lu w
        by (auto simp: find_subst_def word_value_def State_Monad.get_def Get_def)
    next
      case (Some e)
      obtain n v nss where e: "e = (n, v, nss)" by (cases e)
      then have "nss = []" using assms(2) Some by (simp add: plain_word_def)
      then show thesis using that [of 1 ?s] False lu w Some e
        by (auto simp: find_subst_def word_value_def State_Monad.get_def Get_def)
    qed
  qed
qed

lemma sub_loop_word:
  assumes "word_ok w" "plain_word s w" "wf_line False ts" "\<not> islabchar (cur (line_text ts))"
    "glue_free out" "length w < LINEMAX" "length out + length (tok_subst s (Word w)) \<le> LINEMAX"
  obtains s' where "run_state (sub_loop (Suc n) inLine False (length (w @ line_text ts)) [] (w @ line_text ts) (w @ line_text ts) out rep False) s =
    ((line_text ts, out @ tok_subst s (Word w), rep \<or> word_value s w \<noteq> None, False), s')" "looked_up s s'"
proof -
  let ?r = "line_text ts" and ?p = "w @ line_text ts"
  obtain s' dr where f: "run_state (find_subst False True ?p w ?r) s = ((dr, case word_value s w of Some v \<Rightarrow> v | None \<Rightarrow> w, ?r), s')"
    "looked_up s s'" "0 < dr \<longleftrightarrow> word_value s w \<noteq> None" "dr \<noteq> 0 \<longrightarrow> 0 < dr"
    using find_subst_word [OF assms(1,2)] by blast
  have c: "cur w \<noteq> CHR ''_''" using assms(1) by (cases w) (auto simp: word_ok_def)
  have g: "run_state (mark_glue inLine ?r out) t = ((?r, out, False), t)" for t
    using glue_before_free [OF assms(5)] glue_after_line [OF assms(3)] by (simp add: mark_glue_def)
  have grow: "run_state (GrowSubId [] ?p) t = ((w, ?r), t)" for t
    by (rule GrowSubId_word [OF assms(1,4,6)])
  show thesis
  proof (rule that [OF _ f(2)], cases "word_value s w")
    case None
    then show "run_state (sub_loop (Suc n) inLine False (length ?p) [] ?p ?p out rep False) s =
      ((?r, out @ tok_subst s (Word w), rep \<or> word_value s w \<noteq> None, False), s')"
      using f assms(4,7) c by (simp add: grow g)
  next
    case (Some v)
    then show "run_state (sub_loop (Suc n) inLine False (length ?p) [] ?p ?p out rep False) s =
      ((?r, out @ tok_subst s (Word w), rep \<or> word_value s w \<noteq> None, False), s')"
      using f assms(4,7) c by (simp add: grow g)
  qed
qed


definition plain_line :: "asm \<Rightarrow> token list \<Rightarrow> bool" where
  "plain_line s ts \<longleftrightarrow> (\<forall>w. Word w \<in> set ts \<longrightarrow> plain_word s w)"

lemma word_start:
  assumes "word_ok w"
  shows "isLabelStart (w @ p) False" "isalnum (cur (w @ p))" "cur (w @ p) \<noteq> NUL"
    "cur (w @ p) \<notin> {CHR ''/'', CHR '';'', CHR 0x22, CHR 0x27}"
proof -
  obtain c v where w: "w = c # v" "isalpha c" using assms by (cases w) (auto simp: word_ok_def)
  have "\<not> isalpha NUL" "\<not> isalpha CHR ''/''" "\<not> isalpha CHR '';''" "\<not> isalpha CHR 0x22" "\<not> isalpha CHR 0x27"
    by code_simp+
  then show "isLabelStart (w @ p) False" "isalnum (cur (w @ p))" "cur (w @ p) \<noteq> NUL"
    "cur (w @ p) \<notin> {CHR ''/'', CHR '';'', CHR 0x22, CHR 0x27}"
    using w by (auto simp: isLabelStart_def isLabelStart0_def isalnum_def)
qed

lemma rd_loop_line:
  assumes "comlin (srcs s) = 0" "wf_line nan ts" "plain_line s ts" "glue_free out" "length (line_text ts) < n"
    "length (line_text ts) < LINEMAX" "length out + length (line_subst s ts) < LINEMAX"
  shows "\<exists>s'. run_state (rd_loop n inLine False nan (line_text ts) out rep False) s =
      ((out @ line_subst s ts, rep \<or> (\<exists>t \<in> set ts. has_value s t), False), s') \<and> looked_up s s'"
  using assms
proof (induction nan ts arbitrary: n s out rep rule: wf_line.induct)
  case (1 nan)
  then show ?case by (cases n) (auto intro: looked_up_refl)
next
  case (2 nan w ts)
  then obtain m where n: "n = Suc m" by (cases n) auto
  let ?r = "line_text ts" and ?p = "w @ line_text ts"
  have ok: "word_ok w" "\<not> islabchar (cur ?r)" "plain_word s w" "wf_line False ts"
    using "2.prems" by (auto simp: plain_line_def)
  have f: "sub_fuel ?p = Suc (sub_fuel ?p - 1)" by (simp add: sub_fuel_def)
  have len: "length w < LINEMAX" "length out + length (tok_subst s (Word w)) \<le> LINEMAX" using "2.prems" by auto
  obtain s1 where r1: "run_state (sub_loop (sub_fuel ?p) inLine False (length ?p) [] ?p ?p out rep False) s =
    ((?r, out @ tok_subst s (Word w), rep \<or> word_value s w \<noteq> None, False), s1)" "looked_up s s1"
    using sub_loop_word [OF ok(1,3,4,2) "2.prems"(4) len] f by metis
  note l = looked_upD [OF r1(2)] line_subst_looked_up [OF r1(2)]
  have under: "CHR ''_'' \<notin> set (tok_subst s (Word w))"
    using ok(1,3) by (auto simp: plain_word_def word_ok_def split: option.splits)
  have "w \<noteq> []" using ok(1) by (simp add: word_ok_def)
  then have "\<exists>s'. run_state (rd_loop m inLine False False ?r (out @ tok_subst s (Word w)) (rep \<or> word_value s w \<noteq> None) False) s1 =
      (((out @ tok_subst s (Word w)) @ line_subst s1 ts, (rep \<or> word_value s w \<noteq> None) \<or> (\<exists>t \<in> set ts. has_value s1 t), False), s') \<and> looked_up s1 s'"
    using "2.prems" n glue_free_append [OF "2.prems"(4) under]
    by (intro "2.IH") (auto simp: l plain_line_def length_greater_0_conv [symmetric] simp del: length_greater_0_conv)
  then obtain s2 where r2: "run_state (rd_loop m inLine False False ?r (out @ tok_subst s (Word w)) (rep \<or> word_value s w \<noteq> None) False) s1 =
      ((out @ line_subst s (Word w # ts), rep \<or> (\<exists>t \<in> set (Word w # ts). has_value s t), False), s2)" "looked_up s1 s2"
    by (auto simp: l)
  have d: "(nan \<and> is_define_directive ?p) = False" using "2.prems" by simp
  have "run_state (rd_loop n inLine False nan ?p out rep False) s =
      run_state (rd_loop m inLine False False ?r (out @ tok_subst s (Word w)) (rep \<or> word_value s w \<noteq> None) False) s1"
    using "2.prems"(1,7) word_start [OF ok(1), of ?r] r1(1) d unfolding n
    by (cases nan) (simp_all add: Let_def del: sub_loop.simps)
  then show ?case using r2 looked_up_trans [OF r1(2) r2(2)] by auto
next
  case (3 nan d t ts)
  then obtain m where n: "n = Suc m" by (cases n) auto
  have d: "d = CHR 0x22 \<or> d = CHR 0x27" "nan" "quoted_ok d t" "wf_line True ts" using "3.prems" by auto
  have alnum: "\<not> isalnum CHR 0x22" "\<not> isalnum CHR 0x27" by code_simp+
  have "\<exists>s'. run_state (rd_loop m inLine False True (line_text ts) (out @ d # t @ [d]) rep False) s =
      (((out @ d # t @ [d]) @ line_subst s ts, rep \<or> (\<exists>t \<in> set ts. has_value s t), False), s') \<and> looked_up s s'"
    using "3.prems" n glue_free_quoted [OF d(1)] by (intro "3.IH") (auto simp: plain_line_def)
  moreover have "run_state (rd_loop n inLine False nan (line_text (Quoted d t # ts)) out rep False) s =
      run_state (rd_loop m inLine False True (line_text ts) (out @ d # t @ [d]) rep False) s"
    using d(1)
  proof
    assume "d = CHR 0x22"
    then show ?thesis using "3.prems"(1,7) d(2) copy_string_quoted [OF d(3,1)] alnum unfolding n
      by (simp add: Let_def del: copy_string.simps)
  next
    assume "d = CHR 0x27"
    then show ?thesis using "3.prems"(1,7) d(2) copy_string_quoted [OF d(3,1)] alnum unfolding n
      by (simp add: Let_def del: copy_string.simps)
  qed
  ultimately show ?case by auto
next
  case (4 nan c ts)
  then obtain m where n: "n = Suc m" by (cases n) auto
  have c: "c \<noteq> NUL" "\<not> isalpha c" "c \<noteq> CHR ''_''" "c \<noteq> CHR '';''" "\<not> (nan \<and> (c = CHR 0x22 \<or> c = CHR 0x27))"
    "\<not> (c = CHR ''/'' \<and> (cur (line_text ts) = CHR ''/'' \<or> cur (line_text ts) = CHR ''*''))"
    using "4.prems" by auto
  have "\<exists>s'. run_state (rd_loop m inLine False (\<not> isalnum c) (line_text ts) (out @ [c]) rep False) s =
      (((out @ [c]) @ line_subst s ts, rep \<or> (\<exists>t \<in> set ts. has_value s t), False), s') \<and> looked_up s s'"
    using "4.prems" n glue_free_append [OF "4.prems"(4), of "[c]"] c(3) by (intro "4.IH") (auto simp: plain_line_def)
  moreover have "chr_at (c # line_text ts) 1 = cur (line_text ts)" by (cases "line_text ts") auto
  then have "run_state (rd_loop n inLine False nan (line_text (Sep c # ts)) out rep False) s =
      run_state (rd_loop m inLine False (\<not> isalnum c) (line_text ts) (out @ [c]) rep False) s"
    using "4.prems"(1,7) c unfolding n by (auto simp: Let_def isLabelStart_def isLabelStart0_def)
  ultimately show ?case by auto
qed


definition unless_blank :: "string \<Rightarrow> string" where
  "unless_blank t = (if cur (skip_blanks t) = NUL then [] else t)"

lemma round_line:
  assumes "comlin (srcs s) = 0" "wf_line True ts" "plain_line s ts"
    "length (line_text ts) < LINEMAX" "length (line_subst s ts) + 1 < LINEMAX"
  shows "\<exists>s'. run_state (ReplaceDefineInternal inLine False (line_text ts)) s =
      ((\<exists>t \<in> set ts. has_value s t, unless_blank (line_subst s ts), False), s') \<and>
    looked_up s s' \<and> substitutedLine s' = unless_blank (line_subst s ts)"
proof -
  have g: "glue_free []" by (simp add: glue_free_def)
  obtain s1 where r: "run_state (rd_loop (length (line_text ts) + 1) inLine False True (line_text ts) [] False False) s =
      ((line_subst s ts, \<exists>t \<in> set ts. has_value s t, False), s1)" "looked_up s s1"
    using rd_loop_line [where n = "length (line_text ts) + 1" and out = "[]" and rep = False, OF assms(1-3) g] assms(4,5) by auto
  let ?s = "s1\<lparr>substitutedLine := unless_blank (line_subst s ts)\<rparr>"
  have "run_state (ReplaceDefineInternal inLine False (line_text ts)) s =
      ((\<exists>t \<in> set ts. has_value s t, unless_blank (line_subst s ts), False), ?s)"
    using assms(5) r(1) by (simp add: ReplaceDefineInternal_def rd_finish_def unless_blank_def Let_def)
  moreover have "looked_up s ?s" using r(2) unfolding looked_up_def by fastforce
  ultimately show ?thesis by auto
qed

lemma line_subst_none: "\<forall>t \<in> set ts. \<not> has_value s t \<Longrightarrow> line_subst s ts = line_text ts"
proof (induction ts)
  case (Cons t ts)
  then show ?case by (cases t) auto
qed simp

lemma looked_up_result:
  assumes "looked_up s s'" "substitutedLine s' = r"
  shows "\<exists>a. s' = s\<lparr>dg := (dg s)\<lparr>DefArrayList := a\<rparr>, substitutedLine := r\<rparr>"
  using assms by (auto simp: looked_up_def)

text \<open>
  Claim C6. Substitution replaces whole words and nothing else. For a line of words, strings and other characters,
  without comments, underscores and arrays, whose values need no further substitution: the result is the line with
  every word that is a macro argument or a define replaced by its value, macro arguments first; strings
  and all other characters are unchanged (a blank result is the empty line); and only the result for the
  listing and the array list of the last lookup change in the state.
\<close>

theorem ReplaceDefine_wordwise:
  assumes "comlin (srcs s) = 0" "wf_line True ts" "plain_line s ts" "length (line_text ts) < LINEMAX"
    "line_text us = line_subst s ts" "wf_line True us" "plain_line s us" "\<forall>t \<in> set us. \<not> has_value s t"
    "length (line_text us) + 1 < LINEMAX"
  shows "\<exists>a. run_state (ReplaceDefine inLine (line_text ts)) s =
    (unless_blank (line_subst s ts),
     s\<lparr>dg := (dg s)\<lparr>DefArrayList := a\<rparr>, substitutedLine := unless_blank (line_subst s ts)\<rparr>)"
proof -
  obtain s1 where r1: "run_state (ReplaceDefineInternal inLine False (line_text ts)) s =
      ((\<exists>t \<in> set ts. has_value s t, unless_blank (line_subst s ts), False), s1)"
    "looked_up s s1" "substitutedLine s1 = unless_blank (line_subst s ts)"
    using round_line [OF assms(1-4)] assms(5,9) by auto
  note l = looked_upD [OF r1(2)] line_subst_looked_up [OF r1(2)]
  define vs where "vs = (if cur (skip_blanks (line_text us)) = NUL then [] else us)"
  have vs: "wf_line True vs" "plain_line s1 vs" "\<forall>t \<in> set vs. \<not> has_value s1 t" "length (line_text vs) + 1 < LINEMAX"
      "line_text vs = unless_blank (line_subst s ts)"
    using assms(5-9) by (auto simp: vs_def l plain_line_def unless_blank_def LINEMAX_def)
  have idem: "unless_blank (line_text vs) = line_text vs" unfolding vs(5) by (simp add: unless_blank_def)
  obtain s2 where r2: "run_state (ReplaceDefineInternal False False (line_text vs)) s1 = ((False, line_text vs, False), s2)"
    "looked_up s1 s2" "substitutedLine s2 = line_text vs"
    using round_line [OF _ vs(1,2)] vs(3,4) assms(1) by (auto simp: l line_subst_none idem)
  have "\<exists>s'. run_state (replace_rounds (Suc (Suc n)) inLine False (line_text ts)) s = (unless_blank (line_subst s ts), s') \<and>
    looked_up s s' \<and> substitutedLine s' = unless_blank (line_subst s ts)" for n
    using r1 r2 looked_up_trans [OF r1(2) r2(2)] vs(5) by (cases "\<exists>t \<in> set ts. has_value s t") auto
  from this [of 29] show ?thesis
    unfolding ReplaceDefine_def using looked_up_result by (auto simp del: replace_rounds.simps)
qed


definition asm_foo :: asm where
  "asm_foo = snd (run_state (do { Add ''foo'' ''bar+1'' []; Add ''bar'' ''12'' [] }) (asm0\<lparr>pass := 1\<rparr>))"

theorem ReplaceDefine_wordwise_witness:
  "fst (run_state (ReplaceDefine True (line_text [Sep CHR '' '', Word ''db'', Sep CHR '' '', Word ''bar'', Sep CHR '','',
     Quoted CHR 0x27 ''bar'', Sep CHR ''+'', Word ''bars''])) asm_foo) =
   '' db 12,'' @ [CHR 0x27] @ ''bar'' @ [CHR 0x27] @ ''+bars''"
proof -
  let ?ts = "[Sep CHR '' '', Word ''db'', Sep CHR '' '', Word ''bar'', Sep CHR '','', Quoted CHR 0x27 ''bar'', Sep CHR ''+'',
    Word ''bars'']"
  let ?us = "[Sep CHR '' '', Word ''db'', Sep CHR '' '', Sep CHR ''1'', Sep CHR ''2'', Sep CHR '','', Quoted CHR 0x27 ''bar'',
    Sep CHR ''+'', Word ''bars'']"
  have c: "comlin (srcs asm_foo) = 0" by code_simp
  have wf: "wf_line True ?ts" "wf_line True ?us" by code_simp+
  have w: "word_value asm_foo ''db'' = None" "word_value asm_foo ''bar'' = Some ''12''" "word_value asm_foo ''bars'' = None"
    "plain_word asm_foo ''db''" "plain_word asm_foo ''bar''" "plain_word asm_foo ''bars''"
    by code_simp+
  have s: "line_subst asm_foo ?ts = line_text ?us" "plain_line asm_foo ?ts" "plain_line asm_foo ?us"
    "\<forall>t \<in> set ?us. \<not> has_value asm_foo t"
    using w by (auto simp: plain_line_def)
  have len: "length (line_text ?ts) < LINEMAX" "length (line_text ?us) + 1 < LINEMAX" by (simp_all add: LINEMAX_def)
  have u: "unless_blank (line_text ?us) = '' db 12,'' @ [CHR 0x27] @ ''bar'' @ [CHR 0x27] @ ''+bars''" by code_simp
  show ?thesis
    using ReplaceDefine_wordwise [OF c wf(1) s(2) len(1) s(1) [symmetric] wf(2) s(3,4) len(2), of True] u s(1) by auto
qed

end
