(* ===== verification/Sj_Source.thy ===== *)
theory Sj_Source
  imports Sj_Subst
begin

text \<open>
  Reading the lines of a source, sjio.cpp: \<^verbatim>\<open>ReadBufLine\<close> splits the text of a file into lines, also at colons, and
  joins escaped line ends; \<^verbatim>\<open>ReadLine\<close> takes the next line from the file or from the block of lines (macro, DUP) that
  is being emitted; \<^verbatim>\<open>SkipFile\<close> skips an inactive branch of a conditional; \<^verbatim>\<open>ReadFileToCStringsList\<close> collects the body of a macro.
  The file is its remaining text \<open>rlbuf\<close>, so the refilling of the buffer in blocks is not visible. The limit
  of the line length is checked once for every character of the line; the listing of lines is left out.
\<close>

section \<open>The start of a file\<close>

text \<open>The table of byte order marks; all but the first one are errors.\<close>

definition UtfBomMarkers :: "(string \<times> int list) list" where
  "UtfBomMarkers = [(''UTF8'', [0xEF, 0xBB, 0xBF]), (''UTF32BE'', [0, 0, 0xFE, 0xFF]), (''UTF32LE'', [0xFF, 0xFE, 0, 0]),
     (''UTF16BE'', [0xFE, 0xFF]), (''UTF16LE'', [0xFF, 0xFE])]"

text \<open>The detection on the first block: the loop goes on behind a skipped mark.\<close>

fun skip_bom :: "(string \<times> int list) list \<Rightarrow> string \<Rightarrow> string M" where
  "skip_bom [] p = ret p"
| "skip_bom ((name, m) # ms) p =
     (if map ord (take (length m) p) = m then do {
        whenM (name \<noteq> ''UTF8'') (Error ''Invalid UTF encoding detected (only ASCII and UTF8 works)'' (Some name) E_FATAL);
        skip_bom ms (drop (length m) p) }
      else skip_bom ms p)"

definition start_file :: "string \<Rightarrow> unit M" where
  "start_file contents = do {
     p \<leftarrow> skip_bom UtfBomMarkers contents;
     mod_src (\<lambda>r. r\<lparr>rlbuf := p, colonSubline := False, blockComment := 0\<rparr>) }"

section \<open>One line\<close>

definition is_eol :: "char \<Rightarrow> bool" where
  "is_eol c \<longleftrightarrow> c = CHR 10 \<or> c = CHR 13"

text \<open>A line end: LF, CR, CR LF or LF CR.\<close>

definition eat_eol :: "string \<Rightarrow> string" where
  "eat_eol p = (if is_eol (cur (drop 1 p)) \<and> cur (drop 1 p) \<noteq> cur p then drop 2 p else drop 1 p)"

text \<open>The rest of a string literal: \<open>escaped\<close> counts the characters that an escape sequence still covers.\<close>

fun read_string :: "char \<Rightarrow> nat \<Rightarrow> string \<Rightarrow> string \<times> string" where
  "read_string d escaped [] = ([], [])"
| "read_string d escaped (c # r) =
     (if c = NUL \<or> is_eol c then ([], c # r)
      else let e = (if d = CHR 0x22 \<and> escaped - 1 = 0 \<and> c = CHR 0x5C then 2 else escaped - 1) in
        if e = 0 \<and> c = d then ([c], r)
        else (case read_string d e r of (t, q) \<Rightarrow> (c # t, q)))"

text \<open>The end of a label: the offset of self modifying code behind a plus, and the colon. The result is the
  text, the rest, and whether this may still be the label.\<close>

definition label_end :: "string \<Rightarrow> string \<times> string \<times> bool" where
  "label_end r =
     (let (t1, r1, l1) =
        (if cur r = CHR ''+'' then
           (if isdigit (cur (drop 1 r)) \<or> cur (drop 1 r) = CHR ''*'' then (take 2 r, drop 2 r, False) else (take 1 r, drop 1 r, False))
         else ([], r, True))
      in if cur r1 = CHR '':'' then (t1 @ '':'', drop 1 r1, False) else (t1, r1, l1))"

definition check_length :: "string \<Rightarrow> unit M" where
  "check_length acc = whenM (LINEMAX - 2 \<le> length acc) (Error ''Line too long'' None E_FATAL)"

text \<open>One round of the loop, at a character that does not end the line: what is still the label, the text and the rest.
  An escaped line end, the delimiters of block comments, their text, the label, a comment up to the line end, a string, any other character.\<close>

definition next_segment :: "unit M" where
  "next_segment = modify (\<lambda>s. s\<lparr>sourcePosStack := butlast (sourcePosStack s) @ [nextSegment False 0 (last (sourcePosStack s))]\<rparr>)"

definition read_code_char :: "bool \<Rightarrow> bool \<Rightarrow> string \<Rightarrow> string \<Rightarrow> (bool \<times> string \<times> string) M" where
  "read_code_char IsLabel afterNonAlphaNum acc rest =
     (let c = cur rest; r = drop 1 rest in
      if IsLabel \<and> islabchar c then (case label_end r of (t, q, l) \<Rightarrow> ret (l, acc @ c # t, q))
      else if c = CHR '';'' \<or> c = CHR ''/'' \<and> cur r = CHR ''/'' then do {
        let t = takeWhile (\<lambda>x. \<not> is_eol x) rest;
        mod_dg (\<lambda>d. d\<lparr>eolComment := Some t\<rparr>);
        ret (False, acc @ t, drop (length t) rest) }
      else if afterNonAlphaNum \<and> (c = CHR 0x22 \<or> c = CHR 0x27) then
        (case read_string c 0 r of (t, q) \<Rightarrow> ret (False, acc @ c # t, q))
      else ret (False, acc @ [c], r))"

definition read_char :: "bool \<Rightarrow> bool \<Rightarrow> string \<Rightarrow> string \<Rightarrow> (bool \<times> string \<times> string) M" where
  "read_char IsLabel afterNonAlphaNum acc rest = do {
     com \<leftarrow> gets (\<lambda>s. blockComment (srcs s));
     let c = cur rest;
     let r = drop 1 rest;
     if c = CHR 0x5C \<and> is_eol (cur r) then do { next_segment; ret (IsLabel, acc, eat_eol r) }
     else if c = CHR ''*'' \<and> cur r = CHR ''/'' then do {
       mod_src (\<lambda>x. x\<lparr>blockComment := (if 0 < com then com - 1 else com)\<rparr>);
       ret (IsLabel, acc @ ''*/'', drop 1 r) }
     else if c = CHR ''/'' \<and> cur r = CHR ''*'' then do {
       mod_src (\<lambda>x. x\<lparr>blockComment := com + 1\<rparr>);
       ret (IsLabel, acc @ ''/*'', drop 1 r) }
     else if com \<noteq> 0 then ret (IsLabel, acc @ [c], r)
     else read_code_char IsLabel afterNonAlphaNum acc rest }"

fun read_chars :: "nat \<Rightarrow> bool \<Rightarrow> bool \<Rightarrow> bool \<Rightarrow> string \<Rightarrow> string \<Rightarrow> (string \<times> string) M" where
  "read_chars 0 SplitByColon IsLabel afterNonAlphaNum acc rest = do { out_of_fuel; ret (acc, rest) }"
| "read_chars (Suc n) SplitByColon IsLabel afterNonAlphaNum acc rest = do {
     check_length acc;
     com \<leftarrow> gets (\<lambda>s. blockComment (srcs s));
     if rest = [] \<or> is_eol (cur rest) \<or> com = 0 \<and> SplitByColon \<and> acc \<noteq> [] \<and> cur rest = CHR '':'' then ret (acc, rest)
     else do {
       (l, a, r) \<leftarrow> read_char IsLabel afterNonAlphaNum acc rest;
       read_chars n SplitByColon l (\<not> isalnum (cur rest)) a r } }"

text \<open>The start of a line: behind a colon with a blank in front of it, unless it is the tag of a SIZEOF boundary; or a
  new line with its indentation. The result: the text, the rest, whether a label may follow, whether it is
  a tag, the columns that were dropped.\<close>

definition line_start :: "bool \<Rightarrow> bool \<Rightarrow> bool \<Rightarrow> string \<Rightarrow> string \<times> string \<times> bool \<times> bool \<times> nat" where
  "line_start fromColon inComment SplitByColon rest =
     (if fromColon then
        (let (a, r) = (if cur rest = CHR ''.'' then (''.'', drop 1 rest) else ([], rest)) in
         if cur r = CHR '':'' then ('':'' @ a @ '':'', drop 1 r, False, True, 0)
         else ('' '' @ a, r, False, False, 0))
      else if inComment \<or> \<not> SplitByColon then ([], rest, \<not> inComment, False, 0)
      else
        let a = takeWhile (\<lambda>c. c = CHR '' '' \<or> c = CHR 9) rest; r = drop (length a) rest in
        if cur r = CHR ''>'' then ([], drop 1 r, True, False, length a + 1)
        else (a, r, a = [], False, 0))"

text \<open>The end of a line: the rest of the file, and whether the next line starts at a colon.\<close>

definition line_finish :: "bool \<Rightarrow> bool \<Rightarrow> string \<Rightarrow> string \<Rightarrow> string \<times> bool" where
  "line_finish SplitByColon sizeofTag acc rest =
     (if is_eol (cur rest) then
        (let r = eat_eol rest in (if r = [] \<and> cur acc \<noteq> NUL then [CHR 10] else r, False))
      else if sizeofTag then (rest, True)
      else if SplitByColon \<and> cur rest = CHR '':'' then (drop 1 rest, True)
      else (rest, False))"

definition read_one_line :: "bool \<Rightarrow> unit M" where
  "read_one_line SplitByColon = do {
     s \<leftarrow> State_Monad.get;
     let (acc0, rest0, IsLabel, sizeofTag, indented) =
       line_start (colonSubline (srcs s)) (blockComment (srcs s) \<noteq> 0) SplitByColon (rlbuf (srcs s));
     mod_dg (\<lambda>d. d\<lparr>eolComment := None\<rparr>);
     mod_src (\<lambda>r. r\<lparr>colonSubline := False\<rparr>);
     (acc, rest) \<leftarrow> (if sizeofTag then ret (acc0, rest0)
       else read_chars (length rest0 + 1) SplitByColon IsLabel True acc0 rest0);
     let (rest', colon) = line_finish SplitByColon sizeofTag acc rest;
     modify (\<lambda>s. s\<lparr>line := acc, substitutedLine := acc\<rparr>);
     mod_src (\<lambda>r. r\<lparr>rlbuf := rest', colonSubline := colon\<rparr>);
     modify (\<lambda>s. let pos = last (sourcePosStack s) in
       s\<lparr>sourcePosStack := butlast (sourcePosStack s) @ [nextSegment colon
         (if colon then of_bool (colEnd pos = 0) + (length acc - of_bool sizeofTag) + indented else 0) pos]\<rparr>) }"

text \<open>\<^verbatim>\<open>ReadBufLine\<close> without parsing: one line, the empty one when there is no text.\<close>

definition ReadBufLine :: "bool \<Rightarrow> unit M" where
  "ReadBufLine SplitByColon = do {
     r \<leftarrow> gets srcs;
     if \<not> IsRunning r \<or> rlbuf r = [] then modify (\<lambda>s. s\<lparr>line := []\<rparr>) else read_one_line SplitByColon }"

section \<open>Lines of files and of blocks\<close>

definition ReadLineNoMacro :: "bool \<Rightarrow> bool M" where
  "ReadLineNoMacro SplitByColon = do {
     r \<leftarrow> gets srcs;
     if \<not> IsRunning r \<or> rlbuf r = [] then ret False else do { ReadBufLine SplitByColon; ret True } }"

definition ReadLine :: "bool \<Rightarrow> bool M" where
  "ReadLine SplitByColon = do {
     r \<leftarrow> gets srcs;
     if IsRunning r \<and> lijst r \<noteq> 0 then
       (case lijstp r of
          (Some t, pos) # ls \<Rightarrow> do {
            modify (\<lambda>s. s\<lparr>sourcePosStack := butlast (sourcePosStack s) @ [pos], line := t, substitutedLine := t\<rparr>);
            mod_dg (\<lambda>d. d\<lparr>eolComment := None\<rparr>);
            mod_src (\<lambda>r. r\<lparr>lijstp := ls\<rparr>);
            ret True }
        | _ \<Rightarrow> ret False)
     else ReadLineNoMacro SplitByColon }"

text \<open>\<^verbatim>\<open>++CompiledCurrentLine\<close>, and \<^verbatim>\<open>lp = ReplaceDefine(p)\<close> on the rest \<open>p\<close> of the line behind a keyword.\<close>

definition count_line :: "unit M" where
  "count_line = mod_dg (\<lambda>d. d\<lparr>CompiledCurrentLine := CompiledCurrentLine d + 1\<rparr>)"

definition substitute_rest :: "string \<Rightarrow> unit M" where
  "substitute_rest p = do { q \<leftarrow> ReplaceDefine True p; set_lp q }"

text \<open>The lines of a file up to the keyword \<open>endkw\<close>, with their positions; None: the file ended first. Colons do not
  split lines inside a Lua block.\<close>

definition lines_fuel :: "source_state \<Rightarrow> nat" where
  "lines_fuel r = 2 * length (rlbuf r) + length (lijstp r) + 2"

definition after_dot :: "string \<Rightarrow> string" where
  "after_dot p = (let q = skip_blanks p in if cur q = CHR ''.'' then drop 1 q else q)"

fun read_block :: "nat \<Rightarrow> string \<Rightarrow> bool \<Rightarrow> (string option \<times> TextFilePos) list \<Rightarrow> (bool \<times> (string option \<times> TextFilePos) list) M" where
  "read_block 0 endkw SplitByColon acc = do { out_of_fuel; ret (False, acc) }"
| "read_block (Suc n) endkw SplitByColon acc = do {
     got \<leftarrow> ReadLineNoMacro SplitByColon;
     if \<not> got then ret (False, acc)
     else do {
       count_line;
       s \<leftarrow> State_Monad.get;
       (case cmphstr endkw False (after_dot (line s)) of
          (True, q) \<Rightarrow> do { substitute_rest q; ret (True, acc) }
        | (False, q) \<Rightarrow> do {
            let split = (if SplitByColon then \<not> fst (cmphstr ''lua'' False q) else fst (cmphstr ''endlua'' False q));
            read_block n endkw split (acc @ [(Some (line s), last (sourcePosStack s))]) }) } }"

definition ReadFileToCStringsList :: "string \<Rightarrow> (bool \<times> (string option \<times> TextFilePos) list) M" where
  "ReadFileToCStringsList endkw = do { r \<leftarrow> gets srcs; read_block (lines_fuel r) endkw True [] }"

section \<open>Skipping a branch\<close>

datatype EReturn = R_END | R_ELSE | R_ENDIF | R_ENDTEXTAREA | R_ENDM | R_ELSEIF

definition if_keywords :: "string list" where
  "if_keywords = [''if'', ''ifn'', ''ifused'', ''ifnused'', ''ifdef'', ''ifndef'']"

text \<open>What a line of a skipped branch is: the start of a conditional, one of its parts, a Lua block, or
  anything else; with the rest behind the keyword.\<close>

datatype skipped_line = SkIf | SkEndif string | SkElse string | SkElseif string | SkLua | SkOther

definition skip_label :: "bool \<Rightarrow> string \<Rightarrow> string" where
  "skip_label bof p =
     (if isLabelStart p True \<and> \<not> bof then
        (let q = dropWhile islabchar p in if cur q = CHR '':'' then drop 1 q else q)
      else p)"

definition classify_line :: "bool \<Rightarrow> string \<Rightarrow> skipped_line" where
  "classify_line bof l =
     (let p = after_dot (skip_label bof l) in
      if list_ex (\<lambda>k. fst (cmphstr k False p)) if_keywords then SkIf
      else case cmphstr ''endif'' False p of (True, q) \<Rightarrow> SkEndif q | _ \<Rightarrow>
      (case cmphstr ''else'' False p of (True, q) \<Rightarrow> SkElse q | _ \<Rightarrow>
      (case cmphstr ''elseif'' False p of (True, q) \<Rightarrow> SkElseif q | _ \<Rightarrow>
      if fst (cmphstr ''lua'' False p) then SkLua else SkOther)))"

fun skip_lua :: "nat \<Rightarrow> unit M" where
  "skip_lua 0 = out_of_fuel"
| "skip_lua (Suc n) = do {
     got \<leftarrow> ReadLine True;
     if \<not> got then ret ()
     else do {
       l \<leftarrow> gets line;
       if fst (cmphstr ''endlua'' False (skip_blanks l)) then ret () else skip_lua n } }"

text \<open>The keyword that ends the branch: the rest of its line is substituted and the listing shows the source.\<close>

definition end_branch :: "EReturn \<Rightarrow> string \<Rightarrow> EReturn M" where
  "end_branch r q = do {
     count_line;
     substitute_rest q;
     modify (\<lambda>s. s\<lparr>substitutedLine := line s\<rparr>);
     ret r }"

fun skip_lines :: "nat \<Rightarrow> nat \<Rightarrow> EReturn M" where
  "skip_lines 0 iflevel = do { out_of_fuel; ret R_END }"
| "skip_lines (Suc n) iflevel = do {
     got \<leftarrow> ReadLine True;
     if \<not> got then ret R_END
     else do {
       s \<leftarrow> State_Monad.get;
       (case classify_line (IsPseudoOpBOF (syx (opts s))) (line s) of
          SkIf \<Rightarrow> skip_lines n (iflevel + 1)
        | SkEndif q \<Rightarrow> if 0 < iflevel then skip_lines n (iflevel - 1) else end_branch R_ENDIF q
        | SkElse q \<Rightarrow> if 0 < iflevel then skip_lines n iflevel else end_branch R_ELSE q
        | SkElseif q \<Rightarrow> if 0 < iflevel then skip_lines n iflevel else end_branch R_ELSEIF q
        | SkLua \<Rightarrow> do { skip_lua (lines_fuel (srcs s)); skip_lines n iflevel }
        | SkOther \<Rightarrow> skip_lines n iflevel) } }"

definition SkipFile :: "EReturn M" where
  "SkipFile = do { r \<leftarrow> gets srcs; skip_lines (lines_fuel r) 0 }"

end
