(* ===== verification/Sj_Source_Term.thy ===== *)
theory Sj_Source_Term
  imports Sj_Source
begin

text \<open>
  Reading and skipping come to an end: every line that is read makes the text that is left smaller, in the
  measure \<open>unread\<close> that also counts the half line a colon leaves behind, although the last line end of a file is put back once.
\<close>

definition unread :: "source_state \<Rightarrow> nat" where
  "unread r = 2 * length (rlbuf r) + of_bool (colonSubline r) + length (lijstp r)"

text \<open>Nothing of the source is read in between.\<close>

definition reading :: "string \<Rightarrow> bool \<Rightarrow> (string option \<times> TextFilePos) list \<Rightarrow> asm \<Rightarrow> bool" where
  "reading b k ls s \<longleftrightarrow> fuel_ok s \<and> rlbuf (srcs s) = b \<and> colonSubline (srcs s) = k \<and> lijstp (srcs s) = ls"

lemma reading_Error: "(\<And>r. V r) \<Longrightarrow> inv (reading b k ls) (Error m t ty) V"
  by (rule inv_diag) (auto simp: reading_def fuel_ok_def reporting)

lemma is_eol_simps [simp]: "\<not> is_eol NUL" "\<not> is_eol (CHR '':'')"
  by (simp_all add: is_eol_def)

lemma eat_eol_shorter: "p \<noteq> [] \<Longrightarrow> length (eat_eol p) < length p"
  by (cases p) (auto simp: eat_eol_def)

lemma eat_eol_le: "length (eat_eol p) \<le> length p"
  by (simp add: eat_eol_def)

lemma read_string_length: "read_string d e p = (t, q) \<Longrightarrow> length t + length q = length p"
proof (induction d e p arbitrary: t q rule: read_string.induct)
  case (2 d escaped c r)
  then show ?case by (auto split: prod.splits if_splits simp: Let_def)
qed simp

lemma label_end_length: "label_end p = (t, q, l) \<Longrightarrow> length t + length q = length p"
  unfolding label_end_def Let_def
  by (cases p; cases "tl p"; cases "tl (tl p)") (auto split: if_splits)

text \<open>A round of the loop over a line consumes a character, and it writes at most as many as it consumes.\<close>

definition consumed :: "string \<Rightarrow> string \<Rightarrow> bool \<times> string \<times> string \<Rightarrow> bool" where
  "consumed acc rest = (\<lambda>(l, a, r). length r < length rest \<and> length a + length r \<le> length acc + length rest)"

lemma read_code_char_ok:
  assumes "rest \<noteq> []" "\<not> is_eol (cur rest)"
  shows "inv (reading b k ls) (read_code_char l aft acc rest) (consumed acc rest)"
proof -
  obtain c r where [simp]: "rest = c # r" using assms(1) by (cases rest) auto
  have t: "length (takeWhile (\<lambda>x. \<not> is_eol x) rest) + length (drop (length (takeWhile (\<lambda>x. \<not> is_eol x) rest)) rest) = length rest"
    using length_takeWhile_le [of "\<lambda>x. \<not> is_eol x" rest] by simp
  have "inv (reading b k ls) (mod_dg f) (\<lambda>_. True)" for f
    by (rule inv_modify) (simp_all add: reading_def fuel_ok_def)
  note m = inv_bind [OF this]
  show ?thesis
    unfolding read_code_char_def Let_def
    using assms(2) t
    by (intro inv_if inv_case_prod inv_ret m)
      (auto simp: consumed_def dest!: label_end_length read_string_length)
qed

lemma next_segment_ok: "inv (reading b k ls) next_segment (\<lambda>_. True)"
  unfolding next_segment_def by (rule inv_modify) (simp_all add: reading_def fuel_ok_def)

lemma read_char_ok:
  assumes "rest \<noteq> []" "\<not> is_eol (cur rest)"
  shows "inv (reading b k ls) (read_char l aft acc rest) (consumed acc rest)"
proof -
  obtain c r where [simp]: "rest = c # r" using assms(1) by (cases rest) auto
  have "inv (reading b k ls) (mod_src (\<lambda>x. x\<lparr>blockComment := g x\<rparr>)) (\<lambda>_. True)" for g
    by (rule inv_modify) (simp_all add: reading_def fuel_ok_def)
  note m = inv_bind [OF this]
  have r: "r \<noteq> []" if "cur r \<noteq> NUL" using that by auto
  have e: "is_eol (cur r) \<Longrightarrow> r \<noteq> []" by (auto simp: is_eol_def)
  show ?thesis
    unfolding read_char_def Let_def
    by (rule inv_bind [OF inv_gets [where V = "\<lambda>_. True"]], simp,
        intro inv_if inv_bind [OF next_segment_ok] inv_ret m read_code_char_ok assms)
      (use r e eat_eol_le [of r] in \<open>auto simp: consumed_def Suc_le_eq\<close>)
qed

text \<open>Where the loop over a line ends, and that its fuel is enough.\<close>

definition line_stop :: "bool \<Rightarrow> string \<Rightarrow> string \<Rightarrow> string \<times> string \<Rightarrow> bool" where
  "line_stop split acc rest = (\<lambda>(a, r). length r \<le> length rest \<and> length a + length r \<le> length acc + length rest \<and>
     (r = [] \<or> is_eol (cur r) \<or> split \<and> cur r = CHR '':''))"

lemma read_chars_ok:
  assumes "length rest < n"
  shows "inv (reading b k ls) (read_chars n split l aft acc rest) (line_stop split acc rest)"
  using assms
proof (induction n arbitrary: l aft acc rest)
  case (Suc n)
  have step: "inv (reading b k ls) (do { (l, a, r) \<leftarrow> read_char l aft acc rest; read_chars n split l a2 a r })
      (line_stop split acc rest)" if "rest \<noteq> []" "\<not> is_eol (cur rest)" for a2
  proof (rule inv_bind [OF read_char_ok [OF that]], intro inv_case_prod)
    fix x l' z a r
    assume "consumed acc rest x" "x = (l', z)" "z = (a, r)"
    then have "length r < n" "length r \<le> length rest" "length a + length r \<le> length acc + length rest"
      using Suc.prems by (auto simp: consumed_def)
    then show "inv (reading b k ls) (read_chars n split l' a2 a r) (line_stop split acc rest)"
      by (intro inv_conseq [OF Suc.IH]) (auto simp: line_stop_def)
  qed
  show ?case
    unfolding read_chars.simps check_length_def
    by (rule inv_bind [OF inv_whenM [OF reading_Error [where V = "\<lambda>_. True"]]], simp, simp,
        rule inv_bind [OF inv_gets [where V = "\<lambda>_. True"]], simp, intro inv_if inv_ret step)
      (auto simp: line_stop_def)
qed simp

section \<open>Lines become smaller\<close>

lemma line_start_length:
  assumes "line_start k com split b = (acc, rest, l, tag, i)"
  shows "length rest \<le> length b" "tag \<Longrightarrow> k \<and> length rest < length b" "\<not> k \<Longrightarrow> length acc + length rest \<le> length b"
  using assms length_takeWhile_le [of "\<lambda>c. c = CHR '' '' \<or> c = CHR 9" b]
  unfolding line_start_def Let_def
  by (cases b; auto split: if_splits; fail)+

lemma line_finish_smaller:
  assumes start: "line_start k com split b = (acc0, rest0, l, tag, i)" and b: "b \<noteq> []"
    and stop: "if tag then acc = acc0 \<and> rest = rest0 else line_stop split acc0 rest0 (acc, rest)"
    and fin: "line_finish split tag acc rest = (r, k')"
  shows "2 * length r + of_bool k' < 2 * length b + (of_bool k :: nat)"
proof -
  have len: "length rest \<le> length b" "tag \<Longrightarrow> k \<and> length rest < length b"
    "\<not> k \<Longrightarrow> length acc + length rest \<le> length b"
    using line_start_length [OF start] stop by (auto simp: line_stop_def split: if_splits)
  consider (eol) "is_eol (cur rest)" | (tag) "\<not> is_eol (cur rest)" "tag" | (colon) "\<not> is_eol (cur rest)" "\<not> tag" "split" "cur rest = CHR '':''"
    | (none) "\<not> is_eol (cur rest)" "\<not> tag" "rest = []"
    using stop by (cases tag) (auto simp: line_stop_def)
  then show ?thesis
  proof cases
    case eol
    then have ne: "rest \<noteq> []" by (auto simp: is_eol_def)
    show ?thesis
      using fin eol len eat_eol_shorter [OF ne] by (cases k; cases acc; cases rest) (auto simp: line_finish_def Let_def split: if_splits)
  next
    case tag
    then show ?thesis using fin len by (auto simp: line_finish_def)
  next
    case colon
    then have "rest \<noteq> []" by auto
    then show ?thesis using colon fin len by (cases rest) (auto simp: line_finish_def)
  next
    case none
    then show ?thesis using fin b by (auto simp: line_finish_def)
  qed
qed

definition below :: "nat \<Rightarrow> asm \<Rightarrow> bool" where
  "below n s \<longleftrightarrow> fuel_ok s \<and> unread (srcs s) < n"

lemma read_one_line_ok:
  assumes "fuel_ok s" "rlbuf (srcs s) \<noteq> []"
  shows "below (unread (srcs s)) (snd (run_state (read_one_line split) s))"
proof -
  define b where "b = rlbuf (srcs s)"
  obtain acc0 rest0 l tag i where start: "line_start (colonSubline (srcs s)) (blockComment (srcs s) \<noteq> 0) split b = (acc0, rest0, l, tag, i)"
    by (metis prod_cases5)
  define s1 where "s1 = s\<lparr>dg := (dg s)\<lparr>eolComment := None\<rparr>, srcs := (srcs s)\<lparr>colonSubline := False\<rparr>\<rparr>"
  define body where "body = (if tag then ret (acc0, rest0) else read_chars (length rest0 + 1) split l True acc0 rest0)"
  obtain a r s2 where body: "run_state body s1 = ((a, r), s2)" by (metis prod.exhaust)
  have "inv (reading b False (lijstp (srcs s))) body
      (\<lambda>(a, r). if tag then a = acc0 \<and> r = rest0 else line_stop split acc0 rest0 (a, r))"
  proof (cases tag)
    case True
    then show ?thesis by (simp add: body_def inv_ret)
  next
    case False
    have "inv (reading b False (lijstp (srcs s))) (read_chars (length rest0 + 1) split l True acc0 rest0) (line_stop split acc0 rest0)"
      by (rule read_chars_ok) simp
    then show ?thesis using False by (auto simp only: body_def if_False elim: inv_conseq)
  qed
  moreover have "reading b False (lijstp (srcs s)) s1"
    using assms by (simp add: reading_def s1_def b_def fuel_ok_def)
  ultimately have s2: "reading b False (lijstp (srcs s)) s2"
    and stop: "if tag then a = acc0 \<and> r = rest0 else line_stop split acc0 rest0 (a, r)"
    using body by (auto dest!: invD)
  obtain r' k' where fin: "line_finish split tag a r = (r', k')" by (metis prod.exhaust)
  have "2 * length r' + of_bool k' < 2 * length b + (of_bool (colonSubline (srcs s)) :: nat)"
    by (rule line_finish_smaller [OF start _ stop fin]) (use assms in \<open>simp add: b_def\<close>)
  then show ?thesis
    using s2 body start fin
    by (simp add: read_one_line_def State_Monad.get_def body_def s1_def b_def below_def unread_def reading_def fuel_ok_def Let_def)
qed

lemma ReadLineNoMacro_ok:
  "fuel_ok s \<Longrightarrow> run_state (ReadLineNoMacro split) s = (got, s') \<Longrightarrow>
   fuel_ok s' \<and> unread (srcs s') \<le> unread (srcs s) \<and> (got \<longrightarrow> unread (srcs s') < unread (srcs s))"
  using read_one_line_ok [of s split]
  by (auto simp: ReadLineNoMacro_def ReadBufLine_def below_def split: if_splits prod.splits)

lemma ReadLine_ok:
  assumes "fuel_ok s" and run: "run_state (ReadLine split) s = (got, s')"
  shows "fuel_ok s' \<and> unread (srcs s') \<le> unread (srcs s) \<and> (got \<longrightarrow> unread (srcs s') < unread (srcs s))"
proof (cases "IsRunning (srcs s) \<and> lijst (srcs s) \<noteq> 0")
  case True
  then show ?thesis
    using assms by (auto simp: ReadLine_def fuel_ok_def unread_def split: list.splits option.splits)
next
  case False
  then show ?thesis using assms ReadLineNoMacro_ok [of s split got s'] by (auto simp: ReadLine_def)
qed

section \<open>Skipping and collecting\<close>

lemma skip_lua_ok:
  "fuel_ok s \<Longrightarrow> unread (srcs s) < n \<Longrightarrow> run_state (skip_lua n) s = (r, s') \<Longrightarrow>
   fuel_ok s' \<and> unread (srcs s') \<le> unread (srcs s)"
proof (induction n arbitrary: s r s')
  case (Suc n)
  obtain got s1 where rl: "run_state (ReadLine True) s = (got, s1)" by (metis prod.exhaust)
  note ok = ReadLine_ok [OF Suc.prems(1) rl]
  show ?case
  proof (cases "got \<and> \<not> fst (cmphstr ''endlua'' False (skip_blanks (line s1)))")
    case True
    then show ?thesis using Suc.prems rl ok Suc.IH [of s1 r s'] by auto
  next
    case False
    then show ?thesis using Suc.prems rl ok by (cases got) auto
  qed
qed simp

lemma end_branch_ok: "fuel_ok s \<Longrightarrow> fuel_ok (snd (run_state (end_branch r q) s))"
proof -
  have "inv fuel_ok (ReplaceDefine True q) (\<lambda>_. True)"
    unfolding ReplaceDefine_def by (rule replace_rounds_ok)
  then have "inv fuel_ok (end_branch r q) (\<lambda>_. True)"
    unfolding end_branch_def substitute_rest_def count_line_def set_lp_def
    by (intro inv_bind [OF inv_modify [where V = "\<lambda>_. True"]] inv_bind [where V = "\<lambda>_. True"] inv_modify inv_ret)
      (auto simp: fuel_ok_def)
  then show "fuel_ok s \<Longrightarrow> fuel_ok (snd (run_state (end_branch r q) s))" by (simp add: inv_def)
qed

lemma lines_fuel: "unread r < lines_fuel r"
  by (simp add: unread_def lines_fuel_def)

lemma skip_lines_ok:
  "fuel_ok s \<Longrightarrow> unread (srcs s) < n \<Longrightarrow> fuel_ok (snd (run_state (skip_lines n lev) s))"
proof (induction n arbitrary: s lev)
  case (Suc n)
  obtain got s1 where rl: "run_state (ReadLine True) s = (got, s1)" by (metis prod.exhaust)
  note ok = ReadLine_ok [OF Suc.prems(1) rl]
  show ?case
  proof (cases got)
    case False
    then show ?thesis using rl ok by simp
  next
    case True
    have IH: "fuel_ok s2 \<Longrightarrow> unread (srcs s2) \<le> unread (srcs s1) \<Longrightarrow> fuel_ok (snd (run_state (skip_lines n l) s2))" for s2 l
      using Suc ok True by simp
    have lua: "run_state (skip_lua (lines_fuel (srcs s1))) s1 = ((), s2) \<Longrightarrow> fuel_ok (snd (run_state (skip_lines n l) s2))" for s2 l
      using skip_lua_ok [OF _ lines_fuel, of s1 "()" s2] ok IH by blast
    show ?thesis
      using True rl ok
      by (cases "classify_line (IsPseudoOpBOF (syx (opts s1))) (line s1)")
        (auto simp: State_Monad.get_def IH end_branch_ok lua split: prod.split)
  qed
qed simp

lemma read_block_ok:
  "fuel_ok s \<Longrightarrow> unread (srcs s) < n \<Longrightarrow> fuel_ok (snd (run_state (read_block n kw split acc) s))"
proof (induction n arbitrary: s split acc)
  case (Suc n)
  obtain got s1 where rl: "run_state (ReadLineNoMacro split) s = (got, s1)" by (metis prod.exhaust)
  note ok = ReadLineNoMacro_ok [OF Suc.prems(1) rl]
  show ?case
  proof (cases got)
    case False
    then show ?thesis using rl ok by simp
  next
    case True
    define s2 where "s2 = snd (run_state count_line s1)"
    have s2: "run_state count_line s1 = ((), s2)" "fuel_ok s2" "unread (srcs s2) = unread (srcs s1)"
      using ok by (auto simp: s2_def count_line_def fuel_ok_def)
    have sub: "fuel_ok (snd (run_state (substitute_rest q) s2))" for q
      using end_branch_ok [of s1 r q] ok s2 by (auto simp: end_branch_def fuel_ok_def split: prod.splits)
    have sub': "run_state (substitute_rest q) s2 = ((), t) \<Longrightarrow> fuel_ok t" for q t
      using sub [of q] by simp
    have IH: "fuel_ok (snd (run_state (read_block n kw sp a) s2))" for sp a
      using Suc ok True s2 by simp
    show ?thesis
      using True rl ok s2 sub' IH
      by (cases "cmphstr kw False (after_dot (line s2))")
        (auto simp: State_Monad.get_def Let_def split: prod.split bool.split)
  qed
qed simp

section \<open>Termination\<close>

text \<open>
  Claim C34. Skipping an inactive branch comes to an end: from any text, with any nesting of conditionals, unfinished Lua blocks,
  colons and escaped line ends, in a file or in a macro, \<^verbatim>\<open>SkipFile\<close> returns; every line it reads makes
  the unread text smaller, also when the last line end of a file is read a second time as a line of its own.
\<close>

theorem SkipFile_terminates:
  assumes "halted s \<noteq> OutOfFuel"
  shows "halted (snd (run_state SkipFile s)) \<noteq> OutOfFuel"
  using skip_lines_ok [OF _ lines_fuel, of s] assms by (simp add: SkipFile_def fuel_ok_def)

theorem SkipFile_terminates_witness:
  "halted (snd (run_state SkipFile (asm0\<lparr>srcs := (srcs asm0)\<lparr>rlbuf := '' if 1:nop'' @ [CHR 10], IsRunning := True\<rparr>\<rparr>))) \<noteq> OutOfFuel"
  by (rule SkipFile_terminates) (simp add: asm0_def)

text \<open>
  Claim C35. Collecting a block of lines for a macro or a repetition comes to an end on every text, with the closing keyword or at
  the end of the file.
\<close>

theorem ReadFileToCStringsList_terminates:
  assumes "halted s \<noteq> OutOfFuel"
  shows "halted (snd (run_state (ReadFileToCStringsList kw) s)) \<noteq> OutOfFuel"
  using read_block_ok [OF _ lines_fuel, of s] assms by (simp add: ReadFileToCStringsList_def fuel_ok_def)

theorem ReadFileToCStringsList_terminates_witness:
  "halted (snd (run_state (ReadFileToCStringsList ''endm'')
     (asm0\<lparr>srcs := (srcs asm0)\<lparr>rlbuf := '' nop : lua'' @ [CHR 10], IsRunning := True\<rparr>\<rparr>))) \<noteq> OutOfFuel"
  by (rule ReadFileToCStringsList_terminates) (simp add: asm0_def)

end
