(* ===== verification/Sj_Source_Spec.thy ===== *)
theory Sj_Source_Spec
  imports Sj_Source_Term
begin

text \<open>
  What reading and skipping do, stated over the lines of the source instead of its text. The contract of a source of lines
  is the locale \<open>line_source\<close>: the next line is the head of a list. It is met by any text, for the lines the reader makes of it, by the block
  of lines of a macro and by a file of plain lines with any of the four kinds of line ends. Over it, \<^verbatim>\<open>SkipFile\<close> is shown to find the end of
  its branch behind any properly nested conditionals and Lua blocks.
\<close>

section \<open>Conditional blocks\<close>

text \<open>The structure of a skipped text: plain lines, Lua blocks, and conditionals whose body is divided by ELSE and ELSEIF.\<close>

datatype block = Plain string | Divider string | Lua_Block string "string list" string | Cond string "block list" string

fun block_text :: "block \<Rightarrow> string list" where
  "block_text (Plain l) = [l]"
| "block_text (Divider l) = [l]"
| "block_text (Lua_Block a ls e) = a # ls @ [e]"
| "block_text (Cond i bs e) = i # concat (map block_text bs) @ [e]"

definition is_endlua :: "string \<Rightarrow> bool" where
  "is_endlua l \<longleftrightarrow> fst (cmphstr ''endlua'' False (skip_blanks l))"

fun is_divider :: "skipped_line \<Rightarrow> bool" where
  "is_divider (SkElse q) = True" | "is_divider (SkElseif q) = True" | "is_divider _ = False"

fun is_endif :: "skipped_line \<Rightarrow> bool" where
  "is_endif (SkEndif q) = True" | "is_endif _ = False"

text \<open>Well nested: \<open>inner\<close> says whether a dividing line belongs to a conditional of the text.\<close>

fun wf_block :: "bool \<Rightarrow> bool \<Rightarrow> block \<Rightarrow> bool" where
  "wf_block bof inner (Plain l) = (classify_line bof l = SkOther)"
| "wf_block bof inner (Divider l) = (inner \<and> is_divider (classify_line bof l))"
| "wf_block bof inner (Lua_Block a ls e) = (classify_line bof a = SkLua \<and> list_all (\<lambda>l. \<not> is_endlua l) ls \<and> is_endlua e)"
| "wf_block bof inner (Cond i bs e) = (classify_line bof i = SkIf \<and> list_all (wf_block bof True) bs \<and> is_endif (classify_line bof e))"

text \<open>The line that ends the branch, what SkipFile returns for it, and the rest behind the keyword.\<close>

fun branch_end :: "skipped_line \<Rightarrow> (EReturn \<times> string) option" where
  "branch_end (SkEndif q) = Some (R_ENDIF, q)"
| "branch_end (SkElse q) = Some (R_ELSE, q)"
| "branch_end (SkElseif q) = Some (R_ELSEIF, q)"
| "branch_end _ = None"

section \<open>Sources of lines\<close>

text \<open>The lines of a run of the reader.\<close>

fun take_lines :: "nat \<Rightarrow> string list M" where
  "take_lines 0 = ret []"
| "take_lines (Suc n) = do {
     got \<leftarrow> ReadLine True;
     l \<leftarrow> gets line;
     ls \<leftarrow> (if got then take_lines n else ret []);
     ret (if got then l # ls else []) }"

text \<open>The lines of a run of the reader, whatever text they are read from: the next calls of \<^verbatim>\<open>ReadLine\<close> deliver exactly these lines.\<close>

fun reads :: "string list \<Rightarrow> asm \<Rightarrow> bool" where
  "reads [] s \<longleftrightarrow> fuel_ok s"
| "reads (l # ls) s \<longleftrightarrow> fuel_ok s \<and> (case run_state (ReadLine True) s of (got, t) \<Rightarrow> got \<and> line t = l \<and> reads ls t)"

locale line_source =
  fixes holds :: "string list \<Rightarrow> asm \<Rightarrow> bool"
  assumes holds_fuel: "holds ls s \<Longrightarrow> fuel_ok s"
    and holds_read: "holds (l # ls) s \<Longrightarrow> \<exists>s'. run_state (ReadLine True) s = (True, s') \<and> line s' = l \<and> opts s' = opts s \<and> holds ls s'"

begin

lemma holds_reads: "holds ls s \<Longrightarrow> reads ls s"
proof (induction ls arbitrary: s)
  case Nil
  then show ?case by (simp add: holds_fuel)
next
  case (Cons l ls)
  then show ?case using holds_read [OF Cons.prems] holds_fuel [OF Cons.prems] by auto
qed

lemma read_step:
  assumes "holds (l # ls) s"
  obtains s' where "run_state (ReadLine True) s = (True, s')" "line s' = l" "opts s' = opts s" "holds ls s'"
    "fuel_ok s'" "unread (srcs s') < unread (srcs s)"
  using holds_read [OF assms] ReadLine_ok [OF holds_fuel [OF assms]] by blast

lemma lua_step:
  assumes "holds (ls @ e # rest) s" "list_all (\<lambda>l. \<not> is_endlua l) ls" "is_endlua e" "unread (srcs s) < n"
  shows "\<exists>s'. run_state (skip_lua n) s = ((), s') \<and> holds rest s' \<and> opts s' = opts s \<and> unread (srcs s') < unread (srcs s)"
  using assms
proof (induction ls arbitrary: s n)
  case Nil
  then have "holds (e # rest) s" by simp
  then obtain s1 where "run_state (ReadLine True) s = (True, s1)" "line s1 = e" "opts s1 = opts s" "holds rest s1"
    "unread (srcs s1) < unread (srcs s)" by (rule read_step)
  with Nil show ?case by (cases n) (auto simp: is_endlua_def)
next
  case (Cons l ls)
  then have "holds (l # ls @ e # rest) s" by simp
  then obtain s1 where s1: "run_state (ReadLine True) s = (True, s1)" "line s1 = l" "opts s1 = opts s" "holds (ls @ e # rest) s1"
    "unread (srcs s1) < unread (srcs s)" by (rule read_step)
  obtain m where m: "n = Suc m" using Cons.prems(4) by (cases n) auto
  then have "\<exists>s'. run_state (skip_lua m) s1 = ((), s') \<and> holds rest s' \<and> opts s' = opts s1 \<and> unread (srcs s') < unread (srcs s1)"
    using Cons.prems s1 by (intro Cons.IH) auto
  then show ?case using s1 Cons.prems m by (auto simp: is_endlua_def)
qed

text \<open>Reading line by line gives the list.\<close>

lemma take_lines_holds: "holds ls s \<Longrightarrow> fst (run_state (take_lines (length ls)) s) = ls"
proof (induction ls arbitrary: s)
  case (Cons l ls)
  obtain s1 where s1: "run_state (ReadLine True) s = (True, s1)" "line s1 = l" "holds ls s1" using read_step [OF Cons.prems] by auto
  show ?case using s1 Cons.IH [OF s1(3)] by (auto split: prod.split)
qed simp

text \<open>The loop passes the lines up to \<open>ls\<close> and is then at the level \<open>lev'\<close>.\<close>

definition passes :: "nat \<Rightarrow> nat \<Rightarrow> string list \<Rightarrow> string list \<Rightarrow> bool \<Rightarrow> bool" where
  "passes lev lev' all ls bof \<longleftrightarrow> (\<forall>n s. holds all s \<longrightarrow> unread (srcs s) < n \<longrightarrow> IsPseudoOpBOF (syx (opts s)) = bof \<longrightarrow>
     (\<exists>n' s'. run_state (skip_lines n lev) s = run_state (skip_lines n' lev') s' \<and> holds ls s' \<and> unread (srcs s') < n' \<and> opts s' = opts s))"

lemma passes_refl: "passes lev lev ls ls bof"
  unfolding passes_def by blast

lemma passes_trans: "passes a b xs ys bof \<Longrightarrow> passes b c ys zs bof \<Longrightarrow> passes a c xs zs bof"
  unfolding passes_def by metis

lemma passes_line:
  assumes "case classify_line bof l of SkIf \<Rightarrow> lev' = Suc lev | SkEndif q \<Rightarrow> lev = Suc lev' | SkElse q \<Rightarrow> 0 < lev \<and> lev' = lev
     | SkElseif q \<Rightarrow> 0 < lev \<and> lev' = lev | SkLua \<Rightarrow> False | SkOther \<Rightarrow> lev' = lev"
  shows "passes lev lev' (l # ls) ls bof"
  unfolding passes_def
proof (intro allI impI)
  fix n s
  assume a: "holds (l # ls) s" "unread (srcs s) < n" "IsPseudoOpBOF (syx (opts s)) = bof"
  obtain s1 where s1: "run_state (ReadLine True) s = (True, s1)" "line s1 = l" "opts s1 = opts s" "holds ls s1"
    "unread (srcs s1) < unread (srcs s)" using read_step [OF a(1)] by auto
  obtain m where m: "n = Suc m" using a(2) by (cases n) auto
  have "run_state (skip_lines n lev) s = run_state (skip_lines m lev') s1"
    using assms s1 a m by (cases "classify_line bof l") (auto simp: State_Monad.get_def)
  then show "\<exists>n' s'. run_state (skip_lines n lev) s = run_state (skip_lines n' lev') s' \<and> holds ls s' \<and> unread (srcs s') < n' \<and> opts s' = opts s"
    using s1 a m by (intro exI [of _ m] exI [of _ s1]) auto
qed

lemma passes_lua:
  assumes "classify_line bof a = SkLua" "list_all (\<lambda>l. \<not> is_endlua l) ls" "is_endlua e"
  shows "passes lev lev (a # ls @ e # rest) rest bof"
  unfolding passes_def
proof (intro allI impI)
  fix n s
  assume h: "holds (a # ls @ e # rest) s" "unread (srcs s) < n" "IsPseudoOpBOF (syx (opts s)) = bof"
  obtain s1 where s1: "run_state (ReadLine True) s = (True, s1)" "line s1 = a" "opts s1 = opts s" "holds (ls @ e # rest) s1"
    "unread (srcs s1) < unread (srcs s)" using read_step [OF h(1)] by auto
  obtain s2 where s2: "run_state (skip_lua (lines_fuel (srcs s1))) s1 = ((), s2)" "holds rest s2" "opts s2 = opts s1"
    "unread (srcs s2) < unread (srcs s1)" using lua_step [OF s1(4) assms(2,3) lines_fuel] by auto
  obtain m where m: "n = Suc m" using h(2) by (cases n) auto
  have "run_state (skip_lines n lev) s = run_state (skip_lines m lev) s2"
    using assms(1) s1 s2 h m by (simp add: State_Monad.get_def)
  then show "\<exists>n' s'. run_state (skip_lines n lev) s = run_state (skip_lines n' lev) s' \<and> holds rest s' \<and> unread (srcs s') < n' \<and> opts s' = opts s"
    using s1 s2 h m by (intro exI [of _ m] exI [of _ s2]) auto
qed

lemma passes_blocks:
  assumes "\<And>b ls. b \<in> set bs \<Longrightarrow> passes lev lev (block_text b @ ls) ls bof"
  shows "passes lev lev (concat (map block_text bs) @ ls) ls bof"
  using assms
proof (induction bs)
  case (Cons b bs)
  show ?case using passes_trans [OF Cons.prems [of b "concat (map block_text bs) @ ls"] Cons.IH] Cons.prems by simp
qed (simp add: passes_refl)

lemma passes_block:
  "wf_block bof (0 < lev) b \<Longrightarrow> passes lev lev (block_text b @ ls) ls bof"
proof (induction b arbitrary: lev ls)
  case (Plain l)
  then show ?case by (simp add: passes_line)
next
  case (Divider l)
  then show ?case by (auto intro!: passes_line split: skipped_line.split)
next
  case (Lua_Block a ls' e)
  then show ?case by (simp add: passes_lua)
next
  case (Cond i bs e)
  have body: "passes (Suc lev) (Suc lev) (concat (map block_text bs) @ e # ls) (e # ls) bof"
    using Cond by (intro passes_blocks) (auto simp: list_all_iff)
  have "passes lev (Suc lev) (i # concat (map block_text bs) @ e # ls) (concat (map block_text bs) @ e # ls) bof"
    using Cond.prems by (intro passes_line) auto
  moreover have "passes (Suc lev) lev (e # ls) ls bof"
    using Cond.prems by (intro passes_line) (auto split: skipped_line.split)
  ultimately have "passes lev lev (i # concat (map block_text bs) @ e # ls) ls bof"
    using passes_trans [OF passes_trans [OF _ body]] by blast
  then show ?case by simp
qed

lemma skip_branch:
  assumes s: "holds (concat (map block_text bs) @ l # rest) s" and bof: "IsPseudoOpBOF (syx (opts s)) = bof"
    and wf: "list_all (wf_block bof False) bs" and e: "branch_end (classify_line bof l) = Some (r, q)"
  shows "\<exists>s'. run_state SkipFile s = run_state (end_branch r q) s' \<and> line s' = l \<and> holds rest s'"
proof -
  have "passes 0 0 (concat (map block_text bs) @ l # rest) (l # rest) bof"
    using wf by (intro passes_blocks passes_block) (auto simp: list_all_iff)
  note p = this [unfolded passes_def, rule_format, OF s lines_fuel bof]
  obtain n s1 where n: "run_state SkipFile s = run_state (skip_lines n 0) s1" "holds (l # rest) s1" "unread (srcs s1) < n"
    "opts s1 = opts s"
    using p by (auto simp: SkipFile_def)
  obtain s2 where s2: "run_state (ReadLine True) s1 = (True, s2)" "line s2 = l" "opts s2 = opts s1" "holds rest s2"
    using read_step [OF n(2)] by auto
  show ?thesis
    using n s2 bof e by (cases n; cases "classify_line bof l") (auto simp: State_Monad.get_def)
qed

end

text \<open>Any text is such a source, for the lines the reader makes of it.\<close>

lemma opts_reports:
  "diag_only m \<Longrightarrow> keeps opts m"
  by (rule keeps_diag) simp_all

lemma keeps_opts_ReadLine: "keeps opts (ReadLine b)"
proof -
  have d: "keeps opts (Error m b1 t)" "keeps opts (Warning m b1 w)" "keeps opts (WarningById i b1 w)" for m b1 t w i
    by (rule opts_reports [OF diag_only_Error] opts_reports [OF diag_only_Warning] opts_reports [OF diag_only_WarningById])+
  have o: "keeps opts out_of_fuel" by (simp add: out_of_fuel_def) (intro keep; simp)
  note k = keep d o
  have c: "keeps opts (read_code_char b b1 q r)" for b b1 q r
    unfolding read_code_char_def by (intro k; simp)
  have r: "keeps opts (read_char b b1 q r)" for b b1 q r
    unfolding read_char_def next_segment_def by (intro k c; simp)
  have rs: "keeps opts (read_chars n b b1 b2 q r)" for n b b1 b2 q r
  proof (induction n arbitrary: b1 b2 q r)
    case (Suc n)
    show ?case unfolding read_chars.simps check_length_def by (intro k r Suc; simp)
  qed (auto intro!: k)
  have l: "keeps opts (ReadLineNoMacro b)"
    unfolding ReadLineNoMacro_def ReadBufLine_def read_one_line_def by (intro k rs) (simp_all add: Let_def)
  show ?thesis
    unfolding ReadLine_def by (intro k l) (auto simp: keeps_def state_io_rel_def split: list.split option.split)
qed

lemma reads_source: "line_source reads"
proof
  show "reads ls s \<Longrightarrow> fuel_ok s" for ls s by (cases ls) auto
  fix l ls s
  assume a: "reads (l # ls) s"
  obtain got t where t: "run_state (ReadLine True) s = (got, t)" by fastforce
  have "opts t = opts s" by (rule keepsD [OF keeps_opts_ReadLine t])
  then show "\<exists>s'. run_state (ReadLine True) s = (True, s') \<and> line s' = l \<and> opts s' = opts s \<and> reads ls s'"
    using a t by auto
qed

interpretation any_text: line_source reads
  by (rule reads_source)

text \<open>The lines of a macro.\<close>

definition block_lines :: "string list \<Rightarrow> asm \<Rightarrow> bool" where
  "block_lines ls s \<longleftrightarrow> fuel_ok s \<and> IsRunning (srcs s) \<and> lijst (srcs s) \<noteq> 0 \<and> map fst (lijstp (srcs s)) = map Some ls"

interpretation macro: line_source block_lines
proof
  show "block_lines ls s \<Longrightarrow> fuel_ok s" for ls s by (simp add: block_lines_def)
  fix l ls s
  assume a: "block_lines (l # ls) s"
  then obtain pos ps where "lijstp (srcs s) = (Some l, pos) # ps" "map fst ps = map Some ls"
    by (auto simp: block_lines_def map_eq_Cons_conv)
  then show "\<exists>s'. run_state (ReadLine True) s = (True, s') \<and> line s' = l \<and> opts s' = opts s \<and> block_lines ls s'"
    using a by (simp add: block_lines_def ReadLine_def fuel_ok_def)
qed

section \<open>Plain text files\<close>

text \<open>Characters that mean nothing to the reader: no colon, no comment, no string, no escape; and lines of them that fit the buffer
  and are not indented by the greater-than sign.\<close>

definition plain_char :: "char \<Rightarrow> bool" where
  "plain_char c \<longleftrightarrow> (c = CHR 9 \<or> 32 \<le> ord c \<and> ord c < 127) \<and> c \<notin> set '':;/*'' \<and> c \<noteq> CHR 0x5C \<and> c \<noteq> CHR 0x22 \<and> c \<noteq> CHR 0x27"

definition is_indent :: "char \<Rightarrow> bool" where
  "is_indent c \<longleftrightarrow> c = CHR '' '' \<or> c = CHR 9"

definition plain_line :: "string \<Rightarrow> bool" where
  "plain_line l \<longleftrightarrow> list_all plain_char l \<and> length l < LINEMAX - 2 \<and> cur (dropWhile is_indent l) \<noteq> CHR ''>''"

definition line_ends :: "string set" where
  "line_ends = {[CHR 10], [CHR 13], [CHR 13, CHR 10], [CHR 10, CHR 13]}"

definition text_of :: "string \<Rightarrow> string list \<Rightarrow> string" where
  "text_of e ls = concat (map (\<lambda>l. l @ e) ls)"

lemma text_of_simps [simp]: "text_of e [] = []" "text_of e (l # ls) = l @ e @ text_of e ls"
  by (simp_all add: text_of_def)

lemma plain_char_eol: "plain_char c \<Longrightarrow> \<not> is_eol c"
proof -
  have "\<not> plain_char (CHR 10)" "\<not> plain_char (CHR 13)" by code_simp+
  then show "plain_char c \<Longrightarrow> \<not> is_eol c" by (auto simp: is_eol_def)
qed

lemma plain_char_not:
  assumes "plain_char c"
  shows "c \<noteq> CHR '':''" "c \<noteq> CHR '';''" "c \<noteq> CHR ''/''" "c \<noteq> CHR ''*''" "c \<noteq> CHR 0x5C" "c \<noteq> CHR 0x22" "c \<noteq> CHR 0x27" "c \<noteq> NUL"
proof -
  have "list_all (\<lambda>x. \<not> plain_char x) [CHR '':'', CHR '';'', CHR ''/'', CHR ''*'', CHR 0x5C, CHR 0x22, CHR 0x27, NUL]"
    by code_simp
  then show "c \<noteq> CHR '':''" "c \<noteq> CHR '';''" "c \<noteq> CHR ''/''" "c \<noteq> CHR ''*''" "c \<noteq> CHR 0x5C" "c \<noteq> CHR 0x22" "c \<noteq> CHR 0x27" "c \<noteq> NUL"
    using assms by auto
qed


lemma eol_head:
  assumes "e \<in> line_ends"
  shows "e \<noteq> []" "is_eol (cur (e @ r))" "e @ r \<noteq> []"
  using assms by (auto simp: line_ends_def is_eol_def)

lemma eat_eol_text:
  assumes "e \<in> line_ends" "\<forall>l\<in>set ls. list_all plain_char l"
  shows "eat_eol (e @ text_of e ls) = text_of e ls"
proof -
  have "c = cur e \<or> \<not> is_eol c" if "text_of e ls \<noteq> []" "c = cur (text_of e ls)" for c
    using that assms eol_head(1) [OF assms(1)]
    by (cases ls; cases "hd ls") (auto simp: plain_char_eol; cases e; auto)+
  then show ?thesis
    using assms(1) by (cases "text_of e ls") (auto simp: line_ends_def eat_eol_def is_eol_def)
qed

text \<open>A round over plain characters copies what it consumes.\<close>

lemma cur_plain:
  assumes "list_all plain_char u" "is_eol (cur w)"
  shows "cur (u @ w) \<noteq> CHR '':''" "cur (u @ w) \<noteq> CHR ''*''" "cur (u @ w) \<noteq> CHR ''/''"
  using assms by (cases u; auto simp: plain_char_not is_eol_def)+

lemma label_end_plain:
  assumes "label_end (u @ w) = (t, q, l)" and u: "list_all plain_char u" and w: "is_eol (cur w)"
  shows "\<exists>v. u = t @ v \<and> q = v @ w"
proof (cases "cur (u @ w) = CHR ''+''")
  case False
  then show ?thesis using assms(1) cur_plain [OF u w] by (auto simp: label_end_def)
next
  case True
  then obtain u1 where u1: "u = CHR ''+'' # u1" using w by (cases u) (auto simp: is_eol_def)
  show ?thesis
  proof (cases "isdigit (cur (u1 @ w))")
    case True
    have "\<not> isdigit (cur w)" using w by (auto simp: is_eol_def isdigit_def ord_def)
    then obtain d u2 where u2: "u1 = d # u2" using True by (cases u1) auto
    show ?thesis using assms(1) u1 u2 u True cur_plain [of u2 w] w by (auto simp: label_end_def)
  next
    case False
    show ?thesis using assms(1) u1 u False cur_plain [of u1 w] w by (auto simp: label_end_def)
  qed
qed

lemma read_char_plain:
  assumes u: "list_all plain_char (c # u)" and w: "is_eol (cur w)" and com: "blockComment (srcs s) = 0"
  shows "\<exists>l' t v. run_state (read_char l aft acc ((c # u) @ w)) s = ((l', acc @ c # t, v @ w), s) \<and> u = t @ v"
proof -
  obtain t q l' where le: "label_end (u @ w) = (t, q, l')" by (metis prod_cases3)
  from label_end_plain [OF this _ w] u obtain v where "u = t @ v" "q = v @ w" by auto
  then show ?thesis
    using u le com cur_plain [of u w] w plain_char_not [of c]
    by (cases "l \<and> islabchar c") (auto simp: read_char_def read_code_char_def Let_def)
qed

lemma read_chars_plain:
  assumes "list_all plain_char u" "is_eol (cur w)" "w \<noteq> []" "blockComment (srcs s) = 0" "length u < n"
    "length acc + length u < LINEMAX - 2"
  shows "run_state (read_chars n True l aft acc (u @ w)) s = ((acc @ u, w), s)"
  using assms
proof (induction n arbitrary: u l aft acc)
  case (Suc n)
  have len: "run_state (check_length acc) s = ((), s)" using Suc.prems by (simp add: check_length_def)
  show ?case
  proof (cases u)
    case Nil
    then show ?thesis using Suc.prems len by simp
  next
    case (Cons c u1)
    with Suc.prems have c: "plain_char c" by simp
    obtain l' t v where rd: "run_state (read_char l aft acc (u @ w)) s = ((l', acc @ c # t, v @ w), s)" and v: "u1 = t @ v"
      using read_char_plain [OF _ Suc.prems(2,4), of c u1] Suc.prems(1) Cons by blast
    have "run_state (read_chars n True l' a2 (acc @ c # t) (v @ w)) s = ((acc @ c # t @ v, w), s)" for a2
      using Suc.IH [of v "acc @ c # t" l' a2] Suc.prems Cons v by simp
    then show ?thesis
      using rd len Cons v plain_char_eol [OF c] plain_char_not [OF c] by simp
  qed
qed simp

text \<open>The lines of a file. The last line end is put back, so nothing is said of what follows the last line.\<close>

definition file_lines :: "string \<Rightarrow> string list \<Rightarrow> asm \<Rightarrow> bool" where
  "file_lines e ls s \<longleftrightarrow> fuel_ok s \<and> e \<in> line_ends \<and> list_all plain_line ls \<and>
     (ls \<noteq> [] \<longrightarrow> IsRunning (srcs s) \<and> lijst (srcs s) = 0 \<and> \<not> colonSubline (srcs s) \<and> blockComment (srcs s) = 0 \<and>
        rlbuf (srcs s) = text_of e ls)"

lemma line_start_plain:
  assumes "plain_line l" "is_eol (cur w)"
  shows "\<exists>a u k. line_start False False True (l @ w) = (a, u @ w, k, False, 0) \<and> l = a @ u"
proof -
  have t: "takeWhile is_indent (l @ w) = takeWhile is_indent l"
  proof -
    have "\<not> is_indent (cur w)" "w \<noteq> []" using assms(2) by (auto simp: is_eol_def is_indent_def)
    then show ?thesis by (cases w; induction l) simp_all
  qed
  have d: "drop (length (takeWhile is_indent l)) (l @ w) = dropWhile is_indent l @ w"
    by (simp add: dropWhile_eq_drop length_takeWhile_le)
  have "cur x \<noteq> CHR ''>'' \<Longrightarrow> cur (x @ w) \<noteq> CHR ''>''" for x
    using assms(2) by (cases x) (auto simp: is_eol_def)
  then have "cur (dropWhile is_indent l @ w) \<noteq> CHR ''>''"
    using assms(1) by (simp add: plain_line_def)
  then show ?thesis
    using t d unfolding line_start_def is_indent_def [abs_def, symmetric] Let_def
    by (rule_tac x = "takeWhile is_indent l" in exI, rule_tac x = "dropWhile is_indent l" in exI)
      (simp del: drop_append)
qed

lemma read_one_line_plain:
  assumes l: "plain_line l" and s: "rlbuf (srcs s) = l @ w" "\<not> colonSubline (srcs s)" "blockComment (srcs s) = 0"
    and w: "is_eol (cur w)"
  shows "\<exists>pos d. run_state (read_one_line True) s = ((), s\<lparr>dg := d, line := l, substitutedLine := l, sourcePosStack := pos,
     srcs := (srcs s)\<lparr>rlbuf := fst (line_finish True False l w), colonSubline := False\<rparr>\<rparr>)"
proof -
  obtain a u k where start: "line_start False False True (l @ w) = (a, u @ w, k, False, 0)" and a: "l = a @ u"
    using line_start_plain [OF l w] by blast
  have "w \<noteq> []" using w by auto
  define s1 where "s1 = s\<lparr>dg := (dg s)\<lparr>eolComment := None\<rparr>, srcs := (srcs s)\<lparr>colonSubline := False\<rparr>\<rparr>"
  have rd: "run_state (read_chars (length (u @ w) + 1) True k True a (u @ w)) s1 = ((l, w), s1)"
    using l s a \<open>w \<noteq> []\<close> by (simp only: a) (rule read_chars_plain, auto simp: plain_line_def s1_def w)
  obtain r where fin: "line_finish True False l w = (r, False)"
    using w by (simp add: line_finish_def Let_def)
  show ?thesis
    unfolding read_one_line_def
    using start rd s fin
    by (intro exI [of _ "butlast (sourcePosStack s) @ [nextSegment False 0 (last (sourcePosStack s))]"] exI [of _ "dg s1"])
      (simp add: State_Monad.get_def s1_def Let_def del: read_chars.simps)
qed

lemma file_lines_ok: "line_source (file_lines e)"
proof
  show "file_lines e ls s \<Longrightarrow> fuel_ok s" for ls s by (simp add: file_lines_def)
  fix l ls s
  assume a: "file_lines e (l # ls) s"
  then have e: "e \<in> line_ends" and pl: "plain_line l" "list_all plain_line ls" by (auto simp: file_lines_def)
  have eat: "eat_eol (e @ text_of e ls) = text_of e ls"
    by (rule eat_eol_text [OF e]) (use pl in \<open>auto simp: list_all_iff plain_line_def\<close>)
  have "ls \<noteq> [] \<Longrightarrow> fst (line_finish True False l (e @ text_of e ls)) = text_of e ls"
    using eol_head [OF e] eat by (cases ls) (auto simp: line_finish_def Let_def)
  moreover obtain pos d where "run_state (read_one_line True) s = ((), s\<lparr>dg := d, line := l, substitutedLine := l, sourcePosStack := pos,
     srcs := (srcs s)\<lparr>rlbuf := fst (line_finish True False l (e @ text_of e ls)), colonSubline := False\<rparr>\<rparr>)"
    using read_one_line_plain [OF pl(1), of s "e @ text_of e ls"] a eol_head [OF e] by (auto simp: file_lines_def)
  ultimately show "\<exists>s'. run_state (ReadLine True) s = (True, s') \<and> line s' = l \<and> opts s' = opts s \<and> file_lines e ls s'"
    using a eol_head [OF e] by (auto simp: file_lines_def ReadLine_def ReadLineNoMacro_def ReadBufLine_def fuel_ok_def)
qed

interpretation text_file: line_source "file_lines e" for e
  by (rule file_lines_ok)

section \<open>What is read\<close>

definition utf8_mark :: string where
  "utf8_mark = [CHR 0xEF, CHR 0xBB, CHR 0xBF]"

lemma plain_text_ord:
  assumes "e \<in> line_ends" "list_all plain_line ls"
  shows "\<forall>c\<in>set (text_of e ls). 9 \<le> ord c \<and> ord c < 127"
proof -
  have "list_all (\<lambda>c. 9 \<le> ord c \<and> ord c < 127) [CHR 9, CHR 10, CHR 13]" by code_simp
  then have "9 \<le> ord c \<and> ord c < 127" if "plain_char c \<or> c = CHR 10 \<or> c = CHR 13" for c
    using that by (auto simp: plain_char_def)
  moreover have "\<forall>c\<in>set (text_of e ls). plain_char c \<or> c = CHR 10 \<or> c = CHR 13"
    using assms by (auto simp: text_of_def line_ends_def plain_line_def list_all_iff)
  ultimately show ?thesis by blast
qed

text \<open>No mark of the table starts a plain text.\<close>

lemma skip_bom_plain:
  assumes "\<forall>c\<in>set p. 9 \<le> ord c \<and> ord c < 127" "list_all (\<lambda>(name, m). m \<noteq> [] \<and> (hd m = 0 \<or> 127 \<le> hd m)) ms"
  shows "skip_bom ms p = ret p"
  using assms
proof (induction ms p rule: skip_bom.induct)
  case (2 name m ms p)
  then have "map ord (take (length m) p) \<noteq> m"
    by (cases p; cases m) auto
  then show ?case using 2 by simp
qed simp

lemma start_file_plain:
  assumes "b = [] \<or> b = utf8_mark" "\<forall>c\<in>set p. 9 \<le> ord c \<and> ord c < 127"
  shows "run_state (start_file (b @ p)) s = ((), s\<lparr>srcs := (srcs s)\<lparr>rlbuf := p, colonSubline := False, blockComment := 0\<rparr>\<rparr>)"
proof -
  have u: "map ord utf8_mark = [0xEF, 0xBB, 0xBF]" "length utf8_mark = 3" by code_simp+
  have ms: "list_all (\<lambda>(name, m). m \<noteq> [] \<and> (hd m = 0 \<or> 127 \<le> hd m)) UtfBomMarkers" by code_simp
  have "skip_bom UtfBomMarkers (b @ p) = ret p"
  proof (cases "b = []")
    case True
    then show ?thesis using skip_bom_plain [OF assms(2) ms] by simp
  next
    case False
    then show ?thesis
      using u assms ms skip_bom_plain [OF assms(2), of "tl UtfBomMarkers"] by (simp add: UtfBomMarkers_def whenM_def)
  qed
  then show ?thesis by (simp add: start_file_def)
qed

text \<open>
  Claim C33. A file of plain lines is read back line by line: whatever of the four line ends it uses (LF, CR, CR LF, LF CR), with a
  UTF-8 mark in front of it or without, the reader delivers exactly its lines, in their order, empty and indented lines included.
\<close>

theorem plain_file_read_back:
  assumes "e \<in> {[CHR 10], [CHR 13], [CHR 13, CHR 10], [CHR 10, CHR 13]}" "list_all plain_line ls"
    and "b = [] \<or> b = utf8_mark"
    and "halted s \<noteq> OutOfFuel" "IsRunning (srcs s)" "lijst (srcs s) = 0"
  shows "fst (run_state (do { start_file (b @ concat (map (\<lambda>l. l @ e) ls)); take_lines (length ls) }) s) = ls"
proof -
  define s1 where "s1 = s\<lparr>srcs := (srcs s)\<lparr>rlbuf := text_of e ls, colonSubline := False, blockComment := 0\<rparr>\<rparr>"
  have e: "e \<in> line_ends" using assms(1) by (simp add: line_ends_def)
  have "run_state (start_file (b @ text_of e ls)) s = ((), s1)"
    unfolding s1_def by (rule start_file_plain [OF assms(3) plain_text_ord [OF e assms(2)]])
  moreover have "file_lines e ls s1" using assms e by (simp add: file_lines_def s1_def fuel_ok_def)
  ultimately show ?thesis using text_file.take_lines_holds by (simp add: text_of_def)
qed

theorem plain_file_read_back_witness:
  "fst (run_state (do { start_file (utf8_mark @ concat (map (\<lambda>l. l @ [CHR 13, CHR 10]) [''main ld a+1'', [], ''  nop'']));
     take_lines (length [''main ld a+1'', [], ''  nop'']) }) (asm0\<lparr>srcs := (srcs asm0)\<lparr>IsRunning := True\<rparr>\<rparr>)) =
   [''main ld a+1'', [], ''  nop'']"
proof (rule plain_file_read_back)
  show "list_all plain_line [''main ld a+1'', [], ''  nop'']" by code_simp
qed (simp_all add: asm0_def)

text \<open>
  Claim C7. Skipping, for any text and the lines the reader makes of it (it divides the text at line ends and, outside of quotes and comments, at
  colons; \<open>reads\<close>): in front of the line \<open>l\<close> that is an ELSE, ELSEIF or ENDIF, \<^verbatim>\<open>SkipFile\<close> passes any sequence of properly nested conditionals (of
  all six kinds, with their own ELSE, ELSEIF and ENDIF), Lua blocks (lines up to an ENDLUA, conditionals of the assembler among them) and other
  lines. It ends exactly at \<open>l\<close>, with the result of that keyword, and the lines behind \<open>l\<close> are left.
\<close>

theorem SkipFile_in_file:
  assumes "reads (concat (map block_text bs) @ l # rest) s"
    and "list_all (wf_block (IsPseudoOpBOF (syx (opts s))) False) bs"
    and "branch_end (classify_line (IsPseudoOpBOF (syx (opts s))) l) = Some (r, q)"
  shows "\<exists>s'. run_state SkipFile s = run_state (end_branch r q) s' \<and> line s' = l \<and> reads rest s'"
  by (rule any_text.skip_branch [OF assms(1) refl assms(2,3)])

definition demo_text :: asm where
  "demo_text = asm0\<lparr>sourcePosStack := [\<lparr>tfp_filename = [], tfp_line = 0, colBegin = 0, colEnd = 0\<rparr>],
     srcs := (srcs asm0)\<lparr>IsRunning := True, rlbuf := text_of [CHR 10] [''lab: if x : nop ; c: d'', '' else // y'', ''  x: lua'',
       '' a:b()'', '' endlua : endif'', '' else /* k'', '' l */ : ret'']\<rparr>\<rparr>"

theorem SkipFile_in_file_witness:
  "\<exists>s'. run_state SkipFile demo_text = run_state (end_branch R_ELSE '' /* k'') s' \<and> line s' = '' else /* k'' \<and> reads ['' l */ '', ''  ret''] s'"
proof -
  let ?bs = "[Cond ''lab: if x '' [Plain ''  nop ; c: d'', Divider '' else // y'', Plain ''  x'', Lua_Block ''  lua'' ['' a'', '' b()''] '' endlua ''] ''  endif'']"
  have f: "reads (concat (map block_text ?bs) @ '' else /* k'' # ['' l */ '', ''  ret'']) demo_text" by code_simp
  have o: "IsPseudoOpBOF (syx (opts demo_text)) = False" by (simp add: demo_text_def asm0_def syntax0_def)
  have wf: "list_all (wf_block False False) ?bs" and e: "branch_end (classify_line False '' else /* k'') = Some (R_ELSE, '' /* k'')" by code_simp+
  show ?thesis by (rule SkipFile_in_file [OF f]) (simp_all only: o wf e)
qed

text \<open>
  Claim C32. Skipping in a macro: the same, when the lines come from the body of the macro or repetition that is being emitted; there the lines are
  taken as they are stored.
\<close>

theorem SkipFile_in_macro:
  assumes "block_lines (concat (map block_text bs) @ l # rest) s"
    and "list_all (wf_block (IsPseudoOpBOF (syx (opts s))) False) bs"
    and "branch_end (classify_line (IsPseudoOpBOF (syx (opts s))) l) = Some (r, q)"
  shows "\<exists>s'. run_state SkipFile s = run_state (end_branch r q) s' \<and> line s' = l \<and> block_lines rest s'"
  by (rule macro.skip_branch [OF assms(1) refl assms(2,3)])

theorem SkipFile_in_macro_witness:
  "\<exists>s'. run_state SkipFile (asm0\<lparr>srcs := (srcs asm0)\<lparr>IsRunning := True, lijst := 1,
       lijstp := map (\<lambda>l. (Some l, \<lparr>tfp_filename = [], tfp_line = 1, colBegin = 0, colEnd = 0\<rparr>)) [''  ifdef x'', ''  endif'', ''  elseif y'', ''  nop'']\<rparr>\<rparr>) =
     run_state (end_branch R_ELSEIF '' y'') s' \<and> line s' = ''  elseif y'' \<and> block_lines [''  nop''] s'"
  (is "\<exists>s'. run_state SkipFile ?s = _ \<and> _")
proof -
  let ?bs = "[Cond ''  ifdef x'' [] ''  endif'']"
  have f: "block_lines (concat (map block_text ?bs) @ ''  elseif y'' # [''  nop'']) ?s"
    by (simp add: block_lines_def asm0_def fuel_ok_def)
  have o: "IsPseudoOpBOF (syx (opts ?s)) = False" by (simp add: asm0_def syntax0_def)
  have wf: "list_all (wf_block False False) ?bs"
    and e: "branch_end (classify_line False ''  elseif y'') = Some (R_ELSEIF, '' y'')" by code_simp+
  show ?thesis by (rule SkipFile_in_macro [OF f]) (simp_all only: o wf e)
qed

end
