(* ===== verification/Sj_Data.thy ===== *)
theory Sj_Data
  imports Sj_Emit
begin

text \<open>
  directives.cpp: the directives that emit data (\<^verbatim>\<open>DB\<close>, \<^verbatim>\<open>DC\<close>, \<^verbatim>\<open>DZ\<close>, \<^verbatim>\<open>DP\<close>, \<^verbatim>\<open>ABYTE\<close>, \<^verbatim>\<open>DW\<close>, \<^verbatim>\<open>DWORD\<close>, \<^verbatim>\<open>D24\<close>, \<^verbatim>\<open>DG\<close>, \<^verbatim>\<open>DH\<close>, \<^verbatim>\<open>DS\<close>,
  \<^verbatim>\<open>ALIGN\<close>) and those that move the address (\<^verbatim>\<open>ORG\<close>, \<^verbatim>\<open>DISP\<close>, \<^verbatim>\<open>ENT\<close>, \<^verbatim>\<open>PAGE\<close>, \<^verbatim>\<open>MMU\<close>, \<^verbatim>\<open>SLOT\<close>) or the current module. All of them work on the global line
  pointer. The array of values with its end marker is the list of the values.
\<close>

section \<open>Bytes\<close>

definition getBytesWithCheck :: "aint \<Rightarrow> bool \<Rightarrow> bool \<Rightarrow> unit M" where
  "getBytesWithCheck add dc dz = do {
     check8 add;
     e \<leftarrow> on_lp (GetBytes (add AND 255) dc);
     if e \<noteq> [] then do {
       EmitBytes e False;
       whenM dz (EmitByte 0 False) }
     else Error ''no arguments'' None E_PASS3 }"

definition dirBYTE :: "unit M" where
  "dirBYTE = getBytesWithCheck 0 False False"

definition dirDC :: "unit M" where
  "dirDC = getBytesWithCheck 0 True False"

definition dirDZ :: "unit M" where
  "dirDZ = getBytesWithCheck 0 False True"

definition DP_HELPER_LABEL :: aint where
  "DP_HELPER_LABEL = -0x3FFFFFFF"

text \<open>The size in front of the bytes is the distance to a helper label that the previous pass left behind them.\<close>

definition dirDP :: "unit M" where
  "dirDP = do {
     s \<leftarrow> State_Monad.get;
     let endLabel = seekForward DP_HELPER_LABEL (labs s);
     let dpSize = (case endLabel of Some l \<Rightarrow> wrap32 (tl_value l - (CurAddress s + 1)) | None \<Rightarrow> 0);
     whenM (pass s = LASTPASS \<and> endLabel = None) (Error ''dirDP(): please, contact the author of this program.'' None E_FATAL);
     EmitByte dpSize False;
     getBytesWithCheck 0 False False;
     InsertRefresh DP_HELPER_LABEL;
     ret () }"

definition abyte :: "string \<Rightarrow> bool \<Rightarrow> bool \<Rightarrow> unit M" where
  "abyte msg dc dz = do {
     r \<leftarrow> on_lp ParseExpressionNoSyntaxError;
     (case r of
        Some add \<Rightarrow> do {
          checkAndWarn False;
          getBytesWithCheck add dc dz }
      | None \<Rightarrow> do {
          b \<leftarrow> gets bp;
          Error msg (Some b) E_SUPPRESS }) }"

definition dirABYTE :: "unit M" where
  "dirABYTE = abyte ''ABYTE <offset> <bytes>: parsing <offset> failed'' False False"

definition dirABYTEC :: "unit M" where
  "dirABYTEC = abyte ''ABYTEC <offset> <bytes>: parsing <offset> failed'' True False"

definition dirABYTEZ :: "unit M" where
  "dirABYTEZ = abyte ''ABYTEZ <offset> <bytes>: parsing <offset> failed'' False True"

section \<open>Words\<close>

text \<open>The loop of \<^verbatim>\<open>DW\<close>, \<^verbatim>\<open>DWORD\<close> and \<^verbatim>\<open>D24\<close> over the arguments: \<open>start\<close> runs before every argument, \<open>item\<close> adds a value to
  the array, which is full with \<open>lim\<close> elements. An empty argument is an error, but the loop goes on; it is left at a
  syntax error.\<close>

primrec data_loop :: "nat \<Rightarrow> unit M \<Rightarrow> (aint \<Rightarrow> int list \<Rightarrow> int list M) \<Rightarrow> string \<Rightarrow> nat \<Rightarrow> int list \<Rightarrow> int list M" where
  "data_loop 0 start item msg lim e = do { out_of_fuel; ret e }"
| "data_loop (Suc n) start item msg lim e = do {
     start;
     eol \<leftarrow> lexM SkipBlanks;
     (left, e1) \<leftarrow> (if eol then do {
         Error ''Expression expected'' None E_SUPPRESS;
         ret (False, e) }
       else do {
         r \<leftarrow> on_lp ParseExpressionNoSyntaxError;
         (case r of
            Some val \<Rightarrow> do { e' \<leftarrow> item val e; ret (False, e') }
          | None \<Rightarrow> do {
              l \<leftarrow> gets lp;
              Error msg (Some l) E_SUPPRESS;
              ret (True, e) }) });
     if left then ret e1
     else do {
       c \<leftarrow> lexM comma;
       if c \<and> length e1 < lim then data_loop n start item msg lim e1 else ret e1 } }"

definition data_args :: "unit M \<Rightarrow> (aint \<Rightarrow> int list \<Rightarrow> int list M) \<Rightarrow> string \<Rightarrow> nat \<Rightarrow> string \<Rightarrow> int list M" where
  "data_args start item msg lim over = do {
     p \<leftarrow> gets lp;
     e \<leftarrow> data_loop (Suc (length p)) start item msg lim [];
     l \<leftarrow> gets lp;
     whenM (length e = lim \<and> cur l \<noteq> NUL) (Error over (Some l) E_SUPPRESS);
     ret e }"

definition word_item :: "aint \<Rightarrow> int list \<Rightarrow> int list M" where
  "word_item val e = do {
     check16 val;
     resolveRelocationAffected (int (length e) * 2) REL_REGULAR;
     ret (e @ [val AND 65535]) }"

definition dword_item :: "aint \<Rightarrow> int list \<Rightarrow> int list M" where
  "dword_item val e = ret (e @ [val AND 65535, drop_bit 16 val AND 0xFFFF])"

definition d24_item :: "aint \<Rightarrow> int list \<Rightarrow> int list M" where
  "d24_item val e = do {
     check24 val;
     ret (e @ [val AND 255, drop_bit 8 val AND 255, drop_bit 16 val AND 255]) }"

definition dirWORD :: "unit M" where
  "dirWORD = do {
     e \<leftarrow> data_args (mod_rel (\<lambda>r. r\<lparr>isResultAffected := False\<rparr>)) word_item ''[DW/DEFW/WORD] Syntax error'' 128
       ''Over 128 values in DW/DEFW/WORD. Values over'';
     if e \<noteq> [] then EmitWords e False else Error ''DW/DEFW/WORD with no arguments'' None E_PASS3 }"

definition dirDWORD :: "unit M" where
  "dirDWORD = do {
     e \<leftarrow> data_args (ret ()) dword_item ''[DWORD] Syntax error'' 256 ''Over 128 values in DWORD. Values over'';
     if e \<noteq> [] then EmitWords e False else Error ''DWORD with no arguments'' None E_PASS3 }"

definition dirD24 :: "unit M" where
  "dirD24 = do {
     e \<leftarrow> data_args (ret ()) d24_item ''[D24] Syntax error'' 384 ''Over 128 values in D24. Values over'';
     if e \<noteq> [] then EmitBytes e False else Error ''D24 with no arguments'' None E_PASS3 }"

definition dirDG :: "unit M" where
  "dirDG = do {
     e \<leftarrow> on_lp GetBits;
     if e \<noteq> [] then EmitBytes e False else Error ''no arguments'' None E_PASS3 }"

definition dirDH :: "unit M" where
  "dirDH = do {
     e \<leftarrow> on_lp GetBytesHexaText;
     if e \<noteq> [] then EmitBytes e False else Error ''no arguments'' None E_PASS3 }"

section \<open>Blocks\<close>

text \<open>The explicit bytes of a block, cut to its length.\<close>

definition block_init :: "aint \<Rightarrow> int list M" where
  "block_init teller = do {
     e \<leftarrow> on_lp (GetBytes 0 False);
     if teller < int (length e) then do {
       WarningByIdInt W_SHORT_BLOCK teller W_PASS3;
       ret (take (nat teller) e) }
     else ret e }"

definition dirBLOCK :: "unit M" where
  "dirBLOCK = do {
     r \<leftarrow> on_lp ParseExpressionNoSyntaxError;
     (case r of
        None \<Rightarrow> do {
          l \<leftarrow> gets lp;
          Error ''[BLOCK] Syntax Error in <length>'' (Some l) E_SUPPRESS }
      | Some teller \<Rightarrow> do {
          whenM (teller < 0) (Warning ''Negative BLOCK moves PC backwards'' None W_PASS3);
          c \<leftarrow> lexM comma;
          e \<leftarrow> (if c then block_init teller else ret []);
          whenM (e \<noteq> []) (EmitBytes e False);
          EmitBlock (if e \<noteq> [] then last e else 0) (wrap32 (teller - int (length e))) False
            (4 - int (length e) AND 3) }) }"

definition dirALIGN :: "unit M" where
  "dirALIGN = do {
     (val0, fill) \<leftarrow> ParseAlignArguments;
     let val = (if val0 = -1 then 4 else val0);
     adr \<leftarrow> gets CurAddress;
     let len = wrap32 (NOT adr + 1) AND (val - 1);
     if len < 1 then ret ()
     else if fill = -1 then EmitBlock 0 len True 4
     else EmitBlock fill len False 4 }"

section \<open>Pages\<close>

text \<open>\<^verbatim>\<open>GetSlot(n)->Page = page\<close>; a wrong number stands for the first slot, as in \<open>GetSlot\<close>.\<close>

definition set_slot :: "int \<Rightarrow> (CDeviceSlot \<Rightarrow> CDeviceSlot) \<Rightarrow> CDevice \<Rightarrow> CDevice" where
  "set_slot num f d = (let i = (if 0 \<le> num \<and> num < int (length (dev_Slots d)) then nat num else 0)
     in d\<lparr>dev_Slots := (dev_Slots d)[i := f (dev_Slots d ! i)]\<rparr>)"

definition dirPageImpl :: "string \<Rightarrow> int \<Rightarrow> bool M" where
  "dirPageImpl dirName pageNumber = do {
     s \<leftarrow> State_Monad.get;
     if Device (dv s) = None then ret False
     else
       let n = int (length (dev_Pages (the_dev s))) in
       if pageNumber < 0 \<or> n \<le> pageNumber then do {
         ErrorInt (''['' @ dirName @ ''] Page number must be in range 0..'' @ fmt_d (n - 1)) pageNumber E_PASS3;
         ret False }
       else do {
         GetCurrentSlot (the_dev s);
         pg \<leftarrow> GetPage pageNumber (the_dev s);
         upd_dev (\<lambda>d. set_slot (int (dev_CurrentSlot d)) (\<lambda>S. S\<lparr>slot_Page := page_Number pg\<rparr>) d);
         CheckPage CHECK_RESET;
         ret True } }"

definition page_argument :: "string \<Rightarrow> unit M" where
  "page_argument dirName = do {
     r \<leftarrow> on_lp ParseExpressionNoSyntaxError;
     (case r of
        Some pageNum \<Rightarrow> do { dirPageImpl dirName pageNum; ret () }
      | None \<Rightarrow> do {
          l \<leftarrow> gets lp;
          Error ''Syntax error in <page_number>'' (Some l) E_SUPPRESS }) }"

definition dirPAGE :: "unit M" where
  "dirPAGE = do {
     d \<leftarrow> gets (\<lambda>s. DeviceID (dv s));
     if d = None then do {
       Warning ''PAGE only allowed in real device emulation mode (See DEVICE)'' None W_PASS3;
       modify (\<lambda>s. s\<lparr>lp := SkipParam (lp s)\<rparr>) }
     else page_argument ''PAGE'' }"

definition dirSLOT :: "unit M" where
  "dirSLOT = do {
     d \<leftarrow> gets (\<lambda>s. DeviceID (dv s));
     if d = None then do {
       Warning ''SLOT only allowed in real device emulation mode (See DEVICE)'' None W_PASS3;
       modify (\<lambda>s. s\<lparr>lp := SkipParam (lp s)\<rparr>) }
     else do {
       r \<leftarrow> on_lp ParseExpressionNoSyntaxError;
       (case r of
          None \<Rightarrow> do {
            l \<leftarrow> gets lp;
            Error ''[SLOT] Syntax error in <slot_number>'' (Some l) E_SUPPRESS }
        | Some val0 \<Rightarrow> do {
            dev \<leftarrow> gets the_dev;
            let val = SlotNumberFromPreciseAddress val0 dev;
            upd_dev (\<lambda>d. snd (SetSlot val d));
            whenM (\<not> fst (SetSlot val dev)) (Error
              (''[SLOT] Slot number must be in range 0..'' @ fmt_d (int (length (dev_Slots dev)) - 1) @ '', or exact starting address of slot'')
              None E_IF_FIRST) }) } }"

section \<open>Addresses\<close>

definition DISP_NONE_boundary :: "unit M" where
  "DISP_NONE_boundary = do {
     d \<leftarrow> gets PseudoORG;
     whenM (d = DISP_NONE) (SizeBoundary BOUNDARY_ALL) }"

text \<open>An address is cropped to 16 bits in a device or without long pointers.\<close>

definition crop_address :: "aint \<Rightarrow> aint M" where
  "crop_address val = do {
     s \<leftarrow> State_Monad.get;
     if DeviceID (dv s) \<noteq> None \<or> \<not> IsLongPtr (opts s) then do {
       ok \<leftarrow> check16u val;
       ret (if ok then val else val AND 0xFFFF) }
     else ret val }"

definition warn_displaced :: "unit M" where
  "warn_displaced = do {
     d \<leftarrow> gets PseudoORG;
     whenM (d \<noteq> DISP_NONE) (WarningById W_DISPLACED_ORG None W_PASS3) }"

text \<open>The page argument of ORG.\<close>

definition org_page :: "unit M" where
  "org_page = do {
     c \<leftarrow> lexM comma;
     if \<not> c then CheckPage CHECK_RESET
     else do {
       s \<leftarrow> State_Monad.get;
       slot \<leftarrow> GetCurrentSlot (the_dev s);
       whenM (CurAddress s < slot_Address slot \<or> slot_Address slot + slot_Size slot \<le> CurAddress s)
         (WarningById W_ORG_PAGE (Some (''address 0x'' @ fmt_0X 4 (CurAddress s) @ '' vs slot '' @
            fmt_d (int (dev_CurrentSlot (the_dev s))) @ '' range 0x'' @ fmt_0X 4 (slot_Address slot) @ ''..0x'' @
            fmt_0X 4 (slot_Address slot + slot_Size slot - 1))) W_PASS3);
       page_argument ''ORG'' } }"

definition dirORG :: "unit M" where
  "dirORG = do {
     DISP_NONE_boundary;
     r \<leftarrow> on_lp ParseExpressionNoSyntaxError;
     (case r of
        None \<Rightarrow> do {
          l \<leftarrow> gets lp;
          Error ''[ORG] Syntax error in <address>'' (Some l) E_SUPPRESS }
      | Some val0 \<Rightarrow> do {
          val \<leftarrow> crop_address val0;
          s \<leftarrow> State_Monad.get;
          whenM (DidWriteOutputByte s \<and> CurAddress s \<noteq> val) (WarningByIdInt W_FILE_ORG (wrap32 (val - CurAddress s)) W_PASS3);
          modify (\<lambda>s. s\<lparr>CurAddress := val\<rparr>);
          warn_displaced;
          if DeviceID (dv s) = None then ret () else org_page }) }"

definition dirOrgOnlyAddr :: "aint \<Rightarrow> unit M" where
  "dirOrgOnlyAddr address0 = do {
     DISP_NONE_boundary;
     address \<leftarrow> crop_address address0;
     modify (\<lambda>s. s\<lparr>CurAddress := address\<rparr>);
     warn_displaced;
     d \<leftarrow> gets (\<lambda>s. DeviceID (dv s));
     whenM (d \<noteq> None) (CheckPage CHECK_RESET) }"

text \<open>The page of a DISP block. None: an error was reported.\<close>

definition disp_page :: "int option M" where
  "disp_page = do {
     c \<leftarrow> lexM comma;
     if \<not> c then ret (Some LABEL_PAGE_UNDEFINED)
     else do {
       r \<leftarrow> on_lp ParseExpressionNoSyntaxError;
       s \<leftarrow> State_Monad.get;
       (case r of
          None \<Rightarrow> do { Error ''[DISP] Syntax error in <page number>'' (Some (lp s)) E_PASS3; ret None }
        | Some n \<Rightarrow>
            if DeviceID (dv s) = None then do {
              Error ''[DISP] <page number> is accepted only in device mode'' (Some (line s)) E_PASS3;
              ret None }
            else if n < 0 \<or> int (length (dev_Pages (the_dev s))) \<le> n then do {
              ErrorInt ''[DISP] <page number> is out of range'' n E_PASS3;
              ret None }
            else ret (Some n)) } }"

definition start_disp :: "aint \<Rightarrow> int \<Rightarrow> unit M" where
  "start_disp valAdr0 pg = do {
     modify (\<lambda>s. s\<lparr>dispPageNum := pg\<rparr>);
     valAdr \<leftarrow> crop_address valAdr0;
     modify (\<lambda>s. s\<lparr>adrdisp := CurAddress s, CurAddress := valAdr,
       PseudoORG := (if rel_type (rel s) \<noteq> REL_OFF then DISP_INSIDE_RELOCATE else DISP_ACTIVE)\<rparr>) }"

definition dirDISP :: "unit M" where
  "dirDISP = do {
     d \<leftarrow> gets PseudoORG;
     if d \<noteq> DISP_NONE then do {
       Warning ''[DISP] displacement inside another displacement block, ignoring it.'' None W_PASS3;
       skip_line }
     else do {
       mod_rel (\<lambda>r. r\<lparr>isResultAffected := False\<rparr>);
       r \<leftarrow> on_lp ParseExpressionNoSyntaxError;
       (case r of
          None \<Rightarrow> do {
            l \<leftarrow> gets lp;
            Error ''[DISP] Syntax error in <address>'' (Some l) E_SUPPRESS }
        | Some valAdr \<Rightarrow> do {
            affected \<leftarrow> checkAndWarn True;
            if affected then skip_line
            else do {
              pg \<leftarrow> disp_page;
              (case pg of None \<Rightarrow> ret () | Some n \<Rightarrow> start_disp valAdr n) } }) } }"

definition dirENT :: "unit M" where
  "dirENT = do {
     s \<leftarrow> State_Monad.get;
     if PseudoORG s = DISP_NONE then Error ''ENT should be after DISP'' None E_PASS3
     else if PseudoORG s = DISP_ACTIVE \<and> rel_type (rel s) \<noteq> REL_OFF then
       Error ''The DISP block did start outside of relocation block, can't end inside it'' None E_PASS3
     else if PseudoORG s = DISP_INSIDE_RELOCATE \<and> rel_type (rel s) = REL_OFF then
       Error ''The DISP block did start inside of relocation block, can't end outside of it'' None E_PASS3
     else modify (\<lambda>s. s\<lparr>CurAddress := adrdisp s, PseudoORG := DISP_NONE, dispPageNum := LABEL_PAGE_UNDEFINED\<rparr>) }"

section \<open>MMU\<close>

datatype mmu_slots = Mmu_error | Mmu aint aint ESlotOptions

definition mmu_error :: "string \<Rightarrow> 'a \<Rightarrow> 'a M" where
  "mmu_error msg r = do {
     b \<leftarrow> gets bp;
     Error msg (Some b) E_SUPPRESS;
     ret r }"

text \<open>The option character of a single slot.\<close>

definition slot_option :: "ESlotOptions M" where
  "slot_option = do {
     l \<leftarrow> gets lp;
     set_lp (drop 1 l);
     let c = tolower (cur l);
     if c = CHR ''e'' then ret O_ERROR
     else if c = CHR ''w'' then ret O_WARNING
     else if c = CHR ''n'' then ret O_NEXT
     else do {
       Warning ''[MMU] Unknown slot option (legal: e, w, n)'' (Some l) W_PASS3;
       ret O_NONE } }"

text \<open>The slots: one, one with an option, or a range; and the comma behind them.\<close>

definition mmu_slots :: "mmu_slots M" where
  "mmu_slots = do {
     r1 \<leftarrow> on_lp ParseExpression;
     (case r1 of
        None \<Rightarrow> mmu_error ''[MMU] First slot number parsing failed'' Mmu_error
      | Some slot1 \<Rightarrow> do {
          c \<leftarrow> lexM comma;
          if c then ret (Mmu slot1 slot1 O_NONE)
          else do {
            l \<leftarrow> gets lp;
            res \<leftarrow> (if isalpha (cur l) \<and> (cur (drop 1 l) = CHR '','' \<or> White (cur (drop 1 l))) then do {
                opt \<leftarrow> slot_option;
                ret (Mmu slot1 slot1 opt) }
              else do {
                r2 \<leftarrow> on_lp ParseExpression;
                (case r2 of
                   None \<Rightarrow> mmu_error ''[MMU] Second slot number parsing failed'' Mmu_error
                 | Some slot2 \<Rightarrow> ret (Mmu slot1 slot2 O_NONE)) });
            if res = Mmu_error then ret res
            else do {
              c2 \<leftarrow> lexM comma;
              if c2 then ret res else mmu_error ''[MMU] Comma and page number expected after slot info'' Mmu_error } } }) }"

text \<open>The page and the optional address, -1 without it.\<close>

definition mmu_page :: "(aint \<times> aint) option M" where
  "mmu_page = do {
     r \<leftarrow> on_lp ParseExpression;
     (case r of
        None \<Rightarrow> mmu_error ''[MMU] Page number parsing failed'' None
      | Some pageN \<Rightarrow> do {
          c \<leftarrow> lexM comma;
          if \<not> c then ret (Some (pageN, -1))
          else do {
            a \<leftarrow> on_lp ParseExpressionNoSyntaxError;
            (case a of
               None \<Rightarrow> mmu_error ''[MMU] address parsing failed'' None
             | Some address \<Rightarrow> do {
                 check16 address;
                 ret (Some (pageN, address AND 0xFFFF)) }) } }) }"

text \<open>Pages are mapped into \<open>k\<close> slots from \<open>slotN\<close> on.\<close>

fun map_range :: "nat \<Rightarrow> aint \<Rightarrow> aint \<Rightarrow> ESlotOptions \<Rightarrow> unit M" where
  "map_range 0 slotN pageN opt = ret ()"
| "map_range (Suc k) slotN pageN opt = do {
     dev \<leftarrow> gets the_dev;
     pg \<leftarrow> GetPage pageN dev;
     upd_dev (set_slot slotN (\<lambda>S. S\<lparr>slot_Page := page_Number pg, slot_Option := opt\<rparr>));
     map_range k (slotN + 1) (pageN + 1) opt }"

text \<open>The new address, with a warning when the affected slots do not hold it.\<close>

definition mmu_org :: "aint \<Rightarrow> aint \<Rightarrow> aint \<Rightarrow> unit M" where
  "mmu_org slot1 slot2 address = do {
     SizeBoundary BOUNDARY_ALL;
     modify (\<lambda>s. s\<lparr>CurAddress := address\<rparr>);
     warn_displaced;
     dev \<leftarrow> gets the_dev;
     s1 \<leftarrow> GetSlot slot1 dev;
     s2 \<leftarrow> GetSlot slot2 dev;
     whenM (address < slot_Address s1 \<or> slot_Address s2 + slot_Size s2 \<le> address)
       (Warning (''[MMU] Requested ORG address 0x'' @ fmt_0X 4 address @ '' is out of range 0x'' @ fmt_0X 4 (slot_Address s1) @ ''..0x'' @
          fmt_0X 4 (slot_Address s2 + slot_Size s2 - 1)) None W_PASS3) }"

definition mmu_apply :: "aint \<Rightarrow> aint \<Rightarrow> ESlotOptions \<Rightarrow> aint \<Rightarrow> aint \<Rightarrow> unit M" where
  "mmu_apply slot1 slot2 opt pageN address = do {
     map_range (nat (slot2 - slot1 + 1)) slot1 pageN opt;
     modify (\<lambda>s. if PseudoORG s \<noteq> DISP_NONE then s\<lparr>adrdisp := adrdisp s AND 0xFFFF\<rparr> else s\<lparr>CurAddress := CurAddress s AND 0xFFFF\<rparr>);
     whenM (0 \<le> address) (mmu_org slot1 slot2 address);
     CheckPage CHECK_RESET }"

definition dirMMU :: "unit M" where
  "dirMMU = do {
     d \<leftarrow> gets (\<lambda>s. DeviceID (dv s));
     if d = None then do {
       Warning ''MMU is allowed only in real device emulation mode (See DEVICE)'' None W_PASS3;
       skip_line }
     else do {
       slots \<leftarrow> mmu_slots;
       (case slots of
          Mmu_error \<Rightarrow> ret ()
        | Mmu adr1 adr2 opt \<Rightarrow> do {
            pa \<leftarrow> mmu_page;
            (case pa of
               None \<Rightarrow> ret ()
             | Some (pageN, address) \<Rightarrow> do {
                 dev \<leftarrow> gets the_dev;
                 let slot1 = SlotNumberFromPreciseAddress adr1 dev;
                 let slot2 = SlotNumberFromPreciseAddress adr2 dev;
                 let slots = int (length (dev_Slots dev));
                 let pages = int (length (dev_Pages dev));
                 if slot1 < 0 \<or> slot2 < slot1 \<or> slots \<le> slot2 then
                   Error (''[MMU] Slot number(s) must be in range 0..'' @ fmt_d (slots - 1) @
                     '' (or exact starting address of slot) and form a range'') None E_SUPPRESS
                 else if pageN < 0 \<or> pages \<le> wrap32 (pageN + (slot2 - slot1)) then
                   Error (''[MMU] Requested page(s) must be in range 0..'' @ fmt_d (pages - 1)) None E_SUPPRESS
                 else mmu_apply slot1 slot2 opt pageN address }) }) } }"

section \<open>Modules\<close>

definition ExportModuleToSld :: "bool \<Rightarrow> label_state \<Rightarrow> string" where
  "ExportModuleToSld endModule l =
     take LINEMAX (ModuleName l) @ (if endModule then '',,,+endmod'' else '',,,+module'')"

definition sld_module :: "bool \<Rightarrow> unit M" where
  "sld_module endModule = do {
     s \<leftarrow> State_Monad.get;
     whenM (IsSldExportActive s) (WriteToSldFile (-1) (CurAddress s) CHR ''L'' (Some (ExportModuleToSld endModule (labs s)))) }"

text \<open>\<open>str_cat n a b\<close>: \<^verbatim>\<open>STRCAT(a, n - strlen(a), b)\<close>.\<close>

definition str_cat :: "nat \<Rightarrow> string \<Rightarrow> string \<Rightarrow> string" where
  "str_cat n a b = a @ take (n - length a) b"

definition enter_module :: "string \<Rightarrow> label_state \<Rightarrow> label_state" where
  "enter_module n l =
     (let m = (if ModuleName l \<noteq> [] then str_cat (LINEMAX - 1) (ModuleName l) ''.'' else ModuleName l)
      in InitVorlab (l\<lparr>sourceBlockLevel := sourceBlockLevel l + 2, ModuleName := str_cat (LINEMAX - 1) m n\<rparr>))"

definition dirMODULE :: "unit M" where
  "dirMODULE = do {
     SizeBoundary BOUNDARY_ALL;
     n \<leftarrow> lexM GetID;
     (case n of
        None \<Rightarrow> do {
          b \<leftarrow> gets bp;
          Error ''[MODULE] Syntax error in <name>'' (Some b) E_SUPPRESS }
      | Some n \<Rightarrow>
          if CHR ''.'' \<in> set n then Error ''[MODULE] Dots not allowed in <module_name>'' (Some n) E_SUPPRESS
          else do {
            mod_labs (enter_module n);
            sld_module False }) }"

text \<open>The name without its last part.\<close>

definition cut_module :: "string \<Rightarrow> string" where
  "cut_module m = (if CHR ''.'' \<in> set m then rev (drop 1 (dropWhile (\<lambda>c. c \<noteq> CHR ''.'') (rev m))) else [])"

definition dirENDMODULE :: "unit M" where
  "dirENDMODULE = do {
     m \<leftarrow> gets (\<lambda>s. ModuleName (labs s));
     if m = [] then Error ''ENDMODULE without MODULE'' None E_PASS3
     else do {
       SizeBoundary BOUNDARY_MAIN;
       mod_labs (\<lambda>l. l\<lparr>sourceBlockLevel := sourceBlockLevel l - 2\<rparr>);
       sld_module True;
       mod_labs (\<lambda>l. InitVorlab (l\<lparr>ModuleName := cut_module (ModuleName l)\<rparr>)) } }"

end
