(* ===== verification/Sj_Emit_Block.thy ===== *)
theory Sj_Emit_Block
  imports Sj_Emit_Safe
begin

text \<open>
  Many bytes in a row: where the bytes of a list and of \<open>EmitBlock\<close> go in the memory of the device, with or without DISP. Slots without options are
  left and entered silently, so the bytes go to the place that the page mapping gives for each of their addresses.
\<close>

section \<open>Memory\<close>

text \<open>The memory with \<open>bs\<close> at the addresses from \<open>a\<close> on, through the page mapping of \<open>dev\<close>.\<close>

primrec memory_with :: "int \<Rightarrow> CDevice \<Rightarrow> int \<Rightarrow> int list \<Rightarrow> (int \<Rightarrow> int) \<Rightarrow> int \<Rightarrow> int" where
  "memory_with sz dev a [] m = m"
| "memory_with sz dev a (b # bs) m = memory_with sz dev (a + 1) bs (m(phys sz dev a := b))"

lemma memory_with_append:
  "memory_with sz dev a (xs @ ys) m = memory_with sz dev (a + int (length xs)) ys (memory_with sz dev a xs m)"
  by (induction xs arbitrary: a m) (simp_all add: algebra_simps)

lemma memory_with_cong: "dev_Slots d = dev_Slots e \<Longrightarrow> memory_with sz d a bs m = memory_with sz e a bs m"
  by (induction bs arbitrary: a m) (simp_all add: phys_def)

section \<open>States in which bytes can be emitted\<close>

text \<open>A device whose slots have no option, and room for \<open>n\<close> bytes at the address they are stored for and, inside DISP, at the address they are
  assembled for.\<close>

definition free_emit :: "int \<Rightarrow> nat \<Rightarrow> int \<Rightarrow> asm \<Rightarrow> bool" where
  "free_emit sz N n s \<longleftrightarrow> dev_inv sz N s \<and> DeviceID (dv s) \<noteq> None \<and> previousSlotOpt (the_dev s) = O_NONE \<and>
     (\<forall>S \<in> set (dev_Slots (the_dev s)). slot_Option S = O_NONE) \<and>
     0 \<le> emit_address s \<and> emit_address s + n \<le> int (length (dev_Slots (the_dev s))) * sz \<and> emit_address s + n \<le> 0x10000 \<and>
     (PseudoORG s \<noteq> DISP_NONE \<longrightarrow> CurAddress s + n \<le> 0x10000)"

text \<open>\<open>t\<close> is \<open>s\<close> with \<open>bs\<close> emitted; \<open>w\<close>: also written.\<close>

definition emits_to :: "int \<Rightarrow> nat \<Rightarrow> int list \<Rightarrow> bool \<Rightarrow> asm \<Rightarrow> asm \<Rightarrow> bool" where
  "emits_to sz N bs w s t \<longleftrightarrow>
     mem_of t = (if w then memory_with sz (the_dev s) (emit_address s) bs (mem_of s) else mem_of s) \<and> dev_inv sz N t \<and>
     dev_Slots (the_dev t) = dev_Slots (the_dev s) \<and> previousSlotOpt (the_dev t) = O_NONE \<and> DeviceID (dv t) = DeviceID (dv s) \<and>
     CurAddress t = CurAddress s + int (length bs) \<and>
     adrdisp t = (if PseudoORG s = DISP_NONE then adrdisp s else adrdisp s + int (length bs)) \<and>
     PseudoORG t = PseudoORG s \<and> pass t = pass s \<and> rel t = rel s"

lemma emits_to_address: "emits_to sz N bs w s t \<Longrightarrow> emit_address t = emit_address s + int (length bs)"
  by (simp add: emits_to_def emit_address_def)

lemma emits_to_trans:
  assumes "emits_to sz N xs w s t" "emits_to sz N ys w t u"
  shows "emits_to sz N (xs @ ys) w s u"
proof -
  have "dev_Slots (the_dev t) = dev_Slots (the_dev s)" using assms(1) by (simp add: emits_to_def)
  note c = memory_with_cong [OF this]
  show ?thesis
    using assms emits_to_address [OF assms(1)] unfolding emits_to_def by (auto simp: memory_with_append c)
qed

lemma free_emit_after:
  assumes "emits_to sz N xs w s t" "free_emit sz N (int (length xs) + n) s"
  shows "free_emit sz N n t"
  using assms emits_to_address [OF assms(1)] by (auto simp: free_emit_def emits_to_def)

lemma free_emit_less: "free_emit sz N n s \<Longrightarrow> m \<le> n \<Longrightarrow> free_emit sz N m s"
  by (auto simp: free_emit_def)

lemma emits_to_core:
  assumes "core t = core s" "free_emit sz N n s"
  shows "emits_to sz N [] w s t" "free_emit sz N n t"
proof -
  have "dv t = dv s" using assms(1) by (simp add: core_def)
  then have d: "the_dev t = the_dev s" "dev_inv sz N t = dev_inv sz N s" by (simp_all add: the_dev_def dev_inv_cong [of t s])
  show "emits_to sz N [] w s t" "free_emit sz N n t"
    using assms d by (auto simp: emits_to_def free_emit_def core_def mem_of_def emit_address_def)
qed

section \<open>One byte\<close>

lemma CheckPage_free:
  assumes "free_emit sz N 1 s"
  obtains t where "run_state (CheckPage CHECK_EMIT) s = ((), t)" "MemoryPointer (dv t) = Some (phys sz (the_dev s) (emit_address s))"
    "emits_to sz N [] w s t"
proof -
  let ?dev = "the_dev s" and ?a = "emit_address s"
  have inv: "dev_inv sz N s" and wf: "wf_device sz ?dev" using assms by (simp_all add: free_emit_def dev_inv_def)
  have p: "0 \<le> ?a" "?a < int (length (dev_Slots ?dev)) * sz" "?a < 0x10000" "previousSlotOpt ?dev = O_NONE"
    "PseudoORG s \<noteq> DISP_NONE \<Longrightarrow> CurAddress s < 0x10000" "\<And>S. S \<in> set (dev_Slots ?dev) \<Longrightarrow> slot_Option S = O_NONE"
    using assms by (auto simp: free_emit_def)
  note r = GetSlotOfA16_range [OF wf p(1,2)]
  have start: "run_state (CheckPage CHECK_EMIT) s = run_state (check_slots CHECK_EMIT ?a (pass s) ?dev) s"
    using p(5) by (auto simp: CheckPage_def wrap_disp_def State_Monad.get_def)
  show thesis
  proof (cases "slot_covers ?a (dev_Slots ?dev ! previousSlotI ?dev)")
    case True
    let ?t = "s\<lparr>dv := (dv s)\<lparr>MemoryPointer := Some (phys sz ?dev ?a)\<rparr>\<rparr>"
    have "?a div sz = int (previousSlotI ?dev)" using True slot_covers_wf [OF wf wf_deviceD(4) [OF wf]] by simp
    from slot_phys [OF wf wf_deviceD(4) [OF wf] this] True
    have "run_state (check_slots CHECK_EMIT ?a (pass s) ?dev) s = ((), ?t)"
      by (simp add: check_slots_def Let_def set_mp_def)
    moreover have "emits_to sz N [] w s ?t"
      using inv p(4) by (simp add: emits_to_def mem_of_def the_dev_def dev_inv_def)
    ultimately show thesis using start by (intro that [where t = ?t]) simp_all
  next
    case False
    let ?i = "nat (?a div sz)"
    have i: "?a div sz = int ?i" using r(2) by simp
    have cov: "slot_covers ?a (dev_Slots ?dev ! ?i)" using slot_covers_wf [OF wf r(3)] r(2) by simp
    obtain k where k: "Device (dv s) = Some k" "k < length (Devices (dv s))" using inv by (auto simp: dev_inv_def)
    let ?d = "?dev\<lparr>limitExceeded := limitExceeded ?dev \<and> previousSlotI ?dev = ?i, previousSlotI := ?i,
      previousSlotOpt := slot_Option (dev_Slots ?dev ! ?i)\<rparr>"
    let ?t = "s\<lparr>dv := (dv s)\<lparr>PageCur := slot_Page (dev_Slots ?dev ! ?i), MemoryPointer := Some (phys sz ?dev ?a),
      Devices := (Devices (dv s))[k := ?d]\<rparr>\<rparr>"
    have o: "slot_Option (dev_Slots ?dev ! ?i) = O_NONE" using p(6) r(3) by simp
    have "wf_device sz ?d" using wf r(3) by (simp add: wf_device_def)
    then have "emits_to sz N [] w s ?t" using inv k o by (simp add: emits_to_def mem_of_def dev_inv_def the_dev_def)
    moreover have "run_state (check_slots CHECK_EMIT ?a (pass s) ?dev) s = ((), ?t)"
      using False cov p(4) masked_slot_in_range [OF wf p(1-3)] slot_phys [OF wf r(3) i] k
      by (auto simp: check_slots_def enter_slot_def leave_slot_def refresh_check_def upd_dev_def set_page_def set_mp_def
          Let_def the_dev_def)
    ultimately show thesis using start by (intro that [where t = ?t]) simp_all
  qed
qed

lemma keeps_run:
  fixes m :: "unit M"
  assumes "keeps f m"
  obtains t where "run_state m s = ((), t)" "f t = f s"
proof -
  obtain r t where "run_state m s = (r, t)" by (metis surj_pair)
  then show thesis using keepsD [OF assms] that by simp
qed

lemma EmitByteNoListing_free:
  assumes "free_emit sz N 1 s"
  obtains t where "run_state (EmitByteNoListing b keep) s = ((), t)" "emits_to sz N [b mod 256] (pass s = LASTPASS \<and> \<not> keep) s t"
proof -
  let ?w = "pass s = LASTPASS \<and> \<not> keep" and ?p = "phys sz (the_dev s) (emit_address s)"
  let ?s0 = "s\<lparr>outp := (outp s)\<lparr>someByteEmitted := True\<rparr>\<rparr>"
  have "keeps core (whenM (pass s = LASTPASS) (emit_output b))" by (intro keep keeps_core)
  then obtain s1 where s1: "run_state (whenM (pass s = LASTPASS) (emit_output b)) ?s0 = ((), s1)" "core s1 = core ?s0"
    by (rule keeps_run)
  have c: "core s1 = core s" using s1(2) by (simp add: core_def)
  note f1 = emits_to_core [OF c assms]
  obtain s2 where s2: "run_state (CheckPage CHECK_EMIT) s1 = ((), s2)" "MemoryPointer (dv s2) = Some (phys sz (the_dev s1) (emit_address s1))"
    "emits_to sz N [] ?w s1 s2"
    using CheckPage_free [OF f1(2)] by blast
  have m: "MemoryPointer (dv s2) = Some ?p"
    using s2(2) f1(1) emits_to_address [OF f1(1)] by (simp add: emits_to_def phys_def)
  have e2: "emits_to sz N [] ?w s s2" using emits_to_trans [OF f1(1) s2(3)] by simp
  define s3 where "s3 = snd (run_state (do { whenM ?w (poke_mp ?p (b mod 256)); set_mp (Some (?p + 1)) }) s2)"
  have i: "dev_inv sz N s2" using e2 by (simp add: emits_to_def)
  obtain k where k: "Device (dv s2) = Some k" "k < length (Devices (dv s2))" using i by (auto simp: dev_inv_def)
  have s3: "mem_of s3 = (if ?w then (mem_of s2)(?p := b mod 256) else mem_of s2)" "dev_inv sz N s3"
    "dev_Slots (the_dev s3) = dev_Slots (the_dev s2)" "previousSlotOpt (the_dev s3) = previousSlotOpt (the_dev s2)"
    "DeviceID (dv s3) = DeviceID (dv s2)" "CurAddress s3 = CurAddress s2" "adrdisp s3 = adrdisp s2" "PseudoORG s3 = PseudoORG s2"
    "pass s3 = pass s2" "rel s3 = rel s2"
    using i k by (simp_all add: s3_def whenM_def poke_mp_def upd_dev_def set_mp_def mem_of_def the_dev_def dev_inv_def wf_device_mem)
  have "DeviceID (dv s1) \<noteq> None" using f1(2) by (simp add: free_emit_def)
  then have "run_state (EmitByteNoListing b keep) s = ((), incr_address s3)"
    unfolding EmitByteNoListing_def emit_device_def
    using s1(1) s2(1) m by (simp add: s3_def split_beta del: run_whenM)
  moreover have "emits_to sz N [b mod 256] ?w s (incr_address s3)"
    using e2 s3 by (auto simp: emits_to_def incr_address_def mem_of_def the_dev_def dev_inv_def)
  ultimately show thesis by (rule that)
qed

section \<open>Many bytes\<close>

lemma EmitByte_free:
  assumes "free_emit sz N 1 s"
  obtains t where "run_state (EmitByte b st) s = ((), t)" "emits_to sz N [b mod 256] (pass s = LASTPASS) s t"
proof -
  define pre where "pre = do {
     whenM st sld_trace;
     mod_outp (\<lambda>w. if length (ListEmittedBytes w) < LIST_EMIT_BYTES_BUFFER_SIZE - 1
       then w\<lparr>ListEmittedBytes := ListEmittedBytes w @ [b AND 0xFF]\<rparr>
       else if length (ListEmittedBytes w) < LIST_EMIT_BYTES_BUFFER_SIZE
       then w\<lparr>ListEmittedBytes := ListEmittedBytes w @ [-2]\<rparr> else w) }"
  have "keeps core pre" unfolding pre_def by (intro keep keeps_core)
  then obtain s1 where s1: "run_state pre s = ((), s1)" "core s1 = core s" by (rule keeps_run)
  note f1 = emits_to_core [OF s1(2) assms]
  obtain t where t: "run_state (EmitByteNoListing (b AND 0xFF) False) s1 = ((), t)"
    "emits_to sz N [(b AND 0xFF) mod 256] (pass s1 = LASTPASS \<and> \<not> False) s1 t"
    using EmitByteNoListing_free [OF f1(2)] by blast
  have b: "(b AND 0xFF) mod 256 = b mod 256"
    using take_bit_eq_mask [of 8 b] by (simp add: mask_eq_exp_minus_1 take_bit_eq_mod)
  have "run_state (EmitByte b st) s = ((), t)"
    using s1(1) t(1) unfolding pre_def EmitByte_def Let_def by (auto split: prod.splits simp del: run_whenM)
  moreover have "pass s1 = pass s" using s1(2) by (simp add: core_def)
  then have "emits_to sz N [b mod 256] (pass s = LASTPASS) s t"
    using emits_to_trans [OF f1(1) [where w = "pass s = LASTPASS"]] t(2) b by fastforce
  ultimately show thesis by (rule that)
qed

lemma emit_all_free:
  assumes "\<forall>b \<in> set bs. 0 \<le> b \<and> b < 256" "free_emit sz N (int (length bs)) s"
  obtains t where "run_state (emit_all bs st) s = ((), t)" "emits_to sz N bs (pass s = LASTPASS) s t"
  using assms
proof (induction bs st arbitrary: s thesis rule: emit_all.induct)
  case (1 st)
  have "emits_to sz N [] (pass s = LASTPASS) s s" using emits_to_core(1) [of s s] 1(3) by simp
  then show ?case using 1(1) by simp
next
  case (2 b st)
  obtain t where "run_state (EmitByte b st) s = ((), t)" "emits_to sz N [b mod 256] (pass s = LASTPASS) s t"
    using EmitByte_free [of sz N s b st] 2(3) by auto
  then show ?case using 2(1,2) by simp
next
  case (3 b c bs st)
  have l: "int (length (b # c # bs)) = int (length [b]) + int (length (c # bs))" by simp
  have f: "free_emit sz N 1 s" using free_emit_less [OF 3(5), of 1] by simp
  obtain u where u: "run_state (EmitByte b st) s = ((), u)" "emits_to sz N [b mod 256] (pass s = LASTPASS) s u"
    using EmitByte_free [OF f] by blast
  have b: "b mod 256 = b" "b \<noteq> -1" "c \<noteq> -2" using 3(4) by auto
  have "free_emit sz N (int (length (c # bs))) u"
    using free_emit_after [OF u(2), of "int (length (c # bs))"] 3(5) l by simp
  then obtain t where t: "run_state (emit_all (c # bs) False) u = ((), t)" "emits_to sz N (c # bs) (pass u = LASTPASS) u t"
    using 3(2) [of u] 3(4) b by auto
  have "pass u = pass s" using u(2) by (simp add: emits_to_def)
  then have "emits_to sz N (b # c # bs) (pass s = LASTPASS) s t" using emits_to_trans [OF u(2)] t(2) b by fastforce
  moreover have "run_state (emit_all (b # c # bs) st) s = ((), t)" using u(1) t(1) b by simp
  ultimately show ?case using 3(3) by blast
qed

lemma emit_block_free:
  assumes "free_emit sz N (int n) s"
  obtains t where "run_state (emit_block n b keep maxl) s = ((), t)"
    "emits_to sz N (replicate n (b mod 256)) (pass s = LASTPASS \<and> \<not> keep) s t"
  using assms
proof (induction n arbitrary: s maxl thesis)
  case 0
  have "emits_to sz N [] (pass s = LASTPASS \<and> \<not> keep) s s" using emits_to_core(1) [of s s] 0(2) by simp
  then show ?case using 0(1) by simp
next
  case (Suc n)
  let ?w = "pass s = LASTPASS \<and> \<not> keep"
  have f: "free_emit sz N 1 s" using free_emit_less [OF Suc.prems(2), of 1] by simp
  obtain u where u: "run_state (EmitByteNoListing b keep) s = ((), u)" "emits_to sz N [b mod 256] ?w s u"
    using EmitByteNoListing_free [OF f] by blast
  have fu: "free_emit sz N (int n) u" using free_emit_after [OF u(2), of "int n"] Suc.prems(2) by simp
  have pu: "pass u = pass s" using u(2) by (simp add: emits_to_def)
  define l where "l = (\<lambda>v. u\<lparr>outp := (outp u)\<lparr>ListEmittedBytes := ListEmittedBytes (outp u) @ [v]\<rparr>\<rparr>)"
  have "core (l v) = core u" for v by (simp add: l_def core_def)
  note cl = emits_to_core [OF this fu]
  have rest: "\<exists>t. run_state (emit_block n b keep m) v = ((), t) \<and> emits_to sz N (replicate (Suc n) (b mod 256)) ?w s t"
    if e: "emits_to sz N [] ?w u v" and g: "free_emit sz N (int n) v" for v m
  proof -
    have "pass v = pass s" using e pu by (simp add: emits_to_def)
    then obtain t where "run_state (emit_block n b keep m) v = ((), t)" "emits_to sz N (replicate n (b mod 256)) ?w v t"
      using Suc.IH [OF _ g] by metis
    then show ?thesis using emits_to_trans [OF u(2) emits_to_trans [OF e]] by fastforce
  qed
  have "emits_to sz N [] ?w u u" using emits_to_core(1) [of u u] fu by simp
  note r0 = rest [OF this fu, of maxl]
  define v where "v = (if maxl - 1 = 0 \<and> n \<noteq> 0 then -2 else
    (case MemoryPointer (dv s) of Some p \<Rightarrow> if keep \<and> DeviceID (dv s) \<noteq> None then dev_Memory (the_dev s) p else b | None \<Rightarrow> b) AND 0xFF)"
  note r1 = rest [OF cl(1) cl(2), of "maxl - 1" v]
  have "run_state (emit_block (Suc n) b keep maxl) s =
      (if pass u = LASTPASS \<and> maxl \<noteq> 0 then run_state (emit_block n b keep (maxl - 1)) (l v) else run_state (emit_block n b keep maxl) u)"
    using u(1) pu by (simp add: State_Monad.get_def l_def v_def Let_def)
  then show ?case using r0 r1 Suc.prems(1) by (auto split: if_splits)
qed

lemma EmitBlock_free:
  assumes "0 < len" "free_emit sz N len s"
  obtains t where "run_state (EmitBlock b len keep maxl) s = ((), t)"
    "emits_to sz N (replicate (nat len) (b mod 256)) (pass s = LASTPASS \<and> \<not> keep) s t"
  using emit_block_free [of sz N "nat len" s b keep] assms by (simp add: EmitBlock_def) metis

section \<open>The output files\<close>

text \<open>What the destination file and the raw file hold, with what waits for them in the buffer.\<close>

definition out_files :: "asm \<Rightarrow> int list option \<times> int list option" where
  "out_files s = (map_option (\<lambda>f. f @ WriteBuffer (outp s)) (FP_Output (outp s)), map_option (\<lambda>f. f @ WriteBuffer (outp s)) (FP_RAW (outp s)))"

definition appended :: "int list \<Rightarrow> int list option \<times> int list option \<Rightarrow> int list option \<times> int list option" where
  "appended bs fs = map_prod (map_option (\<lambda>f. f @ bs)) (map_option (\<lambda>f. f @ bs)) fs"

text \<open>\<open>files_get s t bs\<close>: from \<open>s\<close> to \<open>t\<close> the files get \<open>bs\<close>, in the last pass.\<close>

definition files_get :: "asm \<Rightarrow> asm \<Rightarrow> int list \<Rightarrow> bool" where
  "files_get s t bs \<longleftrightarrow> pass t = pass s \<and> out_files t = (if pass s = LASTPASS then appended bs (out_files s) else out_files s)"

lemma files_get_Nil: "files_get s t [] \<longleftrightarrow> pass t = pass s \<and> out_files t = out_files s"
  by (cases "out_files s") (auto simp: files_get_def appended_def comp_def map_option.identity)

lemma files_get_trans: "files_get s t xs \<Longrightarrow> files_get t u ys \<Longrightarrow> files_get s u (xs @ ys)"
  by (cases "out_files s") (auto simp: files_get_def appended_def map_prod_def map_option.compositionality comp_def split: prod.splits)

abbreviation (input) files_of :: "asm \<Rightarrow> int \<times> int list option \<times> int list option" where
  "files_of s \<equiv> (pass s, out_files s)"

lemma keeps_files_diag: "diag_only m \<Longrightarrow> keeps (\<lambda>s. files_of s) m"
  by (rule keeps_diag) (simp_all add: out_files_def)

lemmas keeps_files_reports = keeps_files_diag [OF diag_only_Error] keeps_files_diag [OF diag_only_ErrorInt]
  keeps_files_diag [OF diag_only_Warning] keeps_files_diag [OF diag_only_WarningById]

lemma keeps_files_Hex: "keeps (\<lambda>s. files_of s) (EmitToHex b)"
proof -
  let ?f = "\<lambda>s. files_of s"
  have p: "keeps ?f (PrintHex v n)" for v n
    unfolding PrintHex_def ExitASM_def by (intro keep; simp add: out_files_def)
  have d: "keeps ?f (hex_data c ds)" for c ds by (induction c ds rule: hex_data.induct) (simp_all, (intro keep p; simp)+)
  have w: "keeps ?f (WriteHexRecord t a ds)" for t a ds
    unfolding WriteHexRecord_def fputs_hex_def by (intro keep p d; simp add: out_files_def)
  have f: "keeps ?f FlushHexBuffer" unfolding FlushHexBuffer_def by (intro keep w; simp add: out_files_def)
  show ?thesis unfolding EmitToHex_def by (intro keep f; simp add: out_files_def)
qed

lemma keeps_files_dv: "keeps (\<lambda>s. files_of s) (modify (\<lambda>s. s\<lparr>dv := d s\<rparr>))"
  by (intro keep) (simp add: out_files_def)

lemma keeps_files_CheckPage: "keeps (\<lambda>s. files_of s) (CheckPage l)"
proof -
  let ?f = "\<lambda>s. files_of s"
  have m: "keeps ?f (set_mp p)" "keeps ?f (set_page q)" "keeps ?f (upd_dev g)" for p q g
    unfolding set_mp_def set_page_def upd_dev_def by (intro keep; simp add: out_files_def split: option.split)+
  have b: "keeps ?f (SizeBoundary x)" for x
    unfolding SizeBoundary_def by (intro keep keeps_files_reports; simp add: out_files_def)
  have w: "keeps ?f (wrap_disp x)" for x
    unfolding wrap_disp_def by (intro keep b keeps_files_reports; simp add: out_files_def)
  have r: "keeps ?f (refresh_check l i)" for l i unfolding refresh_check_def by (intro keep m)
  have "keeps ?f (map_next_page l a i)" for l a i
    unfolding map_next_page_def map_page_after_def by (intro keep m r w b keeps_files_reports; simp add: out_files_def)
  then have v: "keeps ?f (leave_slot l a i x y opt)" for l a i x y opt
    unfolding leave_slot_def by (cases opt) (simp_all, (intro keep m r w b keeps_files_reports; simp)+)
  show ?thesis
    unfolding CheckPage_def check_slots_def enter_slot_def by (intro keep m r w v b keeps_files_reports; simp)
qed

lemma keeps_files_CheckRam: "keeps (\<lambda>s. files_of s) CheckRamLimitExceeded"
proof -
  have "keeps (\<lambda>s. files_of s) (SizeBoundary x)" for x
    unfolding SizeBoundary_def by (intro keep keeps_files_reports; simp add: out_files_def)
  then show ?thesis unfolding CheckRamLimitExceeded_def by (intro keep keeps_files_reports; simp add: out_files_def)
qed

lemma keeps_files_sld: "keeps (\<lambda>s. files_of s) sld_trace"
  unfolding sld_trace_def WriteToSldFile_def by (intro keep keeps_files_reports; simp add: out_files_def)

lemma keeps_files_WriteDest: "keeps (\<lambda>s. files_of s) WriteDest"
proof -
  have "keeps (\<lambda>s. (pass s, FP_Output (outp s), FP_RAW (outp s))) close_tap" unfolding close_tap_def by (intro keep; simp)
  moreover have "keeps (\<lambda>s. (pass s, FP_Output (outp s), FP_RAW (outp s))) (Error a b c)" for a b c
    by (rule keeps_diag [OF diag_only_Error]) simp_all
  ultimately have t: "keeps (\<lambda>s. (pass s, FP_Output (outp s), FP_RAW (outp s))) (write_tap wb)" for wb
    unfolding write_tap_def by (intro keep; simp)
  show ?thesis
  proof (rule keepsI)
    fix s :: asm
    let ?wb = "WriteBuffer (outp s)"
    let ?s1 = "s\<lparr>outp := (outp s)\<lparr>destlen := destlen (outp s) + int (length ?wb),
      FP_Output := map_option (\<lambda>f. f @ ?wb) (FP_Output (outp s)), FP_RAW := map_option (\<lambda>f. f @ ?wb) (FP_RAW (outp s))\<rparr>\<rparr>"
    obtain u where "run_state (write_tap ?wb) ?s1 = ((), u)" "(pass u, FP_Output (outp u), FP_RAW (outp u)) = (pass ?s1, FP_Output (outp ?s1), FP_RAW (outp ?s1))"
      by (rule keeps_run [OF t])
    then show "files_of (snd (run_state WriteDest s)) = files_of s"
      by (simp add: WriteDest_def out_files_def Let_def option.map_ident)
  qed
qed

lemma when_True: "whenM True m = m" and when_False: "whenM False m = ret ()"
  by (simp_all add: whenM_def)

lemma NoListing_files:
  obtains t where "run_state (EmitByteNoListing b keep) s = ((), t)" "files_get s t [b mod 256]"
proof -
  let ?s0 = "s\<lparr>outp := (outp s)\<lparr>someByteEmitted := True\<rparr>\<rparr>"
  let ?s1 = "?s0\<lparr>outp := (outp ?s0)\<lparr>WriteBuffer := WriteBuffer (outp s) @ [b mod 256]\<rparr>\<rparr>"
  define out where "out = do {
     n \<leftarrow> gets (\<lambda>s. length (WriteBuffer (outp s)));
     whenM (n = DESTBUFLEN) WriteDest;
     h \<leftarrow> gets (\<lambda>s. FP_HEX (outp s));
     whenM (h \<noteq> None) (EmitToHex (b mod 256)) }"
  define rest where "rest ps = do {
     d \<leftarrow> gets (\<lambda>s. DeviceID (dv s));
     (if d \<noteq> None then emit_device b (ps = LASTPASS \<and> \<not> keep) else CheckRamLimitExceeded);
     modify incr_address }" for ps :: int
  have o: "keeps (\<lambda>s. files_of s) out" unfolding out_def by (intro keep keeps_files_WriteDest keeps_files_Hex)
  have "keeps (\<lambda>s. files_of s) (emit_device b k)" for k
    unfolding emit_device_def poke_mp_def upd_dev_def set_mp_def
    by (intro keep keeps_files_CheckPage; simp add: out_files_def split: option.split)
  then have r: "keeps (\<lambda>s. files_of s) (rest ps)" for ps
    unfolding rest_def by (intro keep keeps_files_CheckRam; simp add: out_files_def incr_address_def)
  have run: "run_state (EmitByteNoListing b keep) s =
      (if pass s = LASTPASS then run_state (do { out; rest (pass s) }) ?s1 else run_state (rest (pass s)) ?s0)"
    by (cases "pass s = LASTPASS") (simp_all add: EmitByteNoListing_def emit_output_def out_def rest_def split_beta when_True when_False del: run_whenM)
  show thesis
  proof (cases "pass s = LASTPASS")
    case True
    obtain t where t: "run_state (do { out; rest (pass s) }) ?s1 = ((), t)" "files_of t = files_of ?s1"
      by (rule keeps_run [OF keeps_rules(4) [OF o r]])
    then have "files_get s t [b mod 256]"
      using True by (cases "FP_Output (outp s)"; cases "FP_RAW (outp s)") (simp_all add: files_get_def out_files_def appended_def)
    then show thesis using run True t(1) that by simp
  next
    case False
    obtain t where t: "run_state (rest (pass s)) ?s0 = ((), t)" "files_of t = files_of ?s0"
      by (rule keeps_run [OF r])
    then have "files_get s t [b mod 256]" using False by (simp add: files_get_def out_files_def)
    then show thesis using run False t(1) that by simp
  qed
qed

lemma EmitByte_files:
  obtains t where "run_state (EmitByte b st) s = ((), t)" "files_get s t [b mod 256]"
proof -
  define pre where "pre = do {
     whenM st sld_trace;
     mod_outp (\<lambda>w. if length (ListEmittedBytes w) < LIST_EMIT_BYTES_BUFFER_SIZE - 1
       then w\<lparr>ListEmittedBytes := ListEmittedBytes w @ [b AND 0xFF]\<rparr>
       else if length (ListEmittedBytes w) < LIST_EMIT_BYTES_BUFFER_SIZE
       then w\<lparr>ListEmittedBytes := ListEmittedBytes w @ [-2]\<rparr> else w) }"
  have "keeps (\<lambda>s. files_of s) pre" unfolding pre_def by (intro keep keeps_files_sld) (simp add: out_files_def)
  then obtain s1 where s1: "run_state pre s = ((), s1)" "files_of s1 = files_of s" by (rule keeps_run)
  obtain t where t: "run_state (EmitByteNoListing (b AND 0xFF) False) s1 = ((), t)" "files_get s1 t [(b AND 0xFF) mod 256]"
    by (rule NoListing_files)
  have b: "(b AND 0xFF) mod 256 = b mod 256"
    using take_bit_eq_mask [of 8 b] by (simp add: mask_eq_exp_minus_1 take_bit_eq_mod)
  have "run_state (EmitByte b st) s = ((), t)"
    using s1(1) t(1) unfolding pre_def EmitByte_def Let_def by (auto split: prod.splits simp del: run_whenM)
  moreover have "files_get s t [b mod 256]" using s1(2) t(2) b by (simp add: files_get_def)
  ultimately show thesis by (rule that)
qed

lemma emit_all_files:
  assumes "\<forall>b \<in> set bs. 0 \<le> b \<and> b < 256"
  shows "files_get s (snd (run_state (emit_all bs st) s)) bs"
  using assms
proof (induction bs st arbitrary: s rule: emit_all.induct)
  case (3 b c bs st)
  obtain u where u: "run_state (EmitByte b st) s = ((), u)" "files_get s u [b mod 256]" by (rule EmitByte_files)
  have b: "b mod 256 = b" "b \<noteq> -1" "c \<noteq> -2" using 3(3) by auto
  then have "files_get u (snd (run_state (emit_all (c # bs) False) u)) (c # bs)" using 3(2) [of u] 3(3) by simp
  from files_get_trans [OF u(2) this] show ?case using u(1) b by (simp del: emit_all.simps add: emit_all.simps(3))
next
  case (2 b st)
  obtain u where "run_state (EmitByte b st) s = ((), u)" "files_get s u [b mod 256]" by (rule EmitByte_files)
  then show ?case using 2 by simp
qed (simp add: files_get_Nil)

lemma emit_block_files: "files_get s (snd (run_state (emit_block n b keep maxl) s)) (replicate n (b mod 256))"
proof (induction n arbitrary: s maxl)
  case (Suc n)
  obtain u where u: "run_state (EmitByteNoListing b keep) s = ((), u)" "files_get s u [b mod 256]" by (rule NoListing_files)
  define l where "l = (\<lambda>v. u\<lparr>outp := (outp u)\<lparr>ListEmittedBytes := ListEmittedBytes (outp u) @ [v]\<rparr>\<rparr>)"
  have pu: "pass u = pass s" using u(2) by (simp add: files_get_def)
  have l: "files_get u (l v) []" for v by (simp add: l_def files_get_Nil out_files_def)
  define v where "v = (if maxl - 1 = 0 \<and> n \<noteq> 0 then -2 else
    (case MemoryPointer (dv s) of Some p \<Rightarrow> if keep \<and> DeviceID (dv s) \<noteq> None then dev_Memory (the_dev s) p else b | None \<Rightarrow> b) AND 0xFF)"
  have "run_state (emit_block (Suc n) b keep maxl) s =
      (if pass u = LASTPASS \<and> maxl \<noteq> 0 then run_state (emit_block n b keep (maxl - 1)) (l v) else run_state (emit_block n b keep maxl) u)"
    using u(1) pu by (simp add: State_Monad.get_def l_def v_def Let_def)
  then show ?case
    using files_get_trans [OF u(2) Suc.IH [of u maxl]] files_get_trans [OF u(2) files_get_trans [OF l Suc.IH]]
    by (simp split: if_splits)
qed (simp add: files_get_Nil)

lemma EmitBlock_files:
  assumes "0 < len"
  shows "files_get s (snd (run_state (EmitBlock b len keep maxl) s)) (replicate (nat len) (b mod 256))"
  using emit_block_files assms by (simp add: EmitBlock_def)

end
