(* ===== verification/Sj_Data_Spec.thy ===== *)
theory Sj_Data_Spec
  imports Sj_Data Sj_Expr_Eval Sj_Z80_Rel Sj_Emit_Block
begin

text \<open>
  What the data and address directives do: the values of a list of expressions go out in little-endian order, ALIGN reaches the next
  multiple and no further, code between DISP and ENT lands behind the code in front of it.
\<close>

section \<open>Addresses without a device\<close>

text \<open>\<open>advanced n s\<close>: \<open>n\<close> bytes later.\<close>

definition advanced :: "int \<Rightarrow> asm \<Rightarrow> device_state \<times> aint \<times> aint \<times> EDispMode \<times> int \<times> reloc_state" where
  "advanced n s = (dv s, CurAddress s + n, (if PseudoORG s = DISP_NONE then adrdisp s else adrdisp s + n), PseudoORG s, pass s, rel s)"

definition no_device :: "int \<Rightarrow> asm \<Rightarrow> bool" where
  "no_device n s \<longleftrightarrow> DeviceID (dv s) = None \<and> (PseudoORG s = DISP_NONE \<or> CurAddress s + n \<le> 0x10000)"

lemma advanced_0: "advanced 0 s = core s"
  by (simp add: advanced_def core_def)

lemma advanced_trans: "core t = advanced m s \<Longrightarrow> core u = advanced n t \<Longrightarrow> core u = advanced (m + n) s"
  by (auto simp: advanced_def core_def split: if_splits)

lemma no_device_core: "core t = advanced m s \<Longrightarrow> no_device (m + n) s \<Longrightarrow> no_device n t"
  by (auto simp: advanced_def core_def no_device_def)

lemma CheckRam_core:
  assumes "no_device 1 s"
  shows "core (snd (run_state CheckRamLimitExceeded s)) = core s"
proof -
  have w: "keeps core (Warning a b c)" for a b c by (rule keeps_core_diag [OF diag_only_Warning])
  have o: "keeps core (mod_outp f)" for f by (rule keeps_core_outp)
  note k = keeps_rules w o
  have d: "PseudoORG s \<noteq> DISP_NONE \<Longrightarrow> \<not> 0x10000 \<le> CurAddress s" using assms by (auto simp: no_device_def)
  define first where "first = (if 0x10000 \<le> CurAddress s then
       whenM (pass s = LASTPASS \<and> notWarnedCurAdr (outp s)) (do {
         Warning (''RAM limit exceeded 0x'' @ fmt_X (CurAddress s) @ '' by '' @ (if PseudoORG s \<noteq> DISP_NONE then ''DISP'' else ''ORG'')) None W_PASS3;
         mod_outp (\<lambda>w. w\<lparr>notWarnedCurAdr := False\<rparr>) })
     else mod_outp (\<lambda>w. w\<lparr>notWarnedCurAdr := True\<rparr>))"
  define second where "second = (if PseudoORG s \<noteq> DISP_NONE \<and> 0x10000 \<le> adrdisp s then
       whenM (pass s = LASTPASS \<and> notWarnedDisp (outp s)) (do {
         Warning (''RAM limit exceeded 0x'' @ fmt_X (adrdisp s) @ '' by ORG'') None W_PASS3;
         mod_outp (\<lambda>w. w\<lparr>notWarnedDisp := False\<rparr>) })
     else mod_outp (\<lambda>w. w\<lparr>notWarnedDisp := True\<rparr>))"
  have run: "run_state CheckRamLimitExceeded s = run_state (if IsLongPtr (opts s) then ret () else do { first; second }) s"
    unfolding CheckRamLimitExceeded_def first_def second_def using d
    by (cases "0x10000 \<le> CurAddress s"; cases "PseudoORG s = DISP_NONE") (simp_all add: State_Monad.get_def split: prod.split)
  have "keeps core first" "keeps core second" unfolding first_def second_def by (intro k)+
  then have "keeps core (if IsLongPtr (opts s) then ret () else do { first; second })" by (intro k)
  then show ?thesis unfolding run using keepsD by (metis prod.collapse)
qed

lemma NoListing_core:
  assumes "no_device 1 s"
  shows "core (snd (run_state (EmitByteNoListing b keep) s)) = advanced 1 s"
proof -
  let ?s0 = "s\<lparr>outp := (outp s)\<lparr>someByteEmitted := True\<rparr>\<rparr>"
  have "keeps core (whenM (pass s = LASTPASS) (emit_output b))" by (intro keep keeps_core)
  then obtain s1 where s1: "run_state (whenM (pass s = LASTPASS) (emit_output b)) ?s0 = ((), s1)" "core s1 = core ?s0"
    by (rule keeps_run)
  have c: "core s1 = core s" using s1(2) by (simp add: core_def)
  then have c: "core s1 = core s" "DeviceID (dv s1) = None" "no_device 1 s1"
    using no_device_core [of s1 0 s 1] assms by (simp_all add: advanced_0 no_device_def)
  obtain s2 where s2: "run_state CheckRamLimitExceeded s1 = ((), s2)" by (metis (full_types) old.unit.exhaust surj_pair)
  have "run_state (EmitByteNoListing b keep) s = ((), incr_address s2)"
    unfolding EmitByteNoListing_def by (simp add: s1(1) c(2) s2 del: run_whenM)
  moreover have "core (incr_address t) = advanced 1 t" for t by (simp add: incr_address_def core_def advanced_def)
  moreover have "core s2 = core s" using CheckRam_core [OF c(3)] c(1) s2 by simp
  then have "advanced 1 s2 = advanced 1 s" by (simp add: advanced_def core_def)
  ultimately show ?thesis by simp
qed

lemma EmitByte_core:
  assumes "no_device 1 s"
  shows "core (snd (run_state (EmitByte b st) s)) = advanced 1 s"
proof -
  define pre where "pre = do {
     whenM st sld_trace;
     mod_outp (\<lambda>w. if length (ListEmittedBytes w) < LIST_EMIT_BYTES_BUFFER_SIZE - 1
       then w\<lparr>ListEmittedBytes := ListEmittedBytes w @ [b AND 0xFF]\<rparr>
       else if length (ListEmittedBytes w) < LIST_EMIT_BYTES_BUFFER_SIZE
       then w\<lparr>ListEmittedBytes := ListEmittedBytes w @ [-2]\<rparr> else w) }"
  have "keeps core pre" unfolding pre_def by (intro keep keeps_core)
  then obtain s1 where s1: "run_state pre s = ((), s1)" "core s1 = core s" by (rule keeps_run)
  have "run_state (EmitByte b st) s = run_state (EmitByteNoListing (b AND 0xFF) False) s1"
    using s1(1) unfolding pre_def EmitByte_def Let_def by (auto split: prod.splits simp del: run_whenM)
  moreover have "no_device 1 s1" using s1(2) assms by (auto simp: core_def no_device_def)
  moreover have "advanced 1 s1 = advanced 1 s" using s1(2) by (auto simp: advanced_def core_def)
  ultimately show ?thesis using NoListing_core [of s1] by simp
qed

lemma emit_all_core:
  assumes "\<forall>b \<in> set bs. 0 \<le> b \<and> b < 256" "no_device (int (length bs)) s"
  shows "core (snd (run_state (emit_all bs st) s)) = advanced (int (length bs)) s"
  using assms
proof (induction bs st arbitrary: s rule: emit_all.induct)
  case (1 st)
  then show ?case by (simp add: advanced_0)
next
  case (2 b st)
  then show ?case using EmitByte_core [of s b st] by simp
next
  case (3 b c bs st)
  let ?s = "snd (run_state (EmitByte b st) s)"
  have "no_device 1 s" using 3(4) by (auto simp: no_device_def)
  note step = EmitByte_core [OF this, of b st]
  have "c \<noteq> -2" "b \<noteq> -1" using 3(3) by auto
  moreover have "core (snd (run_state (emit_all (c # bs) False) ?s)) = advanced (int (length (c # bs))) ?s"
    using 3 \<open>c \<noteq> -2\<close> \<open>b \<noteq> -1\<close> no_device_core [OF step] by simp
  note advanced_trans [OF step this]
  ultimately show ?case by (simp add: split_beta)
qed

lemma emit_block_core:
  assumes "no_device (int n) s"
  shows "core (snd (run_state (emit_block n b keep maxl) s)) = advanced (int n) s"
  using assms
proof (induction n arbitrary: s maxl)
  case 0
  then show ?case by (simp add: advanced_0)
next
  case (Suc n)
  have "no_device 1 s" using Suc.prems by (auto simp: no_device_def)
  then obtain s1 where s1: "run_state (EmitByteNoListing b keep) s = ((), s1)" "core s1 = advanced 1 s"
    using NoListing_core by (metis (full_types) old.unit.exhaust surj_pair snd_conv)
  define t where "t = (\<lambda>v. s1\<lparr>outp := (outp s1)\<lparr>ListEmittedBytes := ListEmittedBytes (outp s1) @ [v]\<rparr>\<rparr>)"
  have t: "core (t v) = advanced 1 s" for v using s1(2) by (simp add: t_def core_def)
  have *: "core u = advanced 1 s \<Longrightarrow> core (snd (run_state (emit_block n b keep m) u)) = advanced (int (Suc n)) s" for u m
    using Suc.IH [of u m] no_device_core [of u 1 s "int n"] Suc.prems advanced_trans [of u 1 s] by simp
  show ?case
    using s1 * [OF s1(2)] * [OF t] by (auto simp: State_Monad.get_def t_def Let_def)
qed

text \<open>Room for \<open>n\<close> bytes, with or without a device.\<close>

definition room :: "int \<Rightarrow> nat \<Rightarrow> int \<Rightarrow> asm \<Rightarrow> bool" where
  "room sz N n s \<longleftrightarrow> no_device n s \<or> free_emit sz N n s"

text \<open>The memory after \<open>bs\<close> has been stored for the address \<open>a\<close> and the ones after it, when there is a device.\<close>

definition stored :: "int \<Rightarrow> asm \<Rightarrow> int \<Rightarrow> int list \<Rightarrow> asm \<Rightarrow> bool" where
  "stored sz s a bs t \<longleftrightarrow> DeviceID (dv s) \<noteq> None \<longrightarrow>
     mem_of t = (if pass s = LASTPASS then memory_with sz (the_dev s) a bs (mem_of s) else mem_of s)"

section \<open>Lists of expressions\<close>

fun args_text :: "expr list \<Rightarrow> string" where
  "args_text [] = []"
| "args_text [e] = pr 11 e"
| "args_text (e # f # es) = pr 11 e @ '','' @ args_text (f # es)"

definition le_bytes :: "nat \<Rightarrow> int \<Rightarrow> int list" where
  "le_bytes n v = map (\<lambda>i. v div 256 ^ i mod 256) [0..<n]"

lemma args_text_Cons: "args_text (e # es) = pr 11 e @ (if es = [] then [] else '','' @ args_text es)"
  by (cases es) simp_all

lemma starts_args: "es \<noteq> [] \<Longrightarrow> starts_operand (args_text es)"
  using starts_pr [of 11 "hd es"] starts_pr [of 11 "hd es" "[]"] by (cases es) (simp_all add: args_text_Cons)

text \<open>The loop over the arguments: \<open>item\<close> adds \<open>k\<close> elements for a value. \<open>s\<close> is the state in which the loop runs.\<close>

lemma data_loop_run:
  assumes s: "rel_type (rel s) = REL_OFF" and k: "0 < k"
    and start: "\<And>p. run_state start (s\<lparr>lp := p\<rparr>) = ((), s\<lparr>lp := p\<rparr>)"
    and item: "\<And>f p acc. f \<in> set es \<Longrightarrow> run_state (item (eval (CurAddress s) f) acc) (s\<lparr>lp := p\<rparr>) = (acc @ bytes f, s\<lparr>lp := p\<rparr>) \<and> length (bytes f) = k"
    and es: "es \<noteq> []" "list_all (defined (CurAddress s)) es" "length acc + k * length es \<le> lim" "length es \<le> n"
  shows "run_state (data_loop n start item msg lim acc) (s\<lparr>lp := args_text es\<rparr>) = (acc @ concat (map bytes es), s\<lparr>lp := []\<rparr>)"
  using item es
proof (induction n arbitrary: es acc)
  case (Suc n)
  then obtain e fs where es: "es = e # fs" by (cases es) auto
  define t where "t = (if fs = [] then [] else '','' @ args_text fs)"
  define P where "P = args_text es"
  have skip: "SkipBlanks P = (False, P)"
    using starts_args [OF Suc.prems(2)] by (simp add: P_def SkipBlanks_def starts_skip starts_not_White)
  have "ends_expr t" by (simp add: t_def ends_expr_def White_def ord_def)
  then have parse: "run_state (ParseExpressionNoSyntaxError P) (s\<lparr>lp := p\<rparr>) =
      ((Some (eval (CurAddress s) e), t), s\<lparr>lp := p\<rparr>)" for p
    using ParseExpression_value [of "s\<lparr>lp := p, synerr := False\<rparr>" e t] s Suc.prems(3) es
    by (simp add: ParseExpressionNoSyntaxError_def set_synerr_def P_def args_text_Cons t_def White_def ord_def)
  have com: "comma t = (fs \<noteq> [], args_text fs)"
    using starts_args [of fs] by (cases fs) (auto simp: t_def comma_def White_def ord_def starts_operand_def)
  have it: "run_state (item (eval (CurAddress s) e) acc) (s\<lparr>lp := p\<rparr>) = (acc @ bytes e, s\<lparr>lp := p\<rparr>)" "length (bytes e) = k" for p
    using Suc.prems(1) [of e] es by auto
  show ?case
  proof (cases "fs = []")
    case True
    then show ?thesis
      unfolding P_def [symmetric] using start it parse com by (simp add: lexM_def on_lp_def set_lp_def skip es)
  next
    case False
    then have "0 < k * length fs" using k by simp
    moreover have "length acc + (k + k * length fs) \<le> lim" using Suc.prems(4) es by simp
    ultimately have lim: "length (acc @ bytes e) < lim" "length (acc @ bytes e) + k * length fs \<le> lim"
      using it(2) by (simp_all del: mult_is_0 nat_0_less_mult_iff)
    have "run_state (data_loop n start item msg lim (acc @ bytes e)) (s\<lparr>lp := args_text fs\<rparr>) =
        ((acc @ bytes e) @ concat (map bytes fs), s\<lparr>lp := []\<rparr>)"
      using Suc.prems es False lim(2) by (intro Suc.IH) auto
    then show ?thesis
      unfolding P_def [symmetric] using start it parse com False lim(1) by (simp add: lexM_def on_lp_def set_lp_def skip es)
  qed
qed simp

lemma data_args_run:
  assumes "rel_type (rel s) = REL_OFF" "0 < k"
    "\<And>p. run_state start (s\<lparr>lp := p\<rparr>) = ((), s\<lparr>lp := p\<rparr>)"
    "\<And>f p acc. f \<in> set es \<Longrightarrow> run_state (item (eval (CurAddress s) f) acc) (s\<lparr>lp := p\<rparr>) = (acc @ bytes f, s\<lparr>lp := p\<rparr>) \<and> length (bytes f) = k"
    "es \<noteq> []" "list_all (defined (CurAddress s)) es" "k * length es \<le> lim"
  shows "run_state (data_args start item msg lim over) (s\<lparr>lp := args_text es\<rparr>) = (concat (map bytes es), s\<lparr>lp := []\<rparr>)"
proof -
  have "0 < length (pr 11 e)" for e
    using starts_operandD(9) [OF starts_pr [of 11 e "[]"]] by auto
  then have "length (args_text es) \<ge> length es"
    by (induction es rule: args_text.induct) (auto simp: Suc_le_eq trans_le_add2)
  then have "run_state (data_loop (Suc (length (args_text es))) start item msg lim []) (s\<lparr>lp := args_text es\<rparr>) =
      ([] @ concat (map bytes es), s\<lparr>lp := []\<rparr>)"
    using assms by (intro data_loop_run) auto
  then show ?thesis by (simp add: data_args_def del: data_loop.simps)
qed

text \<open>Emission of words is emission of their bytes, low byte first.\<close>

lemma emit_all_bytes:
  "\<forall>b \<in> set bs. 0 \<le> b \<and> b < 256 \<Longrightarrow> 0 \<le> c \<Longrightarrow> c < 256 \<Longrightarrow> emit_all (c # bs) st = do { EmitByte c st; emit_all bs False }"
  by (cases bs) auto

lemma emit_words_bytes:
  assumes "\<forall>w \<in> set ws. 0 \<le> w \<and> w < 65536"
  shows "emit_words ws False = emit_all (concat (map (le_bytes 2) ws)) False"
  using assms
proof (induction ws)
  case (Cons w ws)
  have b: "\<forall>b \<in> set (le_bytes 2 v). 0 \<le> b \<and> b < 256" for v by (auto simp: le_bytes_def)
  have le: "le_bytes 2 w = [w mod 256, w div 256 mod 256]" by (simp add: le_bytes_def numeral_2_eq_2)
  have "w AND 0xFF = w mod 256" "drop_bit 8 w AND 0xFF = w div 256 mod 256"
    using take_bit_eq_mask [of 8 w] take_bit_eq_mask [of 8 "drop_bit 8 w"]
    by (simp_all add: mask_eq_exp_minus_1 take_bit_eq_mod drop_bit_eq_div)
  moreover have "\<forall>b \<in> set (concat (map (le_bytes 2) ws)). 0 \<le> b \<and> b < 256" using b by auto
  ultimately show ?case
    using Cons by (simp add: EmitWord_def le emit_all_bytes del: emit_all.simps)
qed simp

section \<open>Data directives\<close>

lemma div_mod_256: "v mod 65536 div 256 mod 256 = v div 256 mod (256 :: int)" "v mod 65536 mod 256 = v mod (256 :: int)"
proof -
  have "v mod (256 * 256) = 256 * (v div 256 mod 256) + v mod 256" by (rule zmod_zmult2_eq) simp
  then have m: "v mod 65536 = 256 * (v div 256 mod 256) + v mod 256" by simp
  show "v mod 65536 div 256 mod 256 = v div 256 mod 256" unfolding m by simp
  show "v mod 65536 mod 256 = v mod 256" unfolding m by simp
qed

lemma bits_div: "drop_bit 8 v = v div (256 :: int)" "drop_bit 16 v = v div (65536 :: int)" "v AND 255 = v mod (256 :: int)" "v AND 65535 = v mod (65536 :: int)"
  using take_bit_eq_mask [of 8 v] take_bit_eq_mask [of 16 v]
  by (simp_all add: mask_eq_exp_minus_1 take_bit_eq_mod drop_bit_eq_div)

lemma le_bytes_simps:
  "le_bytes 2 v = [v mod 256, v div 256 mod 256]"
  "le_bytes 3 v = [v mod 256, v div 256 mod 256, v div 65536 mod 256]"
  "le_bytes 4 v = [v mod 256, v div 256 mod 256, v div 65536 mod 256, v div 16777216 mod 256]"
  by (simp_all add: le_bytes_def upt_rec)

lemma le_bytes_AND: "le_bytes 2 (v AND 65535) = le_bytes 2 v" "le_bytes 2 (v mod 65536) = le_bytes 2 v"
  by (simp_all add: le_bytes_simps bits_div div_mod_256)

lemma le_bytes_4: "le_bytes 2 (v AND 65535) @ le_bytes 2 (drop_bit 16 v AND 65535) = le_bytes 4 v"
  by (simp add: le_bytes_simps bits_div div_mod_256 flip: zdiv_zmult2_eq)

lemma le_bytes_byte: "\<forall>b \<in> set (le_bytes n v). 0 \<le> b \<and> b < 256"
  by (auto simp: le_bytes_def)

lemma EmitWords_bytes:
  "\<forall>w \<in> set ws. 0 \<le> w \<and> w < 65536 \<Longrightarrow> EmitWords ws False = emit_all (concat (map (le_bytes 2) ws)) False"
  by (simp add: EmitWords_def emit_words_bytes)

lemma EmitBytes_bytes:
  "\<forall>b \<in> set bs. 0 \<le> b \<and> b < 256 \<Longrightarrow> bs \<noteq> [] \<Longrightarrow> run_state (EmitBytes bs st) s = run_state (emit_all bs st) s"
  by (cases bs) (auto simp: EmitBytes_def)

lemma word_item_run:
  assumes "rel_type (rel s) = REL_OFF" "-65536 \<le> v" "v \<le> 65535"
  shows "run_state (word_item v acc) s = (acc @ [v AND 65535], s)"
proof -
  have "run_state (resolveRelocationAffected k REL_REGULAR) s = ((), s)" for k
    using assms(1) by (simp add: resolveRelocationAffected_def State_Monad.get_def less_reloc_type_def)
  then show ?thesis using assms(2,3) by (simp add: word_item_def check16_def)
qed

lemma d24_item_run:
  assumes "-16777216 \<le> v" "v \<le> 16777215"
  shows "run_state (d24_item v acc) s = (acc @ le_bytes 3 v, s)"
  using assms by (simp add: d24_item_def check24_def le_bytes_simps bits_div)

definition data_ok :: "asm \<Rightarrow> expr list \<Rightarrow> bool" where
  "data_ok s es \<longleftrightarrow> rel_type (rel s) = REL_OFF \<and> es \<noteq> [] \<and> length es \<le> 128 \<and> list_all (defined (CurAddress s)) es"

definition data_bytes :: "nat \<Rightarrow> asm \<Rightarrow> expr list \<Rightarrow> int list" where
  "data_bytes n s es = concat (map (\<lambda>e. le_bytes n (eval (CurAddress s) e)) es)"

lemma dirWORD_run:
  assumes ok: "data_ok s es" and range: "\<forall>e\<in>set es. -65536 \<le> eval (CurAddress s) e \<and> eval (CurAddress s) e \<le> 65535"
  shows "run_state dirWORD (s\<lparr>lp := args_text es\<rparr>) =
    run_state (emit_all (data_bytes 2 s es) False) (s\<lparr>rel := (rel s)\<lparr>isResultAffected := False\<rparr>, lp := []\<rparr>)"
proof -
  let ?s = "s\<lparr>rel := (rel s)\<lparr>isResultAffected := False\<rparr>\<rparr>" and ?start = "mod_rel (\<lambda>r. r\<lparr>isResultAffected := False\<rparr>)"
  let ?b = "\<lambda>f. [eval (CurAddress s) f AND 65535]"
  have a: "run_state (data_args ?start word_item m 128 over) (?s\<lparr>lp := args_text es\<rparr>) = (concat (map ?b es), ?s\<lparr>lp := []\<rparr>)" for m over
  proof (rule data_args_run [where k = 1])
    fix f p acc
    assume "f \<in> set es"
    then show "run_state (word_item (eval (CurAddress ?s) f) acc) (?s\<lparr>lp := p\<rparr>) = (acc @ ?b f, ?s\<lparr>lp := p\<rparr>) \<and> length (?b f) = 1"
      using range word_item_run [of "?s\<lparr>lp := p\<rparr>"] ok by (auto simp: data_ok_def)
  qed (use ok in \<open>simp_all add: data_ok_def\<close>)
  have "run_state (data_args ?start word_item m 128 over) (s\<lparr>lp := p\<rparr>) = run_state (data_args ?start word_item m 128 over) (?s\<lparr>lp := p\<rparr>)" for m over p
    by (simp add: data_args_def)
  moreover have "EmitWords (concat (map ?b es)) False = emit_all (data_bytes 2 s es) False"
    by (subst EmitWords_bytes) (auto simp: data_bytes_def bits_div comp_def le_bytes_AND)
  ultimately show ?thesis using a ok by (simp add: dirWORD_def data_ok_def)
qed

lemma dirD24_run:
  assumes ok: "data_ok s es" and range: "\<forall>e\<in>set es. -16777216 \<le> eval (CurAddress s) e \<and> eval (CurAddress s) e \<le> 16777215"
  shows "run_state dirD24 (s\<lparr>lp := args_text es\<rparr>) = run_state (emit_all (data_bytes 3 s es) False) (s\<lparr>lp := []\<rparr>)"
proof -
  have a: "run_state (data_args (ret ()) d24_item m 384 over) (s\<lparr>lp := args_text es\<rparr>) = (data_bytes 3 s es, s\<lparr>lp := []\<rparr>)" for m over
    unfolding data_bytes_def
    by (rule data_args_run [where k = 3]) (use ok range in \<open>auto simp: data_ok_def d24_item_run le_bytes_simps\<close>)
  have "data_bytes 3 s es \<noteq> []" using ok by (cases es) (auto simp: data_bytes_def data_ok_def le_bytes_simps)
  moreover have "\<forall>b \<in> set (data_bytes 3 s es). 0 \<le> b \<and> b < 256" using le_bytes_byte by (auto simp: data_bytes_def)
  ultimately show ?thesis using a EmitBytes_bytes by (simp add: dirD24_def)
qed

lemma dirDWORD_run:
  assumes ok: "data_ok s es"
  shows "run_state dirDWORD (s\<lparr>lp := args_text es\<rparr>) = run_state (emit_all (data_bytes 4 s es) False) (s\<lparr>lp := []\<rparr>)"
proof -
  let ?b = "\<lambda>e. [eval (CurAddress s) e AND 65535, drop_bit 16 (eval (CurAddress s) e) AND 65535]"
  have a: "run_state (data_args (ret ()) dword_item m 256 over) (s\<lparr>lp := args_text es\<rparr>) = (concat (map ?b es), s\<lparr>lp := []\<rparr>)" for m over
    by (rule data_args_run [where k = 2]) (use ok in \<open>auto simp: data_ok_def dword_item_def\<close>)
  have "concat (map (le_bytes 2) (concat (map ?b es))) = data_bytes 4 s es"
    unfolding data_bytes_def by (induction es) (simp_all add: le_bytes_4 [symmetric])
  moreover have "\<forall>w \<in> set (concat (map ?b es)). 0 \<le> w \<and> w < 65536" by (auto simp: bits_div)
  ultimately have "EmitWords (concat (map ?b es)) False = emit_all (data_bytes 4 s es) False" by (simp add: EmitWords_bytes)
  then show ?thesis using a ok by (cases es) (auto simp: dirDWORD_def data_ok_def)
qed

text \<open>
  Claim C37. \<^verbatim>\<open>DW\<close>, \<^verbatim>\<open>D24\<close> and \<^verbatim>\<open>DWORD\<close> with a list of up to 128 expressions emit the values of the expressions in little-endian order, with two,
  three and four bytes each, without a diagnostic, whatever the state (device, DISP mode, output files); the line is consumed.
  Values may be negative down to minus the power of two. Outside of a relocation block; the expressions are those of
  \<open>ParseExpression_evaluates\<close>.
\<close>

theorem data_directives_little_endian:
  assumes "rel_type (rel s) = REL_OFF" "es \<noteq> []" "length es \<le> 128" "list_all (defined (CurAddress s)) es"
  shows "((\<forall>e\<in>set es. -65536 \<le> eval (CurAddress s) e \<and> eval (CurAddress s) e \<le> 65535) \<longrightarrow>
      run_state dirWORD (s\<lparr>lp := args_text es\<rparr>) =
        run_state (emit_all (data_bytes 2 s es) False) (s\<lparr>rel := (rel s)\<lparr>isResultAffected := False\<rparr>, lp := []\<rparr>)) \<and>
    ((\<forall>e\<in>set es. -16777216 \<le> eval (CurAddress s) e \<and> eval (CurAddress s) e \<le> 16777215) \<longrightarrow>
      run_state dirD24 (s\<lparr>lp := args_text es\<rparr>) = run_state (emit_all (data_bytes 3 s es) False) (s\<lparr>lp := []\<rparr>)) \<and>
    run_state dirDWORD (s\<lparr>lp := args_text es\<rparr>) = run_state (emit_all (data_bytes 4 s es) False) (s\<lparr>lp := []\<rparr>)"
  using assms dirWORD_run dirD24_run dirDWORD_run by (auto simp: data_ok_def)

theorem data_directives_little_endian_witness:
  "run_state dirWORD (asm0\<lparr>lp := ''1 +2,$''\<rparr>) = run_state (emit_all [3, 0, 0, 0] False) (asm0\<lparr>lp := []\<rparr>) \<and>
   run_state dirD24 (asm0\<lparr>lp := ''1 +2,$''\<rparr>) = run_state (emit_all [3, 0, 0, 0, 0, 0] False) (asm0\<lparr>lp := []\<rparr>)"
proof -
  let ?es = "[Bina OAdd (Num 1) (Num 2), Here]"
  have t: "args_text ?es = ''1 +2,$''" by code_simp
  have b: "data_bytes 2 asm0 ?es = [3, 0, 0, 0]" "data_bytes 3 asm0 ?es = [3, 0, 0, 0, 0, 0]" by code_simp+
  have v: "\<forall>e\<in>set ?es. -65536 \<le> eval (CurAddress asm0) e \<and> eval (CurAddress asm0) e \<le> 65535"
    "\<forall>e\<in>set ?es. -16777216 \<le> eval (CurAddress asm0) e \<and> eval (CurAddress asm0) e \<le> 16777215" by code_simp+
  have h: "rel_type (rel asm0) = REL_OFF" "?es \<noteq> []" "length ?es \<le> 128" "list_all (defined (CurAddress asm0)) ?es"
    by (simp_all add: asm0_def)
  have "(rel asm0)\<lparr>isResultAffected := False\<rparr> = rel asm0" by (simp add: asm0_def)
  then have a: "asm0\<lparr>rel := (rel asm0)\<lparr>isResultAffected := False\<rparr>, lp := []\<rparr> = asm0\<lparr>lp := []\<rparr>" by simp
  show ?thesis
    using data_directives_little_endian [OF h] v unfolding t b a by blast
qed

section \<open>ALIGN\<close>

lemma Entry_value:
  assumes "rel_type (rel s) = REL_OFF" "defined (CurAddress s) e" "ends_expr rest"
  shows "run_state (ParseExpressionEntry (pr 11 e @ rest)) s = ((Some (eval (CurAddress s) e), skip_blanks rest), s)"
  using ParseExpression_value [OF assms] assms(1) by (auto simp: ParseExpression_def split: prod.splits option.splits)

definition opt_text :: "expr option \<Rightarrow> string" where
  "opt_text f = (case f of None \<Rightarrow> [] | Some e \<Rightarrow> '','' @ pr 11 e)"

lemma ends_opt_text: "ends_expr (opt_text f)" "skip_blanks (opt_text f) = opt_text f"
  by (auto simp: opt_text_def ends_expr_def White_def ord_def split: option.split)

lemma ends_expr_Nil: "ends_expr []"
  by (simp add: ends_expr_def)

text \<open>A power of two and an optional fill byte are read without a diagnostic.\<close>

lemma ParseAlign_run:
  assumes rel: "rel_type (rel s) = REL_OFF" and a: "defined (CurAddress s) a" "eval (CurAddress s) a = 2 ^ k" "k \<le> 15"
    and f: "\<forall>e. f = Some e \<longrightarrow> defined (CurAddress s) e \<and> 0 \<le> eval (CurAddress s) e \<and> eval (CurAddress s) e \<le> 255"
  shows "run_state ParseAlignArguments (s\<lparr>lp := pr 11 a @ opt_text f\<rparr>) =
    ((2 ^ k, case f of None \<Rightarrow> -1 | Some e \<Rightarrow> eval (CurAddress s) e), s\<lparr>lp := []\<rparr>)"
proof -
  define P where "P = pr 11 a @ opt_text f"
  have skip: "SkipBlanks P = (False, P)"
    using starts_pr [of 11 a "opt_text f"] by (simp add: P_def SkipBlanks_def starts_skip starts_not_White)
  have pe: "run_state (ParseExpression P) (s\<lparr>lp := p\<rparr>) = ((Some (2 ^ k), opt_text f), s\<lparr>lp := p\<rparr>)" for p
    using ParseExpression_value [of "s\<lparr>lp := p\<rparr>" a "opt_text f"] rel a(1,2) ends_opt_text [of f] by (simp add: P_def)
  have "(2::int) ^ k \<le> 2 ^ 15" using a(3) by (intro power_increasing) auto
  then have p2: "(2::int) ^ k \<le> 32768" by simp
  have p1: "\<not> (2::int) ^ k < 1" by (simp add: not_less)
  have "(2::int) ^ k AND (2 ^ k - 1) = take_bit k (2 ^ k)"
    by (simp add: take_bit_eq_mask mask_eq_exp_minus_1)
  then have p0: "(2::int) ^ k AND (2 ^ k - 1) = 0" by (simp add: take_bit_eq_mod)
  show ?thesis
  proof (cases f)
    case None
    have "comma [] = (False, [])" by (simp add: comma_def)
    then show ?thesis
      unfolding P_def [symmetric] ParseAlignArguments_def lexM_def on_lp_def set_lp_def
      using skip pe p2 p1 p0 rel None by (simp add: opt_text_def)
  next
    case (Some e)
    have c: "comma (opt_text f) = (True, pr 11 e)"
      using starts_operandD(9) [OF starts_pr [of 11 e "[]"]] starts_pr [of 11 e "[]"] Some
      by (auto simp: comma_def opt_text_def White_def ord_def starts_operand_def)
    have "run_state (ParseExpressionEntry (pr 11 e)) (s\<lparr>lp := p\<rparr>) = ((Some (eval (CurAddress s) e), []), s\<lparr>lp := p\<rparr>)" for p
      using Entry_value [of "s\<lparr>lp := p\<rparr>" e "[]"] rel f Some ends_expr_Nil by simp
    then show ?thesis
      unfolding P_def [symmetric] ParseAlignArguments_def lexM_def on_lp_def set_lp_def
      using skip pe p2 p1 p0 rel f Some c by simp
  qed
qed

lemma align_len:
  assumes "0 \<le> (adr :: int)" "adr \<le> 0xFFFF"
  shows "wrap32 (NOT adr + 1) AND (2 ^ k - 1) = - adr mod 2 ^ k"
proof -
  have "wrap32 (NOT adr + 1) = - adr" using assms by (simp add: not_int_def wrap32_id in32_def)
  then show ?thesis by (simp add: take_bit_eq_mod flip: take_bit_eq_mask mask_eq_exp_minus_1)
qed

lemma EmitBlock_core:
  assumes "0 < len" "no_device len s"
  shows "core (snd (run_state (EmitBlock b len keep maxl) s)) = advanced len s"
  using emit_block_core [of "nat len" s b keep] assms by (simp add: EmitBlock_def)

text \<open>A block of \<open>len\<close> bytes \<open>b\<close>, or one that leaves the memory as it is (\<open>keep\<close>), where there is room for it.\<close>

lemma EmitBlock_room:
  assumes "0 < len" "room sz N len s" "0 \<le> b" "b \<le> 255" and run: "run_state (EmitBlock b len keep maxl) s = (r, t)"
  shows "CurAddress t = CurAddress s + len \<and> files_get s t (replicate (nat len) b) \<and>
    (if keep then DeviceID (dv s) \<noteq> None \<longrightarrow> mem_of t = mem_of s else stored sz s (emit_address s) (replicate (nat len) b) t)"
proof -
  have b: "b mod 256 = b" using assms(3,4) by simp
  have files: "files_get s t (replicate (nat len) b)" using EmitBlock_files [OF assms(1), of s b keep maxl] run b by simp
  show ?thesis
  proof (cases "DeviceID (dv s) = None")
    case True
    then have "core t = advanced len s" using EmitBlock_core [OF assms(1), of s b keep maxl] assms(2) run by (auto simp: room_def free_emit_def)
    then show ?thesis using True files by (simp add: core_def advanced_def stored_def)
  next
    case False
    then have "free_emit sz N len s" using assms(2) by (auto simp: room_def no_device_def)
    then obtain u where "run_state (EmitBlock b len keep maxl) s = ((), u)" "emits_to sz N (replicate (nat len) (b mod 256)) (pass s = LASTPASS \<and> \<not> keep) s u"
      using EmitBlock_free [OF assms(1)] by blast
    then show ?thesis using run files b assms(1) by (auto simp: emits_to_def stored_def)
  qed
qed

text \<open>
  Claim C38. \<^verbatim>\<open>ALIGN\<close> with a power of two (up to 32768) and an optional fill byte moves the address to a multiple of it, and to the next one: it
  never skips a whole block and does nothing at an aligned address. The output files get the fill byte, zero when there is none, once for each address
  in between and nothing else. With a device, in the last pass, the fill byte is stored for each of these addresses, the rest of the memory stays;
  without a fill byte, and in the passes before, the whole memory stays. There must be room for the block: below the end of the 16 bit range
  inside DISP, or with a device, whose slots have no options here.
\<close>

theorem ALIGN_reaches_multiple:
  assumes "rel_type (rel s) = REL_OFF" "defined (CurAddress s) a" "eval (CurAddress s) a = 2 ^ k" "k \<le> 15"
    and "\<forall>e. f = Some e \<longrightarrow> defined (CurAddress s) e \<and> 0 \<le> eval (CurAddress s) e \<and> eval (CurAddress s) e \<le> 255"
    and "0 \<le> CurAddress s" "CurAddress s \<le> 0xFFFF" "room sz N (- CurAddress s mod 2 ^ k) s"
    and run: "run_state dirALIGN (s\<lparr>lp := pr 11 a @ opt_text f\<rparr>) = (r, s')"
  shows "CurAddress s' mod 2 ^ k = 0 \<and> CurAddress s \<le> CurAddress s' \<and> CurAddress s' < CurAddress s + 2 ^ k \<and>
    (CurAddress s mod 2 ^ k = 0 \<longrightarrow> s' = s\<lparr>lp := []\<rparr>) \<and>
    files_get s s' (replicate (nat (CurAddress s' - CurAddress s)) (case f of None \<Rightarrow> 0 | Some e \<Rightarrow> eval (CurAddress s) e)) \<and>
    (case f of None \<Rightarrow> DeviceID (dv s) \<noteq> None \<longrightarrow> mem_of s' = mem_of s
     | Some e \<Rightarrow> stored sz s (emit_address s) (replicate (nat (CurAddress s' - CurAddress s)) (eval (CurAddress s) e)) s')"
proof -
  define len where "len = - CurAddress s mod 2 ^ k"
  have "(CurAddress s + - CurAddress s mod 2 ^ k) mod 2 ^ k = (CurAddress s + - CurAddress s) mod 2 ^ k"
    by (rule mod_add_right_eq)
  then have len: "0 \<le> len" "len < 2 ^ k" "(CurAddress s + len) mod 2 ^ k = 0"
    by (simp_all add: len_def)
  have len0: "CurAddress s mod 2 ^ k = 0 \<longrightarrow> len = 0" by (simp add: len_def zmod_zminus1_eq_if)
  define t where "t = s\<lparr>lp := []\<rparr>"
  let ?fill = "case f of None \<Rightarrow> -1 | Some e \<Rightarrow> eval (CurAddress s) e" and ?b = "case f of None \<Rightarrow> 0 | Some e \<Rightarrow> eval (CurAddress s) e"
  have "(2::int) ^ k \<noteq> -1" using zero_less_power [of "2::int" k] by linarith
  moreover have "?fill = -1 \<longleftrightarrow> f = None" using assms(5) by (auto split: option.split)
  ultimately have al: "run_state dirALIGN (s\<lparr>lp := pr 11 a @ opt_text f\<rparr>) =
      run_state (if len < 1 then ret () else EmitBlock ?b len (f = None) 4) t"
    using ParseAlign_run [OF assms(1-5)] align_len [OF assms(6,7), of k]
    by (cases f) (simp_all add: dirALIGN_def len_def t_def)
  have t: "room sz N len t" "emit_address t = emit_address s" "mem_of t = mem_of s" "the_dev t = the_dev s" "dv t = dv s"
      "pass t = pass s" "CurAddress t = CurAddress s" "out_files t = out_files s"
    using assms(8) dev_inv_cong [of t s]
    by (auto simp: t_def len_def room_def no_device_def free_emit_def emit_address_def mem_of_def the_dev_def out_files_def)
  show ?thesis
  proof (cases "len < 1")
    case True
    then have "len = 0" "s' = t" using len(1) al run by auto
    then show ?thesis using len t by (auto simp: t_def files_get_Nil stored_def split: option.split)
  next
    case False
    have "run_state (EmitBlock ?b len (f = None) 4) t = (r, s')" using al run False by simp
    moreover have "0 \<le> ?b" "?b \<le> 255" using assms(5) by (auto split: option.split)
    ultimately have "CurAddress s' = CurAddress t + len \<and> files_get t s' (replicate (nat len) ?b) \<and>
        (if f = None then DeviceID (dv t) \<noteq> None \<longrightarrow> mem_of s' = mem_of t else stored sz t (emit_address t) (replicate (nat len) ?b) s')"
      using False t(1) by (intro EmitBlock_room) auto
    then have e: "CurAddress s' = CurAddress s + len" "files_get s s' (replicate (nat len) ?b)"
        "if f = None then DeviceID (dv s) \<noteq> None \<longrightarrow> mem_of s' = mem_of s else stored sz s (emit_address s) (replicate (nat len) ?b) s'"
      using t by (auto simp: files_get_def stored_def)
    then show ?thesis using len len0 False by (auto split: option.splits)
  qed
qed

theorem ALIGN_reaches_multiple_witness:
  "CurAddress (snd (run_state dirALIGN (asm_dev\<lparr>CurAddress := 0x800E, lp := ''16,255''\<rparr>))) = 0x8010 \<and>
   mem_of (snd (run_state dirALIGN (asm_dev\<lparr>CurAddress := 0x800E, lp := ''16,255''\<rparr>))) = (mem_of asm_dev)(0x800E := 255, 0x800F := 255)"
proof -
  let ?s = "asm_dev\<lparr>CurAddress := 0x800E\<rparr>"
  obtain r s' where r: "run_state dirALIGN (?s\<lparr>lp := ''16,255''\<rparr>) = (r, s')" by (metis surj_pair)
  have t: "''16,255'' = pr 11 (Num 16) @ opt_text (Some (Num 255))" by code_simp
  have "dev_inv 0x4000 8 ?s" using asm_dev_inv(1) dev_inv_cong [of ?s asm_dev] by simp
  then have room: "room 0x4000 8 (- CurAddress ?s mod 2 ^ 4) ?s"
    by (simp add: room_def free_emit_def emit_address_def asm_dev_def the_dev_def regular_device_def new_CDevice_def new_CDeviceSlot_def asm0_def)
  have "CurAddress s' mod 2 ^ 4 = 0 \<and> CurAddress ?s \<le> CurAddress s' \<and> CurAddress s' < CurAddress ?s + 2 ^ 4 \<and>
      stored 0x4000 ?s (emit_address ?s) (replicate (nat (CurAddress s' - CurAddress ?s)) 255) s'"
    using ALIGN_reaches_multiple [where a = "Num 16" and k = 4 and f = "Some (Num 255)", OF _ _ _ _ _ _ _ room r [unfolded t]]
    by (simp add: asm_dev_def asm0_def in32_def)
  then have c: "CurAddress s' = 0x8010" and m: "stored 0x4000 ?s (emit_address ?s) (replicate (nat (CurAddress s' - CurAddress ?s)) 255) s'"
    by auto
  have "replicate (nat (CurAddress s' - CurAddress ?s)) (255 :: int) = [255, 255]" by (simp add: c numeral_2_eq_2)
  moreover have "phys 0x4000 (the_dev ?s) 0x800E = 0x800E" "phys 0x4000 (the_dev ?s) 0x800F = 0x800F" "mem_of ?s = mem_of asm_dev"
      "pass ?s = LASTPASS" "DeviceID (dv ?s) \<noteq> None" "emit_address ?s = 0x800E"
    by (simp_all add: phys_def mem_of_def emit_address_def asm_dev_def the_dev_def regular_device_def new_CDevice_def asm0_def)
  ultimately have "mem_of s' = (mem_of asm_dev)(0x800E := 255, 0x800F := 255)" using m by (simp add: stored_def)
  moreover have "asm_dev\<lparr>CurAddress := 0x800E, lp := ''16,255''\<rparr> = ?s\<lparr>lp := ''16,255''\<rparr>" by simp
  ultimately show ?thesis using r c by simp
qed

section \<open>DISP and ENT\<close>

lemma dirDISP_run:
  assumes "rel_type (rel s) = REL_OFF" "defined (CurAddress s) e" "PseudoORG s = DISP_NONE"
    "0 \<le> eval (CurAddress s) e" "eval (CurAddress s) e \<le> 0xFFFF"
  shows "run_state dirDISP (s\<lparr>lp := pr 11 e\<rparr>) = ((), s\<lparr>rel := (rel s)\<lparr>isResultAffected := False\<rparr>, lp := [],
     dispPageNum := LABEL_PAGE_UNDEFINED, adrdisp := CurAddress s, CurAddress := eval (CurAddress s) e, PseudoORG := DISP_ACTIVE\<rparr>)"
proof -
  let ?s = "s\<lparr>lp := pr 11 e, rel := (rel s)\<lparr>isResultAffected := False\<rparr>\<rparr>"
  have p: "run_state (on_lp ParseExpressionNoSyntaxError) ?s = (Some (eval (CurAddress s) e), ?s\<lparr>lp := []\<rparr>)"
    using ParseExpression_value [of "?s\<lparr>synerr := False\<rparr>" e "[]"] assms ends_expr_Nil
    by (simp add: on_lp_def set_lp_def ParseExpressionNoSyntaxError_def set_synerr_def)
  have c: "comma [] = (False, [])" by (simp add: comma_def)
  show ?thesis
    using assms p c
    by (simp add: dirDISP_def checkAndWarn_def disp_page_def lexM_def set_lp_def start_disp_def crop_address_def check16u_def State_Monad.get_def)
qed

text \<open>
  Claim C39. Code between \<^verbatim>\<open>DISP\<close> and \<^verbatim>\<open>ENT\<close> is assembled for the address of the DISP and stored where the code in front of it ends: inside, the
  address starts at the value of the expression and grows with every byte; with a device the bytes go to the memory that belongs to the
  addresses from the one in front of the DISP on, in the last pass, and the rest of the memory stays; the output files get exactly these bytes. At the end
  the address is the one before DISP plus the number of bytes, and the displacement is off. Outside of relocation blocks; the slots of a device
  have no options here.
\<close>

theorem DISP_ENT_displaces:
  assumes "rel_type (rel s) = REL_OFF" "defined (CurAddress s) e" "PseudoORG s = DISP_NONE" "room sz N (int (length bs)) s"
    and "0 \<le> eval (CurAddress s) e" "eval (CurAddress s) e + int (length bs) \<le> 0x10000" "eval (CurAddress s) e \<le> 0xFFFF"
    and "\<forall>b \<in> set bs. 0 \<le> b \<and> b < 256"
    and disp: "run_state dirDISP (s\<lparr>lp := pr 11 e\<rparr>) = (r1, s1)"
    and emit: "run_state (emit_all bs False) s1 = (r2, s2)"
    and ent: "run_state dirENT s2 = (r3, s3)"
  shows "CurAddress s1 = eval (CurAddress s) e \<and> CurAddress s2 = eval (CurAddress s) e + int (length bs) \<and>
    CurAddress s3 = CurAddress s + int (length bs) \<and> PseudoORG s3 = DISP_NONE \<and> dispPageNum s3 = LABEL_PAGE_UNDEFINED \<and>
    stored sz s (CurAddress s) bs s3 \<and> files_get s s3 bs"
proof -
  have s1: "CurAddress s1 = eval (CurAddress s) e" "adrdisp s1 = CurAddress s" "PseudoORG s1 = DISP_ACTIVE" "rel_type (rel s1) = REL_OFF"
      "dv s1 = dv s" "pass s1 = pass s" "outp s1 = outp s"
    using disp dirDISP_run [OF assms(1-3,5,7)] assms(1) by auto
  have a: "emit_address s1 = CurAddress s" "emit_address s = CurAddress s" using s1 assms(3) by (simp_all add: emit_address_def)
  have s2: "CurAddress s2 = eval (CurAddress s) e + int (length bs)" "adrdisp s2 = CurAddress s + int (length bs)"
      "PseudoORG s2 = DISP_ACTIVE" "rel_type (rel s2) = REL_OFF" "stored sz s (CurAddress s) bs s2"
  proof -
    have "(CurAddress s2 = eval (CurAddress s) e + int (length bs) \<and> adrdisp s2 = CurAddress s + int (length bs) \<and>
        PseudoORG s2 = DISP_ACTIVE \<and> rel_type (rel s2) = REL_OFF) \<and> stored sz s (CurAddress s) bs s2"
    proof (cases "DeviceID (dv s) = None")
      case True
      then have "no_device (int (length bs)) s1" using s1 assms(6) by (simp add: no_device_def)
      from emit_all_core [OF assms(8) this, of False]
      have "core s2 = advanced (int (length bs)) s1" using emit by simp
      then show ?thesis using s1 True by (auto simp: core_def advanced_def stored_def)
    next
      case False
      then have "free_emit sz N (int (length bs)) s" using assms(4) by (auto simp: room_def no_device_def)
      then have "free_emit sz N (int (length bs)) s1"
        using s1 a assms(6) dev_inv_cong [of s1 s] by (simp add: free_emit_def the_dev_def)
      then obtain u where u: "run_state (emit_all bs False) s1 = ((), u)" "emits_to sz N bs (pass s1 = LASTPASS) s1 u"
        using emit_all_free [OF assms(8)] by blast
      then show ?thesis using emit s1 a by (auto simp: emits_to_def stored_def the_dev_def mem_of_def)
    qed
    then show "CurAddress s2 = eval (CurAddress s) e + int (length bs)" "adrdisp s2 = CurAddress s + int (length bs)"
      "PseudoORG s2 = DISP_ACTIVE" "rel_type (rel s2) = REL_OFF" "stored sz s (CurAddress s) bs s2" by blast+
  qed
  have "files_get s1 s2 bs" using emit_all_files [OF assms(8), of s1 False] emit by simp
  then have f2: "files_get s s2 bs" using s1 by (simp add: files_get_def out_files_def)
  have "s3 = s2\<lparr>CurAddress := adrdisp s2, PseudoORG := DISP_NONE, dispPageNum := LABEL_PAGE_UNDEFINED\<rparr>"
    using ent s2(3,4) by (auto simp: dirENT_def State_Monad.get_def)
  then show ?thesis using s1 s2 f2 by (auto simp: stored_def files_get_def out_files_def mem_of_def the_dev_def)
qed

theorem DISP_ENT_displaces_witness:
  "CurAddress (snd (run_state (do { dirDISP; emit_all [0xC9, 1] False; dirENT }) (asm_dev\<lparr>lp := ''100''\<rparr>))) = 0x8002 \<and>
   mem_of (snd (run_state (do { dirDISP; emit_all [0xC9, 1] False; dirENT }) (asm_dev\<lparr>lp := ''100''\<rparr>))) = (mem_of asm_dev)(0x8000 := 0xC9, 0x8001 := 1)"
proof -
  let ?bs = "[0xC9, 1 :: int]"
  have t: "''100'' = pr 11 (Num 100)" by code_simp
  obtain r1 s1 where r1: "run_state dirDISP (asm_dev\<lparr>lp := ''100''\<rparr>) = (r1, s1)" by (metis surj_pair)
  obtain r2 s2 where r2: "run_state (emit_all ?bs False) s1 = (r2, s2)" by (metis surj_pair)
  obtain r3 s3 where r3: "run_state dirENT s2 = (r3, s3)" by (metis surj_pair)
  have room: "room 0x4000 8 (int (length ?bs)) asm_dev"
    using asm_dev_inv(1)
    by (simp add: room_def free_emit_def emit_address_def asm_dev_def the_dev_def regular_device_def new_CDevice_def new_CDeviceSlot_def asm0_def)
  have "CurAddress s3 = CurAddress asm_dev + int (length ?bs) \<and> stored 0x4000 asm_dev (CurAddress asm_dev) ?bs s3"
    using DISP_ENT_displaces [where e = "Num 100", OF _ _ _ room _ _ _ _ r1 [unfolded t] r2 r3] by (simp add: asm_dev_def asm0_def in32_def)
  moreover have "phys 0x4000 (the_dev asm_dev) 0x8000 = 0x8000" "phys 0x4000 (the_dev asm_dev) 0x8001 = 0x8001"
      "pass asm_dev = LASTPASS" "DeviceID (dv asm_dev) \<noteq> None" "CurAddress asm_dev = 0x8000"
    by (simp_all add: phys_def asm_dev_def the_dev_def regular_device_def new_CDevice_def asm0_def)
  ultimately show ?thesis using r1 r2 r3 by (simp add: stored_def del: emit_all.simps)
qed

end
