(* ===== verification/Sj_Line.thy ===== *)
theory Sj_Line
  imports Sj_Data Sj_Source Sj_Z80
begin

text \<open>
  parser.cpp: the label of a line, and the calls a line consists of. What the line runs (macros, structures, directives, instructions) is
  an argument of the functions here, because all of them can run further lines; theory \<open>Sj_Program\<close> ties the knot.
\<close>

section \<open>Source debugging data of a label\<close>

definition strncmp_eq :: "string \<Rightarrow> string \<Rightarrow> bool" where
  "strncmp_eq m p \<longleftrightarrow> take (length m) p = m"

definition flag_text :: "bool \<Rightarrow> string \<Rightarrow> string" where
  "flag_text b t = (if b then t else [])"

text \<open>The name is read a second time, as in \<open>ValidateLabel\<close>; module, main and local part are separated by commas and followed by the usage.\<close>

definition ExportLabelToSld :: "string \<Rightarrow> SLabelTableEntry \<Rightarrow> label_state \<Rightarrow> string" where
  "ExportLabelToSld naam0 label l =
     (let setNameSpace = (cur naam0 \<noteq> CHR ''!'');
          naam1 = (if setNameSpace then naam0 else drop 1 naam0);
          escMacro = (setNameSpace \<and> macrolabp l \<noteq> None \<and> cur naam1 = CHR ''@'' \<and> chr_at naam1 1 = CHR ''.'');
          naam2 = (if escMacro then drop 1 naam1 else naam1);
          global = (cur naam2 = CHR ''@'');
          local = (cur naam2 = CHR ''.'');
          naam = (if global \<or> local then drop 1 naam2 else naam2);
          m = ModuleName l;
          inMacro = (\<not> escMacro \<and> local \<and> macrolabp l \<noteq> None);
          traits = lab_traits label;
          globalStructDef = (has_trait traits LABEL_IS_STRUCT_D \<and> (\<not> strncmp_eq m naam \<or> chr_at naam (length m) \<noteq> CHR ''.''));
          inModule = (\<not> inMacro \<and> \<not> global \<and> m \<noteq> [] \<and> \<not> globalStructDef);
          isStructLabel = has_trait traits (LABEL_IS_STRUCT_D OR LABEL_IS_STRUCT_E);
          from_vorlab = (setNameSpace \<and> \<not> (isStructLabel \<and> \<not> local) \<and> \<not> inMacro);
          main0 = (if \<not> setNameSpace then naam else if isStructLabel \<and> \<not> local then naam
                   else if inMacro then the (macrolabp l) else vorlab l);
          main = (if (from_vorlab \<or> isStructLabel) \<and> m \<noteq> [] \<and> strncmp_eq m main0 then drop (length m + 1) main0 else main0)
      in flag_text inModule m @ '','' @ take LABMAX main @ '','' @ flag_text local (take LABMAX naam) @
         flag_text (has_trait traits LABEL_IS_LOCAL) '',+local'' @ flag_text (has_trait traits LABEL_IS_EQU) '',+equ'' @
         flag_text inMacro '',+macro'' @ flag_text (has_trait traits LABEL_IS_SMC) '',+smc'' @
         flag_text (lab_isRelocatable label = REL_REGULAR) '',+reloc'' @ flag_text (lab_isRelocatable label = REL_HIGH) '',+reloc_high'' @
         flag_text (lab_used label) '',+used'' @ flag_text (has_trait traits LABEL_IS_STRUCT_D) '',+struct_def'' @
         flag_text (has_trait traits LABEL_IS_STRUCT_E) '',+struct_data'' @ flag_text (has_trait traits LABEL_HAS_SIZE) '',+sizeof'')"

section \<open>The name of a label\<close>

definition SetLastParsedLabel :: "string option \<Rightarrow> unit M" where
  "SetLastParsedLabel label = do {
     n \<leftarrow> gets (\<lambda>s. CompiledCurrentLine (dg s));
     mod_prog (\<lambda>p. p\<lparr>LastParsedLabel := label, LastParsedLabelLine := (if label = None then 0 else n)\<rparr>) }"

definition label_chars :: "char \<Rightarrow> bool" where
  "label_chars c \<longleftrightarrow> c \<noteq> NUL \<and> \<not> White c \<and> c \<noteq> CHR '':'' \<and> c \<noteq> CHR ''='' \<and> c \<noteq> CHR ''+''"

text \<open>The offset of self modifying code as a digit.\<close>

definition smc_digit :: "string \<Rightarrow> int \<times> string" where
  "smc_digit p =
     (if cur p = CHR ''+'' \<and> isdigit (chr_at p 1) \<and> \<not> isalnum (chr_at p 2) then (ord (chr_at p 1) - 48, drop 2 p) else (0, p))"

text \<open>The offset of self modifying code as a star: the position that the previous pass has found for this label.\<close>

definition smart_smc :: "int M" where
  "smart_smc = do {
     s \<leftarrow> State_Monad.get;
     let here = last (sourcePosStack s);
     let k = smartSmcIndex s;
     r \<leftarrow> (if pass s = 1 then do {
         modify (\<lambda>s. s\<lparr>smartSmcLines := smartSmcLines s @ [here\<lparr>colBegin := 4294967295\<rparr>]\<rparr>);
         ret 1 }
       else if length (smartSmcLines s) \<le> k \<or> tfp_filename (smartSmcLines s ! k) \<noteq> tfp_filename here \<or>
               tfp_line (smartSmcLines s ! k) \<noteq> tfp_line here then do {
         Error ''mismatch of smart-SMC positions between passes'' None E_PASS3;
         ret 1 }
       else if colBegin (smartSmcLines s ! k) = 4294967295 then do {
         Error ''unresolved smart-SMC symbol (no significant target)'' None E_PASS3;
         ret 1 }
       else do {
         modify (\<lambda>s. s\<lparr>smartSmcLines := (smartSmcLines s)[k := (smartSmcLines s ! k)\<lparr>colBegin := 4294967295\<rparr>]\<rparr>);
         ret (wrap32 (int (colBegin (smartSmcLines s ! k)))) });
     modify (\<lambda>s. s\<lparr>smartSmcIndex := smartSmcIndex s + 1\<rparr>);
     ret r }"

text \<open>The name in front of the line and its offset; the optional colon is consumed.\<close>

definition label_head :: "(string \<times> int) M" where
  "label_head = do {
     p \<leftarrow> gets lp;
     let temp = takeWhile label_chars p;
     let (smc, p1) = smc_digit (dropWhile label_chars p);
     smcOffset \<leftarrow> (if cur p1 = CHR ''+'' \<and> chr_at p1 1 = CHR ''*'' \<and> \<not> isalnum (chr_at p1 2) then do {
         set_lp (drop 2 p1);
         smart_smc }
       else do { set_lp p1; ret smc });
     modify (\<lambda>s. s\<lparr>lp := skip_blanks (if cur (lp s) = CHR '':'' then drop 1 (lp s) else lp s)\<rparr>);
     modify (\<lambda>s. s\<lparr>IsLabelNotFound := False\<rparr>);
     ret (temp, smcOffset) }"

text \<open>\<^verbatim>\<open>atoi\<close>: the value of the digits as \<^verbatim>\<open>long\<close>, cut to \<^verbatim>\<open>int\<close>.\<close>

definition atoi :: "string \<Rightarrow> int" where
  "atoi p = (let v = foldl (\<lambda>n c. 10 * n + (ord c - 48)) 0 (takeWhile isdigit p)
     in wrap32 (min v 9223372036854775807))"

definition temporary_label :: "string \<Rightarrow> int \<Rightarrow> unit M" where
  "temporary_label tp smcOffset =
     (if smcOffset \<noteq> 0 then Error ''Temporary label can't use SMC-offset'' None E_PASS3
      else if \<not> list_all isdigit tp then Error ''Invalid temporary label (not a number)'' (Some tp) E_PASS3
      else do {
        equ \<leftarrow> lexM NeedEQU;
        defl \<leftarrow> (if equ then ret False else lexM NeedDEFL);
        if equ \<or> defl then Error ''Number labels are allowed as address labels only, not for DEFL/=/EQU'' (Some tp) E_SUPPRESS
        else do {
          ok \<leftarrow> InsertRefresh (atoi tp);
          whenM (\<not> ok) (Error ''Temporary labels flow differs in last pass (missing/new temporary label since previous pass)'' None E_PASS3) } })"

section \<open>The value of a label\<close>

text \<open>The expression of DEFL or EQU, and the page of EQU. Behind it the line must end.\<close>

definition label_expression :: "bool \<Rightarrow> bool \<Rightarrow> (aint \<times> int) M" where
  "label_expression IsDEFL IsEQU = do {
     mod_rel (\<lambda>r. r\<lparr>isResultAffected := False\<rparr>);
     r \<leftarrow> on_lp ParseExpressionNoSyntaxError;
     s \<leftarrow> State_Monad.get;
     whenM (r = None) (Error ''Expression error'' (Some (lp s)) E_PASS3);
     whenM (IsLabelNotFound s \<and> IsDEFL) (Error ''Forward reference'' None E_EARLY);
     c \<leftarrow> (if IsEQU then lexM comma else ret False);
     equPageNum \<leftarrow> (if c then do {
         pg \<leftarrow> on_lp ParseExpressionNoSyntaxError;
         l \<leftarrow> gets lp;
         (case pg of
            Some n \<Rightarrow> ret n
          | None \<Rightarrow> do { Error ''Expression error'' (Some l) E_PASS3; ret LABEL_PAGE_UNDEFINED }) }
       else ret LABEL_PAGE_UNDEFINED);
     eol \<leftarrow> lexM SkipBlanks;
     l \<leftarrow> gets lp;
     whenM (\<not> eol) (do { Error ''Unexpected'' (Some l) E_PASS3; skip_line });
     ret (case r of Some v \<Rightarrow> v | None \<Rightarrow> 0, equPageNum) }"

text \<open>The last pass: the label is there already, only DEFL may define it; its value must be the one of the pass before.\<close>

definition label_sld :: "string \<Rightarrow> string \<Rightarrow> bool \<Rightarrow> int \<Rightarrow> aint \<Rightarrow> SLabelTableEntry \<Rightarrow> unit M" where
  "label_sld naam tp IsEQU equPageNum val label = do {
     s \<leftarrow> State_Monad.get;
     let pg = (if IsEQU then equPageNum else lab_page label);
     whenM (IsSldExportActive s) (do {
       WriteToSldFile pg val (if IsEQU then CHR ''D'' else CHR ''F'') (Some tp);
       WriteToSldFile pg val CHR ''L'' (Some (ExportLabelToSld naam label (labs s))) }) }"

definition touch_label :: "string \<Rightarrow> unit M" where
  "touch_label tp = do {
     s \<leftarrow> State_Monad.get;
     (case symbols (labs s) tp of
        None \<Rightarrow> ret ()
      | Some e \<Rightarrow> put_label tp (e\<lparr>lab_updatePass := pass s\<rparr>)) }"

definition last_pass_label :: "string \<Rightarrow> string \<Rightarrow> bool \<Rightarrow> bool \<Rightarrow> int \<Rightarrow> int \<Rightarrow> aint \<Rightarrow> bool M" where
  "last_pass_label naam tp IsDEFL IsEQU equPageNum traits val = do {
     l0 \<leftarrow> gets (\<lambda>s. Find tp True (labs s));
     label \<leftarrow> (if l0 = None \<and> IsDEFL then do {
         ok \<leftarrow> Insert tp val traits LABEL_PAGE_UNDEFINED;
         s \<leftarrow> State_Monad.get;
         ret (if ok then Find tp True (labs s) else None) }
       else ret l0);
     (case label of
        None \<Rightarrow> do { Error ''Label not found'' (Some tp) E_PASS3; ret False }
      | Some lab \<Rightarrow> do {
          (if IsDEFL then do { Insert tp val traits LABEL_PAGE_UNDEFINED; ret () }
           else label_sld naam tp IsEQU equPageNum val lab);
          now \<leftarrow> gets (\<lambda>s. symbols (labs s) tp);
          let v = (case now of Some e \<Rightarrow> lab_value e | None \<Rightarrow> lab_value lab);
          (if val \<noteq> v then do {
             Warning ''Label has different value in pass 3''
               (Some (''previous value '' @ fmt_d (u32 v) @ '' not equal '' @ fmt_d (u32 val))) W_PASS3;
             Update tp val;
             ret () }
           else touch_label tp);
          ret True }) }"

text \<open>The value goes into the label table. False: the label was not found in the last pass.\<close>

definition store_label :: "string \<Rightarrow> string \<Rightarrow> bool \<Rightarrow> bool \<Rightarrow> int \<Rightarrow> int \<Rightarrow> aint \<Rightarrow> bool M" where
  "store_label naam tp IsDEFL IsEQU equPageNum traits val = do {
     p \<leftarrow> gets pass;
     if p = LASTPASS then last_pass_label naam tp IsDEFL IsEQU equPageNum traits val
     else do {
       ok \<leftarrow> (if p = 2 \<or> p = 1 then Insert tp val traits equPageNum else ret True);
       (if p = 2 \<and> \<not> ok then do { Update tp val; ret () } else ret ());
       whenM (p = 1 \<and> \<not> ok) (Error ''Duplicate label'' (Some tp) E_EARLY);
       ret True } }"

definition define_label :: "string \<Rightarrow> int \<Rightarrow> bool \<Rightarrow> bool \<Rightarrow> int \<Rightarrow> aint \<Rightarrow> unit M" where
  "define_label naam smcOffset IsDEFL IsEQU equPageNum val0 = do {
     let val = wrap32 (val0 + smcOffset);
     (isLocal, name) \<leftarrow> ValidateLabel naam True False;
     (case name of
        None \<Rightarrow> ret ()
      | Some tp \<Rightarrow> do {
          whenM (\<not> IsDEFL) (SetLastParsedLabel (Some tp));
          let traits = (if isLocal then LABEL_IS_LOCAL else 0) OR (if IsEQU then LABEL_IS_EQU else 0) OR
            (if IsDEFL then LABEL_IS_DEFL else 0) OR (if smcOffset \<noteq> 0 then LABEL_IS_SMC else 0);
          ok \<leftarrow> store_label naam tp IsDEFL IsEQU equPageNum traits val;
          if \<not> ok then ret ()
          else do {
            SizeBoundary (if isLocal then BOUNDARY_LOCAL else BOUNDARY_MAIN);
            l \<leftarrow> gets (\<lambda>s. Find tp True (labs s));
            whenM (case l of Some e \<Rightarrow> has_trait (lab_traits e) LABEL_HAS_SIZE | None \<Rightarrow> False) (TrackForSize tp) } }) }"

section \<open>Line directives of the C preprocessor\<close>

text \<open>What the host provides: the name of the file an INCLUDE or a line directive means (the argument and its delimiters,
  \<open>None\<close> for a name that is not searched), the contents of the file with that name, the option with the path in front of output files, the contents of memory that the
  program uses before it sets it, and the directives that are not modelled.\<close>

record host =
  input_file :: "string \<Rightarrow> EDelimiterType option \<Rightarrow> string"
  file_contents :: "string \<Rightarrow> string option"
  OutPrefix :: string
  uninit :: "nat \<Rightarrow> int"
  other_directives :: "(string \<times> unit M) list"

definition set_pos :: "TextFilePos \<Rightarrow> unit M" where
  "set_pos pos = modify (\<lambda>s. s\<lparr>sourcePosStack := butlast (sourcePosStack s) @ [pos]\<rparr>)"

definition Replace_define :: "string \<Rightarrow> string \<Rightarrow> unit M" where
  "Replace_define name v = mod_dg (\<lambda>d. d\<lparr>defs := snd (Replace (defs d) name v)\<rparr>)"

definition cpp_filename :: "host \<Rightarrow> string \<Rightarrow> bool M" where
  "cpp_filename h p =
     (if White (cur p) \<and> cur (skip_blanks p) \<noteq> NUL then do {
        ((name, _), _) \<leftarrow> GetDelimitedStringEx (skip_blanks p);
        if name = [] then do { Error ''#line: empty filename'' None E_SUPPRESS; ret False }
        else do {
          let file = input_file h name None;
          set_pos (newFile file);
          Replace_define ''__FILE__'' file;
          ret True } }
      else ret True)"

definition cpp_line :: "host \<Rightarrow> string \<Rightarrow> bool M" where
  "cpp_line h p = do {
     l \<leftarrow> gets (\<lambda>s. lijst (srcs s));
     if l \<noteq> 0 then do { Error ''#line does not work inside macro/dup/lua block'' None E_SUPPRESS; ret False }
     else do {
       let linenum = (if isdigit (cur p) then atoi p else -1);
       if linenum \<le> 0 then do { Error ''#line: positive integer expected'' (Some p) E_SUPPRESS; ret False }
       else do {
         ok \<leftarrow> cpp_filename h (dropWhile isdigit p);
         if \<not> ok then ret False
         else do {
           pos \<leftarrow> gets (\<lambda>s. last (sourcePosStack s));
           set_pos (pos\<lparr>tfp_line := nat (linenum - 1), colBegin := 0, colEnd := 0\<rparr>);
           skip_line;
           ret True } } } }"

definition ParseCppLineDirective :: "host \<Rightarrow> string \<Rightarrow> bool M" where
  "ParseCppLineDirective h p =
     (case cmphstr ''line'' False (skip_blanks p) of
        (True, q) \<Rightarrow> if cur (skip_blanks q) = NUL then ret False else cpp_line h (skip_blanks q)
      | _ \<Rightarrow> ret False)"

section \<open>The label of a line\<close>

text \<open>Emitting a structure: its name, the label of the instance, the text behind the name, whether the name is global. The
  result says whether there is such a structure, and the text behind it.\<close>

type_synonym structure_emit = "string \<Rightarrow> string option \<Rightarrow> string \<Rightarrow> bool \<Rightarrow> (bool \<times> string) M"

definition structure_at :: "structure_emit \<Rightarrow> string option \<Rightarrow> string \<Rightarrow> (bool \<times> string) M" where
  "structure_at emit label p =
     (let q = skip_blanks p; gl = (cur q = CHR ''@'') in
      case GetID (if gl then drop 1 q else q) of
        (None, r) \<Rightarrow> ret (False, r)
      | (Some n, r) \<Rightarrow> emit n label r gl)"

definition address_label :: "structure_emit \<Rightarrow> string \<Rightarrow> int \<Rightarrow> unit M" where
  "address_label emit temp smcOffset = do {
     l \<leftarrow> gets lp;
     (emitted, p) \<leftarrow> structure_at emit (Some temp) l;
     if emitted then do {
       whenM (smcOffset \<noteq> 0) (Error ''Structure instance can't use SMC-offset'' None E_PASS3);
       set_lp p;
       ValidateLabel temp True False;
       ret () }
     else do {
       a \<leftarrow> gets CurAddress;
       define_label temp smcOffset False False LABEL_PAGE_UNDEFINED a } }"

definition named_label :: "structure_emit \<Rightarrow> string \<Rightarrow> int \<Rightarrow> unit M" where
  "named_label emit temp smcOffset = do {
     macro \<leftarrow> lexM isMacroNext;
     if macro then
       (if smcOffset \<noteq> 0 then Error ''Macro name can't use SMC-offset'' None E_PASS3 else SetLastParsedLabel (Some temp))
     else do {
       IsDEFL \<leftarrow> lexM NeedDEFL;
       IsEQU \<leftarrow> lexM NeedEQU;
       if IsDEFL \<or> IsEQU then do {
         (val, equPageNum) \<leftarrow> label_expression IsDEFL IsEQU;
         define_label temp smcOffset IsDEFL IsEQU equPageNum val }
       else address_label emit temp smcOffset } }"

text \<open>\<open>::\<close> and \<open>:.:\<close> end the size of the label in front.\<close>

definition boundary_tag :: "string \<Rightarrow> (bool \<times> string) option" where
  "boundary_tag p =
     (let isLocal = (chr_at p 1 = CHR ''.''); n = (if isLocal then 2 else 1) in
      if cur p = CHR '':'' \<and> chr_at p n = CHR '':'' then Some (isLocal, drop (n + 1) p) else None)"

definition ParseLabel :: "host \<Rightarrow> (bool \<Rightarrow> bool M) \<Rightarrow> structure_emit \<Rightarrow> unit M" where
  "ParseLabel h directive emit = do {
     p \<leftarrow> gets lp;
     if White (cur p) then ret ()
     else do {
       cpp \<leftarrow> (if cur p = CHR ''#'' then ParseCppLineDirective h (drop 1 p) else ret False);
       if cpp then ret ()
       else (case boundary_tag p of
         Some (isLocal, q) \<Rightarrow> do {
           SizeBoundary (if isLocal then BOUNDARY_LOCAL else BOUNDARY_MAIN);
           set_lp q }
       | None \<Rightarrow> do {
           bof \<leftarrow> gets (\<lambda>s. IsPseudoOpBOF (syx (opts s)));
           done \<leftarrow> (if bof then directive True else ret False);
           if done then do {
             eol \<leftarrow> lexM SkipBlanks;
             l \<leftarrow> gets lp;
             whenM (\<not> eol) (Error ''Unexpected'' (Some l) E_PASS3) }
           else do {
             (temp, smcOffset) \<leftarrow> label_head;
             if isdigit (cur temp) then temporary_label temp smcOffset else named_label emit temp smcOffset } }) } }"

section \<open>The rest of a line\<close>

text \<open>\<open>macro n p\<close>: 0, there is no such macro; 1, an error was reported; 2, it was emitted.\<close>

type_synonym macro_emit = "string \<Rightarrow> string \<Rightarrow> (int \<times> string) M"

definition ParseMacro :: "macro_emit \<Rightarrow> structure_emit \<Rightarrow> unit M" where
  "ParseMacro macro emit = do {
     l \<leftarrow> gets lp;
     let q = skip_blanks l;
     let gl = (cur q = CHR ''@'');
     (case GetID (if gl then drop 1 q else q) of
        (None, _) \<Rightarrow> ret ()
      | (Some n, p) \<Rightarrow> do {
          (r, p1) \<leftarrow> (if gl then ret (0, p) else macro n p);
          if r = 2 then ret ()
          else if r = 1 then set_lp p1
          else do {
            (emitted, p2) \<leftarrow> emit n None p1 gl;
            whenM emitted (set_lp p2) } }) }"

definition ParseInstruction :: "(bool \<Rightarrow> bool M) \<Rightarrow> unit M" where
  "ParseInstruction directive = do {
     modify (\<lambda>s. s\<lparr>lp := (if cur (lp s) = CHR ''@'' then drop 1 (lp s) else lp s)\<rparr>);
     done \<leftarrow> directive False;
     if done then ret () else GetOpCode }"

definition win2dos :: "int list" where
  "win2dos =
     [0xB0, 0xB1, 0xB2, 0xB3, 0xB4, 0xB5, 0xB6, 0xB7, 0xB8, 0xB9, 0xBA, 0xBB, 0xBC, 0xBD, 0xBE, 0xBF,
      0xC0, 0xC1, 0xC2, 0xC3, 0xC4, 0xC5, 0xC6, 0xC7, 0xC8, 0xC9, 0xCA, 0xCB, 0xCC, 0xCD, 0xCE, 0xCF,
      0xD0, 0xD1, 0xD2, 0xD3, 0xD4, 0xD5, 0xD6, 0xD7, 0xF0, 0xD8, 0xD9, 0xDA, 0xDB, 0xDC, 0xDD, 0xDE,
      0xDF, 0xF2, 0xF3, 0xF4, 0xF5, 0xF6, 0xF7, 0xF8, 0xF1, 0xF9, 0xFA, 0xFB, 0xFC, 0xFD, 0xFE, 0x20,
      0x80, 0x81, 0x82, 0x83, 0x84, 0x85, 0x86, 0x87, 0x88, 0x89, 0x8A, 0x8B, 0x8C, 0x8D, 0x8E, 0x8F,
      0x90, 0x91, 0x92, 0x93, 0x94, 0x95, 0x96, 0x97, 0x98, 0x99, 0x9A, 0x9B, 0x9C, 0x9D, 0x9E, 0x9F,
      0xA0, 0xA1, 0xA2, 0xA3, 0xA4, 0xA5, 0xA6, 0xA7, 0xA8, 0xA9, 0xAA, 0xAB, 0xAC, 0xAD, 0xAE, 0xAF,
      0xE0, 0xE1, 0xE2, 0xE3, 0xE4, 0xE5, 0xE6, 0xE7, 0xE8, 0xE9, 0xEA, 0xEB, 0xEC, 0xED, 0xEE, 0xEF]"

definition to_dos :: "char \<Rightarrow> char" where
  "to_dos c = (if 128 \<le> (of_char c :: nat) then char_of (win2dos ! ((of_char c :: nat) - 128)) else c)"

text \<open>A line inside a DUP block that is still being collected is stored; only the directives that open and close such
  blocks are run.\<close>

definition collect_line :: "bool M \<Rightarrow> unit M" where
  "collect_line rept = do {
     s \<leftarrow> State_Monad.get;
     set_lp (line s);
     mod_prog (\<lambda>g. let d = last (RepeatStack g) in
       g\<lparr>RepeatStack := butlast (RepeatStack g) @ [d\<lparr>rep_Lines := rep_Lines d @ [(Some (line s), last (sourcePosStack s))]\<rparr>]\<rparr>);
     done \<leftarrow> (if islabchar (cur (line s)) \<and> IsPseudoOpBOF (syx (opts s)) then rept else ret False);
     if done then ret ()
     else do {
       whenM (islabchar (cur (line s))) (modify (\<lambda>s. let q = dropWhile islabchar (lp s) in
         s\<lparr>lp := (if cur q = CHR '':'' then drop 1 q else q)\<rparr>));
       rept;
       ret () } }"

definition collecting :: "asm \<Rightarrow> bool" where
  "collecting s \<longleftrightarrow> RepeatStack (prog s) \<noteq> [] \<and> \<not> IsInWork (last (RepeatStack (prog s)))"

definition PrepareLine :: "bool M \<Rightarrow> bool M" where
  "PrepareLine rept = do {
     count_line;
     s \<leftarrow> State_Monad.get;
     if collecting s then do { collect_line rept; ret True }
     else do {
       q \<leftarrow> ReplaceDefine True (line s);
       set_lp q;
       d \<leftarrow> gets (\<lambda>s. DeviceID (dv s));
       whenM (d \<noteq> None) (CheckPage CHECK_NO_EMIT);
       modify (\<lambda>s. if ConvertEncoding (prog s) = 0 then s\<lparr>lp := map to_dos (lp s)\<rparr> else s);
       ret False } }"

primrec non_blank :: "nat \<Rightarrow> bool M \<Rightarrow> string \<Rightarrow> (bool \<times> string) M" where
  "non_blank 0 rept p = do { out_of_fuel; ret (False, p) }"
| "non_blank (Suc n) rept p =
     (let q = skip_blanks p in
      if cur q \<noteq> NUL then ret (True, q)
      else do {
        s \<leftarrow> State_Monad.get;
        if listmacro (prog s) \<noteq> 0 \<and> lijstp (srcs s) = [] then ret (False, q)
        else do {
          got \<leftarrow> ReadLine True;
          if \<not> got then ret (False, q)
          else do {
            PrepareLine rept;
            l \<leftarrow> gets lp;
            non_blank n rept l } } })"

definition PrepareNonBlankMultiLine :: "bool M \<Rightarrow> bool parser" where
  "PrepareNonBlankMultiLine rept p = do {
     r \<leftarrow> gets srcs;
     non_blank (lines_fuel r) rept p }"

definition unless_eol :: "unit M \<Rightarrow> unit M" where
  "unless_eol m = do { eol \<leftarrow> lexM SkipBlanks; whenM (\<not> eol) m }"

definition ParseLine :: "host \<Rightarrow> (bool \<Rightarrow> bool M) \<Rightarrow> bool M \<Rightarrow> macro_emit \<Rightarrow> structure_emit \<Rightarrow> bool \<Rightarrow> unit M" where
  "ParseLine h directive rept macro emit parselabels = do {
     done \<leftarrow> PrepareLine rept;
     l \<leftarrow> gets lp;
     if done \<or> cur l = NUL then ret ()
     else do {
       whenM parselabels (ParseLabel h directive emit);
       unless_eol (ParseMacro macro emit);
       unless_eol (ParseInstruction directive);
       unless_eol (do { l \<leftarrow> gets lp; Error ''Unexpected'' (Some l) E_PASS3 }) } }"

text \<open>A line that is parsed while another one is: the text of the outer line is kept.\<close>

definition parse_line_safe :: "(bool \<Rightarrow> unit M) \<Rightarrow> bool \<Rightarrow> unit M" where
  "parse_line_safe parse parselabels = do {
     rp \<leftarrow> gets lp;
     parse parselabels;
     set_lp rp }"

end
