(* ===== verification/Sj_Frame.thy ===== *)
theory Sj_Frame
  imports Sj_Data Sj_Line
begin

text \<open>
  What no operation below the level of a source line touches: the structures, macros and open blocks of the program, the lines still to be
  read, the source position, the macro prefix of labels and the number of the pass. Errors are never taken back, and a run that has
  ended stays ended. \<open>leafy m\<close> says so of a computation; the lemmas \<open>leaf\<close> follow the calls from the diagnostics up to the emission of
  bytes and the data directives, one lemma per level of a file.
\<close>

section \<open>The relation\<close>

definition leaf_rel :: "asm \<Rightarrow> asm \<Rightarrow> bool" where
  "leaf_rel s s' \<longleftrightarrow> prog s' = prog s \<and> (srcs s')\<lparr>comlin := 0\<rparr> = (srcs s)\<lparr>comlin := 0\<rparr> \<and>
     sourcePosStack s' = sourcePosStack s \<and> macrolabp (labs s') = macrolabp (labs s) \<and> pass s' = pass s \<and>
     ErrorCount (dg s) \<le> ErrorCount (dg s') \<and> (halted s \<noteq> Running \<longrightarrow> halted s' \<noteq> Running)"

lemma leaf_refl: "leaf_rel s s"
  by (simp add: leaf_rel_def)

lemma leaf_trans: "leaf_rel s t \<Longrightarrow> leaf_rel t u \<Longrightarrow> leaf_rel s u"
  by (auto simp: leaf_rel_def)

abbreviation leafy :: "'a M \<Rightarrow> bool" where
  "leafy \<equiv> state_io_rel leaf_rel"

text \<open>A relation that allows more than this is kept by every such operation; the combinators that call other operations keep it when these do.\<close>

locale quiet_preorder = io_preorder R for R :: "asm \<Rightarrow> asm \<Rightarrow> bool" +
  assumes quiet: "leaf_rel s s' \<Longrightarrow> R s s'"
begin

lemma lift: "leafy m \<Longrightarrow> state_io_rel R m"
  by (auto simp: state_io_rel_def intro: quiet)

lemma io_stop: "state_io_rel R out_of_fuel"
  unfolding out_of_fuel_def by (intro io_modify quiet) (simp add: leaf_rel_def)

lemma io_quiet_lp: "state_io_rel R (set_lp p)"
  by (intro io_set_lp quiet) (simp add: leaf_rel_def)

lemma io_on_lp: "(\<And>p. state_io_rel R (f p)) \<Longrightarrow> state_io_rel R (on_lp f)"
  unfolding on_lp_def by (intro io_rules io_quiet_lp)

lemma io_lexM: "state_io_rel R (lexM f)"
  unfolding lexM_def by (intro io_rules io_quiet_lp)

lemma io_repeat: "state_io_rel R body \<Longrightarrow> state_io_rel R (do_while n body)"
  by (rule io_do_while [OF io_stop])

lemma io_gets_bind: "(\<And>s. state_io_rel R (f (g s))) \<Longrightarrow> state_io_rel R (gets g \<bind> f)"
  by (auto simp: state_io_rel_def)

lemma io_gets_at: "(\<And>s. R s (snd (run_state (f (g s)) s))) \<Longrightarrow> state_io_rel R (gets g \<bind> f)"
  by (simp add: state_io_rel_def)

lemma io_get_at: "(\<And>s. R s (snd (run_state (f s) s))) \<Longrightarrow> state_io_rel R (State_Monad.get \<bind> f)"
  by (simp add: state_io_rel_def State_Monad.get_def)

lemma io_case_list:
  "state_io_rel R m \<Longrightarrow> (\<And>x xs. state_io_rel R (g x xs)) \<Longrightarrow> state_io_rel R (case l of [] \<Rightarrow> m | x # xs \<Rightarrow> g x xs)"
  by (cases l) simp_all

lemma io_case_bool: "state_io_rel R m \<Longrightarrow> state_io_rel R k \<Longrightarrow> state_io_rel R (case b of True \<Rightarrow> m | False \<Rightarrow> k)"
  by (cases b) simp_all

lemma io_case_app:
  "state_io_rel R (m' q) \<Longrightarrow> state_io_rel R (k' q) \<Longrightarrow> state_io_rel R ((case b of True \<Rightarrow> m' | False \<Rightarrow> k') q)"
  "state_io_rel R (m' q) \<Longrightarrow> state_io_rel R (k' q) \<Longrightarrow> state_io_rel R ((if b then m' else k') q)"
  by (simp_all split: bool.split)

lemmas quiet_rules = io_rules io_stop io_quiet_lp io_on_lp io_lexM io_repeat io_case_list io_case_bool io_case_app

end

interpretation lf: quiet_preorder leaf_rel
  by unfold_locales (rule leaf_refl, erule leaf_trans, assumption+)

lemma leaf_modify:
  assumes "\<And>s. prog (f s) = prog s" "\<And>s. (srcs (f s))\<lparr>comlin := 0\<rparr> = (srcs s)\<lparr>comlin := 0\<rparr>" "\<And>s. sourcePosStack (f s) = sourcePosStack s"
    "\<And>s. macrolabp (labs (f s)) = macrolabp (labs s)" "\<And>s. pass (f s) = pass s" "\<And>s. ErrorCount (dg s) \<le> ErrorCount (dg (f s))"
    "\<And>s. halted (f s) = halted s"
  shows "leafy (modify f)"
  by (rule lf.io_modify) (simp add: leaf_rel_def assms)

named_theorems leaf \<open>operations below the level of a line\<close>

lemmas leaf_rules = lf.quiet_rules leaf_modify

section \<open>Diagnostics\<close>

lemma leaf_error_upd: "leaf_rel s (error_upd m b t s)"
  by (simp add: error_upd_def leaf_rel_def)

lemma leaf_reports [leaf]:
  "leafy (Error m b t)" "leafy (ErrorInt m v t)" "leafy (Warning m b wt)" "leafy (WarningById w b wt)" "leafy (WarningByIdInt w v wt)"
proof -
  have i: "leaf_rel s (warning_impl_upd w m b wt s)" for w m b wt s
    using leaf_error_upd [of s] by (simp add: warning_impl_upd_def leaf_rel_def)
  show "leafy (Error m b t)" for m b t unfolding Error_def by (intro lf.io_modify leaf_error_upd)
  then show "leafy (ErrorInt m v t)" unfolding ErrorInt_def .
  show "leafy (Warning m b wt)" unfolding Warning_def by (rule lf.io_modify) (simp add: warning_upd_def i lf.R_refl)
  show "leafy (WarningById w b wt)" for w b wt
    unfolding WarningById_def by (rule lf.io_modify) (simp add: warning_by_id_upd_def i lf.R_refl)
  then show "leafy (WarningByIdInt w v wt)" unfolding WarningByIdInt_def .
qed

lemma leaf_noFakes [leaf]: "leafy (noFakes b)"
  unfolding noFakes_def by (intro leaf_rules leaf)

section \<open>Define tables\<close>

lemma leaf_Add [leaf]:
  "leafy (Add p q ts)"
  "leafy (Get p)"
  unfolding Add_def Get_def
  by (intro leaf_rules leaf; simp)+

lemma leaf_add_chain [leaf]:
  "leafy (add_chain x0)"
  by (induction x0) (auto intro!: leaf_rules leaf)

lemma leaf_add_chains [leaf]:
  "leafy (add_chains f1 x2)"
  by (induction x2 arbitrary: f1) (auto intro!: leaf_rules leaf)

lemma leaf_CDefineTable_assign [leaf]:
  "leafy (CDefineTable_assign x3)"
  unfolding CDefineTable_assign_def
  by (intro leaf_rules leaf; simp)+

section \<open>Lexing\<close>

lemma leaf_skip_line [leaf]:
  "leafy skip_line"
  "leafy (check8 i)"
  "leafy (check8o i)"
  "leafy (check16 i)"
  "leafy (check16u i)"
  "leafy (check24 i)"
  unfolding skip_line_def check8_def check8o_def check16_def check16u_def check24_def
  by (intro leaf_rules leaf; simp)+

lemma leaf_checkLowMemory [leaf]:
  "leafy (checkLowMemory i j)"
  unfolding checkLowMemory_def
  by (intro leaf_rules leaf; simp)+

section \<open>Numbers\<close>

lemma leaf_GetNumericValue_ProcessLastError [leaf]:
  "leafy (GetNumericValue_ProcessLastError ne p)"
  unfolding GetNumericValue_ProcessLastError_def
  by (intro leaf_rules leaf; simp)+

lemma leaf_decimal_part [leaf]:
  "leafy (decimal_part n p q i)"
  unfolding decimal_part_def
  by (intro leaf_rules leaf; simp)+

lemma leaf_GetConstant [leaf]:
  "leafy (GetConstant p)"
  unfolding GetConstant_def
  by (intro leaf_rules leaf; simp)+

section \<open>Strings and arguments\<close>

lemma leaf_delimited_elements [leaf]:
  "leafy (delimited_elements n p q)"
  by (induction n arbitrary: p q) (auto intro!: leaf_rules leaf)

lemma leaf_dh_bytes [leaf]:
  "leafy (dh_bytes n d bs p)"
  by (induction n arbitrary: d bs p) (auto intro!: leaf_rules leaf)

lemma leaf_GetCharConstInDoubleQuotes [leaf]:
  "leafy (GetCharConstInDoubleQuotes p)"
  "leafy (GetMacroArgumentValue p)"
  "leafy (dg_note c)"
  "leafy (id_overflow p)"
  unfolding GetCharConstInDoubleQuotes_def GetMacroArgumentValue_def dg_note_def id_overflow_def
  by (intro leaf_rules leaf; simp)+

lemma leaf_dg_bits [leaf]:
  "leafy (dg_bits i p)"
  by (induction p arbitrary: i) (auto intro!: leaf_rules leaf)

lemma leaf_dh_args [leaf]:
  "leafy (dh_args n p bs q)"
  by (induction n arbitrary: p bs q) (auto intro!: leaf_rules leaf)

lemma leaf_GetQuotedChar [leaf]:
  "leafy (GetQuotedChar b p)"
  "leafy (GetDelimitedStringEx p)"
  "leafy (GrowSubId p q)"
  "leafy (GrowSubIdByExtraChar p q)"
  unfolding GetQuotedChar_def GetDelimitedStringEx_def GrowSubId_def GrowSubIdByExtraChar_def
  by (intro leaf_rules leaf; simp)+

lemma leaf_quoted_chars [leaf]:
  "leafy (quoted_chars n b m i bs p)"
  by (induction n arbitrary: b m i bs p) (auto intro!: leaf_rules leaf)

lemma leaf_dg_bytes [leaf]:
  "leafy (dg_bytes n d bs p)"
  by (induction n arbitrary: d bs p) (auto intro!: leaf_rules leaf)

lemma leaf_GetDelimitedString [leaf]:
  "leafy (GetDelimitedString p)"
  "leafy (GetBytesHexaText p)"
  unfolding GetDelimitedString_def GetBytesHexaText_def
  by (intro leaf_rules leaf; simp)+

lemma leaf_string_element [leaf]:
  "leafy (string_element n i bs p)"
  "leafy (GetBits p)"
  unfolding string_element_def GetBits_def
  by (intro leaf_rules leaf; simp)+

lemma leaf_string_elements [leaf]:
  "leafy (string_elements n m i bs p)"
  by (induction n arbitrary: m i bs p) (auto intro!: leaf_rules leaf)

lemma leaf_GetCharConstAsString [leaf]:
  "leafy (GetCharConstAsString n i bs p)"
  unfolding GetCharConstAsString_def
  by (intro leaf_rules leaf; simp)+

lemma leaf_GetCharConst [leaf]:
  "leafy (GetCharConst p)"
  unfolding GetCharConst_def
  by (intro leaf_rules leaf; simp)+

section \<open>Devices\<close>

lemma leaf_AddSlot [leaf]:
  "leafy (AddSlot i j dev)"
  "leafy (AddPage i j dev)"
  "leafy (GetSlot i dev)"
  "leafy (GetPage i dev)"
  "leafy (warn_no_ramtop i)"
  unfolding AddSlot_def AddPage_def GetSlot_def GetPage_def warn_no_ramtop_def
  by (intro leaf_rules leaf; simp)+

lemma leaf_add_slots [leaf]:
  "leafy (add_slots n i j dev)"
  by (induction n arbitrary: i j dev) (auto intro!: leaf_rules leaf)

lemma leaf_add_pages [leaf]:
  "leafy (add_pages n i j dev)"
  by (induction n arbitrary: i j dev) (auto intro!: leaf_rules leaf)

lemma leaf_map_slots [leaf]:
  "leafy (map_slots n m bs dev)"
  by (induction n arbitrary: m bs dev) (auto intro!: leaf_rules leaf)

lemma leaf_GetCurrentSlot [leaf]:
  "leafy (GetCurrentSlot dev)"
  unfolding GetCurrentSlot_def
  by (intro leaf_rules leaf; simp)+

lemma leaf_initRegularSlotDevice [leaf]:
  "leafy (initRegularSlotDevice i n m bs dev)"
  unfolding initRegularSlotDevice_def
  by (intro leaf_rules leaf; simp)+

lemma leaf_initZxLikeDevice [leaf]:
  "leafy (initZxLikeDevice i n bs j dev)"
  "leafy (DeviceZxSpectrumNext i)"
  "leafy (DeviceElement i)"
  "leafy (DeviceNoSlot64k i)"
  "leafy (DeviceAmstradCPC464 i)"
  "leafy (DeviceAmstradCPC6128 i)"
  unfolding initZxLikeDevice_def DeviceZxSpectrumNext_def DeviceElement_def DeviceNoSlot64k_def DeviceAmstradCPC464_def DeviceAmstradCPC6128_def
  by (intro leaf_rules leaf; simp)+

lemma leaf_DeviceAmstradCPCPLUS [leaf]:
  "leafy (DeviceAmstradCPCPLUS i)"
  "leafy (SetUserDefinedDevice p i)"
  unfolding DeviceAmstradCPCPLUS_def SetUserDefinedDevice_def
  by (intro leaf_rules leaf; simp)+

lemma leaf_DeviceZXSpectrum48 [leaf]:
  "leafy (DeviceZXSpectrum48 i)"
  "leafy (DeviceZXSpectrum128 i)"
  "leafy (DeviceZXSpectrum256 i)"
  "leafy (DeviceZXSpectrum512 i)"
  "leafy (DeviceZXSpectrum1024 i)"
  "leafy (DeviceZXSpectrum2048 i)"
  unfolding DeviceZXSpectrum48_def DeviceZXSpectrum128_def DeviceZXSpectrum256_def DeviceZXSpectrum512_def DeviceZXSpectrum1024_def DeviceZXSpectrum2048_def
  by (intro leaf_rules leaf; simp)+

lemma leaf_DeviceZXSpectrum4096 [leaf]:
  "leafy (DeviceZXSpectrum4096 i)"
  "leafy (DeviceZXSpectrum8192 i)"
  unfolding DeviceZXSpectrum4096_def DeviceZXSpectrum8192_def
  by (intro leaf_rules leaf; simp)+

lemma leaf_make_device [leaf]: "leafy (make_device p i)"
proof -
  have b: "list_all (\<lambda>(n, mk). leafy (mk i)) builtin_devices"
    unfolding builtin_devices_def by (simp add: leaf)
  have "leafy (mk i)" if "find P builtin_devices = Some (n, mk)" for P n mk
  proof -
    have "(n, mk) \<in> set builtin_devices" using that by (auto simp: find_Some_iff in_set_conv_nth)
    then show ?thesis using b by (auto simp: list_all_iff)
  qed
  then show ?thesis
    unfolding make_device_def by (auto split: option.split intro!: leaf_rules leaf)
qed

section \<open>Labels\<close>

lemma macrolabp_close_sizes [simp]: "macrolabp (close_sizes i p l) = macrolabp l"
  by (simp add: close_sizes_def)

lemma leaf_ValidateLabel [leaf]:
  "leafy (ValidateLabel p b b1)"
  "leafy (getAddressPageNumber i b)"
  "leafy (put_label p x0)"
  "leafy (TrackForSize p)"
  "leafy (SizeBoundary x1)"
  "leafy (InsertRefresh i)"
  unfolding ValidateLabel_def getAddressPageNumber_def put_label_def TrackForSize_def SizeBoundary_def InsertRefresh_def
  by (intro leaf_rules leaf; simp)+

lemma leaf_GetTemporaryLabelValue [leaf]:
  "leafy (GetTemporaryLabelValue b p)"
  unfolding GetTemporaryLabelValue_def
  by (intro leaf_rules leaf; simp)+

lemma leaf_search_loop [leaf]:
  "leafy (search_loop b ts o1)"
  by (induction ts arbitrary: b o1) (auto intro!: leaf_rules leaf)

lemma leaf_label_page_for [leaf]:
  "leafy (label_page_for i j i1)"
  "leafy (Update p i)"
  unfolding label_page_for_def Update_def
  by (intro leaf_rules leaf; simp)+

lemma leaf_Insert [leaf]:
  "leafy (Insert p i j i1)"
  "leafy (SearchLabel b p)"
  unfolding Insert_def SearchLabel_def
  by (intro leaf_rules leaf; simp)+

lemma leaf_GetLabel [leaf]:
  "leafy (GetLabel i p)"
  "leafy (LabelExist p)"
  unfolding GetLabel_def LabelExist_def
  by (intro leaf_rules leaf; simp)+

lemma leaf_label_query [leaf]:
  "leafy (label_query f2 i p)"
  unfolding label_query_def
  by (intro leaf_rules leaf; simp)+

lemma leaf_GetLabelPage [leaf]:
  "leafy (GetLabelPage p)"
  "leafy (GetLabelValue p)"
  "leafy (GetLabelPhPage p)"
  "leafy (GetLabelPhValue p)"
  "leafy (GetLabelSize p)"
  unfolding GetLabelPage_def GetLabelValue_def GetLabelPhPage_def GetLabelPhValue_def GetLabelSize_def
  by (intro leaf_rules leaf; simp)+

section \<open>Relocation\<close>

lemma leaf_addOffsetToRelocate [leaf]:
  "leafy (addOffsetToRelocate i)"
  "leafy (checkAndWarn b)"
  "leafy refreshMaxTableCount"
  "leafy Relocation_InitPass"
  unfolding addOffsetToRelocate_def checkAndWarn_def refreshMaxTableCount_def Relocation_InitPass_def
  by (intro leaf_rules leaf; simp)+

lemma leaf_resolveRelocationAffected [leaf]:
  "leafy (resolveRelocationAffected i x0)"
  "leafy dirRELOCATE_START"
  "leafy dirRELOCATE_END"
  unfolding resolveRelocationAffected_def dirRELOCATE_START_def dirRELOCATE_END_def
  by (intro leaf_rules leaf; simp)+

section \<open>Expressions\<close>

lemma leaf_try_pair [leaf]:
  assumes "\<And>x. leafy (f0 x)"
  shows "leafy (try_pair f0 p)"
  unfolding try_pair_def by (intro leaf_rules leaf assms; simp)

lemma leaf_or_try [leaf]:
  assumes "leafy (f1)" "leafy (f1a)"
  shows "leafy (or_try f1 f1a)"
  unfolding or_try_def by (intro leaf_rules leaf assms; simp)

lemma leaf_bin_loop [leaf]:
  assumes "\<And>x y z. leafy (f3 x y z)" "\<And>x. leafy (f0 x)"
  shows "leafy (bin_loop n x2 f3 f0 i p)"
  by (induction n arbitrary: x2 i p) (auto intro!: leaf_rules leaf assms)

lemma leaf_MemGetByte [leaf]:
  "leafy (MemGetByte i)"
  "leafy (set_areLabelsOffset b)"
  "leafy (ParsePrimRest p)"
  "leafy (try_exist p)"
  "leafy (try_sizeof p)"
  "leafy (unary_act i j)"
  unfolding MemGetByte_def set_areLabelsOffset_def ParsePrimRest_def try_exist_def try_sizeof_def unary_act_def
  by (intro leaf_rules leaf; simp)+

lemma leaf_mul_act [leaf]:
  "leafy (mul_act i j i1)"
  "leafy (add_act i j i1)"
  "leafy (shift_act i j i1)"
  "leafy (minmax_act i j i1)"
  "leafy (cmp_act i j i1)"
  "leafy (equ_act i j i1)"
  unfolding mul_act_def add_act_def shift_act_def minmax_act_def cmp_act_def equ_act_def
  by (intro leaf_rules leaf; simp)+

lemma leaf_set_synerr [leaf]:
  "leafy (set_synerr b)"
  "leafy (OpenBracketM p)"
  "leafy (CloseBracketM p)"
  unfolding set_synerr_def OpenBracketM_def CloseBracketM_def
  by (intro leaf_rules leaf; simp)+

lemma leaf_ParsePrimMem [leaf]:
  assumes "\<And>x. leafy (f0 x)"
  shows "leafy (ParsePrimMem f0 p)"
  unfolding ParsePrimMem_def by (intro leaf_rules leaf assms; simp)

lemma leaf_binary_level [leaf]:
  assumes "\<And>x y z. leafy (f3 x y z)" "\<And>x. leafy (f0 x)"
  shows "leafy (binary_level x2 f3 f0 p)"
  unfolding binary_level_def by (intro leaf_rules leaf assms; simp)

lemma leaf_MemGetWord [leaf]:
  "leafy (MemGetWord i)"
  unfolding MemGetWord_def
  by (intro leaf_rules leaf; simp)+

lemma leaf_ParseExpPrim [leaf]:
  assumes "\<And>x. leafy (f0 x)"
  shows "leafy (ParseExpPrim f0 p)"
  unfolding ParseExpPrim_def by (intro leaf_rules leaf assms; simp)

lemma leaf_try_norel [leaf]:
  assumes "\<And>x. leafy (f0 x)"
  shows "leafy (try_norel f0 p)"
  unfolding try_norel_def by (intro leaf_rules leaf assms; simp)

lemma leaf_ParseExpUnair_n [leaf]:
  assumes "\<And>x. leafy (f0 x)"
  shows "leafy (ParseExpUnair_n n f0 p)"
  by (induction n arbitrary: p) (auto intro!: leaf_rules leaf assms)

lemma leaf_ParseExpUnair [leaf]:
  assumes "\<And>x. leafy (f0 x)"
  shows "leafy (ParseExpUnair f0 p)"
  unfolding ParseExpUnair_def by (intro leaf_rules leaf assms; simp)

lemma leaf_ParseExpMul [leaf]:
  assumes "\<And>x. leafy (f0 x)"
  shows "leafy (ParseExpMul f0 p)"
  unfolding ParseExpMul_def by (intro leaf_rules leaf assms; simp)

lemma leaf_ParseExpAdd [leaf]:
  assumes "\<And>x. leafy (f0 x)"
  shows "leafy (ParseExpAdd f0 p)"
  unfolding ParseExpAdd_def by (intro leaf_rules leaf assms; simp)

lemma leaf_ParseExpShift [leaf]:
  assumes "\<And>x. leafy (f0 x)"
  shows "leafy (ParseExpShift f0 p)"
  unfolding ParseExpShift_def by (intro leaf_rules leaf assms; simp)

lemma leaf_ParseExpMinMax [leaf]:
  assumes "\<And>x. leafy (f0 x)"
  shows "leafy (ParseExpMinMax f0 p)"
  unfolding ParseExpMinMax_def by (intro leaf_rules leaf assms; simp)

lemma leaf_ParseExpCmp [leaf]:
  assumes "\<And>x. leafy (f0 x)"
  shows "leafy (ParseExpCmp f0 p)"
  unfolding ParseExpCmp_def by (intro leaf_rules leaf assms; simp)

lemma leaf_ParseExpEqu [leaf]:
  assumes "\<And>x. leafy (f0 x)"
  shows "leafy (ParseExpEqu f0 p)"
  unfolding ParseExpEqu_def by (intro leaf_rules leaf assms; simp)

lemma leaf_ParseExpBitAnd [leaf]:
  assumes "\<And>x. leafy (f0 x)"
  shows "leafy (ParseExpBitAnd f0 p)"
  unfolding ParseExpBitAnd_def by (intro leaf_rules leaf assms; simp)

lemma leaf_ParseExpBitXor [leaf]:
  assumes "\<And>x. leafy (f0 x)"
  shows "leafy (ParseExpBitXor f0 p)"
  unfolding ParseExpBitXor_def by (intro leaf_rules leaf assms; simp)

lemma leaf_ParseExpBitOr [leaf]:
  assumes "\<And>x. leafy (f0 x)"
  shows "leafy (ParseExpBitOr f0 p)"
  unfolding ParseExpBitOr_def by (intro leaf_rules leaf assms; simp)

lemma leaf_ParseExpLogAnd [leaf]:
  assumes "\<And>x. leafy (f0 x)"
  shows "leafy (ParseExpLogAnd f0 p)"
  unfolding ParseExpLogAnd_def by (intro leaf_rules leaf assms; simp)

lemma leaf_ParseExpLogOr [leaf]:
  assumes "\<And>x. leafy (f0 x)"
  shows "leafy (ParseExpLogOr f0 p)"
  unfolding ParseExpLogOr_def by (intro leaf_rules leaf assms; simp)

lemma leaf_ParseExpressionEntry_n [leaf]:
  "leafy (ParseExpressionEntry_n n p)"
  by (induction n arbitrary: p) (auto intro!: leaf_rules leaf)

lemma leaf_ParseExpressionEntry [leaf]:
  "leafy (ParseExpressionEntry p)"
  unfolding ParseExpressionEntry_def
  by (intro leaf_rules leaf; simp)+

lemma leaf_ParseExpression [leaf]:
  "leafy (ParseExpression p)"
  unfolding ParseExpression_def
  by (intro leaf_rules leaf; simp)+

lemma leaf_ParseExpressionNoSyntaxError [leaf]:
  "leafy (ParseExpressionNoSyntaxError p)"
  "leafy (ParseExpressionMemAccess p)"
  "leafy ParseAlignArguments"
  unfolding ParseExpressionNoSyntaxError_def ParseExpressionMemAccess_def ParseAlignArguments_def
  by (intro leaf_rules leaf; simp)+

lemma leaf_ParseExpressionInSubstitution [leaf]:
  "leafy (ParseExpressionInSubstitution p)"
  "leafy (getbytes_expr i bs p)"
  unfolding ParseExpressionInSubstitution_def getbytes_expr_def
  by (intro leaf_rules leaf; simp)+

lemma leaf_getbytes_arg [leaf]:
  "leafy (getbytes_arg i b bs p)"
  unfolding getbytes_arg_def
  by (intro leaf_rules leaf; simp)+

lemma leaf_getbytes_loop [leaf]:
  "leafy (getbytes_loop n i b bs p)"
  by (induction n arbitrary: i b bs p) (auto intro!: leaf_rules leaf)

lemma leaf_GetBytes [leaf]:
  "leafy (GetBytes i b p)"
  unfolding GetBytes_def
  by (intro leaf_rules leaf; simp)+

section \<open>Intel HEX output\<close>

lemma leaf_ExitASM [leaf]: "leafy ExitASM"
  unfolding ExitASM_def by (rule lf.io_modify) (simp add: leaf_rel_def)

lemma leaf_fputs_hex [leaf]:
  "leafy (fputs_hex p)"
  unfolding fputs_hex_def
  by (intro leaf_rules leaf; simp)+

lemma leaf_PrintHex [leaf]:
  "leafy (PrintHex i n)"
  unfolding PrintHex_def
  by (intro leaf_rules leaf; simp)+

lemma leaf_hex_data [leaf]:
  "leafy (hex_data i bs)"
  by (induction bs arbitrary: i) (auto intro!: leaf_rules leaf)

lemma leaf_PrintHex32 [leaf]:
  "leafy (PrintHex32 i)"
  unfolding PrintHex32_def
  by (intro leaf_rules leaf; simp)+

lemma leaf_WriteLabelEquValue [leaf]:
  "leafy (WriteLabelEquValue p i)"
  "leafy (WriteHexRecord i j bs)"
  unfolding WriteLabelEquValue_def WriteHexRecord_def
  by (intro leaf_rules leaf; simp)+

lemma leaf_FlushHexBuffer [leaf]:
  "leafy FlushHexBuffer"
  unfolding FlushHexBuffer_def
  by (intro leaf_rules leaf; simp)+

lemma leaf_EmitToHex [leaf]:
  "leafy (EmitToHex i)"
  "leafy (CloseHex i)"
  unfolding EmitToHex_def CloseHex_def
  by (intro leaf_rules leaf; simp)+

lemma leaf_hex_stream [leaf]:
  "leafy (hex_stream x0)"
  by (induction x0) (auto intro!: leaf_rules leaf)

section \<open>Machine code output\<close>

lemma leaf_upd_dev [leaf]:
  "leafy (upd_dev f0)"
  "leafy (set_mp v)"
  "leafy (set_page n)"
  "leafy (wrap_disp x1)"
  "leafy (WriteToSldFile i j c o1)"
  "leafy (find_device p i)"
  unfolding upd_dev_def set_mp_def set_page_def wrap_disp_def WriteToSldFile_def find_device_def
  by (intro leaf_rules leaf; simp)+

lemma leaf_close_tap [leaf]:
  "leafy close_tap"
  "leafy DidEmitByte"
  "leafy CheckRamLimitExceeded"
  "leafy (resolveRelocationAndSmartSmc i x2)"
  unfolding close_tap_def DidEmitByte_def CheckRamLimitExceeded_def resolveRelocationAndSmartSmc_def
  by (intro leaf_rules leaf; simp)+

lemma leaf_refresh_check [leaf]:
  "leafy (refresh_check x1 n)"
  "leafy (write_tap bs)"
  "leafy (poke_mp i j)"
  "leafy sld_trace"
  unfolding refresh_check_def write_tap_def poke_mp_def sld_trace_def
  by (intro leaf_rules leaf; simp)+

lemma leaf_map_page_after [leaf]:
  "leafy (map_page_after x1 i n dev)"
  "leafy WriteDest"
  unfolding map_page_after_def WriteDest_def
  by (intro leaf_rules leaf; simp)+

lemma leaf_map_next_page [leaf]:
  "leafy (map_next_page x1 i n)"
  "leafy CloseTapFile"
  "leafy (emit_output i)"
  unfolding map_next_page_def CloseTapFile_def emit_output_def
  by (intro leaf_rules leaf; simp)+

lemma leaf_leave_slot [leaf]: "leafy (leave_slot x1 i n b b1 x3)"
  unfolding leave_slot_def by (cases x3) (auto intro!: leaf_rules leaf)

lemma leaf_OpenTapFile [leaf]:
  "leafy (OpenTapFile b p i)"
  unfolding OpenTapFile_def
  by (intro leaf_rules leaf; simp)+

lemma leaf_enter_slot [leaf]:
  "leafy (enter_slot x1 i n j dev)"
  unfolding enter_slot_def
  by (intro leaf_rules leaf; simp)+

lemma leaf_check_slots [leaf]:
  "leafy (check_slots x1 i j dev)"
  unfolding check_slots_def
  by (intro leaf_rules leaf; simp)+

lemma leaf_CheckPage [leaf]:
  "leafy (CheckPage x1)"
  unfolding CheckPage_def
  by (intro leaf_rules leaf; simp)+

lemma leaf_skip_pages [leaf]:
  "leafy (skip_pages n i)"
  by (induction n arbitrary: i) (auto intro!: leaf_rules leaf)

lemma leaf_SetDevice [leaf]:
  "leafy (SetDevice o1 i)"
  "leafy (emit_device i b)"
  unfolding SetDevice_def emit_device_def
  by (intro leaf_rules leaf; simp)+

lemma leaf_EmitByteNoListing [leaf]: "leafy (EmitByteNoListing i b)"
  unfolding EmitByteNoListing_def by (intro leaf_rules leaf; simp add: incr_address_def)

lemma leaf_emit_block [leaf]:
  "leafy (emit_block n i b j)"
  by (induction n arbitrary: i b j) (auto intro!: leaf_rules leaf)

lemma leaf_emit_file [leaf]:
  "leafy (emit_file bs)"
  by (induction bs) (auto intro!: leaf_rules leaf)

lemma leaf_EmitByte [leaf]:
  "leafy (EmitByte i b)"
  unfolding EmitByte_def
  by (intro leaf_rules leaf; simp)+

lemma leaf_emit_all [leaf]: "leafy (emit_all bs b)"
  by (induction bs b rule: emit_all.induct) (auto intro!: leaf_rules leaf)

lemma leaf_EmitWord [leaf]:
  "leafy (EmitWord i b)"
  "leafy (EmitBlock i j b i1)"
  "leafy (BinIncFile p x4 i j)"
  unfolding EmitWord_def EmitBlock_def BinIncFile_def
  by (intro leaf_rules leaf; simp)+

lemma leaf_emit_words [leaf]:
  "leafy (emit_words bs b)"
  by (induction bs arbitrary: b) (auto intro!: leaf_rules leaf)

lemma leaf_emit_offsets [leaf]:
  "leafy (emit_offsets x5 i)"
  by (induction x5 arbitrary: i) (auto intro!: leaf_rules leaf)

lemma leaf_EmitBytes [leaf]:
  "leafy (EmitBytes bs b)"
  unfolding EmitBytes_def
  by (intro leaf_rules leaf; simp)+

lemma leaf_EmitWords [leaf]:
  "leafy (EmitWords bs b)"
  "leafy dirRELOCATE_TABLE"
  unfolding EmitWords_def dirRELOCATE_TABLE_def
  by (intro leaf_rules leaf; simp)+

section \<open>Substitution\<close>

lemma leaf_grow_blanks [leaf]:
  "leafy (grow_blanks p q)"
  by (induction q arbitrary: p) (auto intro!: leaf_rules leaf)

lemma leaf_mark_glue [leaf]:
  "leafy (mark_glue b p q)"
  "leafy (rd_finish p b b1)"
  unfolding mark_glue_def rd_finish_def
  by (intro leaf_rules leaf; simp)+

lemma leaf_subst_array [leaf]:
  "leafy (subst_array ts p q r)"
  unfolding subst_array_def
  by (intro leaf_rules leaf; simp)+

lemma leaf_find_subst [leaf]:
  "leafy (find_subst b b1 p q r)"
  unfolding find_subst_def
  by (intro leaf_rules leaf; simp)+

lemma leaf_sub_loop [leaf]:
  "leafy (sub_loop n b b1 m p q r t b2 b3)"
  by (induction n arbitrary: b b1 m p q r t b2 b3) (auto intro!: leaf_rules leaf)

lemma leaf_rd_loop [leaf]:
  "leafy (rd_loop n b b1 b2 p q b3 b4)"
  by (induction n arbitrary: b b1 b2 p q b3 b4) (auto intro!: leaf_rules leaf)

lemma leaf_ReplaceDefineInternal [leaf]:
  "leafy (ReplaceDefineInternal b b1 p)"
  unfolding ReplaceDefineInternal_def
  by (intro leaf_rules leaf; simp)+

lemma leaf_replace_rounds [leaf]:
  "leafy (replace_rounds n b b1 p)"
  by (induction n arbitrary: b b1 p) (auto intro!: leaf_rules leaf)

lemma leaf_ReplaceDefine [leaf]:
  "leafy (ReplaceDefine b p)"
  unfolding ReplaceDefine_def
  by (intro leaf_rules leaf; simp)+

section \<open>Data directives\<close>

lemma leaf_data_loop [leaf]:
  assumes "leafy (f0)" "\<And>x y. leafy (f1 x y)"
  shows "leafy (data_loop n f0 f1 p m bs)"
  by (induction n arbitrary: p m bs) (auto intro!: leaf_rules leaf assms)

lemma leaf_map_range [leaf]:
  "leafy (map_range n i j x3)"
  by (induction n arbitrary: i j x3) (auto intro!: leaf_rules leaf)

lemma leaf_getBytesWithCheck [leaf]:
  "leafy (getBytesWithCheck i b b1)"
  "leafy (word_item i bs)"
  "leafy (dword_item i bs)"
  "leafy (d24_item i bs)"
  "leafy dirDG"
  "leafy dirDH"
  unfolding getBytesWithCheck_def word_item_def dword_item_def d24_item_def dirDG_def dirDH_def
  by (intro leaf_rules leaf; simp)+

lemma leaf_block_init [leaf]:
  "leafy (block_init i)"
  "leafy dirALIGN"
  "leafy (dirPageImpl p i)"
  "leafy dirSLOT"
  "leafy DISP_NONE_boundary"
  "leafy (crop_address i)"
  unfolding block_init_def dirALIGN_def dirPageImpl_def dirSLOT_def DISP_NONE_boundary_def crop_address_def
  by (intro leaf_rules leaf; simp)+

lemma leaf_warn_displaced [leaf]:
  "leafy warn_displaced"
  "leafy disp_page"
  "leafy dirENT"
  "leafy (mmu_error p x2)"
  "leafy slot_option"
  "leafy (sld_module b)"
  unfolding warn_displaced_def disp_page_def dirENT_def mmu_error_def slot_option_def sld_module_def
  by (intro leaf_rules leaf; simp)+

lemma macrolabp_InitVorlab [simp]: "macrolabp (InitVorlab l) = macrolabp l"
  by (simp add: InitVorlab_def)

lemma macrolabp_enter_module [simp]: "macrolabp (enter_module n l) = macrolabp l"
  by (simp add: enter_module_def Let_def)

lemma leaf_data_args [leaf]:
  assumes "leafy (f0)" "\<And>x y. leafy (f1 x y)"
  shows "leafy (data_args f0 f1 p n q)"
  unfolding data_args_def by (intro leaf_rules leaf assms; simp)

lemma leaf_dirBYTE [leaf]:
  "leafy dirBYTE"
  "leafy dirDC"
  "leafy dirDZ"
  "leafy dirDP"
  "leafy (abyte p b b1)"
  "leafy dirBLOCK"
  unfolding dirBYTE_def dirDC_def dirDZ_def dirDP_def abyte_def dirBLOCK_def
  by (intro leaf_rules leaf; simp)+

lemma leaf_page_argument [leaf]:
  "leafy (page_argument p)"
  "leafy (dirOrgOnlyAddr i)"
  "leafy (start_disp i j)"
  "leafy mmu_slots"
  "leafy mmu_page"
  "leafy (mmu_org i j i1)"
  unfolding page_argument_def dirOrgOnlyAddr_def start_disp_def mmu_slots_def mmu_page_def mmu_org_def
  by (intro leaf_rules leaf; simp)+

lemma leaf_dirMODULE [leaf]:
  "leafy dirMODULE"
  "leafy dirENDMODULE"
  unfolding dirMODULE_def dirENDMODULE_def
  by (intro leaf_rules leaf; simp)+

lemma leaf_dirABYTE [leaf]:
  "leafy dirABYTE"
  "leafy dirABYTEC"
  "leafy dirABYTEZ"
  "leafy dirWORD"
  "leafy dirDWORD"
  "leafy dirD24"
  unfolding dirABYTE_def dirABYTEC_def dirABYTEZ_def dirWORD_def dirDWORD_def dirD24_def
  by (intro leaf_rules leaf; simp)+

lemma leaf_dirPAGE [leaf]:
  "leafy dirPAGE"
  "leafy org_page"
  "leafy dirDISP"
  "leafy (mmu_apply i j x3 i1 j1)"
  unfolding dirPAGE_def org_page_def dirDISP_def mmu_apply_def
  by (intro leaf_rules leaf; simp)+

lemma leaf_case_mmu:
  "leafy m \<Longrightarrow> (\<And>i j k. leafy (f i j k)) \<Longrightarrow> leafy (case x of Mmu_error \<Rightarrow> m | Mmu i j k \<Rightarrow> f i j k)"
  by (cases x) simp_all

lemma leaf_dirMMU [leaf]: "leafy dirMMU"
  unfolding dirMMU_def by (intro leaf_rules leaf_case_mmu leaf; simp)

lemma leaf_dirORG [leaf]:
  "leafy dirORG"
  unfolding dirORG_def
  by (intro leaf_rules leaf; simp)+

end
