(* ===== verification/Sj_Struct.thy ===== *)
theory Sj_Struct
  imports Sj_Line
begin

text \<open>
  Structures. tables.cpp: a structure has labels with offsets and members with their length, type and initial value; an instance of it defines labels
  and emits the members with the values given. parser.cpp: the lines of a definition. reader.cpp: the text of a TEXT member.
  A pointer to a structure is its name, which is unique in the table. What a new line of a DUP block being collected runs (\<open>rept\<close>) is an argument.
\<close>

section \<open>Structures and their members\<close>

definition struct_find :: "string \<Rightarrow> prog_state \<Rightarrow> CStructure option" where
  "struct_find naam g = find (\<lambda>st. st_naam st = naam) (strs g (bucket naam))"

definition struct_FindDuplicate :: "string \<Rightarrow> prog_state \<Rightarrow> bool" where
  "struct_FindDuplicate naam g \<longleftrightarrow> struct_find naam g \<noteq> None"

definition mod_struct :: "string \<Rightarrow> (CStructure \<Rightarrow> CStructure) \<Rightarrow> unit M" where
  "mod_struct naam f = mod_prog (\<lambda>g. g\<lparr>strs := (strs g)(bucket naam :=
     map (\<lambda>st. if st_naam st = naam then f st else st) (strs g (bucket naam)))\<rparr>)"

definition new_CStructure :: "string \<Rightarrow> CStructure" where
  "new_CStructure naam = \<lparr>st_naam = naam, maxAlignment = 0, noffset = 0, st_labels = [], st_members = []\<rparr>"

definition new_entry2 :: "aint \<Rightarrow> aint \<Rightarrow> aint \<Rightarrow> reloc_type \<Rightarrow> EStructureMembers \<Rightarrow> CStructureEntry2" where
  "new_entry2 offset len def deltatype ty =
     \<lparr>se_text = [], se_offset = offset, se_len = len, se_def = def, se_defDeltaType = deltatype, se_type = ty\<rparr>"

definition new_text_entry2 :: "aint \<Rightarrow> int list \<Rightarrow> CStructureEntry2" where
  "new_text_entry2 offset textData =
     \<lparr>se_text = textData, se_offset = offset, se_len = int (length textData), se_def = 0, se_defDeltaType = REL_OFF, se_type = SMEMBTEXT\<rparr>"

definition AddMember :: "(aint \<Rightarrow> CStructureEntry2) \<Rightarrow> CStructure \<Rightarrow> CStructure" where
  "AddMember entry st = (let n = entry (noffset st) in
     st\<lparr>st_members := st_members st @ [n], noffset := wrap32 (noffset st + se_len n)\<rparr>)"

definition CopyLabel :: "string \<Rightarrow> aint \<Rightarrow> CStructure \<Rightarrow> CStructure" where
  "CopyLabel naam offset st = st\<lparr>st_labels := st_labels st @ [\<lparr>se1_naam = naam, se1_offset = wrap32 (noffset st + offset)\<rparr>]\<rparr>"

definition AddLabel :: "string \<Rightarrow> CStructure \<Rightarrow> CStructure" where
  "AddLabel naam = CopyLabel naam 0"

definition CopyLabels :: "string option \<Rightarrow> CStructure \<Rightarrow> CStructure \<Rightarrow> CStructure" where
  "CopyLabels previous src st =
     (case previous of
        None \<Rightarrow> st
      | Some prev \<Rightarrow> foldl (\<lambda>d l. CopyLabel (prev @ ''.'' @ se1_naam l) (se1_offset l) d) st (st_labels src))"

definition CopyMember :: "CStructureEntry2 \<Rightarrow> aint \<Rightarrow> reloc_type \<Rightarrow> CStructure \<Rightarrow> CStructure" where
  "CopyMember item newDefault newDeltaType =
     AddMember (\<lambda>offset. new_entry2 offset (se_len item) newDefault newDeltaType (se_type item))"

definition struct_Add :: "string \<Rightarrow> aint \<Rightarrow> bool M" where
  "struct_Add naam offset = do {
     g \<leftarrow> gets prog;
     if struct_FindDuplicate naam g then do {
       Error ''[STRUCT] Structure already exist'' (Some naam) E_PASS3;
       ret False }
     else do {
       mod_prog (\<lambda>g. g\<lparr>strs := (strs g)(bucket naam := new_CStructure naam # strs g (bucket naam))\<rparr>);
       whenM (offset \<noteq> 0) (mod_struct naam (AddMember (\<lambda>_. new_entry2 0 offset (-1) REL_OFF SMEMBBLOCK)));
       ret True } }"

text \<open>The structure a name means: local to the current label, in the current module, or global.\<close>

definition struct_zoek :: "string \<Rightarrow> bool \<Rightarrow> asm \<Rightarrow> CStructure option" where
  "struct_zoek naam gl s =
     (let m = ModuleName (labs s); local = (cur naam = CHR ''.'');
          sn = (if gl then naam else if local then vorlab (labs s) @ naam
                else if m \<noteq> [] then m @ ''.'' @ naam else naam)
      in case struct_find sn (prog s) of
           Some st \<Rightarrow> Some st
         | None \<Rightarrow> if gl \<or> m = [] then None else struct_find (drop (1 + length m) sn) (prog s))"

section \<open>The value of a member\<close>

definition checked_value :: "EStructureMembers \<Rightarrow> aint \<Rightarrow> aint M" where
  "checked_value ty val =
     (if ty = SMEMBBYTE then do { check8 val; ret (val AND 0xFF) }
      else if ty = SMEMBWORD then do { check16 val; ret (val AND 0xFFFF) }
      else if ty = SMEMBD24 then do { check24 val; ret (val AND 0xFFFFFF) }
      else ret val)"

definition default_relocation :: "CStructureEntry2 \<Rightarrow> bool \<Rightarrow> reloc_type \<Rightarrow> unit M" where
  "default_relocation e keepRelocatableFlags minType = do {
     whenM (\<not> keepRelocatableFlags) (mod_rel (\<lambda>r. r\<lparr>isResultAffected := isResultAffected r \<or> se_defDeltaType e \<noteq> REL_OFF,
       deltaType := se_defDeltaType e\<rparr>));
     resolveRelocationAffected 0 minType }"

definition ParseValue :: "CStructureEntry2 \<Rightarrow> aint parser" where
  "ParseValue e p =
     (if se_type e \<notin> {SMEMBBYTE, SMEMBWORD, SMEMBDWORD, SMEMBD24} then ret (se_def e, p)
      else do {
        let p1 = skip_blanks p;
        (val, keep, p2) \<leftarrow> (if cur p1 = CHR ''{'' then ret (se_def e, False, p1)
          else do {
            (r, p2) \<leftarrow> ParseExpressionNoSyntaxError p1;
            v \<leftarrow> checked_value (se_type e) (case r of Some v \<Rightarrow> v | None \<Rightarrow> se_def e);
            ret (v, r \<noteq> None, p2) });
        t \<leftarrow> gets (\<lambda>s. rel_type (rel s));
        if t = REL_OFF then ret (val, p2)
        else do {
          (if se_type e = SMEMBBYTE \<and> t = REL_HIGH then default_relocation e keep REL_HIGH
           else whenM (se_type e = SMEMBWORD) (default_relocation e keep REL_REGULAR));
          checkAndWarn False;
          ret (val, p2) } })"

text \<open>The bytes of a TEXT member between braces: strings and expressions, also over several lines. The result is cut or filled to the length of the member,
  with the bytes of the definition or with the last byte.\<close>

definition struct_text_item :: "nat \<Rightarrow> int list \<Rightarrow> string \<Rightarrow> (bool \<times> int list \<times> string) M" where
  "struct_text_item len data p = do {
     (strRes, e, p1) \<leftarrow> GetCharConstAsString len 0 data p;
     let single = (0 < strRes \<and> length e = length data + 1 \<and> cur (skip_blanks p1) \<noteq> NUL \<and>
       cur (skip_blanks p1) \<noteq> CHR '','' \<and> cur (skip_blanks p1) \<noteq> CHR ''}'');
     let q = (if 0 < strRes \<and> length e = length data + 1 then skip_blanks p1 else p1);
     let data1 = (if single then data else e);
     let p2 = (if single then p else q);
     if 0 < strRes \<and> \<not> single then ret (True, e, q)
     else if strRes = -1 then ret (False, data1, p2)
     else if strRes = -2 \<or> len \<le> length data1 then do {
       Error ''Maximum length of struct text reached. Values over'' (Some p2) E_SUPPRESS;
       ret (False, data1, p2) }
     else do {
       (r, p3) \<leftarrow> ParseExpressionNoSyntaxError p2;
       (case r of
          Some val \<Rightarrow> do { check8 val; ret (True, data1 @ [val AND 0xFF], p3) }
        | None \<Rightarrow> do { Error ''Syntax error'' (Some p3) E_SUPPRESS; ret (False, data1, p3) }) } }"

primrec struct_text_loop :: "nat \<Rightarrow> bool M \<Rightarrow> nat \<Rightarrow> int list \<Rightarrow> string \<Rightarrow> (int list \<times> string) M" where
  "struct_text_loop 0 rept len data p = do { out_of_fuel; ret (data, p) }"
| "struct_text_loop (Suc n) rept len data p = do {
     (ok, p1) \<leftarrow> PrepareNonBlankMultiLine rept p;
     if \<not> ok \<or> cur p1 = CHR ''}'' then ret (data, p1)
     else do {
       (go, data1, p2) \<leftarrow> struct_text_item len data p1;
       let (c, p3) = (if go then comma p2 else (False, p2));
       if c then struct_text_loop n rept len data1 p3 else ret (data1, p3) } }"

text \<open>Every round consumes a comma of a line, and a line has at most \<^verbatim>\<open>LINEMAX2\<close> characters.\<close>

definition LINEMAX2 :: nat where
  "LINEMAX2 = 4096"

definition struct_text_fuel :: "source_state \<Rightarrow> string \<Rightarrow> nat" where
  "struct_text_fuel r p = Suc ((lines_fuel r + 1) * (max (length p) LINEMAX2 + 1))"

definition fill_text :: "nat \<Rightarrow> int list option \<Rightarrow> int list \<Rightarrow> int list" where
  "fill_text len initData data =
     (case initData of
        Some ini \<Rightarrow> data @ drop (length data) ini
      | None \<Rightarrow> data @ replicate (len - length data) (if data = [] then 0 else last data))"

definition GetStructText :: "bool M \<Rightarrow> nat \<Rightarrow> int list option \<Rightarrow> (int list) parser" where
  "GetStructText rept len initData p = do {
     mod_rel (\<lambda>r. r\<lparr>isResultAffected := False\<rparr>);
     (case need CHR ''{'' p of
        (False, q) \<Rightarrow>
          (case initData of
             Some ini \<Rightarrow> ret (ini, q)
           | None \<Rightarrow> do {
               Error (''TEXT field value must be enclosed in curly braces, missing '' @ [CHR 0x27, CHR ''{'', CHR 0x27]) (Some q) E_PASS3;
               ret (replicate len 0, q) })
      | (True, q) \<Rightarrow> do {
          r \<leftarrow> gets srcs;
          (data, p1) \<leftarrow> struct_text_loop (struct_text_fuel r q) rept len [] q;
          (ok, p2) \<leftarrow> PrepareNonBlankMultiLine rept p1;
          let (brace, p3) = (if ok then need CHR ''}'' p2 else (False, p2));
          if \<not> brace then do {
            Error (''TEXT field value must be enclosed in curly braces, missing '' @ [CHR 0x27, CHR ''}'', CHR 0x27]) (Some p3) E_PASS3;
            ret (data @ replicate (len - length data) 0, p3) }
          else do {
            checkAndWarn False;
            ret (fill_text len initData data, p3) } }) }"

section \<open>Walking along the members\<close>

text \<open>Both emitting and copying walk along the members with the number of open braces: inside braces, further lines are read when the text
  ends; behind the last member the open braces are closed. \<open>enter\<close> starts every round, \<open>f e sep\<close>
  handles the member \<open>e\<close>, and \<open>sep\<close> says whether a comma may follow it.\<close>

primrec close_braces :: "bool M \<Rightarrow> unit M \<Rightarrow> nat \<Rightarrow> string \<Rightarrow> (nat \<times> string) M" where
  "close_braces rept enter 0 p = ret (0, p)"
| "close_braces rept enter (Suc h) p = do {
     enter;
     (ok, p1) \<leftarrow> PrepareNonBlankMultiLine rept p;
     let (brace, p2) = (if ok then need CHR ''}'' p1 else (False, p1));
     if brace then close_braces rept enter h p2 else ret (Suc h, p2) }"

definition comma_follows :: "CStructureEntry2 list \<Rightarrow> bool" where
  "comma_follows es \<longleftrightarrow> es \<noteq> [] \<and> se_type (hd es) \<noteq> SMEMBPARENCLOSE"

primrec each_member ::
  "bool M \<Rightarrow> unit M \<Rightarrow> (CStructureEntry2 \<Rightarrow> bool \<Rightarrow> nat \<Rightarrow> string \<Rightarrow> (nat \<times> string) M) \<Rightarrow> CStructureEntry2 list \<Rightarrow> nat \<Rightarrow> string \<Rightarrow> (nat \<times> string) M"
where
  "each_member rept enter f [] h p = close_braces rept enter h p"
| "each_member rept enter f (e # es) h p = do {
     enter;
     (ok, p1) \<leftarrow> (if 0 < h then PrepareNonBlankMultiLine rept p else ret (True, p));
     if \<not> ok then ret (h, p1)
     else do {
       (h', p2) \<leftarrow> f e (comma_follows es) h p1;
       each_member rept enter f es h' p2 } }"

definition eat_comma :: "bool \<Rightarrow> string \<Rightarrow> string" where
  "eat_comma sep p = (if sep then snd (anyComma p) else p)"

definition open_brace :: "nat \<Rightarrow> string \<Rightarrow> nat \<times> string" where
  "open_brace h p = (let q = skip_blanks p in if cur q = CHR ''{'' then (Suc h, drop 1 q) else (h, q))"

section \<open>Emitting an instance\<close>

primrec emit_text :: "int list \<Rightarrow> unit M" where
  "emit_text [] = ret ()"
| "emit_text (b # bs) = do { EmitByte b False; emit_text bs }"

definition emit_member :: "bool M \<Rightarrow> CStructureEntry2 \<Rightarrow> bool \<Rightarrow> nat \<Rightarrow> string \<Rightarrow> (nat \<times> string) M" where
  "emit_member rept e sep h p =
     (case se_type e of
        SMEMBBLOCK \<Rightarrow> do {
          EmitBlock (if se_def e \<noteq> -1 then se_def e else 0) (se_len e) (se_def e = -1) 8;
          ret (h, p) }
      | SMEMBBYTE \<Rightarrow> do { (val, q) \<leftarrow> ParseValue e p; EmitByte val False; ret (h, eat_comma sep q) }
      | SMEMBWORD \<Rightarrow> do { (val, q) \<leftarrow> ParseValue e p; EmitWord val False; ret (h, eat_comma sep q) }
      | SMEMBD24 \<Rightarrow> do {
          (val, q) \<leftarrow> ParseValue e p;
          EmitByte (val AND 0xFF) False;
          EmitWord (drop_bit 8 val AND 0xFFFF) False;
          ret (h, eat_comma sep q) }
      | SMEMBDWORD \<Rightarrow> do {
          (val, q) \<leftarrow> ParseValue e p;
          EmitWord (val AND 0xFFFF) False;
          EmitWord (drop_bit 16 val AND 0xFFFF) False;
          ret (h, eat_comma sep q) }
      | SMEMBTEXT \<Rightarrow> do {
          (data, q) \<leftarrow> GetStructText rept (nat (se_len e)) (Some (se_text e)) p;
          emit_text data;
          ret (h, eat_comma sep q) }
      | SMEMBPARENOPEN \<Rightarrow> ret (open_brace h p)
      | SMEMBPARENCLOSE \<Rightarrow>
          (let q = skip_blanks p in
           if 0 < h \<and> cur q = CHR ''}'' then ret (h - 1, eat_comma sep (drop 1 q)) else ret (h, eat_comma sep q))
      | _ \<Rightarrow> do {
          ErrorInt ''Internal Error CStructure::emitmembs'' (of_bool (se_type e = SMEMBALIGN)) E_FATAL;
          ret (h, p) })"

definition emitmembs :: "bool M \<Rightarrow> CStructure \<Rightarrow> string \<Rightarrow> string M" where
  "emitmembs rept st p = do {
     let (h, p1) = open_brace 0 p;
     mod_rel (\<lambda>r. r\<lparr>isResultAffected := False\<rparr>);
     (h', p2) \<leftarrow> each_member rept (ret ()) (emit_member rept) (st_members st) h p1;
     whenM (h' \<noteq> 0) (Error ''closing } missing'' None E_PASS3);
     whenM (cur (skip_blanks p2) \<noteq> NUL) (Error ''[STRUCT] Syntax error - too many arguments?'' None E_PASS3);
     checkAndWarn False;
     ret (skip_blanks p2) }"

section \<open>The labels of a structure\<close>

definition set_label_size :: "string \<Rightarrow> aint \<Rightarrow> unit M" where
  "set_label_size naam v = do {
     l \<leftarrow> gets (\<lambda>s. Find naam True (labs s));
     (case l of None \<Rightarrow> ret () | Some e \<Rightarrow> put_label naam (e\<lparr>lab_size := v\<rparr>)) }"

definition check_struct_label :: "string \<Rightarrow> string \<Rightarrow> aint \<Rightarrow> bool \<Rightarrow> unit M" where
  "check_struct_label name fullName val isDefine = do {
     (oval, _) \<leftarrow> GetLabelValue name;
     (case oval of
        None \<Rightarrow> Error ''Internal error. InsertSingleStructLabel()'' (Some fullName) E_FATAL
      | Some v \<Rightarrow> whenM (val \<noteq> v) (Error ''Label has different value in pass 2'' (Some fullName) E_PASS3));
     s \<leftarrow> State_Monad.get;
     (case (IsSldExportActive s, Find fullName True (labs s)) of
        (True, Some symbol) \<Rightarrow>
          WriteToSldFile (if isDefine then -1 else lab_page symbol) val CHR ''L'' (Some (ExportLabelToSld name symbol (labs s)))
      | _ \<Rightarrow> ret ()) }"

definition insert_struct_label :: "bool \<Rightarrow> bool \<Rightarrow> string \<Rightarrow> bool \<Rightarrow> aint \<Rightarrow> bool \<Rightarrow> unit M" where
  "insert_struct_label setNameSpace isLocal fullName isRelocatable val isDefine = do {
     mod_rel (\<lambda>r. r\<lparr>isResultAffected := isRelocatable, deltaType := (if isRelocatable then REL_REGULAR else REL_OFF)\<rparr>);
     let traits = LABEL_HAS_RELOC_TRAIT OR (if isLocal then LABEL_IS_LOCAL else 0) OR
       (if isDefine then LABEL_IS_STRUCT_D else LABEL_IS_STRUCT_E) OR (if isRelocatable then LABEL_IS_RELOC else 0);
     ok \<leftarrow> Insert fullName val traits LABEL_PAGE_UNDEFINED;
     if \<not> ok then Error ''Duplicate label'' (Some fullName) E_EARLY
     else whenM (isDefine \<and> setNameSpace) (set_label_size fullName val) }"

definition InsertSingleStructLabel :: "bool \<Rightarrow> string \<Rightarrow> bool \<Rightarrow> aint \<Rightarrow> bool \<Rightarrow> unit M" where
  "InsertSingleStructLabel setNameSpace name isRelocatable val isDefine = do {
     (isLocal, full) \<leftarrow> (if isDefine then ret (False, Some name) else ValidateLabel name setNameSpace False);
     (case full of
        None \<Rightarrow> ret ()
      | Some fullName \<Rightarrow> do {
          p \<leftarrow> gets pass;
          if p = LASTPASS then check_struct_label name fullName val isDefine
          else insert_struct_label setNameSpace isLocal fullName isRelocatable val isDefine }) }"

primrec InsertStructSubLabels :: "string \<Rightarrow> bool \<Rightarrow> CStructureEntry1 list \<Rightarrow> aint \<Rightarrow> bool \<Rightarrow> unit M" where
  "InsertStructSubLabels mainName isRelocatable [] address isDefine = ret ()"
| "InsertStructSubLabels mainName isRelocatable (m # ms) address isDefine = do {
     InsertSingleStructLabel False (mainName @ ''.'' @ se1_naam m) isRelocatable (wrap32 (se1_offset m + address)) isDefine;
     InsertStructSubLabels mainName isRelocatable ms address isDefine }"

definition deflab :: "CStructure \<Rightarrow> unit M" where
  "deflab st = do {
     InsertSingleStructLabel True (st_naam st) False (noffset st) True;
     InsertStructSubLabels (st_naam st) False (st_labels st) 0 True }"

definition misaligned_text :: "CStructure \<Rightarrow> aint \<Rightarrow> string" where
  "misaligned_text st misalignment = ''Struct '' @ st_naam st @ '' did use ALIGN '' @ fmt_d (maxAlignment st) @
     '' in definition, but here it is misaligned by '' @ fmt_d misalignment @ '' bytes''"

definition emitlab :: "CStructure \<Rightarrow> string \<Rightarrow> aint \<Rightarrow> bool \<Rightarrow> unit M" where
  "emitlab st iid address isRelocatable = do {
     let misalignment = (if maxAlignment st \<noteq> 0 then wrap32 (- address) AND (maxAlignment st - 1) else 0);
     whenM (misalignment \<noteq> 0) (Warning (misaligned_text st misalignment) None W_PASS3);
     InsertSingleStructLabel True iid isRelocatable address False;
     InsertStructSubLabels iid isRelocatable (st_labels st) address False;
     set_label_size iid (noffset st) }"

definition ParseDesignedAddress :: "aint parser" where
  "ParseDesignedAddress p =
     (let q = skip_blanks p in
      if cur q = CHR ''='' then do {
        let adrP = drop 1 q;
        (r, p1) \<leftarrow> ParseExpressionNoSyntaxError adrP;
        (case r of
           Some resultAdr \<Rightarrow> ret (resultAdr, p1)
         | None \<Rightarrow> do { Error ''[STRUCT] Syntax error in designed address'' (Some adrP) E_SUPPRESS; ret (0, p1) }) }
      else ret (INT_MAX, q))"

definition struct_Emit :: "bool M \<Rightarrow> structure_emit" where
  "struct_Emit rept naam l p gl = do {
     found \<leftarrow> gets (struct_zoek naam gl);
     (case found of
        None \<Rightarrow> ret (False, p)
      | Some st \<Rightarrow> do {
          (address, p1) \<leftarrow> ParseDesignedAddress p;
          s \<leftarrow> State_Monad.get;
          let relocatable = (if address = INT_MAX then rel_type (rel s) \<noteq> REL_OFF
            else isResultAffected (rel s) \<and> deltaType (rel s) = REL_REGULAR);
          (case l of
             Some iid \<Rightarrow> emitlab st iid (if address = INT_MAX then CurAddress s else address) relocatable
           | None \<Rightarrow> ret ());
          p2 \<leftarrow> (if address = INT_MAX then emitmembs rept st p1 else do {
            whenM (l = None) (Warning ''[STRUCT] designed address without label = no effect'' None W_PASS3);
            ret p1 });
          ret (True, p2) }) }"

end
