(* ===== verification/Sj_Struct_Def.thy ===== *)
theory Sj_Struct_Def
  imports Sj_Struct
begin

text \<open>
  The definition of structures: copying the members of another structure (tables.cpp), the lines of a definition (parser.cpp) and the directive
  \<^verbatim>\<open>STRUCT\<close> (directives.cpp). The structure under construction is named by \<open>naam\<close>.
\<close>

section \<open>Members of another structure\<close>

definition struct_reloc :: "CStructureEntry2 \<Rightarrow> aint option \<Rightarrow> asm \<Rightarrow> aint \<times> reloc_type" where
  "struct_reloc e r s =
     (case r of
        Some val \<Rightarrow> (val, if isResultAffected (rel s) \<and> se_type e \<in> {SMEMBWORD, SMEMBBYTE} then deltaType (rel s) else REL_OFF)
      | None \<Rightarrow> (se_def e, se_defDeltaType e))"

definition copy_item :: "bool M \<Rightarrow> string \<Rightarrow> CStructureEntry2 \<Rightarrow> bool \<Rightarrow> nat \<Rightarrow> string \<Rightarrow> (nat \<times> string) M" where
  "copy_item rept naam e sep h p =
     (case se_type e of
        SMEMBBLOCK \<Rightarrow> do { mod_struct naam (CopyMember e (se_def e) REL_OFF); ret (h, p) }
      | SMEMBTEXT \<Rightarrow> do {
          (data, q) \<leftarrow> GetStructText rept (nat (se_len e)) (Some (se_text e)) p;
          mod_struct naam (AddMember (\<lambda>offset. new_text_entry2 offset data));
          ret (h, eat_comma sep q) }
      | SMEMBPARENOPEN \<Rightarrow> do { mod_struct naam (CopyMember e 0 REL_OFF); ret (open_brace h p) }
      | SMEMBPARENCLOSE \<Rightarrow> do {
          mod_struct naam (CopyMember e 0 REL_OFF);
          let q = skip_blanks p;
          ret (if 0 < h \<and> cur q = CHR ''}'' then (h - 1, eat_comma sep (drop 1 q)) else (h, q)) }
      | SMEMBUNKNOWN \<Rightarrow> do { Error ''internalerror CStructure::CopyMembers'' None E_FATAL; ret (h, p) }
      | SMEMBALIGN \<Rightarrow> do { Error ''internalerror CStructure::CopyMembers'' None E_FATAL; ret (h, p) }
      | _ \<Rightarrow> do {
          (r, q) \<leftarrow> ParseExpressionNoSyntaxError p;
          (val, isRelocatable) \<leftarrow> gets (struct_reloc e r);
          mod_struct naam (CopyMember e val isRelocatable);
          (if se_type e = SMEMBWORD then resolveRelocationAffected INT_MAX REL_REGULAR
           else whenM (se_type e = SMEMBBYTE) (resolveRelocationAffected INT_MAX REL_HIGH));
          ret (h, eat_comma sep q) })"

definition copy_member :: "bool M \<Rightarrow> string \<Rightarrow> CStructureEntry2 \<Rightarrow> bool \<Rightarrow> nat \<Rightarrow> string \<Rightarrow> (nat \<times> string) M" where
  "copy_member rept naam e sep h p = do {
     r \<leftarrow> copy_item rept naam e sep h p;
     checkAndWarn False;
     ret r }"

definition CopyMembers :: "bool M \<Rightarrow> string \<Rightarrow> CStructure \<Rightarrow> string \<Rightarrow> string M" where
  "CopyMembers rept naam src p = do {
     mod_struct naam (AddMember (\<lambda>offset. new_entry2 offset 0 0 REL_OFF SMEMBPARENOPEN));
     let (h, p1) = open_brace 0 p;
     (h', p2) \<leftarrow> each_member rept (mod_rel (\<lambda>r. r\<lparr>isResultAffected := False\<rparr>)) (copy_member rept naam) (st_members src) h p1;
     whenM (h' \<noteq> 0) (Error ''closing } missing'' None E_PASS3);
     mod_struct naam (AddMember (\<lambda>offset. new_entry2 offset 0 0 REL_OFF SMEMBPARENCLOSE));
     ret p2 }"

section \<open>The lines of a definition\<close>

definition ParseStructLabel :: "string \<Rightarrow> unit M" where
  "ParseStructLabel naam = do {
     mod_prog (\<lambda>g. g\<lparr>PreviousIsLabel := None\<rparr>);
     l \<leftarrow> gets lp;
     if White (cur l) then ret ()
     else do {
       let p = (if cur l = CHR ''.'' then drop 1 l else l);
       let temp = takeWhile islabchar p;
       let q = dropWhile islabchar p;
       set_lp (skip_blanks (if cur q = CHR '':'' then drop 1 q else q));
       if isdigit (cur temp) then Error ''[STRUCT] Number labels not allowed within structs'' None E_PASS3
       else do {
         mod_prog (\<lambda>g. g\<lparr>PreviousIsLabel := Some temp\<rparr>);
         mod_struct naam (AddLabel temp) } } }"

definition or_zero :: "aint option \<Rightarrow> aint" where
  "or_zero r = (case r of Some v \<Rightarrow> v | None \<Rightarrow> 0)"

text \<open>BYTE and WORD: the initial value may be relocatable.\<close>

definition relocatable_member :: "string \<Rightarrow> (aint \<Rightarrow> bool M) \<Rightarrow> aint \<Rightarrow> EStructureMembers \<Rightarrow> reloc_type \<Rightarrow> unit M" where
  "relocatable_member naam check len ty minType = do {
     r \<leftarrow> on_lp ParseExpression;
     let val = or_zero r;
     check val;
     s \<leftarrow> State_Monad.get;
     let delta = (if isResultAffected (rel s) then deltaType (rel s) else REL_OFF);
     mod_struct naam (AddMember (\<lambda>offset. new_entry2 offset len val delta ty));
     resolveRelocationAffected INT_MAX minType }"

definition block_member :: "string \<Rightarrow> unit M" where
  "block_member naam = do {
     r \<leftarrow> on_lp ParseExpression;
     whenM (r = None) (Error ''[STRUCT] Expression expected'' None E_PASS3);
     c \<leftarrow> lexM comma;
     val \<leftarrow> (if \<not> c then ret (-1)
       else do {
         v \<leftarrow> on_lp ParseExpression;
         whenM (v = None) (Error ''[STRUCT] Expression expected'' None E_PASS3);
         check8 (or_zero v);
         ret (or_zero v AND 255) });
     mod_struct naam (AddMember (\<lambda>offset. new_entry2 offset (case r of Some len \<Rightarrow> len | None \<Rightarrow> 1) val REL_OFF SMEMBBLOCK)) }"

definition text_member :: "bool M \<Rightarrow> string \<Rightarrow> unit M" where
  "text_member rept naam = do {
     r \<leftarrow> on_lp ParseExpression;
     if r = None \<or> or_zero r < 1 \<or> 8192 < or_zero r then do {
       Error ''[STRUCT] Expression for length of text expected (1..8192)'' None E_PASS3;
       skip_line }
     else do {
       let len = nat (or_zero r);
       c \<leftarrow> lexM comma;
       data \<leftarrow> (if c then on_lp (GetStructText rept len None)
         else do {
           eol \<leftarrow> lexM SkipBlanks;
           l \<leftarrow> gets lp;
           whenM (\<not> eol) (Error ''[STRUCT] Comma expected'' (Some l) E_SUPPRESS);
           ret (replicate len 0) });
       mod_struct naam (AddMember (\<lambda>offset. new_text_entry2 offset data)) } }"

definition align_member :: "string \<Rightarrow> unit M" where
  "align_member naam = do {
     (val0, fill) \<leftarrow> ParseAlignArguments;
     let val = (if val0 = -1 then 4 else val0);
     mod_struct naam (\<lambda>st.
       let st1 = st\<lparr>maxAlignment := max (maxAlignment st) val\<rparr>;
           bytesToAdvance = wrap32 (NOT (noffset st) + 1) AND (val - 1)
       in if bytesToAdvance < 1 then st1
          else AddMember (\<lambda>offset. new_entry2 offset bytesToAdvance fill REL_OFF SMEMBBLOCK) st1) }"

definition nested_member :: "bool M \<Rightarrow> string \<Rightarrow> unit M" where
  "nested_member rept naam = do {
     l \<leftarrow> gets lp;
     let q = skip_blanks l;
     let gl = (cur q = CHR ''@'');
     s \<leftarrow> State_Monad.get;
     (case GetID (if gl then drop 1 q else q) of
        (None, _) \<Rightarrow> ret ()
      | (Some n, pp) \<Rightarrow>
          (case (struct_zoek n gl s, struct_find naam (prog s)) of
             (Some src, Some st) \<Rightarrow>
               if st_naam src = naam then do {
                 Error (''[STRUCT] Can'' @ [CHR 0x27] @ ''t include itself'') None E_PASS3;
                 skip_line }
               else do {
                 let misalignment = wrap32 (NOT (noffset st) + 1) AND (maxAlignment src - 1);
                 whenM (maxAlignment src \<noteq> 0 \<and> misalignment \<noteq> 0) (Warning (misaligned_text src misalignment) None W_PASS3);
                 mod_struct naam (CopyLabels (PreviousIsLabel (prog s)) src);
                 p \<leftarrow> CopyMembers rept naam src pp;
                 set_lp p }
           | _ \<Rightarrow> ret ())) }"

definition ParseStructMember :: "bool M \<Rightarrow> string \<Rightarrow> unit M" where
  "ParseStructMember rept naam = do {
     modify (\<lambda>s. s\<lparr>bp := lp s\<rparr>);
     mod_rel (\<lambda>r. r\<lparr>isResultAffected := False\<rparr>);
     ty \<leftarrow> lexM GetStructMemberId;
     (case ty of
        SMEMBBLOCK \<Rightarrow> block_member naam
      | SMEMBBYTE \<Rightarrow> relocatable_member naam check8 1 SMEMBBYTE REL_HIGH
      | SMEMBWORD \<Rightarrow> relocatable_member naam check16 2 SMEMBWORD REL_REGULAR
      | SMEMBD24 \<Rightarrow> do {
          r \<leftarrow> on_lp ParseExpression;
          check24 (or_zero r);
          mod_struct naam (AddMember (\<lambda>offset. new_entry2 offset 3 (or_zero r) REL_OFF SMEMBD24)) }
      | SMEMBDWORD \<Rightarrow> do {
          r \<leftarrow> on_lp ParseExpression;
          mod_struct naam (AddMember (\<lambda>offset. new_entry2 offset 4 (or_zero r) REL_OFF SMEMBDWORD)) }
      | SMEMBTEXT \<Rightarrow> text_member rept naam
      | SMEMBALIGN \<Rightarrow> align_member naam
      | _ \<Rightarrow> nested_member rept naam);
     checkAndWarn False;
     ret () }"

definition ParseStructLine :: "bool M \<Rightarrow> string \<Rightarrow> unit M" where
  "ParseStructLine rept naam = do {
     count_line;
     l \<leftarrow> gets line;
     substitute_rest l;
     p \<leftarrow> gets lp;
     if cur p = NUL then ret ()
     else do {
       ParseStructLabel naam;
       unless_eol (do {
         ParseStructMember rept naam;
         unless_eol (do { l \<leftarrow> gets lp; Error ''[STRUCT] Unexpected'' (Some l) E_PASS3 }) }) } }"

section \<open>The directive\<close>

definition deflab_of :: "string option \<Rightarrow> unit M" where
  "deflab_of st = do {
     g \<leftarrow> gets prog;
     (case (case st of None \<Rightarrow> None | Some naam \<Rightarrow> struct_find naam g) of
        None \<Rightarrow> ret ()
      | Some s \<Rightarrow> deflab s) }"

primrec struct_lines :: "nat \<Rightarrow> bool M \<Rightarrow> string option \<Rightarrow> unit M" where
  "struct_lines 0 rept st = out_of_fuel"
| "struct_lines (Suc n) rept st = do {
     got \<leftarrow> ReadLine True;
     if \<not> got then do { Error ''[STRUCT] Unexpected end of structure'' None E_PASS3; deflab_of st }
     else do {
       modify (\<lambda>s. s\<lparr>lp := after_dot (line s)\<rparr>);
       ends \<leftarrow> lexM (cmphstr ''ends'' False);
       if ends then do {
         count_line;
         deflab_of st;
         q \<leftarrow> gets lp;
         substitute_rest q;
         modify (\<lambda>s. s\<lparr>substitutedLine := line s\<rparr>) }
       else do {
         (case st of None \<Rightarrow> ret () | Some naam \<Rightarrow> ParseStructLine rept naam);
         struct_lines n rept st } } }"

definition dirSTRUCT :: "bool M \<Rightarrow> unit M" where
  "dirSTRUCT rept = do {
     lexM SkipBlanks;
     l \<leftarrow> gets lp;
     (isLocal, validLabel) \<leftarrow> ValidateLabel l False True;
     (case validLabel of
        None \<Rightarrow> skip_line
      | Some naam \<Rightarrow> do {
          set_lp (dropWhile islabchar l);
          c \<leftarrow> lexM comma;
          offset \<leftarrow> (if \<not> c then ret (Some 0)
            else do {
              modify (\<lambda>s. s\<lparr>IsLabelNotFound := False\<rparr>);
              r \<leftarrow> on_lp ParseExpressionNoSyntaxError;
              s \<leftarrow> State_Monad.get;
              (if r = None then Error ''[STRUCT] Offset syntax error'' (Some (lp s)) E_SUPPRESS
               else whenM (IsLabelNotFound s) (Error ''[STRUCT] Forward reference'' None E_EARLY));
              ret r });
          (case offset of
             None \<Rightarrow> ret ()
           | Some ofs \<Rightarrow> do {
               unless_eol (do { l \<leftarrow> gets lp; Error ''[STRUCT] syntax error, unexpected'' (Some l) E_PASS3 });
               ok \<leftarrow> struct_Add naam ofs;
               r \<leftarrow> gets srcs;
               struct_lines (lines_fuel r) rept (if ok then Some naam else None) }) }) }"

definition dirENDS :: "unit M" where
  "dirENDS = Error ''[ENDS] End structure without structure'' None E_PASS3"

end
