(* ===== verification/Sj_Macro.thy ===== *)
theory Sj_Macro
  imports Sj_Struct_Def
begin

text \<open>
  Macros, tables.cpp: the definition with its arguments and its body, and the emission, which puts the values of the arguments into the table the
  substitution of lines consults and parses the lines of the body. \<open>pl\<close> parses one line (\<^verbatim>\<open>ParseLine\<close>).
\<close>

section \<open>Definition\<close>

definition mac_ReInit :: "unit M" where
  "mac_ReInit = mod_prog (\<lambda>g. g\<lparr>mac_used := (\<lambda>_. False), macs := Map.empty\<rparr>)"

text \<open>The names of the arguments, separated by commas.\<close>

primrec mac_args_loop :: "nat \<Rightarrow> string list \<Rightarrow> string list M" where
  "mac_args_loop 0 args = do { out_of_fuel; ret args }"
| "mac_args_loop (Suc n) args = do {
     id \<leftarrow> lexM GetID;
     s \<leftarrow> State_Monad.get;
     (case id of
        None \<Rightarrow> do {
          whenM (pass s = 1 \<and> (args \<noteq> [] \<or> cur (lp s) \<noteq> NUL)) (Error ''Illegal argument name'' (Some (lp s)) E_EARLY);
          skip_line;
          ret args }
      | Some a \<Rightarrow> do {
          whenM (pass s = 1 \<and> a \<in> set args) (Error ''Duplicate argument name'' (Some a) E_EARLY);
          c \<leftarrow> lexM anyComma;
          if c then mac_args_loop n (args @ [a]) else ret (args @ [a]) }) }"

definition put_macro :: "string \<Rightarrow> CMacroTableEntry \<Rightarrow> unit M" where
  "put_macro naam e = mod_prog (\<lambda>g. g\<lparr>macs := (macs g)(naam \<mapsto> e), mac_used := (mac_used g)(bucket naam := True)\<rparr>)"

definition mac_Add :: "string \<Rightarrow> unit M" where
  "mac_Add nnaam = do {
     g \<leftarrow> gets prog;
     if macs g nnaam \<noteq> None then Error ''Duplicate macroname'' (Some nnaam) E_PASS3
     else do {
       l \<leftarrow> gets lp;
       args \<leftarrow> mac_args_loop (length l + 1) [];
       s \<leftarrow> State_Monad.get;
       whenM (pass s = 1 \<and> cur (lp s) \<noteq> NUL) (Error ''Unexpected'' (Some (lp s)) E_EARLY);
       (ok, body) \<leftarrow> ReadFileToCStringsList ''endm'';
       put_macro nnaam \<lparr>mac_args = args, mac_body = body\<rparr>;
       whenM (\<not> ok) (Error ''Unexpected end of macro'' None E_EARLY) } }"

section \<open>The values of the arguments\<close>

definition names_value :: "string \<Rightarrow> bool" where
  "names_value p \<longleftrightarrow> (let q = skip_blanks p in cur q = CHR ''='' \<and> chr_at q 1 \<noteq> CHR ''='')"

definition IsNamedMacroArg :: "string \<Rightarrow> bool" where
  "IsNamedMacroArg p = (case GetID p of (None, _) \<Rightarrow> False | (Some _, q) \<Rightarrow> names_value q)"

text \<open>The name of the next argument: \<open>Inl\<close> is the message of an error with its argument. An argument that is not named gets
  the name \<open>a\<close> of the definition.\<close>

definition argument_name ::
  "string \<Rightarrow> string list \<Rightarrow> bool \<Rightarrow> string list \<Rightarrow> string \<Rightarrow> string \<Rightarrow> (string \<times> string + string) \<times> string"
where
  "argument_name macName args isNamed seen a p =
     (let mixed = Inl (''Named arguments must be used for all parameters or none'', macName) in
      if \<not> isNamed then (if IsNamedMacroArg p then mixed else Inr a, p)
      else case GetID p of
        (None, q) \<Rightarrow> (mixed, q)
      | (Some n, q) \<Rightarrow>
          let r = skip_blanks q in
          if \<not> names_value q then (mixed, r)
          else if n \<notin> set args then (Inl (''Invalid named argument'', n), r)
          else if n \<in> set seen then (Inl (''Duplicate named argument'', n), r)
          else (Inr n, drop 1 r))"

text \<open>The values of the remaining arguments \<open>rest\<close>. The result is the error, if any.\<close>

primrec macro_values ::
  "string list \<Rightarrow> string \<Rightarrow> string list \<Rightarrow> bool \<Rightarrow> string list \<Rightarrow> string \<Rightarrow> ((string \<times> string) option \<times> string) M"
where
  "macro_values [] macName args isNamed seen p =
     (let q = skip_blanks p in
      ret (if cur q = NUL then None else Some (''Too many arguments for macro'', macName), q))"
| "macro_values (a # rest) macName args isNamed seen p =
     (case argument_name macName args isNamed seen a p of
        (Inl err, q) \<Rightarrow> ret (Some err, q)
      | (Inr name, q) \<Rightarrow> do {
          (ok, val, q1) \<leftarrow> GetMacroArgumentValue q;
          let (sep, q2) = (if ok \<and> rest \<noteq> [] then comma q1 else (ok, q1));
          if \<not> sep then ret (Some (''Not enough arguments for macro'', macName), q2)
          else do {
            AddMacro name val;
            macro_values rest macName args isNamed (name # seen) q2 } })"

section \<open>Emission\<close>

definition add_block_level :: "int \<Rightarrow> unit M" where
  "add_block_level n = mod_labs (\<lambda>l. l\<lparr>sourceBlockLevel := sourceBlockLevel l + n\<rparr>)"

definition set_macrolabp :: "string option \<Rightarrow> unit M" where
  "set_macrolabp x = mod_labs (\<lambda>l. l\<lparr>macrolabp := x\<rparr>)"

text \<open>A line of a block becomes the current line.\<close>

definition set_line :: "string \<Rightarrow> unit M" where
  "set_line t = do {
     modify (\<lambda>s. s\<lparr>line := t, substitutedLine := t\<rparr>);
     mod_dg (\<lambda>d. d\<lparr>eolComment := None\<rparr>) }"

definition line_text :: "string option \<Rightarrow> string" where
  "line_text t = (case t of Some x \<Rightarrow> x | None \<Rightarrow> [])"

definition ParseLineSafe :: "(bool \<Rightarrow> unit M) \<Rightarrow> unit M" where
  "ParseLineSafe pl = parse_line_safe pl True"

text \<open>The lines of the body that are still in \<open>lijstp\<close>; what is parsed may take some of them away, too.\<close>

primrec macro_lines :: "nat \<Rightarrow> (bool \<Rightarrow> unit M) \<Rightarrow> unit M" where
  "macro_lines 0 pl = out_of_fuel"
| "macro_lines (Suc n) pl = do {
     l \<leftarrow> gets (\<lambda>s. lijstp (srcs s));
     (case l of
        [] \<Rightarrow> ret ()
      | (t, pos) # rest \<Rightarrow> do {
          set_pos pos;
          set_line (line_text t);
          mod_src (\<lambda>r. r\<lparr>lijstp := rest\<rparr>);
          ParseLineSafe pl;
          macro_lines n pl }) }"

text \<open>Entering the body, and going back to the lines \<open>s\<close> the macro was used in.\<close>

definition macro_enter :: "(string option \<times> TextFilePos) list \<Rightarrow> unit M" where
  "macro_enter body = do {
     add_block_level 2;
     mod_prog (\<lambda>g. g\<lparr>listmacro := listmacro g + 1\<rparr>);
     mod_src (\<lambda>r. r\<lparr>lijstp := body, lijst := lijst r + 1\<rparr>);
     modify (\<lambda>s. s\<lparr>sourcePosStack := sourcePosStack s @ [newFile []]\<rparr>) }"

definition macro_leave :: "string \<Rightarrow> asm \<Rightarrow> unit M" where
  "macro_leave naam s = do {
     add_block_level (-2);
     swap \<leftarrow> gets (\<lambda>s. sldSwapSrcPos (prog s));
     whenM (swap \<noteq> sldSwapSrcPos (prog s)) (WarningById W_SLD_SWAP (Some naam) W_PASS3);
     modify (\<lambda>s. s\<lparr>sourcePosStack := butlast (sourcePosStack s)\<rparr>);
     count_line;
     modify (\<lambda>t. t\<lparr>line := line s\<rparr>);
     mod_src (\<lambda>r. r\<lparr>lijstp := lijstp (srcs s), lijst := lijst r - 1\<rparr>);
     mod_prog (\<lambda>g. g\<lparr>listmacro := listmacro g - 1\<rparr>) }"

definition macro_body :: "(bool \<Rightarrow> unit M) \<Rightarrow> string \<Rightarrow> (string option \<times> TextFilePos) list \<Rightarrow> unit M" where
  "macro_body pl naam body = do {
     s \<leftarrow> State_Monad.get;
     macro_enter body;
     macro_lines (length body + 1) pl;
     SizeBoundary BOUNDARY_MAIN;
     macro_leave naam s }"

definition instance_label :: "int \<Rightarrow> string option \<Rightarrow> string" where
  "instance_label nr omacrolabp = fmt_d nr @ (case omacrolabp of None \<Rightarrow> [] | Some o' \<Rightarrow> ''.'' @ o')"

text \<open>The labels of the instance get a new prefix; the table of arguments is emptied for a macro that is not used inside another one.\<close>

definition open_scope :: "unit M" where
  "open_scope = do {
     s \<leftarrow> State_Monad.get;
     mod_prog (\<lambda>g. g\<lparr>macronummer := wrap32 (macronummer g + 1)\<rparr>);
     set_macrolabp (Some (instance_label (macronummer (prog s)) (macrolabp (labs s))));
     whenM (macrolabp (labs s) = None) MacroDefine_ReInit }"

definition close_scope :: "string option \<Rightarrow> (string \<times> string) list \<Rightarrow> unit M" where
  "close_scope omacrolabp odefs = do {
     setdefs odefs;
     set_macrolabp omacrolabp }"

definition FailMacroEmit :: "string option \<Rightarrow> (string \<times> string) list \<Rightarrow> string \<times> string \<Rightarrow> unit M" where
  "FailMacroEmit omacrolabp odefs err = do {
     Error (fst err) (Some (snd err)) E_SUPPRESS;
     close_scope omacrolabp odefs }"

definition mac_find :: "string \<Rightarrow> prog_state \<Rightarrow> CMacroTableEntry option" where
  "mac_find naam g = (if mac_used g (bucket naam) then macs g naam else None)"

definition macro_call :: "(bool \<Rightarrow> unit M) \<Rightarrow> string \<Rightarrow> CMacroTableEntry \<Rightarrow> string \<Rightarrow> (int \<times> string) M" where
  "macro_call pl naam m p = do {
     omacrolabp \<leftarrow> gets (\<lambda>s. macrolabp (labs s));
     open_scope;
     odefs \<leftarrow> gets (\<lambda>s. macro_defs (srcs s));
     (err, p1) \<leftarrow> macro_values (mac_args m) naam (mac_args m) (IsNamedMacroArg p) [] p;
     (case err of
        Some e \<Rightarrow> do { FailMacroEmit omacrolabp odefs e; ret (1, p1) }
      | None \<Rightarrow> do {
          set_lp p1;
          macro_body pl naam (mac_body m);
          close_scope omacrolabp odefs;
          ret (2, p1) }) }"

definition mac_Emit :: "(bool \<Rightarrow> unit M) \<Rightarrow> macro_emit" where
  "mac_Emit pl naam p = do {
     g \<leftarrow> gets prog;
     (case mac_find naam g of
        None \<Rightarrow> ret (0, p)
      | Some m \<Rightarrow> macro_call pl naam m p) }"

section \<open>The directive\<close>

definition dirMACRO :: "unit M" where
  "dirMACRO = do {
     s \<leftarrow> State_Monad.get;
     if lijst (srcs s) \<noteq> 0 then Error ''[MACRO] No macro definitions allowed here'' None E_SUPPRESS
     else do {
       let labelName = (LastParsedLabelLine (prog s) = CompiledCurrentLine (dg s));
       let text = (if labelName then line_text (LastParsedLabel (prog s)) else lp s);
       (case GetID text of
          (Some n, q) \<Rightarrow>
            if cur q \<noteq> NUL \<and> \<not> White (cur q) then do { Error ''[MACRO] Illegal macroname'' (Some text) E_PASS3; skip_line }
            else do {
              whenM (\<not> labelName) (set_lp q);
              mac_Add n }
        | (None, _) \<Rightarrow> do { Error ''[MACRO] Illegal macroname'' (Some text) E_PASS3; skip_line }) } }"

end
