(* ===== verification/Sj_Control.thy ===== *)
theory Sj_Control
  imports Sj_Macro
begin

text \<open>
  The directives that decide what is assembled and how often, directives.cpp and sjio.cpp: conditional blocks, repeated blocks, defines, arrays,
  devices, included files. \<open>pl\<close> parses one line (\<^verbatim>\<open>ParseLine\<close>).
\<close>

section \<open>Conditional blocks\<close>

text \<open>The keyword a line of an active branch starts with, when it ends the branch; with the text behind it.\<close>

definition end_keyword :: "string \<Rightarrow> EReturn option \<times> string" where
  "end_keyword p0 =
     (let (b1, p1) = cmphstr ''elseif'' False p0; r1 = (if b1 then Some R_ELSEIF else None);
          (b2, p2) = cmphstr ''else'' False p1; r2 = (if b2 then Some R_ELSE else r1);
          (b3, p3) = cmphstr ''endif'' False p2
      in (if b3 then Some R_ENDIF else r2, p3))"

primrec read_lines :: "nat \<Rightarrow> (bool \<Rightarrow> unit M) \<Rightarrow> EReturn M" where
  "read_lines 0 pl = do { out_of_fuel; ret R_END }"
| "read_lines (Suc n) pl = do {
     got \<leftarrow> ReadLine True;
     if \<not> got then ret R_END
     else do {
       s \<leftarrow> State_Monad.get;
       (case (if collecting s then (None, []) else end_keyword (after_dot (line s))) of
          (Some r, q) \<Rightarrow> end_branch r q
        | (None, _) \<Rightarrow> do { ParseLineSafe pl; read_lines n pl }) } }"

definition ReadFile :: "(bool \<Rightarrow> unit M) \<Rightarrow> EReturn M" where
  "ReadFile pl = do { r \<leftarrow> gets srcs; read_lines (lines_fuel r) pl }"

definition dirIfIfn :: "aint option M" where
  "dirIfIfn = do {
     modify (\<lambda>s. s\<lparr>IsLabelNotFound := False\<rparr>);
     r \<leftarrow> on_lp ParseExpression;
     s \<leftarrow> State_Monad.get;
     (if r = None then Error ''[IF/IFN] Syntax error'' (Some (lp s)) E_IF_FIRST
      else whenM (IsLabelNotFound s) (WarningById W_FWD_REF (Some (bp s)) W_EARLY));
     ret r }"

text \<open>An ELSEIF whose turn it is: the condition, and whether the remaining branches are inactive.\<close>

definition elseif_value :: "bool \<Rightarrow> (bool \<times> bool) M" where
  "elseif_value orVal = do {
     r \<leftarrow> dirIfIfn;
     ret (case r of None \<Rightarrow> (False, True) | Some v \<Rightarrow> (v \<noteq> 0, orVal)) }"

primrec if_branches :: "nat \<Rightarrow> (bool \<Rightarrow> unit M) \<Rightarrow> string \<Rightarrow> nat \<Rightarrow> bool \<Rightarrow> bool \<Rightarrow> unit M" where
  "if_branches 0 pl dirName elseCounter orVal0 val = out_of_fuel"
| "if_branches (Suc n) pl dirName elseCounter orVal0 val = do {
     let orVal = (orVal0 \<or> val);
     r \<leftarrow> (if val then ReadFile pl else SkipFile);
     (case r of
        R_ELSE \<Rightarrow> do {
          whenM (0 < elseCounter) (Error (''['' @ dirName @ ''] one ELSE only expected'') None E_PASS3);
          if_branches n pl dirName (elseCounter + 1) orVal (\<not> val \<and> \<not> orVal) }
      | R_ELSEIF \<Rightarrow> do {
          (v, orVal') \<leftarrow> (if \<not> val \<and> \<not> orVal then elseif_value orVal else ret (False, orVal));
          if_branches n pl dirName elseCounter orVal' v }
      | R_ENDIF \<Rightarrow> ret ()
      | _ \<Rightarrow> do {
          running \<leftarrow> gets (\<lambda>s. IsRunning (srcs s));
          whenM running (Error (''['' @ dirName @ ''] No ENDIF'') None E_PASS3) }) }"

definition dirIfInternal :: "(bool \<Rightarrow> unit M) \<Rightarrow> string \<Rightarrow> bool \<Rightarrow> unit M" where
  "dirIfInternal pl dirName val = do { r \<leftarrow> gets srcs; if_branches (lines_fuel r) pl dirName 0 False val }"

definition dirIF :: "(bool \<Rightarrow> unit M) \<Rightarrow> unit M" where
  "dirIF pl = do {
     r \<leftarrow> dirIfIfn;
     (case r of None \<Rightarrow> ret () | Some val \<Rightarrow> dirIfInternal pl ''IF'' (val \<noteq> 0)) }"

definition dirIFN :: "(bool \<Rightarrow> unit M) \<Rightarrow> unit M" where
  "dirIFN pl = do {
     r \<leftarrow> dirIfIfn;
     (case r of None \<Rightarrow> ret () | Some val \<Rightarrow> dirIfInternal pl ''IFN'' (val = 0)) }"

definition dirIfusedIfnused :: "string option M" where
  "dirIfusedIfnused = do {
     eol \<leftarrow> lexM SkipBlanks;
     s \<leftarrow> State_Monad.get;
     id \<leftarrow> (if eol then do {
         whenM (LastParsedLabel (prog s) = None) (Error ''[IFUSED/IFNUSED] no label defined ahead'' None E_PASS3);
         ret (LastParsedLabel (prog s)) }
       else do {
         (_, validLabel) \<leftarrow> ValidateLabel (lp s) False True;
         (if validLabel \<noteq> None then set_lp (dropWhile islabchar (lp s)) else skip_line);
         ret validLabel });
     eol' \<leftarrow> (if id \<noteq> None then lexM SkipBlanks else ret False);
     ret (if eol' then id else None) }"

definition if_used :: "(bool \<Rightarrow> unit M) \<Rightarrow> string \<Rightarrow> bool \<Rightarrow> unit M" where
  "if_used pl dirName wanted = do {
     id \<leftarrow> dirIfusedIfnused;
     l \<leftarrow> gets labs;
     (case id of None \<Rightarrow> ret () | Some n \<Rightarrow> dirIfInternal pl dirName (IsUsed n l = wanted)) }"

definition dirIFUSED :: "(bool \<Rightarrow> unit M) \<Rightarrow> unit M" where
  "dirIFUSED pl = if_used pl ''IFUSED'' True"

definition dirIFNUSED :: "(bool \<Rightarrow> unit M) \<Rightarrow> unit M" where
  "dirIFNUSED pl = if_used pl ''IFNUSED'' False"

definition if_defined :: "(bool \<Rightarrow> unit M) \<Rightarrow> string \<Rightarrow> bool \<Rightarrow> unit M" where
  "if_defined pl dirName wanted = do {
     id \<leftarrow> lexM GetID;
     s \<leftarrow> State_Monad.get;
     (case id of
        Some n \<Rightarrow> dirIfInternal pl dirName (FindDuplicate (defs (dg s)) n = wanted)
      | None \<Rightarrow> Error (''['' @ dirName @ ''] Illegal identifier'') (Some (bp s)) E_PASS3) }"

definition dirIFDEF :: "(bool \<Rightarrow> unit M) \<Rightarrow> unit M" where
  "dirIFDEF pl = if_defined pl ''IFDEF'' True"

definition dirIFNDEF :: "(bool \<Rightarrow> unit M) \<Rightarrow> unit M" where
  "dirIFNDEF pl = if_defined pl ''IFNDEF'' False"

text \<open>An ELSE, ELSEIF or ENDIF on its own also ends a running repeat block.\<close>

definition mod_dup :: "nat \<Rightarrow> (SRepeatStack \<Rightarrow> SRepeatStack) \<Rightarrow> unit M" where
  "mod_dup k f = mod_prog (\<lambda>g. g\<lparr>RepeatStack := (RepeatStack g)[k := f (RepeatStack g ! k)]\<rparr>)"

definition dirElseCheckLiveDup :: "unit M" where
  "dirElseCheckLiveDup = do {
     st \<leftarrow> gets (\<lambda>s. RepeatStack (prog s));
     if st = [] \<or> \<not> IsInWork (last st) then ret ()
     else do {
       Error ''Conditional block must start and finish inside the repeat block, nested completely'' None E_PASS3;
       mod_src (\<lambda>r. r\<lparr>lijstp := []\<rparr>);
       mod_dup (length st - 1) (\<lambda>d. d\<lparr>RepeatCount := 0\<rparr>) } }"

definition dirELSE :: "unit M" where
  "dirELSE = do {
     dirElseCheckLiveDup;
     Error ''ELSE without IF/IFN/IFUSED/IFNUSED/IFDEF/IFNDEF'' None E_PASS3 }"

definition dirELSEIF :: "unit M" where
  "dirELSEIF = do { dirElseCheckLiveDup; Error ''ELSEIF without IF/IFN'' None E_PASS3 }"

definition dirENDIF :: "unit M" where
  "dirENDIF = do {
     dirElseCheckLiveDup;
     Error ''ENDIF without IF/IFN/IFUSED/IFNUSED/IFDEF/IFNDEF'' None E_PASS3 }"

section \<open>Repeated blocks\<close>

text \<open>The condition of WHILE: the text, the number of rounds after which an endless loop is reported.\<close>

definition while_condition :: "string \<Rightarrow> (string \<times> aint) M" where
  "while_condition cond = do {
     (r, e) \<leftarrow> ParseExpressionNoSyntaxError cond;
     let (c, g) = (if r \<noteq> None \<and> cur e \<noteq> NUL then comma e else (False, e));
     (ok, text, val) \<leftarrow> (if c then do {
         (v, _) \<leftarrow> ParseExpressionNoSyntaxError g;
         ret (case v of
                Some n \<Rightarrow> (True, take (length cond - length g - 1) cond, wrap32 (n + 1))
              | None \<Rightarrow> (False, cond, 0)) }
       else ret (r \<noteq> None, cond, 100001));
     if ok then ret (text, val)
     else do {
       Error ''[WHILE] Syntax error in <expression>'' (Some cond) E_SUPPRESS;
       ret (''0'', 1) } }"

text \<open>The number of rounds of DUP and the name of its index variable, or None after an error.\<close>

definition dup_arguments :: "(aint \<times> string) option M" where
  "dup_arguments = do {
     modify (\<lambda>s. s\<lparr>IsLabelNotFound := False\<rparr>);
     r \<leftarrow> on_lp ParseExpressionNoSyntaxError;
     s \<leftarrow> State_Monad.get;
     (case r of
        None \<Rightarrow> do { Error ''[DUP/REPT] Syntax error in <count>'' (Some (lp s)) E_SUPPRESS; ret None }
      | Some val \<Rightarrow> do {
          whenM (IsLabelNotFound s) (Error ''[DUP/REPT] Forward reference'' None E_ALL);
          if val < 0 then do { ErrorInt ''[DUP/REPT] Repeat value must be positive or zero'' val E_IF_FIRST; ret None }
          else do {
            c \<leftarrow> lexM comma;
            if \<not> c then ret (Some (val, []))
            else do {
              id \<leftarrow> lexM GetID;
              l \<leftarrow> gets lp;
              (case id of
                 Some n \<Rightarrow> ret (Some (val, n))
               | None \<Rightarrow> do {
                   Error ''[DUP/REPT] invalid index variable name'' (Some l) E_IF_FIRST;
                   skip_line;
                   ret (Some (val, [])) }) } } }) }"

definition push_dup :: "aint \<Rightarrow> string option \<Rightarrow> string \<Rightarrow> unit M" where
  "push_dup count condition firstLine = do {
     modify (\<lambda>s. let pos = last (sourcePosStack s) in
       s\<lparr>prog := (prog s)\<lparr>RepeatStack := RepeatStack (prog s) @
         [\<lparr>RepeatCount = count, RepeatCondition = map_option (\<lambda>c. (c, pos)) condition, rep_sourcePos = pos,
           rep_Lines = [(Some firstLine, pos)], IsInWork = False, rep_Level = 0\<rparr>]\<rparr>\<rparr>);
     unless_eol (do { l \<leftarrow> gets lp; Error ''[DUP] unexpected chars'' (Some l) E_SUPPRESS }) }"

definition DupWhileImplementation :: "bool \<Rightarrow> unit M" where
  "DupWhileImplementation isWhile = do {
     s \<leftarrow> State_Monad.get;
     if collecting s then do {
       skip_line;
       mod_dup (length (RepeatStack (prog s)) - 1) (\<lambda>d. d\<lparr>rep_Level := rep_Level d + 1\<rparr>) }
     else if isWhile then do {
       skip_line;
       (cond, val) \<leftarrow> while_condition (lp s);
       push_dup val (Some cond) [] }
     else do {
       a \<leftarrow> dup_arguments;
       (case a of None \<Rightarrow> ret () | Some (val, indexVar) \<Rightarrow> push_dup val None indexVar) } }"

definition dirDUP :: "unit M" where
  "dirDUP = DupWhileImplementation False"

definition dirWHILE :: "unit M" where
  "dirWHILE = DupWhileImplementation True"

definition while_holds :: "string \<Rightarrow> TextFilePos \<Rightarrow> bool M" where
  "while_holds cond pos = do {
     modify (\<lambda>s. s\<lparr>IsLabelNotFound := False\<rparr>);
     (r, rest) \<leftarrow> ParseExpressionNoSyntaxError cond;
     s \<leftarrow> State_Monad.get;
     if r = None \<or> cur rest \<noteq> NUL then do {
       set_pos pos;
       Error ''[WHILE] Syntax error in <expression>'' (Some cond) E_SUPPRESS;
       set_pos (last (sourcePosStack s));
       ret False }
     else if IsLabelNotFound s then do { WarningById W_FWD_REF (Some cond) W_EARLY; ret False }
     else ret (r \<noteq> Some 0) }"

definition shouldRepeat :: "nat \<Rightarrow> bool M" where
  "shouldRepeat k = do {
     dup \<leftarrow> gets (\<lambda>s. RepeatStack (prog s) ! k);
     mod_dup k (\<lambda>d. d\<lparr>RepeatCount := wrap32 (RepeatCount d - 1)\<rparr>);
     (case RepeatCondition dup of
        None \<Rightarrow> ret (0 \<le> wrap32 (RepeatCount dup - 1))
      | Some (cond, pos) \<Rightarrow>
          if RepeatCount dup = 0 then do {
            modify (\<lambda>s. s\<lparr>sourcePosStack := sourcePosStack s @ [pos]\<rparr>);
            Error ''[WHILE] infinite loop? (reaching the guardian value, default 100k)'' None E_PASS3;
            modify (\<lambda>s. s\<lparr>sourcePosStack := butlast (sourcePosStack s)\<rparr>);
            ret False }
          else while_holds cond pos) }"

text \<open>The lines of the block up to its end, which has no text.\<close>

primrec dup_lines :: "nat \<Rightarrow> (bool \<Rightarrow> unit M) \<Rightarrow> unit M" where
  "dup_lines 0 pl = out_of_fuel"
| "dup_lines (Suc n) pl = do {
     r \<leftarrow> gets srcs;
     (case (IsRunning r, lijstp r) of
        (True, (Some t, pos) # rest) \<Rightarrow> do {
          whenM (tfp_line pos \<noteq> 0) (set_pos pos);
          set_line t;
          mod_src (\<lambda>r. r\<lparr>lijstp := rest\<rparr>);
          ParseLineSafe pl;
          next_segment;
          dup_lines n pl }
      | _ \<Rightarrow> ret ()) }"

text \<open>The index variable gets the number of the round.\<close>

definition dup_index :: "string \<Rightarrow> aint \<Rightarrow> unit M" where
  "dup_index name i = do {
     (_, indexVar) \<leftarrow> ValidateLabel name False False;
     (case indexVar of
        None \<Rightarrow> ret ()
      | Some v \<Rightarrow> do {
          ok \<leftarrow> Insert v i LABEL_IS_DEFL LABEL_PAGE_UNDEFINED;
          p \<leftarrow> gets pass;
          whenM (\<not> ok \<and> i = 0 \<and> p = 1) (Error ''Duplicate label'' (Some v) E_EARLY) }) }"

primrec dup_rounds :: "nat \<Rightarrow> (bool \<Rightarrow> unit M) \<Rightarrow> nat \<Rightarrow> aint \<Rightarrow> unit M" where
  "dup_rounds 0 pl k i = out_of_fuel"
| "dup_rounds (Suc n) pl k i = do {
     running \<leftarrow> gets (\<lambda>s. IsRunning (srcs s));
     again \<leftarrow> (if running then shouldRepeat k else ret False);
     if \<not> again then ret ()
     else do {
       dup \<leftarrow> gets (\<lambda>s. RepeatStack (prog s) ! k);
       set_pos (rep_sourcePos dup);
       mod_src (\<lambda>r. r\<lparr>lijstp := rep_Lines dup\<rparr>);
       let name = line_text (fst (hd (rep_Lines dup)));
       whenM (name \<noteq> []) (dup_index name i);
       mod_src (\<lambda>r. r\<lparr>lijstp := tl (rep_Lines dup)\<rparr>);
       dup_lines (length (rep_Lines dup)) pl;
       dup_rounds n pl k (if name = [] then i else wrap32 (i + 1)) } }"

text \<open>Every round lowers the counter, which is 32 bit wide and ends the loop at zero at the latest.\<close>

definition rounds_fuel :: "SRepeatStack \<Rightarrow> nat" where
  "rounds_fuel dup = nat (RepeatCount dup mod 4294967296) + 1"

text \<open>The last line of the block is the EDUP, it gets no text. Behind the block the lines go on after it.\<close>

definition dup_enter :: "nat \<Rightarrow> unit M" where
  "dup_enter k = do {
     mod_dup k (\<lambda>d. d\<lparr>IsInWork := True, rep_Lines := butlast (rep_Lines d) @ [(None, snd (last (rep_Lines d)))]\<rparr>);
     mod_prog (\<lambda>g. g\<lparr>listmacro := listmacro g + 1\<rparr>);
     mod_src (\<lambda>r. r\<lparr>lijst := lijst r + 1\<rparr>) }"

definition dup_leave :: "asm \<Rightarrow> unit M" where
  "dup_leave s = do {
     set_pos (last (sourcePosStack s));
     mod_prog (\<lambda>g. g\<lparr>RepeatStack := butlast (RepeatStack g), listmacro := listmacro g - 1\<rparr>);
     mod_src (\<lambda>r. r\<lparr>lijstp := lijstp (srcs s), lijst := lijst r - 1\<rparr>);
     modify (\<lambda>t. t\<lparr>line := line s, substitutedLine := line s\<rparr>);
     count_line }"

definition run_dup :: "(bool \<Rightarrow> unit M) \<Rightarrow> nat \<Rightarrow> SRepeatStack \<Rightarrow> unit M" where
  "run_dup pl k dup = do {
     s \<leftarrow> State_Monad.get;
     dup_enter k;
     dup_rounds (rounds_fuel dup) pl k 0;
     dup_leave s }"

definition dirEDUP :: "(bool \<Rightarrow> unit M) \<Rightarrow> unit M" where
  "dirEDUP pl = do {
     s \<leftarrow> State_Monad.get;
     let st = RepeatStack (prog s);
     if \<not> collecting s then Error ''[EDUP/ENDR/ENDW] End repeat without repeat'' None E_PASS3
     else if rep_Level (last st) \<noteq> 0 then mod_dup (length st - 1) (\<lambda>d. d\<lparr>rep_Level := rep_Level d - 1\<rparr>)
     else run_dup pl (length st - 1) (last st) }"

definition dirENDM :: "(bool \<Rightarrow> unit M) \<Rightarrow> unit M" where
  "dirENDM pl = do {
     st \<leftarrow> gets (\<lambda>s. RepeatStack (prog s));
     if st \<noteq> [] then do {
       Warning ''ENDM used as DUP/REPT block terminator, this is deprecated (and bugged when used inside macro), change to EDUP or ENDR'' None W_PASS3;
       dirEDUP pl }
     else Error ''[ENDM] End macro without macro'' None E_PASS3 }"

end
