(* ===== verification/Sj_Program.thy ===== *)
theory Sj_Program
  imports Sj_Control
begin

text \<open>
  The remaining directives of directives.cpp, the table of directives, included files (sjio.cpp), and the whole program: a line may run other
  lines, through macros, repeated and conditional blocks and included files. The nesting of such lines is bounded by fuel, as it is bounded by the
  stack in the program. The passes of \<^verbatim>\<open>main\<close> (sjasm.cpp) are at the end.
\<close>

section \<open>Defines and arrays\<close>

definition rtrim_blanks :: "string \<Rightarrow> string" where
  "rtrim_blanks p = rev (dropWhile (\<lambda>c. c = CHR '' '') (rev p))"

definition dirDEFINE :: "unit M" where
  "dirDEFINE = do {
     l0 \<leftarrow> gets lp;
     let replaceEnabled = (cur l0 = CHR ''+'');
     whenM replaceEnabled (set_lp (drop 1 l0));
     id \<leftarrow> lexM GetID;
     s \<leftarrow> State_Monad.get;
     (case id of
        None \<Rightarrow> Error ''[DEFINE] Illegal <id>'' (Some (lp s)) E_SUPPRESS
      | Some n \<Rightarrow> do {
          let p = (if White (cur (lp s)) then drop 1 (lp s) else lp s);
          let v = (if eolComment (dg s) \<noteq> None then rtrim_blanks p else p);
          (if replaceEnabled then Replace_define n v else Add n v []);
          skip_line;
          modify (\<lambda>s. s\<lparr>substitutedLine := line s\<rparr>) }) }"

text \<open>\<open>Remove\<close> on the state: the array of the define that was looked up last goes with it.\<close>

definition Remove_define :: "string \<Rightarrow> unit M" where
  "Remove_define name = mod_dg (\<lambda>d. case Remove (defs d) name of
     (removed, t) \<Rightarrow> if removed = 1 then d\<lparr>defs := t, DefArrayList := []\<rparr> else d\<lparr>defs := t\<rparr>)"

definition dirUNDEFINE :: "unit M" where
  "dirUNDEFINE = do {
     id \<leftarrow> lexM GetID;
     s \<leftarrow> State_Monad.get;
     let star = (cur (lp s) = CHR ''*'');
     if id = None \<and> \<not> star then Error ''[UNDEFINE] Illegal <id>'' (Some (lp s)) E_SUPPRESS
     else if star then do {
       set_lp (drop 1 (lp s));
       mod_dg (\<lambda>d. d\<lparr>defs := RemoveAll (defs d), DefArrayList := []\<rparr>) }
     else
       let n = line_text id in
       if FindDuplicate (defs (dg s)) n then Remove_define n
       else Warning ''[UNDEFINE] Identifier not found'' (Some n) W_PASS3 }"

primrec array_items :: "nat \<Rightarrow> string list \<Rightarrow> (bool \<times> string list) M" where
  "array_items 0 items = do { out_of_fuel; ret (False, items) }"
| "array_items (Suc n) items = do {
     itemLp \<leftarrow> gets lp;
     (ok, v, q) \<leftarrow> GetMacroArgumentValue itemLp;
     set_lp q;
     if \<not> ok then do { Error ''[DEFARRAY] Syntax error'' (Some itemLp) E_SUPPRESS; ret (False, items) }
     else do {
       c \<leftarrow> lexM anyComma;
       if c then array_items n (items @ [v])
       else do { eol \<leftarrow> lexM SkipBlanks; ret (eol, items @ [v]) } } }"

definition dirDEFARRAY_parseItems :: "(bool \<times> string list) M" where
  "dirDEFARRAY_parseItems = do { l \<leftarrow> gets lp; array_items (length l + 1) [] }"

fun chain_append :: "string \<Rightarrow> string list \<Rightarrow> define_entry list \<Rightarrow> define_entry list" where
  "chain_append name items [] = []"
| "chain_append name items ((n, v, nss) # es) =
     (if n = name then (n, v, nss @ items) # es else (n, v, nss) # chain_append name items es)"

text \<open>The items read so far are appended even when a later one is wrong. The list the table remembers starts at the last old item then.\<close>

definition dirDEFARRAY_add :: "string \<Rightarrow> unit M" where
  "dirDEFARRAY_add ident = do {
     Get ident;
     a \<leftarrow> gets (\<lambda>s. DefArrayList (dg s));
     if a = [] then do { Error ''[DEFARRAY+] unknown array <id>'' (Some ident) E_PASS3; skip_line }
     else do {
       (_, items) \<leftarrow> dirDEFARRAY_parseItems;
       mod_dg (\<lambda>d. d\<lparr>defs := (defs d)(bucket ident := chain_append ident items (defs d (bucket ident))), DefArrayList := last a # items\<rparr>) } }"

definition dirDEFARRAY :: "unit M" where
  "dirDEFARRAY = do {
     l0 \<leftarrow> gets lp;
     let plus = (cur l0 = CHR ''+'');
     let l1 = (if plus then drop 1 l0 else l0);
     set_lp l1;
     id \<leftarrow> (if White (cur l1) then lexM GetID else ret None);
     l \<leftarrow> gets lp;
     (case id of
        None \<Rightarrow> do { Error ''[DEFARRAY] Syntax error in <id>'' (Some l) E_PASS3; skip_line }
      | Some n \<Rightarrow> do {
          let q = skip_blanks l;
          if \<not> White (cur l) \<or> cur q = NUL then do {
            (if cur q = NUL then Error ''[DEFARRAY] must have at least one entry'' None E_PASS3
             else Error ''[DEFARRAY] missing space between <id> and first <item>'' (Some q) E_PASS3);
            skip_line }
          else do {
            set_lp q;
            if plus then dirDEFARRAY_add n
            else do {
              (ok, items) \<leftarrow> dirDEFARRAY_parseItems;
              if \<not> ok \<or> items = [] then ret () else Add n [] items } } }) }"

section \<open>Devices\<close>

text \<open>The arguments of DEFDEVICE. \<open>int_args n i\<close>: \<open>n\<close> arguments are left, the next one has the index \<open>i\<close>.\<close>

primrec int_args :: "nat \<Rightarrow> nat \<Rightarrow> aint list \<Rightarrow> bool list \<Rightarrow> (bool \<times> aint list) M" where
  "int_args 0 i args argOptional = do { c \<leftarrow> lexM comma; ret (\<not> c, args) }"
| "int_args (Suc n) i args argOptional = do {
     c \<leftarrow> (if 0 < i then lexM comma else ret True);
     if \<not> c then ret (argOptional ! i, args)
     else do {
       r \<leftarrow> on_lp ParseExpression;
       (case r of
          None \<Rightarrow> ret (i = 0 \<and> argOptional ! i, args)
        | Some val \<Rightarrow> int_args n (i + 1) (args[i := val]) argOptional) } }"

definition getIntArguments :: "aint list \<Rightarrow> bool list \<Rightarrow> (bool \<times> aint list) M" where
  "getIntArguments args argOptional = int_args (length args) 0 args argOptional"

definition DEFDEVICE_SYNTAX_ERR :: string where
  "DEFDEVICE_SYNTAX_ERR =
     ''[DEFDEVICE] expected syntax is <deviceid>, <slot_size>, <page_count>[, <slot_0_initial_page>[, ...]]''"

text \<open>Both arrays have \<open>2 + MAX_SLOT_N\<close> elements, but the loop that prepares them ends at \<open>MAX_SLOT_N\<close>.\<close>

definition defdevice_args :: "aint list" where
  "defdevice_args = [0, 0] @ replicate (MAX_SLOT_N - 2) (-1) @ [0, 0]"

definition defdevice_optional :: "bool list" where
  "defdevice_optional = [False, False] @ replicate (MAX_SLOT_N - 2) True @ [False, False]"

text \<open>The initial pages of the slots: as given, or the next page, up to the last one.\<close>

primrec initial_pages :: "aint \<Rightarrow> aint list \<Rightarrow> int \<Rightarrow> int list M" where
  "initial_pages page_count [] previous = ret []"
| "initial_pages page_count (a # as) previous = do {
     page \<leftarrow> (if 0 \<le> a \<and> a < page_count then ret a
       else do {
         whenM (a \<noteq> -1) (ErrorInt ''[DEFDEVICE] invalid initial page'' a E_EARLY);
         ret (if previous < page_count - 1 then previous + 1 else previous) });
     rest \<leftarrow> initial_pages page_count as page;
     ret (page # rest) }"

definition new_device :: "string \<Rightarrow> aint list \<Rightarrow> unit M" where
  "new_device ident args = do {
     let dev = new_CDeviceDef ident (args ! 0) (nat (args ! 1));
     pages \<leftarrow> initial_pages (args ! 1) (take (nat (def_SlotsCount dev)) (drop 2 args)) (-1);
     mod_dv (\<lambda>d. d\<lparr>DefDevices := DefDevices d @
       [dev\<lparr>def_initialPages := pages @ drop (length pages) (def_initialPages dev)\<rparr>]\<rparr>) }"

definition define_device :: "string \<Rightarrow> unit M" where
  "define_device ident = do {
     c \<leftarrow> lexM anyComma;
     (ok, args) \<leftarrow> (if c then getIntArguments defdevice_args defdevice_optional else ret (False, []));
     b \<leftarrow> gets bp;
     if \<not> ok then Error DEFDEVICE_SYNTAX_ERR (Some b) E_EARLY
     else if args ! 0 < 256 \<or> 0x10000 < args ! 0 \<or> args ! 1 \<le> 0 \<or> 30000 < args ! 1 then
       Error ''[DEFDEVICE] valid slot_size: 256..64ki, page_count: 1..30000'' (Some b) E_EARLY
     else new_device ident args }"

definition dirDEFDEVICE :: "unit M" where
  "dirDEFDEVICE = do {
     id \<leftarrow> lexM GetID;
     s \<leftarrow> State_Monad.get;
     (case id of
        None \<Rightarrow> Error DEFDEVICE_SYNTAX_ERR (Some (bp s)) E_SUPPRESS
      | Some n \<Rightarrow>
          if list_ex (\<lambda>el. strcasecmp_eq n (def_ID el)) (DefDevices (dv s)) \<or> 1 < pass s then do {
            whenM (pass s \<le> 1) (Error ''[DEFDEVICE] device with such ID is already defined'' (Some n) E_EARLY);
            skip_line }
          else define_device n) }"

definition set_named_device :: "string \<Rightarrow> aint \<Rightarrow> unit M" where
  "set_named_device ident ramtop = do {
     s \<leftarrow> State_Monad.get;
     ok \<leftarrow> (if 1 < deviceDirectivesCount (prog s) \<or> Devices (dv s) = [] then SetDevice (Some ident) ramtop else ret True);
     whenM (\<not> ok) (Error ''[DEVICE] Invalid parameter'' (Some ident) E_IF_FIRST) }"

definition dirDEVICE :: "unit M" where
  "dirDEVICE = do {
     mod_prog (\<lambda>g. g\<lparr>deviceDirectivesCount := wrap32 (deviceDirectivesCount g + 1)\<rparr>);
     id \<leftarrow> lexM GetID;
     s \<leftarrow> State_Monad.get;
     (case id of
        None \<Rightarrow> Error ''[DEVICE] Syntax error in <deviceid>'' (Some (lp s)) E_SUPPRESS
      | Some n \<Rightarrow> do {
          c \<leftarrow> lexM anyComma;
          r \<leftarrow> (if c then on_lp ParseExpressionNoSyntaxError else ret (Some 0));
          (case r of
             None \<Rightarrow> Error ''[DEVICE] Syntax error'' (Some (bp s)) E_PASS3
           | Some ramtop \<Rightarrow>
               if c \<and> (ramtop < 0x5D00 \<or> 0xFFFF < ramtop) \<and> ramtop \<noteq> -1 then
                 ErrorInt ''[DEVICE] valid range for RAMTOP is $5D00..$FFFF'' ramtop E_PASS3
               else set_named_device n ramtop) }) }"

section \<open>Single directives\<close>

definition dirASSERT :: "unit M" where
  "dirASSERT = do {
     p \<leftarrow> gets lp;
     r \<leftarrow> on_lp ParseExpressionNoSyntaxError;
     (case r of
        None \<Rightarrow> Error ''[ASSERT] Syntax error'' (Some p) E_SUPPRESS
      | Some val \<Rightarrow> do {
          ps \<leftarrow> gets pass;
          whenM (ps = LASTPASS \<and> val = 0) (Error ''[ASSERT] Assertion failed'' (Some p) E_PASS3);
          c \<leftarrow> lexM comma;
          whenM c skip_line }) }"

text \<open>The error passes the number of the error type as the bad value, and the default type.\<close>

definition dirEND :: "unit M" where
  "dirEND = do {
     p \<leftarrow> gets lp;
     r \<leftarrow> on_lp ParseExpression;
     (case r of
        Some val \<Rightarrow>
          (if 65535 < val \<or> val < 0 then ErrorInt ''[END] Invalid address'' 4 E_PASS3
           else mod_prog (\<lambda>g. g\<lparr>StartAddress := val\<rparr>))
      | None \<Rightarrow> set_lp p);
     mod_src (\<lambda>r. r\<lparr>IsRunning := False\<rparr>) }"

definition ENCDOS :: int where "ENCDOS = 0"
definition ENCWIN :: int where "ENCWIN = 1"

definition dirENCODING :: "unit M" where
  "dirENCODING = do {
     arg \<leftarrow> on_lp GetDelimitedString;
     if fst (cmphstr ''dos'' False arg) then mod_prog (\<lambda>g. g\<lparr>ConvertEncoding := ENCDOS\<rparr>)
     else if fst (cmphstr ''win'' False arg) then mod_prog (\<lambda>g. g\<lparr>ConvertEncoding := ENCWIN\<rparr>)
     else Error (''[ENCODING] Invalid argument (valid values: '' @ [CHR 0x22] @ ''dos'' @ [CHR 0x22] @ '' and '' @ [CHR 0x22] @ ''win'' @
       [CHR 0x22] @ '')'') (Some arg) E_IF_FIRST }"

text \<open>An expression that cannot be parsed, also an empty one, sets its value to zero, so that the default is not used then.\<close>

definition dirHEXEND :: "unit M" where
  "dirHEXEND = do {
     s \<leftarrow> State_Monad.get;
     if pass s \<noteq> LASTPASS then skip_line
     else do {
       let start0 = StartAddress (prog s);
       r \<leftarrow> on_lp ParseExpression;
       start \<leftarrow> (case r of
           Some v \<Rightarrow>
             if v < -1 \<or> 0xFFFF < v then do { ErrorInt ''[HEXEND] Invalid address'' v E_IF_FIRST; ret start0 } else ret v
         | None \<Rightarrow> do { set_lp (lp s); ret 0 });
       f \<leftarrow> CloseHex start;
       whenM (f = None) (Error ''[HEXEND] HEX output was not active'' None E_PASS3) } }"

definition dirTAPEND :: "unit M" where
  "dirTAPEND = do {
     ps \<leftarrow> gets pass;
     whenM (ps = LASTPASS) (do { CloseTapFile; ret () }) }"

section \<open>Files\<close>

definition get_input_file :: "host \<Rightarrow> string M" where
  "get_input_file h = do {
     (name, delim) \<leftarrow> on_lp GetDelimitedStringEx;
     ret (input_file h name (Some delim)) }"

definition incbin_argument :: "string \<Rightarrow> aint option M" where
  "incbin_argument what = do {
     r \<leftarrow> on_lp ParseExpressionNoSyntaxError;
     b \<leftarrow> gets bp;
     whenM (r = None) (Error (''[INCBIN] Syntax error in <'' @ what @ ''>'') (Some b) E_SUPPRESS);
     ret r }"

text \<open>A second comma right behind the first one means that there is no offset, it is read again.\<close>

definition dirINCBIN :: "host \<Rightarrow> unit M" where
  "dirINCBIN h = do {
     file \<leftarrow> get_input_file h;
     let run = (\<lambda>offset len. BinIncFile file (map_option (map of_char) (file_contents h file)) offset len);
     c \<leftarrow> lexM anyComma;
     if \<not> c then run 0 INT_MAX
     else do {
       cc \<leftarrow> lexM anyComma;
       offset \<leftarrow> (if cc then ret (Some 0) else incbin_argument ''offset'');
       (case offset of
          None \<Rightarrow> ret ()
        | Some ofs \<Rightarrow> do {
            c2 \<leftarrow> (if cc then ret True else lexM anyComma);
            len \<leftarrow> (if c2 then incbin_argument ''length'' else ret (Some INT_MAX));
            (case len of None \<Rightarrow> ret () | Some n \<Rightarrow> run ofs n) }) } }"

definition Replace_define_int :: "string \<Rightarrow> aint \<Rightarrow> unit M" where
  "Replace_define_int name v = mod_dg (\<lambda>d. d\<lparr>defs := snd (Replace_int (defs d) name v)\<rparr>)"

text \<open>The lines of the current file.\<close>

primrec parse_file :: "nat \<Rightarrow> (bool \<Rightarrow> unit M) \<Rightarrow> unit M" where
  "parse_file 0 pl = out_of_fuel"
| "parse_file (Suc n) pl = do {
     r \<leftarrow> gets srcs;
     if \<not> IsRunning r \<or> rlbuf r = [] then ret ()
     else do { read_one_line True; pl True; parse_file n pl } }"

definition parse_contents :: "(bool \<Rightarrow> unit M) \<Rightarrow> string \<Rightarrow> unit M" where
  "parse_contents pl contents = do {
     start_file contents;
     modify (\<lambda>s. s\<lparr>line := []\<rparr>);
     r \<leftarrow> gets srcs;
     parse_file (lines_fuel r) pl;
     SizeBoundary BOUNDARY_MAIN }"

definition add_include_level :: "int \<Rightarrow> unit M" where
  "add_include_level n = mod_prog (\<lambda>g. g\<lparr>IncludeLevel := IncludeLevel g + n\<rparr>)"

definition enter_file :: "string \<Rightarrow> unit M" where
  "enter_file name = do {
     add_block_level 2;
     mod_prog (\<lambda>g. g\<lparr>fileNameFull := Some name\<rparr>);
     modify (\<lambda>s. s\<lparr>sourcePosStack := sourcePosStack s @ [newFile name]\<rparr>);
     lev \<leftarrow> gets (\<lambda>s. IncludeLevel (prog s));
     Replace_define_int ''__INCLUDE_LEVEL__'' lev;
     Replace_define ''__FILE__'' name;
     whenM (lev = 0) (Replace_define ''__BASE_FILE__'' name) }"

definition leave_file :: "prog_state \<Rightarrow> string \<Rightarrow> unit M" where
  "leave_file old name = do {
     add_block_level (-2);
     g \<leftarrow> gets prog;
     whenM (sldSwapSrcPos old \<noteq> sldSwapSrcPos g \<and> IncludeLevel g \<noteq> 0) (WarningById W_SLD_SWAP (Some name) W_PASS3);
     add_include_level (-1);
     modify (\<lambda>s. s\<lparr>sourcePosStack := butlast (sourcePosStack s)\<rparr>);
     mod_prog (\<lambda>g. g\<lparr>fileNameFull := fileNameFull old\<rparr>);
     Replace_define_int ''__INCLUDE_LEVEL__'' (IncludeLevel g - 1);
     Replace_define ''__FILE__'' (case fileNameFull old of Some f \<Rightarrow> f | None \<Rightarrow> ''<none>'');
     whenM (IncludeLevel g - 1 = -1) (Replace_define ''__BASE_FILE__'' ''<none>'') }"

definition OpenFile :: "host \<Rightarrow> (bool \<Rightarrow> unit M) \<Rightarrow> string \<Rightarrow> unit M" where
  "OpenFile h pl name = do {
     add_include_level 1;
     g \<leftarrow> gets prog;
     if 20 < IncludeLevel g then do { Error ''Over 20 files nested'' None E_ALL; add_include_level (-1) }
     else (case file_contents h name of
         None \<Rightarrow> do { Error ''opening file'' (Some name) E_ALL; add_include_level (-1) }
       | Some contents \<Rightarrow> do {
           enter_file name;
           parse_contents pl contents;
           leave_file g name }) }"

definition IncludeFile :: "host \<Rightarrow> (bool \<Rightarrow> unit M) \<Rightarrow> string \<Rightarrow> unit M" where
  "IncludeFile h pl name = do {
     r \<leftarrow> gets srcs;
     whenM (blockComment r \<noteq> 0) (Error (''Internal error '' @ [CHR 0x27] @ ''block comment'' @ [CHR 0x27]) None E_FATAL);
     OpenFile h pl name;
     mod_src (\<lambda>x. x\<lparr>colonSubline := colonSubline r, rlbuf := rlbuf r\<rparr>) }"

definition dirINCLUDE :: "host \<Rightarrow> (bool \<Rightarrow> unit M) \<Rightarrow> unit M" where
  "dirINCLUDE h pl = do {
     file \<leftarrow> get_input_file h;
     b \<leftarrow> gets bp;
     if file \<noteq> [] then IncludeFile h pl file
     else Error ''[INCLUDE] empty filename'' (Some b) E_PASS3 }"

end
