(* ===== verification/Sj_Control_Spec.thy ===== *)
theory Sj_Control_Spec
  imports Sj_Frame Sj_Program Sj_Z80_Term
begin

text \<open>
  The initial pages of a device defined by DEFDEVICE.
\<close>

section \<open>The initial pages of a device\<close>

lemma initial_pages_zero: "0 < p \<Longrightarrow> set bs \<subseteq> {0} \<Longrightarrow> run_state (initial_pages p bs prev) s = (bs, s)"
  by (induction bs arbitrary: prev) auto

lemma initial_pages_run:
  assumes "0 < p" "set bs \<subseteq> {0}" "prev < p"
  shows "run_state (initial_pages p (replicate n (-1) @ bs) prev) s = (map (\<lambda>i. min (prev + 1 + int i) (p - 1)) [0..<n] @ bs, s)"
  using assms(3)
proof (induction n arbitrary: prev)
  case 0
  then show ?case using initial_pages_zero [OF assms(1,2)] by simp
next
  case (Suc n)
  define q where "q = (if prev < p - 1 then prev + 1 else prev)"
  have q: "q < p" "q = min (prev + 1) (p - 1)" using Suc.prems by (auto simp: q_def)
  have "map (\<lambda>i. min (prev + 1 + int i) (p - 1)) [0..<Suc n] = q # map (\<lambda>i. min (q + 1 + int i) (p - 1)) [0..<n]"
    using q by (auto simp: upt_conv_Cons map_Suc_upt [symmetric] simp del: upt_Suc)
  then show ?case using Suc.IH [OF q(1)] by (simp add: q_def [symmetric] whenM_def)
qed

text \<open>Claim C40. A defect in the definition of devices: when no pages are given, the slots of a device of DEFDEVICE start with the pages 0, 1, 2, ... up to
  the last page of the device, but the slots 254 and 255 (of a device with slots of 256 bytes) start with page 0 in any case, for
  the loop that marks the arguments as not given ends two arguments too early.\<close>

theorem DEFDEVICE_initial_pages:
  assumes "256 \<le> z" "z \<le> 0x10000" "0 < p"
  shows "\<exists>d. run_state (new_device name (defdevice_args[0 := z, 1 := p])) s = ((), s\<lparr>dv := (dv s)\<lparr>DefDevices := DefDevices (dv s) @ [d]\<rparr>\<rparr>) \<and>
    def_ID d = name \<and> def_SlotSize d = z \<and> int (def_PagesCount d) = p \<and> (0x10000 + z - 1) div z = def_SlotsCount d \<and>
    (\<forall>i < nat (def_SlotsCount d). def_initialPages d ! i = (if i < 254 then min (int i) (p - 1) else 0))"
proof -
  define ar where "ar = defdevice_args[0 := z, 1 := p]"
  define n where "n = nat ((0x10000 + z - 1) div z)"
  have "(0x10000 + z - 1) div z \<le> (256 * z + (z - 1)) div z"
    using assms by (intro zdiv_mono1) auto
  also have "\<dots> = 256" using assms by (intro int_div_pos_eq [of _ z 256 "z - 1"]) auto
  finally have "(0x10000 + z - 1) div z \<le> 256" .
  then have n: "n \<le> 256" by (simp add: n_def)
  have a: "ar = [z, p] @ replicate 254 (-1) @ [0, 0]"
    by (simp add: ar_def defdevice_args_def)
  have "take n (drop 2 ar) = replicate (min n 254) (-1) @ take (n - 254) [0, 0]"
    unfolding a by simp
  moreover have "set (take (n - 254) [0, 0 :: int]) \<subseteq> {0}" by (auto dest: in_set_takeD)
  ultimately have r: "run_state (initial_pages p (take n (drop 2 ar)) (-1)) s =
      (map (\<lambda>i. min (int i) (p - 1)) [0..<min n 254] @ take (n - 254) [0, 0], s)"
    using initial_pages_run [OF assms(3)] assms(3) by simp
  have z: "ar ! 0 = z" "ar ! 1 = p" unfolding a by simp_all
  then have z1: "ar ! Suc 0 = p" and n1: "nat ((65535 + z) div z) = n" by (simp_all add: n_def)
  define dev where "dev = (new_CDeviceDef name z (nat p))\<lparr>def_initialPages :=
      map (\<lambda>i. min (int i) (p - 1)) [0..<min n 254] @ take (n - 254) [0, 0] @ drop n (replicate 256 0)\<rparr>"
  have "run_state (new_device name ar) s = ((), s\<lparr>dv := (dv s)\<lparr>DefDevices := DefDevices (dv s) @ [dev]\<rparr>\<rparr>)"
    using n by (simp add: new_device_def new_CDeviceDef_def dev_def z(1) z1 r n1)
  moreover have "def_initialPages dev ! i = (if i < 254 then min (int i) (p - 1) else 0)" if "i < n" for i
    using that n by (auto simp: dev_def nth_append nth_Cons' min_def)
  moreover have "def_ID dev = name" "def_SlotSize dev = z" "int (def_PagesCount dev) = p" "(0x10000 + z - 1) div z = def_SlotsCount dev"
    using assms(3) by (simp_all add: dev_def new_CDeviceDef_def)
  ultimately show ?thesis
    unfolding ar_def [symmetric] by (intro exI [of _ dev]) (simp add: n_def)
qed

theorem DEFDEVICE_initial_pages_witness:
  "\<exists>d. snd (run_state (new_device ''X'' (defdevice_args[0 := 256, 1 := 300])) asm0) = asm0\<lparr>dv := (dv asm0)\<lparr>DefDevices := DefDevices (dv asm0) @ [d]\<rparr>\<rparr> \<and>
    def_initialPages d ! 253 = 253 \<and> def_initialPages d ! 254 = 0 \<and> def_initialPages d ! 255 = 0"
proof -
  from DEFDEVICE_initial_pages [of 256 300 "''X''" asm0] obtain d where
    d: "run_state (new_device ''X'' (defdevice_args[0 := 256, 1 := 300])) asm0 = ((), asm0\<lparr>dv := (dv asm0)\<lparr>DefDevices := DefDevices (dv asm0) @ [d]\<rparr>\<rparr>)"
      "def_SlotsCount d = 256" "\<And>i. i < nat (def_SlotsCount d) \<Longrightarrow> def_initialPages d ! i = (if i < 254 then min (int i) (300 - 1) else 0)" by auto
  then show ?thesis by (intro exI [of _ d]) simp
qed

end
