(* ===== verification/Sj_Frame_Z80.thy ===== *)
theory Sj_Frame_Z80
  imports Sj_Frame Sj_Z80_Term
begin

text \<open>
  The frame of the Z80 instructions: assembling an instruction is a leaf, too, every entry of the instruction tables included.
\<close>

section \<open>Operands\<close>

lemma leaf_reg_part [leaf]:
  assumes "\<And>x. leafy (f2 x)"
  shows "leafy (reg_part f2 f3 p q)"
  unfolding reg_part_def by (intro leaf_rules leaf assms; simp)

lemma leaf_multi_args [leaf]:
  assumes "leafy (f5)"
  shows "leafy (multi_args f4 f5)"
  unfolding multi_args_def by (intro leaf_rules leaf assms; simp)

lemma leaf_err_here [leaf]:
  "leafy (err_here p o1 x0 x1)"
  "leafy condM"
  "leafy (fake bs)"
  "leafy commaM"
  unfolding err_here_def condM_def fake_def commaM_def
  by (intro leaf_rules leaf; simp)+

lemma leaf_emit_args [leaf]:
  assumes "leafy (f6)"
  shows "leafy (emit_args f4 f6)"
  unfolding emit_args_def by (intro leaf_rules leaf assms; simp)

lemma leaf_emit_break [leaf]:
  assumes "leafy (f7)"
  shows "leafy (emit_break f4 f7)"
  unfolding emit_break_def by (intro leaf_rules leaf assms; simp)

lemma leaf_GetByte [leaf]:
  "leafy (GetByte b p)"
  "leafy (GetIoPort p)"
  "leafy (GetWord p)"
  "leafy (z80GetIDxoffset p)"
  "leafy (GetAddress p)"
  unfolding GetByte_def GetIoPort_def GetWord_def z80GetIDxoffset_def GetAddress_def
  by (intro leaf_rules leaf; simp)+

lemma leaf_mem_operand [leaf]:
  assumes "\<And>x. leafy (f2 x)"
  shows "leafy (mem_operand f2 c p q)"
  unfolding mem_operand_def by (intro leaf_rules leaf assms; simp)

lemma leaf_GetByteNoMem [leaf]:
  "leafy (GetByteNoMem b p)"
  "leafy (GetWordNoMem p)"
  unfolding GetByteNoMem_def GetWordNoMem_def
  by (intro leaf_rules leaf; simp)+

lemma leaf_GetRegister_n [leaf]:
  "leafy (GetRegister_n n p)"
  by (induction n arbitrary: p) (auto intro!: leaf_rules leaf)

lemma leaf_GetRegister [leaf]:
  "leafy (GetRegister p)"
  unfolding GetRegister_def
  by (intro leaf_rules leaf; simp)+

lemma leaf_NeedIoC [leaf]:
  "leafy NeedIoC"
  "leafy getReg"
  unfolding NeedIoC_def getReg_def
  by (intro leaf_rules leaf; simp)+

section \<open>Arithmetic\<close>

lemma leaf_alu_bytes [leaf]:
  "leafy (alu_bytes i j)"
  "leafy (OpCode_CbFamily i b)"
  "leafy (adc_pairs i j)"
  "leafy (add_imm16 i)"
  "leafy (sbc_pairs i j)"
  "leafy (sub_pairs i j)"
  unfolding alu_bytes_def OpCode_CbFamily_def adc_pairs_def add_imm16_def sbc_pairs_def sub_pairs_def
  by (intro leaf_rules leaf; simp)+

lemma leaf_OpCode_DecInc [leaf]:
  "leafy (OpCode_DecInc i j)"
  "leafy (rot_pair i j i1 j1)"
  unfolding OpCode_DecInc_def rot_pair_def
  by (intro leaf_rules leaf; simp)+

lemma leaf_fake_rot [leaf]:
  assumes "\<And>x. leafy (f0 x)"
  shows "leafy (fake_rot i f0)"
  unfolding fake_rot_def by (intro leaf_rules leaf assms; simp)

lemma leaf_CommonAluOpcode [leaf]:
  "leafy (CommonAluOpcode i b b1)"
  "leafy (add_next i j bs)"
  "leafy OpCode_DEC"
  "leafy OpCode_INC"
  "leafy (bit_op i b)"
  "leafy (rot_op i)"
  unfolding CommonAluOpcode_def add_next_def OpCode_DEC_def OpCode_INC_def bit_op_def rot_op_def
  by (intro leaf_rules leaf; simp)+

lemma leaf_rl_pair [leaf]:
  "leafy (rl_pair i)"
  "leafy (rr_pair i)"
  "leafy (sla_pair i)"
  "leafy (sll_pair i)"
  "leafy (sra_pair i)"
  "leafy (srl_pair i)"
  unfolding rl_pair_def rr_pair_def sla_pair_def sll_pair_def sra_pair_def srl_pair_def
  by (intro leaf_rules leaf; simp)+

lemma leaf_alu16 [leaf]:
  assumes "\<And>x y. leafy (f1 x y)"
  shows "leafy (alu16 p i b f1)"
  unfolding alu16_def by (intro leaf_rules leaf assms; simp)

lemma leaf_OpCode_SimpleAlu [leaf]:
  "leafy (OpCode_SimpleAlu i)"
  "leafy (add_pairs i j)"
  "leafy OpCode_BIT"
  "leafy OpCode_RES"
  "leafy OpCode_SET"
  "leafy OpCode_RLC"
  unfolding OpCode_SimpleAlu_def add_pairs_def OpCode_BIT_def OpCode_RES_def OpCode_SET_def OpCode_RLC_def
  by (intro leaf_rules leaf; simp)+

lemma leaf_OpCode_RRC [leaf]:
  "leafy OpCode_RRC"
  "leafy OpCode_RL"
  "leafy OpCode_RR"
  "leafy OpCode_SLA"
  "leafy OpCode_SLL"
  "leafy OpCode_SRA"
  unfolding OpCode_RRC_def OpCode_RL_def OpCode_RR_def OpCode_SLA_def OpCode_SLL_def OpCode_SRA_def
  by (intro leaf_rules leaf; simp)+

lemma leaf_OpCode_SRL [leaf]:
  "leafy OpCode_SRL"
  unfolding OpCode_SRL_def
  by (intro leaf_rules leaf; simp)+

lemma leaf_OpCode_ADC [leaf]:
  "leafy OpCode_ADC"
  "leafy OpCode_ADD"
  "leafy OpCode_SBC"
  "leafy OpCode_SUB"
  "leafy OpCode_AND"
  "leafy OpCode_CP"
  unfolding OpCode_ADC_def OpCode_ADD_def OpCode_SBC_def OpCode_SUB_def OpCode_AND_def OpCode_CP_def
  by (intro leaf_rules leaf; simp)+

lemma leaf_OpCode_OR [leaf]:
  "leafy OpCode_OR"
  "leafy OpCode_XOR"
  unfolding OpCode_OR_def OpCode_XOR_def
  by (intro leaf_rules leaf; simp)+

section \<open>Jumps\<close>

lemma leaf_pop_regs [leaf]:
  "leafy (pop_regs n)"
  by (induction n) (auto intro!: leaf_rules leaf)

lemma leaf_getAddr [leaf]:
  "leafy getAddr"
  "leafy (cond_opcode p i j)"
  "leafy jp_register"
  "leafy (rel_byte p i)"
  "leafy rel_resolve"
  "leafy OpCode_RET"
  unfolding getAddr_def cond_opcode_def jp_register_def rel_byte_def rel_resolve_def OpCode_RET_def
  by (intro leaf_rules leaf; simp)+

lemma leaf_OpCode_RST [leaf]:
  "leafy OpCode_RST"
  "leafy mem_sp"
  "leafy OpCode_IM"
  "leafy OpCode_IN"
  "leafy OpCode_OUT"
  "leafy (OpCode_POPone i)"
  unfolding OpCode_RST_def mem_sp_def OpCode_IM_def OpCode_IN_def OpCode_OUT_def OpCode_POPone_def
  by (intro leaf_rules leaf; simp)+

lemma leaf_pop_all [leaf]:
  "leafy (pop_all bs)"
  by (induction bs) (auto intro!: leaf_rules leaf)

lemma leaf_imm16 [leaf]:
  "leafy (imm16 i)"
  "leafy OpCode_DJNZ"
  "leafy OpCode_JR"
  "leafy ex_first"
  "leafy (ex_second i)"
  "leafy OpCode_POPnormal"
  unfolding imm16_def OpCode_DJNZ_def OpCode_JR_def ex_first_def ex_second_def OpCode_POPnormal_def
  by (intro leaf_rules leaf; simp)+

lemma leaf_OpCode_CALL [leaf]:
  "leafy OpCode_CALL"
  "leafy OpCode_JP"
  "leafy OpCode_EX"
  "leafy OpCode_POPreverse"
  "leafy push_imm16"
  unfolding OpCode_CALL_def OpCode_JP_def OpCode_EX_def OpCode_POPreverse_def push_imm16_def
  by (intro leaf_rules leaf; simp)+

lemma leaf_OpCode_POP [leaf]:
  "leafy OpCode_POP"
  "leafy OpCode_PUSH"
  unfolding OpCode_POP_def OpCode_PUSH_def
  by (intro leaf_rules leaf; simp)+

section \<open>Loads\<close>

lemma leaf_after_comma [leaf]:
  assumes "leafy (f0)"
  shows "leafy (after_comma f0)"
  unfolding after_comma_def by (intro leaf_rules leaf assms; simp)

lemma leaf_ld_encode [leaf]:
  "leafy (ld_encode i j b i1 j1)"
  "leafy (ld_imm8 bs)"
  "leafy (ld_word bs i)"
  "leafy (warn_low b i)"
  "leafy (ixy_pair i j i1 j1)"
  "leafy ld_hl_sp"
  unfolding ld_encode_def ld_imm8_def ld_word_def warn_low_def ixy_pair_def ld_hl_sp_def
  by (intro leaf_rules leaf; simp)+

lemma leaf_closed [leaf]:
  "leafy (closed bs)"
  "leafy (ldx_mem_hl i j)"
  "leafy (ldx_mem_ixy i j i1)"
  "leafy (ldx_default i f1)"
  "leafy (two_bytes i j)"
  "leafy (lr_load i j)"
  unfolding closed_def ldx_mem_hl_def ldx_mem_ixy_def ldx_default_def two_bytes_def lr_load_def
  by (intro leaf_rules leaf; simp)+

lemma leaf_ldh_operands [leaf]:
  "leafy ldh_operands"
  unfolding ldh_operands_def
  by (intro leaf_rules leaf; simp)+

lemma leaf_case_ld [leaf]:
  "(\<And>e. leafy (f e)) \<Longrightarrow> leafy m \<Longrightarrow> (\<And>i j. leafy (g i j)) \<Longrightarrow> leafy (case x of LdDone e \<Rightarrow> f e | LdRetry \<Rightarrow> m | LdGo i j \<Rightarrow> g i j)"
  by (cases x) simp_all

lemma leaf_after_bracket [leaf]:
  assumes "leafy (f0)"
  shows "leafy (after_bracket f0)"
  unfolding after_bracket_def by (intro leaf_rules leaf assms; simp)

lemma leaf_LD_simple_r_r [leaf]:
  "leafy (LD_simple_r_r i)"
  "leafy (ld_a_value x2)"
  "leafy ld_mem_hl"
  "leafy (ld_mem_ixy i)"
  "leafy (ld_pair_value i)"
  "leafy (ld_ixy i)"
  unfolding LD_simple_r_r_def ld_a_value_def ld_mem_hl_def ld_mem_ixy_def ld_pair_value_def ld_ixy_def
  by (intro leaf_rules leaf; simp)+

lemma leaf_ld_to_address [leaf]:
  "leafy (ld_to_address i j)"
  "leafy (ldd_r i)"
  "leafy (ldi_pair i)"
  "leafy ldi_mem_hl"
  "leafy (ldi_mem_ixy i)"
  "leafy OpCode_LR35902_LDD"
  unfolding ld_to_address_def ldd_r_def ldi_pair_def ldi_mem_hl_def ldi_mem_ixy_def OpCode_LR35902_LDD_def
  by (intro leaf_rules leaf; simp)+

lemma leaf_OpCode_LR35902_LDI [leaf]:
  "leafy OpCode_LR35902_LDI"
  "leafy OpCode_LR35902_LDH"
  unfolding OpCode_LR35902_LDI_def OpCode_LR35902_LDH_def
  by (intro leaf_rules leaf; simp)+

lemma leaf_ld_a [leaf]:
  "leafy ld_a"
  "leafy (ld_pair i)"
  "leafy ld_to_mem"
  "leafy ldd_a"
  "leafy ldi_a"
  "leafy (ldi_r i)"
  unfolding ld_a_def ld_pair_def ld_to_mem_def ldd_a_def ldi_a_def ldi_r_def
  by (intro leaf_rules leaf; simp)+

lemma leaf_ld_other [leaf]:
  "leafy (ld_other i)"
  "leafy ldd_body"
  "leafy ldi_body"
  unfolding ld_other_def ldd_body_def ldi_body_def
  by (intro leaf_rules leaf; simp)+

lemma leaf_OpCode_LD [leaf]:
  "leafy OpCode_LD"
  "leafy OpCode_LDD"
  "leafy OpCode_LDI"
  unfolding OpCode_LD_def OpCode_LDD_def OpCode_LDI_def
  by (intro leaf_rules leaf; simp)+

section \<open>Instruction tables\<close>

lemma leaf_z80n [leaf]:
  assumes "leafy (f0)"
  shows "leafy (z80n f0)"
  unfolding z80n_def by (intro leaf_rules leaf assms; simp)

lemma leaf_cspect [leaf]:
  assumes "leafy (f0)" "leafy (f0a)"
  shows "leafy (cspect p q f0 f0a)"
  unfolding cspect_def by (intro leaf_rules leaf assms; simp)

lemma leaf_OpCode_CCF [leaf]:
  "leafy OpCode_CCF"
  "leafy OpCode_CPL"
  "leafy OpCode_DAA"
  "leafy OpCode_DI"
  "leafy OpCode_EI"
  "leafy OpCode_EXA"
  unfolding OpCode_CCF_def OpCode_CPL_def OpCode_DAA_def OpCode_DI_def OpCode_EI_def OpCode_EXA_def
  by (intro leaf_rules leaf; simp)+

lemma leaf_OpCode_EXD [leaf]:
  "leafy OpCode_EXD"
  "leafy OpCode_EXX"
  "leafy OpCode_HALT"
  "leafy OpCode_NOP"
  "leafy OpCode_RLA"
  "leafy OpCode_RLCA"
  unfolding OpCode_EXD_def OpCode_EXX_def OpCode_HALT_def OpCode_NOP_def OpCode_RLA_def OpCode_RLCA_def
  by (intro leaf_rules leaf; simp)+

lemma leaf_OpCode_RRA [leaf]:
  "leafy OpCode_RRA"
  "leafy OpCode_RRCA"
  "leafy OpCode_SCF"
  "leafy OpCode_CPD"
  "leafy OpCode_CPDR"
  "leafy OpCode_CPI"
  unfolding OpCode_RRA_def OpCode_RRCA_def OpCode_SCF_def OpCode_CPD_def OpCode_CPDR_def OpCode_CPI_def
  by (intro leaf_rules leaf; simp)+

lemma leaf_OpCode_CPIR [leaf]:
  "leafy OpCode_CPIR"
  "leafy OpCode_IND"
  "leafy OpCode_INDR"
  "leafy OpCode_INI"
  "leafy OpCode_INIR"
  "leafy OpCode_INF"
  unfolding OpCode_CPIR_def OpCode_IND_def OpCode_INDR_def OpCode_INI_def OpCode_INIR_def OpCode_INF_def
  by (intro leaf_rules leaf; simp)+

lemma leaf_OpCode_LDDR [leaf]:
  "leafy OpCode_LDDR"
  "leafy OpCode_LDIR"
  "leafy OpCode_NEG"
  "leafy OpCode_OTDR"
  "leafy OpCode_OTIR"
  "leafy OpCode_OUTD"
  unfolding OpCode_LDDR_def OpCode_LDIR_def OpCode_NEG_def OpCode_OTDR_def OpCode_OTIR_def OpCode_OUTD_def
  by (intro leaf_rules leaf; simp)+

lemma leaf_OpCode_OUTI [leaf]:
  "leafy OpCode_OUTI"
  "leafy OpCode_RETI"
  "leafy OpCode_RETN"
  "leafy OpCode_RLD"
  "leafy OpCode_RRD"
  "leafy (break_range p i)"
  unfolding OpCode_OUTI_def OpCode_RETI_def OpCode_RETN_def OpCode_RLD_def OpCode_RRD_def break_range_def
  by (intro leaf_rules leaf; simp)+

lemma leaf_mul_r800 [leaf]:
  "leafy (mul_r800 i f1)"
  "leafy OpCode_LR35902_STOP"
  "leafy InitNextExtensions"
  unfolding mul_r800_def OpCode_LR35902_STOP_def InitNextExtensions_def
  by (intro leaf_rules leaf; simp)+

lemma leaf_OpCode_Next_LDDRX [leaf]:
  "leafy OpCode_Next_LDDRX"
  "leafy OpCode_Next_LDDX"
  "leafy OpCode_Next_LDIRX"
  "leafy OpCode_Next_LDIX"
  "leafy OpCode_Next_LDPIRX"
  "leafy OpCode_Next_LDWS"
  unfolding OpCode_Next_LDDRX_def OpCode_Next_LDDX_def OpCode_Next_LDIRX_def OpCode_Next_LDIX_def OpCode_Next_LDPIRX_def OpCode_Next_LDWS_def
  by (intro leaf_rules leaf; simp)+

lemma leaf_OpCode_Next_OUTINB [leaf]:
  "leafy OpCode_Next_OUTINB"
  "leafy OpCode_Next_SETAE"
  "leafy (OpCode_Z80N_BarrelShifts i)"
  "leafy (only_a p i)"
  "leafy (opt_hl i)"
  "leafy OpCode_Next_MUL"
  unfolding OpCode_Next_OUTINB_def OpCode_Next_SETAE_def OpCode_Z80N_BarrelShifts_def only_a_def opt_hl_def OpCode_Next_MUL_def
  by (intro leaf_rules leaf; simp)+

lemma leaf_OpCode_Next_NEXTREG [leaf]:
  "leafy OpCode_Next_NEXTREG"
  "leafy OpCode_Next_TEST"
  "leafy OpCode_Next_BREAK"
  "leafy OpCode_Next_EXIT"
  "leafy OpCode_Next_SETBRK"
  "leafy OpCode_Next_CLRBRK"
  unfolding OpCode_Next_NEXTREG_def OpCode_Next_TEST_def OpCode_Next_BREAK_def OpCode_Next_EXIT_def OpCode_Next_SETBRK_def OpCode_Next_CLRBRK_def
  by (intro leaf_rules leaf; simp)+

lemma leaf_OpCode_MULUB [leaf]:
  "leafy OpCode_MULUB"
  "leafy OpCode_MULUW"
  unfolding OpCode_MULUB_def OpCode_MULUW_def
  by (intro leaf_rules leaf; simp)+

lemma leaf_OpCode_Next_BRLC [leaf]:
  "leafy OpCode_Next_BRLC"
  "leafy OpCode_Next_BSLA"
  "leafy OpCode_Next_BSRA"
  "leafy OpCode_Next_BSRF"
  "leafy OpCode_Next_BSRL"
  "leafy OpCode_Next_MIRROR"
  unfolding OpCode_Next_BRLC_def OpCode_Next_BSLA_def OpCode_Next_BSRA_def OpCode_Next_BSRF_def OpCode_Next_BSRL_def OpCode_Next_MIRROR_def
  by (intro leaf_rules leaf; simp)+

lemma leaf_OpCode_Next_SWAPNIB [leaf]:
  "leafy OpCode_Next_SWAPNIB"
  "leafy OpCode_Next_PIXELAD"
  "leafy OpCode_Next_PIXELDN"
  unfolding OpCode_Next_SWAPNIB_def OpCode_Next_PIXELAD_def OpCode_Next_PIXELDN_def
  by (intro leaf_rules leaf; simp)+

lemma leaf_tables:
  "list_all (\<lambda>(n, f). leafy f) (shared_instructions opt)" "list_all (\<lambda>(n, f). leafy f) z80_lr_instructions"
  "list_all (\<lambda>(n, f). leafy f) lr35902_instructions" "list_all (\<lambda>(n, f). leafy f) z80_instructions"
  "list_all (\<lambda>(n, f). leafy f) next_instructions"
  unfolding shared_instructions_def z80_lr_instructions_def lr35902_instructions_def z80_instructions_def next_instructions_def
    operandless_defs next_defs
  by (intro all_handlers leaf_rules leaf)+

lemma leaf_OpCodeTable: "OpCodeTable s n = Some f \<Longrightarrow> leafy f"
proof -
  have e: "\<forall>f \<in> ran Map.empty. leafy f" by simp
  have "\<forall>f \<in> ran (Init opt). leafy f" for opt
    unfolding Init_def Let_def
    by (cases "IsI8080 opt"; cases "IsLR35902 opt"; simp only: if_True if_False simp_thms)
      (rule insert_all_ran [OF leaf_tables(1) e]
        insert_all_ran [OF leaf_tables(3) insert_all_ran [OF leaf_tables(2) insert_all_ran [OF leaf_tables(1) e]]]
        insert_all_ran [OF leaf_tables(4) insert_all_ran [OF leaf_tables(2) insert_all_ran [OF leaf_tables(1) e]]])+
  then have "\<forall>f \<in> ran (OpCodeTable s). leafy f"
    unfolding OpCodeTable_def
    by (cases "nextExtensions s"; simp only: if_True if_False) (rule insert_all_ran [OF leaf_tables(5)])
  then show "OpCodeTable s n = Some f \<Longrightarrow> leafy f" by (auto simp only: ran_def)
qed

lemma leaf_GetOpCode [leaf]: "leafy GetOpCode"
proof -
  define body where "body n table = (case (case n of None \<Rightarrow> None | Some name \<Rightarrow> zoek name table) of
        None \<Rightarrow> do { b \<leftarrow> gets bp; Error ''Unrecognized instruction'' (Some b) E_PASS3; skip_line }
      | Some handler \<Rightarrow> do { handler; checkAndWarn False; ret () })" for n and table :: "unit M function_map"
  have body: "leafy (body n (OpCodeTable s))" for n s
    unfolding body_def by (auto split: option.split simp: zoek_def intro!: leaf_rules leaf dest: leaf_OpCodeTable)
  have table: "leafy (gets OpCodeTable \<bind> body n)" for n
    by (intro lf.io_gets_bind body)
  show ?thesis
    unfolding GetOpCode_def body_def [symmetric]
    by (intro lf.io_bind [OF leaf_modify] lf.io_bind [OF lf.io_gets] lf.io_bind [OF lf.io_lexM] table; simp)
qed

end
