(* ===== verification/Sj_Layout.thy ===== *)
theory Sj_Layout
  imports Sj_Struct_Def "HOL-Library.Sublist"
begin

text \<open>
  When the table of structures is well-formed: unique names under their hash, and members laid out one behind the other. The operations on the
  table keep it.
\<close>

section \<open>Laid out structures\<close>

text \<open>The length of a member goes with its type; a definition never contains ALIGN itself.\<close>

definition member_ok :: "CStructureEntry2 \<Rightarrow> bool" where
  "member_ok e \<longleftrightarrow>
     (case se_type e of
        SMEMBBYTE \<Rightarrow> se_len e = 1 | SMEMBWORD \<Rightarrow> se_len e = 2 | SMEMBD24 \<Rightarrow> se_len e = 3 | SMEMBDWORD \<Rightarrow> se_len e = 4
      | SMEMBTEXT \<Rightarrow> se_len e = int (length (se_text e)) | SMEMBPARENOPEN \<Rightarrow> se_len e = 0 | SMEMBPARENCLOSE \<Rightarrow> se_len e = 0
      | SMEMBBLOCK \<Rightarrow> True | _ \<Rightarrow> False)"

text \<open>Every member starts where the one before ends.\<close>

primrec laid_out :: "aint \<Rightarrow> CStructureEntry2 list \<Rightarrow> aint \<Rightarrow> bool" where
  "laid_out ofs [] fin \<longleftrightarrow> fin = ofs"
| "laid_out ofs (e # es) fin \<longleftrightarrow> se_offset e = ofs \<and> member_ok e \<and> laid_out (wrap32 (ofs + se_len e)) es fin"

definition struct_ok :: "CStructure \<Rightarrow> bool" where
  "struct_ok st \<longleftrightarrow> laid_out 0 (st_members st) (noffset st)"

definition table_ok :: "(nat \<Rightarrow> CStructure list) \<Rightarrow> bool" where
  "table_ok t \<longleftrightarrow> (\<forall>b. distinct (map st_naam (t b)) \<and> (\<forall>st \<in> set (t b). bucket (st_naam st) = b \<and> struct_ok st))"

definition structs_ok :: "prog_state \<Rightarrow> bool" where
  "structs_ok g \<longleftrightarrow> table_ok (strs g)"

lemma laid_out_append: "laid_out ofs (xs @ [e]) fin \<longleftrightarrow> (\<exists>m. laid_out ofs xs m \<and> se_offset e = m \<and> member_ok e \<and> fin = wrap32 (m + se_len e))"
  by (induction xs arbitrary: ofs) auto

lemma laid_out_members: "laid_out ofs es fin \<Longrightarrow> e \<in> set es \<Longrightarrow> member_ok e"
  by (induction es arbitrary: ofs) auto

lemma struct_ok_AddMember:
  assumes "struct_ok st" "se_offset (entry (noffset st)) = noffset st" "member_ok (entry (noffset st))"
  shows "struct_ok (AddMember entry st)"
  using assms by (simp add: struct_ok_def AddMember_def Let_def laid_out_append)

lemma struct_ok_cong: "st_members st' = st_members st \<Longrightarrow> noffset st' = noffset st \<Longrightarrow> struct_ok st' = struct_ok st"
  by (simp add: struct_ok_def)

lemma AddMember_naam [simp]: "st_naam (AddMember entry st) = st_naam st"
  by (simp add: AddMember_def Let_def)

lemma CopyLabel_same [simp]: "st_naam (CopyLabel n a st) = st_naam st" "struct_ok (CopyLabel n a st) = struct_ok st"
  by (simp_all add: CopyLabel_def struct_ok_def)

lemma CopyLabels_same [simp]: "st_naam (CopyLabels p src st) = st_naam st" "struct_ok (CopyLabels p src st) = struct_ok st"
proof -
  have "st_naam (foldl (\<lambda>d l. CopyLabel (f l) (se1_offset l) d) st ls) = st_naam st \<and>
      struct_ok (foldl (\<lambda>d l. CopyLabel (f l) (se1_offset l) d) st ls) = struct_ok st" for f ls
    by (induction ls arbitrary: st) simp_all
  from this [of _ "st_labels src"] this [of "\<lambda>l. the p @ ''.'' @ se1_naam l" "st_labels src"] show "st_naam (CopyLabels p src st) = st_naam st" "struct_ok (CopyLabels p src st) = struct_ok st"
    by (auto simp: CopyLabels_def split: option.split)
qed

text \<open>The table changes by changing one structure, or by adding a new one in front.\<close>

definition grows :: "(CStructure \<Rightarrow> CStructure) \<Rightarrow> bool" where
  "grows f \<longleftrightarrow> (\<forall>st. st_naam (f st) = st_naam st \<and> (struct_ok st \<longrightarrow> struct_ok (f st)))"

lemma structs_ok_map:
  assumes "grows f" "structs_ok g"
  shows "structs_ok (g\<lparr>strs := (strs g)(b := map (\<lambda>st. if st_naam st = n then f st else st) (strs g b))\<rparr>)"
proof -
  let ?h = "\<lambda>st. if st_naam st = n then f st else st"
  have n: "map st_naam (map ?h xs) = map st_naam xs" for xs
    using assms(1) by (simp add: grows_def)
  show ?thesis
    using assms by (auto simp: structs_ok_def table_ok_def grows_def n simp del: map_map)
qed

lemma no_duplicate: "\<not> struct_FindDuplicate n g \<Longrightarrow> st \<in> set (strs g (bucket n)) \<Longrightarrow> st_naam st \<noteq> n"
  by (auto simp: struct_FindDuplicate_def struct_find_def find_None_iff)

lemma structs_ok_new:
  assumes "structs_ok g" "\<not> struct_FindDuplicate (st_naam st) g" "struct_ok st"
  shows "structs_ok (g\<lparr>strs := (strs g)(bucket (st_naam st) := st # strs g (bucket (st_naam st)))\<rparr>)"
proof -
  have "st_naam st \<notin> st_naam ` set (strs g (bucket (st_naam st)))" using no_duplicate [OF assms(2)] by force
  then show ?thesis using assms(1,3) by (simp add: structs_ok_def table_ok_def)
qed

lemma grows_AddMember:
  "(\<And>ofs. se_offset (entry ofs) = ofs) \<Longrightarrow> (\<And>ofs. member_ok (entry ofs)) \<Longrightarrow> grows (AddMember entry)"
  by (simp add: grows_def struct_ok_AddMember)

lemma struct_find_ok: "structs_ok g \<Longrightarrow> struct_find n g = Some st \<Longrightarrow> struct_ok st \<and> st_naam st = n"
proof -
  assume a: "structs_ok g" "struct_find n g = Some st"
  then have "st \<in> set (strs g (bucket n))" "st_naam st = n" by (auto simp: struct_find_def find_Some_iff)
  then show "struct_ok st \<and> st_naam st = n" using a(1) by (auto simp: structs_ok_def table_ok_def)
qed

lemma struct_zoek_ok: "structs_ok (prog s) \<Longrightarrow> struct_zoek n gl s = Some st \<Longrightarrow> struct_ok st"
  by (auto simp: struct_zoek_def Let_def split: option.splits if_splits dest: struct_find_ok)

end
