(* ===== verification/Sj_Context.thy ===== *)
theory Sj_Context
  imports Sj_Frame_Z80 Sj_Layout
begin

text \<open>
  The context of a line and the operations that leave it as it was: \<open>kept\<close> is what every step of a pass keeps, \<open>ctx_rel\<close> adds the scopes, positions
  and nesting depths around a line. Every leaf (\<open>leafy\<close>) keeps both; here are the sources, the lines and the structures.
\<close>

text \<open>What is kept during a pass.\<close>

definition kept :: "bool \<Rightarrow> asm \<Rightarrow> asm \<Rightarrow> bool" where
  "kept C s s' \<longleftrightarrow> ErrorCount (dg s) \<le> ErrorCount (dg s') \<and> (halted s \<noteq> Running \<longrightarrow> halted s' \<noteq> Running) \<and>
     (C \<and> structs_ok (prog s) \<longrightarrow> structs_ok (prog s'))"

definition progress :: "bool \<Rightarrow> asm \<Rightarrow> asm \<Rightarrow> bool" where
  "progress C s s' \<longleftrightarrow> kept C s s' \<and> pass s' = pass s \<and> macs (prog s) \<subseteq>\<^sub>m macs (prog s') \<and> (IsRunning (srcs s') \<longrightarrow> IsRunning (srcs s))"

definition context_of :: "asm \<Rightarrow> string option \<times> TextFilePos list \<times> int \<times> int \<times> int \<times> string option" where
  "context_of s = (macrolabp (labs s), butlast (sourcePosStack s), lijst (srcs s), listmacro (prog s), IncludeLevel (prog s), fileNameFull (prog s))"

text \<open>The blocks in work stay in work and in their places on the repeat stack; their counters are never raised, they only may be set to zero (an
  ELSE without IF does so).\<close>

definition block_rel :: "SRepeatStack \<Rightarrow> SRepeatStack \<Rightarrow> bool" where
  "block_rel d d' \<longleftrightarrow> IsInWork d' \<and> (RepeatCount d' = RepeatCount d \<or> RepeatCount d' = 0) \<and> (rep_Lines d \<noteq> [] \<longrightarrow> rep_Lines d' \<noteq> [])"

definition blocks_kept :: "SRepeatStack list \<Rightarrow> SRepeatStack list \<Rightarrow> bool" where
  "blocks_kept st st' \<longleftrightarrow> (\<forall>k < length st. IsInWork (st ! k) \<longrightarrow> k < length st' \<and> block_rel (st ! k) (st' ! k))"

lemma blocks_kept_refl [simp]: "blocks_kept st st"
  by (simp add: blocks_kept_def block_rel_def)

lemma blocks_kept_trans: "blocks_kept st st' \<Longrightarrow> blocks_kept st' st'' \<Longrightarrow> blocks_kept st st''"
  unfolding blocks_kept_def block_rel_def by metis

lemma blocks_kept_Nil [simp]: "blocks_kept [] st"
  by (simp add: blocks_kept_def)

lemma blocks_kept_append [simp]: "blocks_kept st (st @ ds)"
  by (auto simp: blocks_kept_def block_rel_def nth_append)

lemma blocks_kept_update:
  assumes "k < length st \<Longrightarrow> IsInWork (st ! k) \<Longrightarrow> block_rel (st ! k) d"
  shows "blocks_kept st (st[k := d])"
proof -
  have "block_rel (st ! j) (st[k := d] ! j)" if "j < length st" "IsInWork (st ! j)" for j
    using assms that by (cases "j = k") (simp_all add: block_rel_def)
  then show ?thesis by (simp add: blocks_kept_def)
qed

lemma blocks_kept_last:
  assumes "st \<noteq> [] \<Longrightarrow> IsInWork (last st) \<Longrightarrow> block_rel (last st) d"
  shows "blocks_kept st (butlast st @ [d])"
proof (cases "st = []")
  case False
  then have "butlast st @ [d] = st[length st - 1 := d]"
    by (metis list_update_length append_butlast_last_id length_butlast)
  then show ?thesis using assms False by (simp add: blocks_kept_update last_conv_nth)
qed simp

lemma blocks_kept_collect [simp]:
  "blocks_kept st (butlast st @ [(last st)\<lparr>rep_Lines := rep_Lines (last st) @ ls\<rparr>])"
  by (rule blocks_kept_last) (simp add: block_rel_def)

definition ctx_rel :: "bool \<Rightarrow> bool \<Rightarrow> bool \<Rightarrow> asm \<Rightarrow> asm \<Rightarrow> bool" where
  "ctx_rel A B C s s' \<longleftrightarrow> progress C s s' \<and> context_of s' = context_of s \<and>
     (A \<longrightarrow> suffix (lijstp (srcs s')) (lijstp (srcs s)) \<and> blocks_kept (RepeatStack (prog s)) (RepeatStack (prog s'))) \<and>
     (B \<and> macrolabp (labs s) \<noteq> None \<longrightarrow> macro_defs (srcs s') = macro_defs (srcs s))"

lemma kept_refl: "kept C s s" by (simp add: kept_def)
lemma kept_trans: "kept C s t \<Longrightarrow> kept C t u \<Longrightarrow> kept C s u" by (auto simp: kept_def)

lemma leaf_srcs:
  assumes "leaf_rel s s'"
  shows "IsRunning (srcs s') = IsRunning (srcs s)" "lijst (srcs s') = lijst (srcs s)" "lijstp (srcs s') = lijstp (srcs s)"
    "macro_defs (srcs s') = macro_defs (srcs s)"
proof -
  have "f ((srcs s')\<lparr>comlin := 0\<rparr>) = f ((srcs s)\<lparr>comlin := 0\<rparr>)" for f :: "source_state \<Rightarrow> 'b"
    using assms by (simp add: leaf_rel_def)
  from this [of IsRunning] this [of lijst] this [of lijstp] this [of macro_defs]
  show "IsRunning (srcs s') = IsRunning (srcs s)" "lijst (srcs s') = lijst (srcs s)" "lijstp (srcs s') = lijstp (srcs s)"
    "macro_defs (srcs s') = macro_defs (srcs s)" by simp_all
qed

interpretation kp: quiet_preorder "kept C" for C
  by unfold_locales (auto simp: kept_def leaf_rel_def)

lemmas ctx_defs = ctx_rel_def progress_def kept_def context_of_def structs_ok_def

interpretation cx: quiet_preorder "ctx_rel A B C" for A B C
proof (unfold_locales, goal_cases)
  case (1 s)
  then show ?case by (simp add: ctx_defs)
next
  case (2 s t u)
  then show ?case
    by (auto simp: ctx_rel_def progress_def context_of_def intro: kept_trans map_le_trans suffix_order.trans blocks_kept_trans)
next
  case (3 s s')
  have "context_of s' = context_of s" using 3 leaf_srcs [OF 3] by (simp add: context_of_def leaf_rel_def)
  moreover have "kept C s s'" using 3 by (rule kp.quiet)
  ultimately show ?case using 3 leaf_srcs [OF 3] by (simp add: ctx_rel_def progress_def leaf_rel_def)
qed

abbreviation ctxy :: "bool \<Rightarrow> bool \<Rightarrow> bool \<Rightarrow> 'a M \<Rightarrow> bool" where
  "ctxy A B C \<equiv> state_io_rel (ctx_rel A B C)"

named_theorems ctx \<open>operations that leave the context as it was\<close>

lemmas ctx_rules = cx.quiet_rules cx.io_modify

lemma ctx_cases [ctx]:
  "state_io_rel R m \<Longrightarrow> (\<And>t. state_io_rel R (f1 t)) \<Longrightarrow> (\<And>t. state_io_rel R (f2 t)) \<Longrightarrow> (\<And>t. state_io_rel R (f3 t)) \<Longrightarrow> state_io_rel R k1 \<Longrightarrow> state_io_rel R k2 \<Longrightarrow>
    state_io_rel R (case x of SkIf \<Rightarrow> m | SkEndif t \<Rightarrow> f1 t | SkElse t \<Rightarrow> f2 t | SkElseif t \<Rightarrow> f3 t | SkLua \<Rightarrow> k1 | SkOther \<Rightarrow> k2)"
  "state_io_rel R a1 \<Longrightarrow> state_io_rel R a2 \<Longrightarrow> state_io_rel R a3 \<Longrightarrow> state_io_rel R a4 \<Longrightarrow> state_io_rel R a5 \<Longrightarrow> state_io_rel R a6 \<Longrightarrow>
    state_io_rel R (case y of R_END \<Rightarrow> a1 | R_ELSE \<Rightarrow> a2 | R_ENDIF \<Rightarrow> a3 | R_ENDTEXTAREA \<Rightarrow> a4 | R_ENDM \<Rightarrow> a5 | R_ELSEIF \<Rightarrow> a6)"
  "state_io_rel R b1 \<Longrightarrow> state_io_rel R b2 \<Longrightarrow> state_io_rel R b3 \<Longrightarrow> state_io_rel R b4 \<Longrightarrow> state_io_rel R b5 \<Longrightarrow> state_io_rel R b6 \<Longrightarrow> state_io_rel R b7 \<Longrightarrow>
    state_io_rel R b8 \<Longrightarrow> state_io_rel R b9 \<Longrightarrow> state_io_rel R b10 \<Longrightarrow>
    state_io_rel R (case z of SMEMBUNKNOWN \<Rightarrow> b1 | SMEMBALIGN \<Rightarrow> b2 | SMEMBBYTE \<Rightarrow> b3 | SMEMBWORD \<Rightarrow> b4 | SMEMBBLOCK \<Rightarrow> b5 | SMEMBDWORD \<Rightarrow> b6
      | SMEMBD24 \<Rightarrow> b7 | SMEMBTEXT \<Rightarrow> b8 | SMEMBPARENOPEN \<Rightarrow> b9 | SMEMBPARENCLOSE \<Rightarrow> b10)"
  "(\<And>a. state_io_rel R (g1 a)) \<Longrightarrow> (\<And>b. state_io_rel R (g2 b)) \<Longrightarrow> state_io_rel R (case w of Inl a \<Rightarrow> g1 a | Inr b \<Rightarrow> g2 b)"
  by (simp_all split: skipped_line.split EReturn.split EStructureMembers.split sum.split)

lemmas ctx_leaf [ctx] = leaf [THEN cx.lift]
lemma line_leaves1 [ctx]:
  "ctxy A B C smart_smc" "ctxy A B C (temporary_label p i)" "ctxy A B C (label_expression b b1)" "ctxy A B C (label_sld p q b i j x0)" "ctxy A B C (touch_label p)" "ctxy A B C (Replace_define p q)"
  unfolding smart_smc_def temporary_label_def label_expression_def label_sld_def touch_label_def Replace_define_def
  by (intro ctx_rules ctx; simp add: ctx_defs Let_def)+
lemma line_leaves2 [ctx]:
  "ctxy A B C label_head" "ctxy A B C (last_pass_label p q b b1 i j i1)"
  unfolding label_head_def last_pass_label_def
  by (intro ctx_rules ctx; simp add: ctx_defs Let_def)+
lemma line_leaves3 [ctx]:
  "ctxy A B C (store_label p q b b1 i j i1)"
  unfolding store_label_def
  by (intro ctx_rules ctx; simp add: ctx_defs Let_def)+

section \<open>Sources\<close>

lemma ctx_skip_bom [ctx]:
  "ctxy A B C (skip_bom x0 p)"
  by (induction x0 arbitrary: p) (auto intro!: ctx_rules ctx)

lemma ctx_check_length [ctx]:
  "ctxy A B C (check_length p)"
  "ctxy A B C next_segment"
  "ctxy A B C (read_code_char b b1 p q)"
  "ctxy A B C count_line"
  "ctxy A B C (substitute_rest p)"
  unfolding check_length_def next_segment_def read_code_char_def count_line_def substitute_rest_def
  by (intro ctx_rules ctx; simp add: ctx_defs Let_def)+

lemma ctx_start_file [ctx]:
  "ctxy A B C (start_file p)"
  "ctxy A B C (read_char b b1 p q)"
  "ctxy A B C (end_branch x1 p)"
  unfolding start_file_def read_char_def end_branch_def
  by (intro ctx_rules ctx; simp add: ctx_defs Let_def)+

lemma ctx_read_chars [ctx]:
  "ctxy A B C (read_chars n b b1 b2 p q)"
  by (induction n arbitrary: b b1 b2 p q) (auto intro!: ctx_rules ctx)

lemma ctx_read_one_line [ctx]:
  "ctxy A B C (read_one_line b)"
  unfolding read_one_line_def
  by (intro ctx_rules ctx; simp add: ctx_defs Let_def)+

lemma ctx_ReadBufLine [ctx]:
  "ctxy A B C (ReadBufLine b)"
  unfolding ReadBufLine_def
  by (intro ctx_rules ctx; simp add: ctx_defs Let_def)+

lemma ctx_ReadLineNoMacro [ctx]:
  "ctxy A B C (ReadLineNoMacro b)"
  unfolding ReadLineNoMacro_def
  by (intro ctx_rules ctx; simp add: ctx_defs Let_def)+

lemma ctx_ReadLine [ctx]: "ctxy A B C (ReadLine b)"
proof -
  have n: "ctxy A B C (ReadLineNoMacro b)" by (intro ctx)
  have "ctx_rel A B C s (snd (run_state (ReadLine b) s))" for s
  proof -
    have c: "ctx_rel A B C s (snd (run_state (ReadLineNoMacro b) s))" using n by (simp add: state_io_rel_def)
    have d: "lijstp (srcs s) = x # ls \<Longrightarrow> ctx_rel A B C s (s\<lparr>sourcePosStack := butlast (sourcePosStack s) @ [pos], line := t, substitutedLine := t,
        dg := (dg s)\<lparr>eolComment := None\<rparr>, srcs := (srcs s)\<lparr>lijstp := ls\<rparr>\<rparr>)" for x ls pos t
      by (simp add: ctx_defs suffix_Cons)
    show ?thesis by (auto simp: ReadLine_def c d cx.R_refl split: list.split option.split)
  qed
  then show ?thesis by (simp add: state_io_rel_def)
qed

lemma ctx_read_block [ctx]:
  "ctxy A B C (read_block n p b x2)"
  by (induction n arbitrary: p b x2) (auto intro!: ctx_rules ctx)

lemma ctx_skip_lua [ctx]:
  "ctxy A B C (skip_lua n)"
  by (induction n) (auto intro!: ctx_rules ctx)

lemma ctx_ReadFileToCStringsList [ctx]:
  "ctxy A B C (ReadFileToCStringsList p)"
  unfolding ReadFileToCStringsList_def
  by (intro ctx_rules ctx; simp add: ctx_defs Let_def)+

lemma ctx_skip_lines [ctx]:
  "ctxy A B C (skip_lines n m)"
  by (induction n arbitrary: m) (auto intro!: ctx_rules ctx)

lemma ctx_SkipFile [ctx]:
  "ctxy A B C SkipFile"
  unfolding SkipFile_def
  by (intro ctx_rules ctx; simp add: ctx_defs Let_def)+

section \<open>Lines\<close>

lemma ctx_structure_at [ctx]:
  assumes "\<And>x y z w. ctxy A B C (f4 x y z w)"
  shows "ctxy A B C (structure_at f4 o1 p)"
  unfolding structure_at_def by (intro ctx_rules ctx assms; simp add: ctx_defs Let_def)

lemma ctx_ParseMacro [ctx]:
  assumes "\<And>x y. ctxy A B C (f5 x y)" "\<And>x y z w. ctxy A B C (f4 x y z w)"
  shows "ctxy A B C (ParseMacro f5 f4)"
  unfolding ParseMacro_def by (intro ctx_rules ctx assms; simp add: ctx_defs Let_def)

lemma ctx_ParseInstruction [ctx]:
  assumes "\<And>x. ctxy A B C (f6 x)"
  shows "ctxy A B C (ParseInstruction f6)"
  unfolding ParseInstruction_def by (intro ctx_rules ctx assms; simp add: ctx_defs Let_def)

lemma ctx_collect_line [ctx]:
  assumes "ctxy A B C (f7)"
  shows "ctxy A B C (collect_line f7)"
  unfolding collect_line_def by (intro ctx_rules ctx assms; simp add: ctx_defs Let_def)

lemma ctx_unless_eol [ctx]:
  assumes "ctxy A B C (f8)"
  shows "ctxy A B C (unless_eol f8)"
  unfolding unless_eol_def by (intro ctx_rules ctx assms; simp add: ctx_defs Let_def)

lemma ctx_parse_line_safe [ctx]:
  assumes "\<And>x. ctxy A B C (f9 x)"
  shows "ctxy A B C (parse_line_safe f9 b)"
  unfolding parse_line_safe_def by (intro ctx_rules ctx assms; simp add: ctx_defs Let_def)

lemma ctx_SetLastParsedLabel [ctx]:
  "ctxy A B C (SetLastParsedLabel o1)"
  "ctxy A B C (set_pos x3)"
  unfolding SetLastParsedLabel_def set_pos_def
  by (intro ctx_rules ctx; simp add: ctx_defs Let_def)+

lemma ctx_PrepareLine [ctx]:
  assumes "ctxy A B C (f7)"
  shows "ctxy A B C (PrepareLine f7)"
  unfolding PrepareLine_def by (intro ctx_rules ctx assms; simp add: ctx_defs Let_def)

lemma ctx_define_label [ctx]:
  "ctxy A B C (define_label p i b b1 j i1)"
  "ctxy A B C (cpp_filename h p)"
  unfolding define_label_def cpp_filename_def
  by (intro ctx_rules ctx; simp add: ctx_defs Let_def)+

lemma ctx_address_label [ctx]:
  assumes "\<And>x y z w. ctxy A B C (f4 x y z w)"
  shows "ctxy A B C (address_label f4 p i)"
  unfolding address_label_def by (intro ctx_rules ctx assms; simp add: ctx_defs Let_def)

lemma ctx_non_blank [ctx]:
  assumes "ctxy A B C (f7)"
  shows "ctxy A B C (non_blank n f7 p)"
  by (induction n arbitrary: p) (auto intro!: ctx_rules ctx assms)

lemma ctx_cpp_line [ctx]:
  "ctxy A B C (cpp_line h p)"
  unfolding cpp_line_def
  by (intro ctx_rules ctx; simp add: ctx_defs Let_def)+

lemma ctx_named_label [ctx]:
  assumes "\<And>x y z w. ctxy A B C (f4 x y z w)"
  shows "ctxy A B C (named_label f4 p i)"
  unfolding named_label_def by (intro ctx_rules ctx assms; simp add: ctx_defs Let_def)

lemma ctx_PrepareNonBlankMultiLine [ctx]:
  assumes "ctxy A B C (f7)"
  shows "ctxy A B C (PrepareNonBlankMultiLine f7 p)"
  unfolding PrepareNonBlankMultiLine_def by (intro ctx_rules ctx assms; simp add: ctx_defs Let_def)

lemma ctx_ParseCppLineDirective [ctx]:
  "ctxy A B C (ParseCppLineDirective h p)"
  unfolding ParseCppLineDirective_def
  by (intro ctx_rules ctx; simp add: ctx_defs Let_def)+

lemma ctx_ParseLabel [ctx]:
  assumes "\<And>x. ctxy A B C (f6 x)" "\<And>x y z w. ctxy A B C (f4 x y z w)"
  shows "ctxy A B C (ParseLabel h f6 f4)"
  unfolding ParseLabel_def by (intro ctx_rules ctx assms; simp add: ctx_defs Let_def)

lemma ctx_ParseLine [ctx]:
  assumes "\<And>x. ctxy A B C (f6 x)" "ctxy A B C (f7)" "\<And>x y. ctxy A B C (f5 x y)" "\<And>x y z w. ctxy A B C (f4 x y z w)"
  shows "ctxy A B C (ParseLine h f6 f7 f5 f4 b)"
  unfolding ParseLine_def by (intro ctx_rules ctx assms; simp add: ctx_defs Let_def)

section \<open>Structures in use\<close>

lemma ctx_mod_struct: "(C \<Longrightarrow> grows f) \<Longrightarrow> ctxy A B C (mod_struct naam f)"
  unfolding mod_struct_def
  by (rule cx.io_modify) (use structs_ok_map [of f] in \<open>simp add: ctx_rel_def progress_def kept_def context_of_def\<close>)

lemma ctx_close_braces [ctx]:
  assumes "ctxy A B C (f7)" "ctxy A B C (f8)"
  shows "ctxy A B C (close_braces f7 f8 n p)"
  by (induction n arbitrary: p) (auto intro!: ctx_rules ctx assms)

lemma ctx_emit_text [ctx]:
  "ctxy A B C (emit_text bs)"
  by (induction bs) (auto intro!: ctx_rules ctx)

lemma ctx_checked_value [ctx]:
  "ctxy A B C (checked_value x11 i)"
  "ctxy A B C (default_relocation e b x12)"
  "ctxy A B C (struct_text_item n bs p)"
  "ctxy A B C (set_label_size p i)"
  "ctxy A B C (check_struct_label p q i b)"
  "ctxy A B C (ParseDesignedAddress p)"
  unfolding checked_value_def default_relocation_def struct_text_item_def set_label_size_def check_struct_label_def ParseDesignedAddress_def
  by (intro ctx_rules ctx; simp add: ctx_defs Let_def)+

lemma ctx_struct_Add [ctx]: "ctxy A B C (struct_Add naam i)"
proof -
  have "ctx_rel A B C s (snd (run_state (struct_Add naam i) s))" for s
  proof (cases "struct_FindDuplicate naam (prog s)")
    case True
    have "ctxy A B C (Error m o1 t)" for m o1 t by (intro ctx)
    then show ?thesis using True by (simp add: struct_Add_def state_io_rel_def split_beta)
  next
    case False
    define st where "st = (if i = 0 then new_CStructure naam else AddMember (\<lambda>_. new_entry2 0 i (-1) REL_OFF SMEMBBLOCK) (new_CStructure naam))"
    have st: "st_naam st = naam" "struct_ok st"
      by (simp_all add: st_def new_CStructure_def struct_ok_def AddMember_def new_entry2_def member_ok_def)
    have same: "map (\<lambda>x. if st_naam x = naam then f x else x) (strs (prog s) (bucket naam)) = strs (prog s) (bucket naam)" for f
      using no_duplicate [OF False] by (intro map_idI) auto
    have "snd (run_state (struct_Add naam i) s) = s\<lparr>prog := (prog s)\<lparr>strs := (strs (prog s))(bucket naam := st # strs (prog s) (bucket naam))\<rparr>\<rparr>"
      using False by (simp add: struct_Add_def mod_struct_def same st_def) (simp add: new_CStructure_def)
    then show ?thesis
      using structs_ok_new [of "prog s" st] st False by (simp add: ctx_rel_def progress_def kept_def context_of_def)
  qed
  then show ?thesis by (simp add: state_io_rel_def)
qed

lemma ctx_struct_text_loop [ctx]:
  assumes "ctxy A B C (f7)"
  shows "ctxy A B C (struct_text_loop n f7 m bs p)"
  by (induction n arbitrary: m bs p) (auto intro!: ctx_rules ctx assms)

lemma ctx_each_member [ctx]:
  assumes "ctxy A B C (f7)" "ctxy A B C (f8)" "\<And>x y z w. ctxy A B C (f13 x y z w)"
  shows "ctxy A B C (each_member f7 f8 f13 es n p)"
  by (induction es arbitrary: n p) (auto intro!: ctx_rules ctx assms)

lemma ctx_ParseValue [ctx]:
  "ctxy A B C (ParseValue e p)"
  "ctxy A B C (insert_struct_label b b1 p b2 i b3)"
  unfolding ParseValue_def insert_struct_label_def
  by (intro ctx_rules ctx; simp add: ctx_defs Let_def)+

lemma ctx_GetStructText [ctx]:
  assumes "ctxy A B C (f7)"
  shows "ctxy A B C (GetStructText f7 n x14 p)"
  unfolding GetStructText_def by (intro ctx_rules ctx assms; simp add: ctx_defs Let_def)

lemma ctx_InsertSingleStructLabel [ctx]:
  "ctxy A B C (InsertSingleStructLabel b p b1 i b2)"
  unfolding InsertSingleStructLabel_def
  by (intro ctx_rules ctx; simp add: ctx_defs Let_def)+

lemma ctx_emit_member [ctx]:
  assumes "ctxy A B C (f7)"
  shows "ctxy A B C (emit_member f7 e b n p)"
  unfolding emit_member_def by (intro ctx_rules ctx assms; simp add: ctx_defs Let_def)

lemma ctx_InsertStructSubLabels [ctx]:
  "ctxy A B C (InsertStructSubLabels p b x15 i b1)"
  by (induction x15 arbitrary: p b i b1) (auto intro!: ctx_rules ctx)

lemma ctx_emitmembs [ctx]:
  assumes "ctxy A B C (f7)"
  shows "ctxy A B C (emitmembs f7 st p)"
  unfolding emitmembs_def by (intro ctx_rules ctx assms; simp add: ctx_defs Let_def)

lemma ctx_deflab [ctx]:
  "ctxy A B C (deflab st)"
  "ctxy A B C (emitlab st p i b)"
  unfolding deflab_def emitlab_def
  by (intro ctx_rules ctx; simp add: ctx_defs Let_def)+

lemma ctx_struct_Emit [ctx]:
  assumes "ctxy A B C (f7)"
  shows "ctxy A B C (struct_Emit f7 p o1 q b)"
  unfolding struct_Emit_def by (intro ctx_rules ctx assms; simp add: ctx_defs Let_def)

section \<open>Definition of structures\<close>

lemma ctx_rel_weaken: "ctx_rel A B C s s' \<Longrightarrow> ctx_rel A B False s s'"
  by (simp add: ctx_rel_def progress_def kept_def)

lemma ctx_rel_vacuous: "\<not> structs_ok (prog s) \<Longrightarrow> ctx_rel A B False s s' \<Longrightarrow> ctx_rel A B C s s'"
  by (simp add: ctx_rel_def progress_def kept_def)

lemma ctxy_weaken: "ctxy A B C m \<Longrightarrow> ctxy A B False m"
  by (auto simp: state_io_rel_def intro: ctx_rel_weaken)

lemma ctx_members [ctx]:
  "ctxy A B C (mod_struct naam (AddMember (\<lambda>ofs. new_text_entry2 ofs bs)))"
  "ctxy A B C (mod_struct naam (AddMember (\<lambda>ofs. new_entry2 ofs 1 j r SMEMBBYTE)))"
  "ctxy A B C (mod_struct naam (AddMember (\<lambda>ofs. new_entry2 ofs 2 j r SMEMBWORD)))"
  "ctxy A B C (mod_struct naam (AddMember (\<lambda>ofs. new_entry2 ofs 3 j r SMEMBD24)))"
  "ctxy A B C (mod_struct naam (AddMember (\<lambda>ofs. new_entry2 ofs 4 j r SMEMBDWORD)))"
  "ctxy A B C (mod_struct naam (AddMember (\<lambda>ofs. new_entry2 ofs i j r SMEMBBLOCK)))"
  "ctxy A B C (mod_struct naam (AddMember (\<lambda>ofs. new_entry2 ofs 0 j r SMEMBPARENOPEN)))"
  "ctxy A B C (mod_struct naam (AddMember (\<lambda>ofs. new_entry2 ofs 0 j r SMEMBPARENCLOSE)))"
  "ctxy A B C (mod_struct naam (AddLabel p))" "ctxy A B C (mod_struct naam (CopyLabels o1 src))"
  by (intro ctx_mod_struct grows_AddMember; simp add: new_entry2_def new_text_entry2_def member_ok_def grows_def AddLabel_def)+

lemma ctx_CopyMember:
  "(C \<Longrightarrow> member_ok e) \<Longrightarrow> se_type e \<noteq> SMEMBTEXT \<Longrightarrow> ctxy A B C (mod_struct naam (CopyMember e j r))"
  unfolding CopyMember_def
  by (intro ctx_mod_struct grows_AddMember; simp add: new_entry2_def member_ok_def split: EStructureMembers.splits)

lemma ctx_copy_member:
  assumes "ctxy A B C rept" "C \<Longrightarrow> member_ok e"
  shows "ctxy A B C (copy_member rept naam e b h p)"
proof -
  have a: "se_type e \<noteq> SMEMBTEXT \<Longrightarrow> ctxy A B C (mod_struct naam (CopyMember e j r))" for j r
    by (intro ctx_CopyMember assms(2))
  have "ctxy A B C (copy_item rept naam e b h p)"
    unfolding copy_item_def
    by (cases "se_type e"; simp only: EStructureMembers.case) (intro ctx_rules ctx a assms(1); simp)+
  then show ?thesis
    unfolding copy_member_def by (intro ctx_rules ctx)
qed

lemma ctx_copy_members:
  assumes "ctxy A B C rept" "\<And>e. C \<Longrightarrow> e \<in> set es \<Longrightarrow> member_ok e"
  shows "ctxy A B C (each_member rept (mod_rel (\<lambda>r. r\<lparr>isResultAffected := False\<rparr>)) (copy_member rept naam) es h p)"
  using assms(2)
proof (induction es arbitrary: h p)
  case Nil
  show ?case unfolding each_member.simps by (intro ctx_rules ctx assms(1); simp add: ctx_defs)
next
  case (Cons e es)
  have c: "ctxy A B C (copy_member rept naam e b h p)" for b h p
    by (rule ctx_copy_member [OF assms(1)]) (simp add: Cons.prems)
  have i: "ctxy A B C (each_member rept (mod_rel (\<lambda>r. r\<lparr>isResultAffected := False\<rparr>)) (copy_member rept naam) es h p)" for h p
    by (rule Cons.IH) (simp add: Cons.prems)
  show ?case unfolding each_member.simps
    by (intro ctx_rules c i ctx_PrepareNonBlankMultiLine assms(1); simp add: ctx_defs)
qed

lemma ctx_CopyMembers:
  assumes "ctxy A B C rept" "C \<Longrightarrow> struct_ok src"
  shows "ctxy A B C (CopyMembers rept naam src p)"
proof -
  have m: "C \<Longrightarrow> e \<in> set (st_members src) \<Longrightarrow> member_ok e" for e
    using assms(2) laid_out_members by (auto simp: struct_ok_def)
  show ?thesis
    unfolding CopyMembers_def by (intro ctx_rules ctx_copy_members ctx_leaf ctx_members assms(1) m)
qed

text \<open>The structure whose members are copied is in the table, and so it is laid out.\<close>

lemma ctx_nested_member [ctx]:
  assumes "ctxy A B C rept"
  shows "ctxy A B C (nested_member rept naam)"
proof -
  define body where "body src st pp s = do {
      let misalignment = wrap32 (NOT (noffset st) + 1) AND (maxAlignment src - 1);
      whenM (maxAlignment src \<noteq> 0 \<and> misalignment \<noteq> 0) (Warning (misaligned_text src misalignment) None W_PASS3);
      mod_struct naam (CopyLabels (PreviousIsLabel (prog s)) src);
      p \<leftarrow> CopyMembers rept naam src pp;
      set_lp p }" for src st :: CStructure and pp and s :: asm
  have b: "ctxy A B D (body src st pp s)" if "ctxy A B D rept" "D \<Longrightarrow> struct_ok src" for D src st pp s
    unfolding body_def by (intro ctx_rules ctx_leaf ctx_members ctx_CopyMembers that)
  have "ctx_rel A B C s (snd (run_state (body src st pp s) s))" if "struct_zoek n gl s = Some src" for n gl src st pp s
  proof (cases "structs_ok (prog s)")
    case True
    then have "struct_ok src" using struct_zoek_ok that by blast
    then show ?thesis using b [OF assms] by (simp add: state_io_rel_def)
  next
    case False
    then show ?thesis using b [OF ctxy_weaken [OF assms]] by (simp add: state_io_rel_def ctx_rel_vacuous)
  qed
  moreover have "ctx_rel A B C s (snd (run_state (do { Error m o1 t; skip_line }) s))" for m o1 t s
  proof -
    have "ctxy A B C (do { Error m o1 t; skip_line })" by (intro ctx_rules ctx_leaf)
    then show ?thesis by (simp add: state_io_rel_def)
  qed
  ultimately show ?thesis
    unfolding nested_member_def body_def [symmetric]
    by (intro cx.io_bind [OF cx.io_gets] cx.io_let cx.io_get_at; simp only: split: prod.split option.split if_split)
      (auto simp: cx.R_refl)
qed

lemma ctx_struct_member [ctx]:
  assumes "ctxy A B C rept"
  shows "ctxy A B C (ParseStructMember rept naam)"
proof -
  have a: "ctxy A B C (align_member p)" for p
    unfolding align_member_def
    by (intro ctx_rules ctx_mod_struct ctx_leaf)
      (auto simp: grows_def Let_def struct_ok_def AddMember_def laid_out_append new_entry2_def member_ok_def)
  show ?thesis
  unfolding ParseStructMember_def relocatable_member_def block_member_def text_member_def
  by (intro ctx_rules ctx_cases ctx_leaf ctx_members ctx_GetStructText ctx_nested_member a assms; simp add: ctx_defs)
qed

lemma ctx_ParseStructLine [ctx]:
  assumes "ctxy A B C rept"
  shows "ctxy A B C (ParseStructLine rept naam)"
proof -
  have "ctxy A B C (ParseStructLabel naam)"
    unfolding ParseStructLabel_def by (intro ctx_rules ctx; simp add: ctx_defs)
  then show ?thesis
    unfolding ParseStructLine_def by (intro ctx_rules ctx assms)
qed

lemma ctx_deflab_of [ctx]: "ctxy A B C (deflab_of o1)" "ctxy A B C dirENDS"
  unfolding deflab_of_def dirENDS_def by (intro ctx_rules ctx)+

lemma ctx_struct_lines [ctx]:
  assumes "ctxy A B C rept"
  shows "ctxy A B C (struct_lines n rept o1)"
proof (induction n arbitrary: o1)
  case (Suc n)
  show ?case unfolding struct_lines.simps by (intro ctx_rules ctx Suc assms; simp add: ctx_defs)
qed (simp add: cx.io_stop)

lemma ctx_dirSTRUCT [ctx]:
  assumes "ctxy A B C rept"
  shows "ctxy A B C (dirSTRUCT rept)"
  unfolding dirSTRUCT_def by (intro ctx_rules ctx assms; simp add: ctx_defs Let_def)

end
