(* ===== verification/Sj_Main.thy ===== *)
theory Sj_Main
  imports Sj_Program
begin

text \<open>
  The table of directives and their dispatch (directives.cpp), and the whole program: \<open>ParseLine_n\<close> ties the knot between a line and the lines it
  runs, \<open>assemble\<close> makes the three passes over the sources (sjasm.cpp).
\<close>

section \<open>The table of directives\<close>

definition insertd :: "string \<Rightarrow> 'f \<Rightarrow> 'f function_map \<Rightarrow> bool \<times> 'f function_map" where
  "insertd name f m =
     (case CFunctionTable_Insert (drop 1 name) f m of (ok, m1) \<Rightarrow> if ok then CFunctionTable_Insert name f m1 else (False, m1))"

fun insertd_all :: "(string \<times> 'f) list \<Rightarrow> 'f function_map \<Rightarrow> 'f function_map" where
  "insertd_all [] m = m"
| "insertd_all ((n, f) # fs) m = insertd_all fs (snd (insertd n f m))"

definition repeat_directives :: "(bool \<Rightarrow> unit M) \<Rightarrow> (string \<times> unit M) list" where
  "repeat_directives pl =
     [(''.dup'', dirDUP), (''.edup'', dirEDUP pl), (''.endm'', dirENDM pl), (''.endr'', dirEDUP pl), (''.endw'', dirEDUP pl),
      (''.rept'', dirDUP), (''.while'', dirWHILE)]"

definition DirectivesTable_dup :: "(bool \<Rightarrow> unit M) \<Rightarrow> unit M function_map" where
  "DirectivesTable_dup pl = insertd_all (repeat_directives pl) Map.empty"

definition ParseDirective_REPT :: "(bool \<Rightarrow> unit M) \<Rightarrow> bool M" where
  "ParseDirective_REPT pl = do {
     olp \<leftarrow> gets lp;
     modify (\<lambda>s. s\<lparr>bp := lp s\<rparr>);
     x \<leftarrow> gets (\<lambda>s. syx (opts s));
     n \<leftarrow> lexM (getinstr x);
     (case (case n of None \<Rightarrow> None | Some name \<Rightarrow> zoek name (DirectivesTable_dup pl)) of
        Some f \<Rightarrow> do { f; ret True }
      | None \<Rightarrow> do { set_lp olp; ret False }) }"

text \<open>The directives modelled here, in the order of \<^verbatim>\<open>InsertDirectives\<close> within each group. The others are given by the host.\<close>

definition data_directives :: "(string \<times> unit M) list" where
  "data_directives =
     [(''.assert'', dirASSERT), (''.byte'', dirBYTE), (''.abyte'', dirABYTE), (''.abytec'', dirABYTEC), (''.abytez'', dirABYTEZ),
      (''.word'', dirWORD), (''.block'', dirBLOCK), (''.dword'', dirDWORD), (''.d24'', dirD24), (''.dg'', dirDG), (''.defg'', dirDG),
      (''.dh'', dirDH), (''.defh'', dirDH), (''.hex'', dirDH), (''.org'', dirORG), (''.align'', dirALIGN),
      (''.module'', dirMODULE), (''.textarea'', dirDISP),
      (''.dc'', dirDC), (''.dz'', dirDZ), (''.db'', dirBYTE), (''.dm'', dirBYTE), (''.dp'', dirDP), (''.dw'', dirWORD), (''.ds'', dirBLOCK),
      (''.dd'', dirDWORD), (''.defb'', dirBYTE), (''.defp'', dirDP), (''.defw'', dirWORD), (''.defs'', dirBLOCK), (''.defd'', dirDWORD),
      (''.defm'', dirBYTE), (''.endmod'', dirENDMODULE), (''.endmodule'', dirENDMODULE),
      (''.disp'', dirDISP), (''.phase'', dirDISP), (''.ent'', dirENT), (''.unphase'', dirENT), (''.dephase'', dirENT), (''.endt'', dirENT),
      (''.page'', dirPAGE), (''.slot'', dirSLOT), (''.mmu'', dirMMU), (''.device'', dirDEVICE), (''.defdevice'', dirDEFDEVICE),
      (''.relocate_start'', dirRELOCATE_START), (''.relocate_end'', dirRELOCATE_END), (''.relocate_table'', dirRELOCATE_TABLE)]"

definition control_directives :: "host \<Rightarrow> (bool \<Rightarrow> unit M) \<Rightarrow> (string \<times> unit M) list" where
  "control_directives h pl =
     [(''.else'', dirELSE), (''.elseif'', dirELSEIF), (''.end'', dirEND), (''.include'', dirINCLUDE h pl), (''.incbin'', dirINCBIN h),
      (''.binary'', dirINCBIN h), (''.insert'', dirINCBIN h),
      (''.if'', dirIF pl), (''.ifn'', dirIFN pl), (''.ifused'', dirIFUSED pl), (''.ifnused'', dirIFNUSED pl), (''.ifdef'', dirIFDEF pl),
      (''.ifndef'', dirIFNDEF pl), (''.hexend'', dirHEXEND), (''.tapend'', dirTAPEND),
      (''.define'', dirDEFINE), (''.undefine'', dirUNDEFINE), (''.defarray'', dirDEFARRAY), (''.macro'', dirMACRO),
      (''.struct'', dirSTRUCT (ParseDirective_REPT pl)), (''.rept'', dirDUP), (''.dup'', dirDUP), (''.while'', dirWHILE),
      (''.encoding'', dirENCODING), (''.endif'', dirENDIF), (''.endm'', dirENDM pl), (''.edup'', dirEDUP pl), (''.endr'', dirEDUP pl),
      (''.endw'', dirEDUP pl), (''.ends'', dirENDS)]"

definition DirectivesTable :: "host \<Rightarrow> (bool \<Rightarrow> unit M) \<Rightarrow> unit M function_map" where
  "DirectivesTable h pl = insertd_all (data_directives @ control_directives h pl @ other_directives h) Map.empty"

section \<open>Dispatch\<close>

text \<open>The repeat count of a dot: digits in the name itself, or an expression in parentheses behind it. None: a syntax error.\<close>

definition dot_count :: "string \<Rightarrow> aint option M" where
  "dot_count n = do {
     l \<leftarrow> gets lp;
     if 1 < length n then
       (if \<not> White (cur l) then ret None
        else do { (r, _) \<leftarrow> ParseExpression (drop 1 n); ret r })
     else do {
       set_lp (drop 1 l);
       r \<leftarrow> on_lp ParseExpression;
       q \<leftarrow> gets lp;
       if r \<noteq> None \<and> cur q = CHR '')'' then do { set_lp (drop 1 q); ret r } else ret None } }"

text \<open>\<open>repeat_line n text\<close>: the line is parsed \<open>n\<close> times, the comment of the line belongs to the first one only.\<close>

primrec repeat_line :: "nat \<Rightarrow> (bool \<Rightarrow> unit M) \<Rightarrow> string \<Rightarrow> unit M" where
  "repeat_line 0 pl text = ret ()"
| "repeat_line (Suc n) pl text = do {
     modify (\<lambda>s. s\<lparr>line := CHR '' '' # text\<rparr>);
     ParseLineSafe pl;
     mod_dg (\<lambda>d. d\<lparr>eolComment := None\<rparr>);
     repeat_line n pl text }"

definition dot_repeat :: "(bool \<Rightarrow> unit M) \<Rightarrow> string \<Rightarrow> string \<Rightarrow> bool M" where
  "dot_repeat pl olp n = do {
     r \<leftarrow> dot_count n;
     (case r of
        None \<Rightarrow> do {
          set_lp olp;
          Error ''Dot-repeater must be followed by number or parentheses'' (Some olp) E_SUPPRESS;
          ret False }
      | Some val \<Rightarrow>
          if val < 1 then do {
            set_lp olp;
            ErrorInt ''.N must be positive integer'' val E_SUPPRESS;
            ret False }
          else do {
            s \<leftarrow> State_Monad.get;
            mod_prog (\<lambda>g. g\<lparr>listmacro := listmacro g + 1\<rparr>);
            repeat_line (nat val) pl (skip_blanks (lp s));
            modify (\<lambda>t. t\<lparr>line := line s\<rparr>);
            mod_prog (\<lambda>g. g\<lparr>listmacro := listmacro g - 1\<rparr>);
            set_lp [];
            ret True }) }"

definition is_dot :: "string \<Rightarrow> string \<Rightarrow> bool" where
  "is_dot n l \<longleftrightarrow> cur n = CHR ''.'' \<and> (isdigit (chr_at n 1) \<or> length n = 1 \<and> cur l = CHR ''('')"

definition ParseDirective :: "host \<Rightarrow> (bool \<Rightarrow> unit M) \<Rightarrow> bool \<Rightarrow> bool M" where
  "ParseDirective h pl beginningOfLine = do {
     olp \<leftarrow> gets lp;
     if beginningOfLine \<and> (fst (cmphstr ''end'' False olp) \<or> fst (cmphstr ''.end'' False olp)) then ret False
     else do {
       modify (\<lambda>s. s\<lparr>bp := lp s\<rparr>);
       x \<leftarrow> gets (\<lambda>s. syx (opts s));
       n \<leftarrow> lexM (getinstr x);
       l \<leftarrow> gets lp;
       (case n of
          None \<Rightarrow> do { set_lp olp; ret False }
        | Some name \<Rightarrow>
            (case zoek name (DirectivesTable h pl) of
               Some f \<Rightarrow> do { f; ret True }
             | None \<Rightarrow>
                 if beginningOfLine \<and> \<not> IsPseudoOpBOF x \<or> \<not> is_dot name l then do { set_lp olp; ret False }
                 else dot_repeat pl olp name)) } }"

section \<open>A line, with all the lines it runs\<close>

text \<open>The fuel bounds the nesting of lines.\<close>

primrec ParseLine_n :: "nat \<Rightarrow> host \<Rightarrow> bool \<Rightarrow> unit M" where
  "ParseLine_n 0 h parselabels = out_of_fuel"
| "ParseLine_n (Suc n) h parselabels =
     (let pl = ParseLine_n n h; rept = ParseDirective_REPT pl in
      ParseLine h (ParseDirective h pl) rept (mac_Emit pl) (struct_Emit rept) parselabels)"

section \<open>The passes\<close>

definition label_keywords :: "string list" where
  "label_keywords = [''abs'', ''and'', ''exist'', ''high'', ''low'', ''mod'', ''norel'', ''not'', ''or'', ''pair'', ''shl'', ''shr'', ''sizeof'',
     ''u16'', ''xor'', ''ABS'', ''AND'', ''EXIST'', ''HIGH'', ''LOW'', ''MOD'', ''NOREL'', ''NOT'', ''OR'', ''PAIR'', ''SHL'', ''SHR'',
     ''SIZEOF'', ''U16'', ''XOR'']"

primrec reserve :: "string list \<Rightarrow> unit M" where
  "reserve [] = ret ()"
| "reserve (k # ks) = do { Insert k (-65536) (LABEL_IS_UNDEFINED OR LABEL_IS_KEYWORD) LABEL_PAGE_UNDEFINED; reserve ks }"

definition ReserveLabelKeywords :: "unit M" where
  "ReserveLabelKeywords = reserve label_keywords"

definition struct_ReInit :: "unit M" where
  "struct_ReInit = mod_prog (\<lambda>g. g\<lparr>strs := (\<lambda>_. [])\<rparr>)"

text \<open>The only DEVICE of a source, seen in the pass before, is set from the start of the next pass on.\<close>

definition global_device :: "asm \<Rightarrow> (string \<times> aint) option" where
  "global_device s =
     (if 1 < pass s \<and> deviceDirectivesCount (prog s) = 1 \<and> Devices (dv s) \<noteq> [] then
        Some (dev_ID (hd (Devices (dv s))), dev_ZxRamTop (hd (Devices (dv s)))) else None)"

definition init_device :: "unit M" where
  "init_device = do {
     g \<leftarrow> gets global_device;
     mod_dv (\<lambda>d. d\<lparr>Devices := [], Device := None, DeviceID := None\<rparr>);
     mod_prog (\<lambda>p. p\<lparr>deviceDirectivesCount := 0\<rparr>);
     (case g of
        None \<Rightarrow> ret ()
      | Some (name, ramtop) \<Rightarrow> do {
          ok \<leftarrow> SetDevice (Some name) ramtop;
          whenM (\<not> ok) (Error ''Failed to re-initialize global device'' (Some name) E_FATAL) }) }"

definition predefined_defines :: "asm \<Rightarrow> (string \<times> string) list" where
  "predefined_defines s =
     [(''_SJASMPLUS'', ''1''), (''_RELEASE'', ''0''), (''_VERSION'', ''__VERSION__''), (''_ERRORS'', ''__ERRORS__''),
      (''_WARNINGS'', ''__WARNINGS__''), (''__SJASMPLUS__'', ''0x00011800''), (''__VERSION__'', [CHR 0x22] @ ''1.24.0'' @ [CHR 0x22]),
      (''__ERRORS__'', fmt_d (ErrorCount (dg s))), (''__WARNINGS__'', fmt_d (WarningCount (dg s))), (''__PASS__'', fmt_d (pass s)),
      (''__INCLUDE_LEVEL__'', ''-1''), (''__BASE_FILE__'', ''<none>''), (''__FILE__'', ''<none>''), (''__LINE__'', ''<dynamic value>''),
      (''__COUNTER__'', ''<dynamic value>'')]"

primrec replace_defines :: "(string \<times> string) list \<Rightarrow> unit M" where
  "replace_defines [] = ret ()"
| "replace_defines (d # ds) = do { Replace_define (fst d) (snd d); replace_defines ds }"

definition init_variables :: "unit M" where
  "init_variables = do {
     mod_labs (\<lambda>l. InitVorlab (l\<lparr>ModuleName := [], macrolabp := None\<rparr>));
     SetLastParsedLabel None;
     mod_prog (\<lambda>g. g\<lparr>listmacro := 0, macronummer := 0, sldSwapSrcPos := 0\<rparr>);
     modify (\<lambda>s. s\<lparr>CurAddress := 0, smartSmcIndex := 0, PseudoORG := DISP_NONE, adrdisp := 0, dispPageNum := LABEL_PAGE_UNDEFINED\<rparr>);
     mod_dg (\<lambda>d. d\<lparr>CompiledCurrentLine := 0\<rparr>);
     mod_src (\<lambda>r. r\<lparr>lijst := 0, comlin := 0, lijstp := []\<rparr>);
     DidEmitByte;
     ret () }"

text \<open>\<^verbatim>\<open>SSyntax::restoreSystemSyntax\<close>: every pass starts with the syntax of the command line.\<close>

definition restoreSystemSyntax :: "unit M" where
  "restoreSystemSyntax = modify (\<lambda>s. s\<lparr>opts := (opts s)\<lparr>syxStack := [], syx := systemSyntax (opts s)\<rparr>\<rparr>)"

definition InitPass :: "define_table \<Rightarrow> unit M" where
  "InitPass CmdDefineTable = do {
     Relocation_InitPass;
     restoreSystemSyntax;
     init_variables;
     struct_ReInit;
     mac_ReInit;
     MacroDefine_ReInit;
     CDefineTable_assign CmdDefineTable;
     mod_labs TL_InitPass;
     init_device;
     s \<leftarrow> State_Monad.get;
     replace_defines (predefined_defines s);
     modify (\<lambda>s. s\<lparr>PredefinedCounter := 0\<rparr>) }"

text \<open>One source after the other.\<close>

primrec assemble_sources :: "nat \<Rightarrow> host \<Rightarrow> int \<Rightarrow> string list \<Rightarrow> unit M" where
  "assemble_sources n h base_encoding [] = ret ()"
| "assemble_sources n h base_encoding (f # fs) = do {
     mod_labs (\<lambda>l. l\<lparr>sourceBlockLevel := -2\<rparr>);
     SizeBoundary BOUNDARY_FLOW;
     mod_src (\<lambda>r. r\<lparr>IsRunning := True\<rparr>);
     mod_prog (\<lambda>g. g\<lparr>ConvertEncoding := base_encoding\<rparr>);
     OpenFile h (ParseLine_n n h) (input_file h f None);
     assemble_sources n h base_encoding fs }"

text \<open>Every block that is still open is reported, the innermost one first.\<close>

primrec missing_edups :: "SRepeatStack list \<Rightarrow> unit M" where
  "missing_edups [] = ret ()"
| "missing_edups (d # ds) = do {
     modify (\<lambda>s. s\<lparr>sourcePosStack := sourcePosStack s @ [rep_sourcePos d]\<rparr>);
     Error ''[DUP/REPT] missing EDUP/ENDR to end repeat-block'' None E_PASS3;
     modify (\<lambda>s. s\<lparr>sourcePosStack := butlast (sourcePosStack s)\<rparr>);
     missing_edups ds }"

definition finish_pass :: "unit M" where
  "finish_pass = do {
     st \<leftarrow> gets (\<lambda>s. RepeatStack (prog s));
     missing_edups (rev st);
     mod_prog (\<lambda>g. g\<lparr>RepeatStack := []\<rparr>);
     modify (\<lambda>s. if PseudoORG s = DISP_NONE then s else s\<lparr>CurAddress := adrdisp s, PseudoORG := DISP_NONE\<rparr>) }"

definition run_pass :: "nat \<Rightarrow> host \<Rightarrow> define_table \<Rightarrow> int \<Rightarrow> string list \<Rightarrow> unit M" where
  "run_pass n h CmdDefineTable base_encoding files = do {
     modify (\<lambda>s. s\<lparr>pass := pass s + 1\<rparr>);
     InitPass CmdDefineTable;
     assemble_sources n h base_encoding files;
     finish_pass }"

text \<open>The exit status: whether there were errors.\<close>

definition assemble :: "nat \<Rightarrow> host \<Rightarrow> define_table \<Rightarrow> int \<Rightarrow> string list \<Rightarrow> bool M" where
  "assemble n h CmdDefineTable base_encoding files = do {
     ReserveLabelKeywords;
     run_pass n h CmdDefineTable base_encoding files;
     run_pass n h CmdDefineTable base_encoding files;
     run_pass n h CmdDefineTable base_encoding files;
     e \<leftarrow> gets (\<lambda>s. ErrorCount (dg s));
     ret (e \<noteq> 0) }"

end
