(* ===== verification/Sj_Context_Prog.thy ===== *)
theory Sj_Context_Prog
  imports Sj_Context Sj_Main
begin

text \<open>
  The context of a line, for the operations that parse lines themselves. The locale \<open>line_parser\<close> is the contract of the line parser they are given: it
  leaves the context as it was. Under it macro calls, repeated blocks, conditionals, included files and the dispatch of directives do so,
  and with them the next deeper line parser.
\<close>

section \<open>Definition of macros\<close>

lemma keeps_prog_leaf: "leafy m \<Longrightarrow> keeps prog m"
  by (auto simp: keeps_def state_io_rel_def leaf_rel_def)

lemmas keeps_prog_leafs = leaf [THEN keeps_prog_leaf]

lemma keeps_prog_read: "keeps prog (ReadFileToCStringsList p)"
proof -
  note k = keep keeps_prog_leafs keeps_prog_leaf [OF lf.io_stop]
  have c: "keeps prog (read_code_char b b1 q r)" for b b1 q r
    unfolding read_code_char_def by (intro k; simp)
  have r: "keeps prog (read_char b b1 q r)" for b b1 q r
    unfolding read_char_def next_segment_def by (intro k c; simp)
  have rs: "keeps prog (read_chars n b b1 b2 q r)" for n b b1 b2 q r
  proof (induction n arbitrary: b1 b2 q r)
    case (Suc n)
    show ?case unfolding read_chars.simps check_length_def by (intro k r Suc; simp)
  qed (auto intro!: k)
  have l: "keeps prog (ReadLineNoMacro b)" for b
    unfolding ReadLineNoMacro_def ReadBufLine_def read_one_line_def by (intro k rs) (simp_all add: Let_def)
  have "keeps prog (read_block n p b ls)" for n b ls
  proof (induction n arbitrary: b ls)
    case (Suc n)
    show ?case unfolding read_block.simps substitute_rest_def count_line_def by (intro k l Suc.IH) simp_all
  qed (auto intro!: k)
  then show ?thesis unfolding ReadFileToCStringsList_def by (intro k)
qed

lemma leaf_mac_args_loop: "leafy (mac_args_loop n ts)"
proof (induction n arbitrary: ts)
  case (Suc n)
  show ?case unfolding mac_args_loop.simps by (intro leaf_rules leaf Suc)
qed (auto intro!: leaf_rules)

text \<open>A macro is only put into the table when there is none of its name.\<close>

definition ctx_new :: "bool \<Rightarrow> bool \<Rightarrow> bool \<Rightarrow> string \<Rightarrow> 'a M \<Rightarrow> bool" where
  "ctx_new A B C p m \<longleftrightarrow> (\<forall>s. macs (prog s) p = None \<longrightarrow> ctx_rel A B C s (snd (run_state m s)))"

lemma ctx_new_bind:
  assumes "keeps prog m" "ctxy A B C m" "\<And>x. ctx_new A B C p (f x)"
  shows "ctx_new A B C p (m \<bind> f)"
  unfolding ctx_new_def
proof (intro allI impI)
  fix s :: asm assume s: "macs (prog s) p = None"
  obtain x t where m: "run_state m s = (x, t)" by fastforce
  have "prog t = prog s" using keepsD [OF assms(1) m] .
  then have "ctx_rel A B C t (snd (run_state (f x) t))" using assms(3) s by (simp add: ctx_new_def)
  moreover have "ctx_rel A B C s t" using state_io_relD [OF assms(2) m] .
  ultimately show "ctx_rel A B C s (snd (run_state (m \<bind> f) s))" using m by (simp add: cx.R_trans)
qed

lemma ctx_new_prod: "(\<And>a b. ctx_new A B C p (f a b)) \<Longrightarrow> ctx_new A B C p (case x of (a, b) \<Rightarrow> f a b)"
  by (cases x) simp

lemma ctx_new_put:
  assumes "ctxy A B C m"
  shows "ctx_new A B C p (do { put_macro p e; m })"
  unfolding ctx_new_def
proof (intro allI impI)
  fix s :: asm assume "macs (prog s) p = None"
  then have "ctx_rel A B C s (snd (run_state (put_macro p e) s))" by (simp add: put_macro_def ctx_defs map_le_def dom_def)
  moreover have "ctx_rel A B C t (snd (run_state m t))" for t using assms by (simp add: state_io_rel_def)
  ultimately show "ctx_rel A B C s (snd (run_state (do { put_macro p e; m }) s))"
    by (simp add: split_beta) (rule cx.R_trans)
qed

lemma ctx_mac_Add [ctx]: "ctxy A B C (mac_Add p)"
proof -
  have w: "keeps prog (whenM b (Error q r t))" for b q r t by (intro keep keeps_prog_leafs)
  have "ctx_new A B C p (do {
       l \<leftarrow> gets lp;
       args \<leftarrow> mac_args_loop (length l + 1) [];
       s \<leftarrow> State_Monad.get;
       whenM (pass s = 1 \<and> cur (lp s) \<noteq> NUL) (Error ''Unexpected'' (Some (lp s)) E_EARLY);
       (ok, body) \<leftarrow> ReadFileToCStringsList ''endm'';
       put_macro p \<lparr>mac_args = args, mac_body = body\<rparr>;
       whenM (\<not> ok) (Error ''Unexpected end of macro'' None E_EARLY) })"
    by (intro ctx_new_bind ctx_new_prod ctx_new_put keep w keeps_prog_read keeps_prog_leaf leaf_mac_args_loop cx.lift ctx_rules ctx)
  moreover have "ctxy A B C (Error m o1 t)" for m o1 t by (intro ctx)
  ultimately show ?thesis
    unfolding mac_Add_def
    by (intro cx.io_gets_at; simp only: split: if_split) (auto simp: ctx_new_def state_io_rel_def)
qed

section \<open>Operations without lines of their own\<close>

lemma ctx_macro_values: "ctxy A False C (macro_values ts p ts1 b ts2 q)"
proof (induction ts arbitrary: b ts2 q)
  case Nil
  show ?case unfolding macro_values.simps by (intro ctx_rules)
next
  case (Cons a ts)
  have "ctxy A False C (AddMacro p q)" for p q
    unfolding AddMacro_def by (intro ctx_rules; simp add: ctx_defs)
  then show ?case unfolding macro_values.simps by (intro ctx_rules ctx_cases ctx Cons.IH)
qed

lemma ctx_set_line [ctx]: "ctxy A B C (set_line p)" "ctxy A B C (add_block_level i)"
  unfolding set_line_def add_block_level_def by (intro ctx_rules; simp add: ctx_defs)+

lemma ctx_dirMACRO [ctx]: "ctxy A B C dirMACRO"
  unfolding dirMACRO_def by (intro ctx_rules ctx)

lemma ctx_mod_dup: "(\<And>d. A \<Longrightarrow> IsInWork d \<Longrightarrow> block_rel d (f d)) \<Longrightarrow> ctxy A B C (mod_dup n f)"
  unfolding mod_dup_def by (rule cx.io_modify) (simp add: ctx_defs blocks_kept_update)

lemma ctx_mod_dups [ctx]:
  "ctxy A B C (mod_dup n (\<lambda>d. d\<lparr>rep_Level := rep_Level d + 1\<rparr>))"
  "ctxy A B C (mod_dup n (\<lambda>d. d\<lparr>rep_Level := rep_Level d - 1\<rparr>))"
  "ctxy A B C (mod_dup n (\<lambda>d. d\<lparr>RepeatCount := 0\<rparr>))"
  "ctxy False B C (mod_dup n f)"
  by (rule ctx_mod_dup; simp add: block_rel_def)+

lemma ctx_if_arguments [ctx]:
  "ctxy A B C dirIfIfn"
  "ctxy A B C dirIfusedIfnused"
  "ctxy A B C (while_condition p)"
  "ctxy A B C dup_arguments"
  "ctxy A B C (push_dup i o1 p)"
  unfolding dirIfIfn_def dirIfusedIfnused_def while_condition_def dup_arguments_def push_dup_def
  by (intro ctx_rules ctx; simp add: ctx_defs Let_def)+

lemma ctx_repeat_arguments [ctx]:
  "ctxy A B C (while_holds p x)"
  "ctxy A B C (dup_index p i)"
  "ctxy A B C (elseif_value b)"
  "ctxy A B C dirElseCheckLiveDup"
  "ctxy A B C (DupWhileImplementation b)"
  unfolding while_holds_def dup_index_def elseif_value_def dirElseCheckLiveDup_def DupWhileImplementation_def
  by (intro ctx_rules ctx; simp add: ctx_defs Let_def)+

text \<open>A report at another position: the position is pushed and popped.\<close>

lemma ctx_report_at:
  assumes "leafy m"
  shows "ctx_rel A B C s (snd (run_state (do {
    modify (\<lambda>s. s\<lparr>sourcePosStack := sourcePosStack s @ [pos]\<rparr>); m; modify (\<lambda>s. s\<lparr>sourcePosStack := butlast (sourcePosStack s)\<rparr>) }) s))"
proof -
  obtain x t where t: "run_state m (s\<lparr>sourcePosStack := sourcePosStack s @ [pos]\<rparr>) = (x, t)" by fastforce
  have l: "leaf_rel (s\<lparr>sourcePosStack := sourcePosStack s @ [pos]\<rparr>) t" by (rule state_io_relD [OF assms t])
  from leaf_srcs [OF this] this show ?thesis by (simp add: t) (simp add: leaf_rel_def ctx_defs)
qed

lemma ctx_shouldRepeat: "ctxy False B C (shouldRepeat n)"
proof -
  have e: "ctxy False B C (do { modify (\<lambda>s. s\<lparr>sourcePosStack := sourcePosStack s @ [pos]\<rparr>); Error m o1 t;
      modify (\<lambda>s. s\<lparr>sourcePosStack := butlast (sourcePosStack s)\<rparr>) })" for pos m o1 t
    by (simp only: state_io_rel_def) (intro allI ctx_report_at leaf)
  have assoc: "do { modify f; Error m o1 t; modify g; k } = do { do { modify f; Error m o1 t; modify g }; k }" for f g m o1 t and k :: "bool M"
    by simp
  show ?thesis
    unfolding shouldRepeat_def assoc by (intro ctx_rules ctx e)
qed

lemma ctx_control [ctx]:
  "ctxy A B C dirELSE" "ctxy A B C dirELSEIF" "ctxy A B C dirENDIF" "ctxy A B C dirDUP" "ctxy A B C dirWHILE"
  unfolding dirELSE_def dirELSEIF_def dirENDIF_def dirDUP_def dirWHILE_def by (intro ctx_rules ctx)+

section \<open>Directives\<close>

lemma leaf_device_arguments:
  "leafy (array_items n ts)" "leafy (int_args n m bs bo)" "leafy (initial_pages i bs j)"
proof -
  show "leafy (array_items n ts)"
  proof (induction n arbitrary: ts)
    case (Suc n)
    show ?case unfolding array_items.simps by (intro leaf_rules leaf Suc)
  qed (auto intro!: leaf_rules)
  show "leafy (int_args n m bs bo)"
  proof (induction n arbitrary: m bs)
    case (Suc n)
    show ?case unfolding int_args.simps by (intro leaf_rules leaf Suc)
  qed (auto intro!: leaf_rules)
  show "leafy (initial_pages i bs j)"
  proof (induction bs arbitrary: j)
    case (Cons b bs)
    show ?case unfolding initial_pages.simps by (intro leaf_rules leaf Cons.IH)
  qed (auto intro!: leaf_rules)
qed

lemma ctx_Remove_define [ctx]: "ctxy A B C (Remove_define p)"
  unfolding Remove_define_def by (rule cx.io_modify) (simp add: ctx_defs split: prod.split)

lemma ctx_directives [ctx]:
  "ctxy A B C dirDEFINE" "ctxy A B C dirUNDEFINE" "ctxy A B C dirASSERT" "ctxy A B C dirEND" "ctxy A B C dirENCODING"
  "ctxy A B C dirHEXEND" "ctxy A B C dirTAPEND" "ctxy A B C (get_input_file h)" "ctxy A B C (Replace_define_int p i)"
  unfolding dirDEFINE_def dirUNDEFINE_def dirASSERT_def dirEND_def dirENCODING_def
    dirHEXEND_def dirTAPEND_def get_input_file_def Replace_define_int_def
  by (intro ctx_rules ctx; simp add: ctx_defs Let_def)+

lemma ctx_more_directives [ctx]:
  "ctxy A B C dirDEFARRAY" "ctxy A B C dirDEFDEVICE" "ctxy A B C dirDEVICE"
  unfolding dirDEFARRAY_def dirDEFARRAY_add_def dirDEFARRAY_parseItems_def dirDEFDEVICE_def define_device_def new_device_def
    getIntArguments_def dirDEVICE_def set_named_device_def
  by (intro ctx_rules ctx cx.lift [OF leaf_device_arguments(1)] cx.lift [OF leaf_device_arguments(2)] cx.lift [OF leaf_device_arguments(3)];
      simp add: ctx_defs Let_def)+

lemma ctx_dirINCBIN [ctx]: "ctxy A B C (dirINCBIN h)"
  unfolding dirINCBIN_def incbin_argument_def Let_def by (intro ctx_rules ctx)

section \<open>Operations that parse lines\<close>

lemma ctx_rel_True: "ctx_rel True True True s s' \<Longrightarrow> ctx_rel A B C s s'"
  by (simp add: ctx_rel_def progress_def kept_def)

lemma ctxy_True: "ctxy True True True m \<Longrightarrow> ctxy A B C m"
  by (auto simp: state_io_rel_def intro: ctx_rel_True)

text \<open>The first line of a block becomes the current one.\<close>

lemma ctx_pop_line:
  assumes "lijstp (srcs s) = x # rest" "ctxy A B C m"
  shows "ctx_rel A B C s (snd (run_state (do { whenM b (set_pos pos); set_line t; mod_src (\<lambda>r. r\<lparr>lijstp := rest\<rparr>); m }) s))"
proof -
  define s1 where "s1 = snd (run_state (do { whenM b (set_pos pos); set_line t; mod_src (\<lambda>r. r\<lparr>lijstp := rest\<rparr>) }) s)"
  then have s1: "run_state (do { whenM b (set_pos pos); set_line t; mod_src (\<lambda>r. r\<lparr>lijstp := rest\<rparr>) }) s = ((), s1)"
    by (simp add: prod_eq_iff)
  have "ctx_rel A B C s s1"
    using s1 assms(1) by (cases b) (auto simp: set_pos_def set_line_def ctx_defs suffix_Cons)
  moreover have "ctx_rel A B C s1 (snd (run_state m s1))" using assms(2) by (simp add: state_io_rel_def)
  moreover have "run_state (do { whenM b (set_pos pos); set_line t; mod_src (\<lambda>r. r\<lparr>lijstp := rest\<rparr>); m }) s = run_state m s1"
    using s1 by (cases b) (simp_all add: set_line_def set_pos_def)
  ultimately show ?thesis by (auto intro: cx.R_trans)
qed

text \<open>Entering a block raises the nesting and pushes a position, leaving it takes this back and restores the lines of the block outside.\<close>

lemma macro_leave_run:
  "\<exists>w d. ctx_rel A B C u w \<and> snd (run_state (macro_leave naam s) u) = w\<lparr>sourcePosStack := butlast (sourcePosStack w), dg := d, line := line s,
     srcs := (srcs w)\<lparr>lijstp := lijstp (srcs s), lijst := lijst (srcs w) - 1\<rparr>, prog := (prog w)\<lparr>listmacro := listmacro (prog w) - 1\<rparr>\<rparr> \<and>
     ErrorCount d = ErrorCount (dg w)"
proof -
  define m where "m = do { add_block_level (-2); swap \<leftarrow> gets (\<lambda>s. sldSwapSrcPos (prog s));
     whenM (swap \<noteq> sldSwapSrcPos (prog s)) (WarningById W_SLD_SWAP (Some naam) W_PASS3) }"
  define w where "w = snd (run_state m u)"
  have "ctxy A B C m" unfolding m_def by (intro ctx_rules ctx)
  then have "ctx_rel A B C u w" by (simp add: w_def state_io_rel_def)
  moreover have "snd (run_state (macro_leave naam s) u) = w\<lparr>sourcePosStack := butlast (sourcePosStack w),
     dg := (dg w)\<lparr>CompiledCurrentLine := CompiledCurrentLine (dg w) + 1\<rparr>, line := line s,
     srcs := (srcs w)\<lparr>lijstp := lijstp (srcs s), lijst := lijst (srcs w) - 1\<rparr>, prog := (prog w)\<lparr>listmacro := listmacro (prog w) - 1\<rparr>\<rparr>"
    by (simp add: macro_leave_def w_def m_def count_line_def split_beta)
  ultimately show ?thesis by force
qed

lemma ctx_bracket:
  assumes "progress C s t" "context_of t = (macrolabp (labs s), sourcePosStack s, lijst (srcs s) + 1, listmacro (prog s) + 1,
      IncludeLevel (prog s), fileNameFull (prog s))" "macro_defs (srcs t) = macro_defs (srcs s)"
    "RepeatStack (prog t) = RepeatStack (prog s)"
    and "ctx_rel True B C t w" "ErrorCount d = ErrorCount (dg w)"
  shows "ctx_rel A B C s (w\<lparr>sourcePosStack := butlast (sourcePosStack w), dg := d, line := l,
     srcs := (srcs w)\<lparr>lijstp := lijstp (srcs s), lijst := lijst (srcs w) - 1\<rparr>, prog := (prog w)\<lparr>listmacro := listmacro (prog w) - 1\<rparr>\<rparr>)"
  using assms by (auto simp: ctx_defs intro: map_le_trans)

lemma Insert_ran:
  assumes "P f" "\<forall>f \<in> ran m. P f"
  shows "\<forall>f \<in> ran (snd (CFunctionTable_Insert n f m)). P f"
  using assms by (auto simp: CFunctionTable_Insert_def emplace_def ran_def split: if_splits)

lemma insertd_ran:
  assumes "P f" "\<forall>f \<in> ran m. P f"
  shows "\<forall>f \<in> ran (snd (insertd n f m)). P f"
proof (cases "CFunctionTable_Insert (drop 1 n) f m")
  case (Pair ok m1)
  have "\<forall>f \<in> ran m1. P f" using Insert_ran [OF assms, of "drop 1 n"] Pair by simp
  then show ?thesis using Insert_ran [of P f m1 n] assms(1) Pair by (cases ok) (simp_all add: insertd_def)
qed

lemma insertd_all_ran:
  "list_all (\<lambda>(n, f). P f) fs \<Longrightarrow> \<forall>f \<in> ran m. P f \<Longrightarrow> \<forall>f \<in> ran (insertd_all fs m). P f"
proof (induction fs m rule: insertd_all.induct)
  case (2 n f fs m)
  have "\<forall>g \<in> ran (snd (insertd n f m)). P g" by (rule insertd_ran [of P]) (use 2(2,3) in simp_all)
  then show ?case using 2 by simp
qed simp

lemma ctx_data_directives: "list_all (\<lambda>(n, f). ctxy A B C f) data_directives"
  unfolding data_directives_def by (simp add: ctx)

lemma progress_trans: "progress C s t \<Longrightarrow> progress C t u \<Longrightarrow> progress C s u"
  by (auto simp: progress_def intro: kept_trans map_le_trans)

lemma ctx_unbracket:
  assumes "progress C s t" "context_of t = (macrolabp (labs s), sourcePosStack s, lijst (srcs s), listmacro (prog s), IncludeLevel (prog s) + 1, f)"
    "lijstp (srcs t) = lijstp (srcs s)" "macro_defs (srcs t) = macro_defs (srcs s)" "RepeatStack (prog t) = RepeatStack (prog s)"
    and "ctx_rel A B C t w" "ErrorCount d = ErrorCount (dg w)"
  shows "ctx_rel A B C s (w\<lparr>prog := (prog w)\<lparr>IncludeLevel := IncludeLevel (prog w) - 1, fileNameFull := fileNameFull (prog
     (s\<lparr>prog := (prog s)\<lparr>IncludeLevel := IncludeLevel (prog s) + 1\<rparr>\<rparr>))\<rparr>, sourcePosStack := butlast (sourcePosStack w), dg := d\<rparr>)"
proof -
  have "progress C s w" using assms(1,6) by (auto simp: ctx_rel_def intro: progress_trans)
  then show ?thesis using assms by (simp add: ctx_defs)
qed

lemma leave_file_run:
  "\<exists>w d. ctx_rel A B C u w \<and> ErrorCount d = ErrorCount (dg w) \<and> snd (run_state (leave_file old name) u) =
     w\<lparr>prog := (prog w)\<lparr>IncludeLevel := IncludeLevel (prog w) - 1, fileNameFull := fileNameFull old\<rparr>,
       sourcePosStack := butlast (sourcePosStack w), dg := d\<rparr>"
proof -
  define m where "m = do { add_block_level (-2); g \<leftarrow> gets prog;
     whenM (sldSwapSrcPos old \<noteq> sldSwapSrcPos g \<and> IncludeLevel g \<noteq> 0) (WarningById W_SLD_SWAP (Some name) W_PASS3) }"
  define w where "w = snd (run_state m u)"
  have l: "leafy m" unfolding m_def add_block_level_def by (intro leaf_rules leaf; simp)
  have "ctxy A B C m" by (rule cx.lift [OF l])
  then have r: "ctx_rel A B C u w" by (simp add: w_def state_io_rel_def)
  have "prog w = prog u" using l by (simp add: w_def state_io_rel_def leaf_rel_def)
  then have "\<exists>d. ErrorCount d = ErrorCount (dg w) \<and> snd (run_state (leave_file old name) u) =
     w\<lparr>prog := (prog w)\<lparr>IncludeLevel := IncludeLevel (prog w) - 1, fileNameFull := fileNameFull old\<rparr>,
       sourcePosStack := butlast (sourcePosStack w), dg := d\<rparr>"
    by (intro exI [of _ "dg (snd (run_state (leave_file old name) u))"])
      (simp add: leave_file_def w_def m_def add_include_level_def Replace_define_int_def Replace_define_def split_beta whenM_def)
  then show ?thesis using r by blast
qed

locale line_parser =
  fixes pl :: "bool \<Rightarrow> unit M"
  assumes pl_ctx: "ctxy True True True (pl b)"
begin

lemma line [ctx]: "ctxy A B C (pl b)"
  by (rule ctxy_True [OF pl_ctx])

lemma line_safe [ctx]: "ctxy A B C (ParseLineSafe pl)"
  unfolding ParseLineSafe_def parse_line_safe_def by (intro ctx_rules ctx; simp add: ctx_defs)

lemma macro_lines [ctx]: "ctxy A B C (macro_lines n pl)"
proof (induction n)
  case (Suc n)
  have p: "ctxy A B C (do { ParseLineSafe pl; macro_lines n pl })" by (intro ctx_rules ctx Suc)
  show ?case
    unfolding macro_lines.simps
    by (rule cx.io_gets_at) (use ctx_pop_line [OF _ p, where b = True] in \<open>auto simp: cx.R_refl whenM_def simp del: run_state_bind split: list.split\<close>)
qed (simp add: cx.io_stop)

lemma dup_lines [ctx]: "ctxy A B C (dup_lines n pl)"
proof (induction n)
  case (Suc n)
  have p: "ctxy A B C (do { ParseLineSafe pl; next_segment; dup_lines n pl })" by (intro ctx_rules ctx Suc)
  show ?case
    unfolding dup_lines.simps
    by (rule cx.io_gets_at) (use ctx_pop_line [OF _ p] in \<open>auto simp: cx.R_refl simp del: run_state_bind split: list.split option.split bool.split\<close>)
qed (simp add: cx.io_stop)

lemma read_lines [ctx]: "ctxy A B C (read_lines n pl)"
proof (induction n)
  case (Suc n)
  show ?case unfolding read_lines.simps by (intro ctx_rules ctx Suc)
qed (auto intro!: ctx_rules)

lemma if_branches [ctx]: "ctxy A B C (if_branches n pl p m b b1)"
proof (induction n arbitrary: m b b1)
  case (Suc n)
  show ?case unfolding if_branches.simps ReadFile_def by (intro ctx_rules ctx Suc)
qed (auto intro!: ctx_rules)

lemma conditionals [ctx]:
  "ctxy A B C (dirIF pl)" "ctxy A B C (dirIFN pl)" "ctxy A B C (dirIFUSED pl)" "ctxy A B C (dirIFNUSED pl)"
  "ctxy A B C (dirIFDEF pl)" "ctxy A B C (dirIFNDEF pl)"
  unfolding dirIF_def dirIFN_def dirIFUSED_def dirIFNUSED_def dirIFDEF_def dirIFNDEF_def if_used_def if_defined_def dirIfInternal_def
  by (intro ctx_rules ctx)+

lemma dup_rounds: "ctxy False B C (dup_rounds n pl m i)"
proof (induction n arbitrary: i)
  case (Suc n)
  show ?case unfolding dup_rounds.simps by (intro ctx_rules ctx ctx_shouldRepeat Suc; simp add: ctx_defs)
qed (simp add: cx.io_stop)

text \<open>Entering a block and leaving it again.\<close>

lemma macro_body [ctx]: "ctxy A B C (macro_body pl naam body)"
  unfolding macro_body_def
proof (rule cx.io_get_at)
  fix s
  define m where "m = do { macro_lines (length body + 1) pl; SizeBoundary BOUNDARY_MAIN }"
  have m: "ctxy True B C m" unfolding m_def by (intro ctx_rules ctx)
  define t where "t = snd (run_state (macro_enter body) s)"
  define u where "u = snd (run_state m t)"
  have e: "run_state (macro_enter body) s = ((), t)" by (simp add: t_def prod_eq_iff)
  have t: "progress C s t" "context_of t = (macrolabp (labs s), sourcePosStack s, lijst (srcs s) + 1, listmacro (prog s) + 1,
      IncludeLevel (prog s), fileNameFull (prog s))" "macro_defs (srcs t) = macro_defs (srcs s)" "RepeatStack (prog t) = RepeatStack (prog s)"
    by (simp_all add: t_def macro_enter_def add_block_level_def ctx_defs)
  have u: "ctx_rel True B C t u" using m by (simp add: u_def state_io_rel_def)
  obtain w d where w: "ctx_rel True B C u w" "ErrorCount d = ErrorCount (dg w)" and
    v: "snd (run_state (macro_leave naam s) u) = w\<lparr>sourcePosStack := butlast (sourcePosStack w), dg := d, line := line s,
     srcs := (srcs w)\<lparr>lijstp := lijstp (srcs s), lijst := lijst (srcs w) - 1\<rparr>, prog := (prog w)\<lparr>listmacro := listmacro (prog w) - 1\<rparr>\<rparr>"
    using macro_leave_run by blast
  have "run_state (do { macro_enter body; macro_lines (length body + 1) pl; SizeBoundary BOUNDARY_MAIN; macro_leave naam s }) s =
      run_state (macro_leave naam s) u"
    by (simp add: e u_def m_def split_beta)
  then show "ctx_rel A B C s (snd (run_state (do { macro_enter body; macro_lines (length body + 1) pl; SizeBoundary BOUNDARY_MAIN; macro_leave naam s }) s))"
    using ctx_bracket [OF t cx.R_trans [OF u w(1)] w(2)] v by simp
qed

text \<open>The arguments of a macro are only defined inside it.\<close>

lemma macro_call [ctx]: "ctxy A B C (macro_call pl naam m p)"
proof -
  have "ctx_rel A B C s (snd (run_state (macro_call pl naam m p) s))" for s
  proof -
    obtain t where t: "run_state open_scope s = ((), t)" by (metis (full_types) old.unit.exhaust surj_pair)
    have o: "progress C s t" "snd (context_of t) = snd (context_of s)" "lijstp (srcs t) = lijstp (srcs s)"
      "RepeatStack (prog t) = RepeatStack (prog s)"
      "macrolabp (labs s) \<noteq> None \<Longrightarrow> macro_defs (srcs t) = macro_defs (srcs s)"
      using t by (auto simp: open_scope_def set_macrolabp_def MacroDefine_ReInit_def ctx_defs split: if_splits)
    obtain err p1 u where u: "run_state (macro_values (mac_args m) naam (mac_args m) (IsNamedMacroArg p) [] p) t = ((err, p1), u)"
      by (metis surj_pair)
    define x where "x = (case err of Some e \<Rightarrow> Error (fst e) (Some (snd e)) E_SUPPRESS | None \<Rightarrow> do { set_lp p1; macro_body pl naam (mac_body m) })"
    define v where "v = snd (run_state x u)"
    have "ctxy True False C x" unfolding x_def by (intro ctx_rules ctx)
    then have "ctx_rel True False C u v" by (simp add: v_def state_io_rel_def)
    then have tv: "ctx_rel True False C t v"
      using state_io_relD [OF ctx_macro_values u] by (rule cx.R_trans [rotated])
    have "snd (run_state (macro_call pl naam m p) s) =
        v\<lparr>srcs := (srcs v)\<lparr>macro_defs := macro_defs (srcs t)\<rparr>, labs := (labs v)\<lparr>macrolabp := macrolabp (labs s)\<rparr>\<rparr>"
      by (cases err) (simp_all add: macro_call_def t u v_def x_def FailMacroEmit_def close_scope_def setdefs_def set_macrolabp_def set_lp_def split_beta)
    then show ?thesis
      using o tv by (auto simp: ctx_defs intro: map_le_trans)
  qed
  then show ?thesis by (simp add: state_io_rel_def)
qed

lemma macro_emit [ctx]: "ctxy A B C (mac_Emit pl naam p)"
  unfolding mac_Emit_def by (intro ctx_rules ctx)

text \<open>The rounds of block \<open>n\<close> keep it in work, and the blocks below it as they were.\<close>

definition above :: "nat \<Rightarrow> SRepeatStack list \<Rightarrow> asm \<Rightarrow> bool" where
  "above n st s \<longleftrightarrow> blocks_kept (take n st) (RepeatStack (prog s)) \<and> n < length (RepeatStack (prog s)) \<and> IsInWork (RepeatStack (prog s) ! n)"

lemma above_ctx: "ctxy True B C m \<Longrightarrow> hoare (above n st) m (\<lambda>_. above n st)"
  by (auto simp: hoare_def state_io_rel_def ctx_rel_def above_def intro: blocks_kept_trans) (auto simp: blocks_kept_def block_rel_def)

lemma above_cong: "RepeatStack (prog t) = RepeatStack (prog s) \<Longrightarrow> above n st s \<Longrightarrow> above n st t"
  by (simp add: above_def)

lemma above_mod_dup:
  assumes "\<And>d. IsInWork (f d) = IsInWork d"
  shows "hoare (above n st) (mod_dup n f) (\<lambda>_. above n st)"
  unfolding mod_dup_def
proof (rule hoare_modify)
  fix s assume a: "above n st s"
  then have k: "k < length (take n st) \<Longrightarrow> k \<noteq> n" for k by simp
  show "above n st (s\<lparr>prog := (prog s)\<lparr>RepeatStack := (RepeatStack (prog s))[n := f (RepeatStack (prog s) ! n)]\<rparr>\<rparr>)"
    using a assms k by (auto simp: above_def blocks_kept_def)
qed

lemma above_shouldRepeat: "hoare (above n st) (shouldRepeat n) (\<lambda>_. above n st)"
proof -
  have c: "hoare (above n st) (whenM True m) (\<lambda>_. above n st)" if "ctxy True True True m" for m
    using above_ctx [OF that] by (simp add: whenM_def)
  have e: "hoare (above n st) (Error m o1 t) (\<lambda>_. above n st)" for m o1 t by (rule above_ctx) (rule ctx)
  have w: "hoare (above n st) (while_holds p x) (\<lambda>_. above n st)" for p x by (rule above_ctx) (rule ctx)
  show ?thesis
    unfolding shouldRepeat_def
    by (rule hoare_bind [OF hoare_gets [where Q = "\<lambda>_. above n st"]], assumption,
        rule hoare_bind [OF above_mod_dup], simp, rule hoare_case_option, rule hoare_ret, assumption, rule hoare_case_prod, rule hoare_if)
      (rule hoare_bind [OF hoare_modify [where Q = "\<lambda>_. above n st"]], simp add: above_def, rule hoare_bind [OF e],
        rule hoare_bind [OF hoare_modify [where Q = "\<lambda>_. above n st"]], simp add: above_def, rule hoare_ret, assumption, rule w)
qed

lemma above_rounds: "hoare (above n st) (dup_rounds m pl n i) (\<lambda>_. above n st)"
proof (induction m arbitrary: i)
  case 0
  show ?case unfolding dup_rounds.simps by (rule above_ctx) (rule cx.io_stop)
next
  case (Suc m)
  let ?A = "\<lambda>_ :: unit. above n st"
  have q: "hoare (above n st) (whenM b (dup_index p i)) ?A" for b p by (rule above_ctx) (intro ctx_rules ctx)
  have l: "hoare (above n st) (dup_lines k pl) ?A" for k by (rule above_ctx [OF dup_lines])
  have s: "hoare (above n st) (set_pos x) ?A" for x by (rule above_ctx) (rule ctx)
  have r: "hoare (above n st) (mod_src f) ?A" for f by (rule hoare_modify) (simp add: above_def)
  have b: "hoare (above n st) (if r then shouldRepeat n else ret False) (\<lambda>_. above n st)" for r
    using above_shouldRepeat by (auto intro: hoare_ret)
  show ?case
    unfolding dup_rounds.simps
    by (rule hoare_bind [OF hoare_gets [where Q = "\<lambda>_. above n st"]], assumption, rule hoare_bind [OF b], rule hoare_if, rule hoare_ret, assumption,
        rule hoare_bind [OF hoare_gets [where Q = "\<lambda>_. above n st"]], assumption, rule hoare_bind [OF s], rule hoare_bind [OF r], rule hoare_let,
        rule hoare_bind [OF q], rule hoare_bind [OF r], rule hoare_bind [OF l], rule Suc)
qed

lemma above_butlast:
  assumes "above n st s" "length st = Suc n" "\<not> IsInWork (st ! n)"
  shows "blocks_kept st (butlast (RepeatStack (prog s)))"
  unfolding blocks_kept_def
proof (intro allI impI)
  fix k assume k: "k < length st" "IsInWork (st ! k)"
  then have "k < n" using assms(2,3) by (cases "k = n") auto
  then show "k < length (butlast (RepeatStack (prog s))) \<and> block_rel (st ! k) (butlast (RepeatStack (prog s)) ! k)"
    using assms(1,2) k by (auto simp: above_def blocks_kept_def nth_butlast)
qed

lemma run_dup:
  assumes "collecting s" "n = length (RepeatStack (prog s)) - 1"
  shows "ctx_rel A B C s (snd (run_state (run_dup pl n dup) s))"
proof -
  let ?st = "RepeatStack (prog s)"
  have n: "length ?st = Suc n" "\<not> IsInWork (?st ! n)"
    using assms by (auto simp: collecting_def last_conv_nth)
  obtain t where t: "run_state (dup_enter n) s = ((), t)" by (metis (full_types) old.unit.exhaust surj_pair)
  have e: "progress C s t" "context_of t = (macrolabp (labs s), butlast (sourcePosStack s), lijst (srcs s) + 1, listmacro (prog s) + 1,
      IncludeLevel (prog s), fileNameFull (prog s))" "macro_defs (srcs t) = macro_defs (srcs s)" "above n ?st t"
    using t n by (auto simp: dup_enter_def mod_dup_def ctx_defs above_def blocks_kept_def block_rel_def)
  obtain u where u: "run_state (dup_rounds (rounds_fuel dup) pl n 0) t = ((), u)" by (metis (full_types) old.unit.exhaust surj_pair)
  have tu: "ctx_rel False B C t u" by (rule state_io_relD [OF dup_rounds u])
  have "above n ?st u" by (rule hoareD [OF above_rounds e(4) u])
  then have "blocks_kept ?st (butlast (RepeatStack (prog u)))"
    using n by (rule_tac above_butlast)
  then have "ctx_rel A B C s (snd (run_state (dup_leave s) u))"
    using e tu by (auto simp: dup_leave_def set_pos_def count_line_def ctx_defs intro: map_le_trans)
  then show ?thesis
    by (simp add: run_dup_def t u)
qed

lemma repeat_ends [ctx]: "ctxy A B C (dirEDUP pl)" "ctxy A B C (dirENDM pl)"
proof -
  have e: "ctxy A B C (Error m o1 x)" for m o1 x by (rule ctx)
  have d: "ctxy A B C (mod_dup n (\<lambda>d. d\<lparr>rep_Level := rep_Level d - 1\<rparr>))" for n by (rule ctx)
  show "ctxy A B C (dirEDUP pl)"
    unfolding dirEDUP_def Let_def
    by (rule cx.io_get_at) (use e d run_dup in \<open>auto simp: state_io_rel_def\<close>)
  then show "ctxy A B C (dirENDM pl)"
    unfolding dirENDM_def by (intro ctx_rules ctx)
qed

text \<open>Included files.\<close>

lemma parse_file [ctx]: "ctxy A B C (parse_file n pl)"
proof (induction n)
  case (Suc n)
  show ?case unfolding parse_file.simps by (intro ctx_rules ctx Suc)
qed (auto intro!: ctx_rules)

lemma parse_contents [ctx]: "ctxy A B C (parse_contents pl p)"
  unfolding parse_contents_def by (intro ctx_rules ctx; simp add: ctx_defs)

lemma open_file [ctx]: "ctxy A B C (OpenFile h pl name)"
proof -
  have "ctx_rel A B C s (snd (run_state (OpenFile h pl name) s))" for s
  proof -
    obtain t0 where t0: "run_state (add_include_level 1) s = ((), t0)" by (metis (full_types) old.unit.exhaust surj_pair)
    have e0: "t0 = s\<lparr>prog := (prog s)\<lparr>IncludeLevel := IncludeLevel (prog s) + 1\<rparr>\<rparr>" using t0 by (simp add: add_include_level_def)
    have err: "ctx_rel A B C s (snd (run_state (do { Error m o1 x; add_include_level (-1) }) t0))" for m o1 x
    proof -
      obtain v where v: "run_state (Error m o1 x) t0 = ((), v)" by (metis (full_types) old.unit.exhaust surj_pair)
      have l: "leaf_rel t0 v" by (rule state_io_relD [OF leaf_reports(1) v])
      from leaf_srcs [OF l] l show ?thesis by (simp add: add_include_level_def v) (simp add: e0 leaf_rel_def ctx_defs)
    qed
    have ok: "ctx_rel A B C s (snd (run_state (do { enter_file name; parse_contents pl p; leave_file (prog t0) name }) t0))" for p
    proof -
      obtain t where t: "run_state (enter_file name) t0 = ((), t)" by (metis (full_types) old.unit.exhaust surj_pair)
      have e: "progress C s t" "context_of t = (macrolabp (labs s), sourcePosStack s, lijst (srcs s), listmacro (prog s),
          IncludeLevel (prog s) + 1, Some name)" "lijstp (srcs t) = lijstp (srcs s)" "macro_defs (srcs t) = macro_defs (srcs s)"
        "RepeatStack (prog t) = RepeatStack (prog s)"
        using t by (auto simp: enter_file_def add_block_level_def Replace_define_int_def Replace_define_def ctx_defs e0 whenM_def split: if_splits)
      obtain u where u: "run_state (parse_contents pl p) t = ((), u)" by (metis (full_types) old.unit.exhaust surj_pair)
      have tu: "ctx_rel A B C t u" by (rule state_io_relD [OF parse_contents u])
      obtain w d where w: "ctx_rel A B C u w" "ErrorCount d = ErrorCount (dg w)" and v: "snd (run_state (leave_file (prog t0) name) u) =
          w\<lparr>prog := (prog w)\<lparr>IncludeLevel := IncludeLevel (prog w) - 1, fileNameFull := fileNameFull (prog t0)\<rparr>,
            sourcePosStack := butlast (sourcePosStack w), dg := d\<rparr>"
        using leave_file_run by blast
      have "ctx_rel A B C s (snd (run_state (leave_file (prog t0) name) u))"
        unfolding v unfolding e0 by (rule ctx_unbracket [OF e cx.R_trans [OF tu w(1)] w(2)])
      then show ?thesis by (simp add: t u)
    qed
    show ?thesis
      using err ok by (auto simp: OpenFile_def t0 simp del: split: option.split)
  qed
  then show ?thesis by (simp add: state_io_rel_def)
qed

lemma include_file [ctx]: "ctxy A B C (dirINCLUDE h pl)"
  unfolding dirINCLUDE_def IncludeFile_def by (intro ctx_rules ctx; simp add: ctx_defs)

section \<open>Dispatch\<close>

lemma repeat_line [ctx]: "ctxy A B C (repeat_line n pl p)"
proof (induction n)
  case (Suc n)
  show ?case unfolding repeat_line.simps by (intro ctx_rules ctx Suc; simp add: ctx_defs)
qed (auto intro!: ctx_rules)

lemma dot_repeat [ctx]: "ctxy A B C (dot_repeat pl p q)"
proof -
  have r: "ctxy A B C (do { s \<leftarrow> State_Monad.get; mod_prog (\<lambda>g. g\<lparr>listmacro := listmacro g + 1\<rparr>); repeat_line n pl (f s);
      modify (\<lambda>t. t\<lparr>line := line s\<rparr>); mod_prog (\<lambda>g. g\<lparr>listmacro := listmacro g - 1\<rparr>); set_lp []; ret True })" for n f
  proof (rule cx.io_get_at)
    fix s :: asm
    define t where "t = s\<lparr>prog := (prog s)\<lparr>listmacro := listmacro (prog s) + 1\<rparr>\<rparr>"
    obtain u where u: "run_state (repeat_line n pl (f s)) t = ((), u)" by (metis (full_types) old.unit.exhaust surj_pair)
    have "ctx_rel A B C t u" by (rule state_io_relD [OF repeat_line u])
    then show "ctx_rel A B C s (snd (run_state (do { mod_prog (\<lambda>g. g\<lparr>listmacro := listmacro g + 1\<rparr>); repeat_line n pl (f s);
      modify (\<lambda>t. t\<lparr>line := line s\<rparr>); mod_prog (\<lambda>g. g\<lparr>listmacro := listmacro g - 1\<rparr>); set_lp []; ret True }) s))"
      using u by (simp add: t_def set_lp_def) (simp add: ctx_defs)
  qed
  have "ctxy A B C (dot_count q)" unfolding dot_count_def by (intro ctx_rules ctx)
  then show ?thesis
    unfolding dot_repeat_def by (intro ctx_rules ctx r; simp)
qed

lemma repeat_directives: "list_all (\<lambda>(n, f). ctxy A B C f) (repeat_directives pl)"
  unfolding repeat_directives_def by (simp add: ctx)

lemma lookup_ctx:
  assumes "list_all (\<lambda>(n, f). ctxy A B C f) fs" "zoek name (insertd_all fs Map.empty) = Some f"
  shows "ctxy A B C f"
proof -
  have "\<forall>f \<in> ran (insertd_all fs Map.empty). ctxy A B C f" by (rule insertd_all_ran [OF assms(1)]) simp
  then show ?thesis using assms(2) by (auto simp: zoek_def ran_def split: option.splits if_splits)
qed

lemma directive_REPT [ctx]: "ctxy A B C (ParseDirective_REPT pl)"
proof -
  have r: "ctxy A B C (case (case n of None \<Rightarrow> None | Some name \<Rightarrow> zoek name (DirectivesTable_dup pl)) of
      Some f \<Rightarrow> do { f; ret True } | None \<Rightarrow> do { set_lp olp; ret False })" for n olp
    using lookup_ctx [OF repeat_directives]
    by (auto simp: DirectivesTable_dup_def intro!: ctx_rules split: option.split)
  show ?thesis
    unfolding ParseDirective_REPT_def
    by (intro cx.io_bind [OF cx.io_gets] cx.io_bind [OF cx.io_modify] cx.io_bind [OF cx.io_lexM] r; simp add: ctx_defs)
qed

lemma control_directives: "list_all (\<lambda>(n, f). ctxy A B C f) (control_directives h pl)"
  unfolding control_directives_def by (simp add: ctx)

lemma ctx_directive:
  assumes "list_all (\<lambda>(n, f). ctxy A B C f) (other_directives h)"
  shows "ctxy A B C (ParseDirective h pl b)"
proof -
  have "list_all (\<lambda>(n, f). ctxy A B C f) (data_directives @ control_directives h pl @ other_directives h)"
    using assms ctx_data_directives control_directives by simp
  then have f: "zoek name (DirectivesTable h pl) = Some f \<Longrightarrow> ctxy A B C f" for name f
    unfolding DirectivesTable_def by (rule lookup_ctx)
  have n: "ctxy A B C (do { set_lp olp; ret False })" for olp
    by (intro ctx_rules; simp add: ctx_defs)
  have "ctxy A B C (case n of None \<Rightarrow> do { set_lp olp; ret False }
        | Some name \<Rightarrow> (case zoek name (DirectivesTable h pl) of
               Some f \<Rightarrow> do { f; ret True }
             | None \<Rightarrow> if b \<and> \<not> IsPseudoOpBOF x \<or> \<not> is_dot name l then do { set_lp olp; ret False }
                 else dot_repeat pl olp name))" for n x l olp
    using n dot_repeat f by (auto intro!: cx.io_bind [OF f] cx.io_ret split: option.split)
  then have "ctxy A B C (do { modify (\<lambda>s. s\<lparr>bp := lp s\<rparr>); x \<leftarrow> gets (\<lambda>s. syx (opts s)); n \<leftarrow> lexM (getinstr x); l \<leftarrow> gets lp;
      (case n of None \<Rightarrow> do { set_lp olp; ret False }
        | Some name \<Rightarrow> (case zoek name (DirectivesTable h pl) of
               Some f \<Rightarrow> do { f; ret True }
             | None \<Rightarrow> if b \<and> \<not> IsPseudoOpBOF x \<or> \<not> is_dot name l then do { set_lp olp; ret False }
                 else dot_repeat pl olp name)) })" for olp
    by (intro cx.io_bind [OF cx.io_gets] cx.io_bind [OF cx.io_modify] cx.io_bind [OF cx.io_lexM]) (simp_all add: ctx_defs)
  then show ?thesis
    unfolding ParseDirective_def using n by (intro cx.io_bind [OF cx.io_gets]) (simp add: cx.io_ret)
qed

lemma ctx_line:
  assumes "list_all (\<lambda>(n, f). ctxy A B C f) (other_directives h)"
  shows "ctxy A B C (let rept = ParseDirective_REPT pl in ParseLine h (ParseDirective h pl) rept (mac_Emit pl) (struct_Emit rept) b)"
  unfolding Let_def by (intro ctx ctx_directive [OF assms])

end

end
