(* ===== verification/Sj_Main_Spec.thy ===== *)
theory Sj_Main_Spec
  imports Sj_Context_Prog
begin

text \<open>
  The whole program: every \<open>ParseLine_n\<close> leaves the context of its line as it was, by induction on the nesting of lines, and the passes keep what
  \<open>kept\<close> says. From this: a line restores its context, the structures stay well-formed, and errors are final.
\<close>

section \<open>Lines of every depth\<close>

definition well_behaved :: "host \<Rightarrow> bool" where
  "well_behaved h \<longleftrightarrow> list_all (\<lambda>(n, f). ctxy True True True f) (other_directives h)"

lemma ctx_ParseLine_n:
  assumes "well_behaved h"
  shows "ctxy True True True (ParseLine_n n h b)"
proof (induction n arbitrary: b)
  case (Suc n)
  have "line_parser (ParseLine_n n h)" by unfold_locales (rule Suc)
  then show ?case
    using line_parser.ctx_line assms by (simp add: well_behaved_def Let_def)
qed (simp add: cx.io_stop)

text \<open>A host without other directives.\<close>

interpretation lines: line_parser "ParseLine_n n (h\<lparr>other_directives := []\<rparr>)" for n h
  by unfold_locales (rule ctx_ParseLine_n, simp add: well_behaved_def)

section \<open>Passes\<close>

lemma kept_of_ctx: "ctxy A B C m \<Longrightarrow> state_io_rel (kept C) m"
  by (simp add: state_io_rel_def ctx_rel_def progress_def)

lemmas kept_rules = kp.quiet_rules kp.io_modify

lemma leafy_reserve: "leafy (reserve ks)"
  by (induction ks) (auto intro!: leaf_rules leaf)

lemma leafy_replace_defines: "leafy (replace_defines ds)"
  by (induction ds) (auto simp: Replace_define_def intro!: leaf_rules leaf)

lemma kept_missing_edups: "state_io_rel (kept C) (missing_edups ds)"
proof (induction ds)
  case (Cons d ds)
  show ?case unfolding missing_edups.simps
    by (intro kept_rules kp.lift [OF leaf_reports(1)] Cons; simp add: kept_def)
qed (simp add: kp.io_ret)

lemmas kept_leaves = leaf [THEN kp.lift]

lemma kept_init_variables: "state_io_rel (kept C) init_variables"
  unfolding init_variables_def by (intro kept_rules kept_leaves kept_of_ctx [OF ctx_SetLastParsedLabel(1)]; simp add: kept_def structs_ok_def)

lemma kept_restoreSystemSyntax: "state_io_rel (kept C) restoreSystemSyntax"
  unfolding restoreSystemSyntax_def by (intro kept_rules) (simp add: kept_def structs_ok_def)

lemma leafy_init_device: "state_io_rel (kept C) init_device"
  unfolding init_device_def by (intro kept_rules kept_leaves; simp add: kept_def structs_ok_def)

lemma leafy_assign: "leafy (CDefineTable_assign ds)"
  unfolding CDefineTable_assign_def by (intro leaf_rules leaf; simp)

lemma kept_empty_structures:
  "state_io_rel (kept C) struct_ReInit" "state_io_rel (kept C) mac_ReInit" "state_io_rel (kept C) MacroDefine_ReInit"
  unfolding struct_ReInit_def mac_ReInit_def MacroDefine_ReInit_def
  by (intro kept_rules; simp add: kept_def structs_ok_def table_ok_def)+

lemma kept_init_pass: "state_io_rel (kept C) (InitPass ds)"
  unfolding InitPass_def
  by (intro kept_rules kept_leaves kept_restoreSystemSyntax kept_init_variables kept_empty_structures leafy_init_device kp.lift [OF leafy_assign]
     kp.lift [OF leafy_replace_defines]; simp add: kept_def)

lemma kept_finish_pass: "state_io_rel (kept C) finish_pass"
  unfolding finish_pass_def by (intro kept_rules kept_missing_edups; simp add: kept_def structs_ok_def)

lemma kept_assemble_sources:
  assumes "well_behaved h"
  shows "state_io_rel (kept C) (assemble_sources n h e fs)"
proof (induction fs)
  case (Cons f fs)
  have "line_parser (ParseLine_n n h)" by unfold_locales (rule ctx_ParseLine_n [OF assms])
  note open_file = line_parser.open_file [OF this]
  show ?case unfolding assemble_sources.simps
    by (intro kept_rules kept_leaves kept_of_ctx [OF open_file] Cons; simp add: kept_def structs_ok_def)
qed (simp add: kp.io_ret)

lemma kept_run_pass:
  assumes "well_behaved h"
  shows "state_io_rel (kept C) (run_pass n h ds e fs)"
  unfolding run_pass_def
  by (intro kept_rules kept_init_pass kept_finish_pass kept_assemble_sources [OF assms]; simp add: kept_def structs_ok_def)

lemma kept_assemble:
  assumes "well_behaved h"
  shows "state_io_rel (kept C) (assemble n h ds e fs)"
  unfolding assemble_def ReserveLabelKeywords_def
  by (intro kept_rules kp.lift [OF leafy_reserve] kept_run_pass [OF assms])

section \<open>Properties\<close>

lemma run_pass_structs:
  assumes "well_behaved h"
  shows "structs_ok (prog (snd (run_state (run_pass n h ds e fs) s)))"
proof -
  define m where "m = do { mac_ReInit; MacroDefine_ReInit; CDefineTable_assign ds; mod_labs TL_InitPass; init_device; s \<leftarrow> State_Monad.get;
     replace_defines (predefined_defines s); modify (\<lambda>s. s\<lparr>PredefinedCounter := 0\<rparr>); assemble_sources n h e fs; finish_pass }"
  define t where "t = snd (run_state (do { modify (\<lambda>s. s\<lparr>pass := pass s + 1\<rparr>); Relocation_InitPass; restoreSystemSyntax; init_variables; struct_ReInit }) s)"
  have "strs (prog t) = (\<lambda>_. [])"
    by (simp add: t_def struct_ReInit_def split_beta)
  then have t: "structs_ok (prog t)" by (simp add: structs_ok_def table_ok_def)
  have "state_io_rel (kept True) m"
    unfolding m_def
    by (intro kept_rules kept_leaves kept_empty_structures leafy_init_device kp.lift [OF leafy_assign]
       kp.lift [OF leafy_replace_defines] kept_finish_pass kept_assemble_sources [OF assms]; simp add: kept_def)
  then have "kept True t (snd (run_state m t))" by (simp add: state_io_rel_def)
  moreover have "snd (run_state (run_pass n h ds e fs) s) = snd (run_state m t)"
    by (simp add: run_pass_def InitPass_def t_def m_def split_beta)
  ultimately show ?thesis using t by (simp add: kept_def)
qed

definition demo_host :: host where
  "demo_host = \<lparr>input_file = (\<lambda>n _. n), file_contents = (\<lambda>_. None), OutPrefix = [], uninit = (\<lambda>_. 0), other_directives = []\<rparr>"

lemma demo_host_well_behaved: "well_behaved demo_host"
  by (simp add: demo_host_def well_behaved_def)

text \<open>Claim C2. A line restores the context it was parsed in, whatever it holds (instructions, directives, macro calls, structure instances, skipped
  branches, repeated blocks, included files, nested to any depth) and whatever errors it has: the local label scope of the macro, the positions of
  the files and macros around it, the source of the lines (a macro body, a repeated block or the file), the depths of the listing and of the
  includes and the file name are as they were. Inside a body the line only consumes lines of it, the macro arguments stay, no macro is lost, the
  pass is the same and only END stops the run, which stays stopped.\<close>

theorem line_restores_context:
  assumes "well_behaved h" "run_state (ParseLine_n n h b) s = ((), t)"
  shows "macrolabp (labs t) = macrolabp (labs s) \<and> butlast (sourcePosStack t) = butlast (sourcePosStack s) \<and>
    lijst (srcs t) = lijst (srcs s) \<and> listmacro (prog t) = listmacro (prog s) \<and> IncludeLevel (prog t) = IncludeLevel (prog s) \<and>
    fileNameFull (prog t) = fileNameFull (prog s) \<and> suffix (lijstp (srcs t)) (lijstp (srcs s)) \<and>
    (macrolabp (labs s) \<noteq> None \<longrightarrow> macro_defs (srcs t) = macro_defs (srcs s)) \<and> macs (prog s) \<subseteq>\<^sub>m macs (prog t) \<and>
    pass t = pass s \<and> (IsRunning (srcs t) \<longrightarrow> IsRunning (srcs s))"
proof -
  have "ctx_rel True True True s t" by (rule state_io_relD [OF ctx_ParseLine_n [OF assms(1)] assms(2)])
  then show ?thesis by (simp add: ctx_rel_def progress_def context_of_def)
qed

text \<open>The first line of a macro body that includes a file which is not there.\<close>

definition demo_line :: asm where
  "demo_line = asm0\<lparr>line := '' include missing'', labs := (labs asm0)\<lparr>macrolabp := Some ''3''\<rparr>,
     srcs := (srcs asm0)\<lparr>IsRunning := True, lijst := 1, lijstp := [(Some '' nop'', newFile ''f'')], macro_defs := [(''a'', ''1'')]\<rparr>\<rparr>"

theorem line_restores_context_witness:
  "well_behaved demo_host \<and> (let t = snd (run_state (ParseLine_n 2 demo_host True) demo_line) in
     macrolabp (labs t) = Some ''3'' \<and> lijst (srcs t) = 1 \<and> macro_defs (srcs t) = [(''a'', ''1'')] \<and>
     suffix (lijstp (srcs t)) [(Some '' nop'', newFile ''f'')])"
proof -
  have "run_state (ParseLine_n 2 demo_host True) demo_line = ((), snd (run_state (ParseLine_n 2 demo_host True) demo_line))"
    by (simp add: prod_eq_iff)
  from line_restores_context [OF demo_host_well_behaved this] show ?thesis
    using demo_host_well_behaved by (simp add: Let_def demo_line_def)
qed

text \<open>Claim C3. The table of structures is well-formed in every state the program reaches: every structure is stored once, under the hash of its
  name, every member starts at the offset where the one before it ends, beginning with 0, its length goes with its type, and the size of the
  structure is the end of its last member. Every line keeps this, also one that ends in errors or defines a structure from others, and
  it holds when the assembler is done, whatever the sources.\<close>

theorem structures_stay_laid_out:
  assumes "well_behaved h"
  shows "(structs_ok (prog s) \<longrightarrow> structs_ok (prog (snd (run_state (ParseLine_n n h b) s)))) \<and>
    structs_ok (prog (snd (run_state (assemble n h ds e fs) s0)))"
proof -
  have "state_io_rel (kept True) (ParseLine_n n h b)" by (rule kept_of_ctx [OF ctx_ParseLine_n [OF assms]])
  then show ?thesis
    using run_pass_structs [OF assms] by (simp add: state_io_rel_def kept_def assemble_def split_beta)
qed

definition demo_struct :: CStructure where
  "demo_struct = AddMember (\<lambda>ofs. new_entry2 ofs 2 0 REL_OFF SMEMBWORD)
     (AddMember (\<lambda>ofs. new_entry2 ofs 1 7 REL_OFF SMEMBBYTE) (new_CStructure ''P''))"

definition demo_program :: asm where
  "demo_program = asm0\<lparr>prog := (prog asm0)\<lparr>strs := (\<lambda>_. [])(bucket ''P'' := [demo_struct])\<rparr>\<rparr>"

theorem structures_stay_laid_out_witness:
  "well_behaved demo_host \<and> structs_ok (prog demo_program) \<and>
   structs_ok (prog (snd (run_state (ParseLine_n 2 demo_host True) (demo_program\<lparr>line := ''Q P''\<rparr>)))) \<and>
   structs_ok (prog (snd (run_state (assemble 3 demo_host (defs (dg asm0)) 1 [''a.asm'', ''b.asm'']) demo_program)))"
proof -
  have "struct_ok demo_struct" "st_naam demo_struct = ''P''"
    by (simp_all add: demo_struct_def new_CStructure_def new_entry2_def AddMember_def struct_ok_def member_ok_def wrap32_def)
  then have ok: "structs_ok (prog demo_program)"
    by (simp add: demo_program_def structs_ok_def table_ok_def)
  then have "structs_ok (prog (demo_program\<lparr>line := ''Q P''\<rparr>))" by simp
  with ok demo_host_well_behaved show ?thesis
    using structures_stay_laid_out [OF demo_host_well_behaved] by blast
qed

text \<open>Claim C9. Errors are never forgotten: no line and no pass lowers the number of errors, and when the first pass or the first two passes over
  the sources end with an error, the assembler ends with a failure status.\<close>

theorem errors_are_final:
  assumes "well_behaved h"
  shows "ErrorCount (dg s) \<le> ErrorCount (dg (snd (run_state (ParseLine_n n h b) s))) \<and>
    ErrorCount (dg s) \<le> ErrorCount (dg (snd (run_state (run_pass n h ds e fs) s))) \<and>
    (0 < ErrorCount (dg (snd (run_state (do { ReserveLabelKeywords; run_pass n h ds e fs }) s))) \<or>
     0 < ErrorCount (dg (snd (run_state (do { ReserveLabelKeywords; run_pass n h ds e fs; run_pass n h ds e fs }) s))) \<longrightarrow>
       fst (run_state (assemble n h ds e fs) s))"
proof -
  have l: "state_io_rel (kept False) (ParseLine_n n h b)" by (rule kept_of_ctx [OF ctxy_True [OF ctx_ParseLine_n [OF assms]]])
  have p: "ErrorCount (dg s) \<le> ErrorCount (dg (snd (run_state (run_pass n h ds e fs) s)))" for s
    using kept_run_pass [OF assms] by (simp add: state_io_rel_def kept_def)
  define r where "r = snd (run_state ReserveLabelKeywords s)"
  define s1 where "s1 = snd (run_state (run_pass n h ds e fs) r)"
  define s2 where "s2 = snd (run_state (run_pass n h ds e fs) s1)"
  define s3 where "s3 = snd (run_state (run_pass n h ds e fs) s2)"
  have "ErrorCount (dg s1) \<le> ErrorCount (dg s2)" "ErrorCount (dg s2) \<le> ErrorCount (dg s3)"
    using p by (simp_all add: s2_def s3_def)
  then have "0 < ErrorCount (dg s1) \<or> 0 < ErrorCount (dg s2) \<Longrightarrow> ErrorCount (dg s3) \<noteq> 0" by linarith
  then show ?thesis
    using l p by (auto simp: state_io_rel_def kept_def assemble_def split_beta r_def [symmetric] s1_def [symmetric] s2_def [symmetric] s3_def [symmetric])
qed

definition demo_error :: asm where
  "demo_error = asm0\<lparr>dg := (dg asm0)\<lparr>ErrorCount := 1\<rparr>\<rparr>"

theorem errors_are_final_witness:
  "well_behaved demo_host \<and> fst (run_state (assemble 3 demo_host (defs (dg asm0)) 1 [''missing'']) demo_error)"
proof -
  note final = errors_are_final [OF demo_host_well_behaved, where n = 3 and b = True and ds = "defs (dg asm0)" and e = 1 and fs = "[''missing'']"]
  define r where "r = snd (run_state ReserveLabelKeywords demo_error)"
  have "leaf_rel demo_error r" using leafy_reserve [of label_keywords] by (simp add: r_def ReserveLabelKeywords_def state_io_rel_def)
  then have "1 \<le> ErrorCount (dg r)" by (simp add: leaf_rel_def demo_error_def)
  then have "0 < ErrorCount (dg (snd (run_state (run_pass 3 demo_host (defs (dg asm0)) 1 [''missing'']) r)))"
    using final [of r] by linarith
  then have "fst (run_state (assemble 3 demo_host (defs (dg asm0)) 1 [''missing'']) demo_error)"
    using final [of demo_error] by (simp add: r_def split_beta)
  then show ?thesis using demo_host_well_behaved by simp
qed

section \<open>The counters that the source reads\<close>

lemma Replace_value: "def_value d' n = Some v \<and> (\<forall>m. m \<noteq> n \<longrightarrow> def_value d' m = def_value d m)"
  if "d' = d\<lparr>defs := snd (Replace (defs d) n v)\<rparr>" "\<forall>c \<in> set v. c \<noteq> CHR 0x0A \<and> c \<noteq> CHR 0x0D"
proof -
  have "takeWhile (\<lambda>c. c \<noteq> CHR 0x0A \<and> c \<noteq> CHR 0x0D) v = v" using that(2) by (simp add: takeWhile_eq_all_conv)
  then show ?thesis
    using that(1)
    by (auto simp: def_value_def dt.top_put_frame def_lookup_abs def_abs_Replace CDefineTableEntry_def CDefineTableEntry_Replace_def
        split: list.split prod.split)
qed

text \<open>The other defines of a list leave a value alone.\<close>

lemma replace_defines_frame:
  assumes "n \<notin> fst ` set ds"
  shows "def_value (dg (snd (run_state (replace_defines ds) s))) n = def_value (dg s) n"
  using assms by (induction ds arbitrary: s) (auto simp: Replace_define_def def_value_def dt.top_put_frame)

lemma replace_defines_append:
  "snd (run_state (replace_defines (ds @ es)) s) = snd (run_state (replace_defines es) (snd (run_state (replace_defines ds) s)))"
  by (induction ds arbitrary: s) (simp_all add: split_beta)

lemma replace_defines_counts:
  "ErrorCount (dg (snd (run_state (replace_defines ds) s))) = ErrorCount (dg s) \<and>
   WarningCount (dg (snd (run_state (replace_defines ds) s))) = WarningCount (dg s)"
  by (induction ds arbitrary: s) (simp_all add: Replace_define_def split_beta)

lemma replace_defines_value:
  assumes "n \<notin> fst ` set es" "\<forall>c \<in> set v. c \<noteq> CHR 0x0A \<and> c \<noteq> CHR 0x0D"
  shows "def_value (dg (snd (run_state (replace_defines (ds @ (n, v) # es)) s))) n = Some v"
proof -
  let ?t = "snd (run_state (replace_defines ds) s)"
  have "def_value (dg (snd (run_state (Replace_define n v) ?t))) n = Some v"
    using Replace_value [OF _ assms(2), of _ "dg ?t"] by (simp add: Replace_define_def)
  then show ?thesis
    using replace_defines_frame [OF assms(1)] by (simp add: replace_defines_append split_beta)
qed

lemma predefined_split:
  obtains ds es where "predefined_defines s = ds @ (''__ERRORS__'', fmt_d (ErrorCount (dg s))) # es" "''__ERRORS__'' \<notin> fst ` set es"
proof (rule that)
  show "predefined_defines s = take 7 (predefined_defines s) @ (''__ERRORS__'', fmt_d (ErrorCount (dg s))) # drop 8 (predefined_defines s)"
    "''__ERRORS__'' \<notin> fst ` set (drop 8 (predefined_defines s))"
    by (simp_all add: predefined_defines_def)
qed

lemma predefined_split_warnings:
  obtains ds es where "predefined_defines s = ds @ (''__WARNINGS__'', fmt_d (WarningCount (dg s))) # es" "''__WARNINGS__'' \<notin> fst ` set es"
proof (rule that)
  show "predefined_defines s = take 8 (predefined_defines s) @ (''__WARNINGS__'', fmt_d (WarningCount (dg s))) # drop 9 (predefined_defines s)"
    "''__WARNINGS__'' \<notin> fst ` set (drop 9 (predefined_defines s))"
    by (simp_all add: predefined_defines_def)
qed

lemma mirrored_InitPass: "counters_mirrored (dg (snd (run_state (InitPass ds) s)))"
proof -
  define u where "u = snd (run_state (do { Relocation_InitPass; restoreSystemSyntax; init_variables; struct_ReInit; mac_ReInit; MacroDefine_ReInit;
    CDefineTable_assign ds; mod_labs TL_InitPass; init_device }) s)"
  define v where "v = snd (run_state (replace_defines (predefined_defines u)) u)"
  have "snd (run_state (InitPass ds) s) = v\<lparr>PredefinedCounter := 0\<rparr>"
    by (simp add: InitPass_def u_def v_def State_Monad.get_def split_beta)
  moreover obtain d1 e1 where "predefined_defines u = d1 @ (''__ERRORS__'', fmt_d (ErrorCount (dg u))) # e1" "''__ERRORS__'' \<notin> fst ` set e1"
    by (rule predefined_split)
  then have "def_value (dg v) ''__ERRORS__'' = Some (fmt_d (ErrorCount (dg u)))"
    unfolding v_def using replace_defines_value [OF _ fmt_d_no_eol] by simp
  moreover obtain d2 e2 where "predefined_defines u = d2 @ (''__WARNINGS__'', fmt_d (WarningCount (dg u))) # e2" "''__WARNINGS__'' \<notin> fst ` set e2"
    by (rule predefined_split_warnings)
  then have "def_value (dg v) ''__WARNINGS__'' = Some (fmt_d (WarningCount (dg u)))"
    unfolding v_def using replace_defines_value [OF _ fmt_d_no_eol] by simp
  ultimately show ?thesis using replace_defines_counts [of "predefined_defines u" u] by (simp add: counters_mirrored_def v_def)
qed

text \<open>What the source reads.\<close>

lemma Get_value:
  assumes "n \<noteq> []" "n \<noteq> ''__COUNTER__''" "n \<noteq> ''__LINE__''"
  shows "fst (run_state (Get n) s) = def_value (dg s) n"
  using assms by (auto simp: Get_def def_value_def split: option.split prod.split)

text \<open>A define of another name.\<close>

definition other_name :: "string \<Rightarrow> bool" where
  "other_name n \<longleftrightarrow> n \<noteq> ''__ERRORS__'' \<and> n \<noteq> ''__WARNINGS__''"

lemma mirrored_other:
  assumes "counters_mirrored d" "\<And>m. \<not> other_name m \<Longrightarrow> def_value d' m = def_value d m"
    "ErrorCount d' = ErrorCount d" "WarningCount d' = WarningCount d"
  shows "counters_mirrored d'"
  using assms by (simp add: counters_mirrored_def other_name_def)

lemma mirrored_defines:
  assumes "counters_mirrored (dg s)" "other_name n"
  shows "counters_mirrored (dg (snd (run_state (Add n v a) s)))" "counters_mirrored (dg (snd (run_state (Replace_define n v) s)))"
    "counters_mirrored (dg (snd (run_state (Remove_define n) s)))"
proof -
  define u where "u = snd (run_state (whenM (FindDuplicate (defs (dg s)) n) (Error ''Duplicate define (replacing old value)'' (Some n) E_PASS03)) s)"
  have "counters_mirrored (dg u)" using assms(1) mirrored_error_upd by (simp add: u_def Error_def)
  then show "counters_mirrored (dg (snd (run_state (Add n v a) s)))"
    using assms(2)
    by (auto simp: Add_def u_def [symmetric] split_beta def_value_def dt.top_push CDefineTableEntry_def other_name_def simp del: run_whenM
        intro: mirrored_other)
  show "counters_mirrored (dg (snd (run_state (Replace_define n v) s)))"
    using assms by (auto simp: Replace_define_def def_value_def dt.top_put_frame other_name_def intro!: mirrored_other [OF assms(1)])
  have "def_lookup (snd (Remove t n)) m = def_lookup t m" if "m \<noteq> n" for t m
    using that by (simp add: def_lookup_abs def_abs_Remove)
  then show "counters_mirrored (dg (snd (run_state (Remove_define n) s)))"
    using assms
    by (auto simp: Remove_define_def def_value_def other_name_def split_beta intro!: mirrored_other [OF assms(1)] split: if_splits)
qed

text \<open>A report that counts.\<close>

lemma counted_error:
  assumes "ErrorCount (dg (error_upd m b t s)) \<noteq> ErrorCount (dg s)"
  shows "def_value (dg (error_upd m b t s)) ''__ERRORS__'' = Some (fmt_d (ErrorCount (dg (error_upd m b t s))))"
  using assms by (simp add: error_upd_def def_value_count_error split: if_splits)

lemma WarningCount_error: "WarningCount (dg (error_upd m b t s)) = WarningCount (dg s)"
  by (simp add: error_upd_def count_error_def Let_def)

lemma counted_warning:
  "ErrorCount (dg (warning_impl_upd w m b t s)) \<noteq> ErrorCount (dg s) \<longrightarrow>
     def_value (dg (warning_impl_upd w m b t s)) ''__ERRORS__'' = Some (fmt_d (ErrorCount (dg (warning_impl_upd w m b t s))))"
  "WarningCount (dg (warning_impl_upd w m b t s)) \<noteq> WarningCount (dg s) \<longrightarrow>
     def_value (dg (warning_impl_upd w m b t s)) ''__WARNINGS__'' = Some (fmt_d (WarningCount (dg (warning_impl_upd w m b t s))))"
proof -
  have "WarningCount (count_warning w m b d) = WarningCount d + 1" for d by (simp add: count_warning_def Let_def)
  then show "ErrorCount (dg (warning_impl_upd w m b t s)) \<noteq> ErrorCount (dg s) \<longrightarrow>
     def_value (dg (warning_impl_upd w m b t s)) ''__ERRORS__'' = Some (fmt_d (ErrorCount (dg (warning_impl_upd w m b t s))))"
    "WarningCount (dg (warning_impl_upd w m b t s)) \<noteq> WarningCount (dg s) \<longrightarrow>
     def_value (dg (warning_impl_upd w m b t s)) ''__WARNINGS__'' = Some (fmt_d (WarningCount (dg (warning_impl_upd w m b t s))))"
    using counted_error [of m b "w_as_error t" s] by (simp_all add: warning_impl_upd_def def_value_count_warning WarningCount_error)
qed

text \<open>The three reports.\<close>

definition a_report :: "unit M \<Rightarrow> bool" where
  "a_report r \<longleftrightarrow> (\<exists>m b t. r = Error m b t) \<or> (\<exists>m b t. r = Warning m b t) \<or> (\<exists>w b t. r = WarningById w b t)"

lemma report_effect:
  assumes "a_report r"
  shows "(\<exists>m b e. snd (run_state r s) = error_upd m b e s) \<or> (\<exists>w m b e. snd (run_state r s) = warning_impl_upd w m b e s) \<or> snd (run_state r s) = s"
  using assms unfolding a_report_def
proof (elim disjE exE)
  fix m b t
  show "r = Error m b t \<Longrightarrow> ?thesis" by (simp add: Error_def) blast
next
  fix m b t
  show "r = Warning m b t \<Longrightarrow> ?thesis" by (simp add: Warning_def warning_upd_def) blast
next
  fix w b t
  show "r = WarningById w b t \<Longrightarrow> ?thesis" by (simp add: WarningById_def warning_by_id_upd_def) blast
qed

text \<open>Claim C18. The predefined symbols __ERRORS__ and __WARNINGS__ that the source reads are the counters of the assembler. They are at the start of every pass,
  whatever happened in the pass before; a report of any kind keeps them so, and so does a define, a replacement or a removal of any other name.
  A source can define or remove the symbols itself; the next report that counts an error (a warning) sets __ERRORS__ (__WARNINGS__) to its counter
  again, whatever the table held.\<close>

theorem diagnostics_keep_counters_mirrored:
  "counters_mirrored (dg (snd (run_state (InitPass ds) s0))) \<and>
   (counters_mirrored (dg s) \<longrightarrow>
     fst (run_state (Get ''__ERRORS__'') s) = Some (fmt_d (ErrorCount (dg s))) \<and>
     fst (run_state (Get ''__WARNINGS__'') s) = Some (fmt_d (WarningCount (dg s))) \<and>
     (\<forall>r. a_report r \<longrightarrow> counters_mirrored (dg (snd (run_state r s)))) \<and>
     (\<forall>n v a. other_name n \<longrightarrow> counters_mirrored (dg (snd (run_state (Add n v a) s))) \<and>
        counters_mirrored (dg (snd (run_state (Replace_define n v) s))) \<and> counters_mirrored (dg (snd (run_state (Remove_define n) s))))) \<and>
   (\<forall>r t. a_report r \<and> t = snd (run_state r s) \<longrightarrow>
     (ErrorCount (dg t) \<noteq> ErrorCount (dg s) \<longrightarrow> fst (run_state (Get ''__ERRORS__'') t) = Some (fmt_d (ErrorCount (dg t)))) \<and>
     (WarningCount (dg t) \<noteq> WarningCount (dg s) \<longrightarrow> fst (run_state (Get ''__WARNINGS__'') t) = Some (fmt_d (WarningCount (dg t)))))"
proof (intro conjI impI allI)
  show "counters_mirrored (dg (snd (run_state (InitPass ds) s0)))" by (rule mirrored_InitPass)
next
  fix r t
  assume "a_report r \<and> t = snd (run_state r s)"
  then have r: "(\<exists>m b e. t = error_upd m b e s) \<or> (\<exists>w m b e. t = warning_impl_upd w m b e s) \<or> t = s"
    using report_effect by blast
  show "ErrorCount (dg t) \<noteq> ErrorCount (dg s) \<Longrightarrow> fst (run_state (Get ''__ERRORS__'') t) = Some (fmt_d (ErrorCount (dg t)))"
    using r counted_error counted_warning(1) by (auto simp: Get_value)
  show "WarningCount (dg t) \<noteq> WarningCount (dg s) \<Longrightarrow> fst (run_state (Get ''__WARNINGS__'') t) = Some (fmt_d (WarningCount (dg t)))"
    using r WarningCount_error counted_warning(2) by (auto simp: Get_value)
next
  assume m: "counters_mirrored (dg s)"
  then show "fst (run_state (Get ''__ERRORS__'') s) = Some (fmt_d (ErrorCount (dg s)))"
    "fst (run_state (Get ''__WARNINGS__'') s) = Some (fmt_d (WarningCount (dg s)))"
    by (simp_all add: Get_value counters_mirrored_def)
  show "counters_mirrored (dg (snd (run_state r s)))" if "a_report r" for r
    using that m mirrored_error_upd mirrored_warning_impl_upd
    by (auto simp: a_report_def Error_def Warning_def WarningById_def warning_upd_def warning_by_id_upd_def)
  fix n v a
  assume "other_name n"
  then show "counters_mirrored (dg (snd (run_state (Add n v a) s)))" "counters_mirrored (dg (snd (run_state (Replace_define n v) s)))"
    "counters_mirrored (dg (snd (run_state (Remove_define n) s)))"
    using mirrored_defines m by blast+
qed

text \<open>An error after the source has removed all defines.\<close>

theorem diagnostics_keep_counters_mirrored_witness:
  "(let s1 = snd (run_state (InitPass (defs diag0)) asm0); s2 = snd (run_state (Error ''e'' None E_ALL) s1); s3 = snd (run_state (Add ''X'' ''1'' []) s2) in
     fst (run_state (Get ''__ERRORS__'') s3) = Some (fmt_d (ErrorCount (dg s3)))) \<and>
   fst (run_state (Get ''__ERRORS__'') (snd (run_state (Error ''e'' None E_ALL) (asm0\<lparr>dg := diag0\<lparr>defs := RemoveAll (defs diag0)\<rparr>\<rparr>)))) = Some ''1''"
proof -
  define s1 where "s1 = snd (run_state (InitPass (defs diag0)) asm0)"
  define s2 where "s2 = snd (run_state (Error ''e'' None E_ALL) s1)"
  define s3 where "s3 = snd (run_state (Add ''X'' ''1'' []) s2)"
  have r: "a_report (Error ''e'' None E_ALL)" unfolding a_report_def by blast
  have x: "other_name ''X''" by (simp add: other_name_def)
  have "counters_mirrored (dg s1)" using diagnostics_keep_counters_mirrored by (simp add: s1_def)
  then have "counters_mirrored (dg s2)" using diagnostics_keep_counters_mirrored [of "defs diag0" asm0 s1] r by (simp add: s2_def)
  then have "counters_mirrored (dg s3)" using diagnostics_keep_counters_mirrored [of "defs diag0" asm0 s2] x by (simp add: s3_def)
  then have 1: "fst (run_state (Get ''__ERRORS__'') s3) = Some (fmt_d (ErrorCount (dg s3)))"
    using diagnostics_keep_counters_mirrored [of "defs diag0" asm0 s3] by simp
  define u where "u = asm0\<lparr>dg := diag0\<lparr>defs := RemoveAll (defs diag0)\<rparr>\<rparr>"
  define t where "t = snd (run_state (Error ''e'' None E_ALL) u)"
  have "ErrorCount (dg u) = 0" "ErrorCount (dg t) = 1"
    by (simp_all add: u_def t_def Error_def error_upd_def error_skipped_def diag0_def asm0_def)
  then have "fst (run_state (Get ''__ERRORS__'') t) = Some (fmt_d 1)"
    using diagnostics_keep_counters_mirrored [of "defs diag0" asm0 u] r by (auto simp: t_def)
  moreover have "fmt_d 1 = ''1''" by code_simp
  ultimately show ?thesis using 1 by (simp add: Let_def s1_def s2_def s3_def t_def u_def)
qed

end
