(* ===== verification/Spec2Isabelle.thy ===== *)
theory Spec2Isabelle
  imports Sj_Z80_Enc Sj_Z80_Rel Sj_Z80_Fake Sj_Subst_Spec Sj_Source_Spec Sj_Data_Spec Sj_Control_Spec Sj_Repeat_Spec
begin

text \<open>
  \<^bold>\<open>Verification of the core of sjasmplus, a cross assembler for the Z80 family.\<close>

  \<^bold>\<open>The program.\<close> sjasmplus (\<^verbatim>\<open>src/sjasm\<close>, C++) reads a source text three times. For every line it substitutes
  defines and macro arguments, defines the label of the line, and runs a directive or assembles an
  instruction. Operands are expressions over 32 bit integers, labels and the current address. The
  bytes of an instruction go through one function, \<^verbatim>\<open>EmitByte\<close>, into the memory of a virtual device
  (slots of the 16 bit address space, into which pages of a larger memory are mapped) and into the
  output files. Everything communicates through global variables; an error is counted and
  reported, and assembling goes on with a default value.

  \<^bold>\<open>The state and the monad.\<close> \<open>Sj_State\<close> holds the global variables as one record \<open>asm\<close>, grouped by the file that
  owns them (\<open>dg\<close>: io\_err.cpp and the define table its counters are mirrored into; \<open>rel\<close>: relocate.cpp; \<open>labs\<close>:
  tables.cpp; \<open>dv\<close>: devices.cpp; \<open>outp\<close>: sjio.cpp), and the computations as functions of the state monad. A \<^verbatim>\<open>char*&\<close>
  that a parsing function moves is the remaining text, taken and returned; a character beyond the
  end is NUL, as in C. \<^verbatim>\<open>aint\<close> is an \<open>int\<close> kept in the range of 32 bit by \<open>wrap32\<close>, written wherever the code can
  overflow. Memory is a function from offsets to bytes, pointers into it are offsets. Errors are values: messages in
  the state, \<open>None\<close> or the default value the code uses, and \<open>halted\<close> for \<^verbatim>\<open>ExitASM\<close>. The three operations of the host that C++
  leaves undefined (a shift by an amount outside 0..31, the overflowing quotient and remainder) are parameters in \<open>options\<close>.

  \<^bold>\<open>Theories and what they model.\<close>
  \<^item> \<open>Sj_Prelude\<close>: 32 bit arithmetic, C characters and strings, suffixes of texts.
  \<^item> \<open>Sj_State\<close>: the state, the monad.
  \<^item> \<open>Sj_Logic\<close>, \<open>Sj_Hoare\<close>: the proof rules shared by the components: invariants and frames of computations by a locale
    of reflexive transitive relations between states (\<open>io_preorder\<close>), which is interpreted for each relation used (frame,
    only diagnostics, only logs, line pointer kept, error count never lowered), and triples with results.
  \<^item> \<open>Sj_Defines\<close> (tables.cpp): the define table with its 128 bucket lists, against the locale \<open>define_spec\<close>.
  \<^item> \<open>Sj_Diag\<close> (io\_err.cpp): errors and warnings, which are counted, muted, logged, in which pass.
  \<^item> \<open>Sj_Lexer\<close>, \<open>Sj_Numbers\<close>, \<open>Sj_Strings\<close> (reader.cpp): keywords, brackets, commas, identifiers, numeric literals, strings, macro
    arguments, data arguments.
  \<^item> \<open>Sj_Labels\<close> (tables.cpp): label names with modules and local parts, the label table, SIZEOF, temporary labels.
  \<^item> \<open>Sj_Device\<close> (devices.cpp): slots, pages, the predefined devices. \<open>Sj_Reloc\<close> (relocate.cpp): the relocation table.
  \<^item> \<open>Sj_Expr\<close> (parser.cpp): the recursive descent parser of expressions, evaluating as it reads.
  \<^item> \<open>Sj_Hex\<close>, \<open>Sj_Emit\<close> (sjio.cpp, devices.cpp): Intel HEX records, the export of labels, the emission of bytes with page
    checking, the tape block, binary includes.
  \<^item> \<open>Sj_Z80_Reg\<close>, \<open>Sj_Z80_Alu\<close>, \<open>Sj_Z80_Jump\<close>, \<open>Sj_Z80_Ld\<close>, \<open>Sj_Z80\<close> (z80.cpp): operands, registers and conditions, every handler of an
    instruction of the Z80, i8080, LR35902 and Z80N with its fakes, the table of instructions, \<^verbatim>\<open>GetOpCode\<close>.

  \<^item> \<open>Sj_Subst\<close> (parser.cpp, tables.cpp): the substitution of a line with defines, arrays, sub-words and macro arguments.
  \<^item> \<open>Sj_Source\<close> (sjio.cpp): splitting a file into lines, reading lines from a macro, skipping an inactive branch, collecting a block.
  \<^item> \<open>Sj_Data\<close> (directives.cpp): the directives that emit data, move the address, map pages or change the module.
  \<^item> \<open>Sj_Line\<close> (parser.cpp): the label of a line with its value, and the calls a line consists of; what it calls is an argument.
  \<^item> \<open>Sj_Struct\<close>, \<open>Sj_Struct_Def\<close> (tables.cpp, parser.cpp, reader.cpp): structures, their instances and their definition.
  \<^item> \<open>Sj_Macro\<close> (tables.cpp): the definition of macros, their arguments and their emission.
  \<^item> \<open>Sj_Control\<close> (directives.cpp, sjio.cpp): conditional blocks, \<^verbatim>\<open>DUP\<close> and \<^verbatim>\<open>WHILE\<close>. \<open>Sj_Program\<close>: defines, arrays, devices,
    included files, further directives.
  \<^item> \<open>Sj_Main\<close> (directives.cpp, sjasm.cpp): the table of directives, and \<open>assemble\<close>, the three passes over all sources. With it
    the model is executable as a whole: it assembles a source text.
  \<^item> \<open>Sj_Frame\<close>, \<open>Sj_Frame_Z80\<close>: the frame of everything below a line: what no emission, expression, label or instruction touches (the lines to
    come, positions, structures, macros, the pass) or takes back (errors). Its locale \<open>quiet_preorder\<close> lifts these lemmas to every
    weaker relation. \<open>Sj_Context\<close>, \<open>Sj_Context_Prog\<close>: the context of a line, over the locale \<open>line_parser\<close>, the contract between a line and
    the lines it runs, which every \<open>ParseLine_n\<close> fulfils. \<open>Sj_Layout\<close>: the well-formed table of structures.

  \<^bold>\<open>What is shown.\<close>
  \<^item> Expressions: the printed form of an expression tree, with minimal brackets, parses to its 32 bit value (\<open>Sj_Expr_Eval\<close>);
    the parser ends on every text (\<open>Sj_Expr_Term\<close>, where a locale \<open>level_spec\<close> carries the proof from one level of
    precedence to the next).
  \<^item> Instructions: assembling ends on every line (\<open>Sj_Z80_Term\<close>); register names are recognised, and the encoding of 8 bit loads
    is the inverse of a decoder written from the instruction set (\<open>Sj_Z80_Enc\<close>); relative jumps reach their target or report
    (\<open>Sj_Z80_Rel\<close>); the fake instructions for register pairs compute what their name says on a model of the CPU (\<open>Sj_Z80_Fake\<close>).
  \<^item> Emission: a byte is written inside the memory of the device and where the mapping puts its address, in every
    mode (\<open>Sj_Emit_Safe\<close>); the HEX file and the tape block say what was emitted (\<open>Sj_Hex\<close>, \<open>Sj_Emit_Safe\<close>).
    Lists of bytes and blocks (\<open>Sj_Emit_Block\<close>): where all their bytes go, in the memory of a device and in the output files.
  \<^item> Diagnostics: the automaton of a line (\<open>Sj_Diag\<close>); the symbols that mirror the counters, from the start of a pass on (\<open>Sj_Main_Spec\<close>). Reader: round
    trips of numbers, strings and macro arguments. Defines: shadowing.
  \<^item> Lines: substitution replaces the defined words of a line and nothing else (\<open>Sj_Subst_Spec\<close>); plain files are read back line by line, and
    skipping any text or macro body stops at the right keyword behind nested conditionals (\<open>Sj_Source_Spec\<close>, over a locale \<open>line_source\<close>
    that texts and macro bodies interpret); reading, skipping and substituting end on every text (\<open>Sj_Source_Term\<close>, \<open>Sj_Subst\<close>).
  \<^item> Data: the data directives emit the values of their arguments in little-endian order, \<^verbatim>\<open>ALIGN\<close> reaches the next multiple and stores its fill byte in
    between, \<^verbatim>\<open>DISP\<close> and \<^verbatim>\<open>ENT\<close> displace the code between them and store it where the code in front of it ends (\<open>Sj_Data_Spec\<close>).
  \<^item> The whole program (\<open>Sj_Main_Spec\<close>): a line of any kind restores the context it started in, with the lines it runs to any depth; the
    structures are laid out without gaps in every state; errors are never lost, up to the exit status of \<open>assemble\<close>. The other directives of the
    \<open>host\<close> are assumed to keep the contract of a line, too (\<open>well_behaved\<close>, which holds when there are none).
  \<^item> Repeated blocks come to their end, with the line parser of the program itself at any depth: their loop follows a relation without fuel and does at most as
    many rounds as the counter of the block says (\<open>Sj_Repeat_Spec\<close>).
  \<^item> Three defects are proved as theorems: decimal overflow that is not noticed (exactly when, \<open>Sj_Numbers\<close>), an operand lost after \<^verbatim>\<open>high\<close> or \<^verbatim>\<open>low\<close> with
    an 8 bit register (\<open>Sj_Z80_Enc\<close>), and the initial pages of the last two slots of a device of \<^verbatim>\<open>DEFDEVICE\<close> (\<open>Sj_Control_Spec\<close>).

  \<^bold>\<open>Fuel.\<close> Recursion of the code that is not structural has fuel, taken from the length of the text: nested brackets of an
  expression and of a register operand, the rounds of \<open>bin_loop\<close>, of \<open>multi_args\<close> and of the string readers. Each round
  consumes a character (a bracket, an operator, a comma, a line), so the length of the remaining text plus one is enough; the termination
  theorems say that \<open>halted\<close> never becomes \<open>OutOfFuel\<close>. Lines that run other lines (macros, blocks, included files) are nested:
  the fuel of \<open>ParseLine_n\<close> bounds this depth, which the source may make unbounded (a macro that calls itself), where the program exhausts its stack.

  \<^bold>\<open>Not modelled.\<close> The listing, the search for files on the disk (the name and the contents of a file are given by the record \<open>host\<close>), the
  writers of tape, disk and snapshot formats and the directives in front of them, \<^verbatim>\<open>DISPLAY\<close>, \<^verbatim>\<open>EXPORT\<close>, \<^verbatim>\<open>SHELLEXEC\<close>, \<^verbatim>\<open>OPT\<close> and the other directives that are
  pure output or options (they are entries of \<open>other_directives\<close>), Lua scripting and its vendored interpreter, the command line. Texts are
  unbounded: the buffers of LINEMAX characters are modelled where the code tests the limit. Failing writes of files do not occur.
\<close>

end
